(* ===== verification/Prelude.thy ===== *)
theory Prelude
  imports Main "HOL-Library.Word" "HOL-Library.Multiset"
begin

text \<open>
  Shared vocabulary of the development: the machine types of the emulator
  (an x64 Windows build, so \<open>size_t\<close> and host pointers have 64 bits and a guest address
  \<open>VirtPtr\<close> has 32), the error codes of \<open>common.h\<close>, outcomes of calls that may
  \<open>abort()\<close>, little-endian access to the host memory, and the generic lemmas on words and
  lists that the component theories share.  The collection \<open>wsimps\<close> moves facts about
  words to natural numbers.
\<close>

unbundle bit_operations_syntax

section \<open>Machine types\<close>

type_synonym byte = "8 word"
type_synonym u16 = "16 word"
type_synonym u32 = "32 word"
type_synonym VirtPtr = "32 word"
type_synonym size_t = "64 word"
type_synonym RealPtr = "64 word"

text \<open>The implicit widening of a guest address to \<open>size_t\<close> and the cast back.\<close>

definition sz :: "VirtPtr \<Rightarrow> size_t" where
  "sz a = ucast a"

definition vp :: "size_t \<Rightarrow> VirtPtr" where
  "vp s = ucast s"

datatype ErrorCode =
    ERROR_OK
  | ERROR_UC_NOT_INITIALIZED
  | ERROR_UC_MAP
  | ERROR_UC_UNMAP
  | ERROR_MEM_ALREADY_ALLOCATED
  | ERROR_MEM_ALLOC_FAIL
  | ERROR_MEM_STATIC_NOT_FREEABLE
  | ERROR_MEM_ADDR_NOT_ALLOCATED
  | ERROR_LOADER_READER_FAIL
  | ERROR_LOADER_INCORRECT_ATTRIBUTE
  | ERROR_GENERIC

definition PAGE_SIZE :: u32 where
  "PAGE_SIZE = 0x1000"

text \<open>
  The argument block of a system call: the registers as the constructor of
  \<open>SystemServiceArguments\<close> reads them.
\<close>

record SystemServiceArguments =
  r0 :: u32
  r1 :: u32
  r2 :: u32
  r3 :: u32
  r4 :: u32
  sp :: u32

text \<open>A call either returns or ends the process through \<open>abort()\<close>.\<close>

datatype 'a proc = Aborted | Returned 'a

fun proc_bind :: "'a proc \<Rightarrow> ('a \<Rightarrow> 'b proc) \<Rightarrow> 'b proc" where
  "proc_bind Aborted f = Aborted"
| "proc_bind (Returned x) f = f x"

lemma proc_bind_cong [fundef_cong]:
  "m = m' \<Longrightarrow> (\<And>x. m' = Returned x \<Longrightarrow> f x = f' x) \<Longrightarrow> proc_bind m f = proc_bind m' f'"
  by (cases m') auto

lemma proc_bind_Returned [simp]:
  "proc_bind m f = Returned y \<longleftrightarrow> (\<exists>x. m = Returned x \<and> f x = Returned y)"
  by (cases m) auto

text \<open>The states a step relation reaches through states in which \<open>ok\<close> holds.\<close>

inductive runs :: "('s \<Rightarrow> 's \<Rightarrow> bool) \<Rightarrow> ('s \<Rightarrow> bool) \<Rightarrow> 's \<Rightarrow> 's \<Rightarrow> bool"
  for step :: "'s \<Rightarrow> 's \<Rightarrow> bool" and ok :: "'s \<Rightarrow> bool" and s0 :: 's where
  start: "ok s0 \<Longrightarrow> runs step ok s0 s0"
| more: "runs step ok s0 s \<Longrightarrow> step s s' \<Longrightarrow> ok s' \<Longrightarrow> runs step ok s0 s'"

lemma runs_ok: "runs step ok s0 s \<Longrightarrow> ok s"
  by (induction rule: runs.induct)

lemma runs_inv:
  assumes "runs step ok s0 s" "J s0" and "\<And>s s'. step s s' \<Longrightarrow> ok s \<Longrightarrow> J s \<Longrightarrow> J s'"
  shows "J s"
  using assms(1,2) by (induction rule: runs.induct) (auto dest: runs_ok intro: assms(3))

lemma option_eqI: "(\<And>w. a = Some w \<longleftrightarrow> b = Some w) \<Longrightarrow> a = b"
  by (cases a; cases b) auto

section \<open>Words and natural numbers\<close>

named_theorems wsimps

lemma unat_sz [simp, wsimps]: "unat (sz a) = unat a"
  using unsigned_less [of a, where 'a = nat]
  by (simp add: sz_def unsigned_ucast_eq take_bit_nat_eq_self)

lemma unat_vp [wsimps]: "unat (vp s) = unat s mod 2 ^ 32"
  by (simp add: vp_def unsigned_ucast_eq take_bit_eq_mod)

lemma vp_sz [simp]: "vp (sz a) = a"
  using unsigned_less [of a, where 'a = nat] by (simp add: word_unat_eq_iff unat_vp)

lemma unat_vp_small: "unat s < 2 ^ 32 \<Longrightarrow> unat (vp s) = unat s"
  by (simp add: unat_vp)

lemma unat32_lt: "unat (a :: 32 word) < 4294967296"
  using unsigned_less [of a, where 'a = nat] by simp

lemma unat64_lt: "unat (a :: 64 word) < 18446744073709551616"
  using unsigned_less [of a, where 'a = nat] by simp

lemma unat_add_small:
  "unat (a :: 'a::len word) + unat b < 2 ^ LENGTH('a) \<Longrightarrow> unat (a + b) = unat a + unat b"
  by (simp add: unat_add_lem)

lemma unat_add64:
  "unat (a :: 64 word) + unat b < 18446744073709551616 \<Longrightarrow> unat (a + b) = unat a + unat b"
  using unat_add_small [of a b] by simp

lemma unat_add32:
  "unat (a :: 32 word) + unat b < 4294967296 \<Longrightarrow> unat (a + b) = unat a + unat b"
  using unat_add_small [of a b] by simp

lemma unat_sub_le: "b \<le> a \<Longrightarrow> unat (a - b) = unat a - unat (b :: 'a::len word)"
  by (rule unat_sub)

lemma word_lt_unat: "a < b \<longleftrightarrow> unat a < unat (b :: 'a::len word)"
  by (rule word_less_nat_alt)

lemma word_le_unat: "a \<le> b \<longleftrightarrow> unat a \<le> unat (b :: 'a::len word)"
  by (rule word_le_nat_alt)

lemma unat_PAGE_SIZE [simp]: "unat PAGE_SIZE = 4096"
  by (simp add: PAGE_SIZE_def)

text \<open>Rounding up to a multiple of the page size.\<close>

lemma roundup_ge: "(x :: nat) \<le> (x + 4095) div 4096 * 4096"
  using div_mult_mod_eq [of "x + 4095" 4096] mod_less_divisor [of 4096 "x + 4095"] by linarith

lemma roundup_le:
  assumes "4096 * k + x \<le> 4294967296"
  shows "4096 * k + (x + 4095) div 4096 * 4096 \<le> (4294967296 :: nat)"
proof -
  have "(x + 4095) div 4096 \<le> (4096 * (1048576 - k) + 4095) div 4096"
    using assms by (intro div_le_mono) auto
  also have "\<dots> = 1048576 - k" by simp
  finally show ?thesis using assms by simp
qed

lemma sorted_wrt_remove1: "sorted_wrt R xs \<Longrightarrow> sorted_wrt R (remove1 x xs)"
  by (induction xs) (auto dest: in_set_remove1 [THEN iffD1, rotated] notin_set_remove1 set_remove1_subset [THEN subsetD])

section \<open>Host memory\<close>

text \<open>
  The bytes of the host process.  \<open>store_le\<close> writes the \<open>n\<close> low bytes of a value at \<open>p\<close>, least
  significant first, as the x64 store of a \<open>uint32_t\<close> or \<open>uint64_t\<close> does; \<open>load_le\<close> reads them;
  \<open>mem_copy\<close> is \<open>memcpy\<close> of ranges that do not overlap and \<open>mem_fill\<close> is \<open>memset\<close>.
  Distances are taken modulo \<open>2 ^ 64\<close>, as pointer arithmetic does.
\<close>

type_synonym hmemory = "RealPtr \<Rightarrow> byte"

definition store_le :: "nat \<Rightarrow> hmemory \<Rightarrow> RealPtr \<Rightarrow> 64 word \<Rightarrow> hmemory" where
  "store_le n h p v =
     (\<lambda>q. if unat (q - p) < n then ucast (drop_bit (8 * unat (q - p)) v) else h q)"

fun load_le :: "nat \<Rightarrow> hmemory \<Rightarrow> RealPtr \<Rightarrow> 64 word" where
  "load_le 0 h p = 0"
| "load_le (Suc n) h p = ucast (h p) OR push_bit 8 (load_le n h (p + 1))"

definition mem_copy :: "hmemory \<Rightarrow> RealPtr \<Rightarrow> RealPtr \<Rightarrow> size_t \<Rightarrow> hmemory" where
  "mem_copy h dst src n = (\<lambda>q. if q - dst < n then h (src + (q - dst)) else h q)"

definition mem_fill :: "hmemory \<Rightarrow> RealPtr \<Rightarrow> size_t \<Rightarrow> byte \<Rightarrow> hmemory" where
  "mem_fill h p n b = (\<lambda>q. if q - p < n then b else h q)"

fun store_bytes :: "hmemory \<Rightarrow> RealPtr \<Rightarrow> byte list \<Rightarrow> hmemory" where
  "store_bytes h p [] = h"
| "store_bytes h p (b # bs) = store_bytes (h(p := b)) (p + 1) bs"

lemma load_le_bits:
  assumes "\<And>i. i < n \<Longrightarrow> h (p + of_nat i) = ucast (drop_bit (8 * (k + i)) v)"
  shows "load_le n h p = take_bit (8 * n) (drop_bit (8 * k) v)"
  using assms
proof (induction n arbitrary: p k)
  case 0
  then show ?case by simp
next
  case (Suc n)
  have "load_le n h (p + 1) = take_bit (8 * n) (drop_bit (8 * Suc k) v)"
  proof (rule Suc.IH)
    fix i assume "i < n"
    then show "h (p + 1 + of_nat i) = ucast (drop_bit (8 * (Suc k + i)) v)"
      using Suc.prems [of "Suc i"] by (simp add: ac_simps)
  qed
  moreover have "h p = ucast (drop_bit (8 * k) v)" using Suc.prems [of 0] by simp
  ultimately show ?case
    by (auto intro!: bit_word_eqI
        simp: bit_simps not_less add_ac le_add_diff_inverse less_diff_conv)
qed

lemma load_store_le:
  assumes "n \<le> 8"
  shows "load_le n (store_le n h p v) p = take_bit (8 * n) v"
proof -
  have "store_le n h p v (p + of_nat i) = ucast (drop_bit (8 * (0 + i)) v)" if "i < n" for i
    using that assms by (simp add: store_le_def unat_of_nat)
  from load_le_bits [of n "store_le n h p v" p 0 v, OF this] show ?thesis by simp
qed

lemma load_store_cookie: "load_le 8 (store_le 8 h p v) p = v"
  using load_store_le [of 8 h p v] by (simp add: take_bit_word_eq_self)

lemma load_le_cong:
  assumes "\<And>i. i < n \<Longrightarrow> h (p + of_nat i) = h' (p + of_nat i)"
  shows "load_le n h p = load_le n h' p"
  using assms
proof (induction n arbitrary: p)
  case 0
  then show ?case by simp
next
  case (Suc n)
  have "load_le n h (p + 1) = load_le n h' (p + 1)"
  proof (rule Suc.IH)
    fix i assume "i < n"
    then show "h (p + 1 + of_nat i) = h' (p + 1 + of_nat i)"
      using Suc.prems [of "Suc i"] by (simp add: ac_simps)
  qed
  then show ?case using Suc.prems [of 0] by simp
qed

text \<open>A write outside a range, given by natural bounds, does not change a read inside it.\<close>

lemma unat_add_of_nat:
  "unat (p :: 64 word) + i < 18446744073709551616 \<Longrightarrow> unat (p + of_nat i) = unat p + i"
  by (subst unat_add64) (auto simp: unat_of_nat)

lemma dist_outside:
  assumes "unat (q :: 64 word) < unat p \<or> unat p + n \<le> unat q"
    and "unat p + n \<le> 18446744073709551616"
  shows "n \<le> unat (q - p)"
proof (cases "p \<le> q")
  case True
  then show ?thesis using assms by (simp add: unat_sub_le word_le_unat)
next
  case False
  then have lt: "unat q < unat p" by (simp add: word_le_unat)
  have "unat (q - p) = 18446744073709551616 + unat q - unat p"
    using lt unat_sub_if_size [of q p] by (simp add: word_size)
  then show ?thesis using assms lt by linarith
qed

lemma load_store_disjoint:
  assumes "unat p + n \<le> unat q \<or> unat q + k \<le> unat p"
    and "unat p + n \<le> 18446744073709551616" "unat q + k \<le> 18446744073709551616"
  shows "load_le n (store_le k h q v) p = load_le n h p"
proof (rule load_le_cong)
  fix i assume "i < n"
  then have "unat (p + of_nat i) = unat p + i"
    using assms(2) by (intro unat_add_of_nat) simp
  then have "k \<le> unat (p + of_nat i - q)"
    using assms \<open>i < n\<close> by (intro dist_outside) auto
  then show "store_le k h q v (p + of_nat i) = h (p + of_nat i)"
    by (simp add: store_le_def)
qed

lemma load_copy_disjoint:
  assumes "unat p + n \<le> unat dst \<or> unat dst + unat k \<le> unat p"
    and "unat p + n \<le> 18446744073709551616" "unat dst + unat k \<le> 18446744073709551616"
  shows "load_le n (mem_copy h dst src k) p = load_le n h p"
proof (rule load_le_cong)
  fix i assume "i < n"
  then have "unat (p + of_nat i) = unat p + i"
    using assms(2) by (intro unat_add_of_nat) simp
  then have "unat k \<le> unat (p + of_nat i - dst)"
    using assms \<open>i < n\<close> by (intro dist_outside) auto
  then show "mem_copy h dst src k (p + of_nat i) = h (p + of_nat i)"
    by (simp add: mem_copy_def word_lt_unat)
qed

text \<open>The bytes of a word and of a half word.\<close>

lemma load_word_bytes:
  "load_le 4 h p = ucast (h p) OR push_bit 8 (ucast (h (p + 1)) OR push_bit 8 (ucast (h (p + 2))
    OR push_bit 8 (ucast (h (p + 3)))))"
  "load_le 2 h p = ucast (h p) OR push_bit 8 (ucast (h (p + 1)))"
  by (simp_all add: eval_nat_numeral add.assoc)

end
