(* ===== verification/Threads.thy ===== *)
theory Threads
  imports Prelude
begin

text \<open>
  Guest threads and their synchronisation objects (PrimU/Thread.h, Thread.cpp, the structures of
  PrimU/ThreadHandler.h).  Pointers to threads, critical sections and events are natural numbers;
  the stores map every pointer, allocated or not, to a record.  Which pointer a new section or event gets,
  and what becomes of a pointer to a destroyed one, is the subject of Scheduler.  Threads are numbered in
  the order of their creation and never destroyed while the emulator runs; a thread's id is its pointer, because the constructor
  takes ids from one counter.  Readings of the clock are arguments, in nanoseconds.  Counters that
  the code keeps in an \<open>int\<close> are integers here.
\<close>

section \<open>Records\<close>

record CriticalSection =
  isLocked :: u32
  ownerHandle :: int
  recursionCount :: int
  cwaiters :: "nat list"
  ccontentionCount :: int

record Event =
  manualReset :: bool
  signaled :: bool
  ewaiters :: "nat list"
  econtentionCount :: int

record Thread =
  priority :: "8 word"
  tid :: int
  stackSize :: size_t
  stackAddr :: VirtPtr
  nextThread :: nat
  requested :: "nat option"
  ownedCriticalSections :: "nat \<rightharpoonup> int"
  waitingEvent :: "nat option"
  waitTimeoutEnd :: int
  waitingInfinite :: bool
  suspendCount :: int
  isSuspended :: bool
  sleepEnd :: int
  isSleeping :: bool

record sync =
  thr :: "nat \<Rightarrow> Thread"
  css :: "nat \<Rightarrow> CriticalSection"
  evs :: "nat \<Rightarrow> Event"

text \<open>\<open>time_point::max()\<close> of the clock, and a number of milliseconds.\<close>

definition time_max :: int where
  "time_max = 9223372036854775807"

definition millis :: "int \<Rightarrow> int" where
  "millis n = n * 1000000"

definition CriticalSection_new :: CriticalSection where
  "CriticalSection_new =
     \<lparr>isLocked = 0, ownerHandle = -1, recursionCount = 0, cwaiters = [], ccontentionCount = 0\<rparr>"

definition Event_new :: "bool \<Rightarrow> bool \<Rightarrow> Event" where
  "Event_new manual initial =
     \<lparr>manualReset = manual, signaled = initial, ewaiters = [], econtentionCount = 0\<rparr>"

definition GetTimeQuantum :: "Thread \<Rightarrow> u32" where
  "GetTimeQuantum t = (if tid t = 0 then 4000 else 400 - ucast (priority t))"

text \<open>Updates of one object in its store.\<close>

abbreviation upd_thr :: "nat \<Rightarrow> (Thread \<Rightarrow> Thread) \<Rightarrow> sync \<Rightarrow> sync" where
  "upd_thr t f s \<equiv> s\<lparr>thr := (thr s)(t := f (thr s t))\<rparr>"

abbreviation upd_cs :: "nat \<Rightarrow> (CriticalSection \<Rightarrow> CriticalSection) \<Rightarrow> sync \<Rightarrow> sync" where
  "upd_cs c f s \<equiv> s\<lparr>css := (css s)(c := f (css s c))\<rparr>"

abbreviation upd_ev :: "nat \<Rightarrow> (Event \<Rightarrow> Event) \<Rightarrow> sync \<Rightarrow> sync" where
  "upd_ev e f s \<equiv> s\<lparr>evs := (evs s)(e := f (evs s e))\<rparr>"

section \<open>Critical sections\<close>

definition EnterCriticalSection :: "nat \<Rightarrow> nat option \<Rightarrow> sync \<Rightarrow> sync" where
  "EnterCriticalSection this criticalSection s =
     (case criticalSection of None \<Rightarrow> s | Some c \<Rightarrow>
        let cs = css s c; me = tid (thr s this) in
        if ownerHandle cs = me then
          upd_thr this
            (\<lambda>t. t\<lparr>ownedCriticalSections := (ownedCriticalSections t)(c \<mapsto>
               (case ownedCriticalSections t c of Some k \<Rightarrow> k | None \<Rightarrow> 0) + 1)\<rparr>)
            (upd_cs c (\<lambda>cs. cs\<lparr>recursionCount := recursionCount cs + 1\<rparr>) s)
        else if ownerHandle cs = -1 \<and> cwaiters cs = [] then
          upd_thr this
            (\<lambda>t. t\<lparr>ownedCriticalSections := (ownedCriticalSections t)(c \<mapsto> 1)\<rparr>)
            (upd_cs c (\<lambda>cs. cs\<lparr>ownerHandle := me, recursionCount := 1\<rparr>) s)
        else if requested (thr s this) = Some c then s
        else
          upd_thr this (\<lambda>t. t\<lparr>requested := Some c\<rparr>)
            (upd_cs c (\<lambda>cs. cs\<lparr>cwaiters := cwaiters cs @ [this],
                              ccontentionCount := ccontentionCount cs + 1\<rparr>) s))"

text \<open>The last leave hands the section to the first waiter, or frees it.\<close>

definition pass_on :: "nat \<Rightarrow> sync \<Rightarrow> sync" where
  "pass_on c s =
     (case cwaiters (css s c) of
        [] \<Rightarrow> upd_cs c (\<lambda>cs. cs\<lparr>ownerHandle := -1, recursionCount := 0\<rparr>) s
      | next # ws \<Rightarrow>
          upd_thr next
            (\<lambda>t. t\<lparr>requested := None,
                  ownedCriticalSections := (ownedCriticalSections t)(c \<mapsto> 1)\<rparr>)
            (upd_cs c (\<lambda>cs. cs\<lparr>cwaiters := ws,
                 ccontentionCount := (if ccontentionCount cs > 0 then ccontentionCount cs - 1
                                      else ccontentionCount cs),
                 ownerHandle := tid (thr s next), recursionCount := 1\<rparr>) s))"

definition LeaveCriticalSection :: "nat \<Rightarrow> nat option \<Rightarrow> sync \<Rightarrow> sync" where
  "LeaveCriticalSection this criticalSection s =
     (case criticalSection of None \<Rightarrow> s | Some c \<Rightarrow>
        (case ownedCriticalSections (thr s this) c of
           None \<Rightarrow> s
         | Some k \<Rightarrow>
             let threadCount = k - 1;
                 s1 = upd_cs c (\<lambda>cs. if recursionCount cs > 0
                        then cs\<lparr>recursionCount := recursionCount cs - 1\<rparr> else cs) s
             in if threadCount = 0 then
                  pass_on c (upd_thr this (\<lambda>t. t\<lparr>ownedCriticalSections :=
                    (ownedCriticalSections t)(c := None)\<rparr>) s1)
                else upd_thr this (\<lambda>t. t\<lparr>ownedCriticalSections :=
                    (ownedCriticalSections t)(c \<mapsto> threadCount)\<rparr>) s1))"

section \<open>Events\<close>

definition clear_wait :: "Thread \<Rightarrow> Thread" where
  "clear_wait t = t\<lparr>waitingEvent := None, waitingInfinite := False\<rparr>"

definition pop_waiter :: "nat list \<Rightarrow> Event \<Rightarrow> Event" where
  "pop_waiter ws ev =
     ev\<lparr>ewaiters := ws, econtentionCount := (if econtentionCount ev > 0
          then econtentionCount ev - 1 else econtentionCount ev)\<rparr>"

text \<open>The loop that empties the queue of a manual-reset event.\<close>

fun release_all :: "nat \<Rightarrow> nat list \<Rightarrow> sync \<Rightarrow> sync" where
  "release_all e [] s = s"
| "release_all e (t # ws) s = release_all e ws (upd_thr t clear_wait (upd_ev e (pop_waiter ws) s))"

definition SetEvent :: "nat option \<Rightarrow> sync \<Rightarrow> sync" where
  "SetEvent ev s =
     (case ev of None \<Rightarrow> s | Some e \<Rightarrow>
        if manualReset (evs s e) then
          release_all e (ewaiters (evs s e)) (upd_ev e (\<lambda>ev. ev\<lparr>signaled := True\<rparr>) s)
        else
          (case ewaiters (evs s e) of
             t # ws \<Rightarrow> upd_thr t clear_wait (upd_ev e (\<lambda>ev. (pop_waiter ws ev)\<lparr>signaled := False\<rparr>) s)
           | [] \<Rightarrow> upd_ev e (\<lambda>ev. ev\<lparr>signaled := True\<rparr>) s))"

definition ResetEvent :: "nat option \<Rightarrow> sync \<Rightarrow> sync" where
  "ResetEvent ev s =
     (case ev of None \<Rightarrow> s | Some e \<Rightarrow> upd_ev e (\<lambda>ev. ev\<lparr>signaled := False\<rparr>) s)"

definition WaitForEvent :: "nat \<Rightarrow> nat option \<Rightarrow> int \<Rightarrow> int \<Rightarrow> sync \<Rightarrow> sync" where
  "WaitForEvent this ev timeoutMillis now s =
     (case ev of None \<Rightarrow> s | Some e \<Rightarrow>
        if signaled (evs s e) then
          (if \<not> manualReset (evs s e) then upd_ev e (\<lambda>ev. ev\<lparr>signaled := False\<rparr>) s else s)
        else if timeoutMillis = 0 then s
        else if waitingEvent (thr s this) = Some e then s
        else
          upd_thr this
            (\<lambda>t. t\<lparr>waitingEvent := Some e, waitingInfinite := timeoutMillis < 0,
                  waitTimeoutEnd := (if \<not> timeoutMillis < 0 then now + millis timeoutMillis
                                     else time_max)\<rparr>)
            (upd_ev e (\<lambda>ev. ev\<lparr>ewaiters := ewaiters ev @ [this],
                              econtentionCount := econtentionCount ev + 1\<rparr>) s))"

text \<open>\<open>remove_from_event_waiters\<close>: the first occurrence, if there is one.\<close>

definition remove_from_event_waiters :: "nat \<Rightarrow> nat \<Rightarrow> sync \<Rightarrow> sync" where
  "remove_from_event_waiters e t s =
     (if t \<in> set (ewaiters (evs s e))
      then upd_ev e (\<lambda>ev. pop_waiter (remove1 t (ewaiters ev)) ev) s else s)"

section \<open>Suspension, sleep, and whether a thread can run\<close>

definition Suspend :: "nat \<Rightarrow> sync \<Rightarrow> sync" where
  "Suspend this s = upd_thr this (\<lambda>t. t\<lparr>suspendCount := suspendCount t + 1, isSuspended := True\<rparr>) s"

definition Resume :: "nat \<Rightarrow> sync \<Rightarrow> sync" where
  "Resume this s = upd_thr this (\<lambda>t.
     let n = (if suspendCount t > 0 then suspendCount t - 1 else suspendCount t)
     in t\<lparr>suspendCount := n, isSuspended := (if n = 0 then False else isSuspended t)\<rparr>) s"

definition Sleep :: "nat \<Rightarrow> u32 \<Rightarrow> int \<Rightarrow> sync \<Rightarrow> sync" where
  "Sleep this time now s =
     upd_thr this (\<lambda>t. t\<lparr>isSleeping := True, sleepEnd := now + millis (uint time)\<rparr>) s"

definition SetPriority :: "nat \<Rightarrow> 8 word \<Rightarrow> sync \<Rightarrow> sync" where
  "SetPriority this p s = upd_thr this (\<lambda>t. t\<lparr>priority := p\<rparr>) s"

text \<open>
  \<open>CanRun\<close> after the test for sleep: the wait for a critical section, then the wait for an event.
  \<open>now\<close> is the reading the timeout is compared with.
\<close>

definition CanRun_waits :: "nat \<Rightarrow> int \<Rightarrow> sync \<Rightarrow> bool \<times> sync" where
  "CanRun_waits this now s =
     (case requested (thr s this) of
        Some c \<Rightarrow>
          if ownerHandle (css s c) = tid (thr s this) then
            (True, upd_thr this
               (\<lambda>t. t\<lparr>ownedCriticalSections :=
                       (if ownedCriticalSections t c = None
                        then (ownedCriticalSections t)(c \<mapsto> 1) else ownedCriticalSections t),
                     requested := None\<rparr>) s)
          else (False, s)
      | None \<Rightarrow>
          (case waitingEvent (thr s this) of
             Some e \<Rightarrow>
               if signaled (evs s e) then
                 (if \<not> manualReset (evs s e)
                  then (True, upd_thr this clear_wait (upd_ev e (\<lambda>ev. ev\<lparr>signaled := False\<rparr>)
                                (remove_from_event_waiters e this s)))
                  else (True, upd_thr this clear_wait (remove_from_event_waiters e this s)))
               else if \<not> waitingInfinite (thr s this) \<and> now \<ge> waitTimeoutEnd (thr s this)
                 then (True, upd_thr this clear_wait (remove_from_event_waiters e this s))
               else (False, s)
           | None \<Rightarrow> (True, s)))"

definition CanRun :: "nat \<Rightarrow> int \<Rightarrow> int \<Rightarrow> sync \<Rightarrow> bool \<times> sync" where
  "CanRun this now1 now2 s =
     (if isSuspended (thr s this) then (False, s)
      else if isSleeping (thr s this) then
        (if sleepEnd (thr s this) > now1 then (False, s)
         else CanRun_waits this now2 (upd_thr this (\<lambda>t. t\<lparr>isSleeping := False\<rparr>) s))
      else CanRun_waits this now2 s)"

end
