(* ===== verification/ThreadInv.thy ===== *)
theory ThreadInv
  imports Threads
begin

text \<open>
  The invariant of critical sections and events, and that every operation of a thread keeps it:
  a section has at most one owner, whose own record agrees with the section's recursion count; the
  waiters of a section or an event are exactly the threads whose records say they wait for it, each
  once, and the contention count is their number; a signaled event has no waiters.
\<close>

section \<open>The invariant\<close>

definition owned_by :: "sync \<Rightarrow> nat \<Rightarrow> nat \<Rightarrow> bool" where
  "owned_by s c t \<longleftrightarrow> ownedCriticalSections (thr s t) c \<noteq> None"

definition free_section :: "sync \<Rightarrow> nat \<Rightarrow> bool" where
  "free_section s c \<longleftrightarrow> ownerHandle (css s c) = -1 \<and> cwaiters (css s c) = []
     \<and> recursionCount (css s c) = 0 \<and> (\<forall>t. ownedCriticalSections (thr s t) c = None)"

definition held_section :: "sync \<Rightarrow> nat \<Rightarrow> nat \<Rightarrow> bool" where
  "held_section s c u \<longleftrightarrow> ownerHandle (css s c) = int u \<and> u \<notin> set (cwaiters (css s c))
     \<and> recursionCount (css s c) \<ge> 1
     \<and> ownedCriticalSections (thr s u) c = Some (recursionCount (css s c))
     \<and> (\<forall>t. t \<noteq> u \<longrightarrow> ownedCriticalSections (thr s t) c = None)"

definition cs_queue :: "sync \<Rightarrow> nat \<Rightarrow> bool" where
  "cs_queue s c \<longleftrightarrow> distinct (cwaiters (css s c))
     \<and> ccontentionCount (css s c) = int (length (cwaiters (css s c)))
     \<and> (\<forall>t. requested (thr s t) = Some c \<longleftrightarrow> t \<in> set (cwaiters (css s c)))"

definition ev_ok :: "sync \<Rightarrow> nat \<Rightarrow> bool" where
  "ev_ok s e \<longleftrightarrow> distinct (ewaiters (evs s e))
     \<and> econtentionCount (evs s e) = int (length (ewaiters (evs s e)))
     \<and> (\<forall>t. waitingEvent (thr s t) = Some e \<longleftrightarrow> t \<in> set (ewaiters (evs s e)))
     \<and> (signaled (evs s e) \<longrightarrow> ewaiters (evs s e) = [])"

definition sync_inv :: "sync \<Rightarrow> bool" where
  "sync_inv s \<longleftrightarrow> (\<forall>t. tid (thr s t) = int t)
     \<and> (\<forall>c. cs_queue s c \<and> (free_section s c \<or> (\<exists>u. held_section s c u)))
     \<and> (\<forall>e. ev_ok s e)"

lemma sync_invI:
  assumes "\<And>t. tid (thr s t) = int t" "\<And>c. cs_queue s c"
    and "\<And>c. free_section s c \<or> (\<exists>u. held_section s c u)" "\<And>e. ev_ok s e"
  shows "sync_inv s"
  using assms by (simp add: sync_inv_def)

lemma sync_invD:
  assumes "sync_inv s"
  shows "tid (thr s t) = int t" "cs_queue s c" "free_section s c \<or> (\<exists>u. held_section s c u)" "ev_ok s e"
  using assms by (simp_all add: sync_inv_def)

lemmas section_defs = free_section_def held_section_def

text \<open>Who owns a section, seen from either side.\<close>

lemma owner_held:
  assumes "sync_inv s" "ownerHandle (css s c) = int t"
  shows "held_section s c t"
  using sync_invD(3) [OF assms(1), of c] assms(2) by (auto simp: section_defs)

lemma owned_held:
  assumes "sync_inv s" "ownedCriticalSections (thr s t) c = Some k"
  shows "held_section s c t" "k = recursionCount (css s c)" "1 \<le> k"
proof -
  from sync_invD(3) [OF assms(1), of c] obtain u where u: "held_section s c u"
    using assms(2) by (auto simp: free_section_def)
  have "u = t" using u assms(2) by (auto simp: held_section_def)
  with u show "held_section s c t" by simp
  with assms(2) show "k = recursionCount (css s c)" "1 \<le> k" by (auto simp: held_section_def)
qed

lemma unowned_free:
  assumes "sync_inv s" "ownerHandle (css s c) = -1"
  shows "free_section s c"
  using sync_invD(3) [OF assms(1), of c] assms(2) by (auto simp: section_defs)

text \<open>Changing one section \<open>c\<close> and threads only in what they record about \<open>c\<close>.\<close>

definition same_for_section :: "sync \<Rightarrow> sync \<Rightarrow> nat \<Rightarrow> bool" where
  "same_for_section s s' d \<longleftrightarrow> css s' d = css s d
     \<and> (\<forall>t. ownedCriticalSections (thr s' t) d = ownedCriticalSections (thr s t) d
          \<and> (requested (thr s' t) = Some d \<longleftrightarrow> requested (thr s t) = Some d))"

lemma same_for_section:
  assumes "same_for_section s s' d"
  shows "cs_queue s' d = cs_queue s d" "free_section s' d = free_section s d"
    "held_section s' d u = held_section s d u"
  using assms by (simp_all add: same_for_section_def cs_queue_def section_defs)

lemma ev_ok_same:
  assumes "evs s' e = evs s e" "\<And>t. waitingEvent (thr s' t) = Some e \<longleftrightarrow> waitingEvent (thr s t) = Some e"
  shows "ev_ok s' e = ev_ok s e"
  using assms by (simp add: ev_ok_def)

lemma sync_inv_section:
  assumes inv: "sync_inv s" and "\<And>t. tid (thr s' t) = tid (thr s t)"
    and "\<And>d. d \<noteq> c \<Longrightarrow> same_for_section s s' d"
    and "evs s' = evs s" "\<And>t. waitingEvent (thr s' t) = waitingEvent (thr s t)"
    and "cs_queue s' c" "free_section s' c \<or> (\<exists>u. held_section s' c u)"
  shows "sync_inv s'"
proof (rule sync_invI)
  show "tid (thr s' t) = int t" for t using assms(2) sync_invD(1) [OF inv] by simp
  show "cs_queue s' d" for d
    using assms(6) sync_invD(2) [OF inv] same_for_section(1) [OF assms(3)] by (cases "d = c") blast+
  show "free_section s' d \<or> (\<exists>u. held_section s' d u)" for d
    using assms(7) sync_invD(3) [OF inv, of d] same_for_section(2,3) [OF assms(3)]
    by (cases "d = c") blast+
  show "ev_ok s' e" for e using sync_invD(4) [OF inv] assms(4,5) by (simp add: ev_ok_def)
qed

lemma sync_inv_event:
  assumes inv: "sync_inv s" and "\<And>t. tid (thr s' t) = tid (thr s t)"
    and "\<And>t. requested (thr s' t) = requested (thr s t)"
    and "\<And>t. ownedCriticalSections (thr s' t) = ownedCriticalSections (thr s t)"
    and "css s' = css s" "\<And>d. d \<noteq> e \<Longrightarrow> evs s' d = evs s d"
    and "\<And>t d. d \<noteq> e \<Longrightarrow> waitingEvent (thr s' t) = Some d \<longleftrightarrow> waitingEvent (thr s t) = Some d"
    and "ev_ok s' e"
  shows "sync_inv s'"
proof (rule sync_invI)
  have same: "same_for_section s s' d" for d using assms(3-5) by (simp add: same_for_section_def)
  show "tid (thr s' t) = int t" for t using assms(2) sync_invD(1) [OF inv] by simp
  show "cs_queue s' d" for d using sync_invD(2) [OF inv] same_for_section(1) [OF same] by blast
  show "free_section s' d \<or> (\<exists>u. held_section s' d u)" for d
    using sync_invD(3) [OF inv] same_for_section(2,3) [OF same] by blast
  show "ev_ok s' d" for d
    using assms(6-8) sync_invD(4) [OF inv] ev_ok_same [of s' d s] by (cases "d = e") auto
qed

text \<open>Changes the invariant does not see.\<close>

lemma sync_inv_upd_thr:
  assumes "sync_inv s" "tid (f (thr s t)) = tid (thr s t)" "requested (f (thr s t)) = requested (thr s t)"
    "ownedCriticalSections (f (thr s t)) = ownedCriticalSections (thr s t)"
    "waitingEvent (f (thr s t)) = waitingEvent (thr s t)"
  shows "sync_inv (upd_thr t f s)"
  by (rule sync_inv_event [OF assms(1), where e = 0])
    (use assms sync_invD(4) [OF assms(1), of 0] in \<open>auto simp: ev_ok_def\<close>)

section \<open>Critical sections\<close>

lemma Enter_inv:
  assumes inv: "sync_inv s" and idle: "requested (thr s me) = None"
  shows "sync_inv (EnterCriticalSection me cs s)"
proof (cases cs)
  case None
  with inv show ?thesis by (simp add: EnterCriticalSection_def)
next
  case (Some c)
  note D = sync_invD [OF inv]
  have Q: "cs_queue s c" by (rule D(2))
  show ?thesis
  proof (cases "ownerHandle (css s c) = int me")
    case True
    then have h: "held_section s c me" by (rule owner_held [OF inv])
    let ?s = "EnterCriticalSection me cs s"
    have e: "?s = upd_thr me (\<lambda>t. t\<lparr>ownedCriticalSections := (ownedCriticalSections t)(c \<mapsto>
        recursionCount (css s c) + 1)\<rparr>) (upd_cs c (\<lambda>cs. cs\<lparr>recursionCount := recursionCount cs + 1\<rparr>) s)"
      using True h by (simp add: EnterCriticalSection_def Some D(1) held_section_def Let_def)
    have "held_section ?s c me" using h unfolding e by (simp add: held_section_def)
    moreover have "cs_queue ?s c" using Q unfolding e by (auto simp: cs_queue_def)
    ultimately show ?thesis
      by (intro sync_inv_section [OF inv, where c = c]) (auto simp: e same_for_section_def)
  next
    case no: False
    show ?thesis
    proof (cases "ownerHandle (css s c) = -1 \<and> cwaiters (css s c) = []")
      case True
      let ?s = "EnterCriticalSection me cs s"
      have e: "?s = upd_thr me (\<lambda>t. t\<lparr>ownedCriticalSections := (ownedCriticalSections t)(c \<mapsto> 1)\<rparr>)
          (upd_cs c (\<lambda>cs. cs\<lparr>ownerHandle := int me, recursionCount := 1\<rparr>) s)"
        using True no by (simp add: EnterCriticalSection_def Some D(1) Let_def)
      have "free_section s c" using True unowned_free [OF inv] by simp
      then have "held_section ?s c me" unfolding e by (simp add: section_defs)
      moreover have "cs_queue ?s c" using Q unfolding e by (auto simp: cs_queue_def)
      ultimately show ?thesis
        by (intro sync_inv_section [OF inv, where c = c]) (auto simp: e same_for_section_def)
    next
      case False
      let ?s = "EnterCriticalSection me cs s"
      have e: "?s = upd_thr me (\<lambda>t. t\<lparr>requested := Some c\<rparr>)
            (upd_cs c (\<lambda>cs. cs\<lparr>cwaiters := cwaiters cs @ [me],
                              ccontentionCount := ccontentionCount cs + 1\<rparr>) s)"
        using False no idle by (auto simp: EnterCriticalSection_def Some D(1) Let_def)
      have "\<not> free_section s c" using False by (auto simp: free_section_def)
      with D(3) [of c] obtain u where u: "held_section s c u" by blast
      have "u \<noteq> me" using u no by (auto simp: held_section_def)
      then have "held_section ?s c u" using u unfolding e by (simp add: held_section_def)
      moreover have "me \<notin> set (cwaiters (css s c))"
      proof -
        have "requested (thr s me) = Some c \<longleftrightarrow> me \<in> set (cwaiters (css s c))"
          using Q by (simp add: cs_queue_def)
        with idle show ?thesis by simp
      qed
      then have "cs_queue ?s c" using Q unfolding e by (simp add: cs_queue_def)
      ultimately show ?thesis
        using idle by (intro sync_inv_section [OF inv, where c = c]) (auto simp: e same_for_section_def)
    qed
  qed
qed

text \<open>A leave by the owner, in its three cases.\<close>

lemma Leave_nested:
  assumes inv: "sync_inv s" and k: "ownedCriticalSections (thr s me) c = Some k" "k \<noteq> 1"
  shows "LeaveCriticalSection me (Some c) s
    = upd_thr me (\<lambda>t. t\<lparr>ownedCriticalSections := (ownedCriticalSections t)(c \<mapsto> k - 1)\<rparr>)
        (upd_cs c (\<lambda>cs. cs\<lparr>recursionCount := k - 1\<rparr>) s)"
  using owned_held [OF inv k(1)] k by (simp add: LeaveCriticalSection_def Let_def)

lemma Leave_free:
  assumes inv: "sync_inv s" and k: "ownedCriticalSections (thr s me) c = Some 1"
    and w: "cwaiters (css s c) = []"
  shows "LeaveCriticalSection me (Some c) s
    = upd_thr me (\<lambda>t. t\<lparr>ownedCriticalSections := (ownedCriticalSections t)(c := None)\<rparr>)
        (upd_cs c (\<lambda>cs. cs\<lparr>ownerHandle := -1, recursionCount := 0\<rparr>) s)"
  using owned_held [OF inv k] k w by (simp add: LeaveCriticalSection_def Let_def pass_on_def)

lemma Leave_pass:
  assumes inv: "sync_inv s" and k: "ownedCriticalSections (thr s me) c = Some 1"
    and w: "cwaiters (css s c) = nx # ws"
  shows "LeaveCriticalSection me (Some c) s
    = upd_thr nx (\<lambda>t. t\<lparr>requested := None, ownedCriticalSections := (ownedCriticalSections t)(c \<mapsto> 1)\<rparr>)
      (upd_thr me (\<lambda>t. t\<lparr>ownedCriticalSections := (ownedCriticalSections t)(c := None)\<rparr>)
        (upd_cs c (\<lambda>cs. cs\<lparr>cwaiters := ws, ccontentionCount := int (length ws),
            ownerHandle := int nx, recursionCount := 1\<rparr>) s))"
    and "nx \<noteq> me"
proof -
  note h = owned_held [OF inv k]
  show n: "nx \<noteq> me" using h(1) w by (auto simp: held_section_def)
  have "ccontentionCount (css s c) = int (length (nx # ws))"
    using sync_invD(2) [OF inv, of c] w by (simp add: cs_queue_def)
  then show "LeaveCriticalSection me (Some c) s
    = upd_thr nx (\<lambda>t. t\<lparr>requested := None, ownedCriticalSections := (ownedCriticalSections t)(c \<mapsto> 1)\<rparr>)
      (upd_thr me (\<lambda>t. t\<lparr>ownedCriticalSections := (ownedCriticalSections t)(c := None)\<rparr>)
        (upd_cs c (\<lambda>cs. cs\<lparr>cwaiters := ws, ccontentionCount := int (length ws),
            ownerHandle := int nx, recursionCount := 1\<rparr>) s))"
    using h k w n sync_invD(1) [OF inv, of nx]
    by (simp add: LeaveCriticalSection_def Let_def pass_on_def)
qed

lemma Leave_inv:
  assumes inv: "sync_inv s"
  shows "sync_inv (LeaveCriticalSection me cs s)"
proof (cases cs)
  case None
  with inv show ?thesis by (simp add: LeaveCriticalSection_def)
next
  case (Some c)
  note D = sync_invD [OF inv]
  have Q: "cs_queue s c" by (rule D(2))
  let ?s = "LeaveCriticalSection me (Some c) s"
  show ?thesis
  proof (cases "ownedCriticalSections (thr s me) c")
    case None
    with inv Some show ?thesis by (simp add: LeaveCriticalSection_def)
  next
    case k: (Some k)
    note h = owned_held [OF inv k]
    consider (nested) "k \<noteq> 1" | (free) "k = 1" "cwaiters (css s c) = []"
      | (pass) nx ws where "k = 1" "cwaiters (css s c) = nx # ws"
      by (cases "cwaiters (css s c)") auto
    then have "sync_inv ?s"
    proof cases
      case nested
      note e = Leave_nested [OF inv k nested]
      have "held_section ?s c me" using h nested unfolding e by (auto simp: held_section_def)
      moreover have "cs_queue ?s c" using Q unfolding e by (auto simp: cs_queue_def)
      ultimately show ?thesis
        by (intro sync_inv_section [OF inv, where c = c]) (auto simp: e same_for_section_def)
    next
      case free
      note e = Leave_free [OF inv k [unfolded free(1)] free(2)]
      have "free_section ?s c" using h(1) free unfolding e by (auto simp: section_defs)
      moreover have "cs_queue ?s c" using Q unfolding e by (auto simp: cs_queue_def)
      ultimately show ?thesis
        by (intro sync_inv_section [OF inv, where c = c]) (auto simp: e same_for_section_def)
    next
      case pass
      note e = Leave_pass [OF inv k [unfolded pass(1)] pass(2)]
      have r: "requested (thr s nx) = Some c" using Q pass(2) by (simp add: cs_queue_def)
      have "held_section ?s c nx"
        using h(1) Q pass(2) e(2) unfolding e(1) by (auto simp: held_section_def cs_queue_def)
      moreover have "cs_queue ?s c"
        using Q pass(2) e(2) unfolding e(1) by (auto simp: cs_queue_def)
      ultimately show ?thesis
        using r e(2) by (intro sync_inv_section [OF inv, where c = c]) (auto simp: e(1) same_for_section_def)
    qed
    then show ?thesis by (simp add: Some)
  qed
qed

section \<open>Events\<close>

lemma ev_queue:
  assumes "sync_inv s"
  shows "distinct (ewaiters (evs s e))" "econtentionCount (evs s e) = int (length (ewaiters (evs s e)))"
    "waitingEvent (thr s t) = Some e \<longleftrightarrow> t \<in> set (ewaiters (evs s e))"
    "signaled (evs s e) \<Longrightarrow> ewaiters (evs s e) = []"
  using sync_invD(4) [OF assms, of e] by (auto simp: ev_ok_def)

lemma clear_wait_sel [simp]:
  "tid (clear_wait t) = tid t" "requested (clear_wait t) = requested t"
  "ownedCriticalSections (clear_wait t) = ownedCriticalSections t"
  "waitingEvent (clear_wait t) = None" "isSuspended (clear_wait t) = isSuspended t"
  "isSleeping (clear_wait t) = isSleeping t" "sleepEnd (clear_wait t) = sleepEnd t"
  by (simp_all add: clear_wait_def)

lemma pop_waiter_sel [simp]:
  "ewaiters (pop_waiter ws ev) = ws" "manualReset (pop_waiter ws ev) = manualReset ev"
  "signaled (pop_waiter ws ev) = signaled ev"
  by (simp_all add: pop_waiter_def)

lemma pop_waiter_count:
  "econtentionCount ev = int (Suc n) \<Longrightarrow> econtentionCount (pop_waiter ws ev) = int n"
  by (simp add: pop_waiter_def)

text \<open>
  The loop over the waiters: from a queue that agrees with the threads' records, every waiter is
  released and nothing else changes.
\<close>

lemma release_all_eq:
  assumes "ewaiters (evs s e) = ws" "econtentionCount (evs s e) = int (length ws)"
  shows "release_all e ws s = s\<lparr>thr := (\<lambda>t. if t \<in> set ws then clear_wait (thr s t) else thr s t),
      evs := (evs s)(e := (evs s e)\<lparr>ewaiters := [], econtentionCount := 0\<rparr>)\<rparr>"
  using assms
proof (induction ws arbitrary: s)
  case Nil
  have "(evs s e)\<lparr>ewaiters := [], econtentionCount := 0\<rparr> = evs s e" using Nil by simp
  then have "(evs s)(e := (evs s e)\<lparr>ewaiters := [], econtentionCount := 0\<rparr>) = evs s"
    by (simp only: fun_upd_triv)
  then show ?case by simp
next
  case (Cons t ws)
  let ?s = "upd_thr t clear_wait (upd_ev e (pop_waiter ws) s)"
  have IH: "release_all e ws ?s = ?s\<lparr>thr := (\<lambda>u. if u \<in> set ws then clear_wait (thr ?s u) else thr ?s u),
      evs := (evs ?s)(e := (evs ?s e)\<lparr>ewaiters := [], econtentionCount := 0\<rparr>)\<rparr>"
    using Cons.prems by (intro Cons.IH) (auto simp: pop_waiter_def)
  have "clear_wait (clear_wait x) = clear_wait x" for x by (simp add: clear_wait_def)
  then have A: "(\<lambda>u. if u \<in> set ws then clear_wait (thr ?s u) else thr ?s u)
    = (\<lambda>u. if u \<in> set (t # ws) then clear_wait (thr s u) else thr s u)"
    by auto
  have B: "(evs ?s)(e := (evs ?s e)\<lparr>ewaiters := [], econtentionCount := 0\<rparr>)
    = (evs s)(e := (evs s e)\<lparr>ewaiters := [], econtentionCount := 0\<rparr>)"
    by (simp add: fun_eq_iff pop_waiter_def)
  show ?case by (simp only: release_all.simps IH A B) (simp add: fun_upd_def)
qed

lemma SetEvent_manual:
  assumes inv: "sync_inv s" and m: "manualReset (evs s e)"
  shows "SetEvent (Some e) s = s\<lparr>thr := (\<lambda>t. if t \<in> set (ewaiters (evs s e))
        then clear_wait (thr s t) else thr s t),
      evs := (evs s)(e := (evs s e)\<lparr>signaled := True, ewaiters := [], econtentionCount := 0\<rparr>)\<rparr>"
  using m ev_queue(2) [OF inv, of e]
  by (simp add: SetEvent_def release_all_eq cong del: if_weak_cong)

lemma SetEvent_auto:
  assumes "\<not> manualReset (evs s e)" "ewaiters (evs s e) = t # ws"
  shows "SetEvent (Some e) s
    = upd_thr t clear_wait (upd_ev e (\<lambda>ev. (pop_waiter ws ev)\<lparr>signaled := False\<rparr>) s)"
  using assms by (simp add: SetEvent_def)

lemma SetEvent_inv:
  assumes inv: "sync_inv s"
  shows "sync_inv (SetEvent ev s)"
proof (cases ev)
  case None
  with inv show ?thesis by (simp add: SetEvent_def)
next
  case (Some e)
  note E = ev_queue [OF inv]
  let ?s = "SetEvent (Some e) s"
  have w: "waitingEvent (thr s t) = Some d \<Longrightarrow> t \<notin> set (ewaiters (evs s e))" if "d \<noteq> e" for t d
    using E(3) [of t e] that by auto
  consider (manual) "manualReset (evs s e)" | (first) t ws where "\<not> manualReset (evs s e)"
      "ewaiters (evs s e) = t # ws"
    | (empty) "\<not> manualReset (evs s e)" "ewaiters (evs s e) = []"
    by (cases "ewaiters (evs s e)") auto
  then have "sync_inv ?s"
  proof cases
    case manual
    note e = SetEvent_manual [OF inv manual]
    have "ev_ok ?s e" using E(3) [of _ e] unfolding e by (auto simp: ev_ok_def)
    then show ?thesis
      using w by (intro sync_inv_event [OF inv, where e = e]) (auto simp: e)
  next
    case first
    note e = SetEvent_auto [OF first]
    have "ev_ok ?s e"
      using E(1,2,3) [of e] first(2) E(3) [of _ e] unfolding e by (auto simp: ev_ok_def pop_waiter_def)
    then show ?thesis
      using w first(2) by (intro sync_inv_event [OF inv, where e = e]) (auto simp: e)
  next
    case empty
    then have e: "?s = upd_ev e (\<lambda>ev. ev\<lparr>signaled := True\<rparr>) s" by (simp add: SetEvent_def)
    have "ev_ok ?s e" using sync_invD(4) [OF inv, of e] empty(2) unfolding e by (simp add: ev_ok_def)
    then show ?thesis by (intro sync_inv_event [OF inv, where e = e]) (auto simp: e)
  qed
  then show ?thesis by (simp add: Some)
qed

lemma upd_ev_signal_inv:
  assumes inv: "sync_inv s"
  shows "sync_inv (upd_ev e (\<lambda>ev. ev\<lparr>signaled := False\<rparr>) s)"
  using sync_invD(4) [OF inv, of e] by (intro sync_inv_event [OF inv, where e = e]) (auto simp: ev_ok_def)

lemma ResetEvent_inv: "sync_inv s \<Longrightarrow> sync_inv (ResetEvent ev s)"
  by (auto simp: ResetEvent_def upd_ev_signal_inv split: option.split)

lemma WaitForEvent_inv:
  assumes inv: "sync_inv s" and idle: "waitingEvent (thr s me) = None"
  shows "sync_inv (WaitForEvent me ev timeout now s)"
proof (cases ev)
  case None
  with inv show ?thesis by (simp add: WaitForEvent_def)
next
  case (Some e)
  note E = ev_queue [OF inv]
  let ?s = "WaitForEvent me (Some e) timeout now s"
  show ?thesis
  proof (cases "signaled (evs s e) \<or> timeout = 0")
    case True
    then show ?thesis
    proof (cases "signaled (evs s e)")
      case True
      then show ?thesis using inv by (simp add: WaitForEvent_def Some upd_ev_signal_inv)
    next
      case nosig: False
      with True have "timeout = 0" by simp
      with nosig show ?thesis using inv by (simp add: WaitForEvent_def Some)
    qed
  next
    case False
    have nin: "me \<notin> set (ewaiters (evs s e))" using E(3) [of me e] idle by simp
    have "ev_ok ?s e"
      using False idle nin E(1,2) [of e] E(3) [of _ e] by (auto simp: WaitForEvent_def ev_ok_def)
    then show ?thesis
      using False idle unfolding Some
      by (intro sync_inv_event [OF inv, where e = e]) (auto simp: WaitForEvent_def)
  qed
qed

section \<open>Whether a thread can run\<close>

lemma remove_waiter_eq:
  assumes inv: "sync_inv s" and w: "waitingEvent (thr s me) = Some e"
  shows "remove_from_event_waiters e me s
    = upd_ev e (\<lambda>ev. ev\<lparr>ewaiters := remove1 me (ewaiters ev),
        econtentionCount := int (length (ewaiters ev)) - 1\<rparr>) s"
proof -
  have "me \<in> set (ewaiters (evs s e))" using ev_queue(3) [OF inv] w by simp
  then show ?thesis
    using ev_queue(2) [OF inv, of e]
    by (cases "ewaiters (evs s e)") (auto simp: remove_from_event_waiters_def pop_waiter_def)
qed

lemma stop_waiting_inv:
  assumes inv: "sync_inv s" and w: "waitingEvent (thr s me) = Some e"
  shows "sync_inv (upd_thr me clear_wait (remove_from_event_waiters e me s))"
proof -
  note E = ev_queue [OF inv]
  have mem: "me \<in> set (ewaiters (evs s e))" using E(3) w by simp
  let ?s = "upd_thr me clear_wait (remove_from_event_waiters e me s)"
  have len: "int (length (ewaiters (evs s e))) - 1 = int (length (remove1 me (ewaiters (evs s e))))"
    using length_pos_if_in_set [OF mem] by (simp only: length_remove1 mem if_True)
  have "ev_ok ?s e"
    unfolding remove_waiter_eq [OF assms]
    using E(1) [of e] E(3) [of _ e] E(4) [of e] mem len by (auto simp: ev_ok_def)
  then show ?thesis
    unfolding remove_waiter_eq [OF assms]
    using w by (intro sync_inv_event [OF inv, where e = e]) auto
qed

text \<open>
  Under the invariant a thread that waits for a section cannot run, a signaled event has no
  waiters, and so only the timeout can end a wait inside \<open>CanRun\<close>.
\<close>

lemma CanRun_waits_eq:
  assumes inv: "sync_inv s"
  shows "CanRun_waits me now s =
    (case requested (thr s me) of Some c \<Rightarrow> (False, s)
     | None \<Rightarrow> (case waitingEvent (thr s me) of None \<Rightarrow> (True, s)
       | Some e \<Rightarrow> if \<not> waitingInfinite (thr s me) \<and> now \<ge> waitTimeoutEnd (thr s me)
           then (True, upd_thr me clear_wait (remove_from_event_waiters e me s)) else (False, s)))"
proof -
  have "ownerHandle (css s c) \<noteq> tid (thr s me)" if r: "requested (thr s me) = Some c" for c
  proof
    assume "ownerHandle (css s c) = tid (thr s me)"
    then have "held_section s c me" using owner_held [OF inv] sync_invD(1) [OF inv] by simp
    then show False
      using sync_invD(2) [OF inv, of c] r by (auto simp: held_section_def cs_queue_def)
  qed
  moreover have "\<not> signaled (evs s e)" if "waitingEvent (thr s me) = Some e" for e
    using ev_queue(3,4) [OF inv] that by force
  ultimately show ?thesis by (auto simp: CanRun_waits_def split: option.splits)
qed

lemma CanRun_inv:
  assumes inv: "sync_inv s"
  shows "sync_inv (snd (CanRun me now1 now2 s))"
proof -
  have W: "sync_inv (snd (CanRun_waits me now2 x))" if "sync_inv x" for x
    using that stop_waiting_inv [OF that] by (auto simp: CanRun_waits_eq split: option.splits)
  have "sync_inv (upd_thr me (\<lambda>t. t\<lparr>isSleeping := False\<rparr>) s)"
    using inv by (rule sync_inv_upd_thr) simp_all
  then show ?thesis using W inv by (simp add: CanRun_def)
qed

text \<open>A thread that may run waits for nothing and is not suspended.\<close>

lemma CanRun_True:
  assumes inv: "sync_inv s" and run: "CanRun me now1 now2 s = (True, s')"
  shows "requested (thr s' me) = None" "waitingEvent (thr s' me) = None" "\<not> isSuspended (thr s' me)"
    "\<not> isSleeping (thr s' me)"
proof -
  have W: "requested (thr y me) = None \<and> waitingEvent (thr y me) = None
      \<and> isSuspended (thr y me) = isSuspended (thr x me) \<and> isSleeping (thr y me) = isSleeping (thr x me)"
    if x: "sync_inv x" and y: "CanRun_waits me now2 x = (True, y)" for x y
    using y remove_waiter_eq [OF x, of me] by (auto simp: CanRun_waits_eq [OF x] split: option.splits if_splits)
  define x where "x = upd_thr me (\<lambda>t. t\<lparr>isSleeping := False\<rparr>) s"
  have "sync_inv x" unfolding x_def using inv by (rule sync_inv_upd_thr) simp_all
  moreover have "isSuspended (thr x me) = isSuspended (thr s me)" "\<not> isSleeping (thr x me)"
    by (simp_all add: x_def)
  ultimately show "requested (thr s' me) = None" "waitingEvent (thr s' me) = None"
    "\<not> isSuspended (thr s' me)" "\<not> isSleeping (thr s' me)"
    using run W [of s s'] W [of x s'] inv
    by (auto simp: CanRun_def x_def [symmetric] split: if_splits)
qed

lemma Suspend_inv: "sync_inv s \<Longrightarrow> sync_inv (Suspend me s)"
  unfolding Suspend_def by (rule sync_inv_upd_thr) simp_all

lemma Resume_inv: "sync_inv s \<Longrightarrow> sync_inv (Resume me s)"
  unfolding Resume_def by (rule sync_inv_upd_thr) (simp_all add: Let_def)

lemma Sleep_inv: "sync_inv s \<Longrightarrow> sync_inv (Sleep me n now s)"
  unfolding Sleep_def by (rule sync_inv_upd_thr) simp_all

lemma SetPriority_inv: "sync_inv s \<Longrightarrow> sync_inv (SetPriority me p s)"
  unfolding SetPriority_def by (rule sync_inv_upd_thr) simp_all

lemmas thread_ops_inv = Leave_inv SetEvent_inv ResetEvent_inv Suspend_inv Resume_inv Sleep_inv
  SetPriority_inv CanRun_inv

end
