(* ===== verification/MemBlocks.thy ===== *)
theory MemBlocks
  imports Prelude
begin

text \<open>
  \<open>MemoryChunk\<close> and \<open>MemoryBlock\<close> (PrimU/MemoryChunk.h, .cpp, PrimU/MemoryBlock.h, .cpp): a chunk is
  a range of guest addresses backed by a range of host addresses; a block is a chunk of whole
  pages with a bump allocator on it.  The unordered set of chunks is a list in the order of
  insertion (newest first); the lemmas do not depend on that order.  Host pointers are
  64-bit addresses, and the null pointer is 0.
\<close>

section \<open>MemoryChunk\<close>

record MemoryChunk =
  virtualAddress :: VirtPtr
  realAddress :: RealPtr
  csize :: size_t

definition MemoryChunk_GetRAddr :: "'a MemoryChunk_scheme \<Rightarrow> VirtPtr \<Rightarrow> RealPtr" where
  "MemoryChunk_GetRAddr c v =
     (if virtualAddress c > v \<or> sz v > sz (virtualAddress c) + csize c then 0
      else realAddress c + sz (v - virtualAddress c))"

definition MemoryChunk_GetVAddr :: "'a MemoryChunk_scheme \<Rightarrow> RealPtr \<Rightarrow> VirtPtr" where
  "MemoryChunk_GetVAddr c r =
     (if realAddress c > r \<or> r > realAddress c + csize c then 0
      else virtualAddress c + vp (r - realAddress c))"

definition MemoryChunk_ContainsVAddr :: "'a MemoryChunk_scheme \<Rightarrow> VirtPtr \<Rightarrow> bool" where
  "MemoryChunk_ContainsVAddr c v =
     (if v < virtualAddress c \<or> sz v \<ge> sz (virtualAddress c) + csize c then False else True)"

definition MemoryChunk_ContainsRAddr :: "'a MemoryChunk_scheme \<Rightarrow> RealPtr \<Rightarrow> bool" where
  "MemoryChunk_ContainsRAddr c r =
     (if r < realAddress c \<or> r \<ge> realAddress c + csize c then False else True)"

section \<open>MemoryBlock\<close>

record MemoryBlock = MemoryChunk +
  pageCount :: u32
  bfree :: size_t
  bfreed :: size_t
  chunks :: "MemoryChunk list"

text \<open>The constructor multiplies \<open>pageCount * PAGE_SIZE\<close> in 32 bits before widening.\<close>

definition MemoryBlock_new :: "VirtPtr \<Rightarrow> RealPtr \<Rightarrow> u32 \<Rightarrow> MemoryBlock" where
  "MemoryBlock_new v r n =
     \<lparr>virtualAddress = v, realAddress = r, csize = sz (n * PAGE_SIZE),
      pageCount = n, bfree = sz (n * PAGE_SIZE), bfreed = 0, chunks = []\<rparr>"

definition CanAllocate :: "MemoryBlock \<Rightarrow> size_t \<Rightarrow> bool" where
  "CanAllocate b s = (bfree b \<ge> s)"

definition CanFree :: "MemoryBlock \<Rightarrow> bool" where
  "CanFree b = (bfreed b = csize b - bfree b)"

definition VirtualAlloc :: "MemoryBlock \<Rightarrow> size_t \<Rightarrow> MemoryChunk option \<times> MemoryBlock" where
  "VirtualAlloc b s =
     (if \<not> CanAllocate b s then (None, b)
      else let offset = vp (csize b - bfree b);
               newChunk = \<lparr>virtualAddress = virtualAddress b + offset,
                           realAddress = realAddress b + sz offset, csize = s\<rparr>
           in (Some newChunk, b\<lparr>chunks := newChunk # chunks b, bfree := bfree b - s\<rparr>))"

text \<open>The loop of \<open>VirtualFree\<close>: the first chunk at the address, and the chunks without it.\<close>

fun take_chunk :: "VirtPtr \<Rightarrow> MemoryChunk list \<Rightarrow> (MemoryChunk \<times> MemoryChunk list) option" where
  "take_chunk v [] = None"
| "take_chunk v (c # cs) =
     (if virtualAddress c = v then Some (c, cs)
      else case take_chunk v cs of None \<Rightarrow> None | Some (d, ds) \<Rightarrow> Some (d, c # ds))"

definition VirtualFree :: "MemoryBlock \<Rightarrow> VirtPtr \<Rightarrow> MemoryBlock" where
  "VirtualFree b v =
     (case take_chunk v (chunks b) of
        None \<Rightarrow> b
      | Some (c, cs) \<Rightarrow> b\<lparr>bfreed := bfreed b + csize c, chunks := cs\<rparr>)"

definition MemoryBlock_ContainsVAddr :: "MemoryBlock \<Rightarrow> VirtPtr \<Rightarrow> bool" where
  "MemoryBlock_ContainsVAddr b v = list_ex (\<lambda>c. MemoryChunk_ContainsVAddr c v) (chunks b)"

definition MemoryBlock_ContainsRAddr :: "MemoryBlock \<Rightarrow> RealPtr \<Rightarrow> bool" where
  "MemoryBlock_ContainsRAddr b r = list_ex (\<lambda>c. MemoryChunk_ContainsRAddr c r) (chunks b)"

definition GetChunk :: "MemoryBlock \<Rightarrow> VirtPtr \<Rightarrow> MemoryChunk" where
  "GetChunk b v =
     (case find (\<lambda>c. MemoryChunk_ContainsVAddr c v) (chunks b) of
        Some c \<Rightarrow> c
      | None \<Rightarrow> \<lparr>virtualAddress = 0, realAddress = 0, csize = 0\<rparr>)"

section \<open>Chunks in natural numbers\<close>

text \<open>
  A chunk is \<open>fits\<close> when neither its guest nor its host range wraps around, which is what the
  memory manager maps.  Under it the tests of the code are the interval tests they look like.
\<close>

definition fits :: "'a MemoryChunk_scheme \<Rightarrow> bool" where
  "fits c \<longleftrightarrow> unat (virtualAddress c) + unat (csize c) \<le> 2 ^ 32
     \<and> unat (realAddress c) + unat (csize c) < 2 ^ 64"

lemma fits_vend [simp]:
  assumes "fits c"
  shows "unat (sz (virtualAddress c) + csize c) = unat (virtualAddress c) + unat (csize c)"
  using assms unat32_lt [of "virtualAddress c"]
  by (subst unat_add64) (auto simp: fits_def)

lemma fits_rend [simp]:
  assumes "fits c"
  shows "unat (realAddress c + csize c) = unat (realAddress c) + unat (csize c)"
  using assms by (subst unat_add64) (auto simp: fits_def)

lemma ContainsVAddr_iff:
  assumes "fits c"
  shows "MemoryChunk_ContainsVAddr c v \<longleftrightarrow>
    unat (virtualAddress c) \<le> unat v \<and> unat v < unat (virtualAddress c) + unat (csize c)"
  using assms by (auto simp: MemoryChunk_ContainsVAddr_def word_lt_unat word_le_unat)

lemma ContainsRAddr_iff:
  assumes "fits c"
  shows "MemoryChunk_ContainsRAddr c r \<longleftrightarrow>
    unat (realAddress c) \<le> unat r \<and> unat r < unat (realAddress c) + unat (csize c)"
  using assms by (auto simp: MemoryChunk_ContainsRAddr_def word_lt_unat word_le_unat)

lemma GetRAddr_unat:
  assumes "fits c" "MemoryChunk_ContainsVAddr c v"
  shows "unat (MemoryChunk_GetRAddr c v)
    = unat (realAddress c) + (unat v - unat (virtualAddress c))"
proof -
  from assms have v: "unat (virtualAddress c) \<le> unat v"
    "unat v < unat (virtualAddress c) + unat (csize c)"
    by (auto simp: ContainsVAddr_iff)
  then have d: "unat (sz (v - virtualAddress c)) = unat v - unat (virtualAddress c)"
    by (simp add: unat_sub_le word_le_unat)
  have "unat (realAddress c + sz (v - virtualAddress c))
    = unat (realAddress c) + (unat v - unat (virtualAddress c))"
    using d v assms(1) by (subst unat_add64) (auto simp: fits_def)
  then show ?thesis
    using v assms(1) by (auto simp: MemoryChunk_GetRAddr_def word_lt_unat)
qed

lemma GetVAddr_unat:
  assumes "fits c" "MemoryChunk_ContainsRAddr c r"
  shows "unat (MemoryChunk_GetVAddr c r)
    = unat (virtualAddress c) + (unat r - unat (realAddress c))"
proof -
  from assms have r: "unat (realAddress c) \<le> unat r"
    "unat r < unat (realAddress c) + unat (csize c)"
    by (auto simp: ContainsRAddr_iff)
  then have d: "unat (r - realAddress c) = unat r - unat (realAddress c)"
    by (simp add: unat_sub_le word_le_unat)
  have "unat (virtualAddress c + vp (r - realAddress c))
    = unat (virtualAddress c) + (unat r - unat (realAddress c))"
    using d r assms(1) unat32_lt [of "virtualAddress c"]
    by (subst unat_add32) (auto simp: fits_def unat_vp)
  then show ?thesis
    using r assms(1) by (auto simp: MemoryChunk_GetVAddr_def word_lt_unat)
qed

text \<open>Translation there and back, for one chunk.\<close>

lemma chunk_contains_GetRAddr:
  assumes "fits c" "MemoryChunk_ContainsVAddr c v"
  shows "MemoryChunk_ContainsRAddr c (MemoryChunk_GetRAddr c v)"
  using assms by (simp add: ContainsRAddr_iff GetRAddr_unat) (auto simp: ContainsVAddr_iff)

lemma chunk_roundtrip:
  assumes "fits c" "MemoryChunk_ContainsVAddr c v"
  shows "MemoryChunk_GetVAddr c (MemoryChunk_GetRAddr c v) = v"
proof -
  have "unat (MemoryChunk_GetVAddr c (MemoryChunk_GetRAddr c v)) = unat v"
    using assms chunk_contains_GetRAddr [OF assms]
    by (simp add: GetVAddr_unat GetRAddr_unat) (simp add: ContainsVAddr_iff)
  then show ?thesis by (simp add: word_unat_eq_iff)
qed

section \<open>The bump allocator of a block\<close>

text \<open>
  The invariant of a block: every live chunk is a non-empty part of the allocated prefix, at the
  same offset on the guest and on the host side, the live chunks do not overlap, and the bytes
  handed out are either live or counted in \<open>_freed\<close>.
\<close>

definition apart :: "'a MemoryChunk_scheme \<Rightarrow> 'a MemoryChunk_scheme \<Rightarrow> bool" where
  "apart c d \<longleftrightarrow>
     unat (virtualAddress c) + unat (csize c) \<le> unat (virtualAddress d)
     \<or> unat (virtualAddress d) + unat (csize d) \<le> unat (virtualAddress c)"

definition chunk_ok :: "MemoryBlock \<Rightarrow> MemoryChunk \<Rightarrow> bool" where
  "chunk_ok b c \<longleftrightarrow> 0 < unat (csize c)
     \<and> unat (virtualAddress b) \<le> unat (virtualAddress c)
     \<and> unat (realAddress c) + unat (virtualAddress b)
         = unat (realAddress b) + unat (virtualAddress c)
     \<and> unat (virtualAddress c) + unat (csize c)
         \<le> unat (virtualAddress b) + (unat (csize b) - unat (bfree b))"

definition block_inv :: "MemoryBlock \<Rightarrow> bool" where
  "block_inv b \<longleftrightarrow> fits b \<and> unat (bfree b) \<le> unat (csize b)
     \<and> (\<forall>c\<in>set (chunks b). chunk_ok b c) \<and> sorted_wrt apart (chunks b)
     \<and> unat (bfreed b) + (\<Sum>c\<leftarrow>chunks b. unat (csize c)) = unat (csize b) - unat (bfree b)"

lemma apart_sym: "apart c d \<Longrightarrow> apart d c"
  by (auto simp: apart_def)

lemma block_inv_new:
  assumes "unat v + unat (n * PAGE_SIZE) \<le> 2 ^ 32" "unat r + unat (n * PAGE_SIZE) < 2 ^ 64"
  shows "block_inv (MemoryBlock_new v r n)"
  using assms by (auto simp: block_inv_def MemoryBlock_new_def fits_def)

text \<open>What \<open>VirtualAlloc\<close> returns, in natural numbers.\<close>

lemma VirtualAlloc_chunk:
  assumes inv: "block_inv b" and s: "0 < s" and ret: "VirtualAlloc b s = (Some c, b')"
  shows "unat (virtualAddress c) = unat (virtualAddress b) + (unat (csize b) - unat (bfree b))"
    and "unat (realAddress c) = unat (realAddress b) + (unat (csize b) - unat (bfree b))"
    and "csize c = s" and "unat s \<le> unat (bfree b)"
    and "b' = b\<lparr>chunks := c # chunks b, bfree := bfree b - s\<rparr>"
proof -
  let ?off = "csize b - bfree b"
  from inv have f: "fits b" and le: "unat (bfree b) \<le> unat (csize b)"
    by (auto simp: block_inv_def)
  from ret have can: "CanAllocate b s"
    and c: "c = \<lparr>virtualAddress = virtualAddress b + vp ?off,
                 realAddress = realAddress b + sz (vp ?off), csize = s\<rparr>"
    and b': "b' = b\<lparr>chunks := c # chunks b, bfree := bfree b - s\<rparr>"
    by (auto simp: VirtualAlloc_def Let_def split: if_splits)
  from can show sle: "unat s \<le> unat (bfree b)"
    by (simp add: CanAllocate_def word_le_unat)
  have off: "unat ?off = unat (csize b) - unat (bfree b)"
    using le by (simp add: unat_sub_le word_le_unat)
  have spos: "0 < unat s" using s by (simp add: word_lt_unat)
  have small: "unat (virtualAddress b) + (unat (csize b) - unat (bfree b)) < 2 ^ 32"
    using f sle spos le by (auto simp: fits_def)
  then have vpoff: "unat (vp ?off) = unat (csize b) - unat (bfree b)"
    using off by (simp add: unat_vp)
  show "unat (virtualAddress c) = unat (virtualAddress b) + (unat (csize b) - unat (bfree b))"
    using small vpoff by (simp add: c unat_add32)
  have "unat (realAddress b) + (unat (csize b) - unat (bfree b)) < 2 ^ 64"
    using f by (auto simp: fits_def)
  then show "unat (realAddress c) = unat (realAddress b) + (unat (csize b) - unat (bfree b))"
    using vpoff by (simp add: c unat_add64)
  show "csize c = s" by (simp add: c)
  show "b' = b\<lparr>chunks := c # chunks b, bfree := bfree b - s\<rparr>" by (rule b')
qed

lemma VirtualAlloc_inv:
  assumes inv: "block_inv b" and s: "0 < s" and ret: "VirtualAlloc b s = (Some c, b')"
  shows "block_inv b'" and "chunk_ok b' c" and "\<forall>d\<in>set (chunks b). apart c d"
proof -
  note C = VirtualAlloc_chunk [OF inv s ret]
  have free': "unat (bfree b') = unat (bfree b) - unat s"
    using C(4) by (simp add: C(5) unat_sub_le word_le_unat)
  have spos: "0 < unat s" using s by (simp add: word_lt_unat)
  have le: "unat (bfree b) \<le> unat (csize b)" using inv by (simp add: block_inv_def)
  show okc: "chunk_ok b' c"
    using C(1-4) free' spos le by (simp add: chunk_ok_def C(5)) arith
  show ap: "\<forall>d\<in>set (chunks b). apart c d"
    using inv C(1) by (auto simp: block_inv_def chunk_ok_def apart_def)
  have ok: "\<forall>d\<in>set (chunks b). chunk_ok b' d"
    using inv free' C(4) le by (fastforce simp: block_inv_def chunk_ok_def C(5))
  have "fits b'" using inv by (simp add: block_inv_def fits_def C(5))
  then show "block_inv b'"
    using inv okc ap ok free' C(3,4) by (auto simp: block_inv_def C(5))
qed

lemma take_chunk_Some:
  "take_chunk v cs = Some (c, ds) \<Longrightarrow>
     virtualAddress c = v \<and> (\<exists>xs ys. cs = xs @ c # ys \<and> ds = xs @ ys)"
proof (induction cs arbitrary: ds)
  case Nil
  then show ?case by simp
next
  case (Cons d cs)
  show ?case
  proof (cases "virtualAddress d = v")
    case True
    with Cons.prems show ?thesis by (auto intro: exI [of _ "[]"])
  next
    case False
    with Cons.prems obtain es where es: "take_chunk v cs = Some (c, es)" "ds = d # es"
      by (auto split: option.splits)
    from Cons.IH [OF es(1)] obtain xs ys where "virtualAddress c = v"
      "cs = xs @ c # ys" "es = xs @ ys" by auto
    with es(2) show ?thesis by (auto intro: exI [of _ "d # xs"])
  qed
qed

lemma take_chunk_None: "take_chunk v cs = None \<longleftrightarrow> v \<notin> virtualAddress ` set cs"
  by (induction cs) (auto split: option.splits)

lemma VirtualFree_inv:
  assumes inv: "block_inv b"
  shows "block_inv (VirtualFree b v)"
proof (cases "take_chunk v (chunks b)")
  case None
  with inv show ?thesis by (simp add: VirtualFree_def)
next
  case (Some p)
  obtain c ds where p: "p = (c, ds)" by (cases p)
  with Some take_chunk_Some obtain xs ys where cs: "chunks b = xs @ c # ys" "ds = xs @ ys"
    by blast
  have b': "VirtualFree b v = b\<lparr>bfreed := bfreed b + csize c, chunks := xs @ ys\<rparr>"
    using Some p cs by (simp add: VirtualFree_def)
  have sum: "unat (bfreed b) + ((\<Sum>c\<leftarrow>xs @ ys. unat (csize c)) + unat (csize c))
    = unat (csize b) - unat (bfree b)"
    using inv cs(1) by (simp add: block_inv_def add_ac)
  then have "unat (bfreed b + csize c) = unat (bfreed b) + unat (csize c)"
    using unat64_lt [of "csize b"] by (subst unat_add64) auto
  with inv sum cs(1) show ?thesis
    by (auto simp: b' block_inv_def chunk_ok_def fits_def sorted_wrt_append)
qed

text \<open>\<open>CanFree\<close> decides whether every chunk of the block has been given back.\<close>

lemma CanFree_iff:
  assumes inv: "block_inv b"
  shows "CanFree b \<longleftrightarrow> chunks b = []"
proof -
  have off: "unat (csize b - bfree b) = unat (csize b) - unat (bfree b)"
    using inv by (simp add: block_inv_def unat_sub_le word_le_unat)
  have "unat (bfreed b) + (\<Sum>c\<leftarrow>chunks b. unat (csize c)) = unat (csize b) - unat (bfree b)"
    using inv by (simp add: block_inv_def)
  then have "CanFree b \<longleftrightarrow> (\<Sum>c\<leftarrow>chunks b. unat (csize c)) = 0"
    unfolding CanFree_def word_unat_eq_iff off by arith
  also have "\<dots> \<longleftrightarrow> chunks b = []"
    using inv by (cases "chunks b") (auto simp: block_inv_def chunk_ok_def)
  finally show ?thesis .
qed

text \<open>A chunk of a block contains the guest address that translates into its host range.\<close>

lemma chunk_translates:
  assumes "block_inv b" "c \<in> set (chunks b)" "MemoryChunk_ContainsVAddr c v" "fits c"
  shows "MemoryChunk_GetRAddr c v = MemoryChunk_GetRAddr b v"
proof -
  from assms have v: "unat (virtualAddress c) \<le> unat v"
    "unat v < unat (virtualAddress c) + unat (csize c)"
    by (auto simp: ContainsVAddr_iff)
  from assms have ok: "chunk_ok b c" and f: "fits b" by (auto simp: block_inv_def)
  then have "MemoryChunk_ContainsVAddr b v" using v by (auto simp: ContainsVAddr_iff chunk_ok_def)
  then have "unat (MemoryChunk_GetRAddr b v) = unat (MemoryChunk_GetRAddr c v)"
    using assms ok f v by (auto simp: GetRAddr_unat chunk_ok_def)
  then show ?thesis by (simp add: word_unat_eq_iff)
qed

end
