(* ===== verification/AssocMap.thy ===== *)
theory AssocMap
  imports Prelude
begin

text \<open>
  The associative containers of the C++ library that the program keeps its tables in, as
  association lists: \<open>std::map\<close> (sorted by key) and \<open>std::unordered_map\<close> (in some order).
  \<open>emplace\<close> does nothing when the key is present, as in C++.  The contract both satisfy is the
  locale \<open>assoc_container\<close>; sums over the entries are what the heap proofs use.
\<close>

section \<open>The contract\<close>

locale assoc_container =
  fixes emplace :: "'k \<Rightarrow> 'v \<Rightarrow> ('k \<times> 'v) list \<Rightarrow> ('k \<times> 'v) list"
    and erase :: "'k \<Rightarrow> ('k \<times> 'v) list \<Rightarrow> ('k \<times> 'v) list"
    and ok :: "('k \<times> 'v) list \<Rightarrow> bool"
  assumes ok_distinct: "ok m \<Longrightarrow> distinct (map fst m)"
    and emplace_new: "ok m \<Longrightarrow> k \<notin> fst ` set m \<Longrightarrow>
      mset (emplace k v m) = add_mset (k, v) (mset m)"
    and emplace_old: "ok m \<Longrightarrow> k \<in> fst ` set m \<Longrightarrow> emplace k v m = m"
    and emplace_ok: "ok m \<Longrightarrow> ok (emplace k v m)"
    and erase_old: "ok m \<Longrightarrow> (k, v) \<in> set m \<Longrightarrow>
      mset m = add_mset (k, v) (mset (erase k m))"
    and erase_ok: "ok m \<Longrightarrow> ok (erase k m)"
begin

lemma sum_emplace:
  assumes "ok m" "k \<notin> fst ` set m"
  shows "(\<Sum>p\<leftarrow>emplace k v m. f p) = f (k, v) + (\<Sum>p\<leftarrow>m. (f p :: nat))"
proof -
  have "(\<Sum>p\<leftarrow>emplace k v m. f p) = sum_mset (image_mset f (mset (emplace k v m)))"
    by (metis mset_map sum_mset_sum_list)
  also have "\<dots> = f (k, v) + sum_mset (image_mset f (mset m))"
    by (simp add: emplace_new [OF assms])
  finally show ?thesis by (metis mset_map sum_mset_sum_list)
qed

lemma sum_erase:
  assumes "ok m" "(k, v) \<in> set m"
  shows "(\<Sum>p\<leftarrow>m. f p) = f (k, v) + (\<Sum>p\<leftarrow>erase k m. (f p :: nat))"
proof -
  have "(\<Sum>p\<leftarrow>m. f p) = sum_mset (image_mset f (mset m))"
    by (metis mset_map sum_mset_sum_list)
  also have "\<dots> = f (k, v) + sum_mset (image_mset f (mset (erase k m)))"
    by (simp add: erase_old [OF assms])
  finally show ?thesis by (metis mset_map sum_mset_sum_list)
qed

lemma set_emplace:
  assumes "ok m" "k \<notin> fst ` set m"
  shows "set (emplace k v m) = insert (k, v) (set m)"
  using emplace_new [OF assms, of v] by (metis set_mset_add_mset_insert set_mset_mset)

lemma set_erase:
  assumes "ok m" "(k, v) \<in> set m"
  shows "set (erase k m) = set m - {(k, v)}"
proof -
  have m: "mset m = add_mset (k, v) (mset (erase k m))" by (rule erase_old [OF assms])
  then have "set m = insert (k, v) (set (erase k m))"
    by (metis set_mset_add_mset_insert set_mset_mset)
  moreover have "(k, v) \<notin> set (erase k m)"
  proof
    assume "(k, v) \<in> set (erase k m)"
    then have "2 \<le> count (mset m) (k, v)"
      using m by (metis count_add_mset count_greater_eq_one_iff set_mset_mset Suc_le_mono numeral_2_eq_2 One_nat_def)
    moreover have "distinct m" using ok_distinct [OF assms(1)] by (simp add: distinct_map)
    ultimately show False using assms(2) by (simp add: distinct_count_atmost_1)
  qed
  ultimately show ?thesis by auto
qed

lemma map_of_emplace:
  assumes "ok m" "k \<notin> fst ` set m"
  shows "map_of (emplace k v m) = (map_of m)(k \<mapsto> v)"
proof (rule ext, rule option_eqI)
  fix x w
  have d: "distinct (map fst (emplace k v m))" "distinct (map fst m)"
    using assms(1) emplace_ok ok_distinct by auto
  show "map_of (emplace k v m) x = Some w \<longleftrightarrow> ((map_of m)(k \<mapsto> v)) x = Some w"
    using assms(2) by (auto simp: d set_emplace [OF assms] image_iff)
qed

lemma map_of_erase:
  assumes "ok m" "(k, v) \<in> set m"
  shows "map_of (erase k m) = (map_of m)(k := None)"
proof (rule ext, rule option_eqI)
  fix x w
  have d: "distinct (map fst (erase k m))" "distinct (map fst m)"
    using assms(1) erase_ok ok_distinct by auto
  have u: "(k, w) \<in> set m \<Longrightarrow> w = v" for w
    using d(2) assms(2) by (metis map_of_eq_Some_iff option.inject)
  show "map_of (erase k m) x = Some w \<longleftrightarrow> ((map_of m)(k := None)) x = Some w"
    using u by (auto simp: d set_erase [OF assms])
qed

end

section \<open>std::map\<close>

fun om_emplace :: "'k::linorder \<Rightarrow> 'v \<Rightarrow> ('k \<times> 'v) list \<Rightarrow> ('k \<times> 'v) list" where
  "om_emplace k v [] = [(k, v)]"
| "om_emplace k v ((a, b) # m) =
     (if k < a then (k, v) # (a, b) # m
      else if k = a then (a, b) # m
      else (a, b) # om_emplace k v m)"

fun al_erase :: "'k \<Rightarrow> ('k \<times> 'v) list \<Rightarrow> ('k \<times> 'v) list" where
  "al_erase k [] = []"
| "al_erase k ((a, b) # m) = (if a = k then m else (a, b) # al_erase k m)"

definition om_ok :: "('k::linorder \<times> 'v) list \<Rightarrow> bool" where
  "om_ok m \<longleftrightarrow> sorted_wrt (<) (map fst m)"

text \<open>Iterators into a \<open>std::map\<close> are the suffixes that start at them.\<close>

definition om_upper_bound :: "'k::linorder \<Rightarrow> ('k \<times> 'v) list \<Rightarrow> ('k \<times> 'v) list" where
  "om_upper_bound k m = dropWhile (\<lambda>(a, b). a \<le> k) m"

definition om_lower_bound :: "'k::linorder \<Rightarrow> ('k \<times> 'v) list \<Rightarrow> ('k \<times> 'v) list" where
  "om_lower_bound k m = dropWhile (\<lambda>(a, b). a < k) m"

lemma om_emplace_mset: "k \<notin> fst ` set m \<Longrightarrow> mset (om_emplace k v m) = add_mset (k, v) (mset m)"
  by (induction k v m rule: om_emplace.induct) auto

lemma om_emplace_old: "om_ok m \<Longrightarrow> k \<in> fst ` set m \<Longrightarrow> om_emplace k v m = m"
  by (induction k v m rule: om_emplace.induct) (auto simp: om_ok_def)

lemma om_emplace_keys: "fst ` set (om_emplace k v m) = insert k (fst ` set m)"
  by (induction k v m rule: om_emplace.induct) auto

lemma om_emplace_sorted: "om_ok m \<Longrightarrow> om_ok (om_emplace k v m)"
proof (induction k v m rule: om_emplace.induct)
  case (2 k v a b m)
  then show ?case
    using om_emplace_keys [of k v m] by (auto simp: om_ok_def)
qed (simp add: om_ok_def)

lemma al_erase_mset: "(k, v) \<in> set m \<Longrightarrow> distinct (map fst m) \<Longrightarrow>
  mset m = add_mset (k, v) (mset (al_erase k m))"
  by (induction k m rule: al_erase.induct) (auto simp: image_iff)

lemma al_erase_subset: "set (al_erase k m) \<subseteq> set m"
  by (induction k m rule: al_erase.induct) auto

lemma al_erase_sorted: "om_ok m \<Longrightarrow> om_ok (al_erase k m)"
proof (induction k m rule: al_erase.induct)
  case (2 k a b m)
  have "set (al_erase k m) \<subseteq> set m" by (rule al_erase_subset)
  with 2 show ?case by (fastforce simp: om_ok_def)
qed (simp add: om_ok_def)

lemma om_ok_distinct: "om_ok m \<Longrightarrow> distinct (map fst m)"
  unfolding om_ok_def using strict_sorted_iff by blast

interpretation smap: assoc_container om_emplace al_erase om_ok
  by unfold_locales
    (auto simp: om_ok_distinct om_emplace_mset om_emplace_old om_emplace_sorted
       al_erase_mset al_erase_sorted)

section \<open>std::unordered_map\<close>

definition um_emplace :: "'k \<Rightarrow> 'v \<Rightarrow> ('k \<times> 'v) list \<Rightarrow> ('k \<times> 'v) list" where
  "um_emplace k v m = (if k \<in> fst ` set m then m else (k, v) # m)"

text \<open>\<open>m[k] = v\<close>.\<close>

fun um_set :: "'k \<Rightarrow> 'v \<Rightarrow> ('k \<times> 'v) list \<Rightarrow> ('k \<times> 'v) list" where
  "um_set k v [] = [(k, v)]"
| "um_set k v ((a, b) # m) = (if a = k then (k, v) # m else (a, b) # um_set k v m)"

definition um_ok :: "('k \<times> 'v) list \<Rightarrow> bool" where
  "um_ok m \<longleftrightarrow> distinct (map fst m)"

lemma al_erase_distinct: "um_ok m \<Longrightarrow> um_ok (al_erase k m)"
proof (induction k m rule: al_erase.induct)
  case (2 k a b m)
  have "fst ` set (al_erase k m) \<subseteq> fst ` set m" by (intro image_mono al_erase_subset)
  with 2 show ?case by (auto simp: um_ok_def)
qed (simp add: um_ok_def)

interpretation umap: assoc_container um_emplace al_erase um_ok
  by unfold_locales
    (auto simp: um_ok_def um_emplace_def al_erase_mset al_erase_distinct [unfolded um_ok_def])

text \<open>\<open>m[k] = v\<close> on a \<open>std::map\<close>.\<close>

fun om_set :: "'k::linorder \<Rightarrow> 'v \<Rightarrow> ('k \<times> 'v) list \<Rightarrow> ('k \<times> 'v) list" where
  "om_set k v [] = [(k, v)]"
| "om_set k v ((a, b) # m) =
     (if k < a then (k, v) # (a, b) # m
      else if k = a then (k, v) # m
      else (a, b) # om_set k v m)"

lemma om_set_keys: "fst ` set (om_set k v m) = insert k (fst ` set m)"
  by (induction k v m rule: om_set.induct) auto

lemma om_set_sorted: "om_ok m \<Longrightarrow> om_ok (om_set k v m)"
proof (induction k v m rule: om_set.induct)
  case (2 k v a b m)
  then show ?case using om_set_keys [of k v m] by (auto simp: om_ok_def)
qed (simp add: om_ok_def)

lemma map_of_om_set: "om_ok m \<Longrightarrow> map_of (om_set k v m) = (map_of m)(k \<mapsto> v)"
proof (induction k v m rule: om_set.induct)
  case (2 k v a b m)
  have n: "k < a \<Longrightarrow> map_of m k = None"
    using 2(2) by (fastforce simp: om_ok_def map_of_eq_None_iff)
  have "om_ok m" using 2(2) by (simp add: om_ok_def)
  then show ?case using 2(1) n by (auto simp: fun_eq_iff)
qed simp

lemma um_set_keys: "fst ` set (um_set k v m) = insert k (fst ` set m)"
  by (induction k v m rule: um_set.induct) auto

lemma um_set_ok: "um_ok m \<Longrightarrow> um_ok (um_set k v m)"
proof (induction k v m rule: um_set.induct)
  case (2 k v a b m)
  then show ?case using um_set_keys [of k v m] by (auto simp: um_ok_def)
qed (simp add: um_ok_def)

lemma map_of_um_set: "map_of (um_set k v m) = (map_of m)(k \<mapsto> v)"
  by (induction k v m rule: um_set.induct) (auto simp: fun_eq_iff)

lemma sum_um_set:
  "(k, w) \<in> set m \<Longrightarrow> um_ok m \<Longrightarrow>
     (\<Sum>p\<leftarrow>um_set k v m. f p) + f (k, w) = (\<Sum>p\<leftarrow>m. f p) + (f (k, v) :: nat)"
  by (induction k v m rule: um_set.induct) (auto simp: um_ok_def image_iff)

lemma set_um_set:
  "(k, w) \<in> set m \<Longrightarrow> um_ok m \<Longrightarrow> set (um_set k v m) = insert (k, v) (set m - {(k, w)})"
  by (induction k v m rule: um_set.induct) (auto simp: um_ok_def image_iff)

end
