(* ===== verification/MemMgr.thy ===== *)
theory MemMgr
  imports MemBlocks AssocMap
begin

text \<open>
  \<open>MemoryManager\<close> without its heap (PrimU/MemoryManager.h, .cpp): the mapped blocks, the
  translation between guest and host addresses, and the static mappings.  The set of blocks is a
  list in iteration order; block identity (a pointer in the code) is equality of the block values,
  which under the invariant differ because their guest ranges do.  \<open>calloc\<close> and the Unicorn
  mapping calls are arguments, gathered in the record \<open>host\<close>; what the code relies on is the
  predicate \<open>host_ok\<close>.  The field \<open>breaks\<close> counts the \<open>__debugbreak()\<close> calls that were reached.
\<close>

section \<open>State and external calls\<close>

record MemoryManager =
  blocks :: "MemoryBlock list"
  dynamicHeapBlock :: "MemoryBlock option"
  heapSize :: size_t
  heapFree :: "(VirtPtr \<times> size_t) list"
  heapAlloc :: "(VirtPtr \<times> size_t) list"
  hmem :: hmemory
  breaks :: nat

text \<open>
  \<open>calloc_r n\<close> is the address \<open>calloc(n, PAGE_SIZE)\<close> returns (0 when it fails); \<open>uc_map v s r\<close>
  tells whether \<open>uc_mem_map_ptr\<close> succeeds, \<open>uc_unmap v s\<close> whether \<open>uc_mem_unmap\<close> does.
\<close>

record host =
  calloc_r :: "u32 \<Rightarrow> RealPtr"
  uc_map :: "VirtPtr \<Rightarrow> size_t \<Rightarrow> RealPtr \<Rightarrow> bool"
  uc_unmap :: "VirtPtr \<Rightarrow> size_t \<Rightarrow> bool"

definition MEM_DYNAMIC_HEAP_BASE :: VirtPtr where
  "MEM_DYNAMIC_HEAP_BASE = 0x20000000"

definition MEM_DYNAMIC_HEAP_SIZE :: size_t where
  "MEM_DYNAMIC_HEAP_SIZE = 0x10000000"

section \<open>Address translation\<close>

definition GetRealAddr :: "MemoryManager \<Rightarrow> VirtPtr \<Rightarrow> RealPtr" where
  "GetRealAddr m v =
     (case find (\<lambda>b. MemoryBlock_ContainsVAddr b v) (blocks m) of
        Some b \<Rightarrow> MemoryChunk_GetRAddr b v
      | None \<Rightarrow> 0)"

definition GetVirtualAddr :: "MemoryManager \<Rightarrow> RealPtr \<Rightarrow> VirtPtr" where
  "GetVirtualAddr m r =
     (case find (\<lambda>b. MemoryBlock_ContainsRAddr b r) (blocks m) of
        Some b \<Rightarrow> MemoryChunk_GetVAddr b r
      | None \<Rightarrow> 0)"

definition isVAddrAllocated :: "MemoryManager \<Rightarrow> VirtPtr \<Rightarrow> bool" where
  "isVAddrAllocated m v = list_ex (\<lambda>b. MemoryBlock_ContainsVAddr b v) (blocks m)"

section \<open>Static mappings\<close>

definition RangeOverlaps :: "VirtPtr \<Rightarrow> size_t \<Rightarrow> VirtPtr \<Rightarrow> size_t \<Rightarrow> bool" where
  "RangeOverlaps a1 s1 a2 s2 =
     (if s1 = 0 \<or> s2 = 0 then False
      else let b1 = sz a1; e1 = b1 + s1; b2 = sz a2; e2 = b2 + s2
           in \<not> (e1 \<le> b2 \<or> e2 \<le> b1))"

definition OverlapsAnyMappedBlock :: "MemoryManager \<Rightarrow> VirtPtr \<Rightarrow> size_t \<Rightarrow> bool" where
  "OverlapsAnyMappedBlock m addr s =
     list_ex (\<lambda>b. RangeOverlaps addr s (virtualAddress b) (csize b)) (blocks m)"

text \<open>
  \<open>StaticAlloc\<close> returns the error, the block stored through the out parameter (unchanged on the
  error paths, null for an empty mapping) and the new state; the pages of \<open>calloc\<close> are zero.
\<close>

definition StaticAlloc ::
  "host \<Rightarrow> MemoryManager \<Rightarrow> VirtPtr \<Rightarrow> size_t \<Rightarrow> MemoryBlock option
     \<Rightarrow> ErrorCode \<times> MemoryBlock option \<times> MemoryManager" where
  "StaticAlloc h m addr s memoryBlock =
     (if s = 0 then (ERROR_OK, None, m)
      else if OverlapsAnyMappedBlock m addr s
        then (ERROR_MEM_ALREADY_ALLOCATED, memoryBlock, m)
      else
        let pageCount = vp ((s + sz PAGE_SIZE - 1) div sz PAGE_SIZE);
            pageAlignedSize = sz (pageCount * PAGE_SIZE);
            realMemory = calloc_r h pageCount
        in if realMemory = 0 then (ERROR_MEM_ALLOC_FAIL, memoryBlock, m)
           else if \<not> uc_map h addr pageAlignedSize realMemory
             then (ERROR_UC_MAP, memoryBlock, m)
           else
             let newBlock = snd (VirtualAlloc (MemoryBlock_new addr realMemory pageCount)
                                   pageAlignedSize)
             in (ERROR_OK, Some newBlock,
                 m\<lparr>blocks := newBlock # blocks m,
                   hmem := mem_fill (hmem m) realMemory pageAlignedSize 0\<rparr>))"

text \<open>The loop of \<open>StaticFree\<close> stops at the first block whose address matches.\<close>

definition StaticFree :: "host \<Rightarrow> MemoryManager \<Rightarrow> VirtPtr \<Rightarrow> ErrorCode \<times> MemoryManager" where
  "StaticFree h m addr =
     (case find (\<lambda>b. virtualAddress b = addr) (blocks m) of
        None \<Rightarrow> (ERROR_MEM_ADDR_NOT_ALLOCATED, m)
      | Some b \<Rightarrow>
          if Some b = dynamicHeapBlock m then (ERROR_MEM_STATIC_NOT_FREEABLE, m)
          else if \<not> uc_unmap h addr (csize b) then (ERROR_UC_UNMAP, m)
          else (ERROR_OK, m\<lparr>blocks := remove1 b (blocks m)\<rparr>))"

text \<open>The constructor maps the heap region, records it as one block and makes it one free range.\<close>

definition MemoryManager_new :: "host \<Rightarrow> hmemory \<Rightarrow> MemoryManager proc" where
  "MemoryManager_new h mem =
     (let s = MEM_DYNAMIC_HEAP_SIZE;
          pageCount = vp ((s + sz PAGE_SIZE - 1) div sz PAGE_SIZE);
          pageAlignedSize = sz (pageCount * PAGE_SIZE);
          realMemory = calloc_r h pageCount
      in if realMemory = 0 then Aborted
         else if \<not> uc_map h MEM_DYNAMIC_HEAP_BASE pageAlignedSize realMemory then Aborted
         else
           let heapBlock = snd (VirtualAlloc
                 (MemoryBlock_new MEM_DYNAMIC_HEAP_BASE realMemory pageCount) pageAlignedSize)
           in Returned
                \<lparr>blocks = [heapBlock], dynamicHeapBlock = Some heapBlock,
                 heapSize = pageAlignedSize,
                 heapFree = om_emplace MEM_DYNAMIC_HEAP_BASE pageAlignedSize [],
                 heapAlloc = [], hmem = mem_fill mem realMemory pageAlignedSize 0,
                 breaks = 0\<rparr>)"

section \<open>The invariant of the mappings\<close>

text \<open>
  Every block is one chunk as large as the block; guest ranges and host ranges of different
  blocks do not overlap; the heap region is one of the blocks.
\<close>

definition apart_r :: "MemoryBlock \<Rightarrow> MemoryBlock \<Rightarrow> bool" where
  "apart_r b d \<longleftrightarrow>
     unat (realAddress b) + unat (csize b) \<le> unat (realAddress d)
     \<or> unat (realAddress d) + unat (csize d) \<le> unat (realAddress b)"

definition whole_block :: "MemoryBlock \<Rightarrow> bool" where
  "whole_block b \<longleftrightarrow> fits b \<and> 0 < unat (realAddress b) \<and> 0 < unat (csize b)
     \<and> chunks b = [\<lparr>virtualAddress = virtualAddress b, realAddress = realAddress b,
                    csize = csize b\<rparr>]"

definition region_inv :: "MemoryManager \<Rightarrow> bool" where
  "region_inv m \<longleftrightarrow> (\<forall>b\<in>set (blocks m). whole_block b)
     \<and> sorted_wrt apart (blocks m) \<and> sorted_wrt apart_r (blocks m)
     \<and> heapSize m = MEM_DYNAMIC_HEAP_SIZE
     \<and> (\<exists>hb. dynamicHeapBlock m = Some hb \<and> hb \<in> set (blocks m)
          \<and> virtualAddress hb = MEM_DYNAMIC_HEAP_BASE \<and> csize hb = MEM_DYNAMIC_HEAP_SIZE)"

text \<open>
  What the code relies on outside the repository: \<open>calloc\<close> returns fresh memory inside the
  address space, and Unicorn maps only page-aligned, non-empty ranges that do not overlap a
  mapped one (both are documented behaviour).
\<close>

definition host_ok :: "host \<Rightarrow> MemoryManager \<Rightarrow> bool" where
  "host_ok h m \<longleftrightarrow>
     (\<forall>n. calloc_r h n \<noteq> 0 \<longrightarrow>
        unat (calloc_r h n) + unat (n * PAGE_SIZE) < 2 ^ 64
        \<and> (\<forall>b\<in>set (blocks m).
              unat (calloc_r h n) + unat (n * PAGE_SIZE) \<le> unat (realAddress b)
              \<or> unat (realAddress b) + unat (csize b) \<le> unat (calloc_r h n)))
     \<and> (\<forall>v s r. uc_map h v s r \<longrightarrow>
        0 < unat s \<and> 4096 dvd unat v
        \<and> (\<forall>b\<in>set (blocks m).
              unat v + unat s \<le> unat (virtualAddress b)
              \<or> unat (virtualAddress b) + unat (csize b) \<le> unat v))"

lemma host_ok_calloc:
  assumes "host_ok h m" "calloc_r h n \<noteq> 0"
  shows "unat (calloc_r h n) + unat (n * PAGE_SIZE) < 2 ^ 64"
    and "\<forall>b\<in>set (blocks m).
      unat (calloc_r h n) + unat (n * PAGE_SIZE) \<le> unat (realAddress b)
      \<or> unat (realAddress b) + unat (csize b) \<le> unat (calloc_r h n)"
  using assms unfolding host_ok_def by blast+

lemma host_ok_map:
  assumes "host_ok h m" "uc_map h v s r"
  shows "0 < unat s" "4096 dvd unat v"
    and "\<forall>b\<in>set (blocks m).
      unat v + unat s \<le> unat (virtualAddress b)
      \<or> unat (virtualAddress b) + unat (csize b) \<le> unat v"
  using assms unfolding host_ok_def by blast+

lemma whole_blockD:
  assumes "whole_block b"
  shows "fits b" "0 < unat (realAddress b)" "0 < unat (csize b)"
    "chunks b = [\<lparr>virtualAddress = virtualAddress b, realAddress = realAddress b,
                  csize = csize b\<rparr>]"
  using assms unfolding whole_block_def by blast+

lemma whole_ContainsVAddr:
  assumes "whole_block b"
  shows "MemoryBlock_ContainsVAddr b v \<longleftrightarrow>
    unat (virtualAddress b) \<le> unat v \<and> unat v < unat (virtualAddress b) + unat (csize b)"
proof -
  note w = whole_blockD [OF assms]
  have "MemoryBlock_ContainsVAddr b v \<longleftrightarrow> MemoryChunk_ContainsVAddr b v"
    unfolding MemoryBlock_ContainsVAddr_def
    by (subst w(4), simp, simp add: MemoryChunk_ContainsVAddr_def)
  with w(1) show ?thesis by (simp only: ContainsVAddr_iff)
qed

lemma whole_ContainsRAddr:
  assumes "whole_block b"
  shows "MemoryBlock_ContainsRAddr b r \<longleftrightarrow>
    unat (realAddress b) \<le> unat r \<and> unat r < unat (realAddress b) + unat (csize b)"
proof -
  note w = whole_blockD [OF assms]
  have "MemoryBlock_ContainsRAddr b r \<longleftrightarrow> MemoryChunk_ContainsRAddr b r"
    unfolding MemoryBlock_ContainsRAddr_def
    by (subst w(4), simp, simp add: MemoryChunk_ContainsRAddr_def)
  with w(1) show ?thesis by (simp only: ContainsRAddr_iff)
qed

lemma whole_GetRAddr:
  assumes "whole_block b" "MemoryBlock_ContainsVAddr b v"
  shows "unat (MemoryChunk_GetRAddr b v)
    = unat (realAddress b) + (unat v - unat (virtualAddress b))"
proof (rule GetRAddr_unat)
  show f: "fits b" by (rule whole_blockD(1) [OF assms(1)])
  show "MemoryChunk_ContainsVAddr b v"
    using assms(2) whole_ContainsVAddr [OF assms(1)] ContainsVAddr_iff [OF f] by blast
qed

text \<open>With disjoint ranges the first block of the iteration that matches is the only one.\<close>

lemma find_unique:
  assumes "b \<in> set bs" "P b" "\<And>d. d \<in> set bs \<Longrightarrow> P d \<Longrightarrow> d = b"
  shows "find P bs = Some b"
proof (cases "find P bs")
  case None
  with assms(1,2) show ?thesis by (auto simp: find_None_iff)
next
  case (Some d)
  then have "d \<in> set bs" "P d" by (auto simp: find_Some_iff)
  then have "d = b" by (rule assms(3))
  with Some show ?thesis by simp
qed

lemma sorted_wrt_pair:
  assumes "sorted_wrt R xs" "x \<in> set xs" "y \<in> set xs" "x \<noteq> y"
  shows "R x y \<or> R y x"
  using assms
proof (induction xs)
  case Nil
  then show ?case by simp
next
  case (Cons a xs)
  then show ?case by auto
qed

lemma block_at_unique:
  assumes inv: "region_inv m" and b: "b \<in> set (blocks m)" "MemoryBlock_ContainsVAddr b v"
  shows "find (\<lambda>b. MemoryBlock_ContainsVAddr b v) (blocks m) = Some b"
proof (rule find_unique)
  fix d assume d: "d \<in> set (blocks m)" "MemoryBlock_ContainsVAddr d v"
  show "d = b"
  proof (rule ccontr)
    assume "d \<noteq> b"
    then have "apart d b \<or> apart b d"
      using inv b(1) d(1) sorted_wrt_pair [of apart "blocks m" d b]
      by (auto simp: region_inv_def)
    then show False
      using inv b d by (auto simp: region_inv_def apart_def whole_ContainsVAddr)
  qed
qed (use b in auto)

lemma block_at_r_unique:
  assumes inv: "region_inv m" and b: "b \<in> set (blocks m)" "MemoryBlock_ContainsRAddr b r"
  shows "find (\<lambda>b. MemoryBlock_ContainsRAddr b r) (blocks m) = Some b"
proof (rule find_unique)
  fix d assume d: "d \<in> set (blocks m)" "MemoryBlock_ContainsRAddr d r"
  show "d = b"
  proof (rule ccontr)
    assume "d \<noteq> b"
    then have "apart_r d b \<or> apart_r b d"
      using inv b(1) d(1) sorted_wrt_pair [of apart_r "blocks m" d b]
      by (auto simp: region_inv_def)
    then show False
      using inv b d by (auto simp: region_inv_def apart_r_def whole_ContainsRAddr)
  qed
qed (use b in auto)

lemma GetRealAddr_block:
  assumes "region_inv m" "b \<in> set (blocks m)" "MemoryBlock_ContainsVAddr b v"
  shows "GetRealAddr m v = MemoryChunk_GetRAddr b v"
  using block_at_unique [OF assms] by (simp add: GetRealAddr_def)

lemma allocated_block:
  assumes "isVAddrAllocated m v"
  obtains b where "b \<in> set (blocks m)" "MemoryBlock_ContainsVAddr b v"
  using assms by (auto simp: isVAddrAllocated_def list_ex_iff)

lemma translate_roundtrip:
  assumes inv: "region_inv m" and v: "isVAddrAllocated m v"
  shows "GetVirtualAddr m (GetRealAddr m v) = v"
proof -
  from v obtain b where b: "b \<in> set (blocks m)" "MemoryBlock_ContainsVAddr b v"
    by (rule allocated_block)
  with inv have w: "whole_block b" by (auto simp: region_inv_def)
  then have f: "fits b" by (rule whole_blockD)
  have c: "MemoryChunk_ContainsVAddr b v"
    using b(2) whole_ContainsVAddr [OF w] ContainsVAddr_iff [OF f] by blast
  have r: "MemoryChunk_ContainsRAddr b (MemoryChunk_GetRAddr b v)"
    by (rule chunk_contains_GetRAddr [OF f c])
  then have "MemoryBlock_ContainsRAddr b (MemoryChunk_GetRAddr b v)"
    using whole_ContainsRAddr [OF w] ContainsRAddr_iff [OF f] by blast
  from block_at_r_unique [OF inv b(1) this] show ?thesis
    by (simp add: GetVirtualAddr_def GetRealAddr_block [OF inv b] chunk_roundtrip [OF f c])
qed

lemma GetRealAddr_null_iff:
  assumes "region_inv m"
  shows "GetRealAddr m v = 0 \<longleftrightarrow> \<not> isVAddrAllocated m v"
proof (cases "isVAddrAllocated m v")
  case True
  then obtain b where b: "b \<in> set (blocks m)" "MemoryBlock_ContainsVAddr b v"
    by (rule allocated_block)
  with assms have "whole_block b" by (auto simp: region_inv_def)
  then have "0 < unat (MemoryChunk_GetRAddr b v)"
    using b(2) whole_GetRAddr whole_blockD(2) by fastforce
  then show ?thesis using True b by (simp add: GetRealAddr_block [OF assms b] unat_gt_0)
next
  case False
  then have "find (\<lambda>b. MemoryBlock_ContainsVAddr b v) (blocks m) = None"
    by (auto simp: isVAddrAllocated_def list_ex_iff find_None_iff)
  with False show ?thesis by (simp add: GetRealAddr_def)
qed

section \<open>Static mappings keep the invariant\<close>

text \<open>Rounding up to pages, in the mixture of widths the code uses.\<close>

lemma page_round:
  assumes "0 < unat s" "unat s \<le> 2 ^ 32"
    and A: "A = sz (vp ((s + sz PAGE_SIZE - 1) div sz PAGE_SIZE) * PAGE_SIZE)"
    and pos: "0 < unat A"
  shows "unat A = (unat s + 4095) div 4096 * 4096"
proof -
  have P: "unat (sz PAGE_SIZE) = 4096" by simp
  have "unat (s + sz PAGE_SIZE) = unat s + 4096"
    using assms(2) P by (subst unat_add64) auto
  then have "unat (s + sz PAGE_SIZE - 1) = unat s + 4095"
    by (subst unat_sub_le) (auto simp: word_le_unat)
  then have d: "unat ((s + sz PAGE_SIZE - 1) div sz PAGE_SIZE) = (unat s + 4095) div 4096"
    by (simp add: unat_div)
  have le: "(unat s + 4095) div 4096 * 4096 \<le> 2 ^ 32"
    using roundup_le [of 0 "unat s"] assms(2) by simp
  then have n: "unat (vp ((s + sz PAGE_SIZE - 1) div sz PAGE_SIZE)) = (unat s + 4095) div 4096"
    using d by (simp add: unat_vp)
  have "unat A = ((unat s + 4095) div 4096 * 4096) mod 2 ^ 32"
    using n by (simp add: A unat_word_ariths)
  with pos le show ?thesis
    by (cases "(unat s + 4095) div 4096 * 4096 = 2 ^ 32") auto
qed

lemma page_round_fits:
  assumes "0 < unat s" "unat addr + unat s \<le> 2 ^ 32" "4096 dvd unat addr"
    and A: "unat A = (unat s + 4095) div 4096 * 4096"
  shows "unat s \<le> unat A" "unat addr + unat A \<le> 2 ^ 32"
proof -
  show "unat s \<le> unat A" unfolding A by (rule roundup_ge)
  from assms(3) obtain k where k: "unat addr = 4096 * k" by blast
  show "unat addr + unat A \<le> 2 ^ 32"
    using assms(2) roundup_le [of k "unat s"] by (simp add: A k)
qed

abbreviation mapped_block :: "VirtPtr \<Rightarrow> RealPtr \<Rightarrow> u32 \<Rightarrow> MemoryBlock" where
  "mapped_block v r n \<equiv>
     \<lparr>virtualAddress = v, realAddress = r, csize = sz (n * PAGE_SIZE), pageCount = n,
      bfree = 0, bfreed = 0,
      chunks = [\<lparr>virtualAddress = v, realAddress = r, csize = sz (n * PAGE_SIZE)\<rparr>]\<rparr>"

lemma mapped_block_eq:
  "snd (VirtualAlloc (MemoryBlock_new v r n) (sz (n * PAGE_SIZE))) = mapped_block v r n"
proof -
  have "vp 0 = 0" "sz 0 = 0" by (simp_all add: vp_def sz_def)
  then show ?thesis
    by (simp add: VirtualAlloc_def CanAllocate_def MemoryBlock_new_def Let_def)
qed

lemma whole_mapped_block:
  assumes "unat v + unat (n * PAGE_SIZE) \<le> 2 ^ 32" "unat r + unat (n * PAGE_SIZE) < 2 ^ 64"
    and "r \<noteq> 0" "0 < unat (n * PAGE_SIZE)"
  shows "whole_block (mapped_block v r n)"
  using assms by (simp add: whole_block_def fits_def unat_gt_0)

text \<open>The successful run of \<open>StaticAlloc\<close>, and what the other runs leave alone.\<close>

lemma StaticAlloc_OK:
  assumes "StaticAlloc h m addr s out = (ERROR_OK, Some b, m')"
  obtains n where "0 < unat s" "\<not> OverlapsAnyMappedBlock m addr s"
    and "n = vp ((s + sz PAGE_SIZE - 1) div sz PAGE_SIZE)" "calloc_r h n \<noteq> 0"
    and "uc_map h addr (sz (n * PAGE_SIZE)) (calloc_r h n)"
    and "b = mapped_block addr (calloc_r h n) n"
    and "m' = m\<lparr>blocks := b # blocks m,
                hmem := mem_fill (hmem m) (calloc_r h n) (sz (n * PAGE_SIZE)) 0\<rparr>"
  using assms unfolding StaticAlloc_def Let_def mapped_block_eq
  by (auto simp: unat_gt_0 split: if_splits)

lemma StaticAlloc_fail:
  assumes "StaticAlloc h m addr s out = (e, out', m')" "e \<noteq> ERROR_OK \<or> out' = None"
  shows "m' = m"
  using assms by (auto simp: StaticAlloc_def Let_def split: if_splits)

lemma StaticAlloc_region_inv:
  assumes inv: "region_inv m" and host: "host_ok h m"
    and fit: "unat addr + unat s \<le> 2 ^ 32"
    and ret: "StaticAlloc h m addr s out = (ERROR_OK, Some b, m')"
  shows "region_inv m'" and "whole_block b" and "virtualAddress b = addr"
    and "unat s \<le> unat (csize b)" and "\<forall>d\<in>set (blocks m). apart b d \<and> apart_r b d"
proof -
  from ret obtain n where n: "0 < unat s"
    "n = vp ((s + sz PAGE_SIZE - 1) div sz PAGE_SIZE)" "calloc_r h n \<noteq> 0"
    "uc_map h addr (sz (n * PAGE_SIZE)) (calloc_r h n)"
    and b: "b = mapped_block addr (calloc_r h n) n"
    and m': "m' = m\<lparr>blocks := b # blocks m,
      hmem := mem_fill (hmem m) (calloc_r h n) (sz (n * PAGE_SIZE)) 0\<rparr>"
    by (rule StaticAlloc_OK)
  note pos = host_ok_map(1) [OF host n(4)] and al = host_ok_map(2) [OF host n(4)]
  have A: "unat (sz (n * PAGE_SIZE)) = (unat s + 4095) div 4096 * 4096"
    using n(1) fit pos by (intro page_round) (auto simp: n(2))
  note round = page_round_fits [OF n(1) fit al A]
  note r = host_ok_calloc(1) [OF host n(3)]
  show w: "whole_block b"
    unfolding b using round(2) r n(3) pos by (intro whole_mapped_block) auto
  show "virtualAddress b = addr" by (simp add: b)
  show "unat s \<le> unat (csize b)" using round(1) by (simp add: b)
  show ap: "\<forall>d\<in>set (blocks m). apart b d \<and> apart_r b d"
    using host_ok_calloc(2) [OF host n(3)] host_ok_map(3) [OF host n(4)]
    by (auto simp: b apart_def apart_r_def)
  show "region_inv m'"
    using inv w ap by (auto simp: region_inv_def m')
qed

lemma StaticFree_region_inv:
  assumes inv: "region_inv m" and ret: "StaticFree h m addr = (e, m')"
  shows "region_inv m'"
proof (cases "find (\<lambda>b. virtualAddress b = addr) (blocks m)")
  case None
  with inv ret show ?thesis by (simp add: StaticFree_def)
next
  case (Some b)
  then have b: "b \<in> set (blocks m)" by (auto simp: find_Some_iff)
  have sub: "set (remove1 b (blocks m)) \<subseteq> set (blocks m)" by (rule set_remove1_subset)
  show ?thesis
  proof (cases "Some b = dynamicHeapBlock m \<or> \<not> uc_unmap h addr (csize b)")
    case True
    with Some inv ret show ?thesis by (auto simp: StaticFree_def split: if_splits)
  next
    case False
    with Some ret have "m' = m\<lparr>blocks := remove1 b (blocks m)\<rparr>"
      by (simp add: StaticFree_def)
    with inv False sub show ?thesis
      by (auto simp: region_inv_def intro: sorted_wrt_remove1)
  qed
qed

text \<open>The heap region cannot be unmapped, and every other successful mapping can be undone.\<close>

lemma StaticFree_heap:
  assumes "region_inv m"
  shows "StaticFree h m MEM_DYNAMIC_HEAP_BASE = (ERROR_MEM_STATIC_NOT_FREEABLE, m)"
proof -
  from assms obtain hb where hb: "dynamicHeapBlock m = Some hb" "hb \<in> set (blocks m)"
    "virtualAddress hb = MEM_DYNAMIC_HEAP_BASE" "csize hb = MEM_DYNAMIC_HEAP_SIZE"
    by (auto simp: region_inv_def)
  have "find (\<lambda>b. virtualAddress b = MEM_DYNAMIC_HEAP_BASE) (blocks m) = Some hb"
  proof (rule find_unique)
    fix d assume d: "d \<in> set (blocks m)" "virtualAddress d = MEM_DYNAMIC_HEAP_BASE"
    then have w: "whole_block d" "whole_block hb" using assms hb by (auto simp: region_inv_def)
    show "d = hb"
    proof (rule ccontr)
      assume "d \<noteq> hb"
      then have "apart d hb \<or> apart hb d"
        using assms d(1) hb(2) sorted_wrt_pair [of apart "blocks m" d hb]
        by (auto simp: region_inv_def)
      then show False
        using w [THEN whole_blockD(3)] d(2) hb(3) by (auto simp: apart_def)
    qed
  qed (use hb in auto)
  then show ?thesis using hb by (simp add: StaticFree_def)
qed

lemma StaticAlloc_StaticFree:
  assumes inv: "region_inv m"
    and ret: "StaticAlloc h m addr s out = (ERROR_OK, Some b, m')"
    and unmap: "uc_unmap h addr (csize b)" and nh: "addr \<noteq> MEM_DYNAMIC_HEAP_BASE"
  shows "StaticFree h m' addr = (ERROR_OK, m'\<lparr>blocks := blocks m\<rparr>)"
proof -
  from ret obtain n where b: "b = mapped_block addr (calloc_r h n) n"
    and m': "m' = m\<lparr>blocks := b # blocks m,
      hmem := mem_fill (hmem m) (calloc_r h n) (sz (n * PAGE_SIZE)) 0\<rparr>"
    by (rule StaticAlloc_OK)
  have "Some b \<noteq> dynamicHeapBlock m"
    using inv nh by (auto simp: region_inv_def b)
  moreover have "virtualAddress b = addr" by (simp add: b)
  ultimately show ?thesis using unmap by (simp add: StaticFree_def m')
qed

text \<open>The constructor: 0x10000 pages, mapped as one block.\<close>

lemma heap_pages:
  "vp ((MEM_DYNAMIC_HEAP_SIZE + sz PAGE_SIZE - 1) div sz PAGE_SIZE) = 0x10000"
  "sz (0x10000 * PAGE_SIZE) = MEM_DYNAMIC_HEAP_SIZE"
  by (simp_all add: MEM_DYNAMIC_HEAP_SIZE_def PAGE_SIZE_def sz_def vp_def)

lemma MemoryManager_new_eq:
  assumes "MemoryManager_new h mem = Returned m"
  defines "r \<equiv> calloc_r h 0x10000"
  shows "r \<noteq> 0" and "uc_map h MEM_DYNAMIC_HEAP_BASE MEM_DYNAMIC_HEAP_SIZE r"
    and "m = \<lparr>blocks = [mapped_block MEM_DYNAMIC_HEAP_BASE r 0x10000],
              dynamicHeapBlock = Some (mapped_block MEM_DYNAMIC_HEAP_BASE r 0x10000),
              heapSize = MEM_DYNAMIC_HEAP_SIZE,
              heapFree = [(MEM_DYNAMIC_HEAP_BASE, MEM_DYNAMIC_HEAP_SIZE)], heapAlloc = [],
              hmem = mem_fill mem r MEM_DYNAMIC_HEAP_SIZE 0, breaks = 0\<rparr>"
  using assms(1) unfolding MemoryManager_new_def Let_def heap_pages r_def
    mapped_block_eq [of _ _ "0x10000", unfolded heap_pages]
  by (auto simp: heap_pages split: if_splits)

lemma MemoryManager_new_region_inv:
  assumes ret: "MemoryManager_new h mem = Returned m"
    and host: "host_ok h (m\<lparr>blocks := []\<rparr>)"
  shows "region_inv m"
proof -
  note M = MemoryManager_new_eq [OF ret]
  have "whole_block (mapped_block MEM_DYNAMIC_HEAP_BASE (calloc_r h 0x10000) 0x10000)"
    using M(1) host_ok_calloc(1) [OF host M(1)]
    by (intro whole_mapped_block)
      (auto simp: MEM_DYNAMIC_HEAP_BASE_def unat_word_ariths PAGE_SIZE_def)
  then show ?thesis by (simp add: region_inv_def M(3) heap_pages)
qed

end
