(* ===== verification/VirtualHeap.thy ===== *)
theory VirtualHeap
  imports MemMgr
begin

text \<open>
  The virtual heap of \<open>MemoryManager\<close> (PrimU/MemoryManager.cpp, .h): first-fit allocation from an
  address-ordered table of free ranges, with an eight-byte cookie before and after every user
  area, release with coalescing, and reallocation in place or by copying.  The definitions keep
  the code's 32-bit addresses and 64-bit sizes; \<open>abort()\<close> on a damaged cookie is \<open>Aborted\<close>.
\<close>

section \<open>Cookies\<close>

definition kHeapCookie :: "64 word" where
  "kHeapCookie = 0xacc1c01201110210"

definition kCookieSize :: size_t where
  "kCookieSize = 8"

definition kHeapAlign :: size_t where
  "kHeapAlign = 16"

definition AlignUp :: "size_t \<Rightarrow> size_t \<Rightarrow> size_t" where
  "AlignUp v a = (v + (a - 1)) AND NOT (a - 1)"

definition HeapContains :: "MemoryManager \<Rightarrow> VirtPtr \<Rightarrow> bool" where
  "HeapContains m a =
     (case dynamicHeapBlock m of
        None \<Rightarrow> False
      | Some hb \<Rightarrow> let base = virtualAddress hb in a \<ge> base \<and> sz a < sz base + heapSize m)"

definition WriteCookie :: "VirtPtr \<Rightarrow> MemoryManager \<Rightarrow> MemoryManager" where
  "WriteCookie addr m =
     (let realAddr = GetRealAddr m addr
      in if realAddr \<noteq> 0 then m\<lparr>hmem := store_le 8 (hmem m) realAddr kHeapCookie\<rparr> else m)"

definition CheckCookie :: "MemoryManager \<Rightarrow> VirtPtr \<Rightarrow> unit proc" where
  "CheckCookie m addr =
     (let realAddr = GetRealAddr m addr
      in if realAddr = 0 then Aborted
         else if load_le 8 (hmem m) realAddr \<noteq> kHeapCookie then Aborted
         else Returned ())"

section \<open>Allocation\<close>

text \<open>The first-fit loop: the free range that is chosen, if there is one.\<close>

fun first_fit :: "size_t \<Rightarrow> (VirtPtr \<times> size_t) list \<Rightarrow> (VirtPtr \<times> size_t) option" where
  "first_fit totalAllocSize [] = None"
| "first_fit totalAllocSize ((freeStart, freeSize) # it) =
     (let alignedStart = vp (AlignUp (sz freeStart) kHeapAlign);
          prefix = sz (alignedStart - freeStart)
      in if freeSize < prefix then first_fit totalAllocSize it
         else let usable = freeSize - prefix
              in if usable < totalAllocSize then first_fit totalAllocSize it
                 else Some (freeStart, freeSize))"

text \<open>The rest of the loop's body, once a range is chosen: the user pointer and the new state.\<close>

definition heap_carve ::
  "MemoryManager \<Rightarrow> VirtPtr \<Rightarrow> size_t \<Rightarrow> size_t \<Rightarrow> size_t \<Rightarrow> VirtPtr \<times> MemoryManager" where
  "heap_carve m freeStart freeSize alignedUserSize totalAllocSize =
     (let alignedStart = vp (AlignUp (sz freeStart) kHeapAlign);
          prefix = sz (alignedStart - freeStart);
          blockStart = alignedStart;
          blockEnd = blockStart + vp totalAllocSize;
          freeEnd = freeStart + vp freeSize;
          f1 = al_erase freeStart (heapFree m);
          f2 = (if prefix > 0 then om_emplace freeStart prefix f1 else f1);
          f3 = (if blockEnd < freeEnd then om_emplace blockEnd (sz (freeEnd - blockEnd)) f2
                else f2);
          userPtr = vp (sz blockStart + kCookieSize);
          m1 = WriteCookie blockStart (m\<lparr>heapFree := f3\<rparr>);
          m2 = WriteCookie (userPtr + vp alignedUserSize) m1
      in (userPtr, m2\<lparr>heapAlloc := um_emplace userPtr alignedUserSize (heapAlloc m2)\<rparr>))"

definition HeapAlloc :: "MemoryManager \<Rightarrow> VirtPtr \<Rightarrow> size_t \<Rightarrow> ErrorCode \<times> VirtPtr \<times> MemoryManager"
where
  "HeapAlloc m out s =
     (if dynamicHeapBlock m = None then (ERROR_MEM_ALLOC_FAIL, out, m)
      else if s = 0 then (ERROR_OK, 0, m)
      else
        let alignedUserSize = AlignUp s kHeapAlign;
            totalAllocSize = alignedUserSize + 2 * kCookieSize
        in case first_fit totalAllocSize (heapFree m) of
             None \<Rightarrow> (ERROR_MEM_ALLOC_FAIL, out, m\<lparr>breaks := Suc (breaks m)\<rparr>)
           | Some (freeStart, freeSize) \<Rightarrow>
               (let (userPtr, m') = heap_carve m freeStart freeSize alignedUserSize totalAllocSize
                in (ERROR_OK, userPtr, m')))"

definition DyanmicAlloc :: "MemoryManager \<Rightarrow> VirtPtr \<Rightarrow> size_t \<Rightarrow> ErrorCode \<times> VirtPtr \<times> MemoryManager"
where
  "DyanmicAlloc m addr s = (if s = 0 then (ERROR_OK, 0, m) else HeapAlloc m addr s)"

section \<open>Release\<close>

text \<open>
  \<open>CoalesceAround\<close> on the table of free ranges: first the merge with the range before \<open>start\<close>,
  then, from the possibly moved start, with the one after, then the insertion.
  \<open>std::prev (upper_bound start)\<close> is the last entry whose key is at most \<open>start\<close>.
\<close>

definition merge_prev ::
  "VirtPtr \<Rightarrow> size_t \<Rightarrow> (VirtPtr \<times> size_t) list \<Rightarrow> VirtPtr \<times> size_t \<times> (VirtPtr \<times> size_t) list" where
  "merge_prev start s free =
     (let before = takeWhile (\<lambda>(a, b). a \<le> start) free
      in if before \<noteq> [] then
           let (prevStart, prevSize) = last before;
               prevEnd = prevStart + vp prevSize
           in if prevEnd = start then (prevStart, s + prevSize, al_erase prevStart free)
              else (start, s, free)
         else (start, s, free))"

definition merge_next ::
  "VirtPtr \<Rightarrow> size_t \<Rightarrow> (VirtPtr \<times> size_t) list \<Rightarrow> size_t \<times> (VirtPtr \<times> size_t) list" where
  "merge_next start s free =
     (let end' = start + vp s
      in case om_lower_bound start free of
           [] \<Rightarrow> (s, free)
         | (nextStart, nextSize) # _ \<Rightarrow>
             if end' = nextStart then (s + nextSize, al_erase nextStart free) else (s, free))"

definition coalesce :: "VirtPtr \<Rightarrow> size_t \<Rightarrow> (VirtPtr \<times> size_t) list \<Rightarrow> (VirtPtr \<times> size_t) list" where
  "coalesce start s free =
     (let (start1, s1, free1) = merge_prev start s free;
          (s2, free2) = merge_next start1 s1 free1
      in om_emplace start1 s2 free2)"

definition CoalesceAround :: "MemoryManager \<Rightarrow> VirtPtr \<Rightarrow> size_t \<Rightarrow> MemoryManager" where
  "CoalesceAround m start s = m\<lparr>heapFree := coalesce start s (heapFree m)\<rparr>"

text \<open>\<open>HeapFree\<close> first checks both cookies of every live block.\<close>

fun check_cookies :: "MemoryManager \<Rightarrow> (VirtPtr \<times> size_t) list \<Rightarrow> unit proc" where
  "check_cookies m [] = Returned ()"
| "check_cookies m ((userPtr, userSize) # items) =
     proc_bind (CheckCookie m (vp (sz userPtr - kCookieSize))) (\<lambda>_.
     proc_bind (CheckCookie m (userPtr + vp userSize)) (\<lambda>_.
     check_cookies m items))"

definition HeapFree :: "MemoryManager \<Rightarrow> VirtPtr \<Rightarrow> (ErrorCode \<times> MemoryManager) proc" where
  "HeapFree m addr =
     proc_bind (check_cookies m (heapAlloc m)) (\<lambda>_.
       case map_of (heapAlloc m) addr of
         None \<Rightarrow> Returned (ERROR_MEM_ADDR_NOT_ALLOCATED, m)
       | Some userSize \<Rightarrow>
           let blockStart = vp (sz addr - kCookieSize);
               totalSize = userSize + 2 * kCookieSize
           in Returned (ERROR_OK,
                CoalesceAround (m\<lparr>heapAlloc := al_erase addr (heapAlloc m)\<rparr>)
                  blockStart totalSize))"

text \<open>Outside the heap both branches of the loop over the static blocks report the same error.\<close>

definition DynamicFree :: "MemoryManager \<Rightarrow> VirtPtr \<Rightarrow> (ErrorCode \<times> MemoryManager) proc" where
  "DynamicFree m addr =
     (if addr = 0 then Returned (ERROR_OK, m)
      else if HeapContains m addr then HeapFree m addr
      else if list_ex (\<lambda>b. Some b \<noteq> dynamicHeapBlock m \<and> MemoryBlock_ContainsVAddr b addr)
                (blocks m)
        then Returned (ERROR_MEM_ADDR_NOT_ALLOCATED, m)
      else Returned (ERROR_MEM_ADDR_NOT_ALLOCATED, m))"

section \<open>Reallocation\<close>

definition TryHeapReallocInPlace ::
  "MemoryManager \<Rightarrow> VirtPtr \<Rightarrow> size_t \<Rightarrow> size_t \<Rightarrow> (bool \<times> MemoryManager) proc" where
  "TryHeapReallocInPlace m addr oldSize newSize =
     proc_bind (CheckCookie m (vp (sz addr - kCookieSize))) (\<lambda>_.
     proc_bind (CheckCookie m (addr + vp oldSize)) (\<lambda>_.
       if newSize \<le> oldSize then
         let shrink = oldSize - newSize;
             tail = addr + vp newSize;
             m1 = (if shrink > 0
                   then CoalesceAround (WriteCookie tail m) (vp (sz tail + kCookieSize)) shrink
                   else m)
         in Returned (True, m1\<lparr>heapAlloc := um_set addr newSize (heapAlloc m1)\<rparr>)
       else
         let need = newSize - oldSize;
             tail = vp (sz (addr + vp oldSize) + kCookieSize)
         in case map_of (heapFree m) tail of
              None \<Rightarrow> Returned (False, m)
            | Some nextSize \<Rightarrow>
                if nextSize \<ge> need then
                  let f1 = al_erase tail (heapFree m);
                      remain = nextSize - need;
                      f2 = (if remain > 0 then om_emplace (tail + vp need) remain f1 else f1);
                      m1 = m\<lparr>heapFree := f2, heapAlloc := um_set addr newSize (heapAlloc m)\<rparr>
                  in Returned (True, WriteCookie (addr + vp newSize) m1)
                else Returned (False, m)))"

definition DynamicRealloc ::
  "MemoryManager \<Rightarrow> VirtPtr \<Rightarrow> size_t \<Rightarrow> (ErrorCode \<times> VirtPtr \<times> MemoryManager) proc" where
  "DynamicRealloc m oldAddr newsize =
     (if oldAddr = 0 then Returned (DyanmicAlloc m oldAddr newsize)
      else if newsize = 0 then
        proc_bind (DynamicFree m oldAddr) (\<lambda>(e, m'). Returned (e, 0, m'))
      else if HeapContains m oldAddr then
        (case map_of (heapAlloc m) oldAddr of
           None \<Rightarrow> Returned (ERROR_MEM_ADDR_NOT_ALLOCATED, oldAddr, m)
         | Some oldSize \<Rightarrow>
             let alignedNewSize = AlignUp newsize kHeapAlign in
             proc_bind (TryHeapReallocInPlace m oldAddr oldSize alignedNewSize)
               (\<lambda>(inplace, m1).
                 if inplace then Returned (ERROR_OK, oldAddr, m1)
                 else let (err, newAddr, m2) = HeapAlloc m1 0 alignedNewSize in
                   if err \<noteq> ERROR_OK then Returned (err, oldAddr, m2)
                   else
                     let copySize = min oldSize alignedNewSize;
                         dst = GetRealAddr m2 newAddr;
                         src = GetRealAddr m2 oldAddr
                     in if dst \<noteq> 0 \<and> src \<noteq> 0 then
                          let m3 = m2\<lparr>hmem := mem_copy (hmem m2) dst src copySize\<rparr> in
                          proc_bind (HeapFree m3 oldAddr)
                            (\<lambda>(_, m4). Returned (ERROR_OK, newAddr, m4))
                        else
                          proc_bind (HeapFree m2 newAddr)
                            (\<lambda>(_, m4). Returned (ERROR_MEM_ADDR_NOT_ALLOCATED, oldAddr, m4))))
      else Returned (ERROR_MEM_ADDR_NOT_ALLOCATED, oldAddr, m))"

definition GetAllocSize :: "MemoryManager \<Rightarrow> VirtPtr \<Rightarrow> size_t" where
  "GetAllocSize m addr =
     (if HeapContains m addr then
        (case map_of (heapAlloc m) addr of Some s \<Rightarrow> s | None \<Rightarrow> 0)
      else 0)"

end
