(* ===== verification/HeapLayout.thy ===== *)
theory HeapLayout
  imports VirtualHeap
begin

text \<open>
  The layout of the virtual heap in natural numbers.  Every address of the heap region belongs to
  exactly one free range or one allocated block (user area and its two cookies): \<open>cover\<close> counts
  the ranges an address lies in, and the layout invariant says that it is 1 inside the region and
  0 outside.  Splitting and merging ranges keep the count, so every operation is checked by
  adding up.  Free ranges are kept sorted with a gap between them (no two are adjacent), aligned
  and non-empty.
\<close>

section \<open>Alignment\<close>

lemma and_not_15: "(x :: 64 word) AND NOT 15 = push_bit 4 (drop_bit 4 x)"
proof -
  have m: "(15 :: 64 word) = mask 4" by (simp add: mask_eq_decr_exp)
  show ?thesis
    unfolding m by (rule bit_word_eqI) (auto simp: bit_simps)
qed

lemma AlignUp16:
  assumes "unat v + 15 < 18446744073709551616"
  shows "unat (AlignUp v kHeapAlign) = (unat v + 15) div 16 * 16"
proof -
  have "unat (v + 15) = unat v + 15" using assms by (subst unat_add64) auto
  moreover have "unat (push_bit 4 (drop_bit 4 x)) = unat x div 16 * 16" for x :: "64 word"
  proof -
    have "unat (push_bit 4 (drop_bit 4 x)) = take_bit 64 (push_bit 4 (unat x div 16))"
      by (simp add: unsigned_push_bit_eq drop_bit_eq_div unat_div)
    also have "\<dots> = unat x div 16 * 16"
    proof -
      have "unat x div 16 * 16 \<le> unat x" by (rule div_times_less_eq_dividend)
      with unat64_lt [of x] show ?thesis
        by (simp add: push_bit_eq_mult take_bit_eq_mod)
    qed
    finally show ?thesis .
  qed
  ultimately show ?thesis
    unfolding AlignUp_def kHeapAlign_def by (simp add: and_not_15 [simplified])
qed

lemma AlignUp_bounds:
  assumes "unat v + 15 < 18446744073709551616"
  shows "unat v \<le> unat (AlignUp v kHeapAlign)" "unat (AlignUp v kHeapAlign) < unat v + 16"
    "16 dvd unat (AlignUp v kHeapAlign)"
  unfolding AlignUp16 [OF assms]
  using div_mult_mod_eq [of "unat v + 15" 16] mod_less_divisor [of 16 "unat v + 15"]
  by (linarith | simp)+

lemma AlignUp_id:
  assumes "16 dvd unat a"
  shows "AlignUp (sz a) kHeapAlign = sz a"
proof -
  from assms obtain k where k: "unat a = 16 * k" by blast
  have "unat (AlignUp (sz a) kHeapAlign) = unat a"
    using unat32_lt [of a] by (subst AlignUp16) (auto simp: k)
  then show ?thesis by (simp add: word_unat_eq_iff)
qed

lemma unat_kCookieSize [simp]: "unat kCookieSize = 8"
  by (simp add: kCookieSize_def)

section \<open>Ranges and covers\<close>

definition occ :: "nat \<Rightarrow> nat \<Rightarrow> nat \<Rightarrow> nat" where
  "occ a s x = (if a \<le> x \<and> x < a + s then 1 else 0)"

abbreviation focc :: "nat \<Rightarrow> VirtPtr \<times> size_t \<Rightarrow> nat" where
  "focc x \<equiv> \<lambda>p. occ (unat (fst p)) (unat (snd p)) x"

abbreviation aocc :: "nat \<Rightarrow> VirtPtr \<times> size_t \<Rightarrow> nat" where
  "aocc x \<equiv> \<lambda>p. occ (unat (fst p) - 8) (unat (snd p) + 16) x"

definition cover :: "(VirtPtr \<times> size_t) list \<Rightarrow> (VirtPtr \<times> size_t) list \<Rightarrow> nat \<Rightarrow> nat" where
  "cover F A x = (\<Sum>p\<leftarrow>F. focc x p) + (\<Sum>p\<leftarrow>A. aocc x p)"

lemma occ_split: "t \<le> s \<Longrightarrow> occ a s x = occ a t x + occ (a + t) (s - t) x"
  by (auto simp: occ_def)

lemma occ_join: "occ a s x + occ (a + s) t x = occ a (s + t) x"
  by (auto simp: occ_def)

text \<open>The bounds of the region as numerals.\<close>

lemma heap_base [simp]: "unat MEM_DYNAMIC_HEAP_BASE = 0x20000000"
  by (simp add: MEM_DYNAMIC_HEAP_BASE_def)

lemma heap_size [simp]: "unat MEM_DYNAMIC_HEAP_SIZE = 0x10000000"
  by (simp add: MEM_DYNAMIC_HEAP_SIZE_def)

definition in_heap :: "nat \<Rightarrow> bool" where
  "in_heap x \<longleftrightarrow> 0x20000000 \<le> x \<and> x < 0x30000000"

text \<open>Free ranges: aligned, non-empty, in increasing order and never adjacent.\<close>

definition gap :: "VirtPtr \<times> size_t \<Rightarrow> VirtPtr \<times> size_t \<Rightarrow> bool" where
  "gap p q \<longleftrightarrow> unat (fst p) + unat (snd p) < unat (fst q)"

definition range_ok :: "VirtPtr \<times> size_t \<Rightarrow> bool" where
  "range_ok p \<longleftrightarrow> 0 < unat (snd p) \<and> 16 dvd unat (fst p) \<and> 16 dvd unat (snd p)
     \<and> unat (fst p) + unat (snd p) \<le> 0x30000000"

definition free_ok :: "(VirtPtr \<times> size_t) list \<Rightarrow> bool" where
  "free_ok F \<longleftrightarrow> sorted_wrt gap F \<and> (\<forall>p\<in>set F. range_ok p)"

text \<open>Live blocks: user pointers 8 past an aligned address, sizes aligned.\<close>

definition alloc_ok :: "(VirtPtr \<times> size_t) list \<Rightarrow> bool" where
  "alloc_ok A \<longleftrightarrow> um_ok A \<and> (\<forall>p\<in>set A. 16 dvd unat (fst p) + 8 \<and> 16 dvd unat (snd p))"

definition layout :: "(VirtPtr \<times> size_t) list \<Rightarrow> (VirtPtr \<times> size_t) list \<Rightarrow> bool" where
  "layout F A \<longleftrightarrow> free_ok F \<and> alloc_ok A
     \<and> (\<forall>x. cover F A x = (if in_heap x then 1 else 0))"

lemma cover_le1: "layout F A \<Longrightarrow> cover F A x \<le> 1"
  by (auto simp: layout_def)

lemma cover_in: "layout F A \<Longrightarrow> 0 < cover F A x \<Longrightarrow> in_heap x"
  by (auto simp: layout_def split: if_splits)

lemma member_le_sum: "p \<in> set xs \<Longrightarrow> f p \<le> (\<Sum>z\<leftarrow>xs. (f z :: nat))"
  by (induction xs) auto

lemma focc_le_cover: "p \<in> set F \<Longrightarrow> focc x p \<le> cover F A x"
  using member_le_sum [of p F "focc x"] by (simp add: cover_def)

lemma aocc_le_cover: "p \<in> set A \<Longrightarrow> aocc x p \<le> cover F A x"
  using member_le_sum [of p A "aocc x"] by (simp add: cover_def)

text \<open>Two different ranges never share an address, and every range is inside the region.\<close>

lemma free_in_heap:
  assumes "layout F A" "(a, s) \<in> set F"
  shows "0x20000000 \<le> unat a" "unat a + unat s \<le> 0x30000000" "0 < unat s"
proof -
  from assms show s: "0 < unat s" "unat a + unat s \<le> 0x30000000"
    by (auto simp: layout_def free_ok_def range_ok_def)
  have "0 < cover F A (unat a)"
    using focc_le_cover [OF assms(2), of "unat a" A] s by (simp add: occ_def)
  then show "0x20000000 \<le> unat a" using cover_in [OF assms(1)] by (auto simp: in_heap_def)
qed

lemma alloc_in_heap:
  assumes "layout F A" "(u, s) \<in> set A"
  shows "0x20000008 \<le> unat u" "unat u + unat s + 8 \<le> 0x30000000"
proof -
  have "0 < cover F A (unat u - 8)"
    using aocc_le_cover [OF assms(2), of "unat u - 8" F] by (simp add: occ_def)
  then have lo: "in_heap (unat u - 8)" using cover_in [OF assms(1)] by blast
  then show u: "0x20000008 \<le> unat u" by (auto simp: in_heap_def)
  then have "aocc (unat u + unat s + 7) (u, s) = 1" by (auto simp: occ_def)
  then have "0 < cover F A (unat u + unat s + 7)"
    using aocc_le_cover [OF assms(2), of "unat u + unat s + 7" F] by simp
  then have "in_heap (unat u + unat s + 7)" using cover_in [OF assms(1)] by blast
  then show "unat u + unat s + 8 \<le> 0x30000000" by (auto simp: in_heap_def)
qed

lemma sum_list_two:
  assumes "p \<in> set xs" "q \<in> set xs" "p \<noteq> q"
  shows "f p + f q \<le> (\<Sum>z\<leftarrow>xs. (f z :: nat))"
  using assms
proof (induction xs)
  case Nil
  then show ?case by simp
next
  case (Cons z xs)
  then show ?case
    using member_le_sum [of p xs f] member_le_sum [of q xs f] by auto
qed

lemma alloc_disjoint:
  assumes L: "layout F A" and u: "(u, s) \<in> set A" and w: "(w, t) \<in> set A" "(w, t) \<noteq> (u, s)"
  shows "unat u + unat s + 16 \<le> unat w \<or> unat w + unat t + 16 \<le> unat u"
proof (rule ccontr)
  assume no: "\<not> ?thesis"
  let ?x = "max (unat u - 8) (unat w - 8)"
  note U = alloc_in_heap [OF L u] and W = alloc_in_heap [OF L w(1)]
  have "aocc ?x (u, s) + aocc ?x (w, t) \<le> cover F A ?x"
    using sum_list_two [OF u w(1), of "aocc ?x"] w(2) by (auto simp: cover_def)
  moreover have "aocc ?x (u, s) = 1" "aocc ?x (w, t) = 1"
    using no U W by (auto simp: occ_def)
  ultimately show False using cover_le1 [OF L, of ?x] by simp
qed

lemma free_alloc_disjoint:
  assumes L: "layout F A" and a: "(a, z) \<in> set F" and u: "(u, s) \<in> set A"
  shows "unat a + unat z + 8 \<le> unat u \<or> unat u + unat s + 8 \<le> unat a"
proof (rule ccontr)
  assume no: "\<not> ?thesis"
  let ?x = "max (unat a) (unat u - 8)"
  note U = alloc_in_heap [OF L u] and W = free_in_heap [OF L a]
  have "focc ?x (a, z) \<le> (\<Sum>p\<leftarrow>F. focc ?x p)" "aocc ?x (u, s) \<le> (\<Sum>p\<leftarrow>A. aocc ?x p)"
    using member_le_sum [OF a, of "focc ?x"] member_le_sum [OF u, of "aocc ?x"] by simp_all
  moreover have "focc ?x (a, z) = 1" "aocc ?x (u, s) = 1"
    using no U W by (auto simp: occ_def)
  ultimately show False using cover_le1 [OF L, of ?x] by (simp add: cover_def)
qed

text \<open>Free ranges as a \<open>std::map\<close>.\<close>

lemma gap_less: "gap p q \<Longrightarrow> fst p < fst q"
  by (simp add: gap_def word_lt_unat)

lemma free_ok_om_ok: "free_ok F \<Longrightarrow> om_ok F"
  unfolding free_ok_def om_ok_def sorted_wrt_map
  by (auto elim!: sorted_wrt_mono_rel [rotated] simp: gap_def word_lt_unat)

lemma layout_om_ok: "layout F A \<Longrightarrow> om_ok F" and layout_um_ok: "layout F A \<Longrightarrow> um_ok A"
  by (auto simp: layout_def alloc_ok_def free_ok_om_ok)

lemma free_ok_append:
  "free_ok (xs @ ys) \<longleftrightarrow> free_ok xs \<and> free_ok ys \<and> (\<forall>p\<in>set xs. \<forall>q\<in>set ys. gap p q)"
  by (auto simp: free_ok_def sorted_wrt_append)

lemma free_ok_Cons:
  "free_ok (p # ys) \<longleftrightarrow> range_ok p \<and> free_ok ys \<and> (\<forall>q\<in>set ys. gap p q)"
  by (auto simp: free_ok_def)

lemma free_ok_Nil [simp]: "free_ok []"
  by (simp add: free_ok_def)

end
