(* ===== verification/HeapOps.thy ===== *)
theory HeapOps
  imports HeapLayout
begin

text \<open>
  The effect of the heap operations on the layout: the choice of \<open>first_fit\<close>, carving a block
  out of a free range, coalescing a released range, and shrinking or growing a block in place.
  Each lemma says that the result is again a layout and which entries changed.
\<close>

section \<open>Inserting and erasing in the middle of a sorted table\<close>

lemma om_emplace_mid:
  "\<forall>p\<in>set xs. fst p < k \<Longrightarrow> \<forall>p\<in>set ys. k < fst p \<Longrightarrow>
     om_emplace k v (xs @ ys) = xs @ (k, v) # ys"
proof (induction xs)
  case Nil
  then show ?case by (cases ys) auto
next
  case (Cons p xs)
  then show ?case by (cases p) auto
qed

lemma al_erase_mid: "k \<notin> fst ` set xs \<Longrightarrow> al_erase k (xs @ (k, v) # ys) = xs @ ys"
  by (induction xs) auto

lemma takeWhile_split:
  "\<forall>p\<in>set xs. P p \<Longrightarrow> \<forall>p\<in>set ys. \<not> P p \<Longrightarrow> takeWhile P (xs @ ys) = xs"
  by (induction xs) (cases ys; auto)+

lemma dropWhile_split:
  "\<forall>p\<in>set xs. P p \<Longrightarrow> \<forall>p\<in>set ys. \<not> P p \<Longrightarrow> dropWhile P (xs @ ys) = ys"
  by (induction xs) (cases ys; auto)+

abbreviation fsum :: "(VirtPtr \<times> size_t) list \<Rightarrow> nat \<Rightarrow> nat" where
  "fsum F x \<equiv> (\<Sum>p\<leftarrow>F. focc x p)"

section \<open>Coalescing\<close>

text \<open>
  A range that fits between the ranges \<open>bef\<close> and \<open>aft\<close> of the table is merged with a neighbour
  that touches it.  The end of a range computed with 32-bit addition is its end as a number.
\<close>

lemma range_end:
  assumes "range_ok (a, s)"
  shows "unat (a + vp s) = unat a + unat s"
proof -
  have "unat (vp s) = unat s" using assms by (simp add: range_ok_def unat_vp)
  then show ?thesis using assms by (subst unat_add32) (auto simp: range_ok_def)
qed

lemma range_join:
  assumes "range_ok (a, s)" "range_ok (b, t)" "unat a + unat s = unat b"
  shows "range_ok (a, s + t)" "unat (s + t) = unat s + unat t"
proof -
  show e: "unat (s + t) = unat s + unat t"
    using assms by (subst unat_add64) (auto simp: range_ok_def)
  show "range_ok (a, s + t)" using assms e by (auto simp: range_ok_def)
qed

lemma merge_prev_spec:
  assumes F: "free_ok (bef @ aft)" and r: "range_ok (start, s)"
    and b: "\<forall>p\<in>set bef. unat (fst p) + unat (snd p) \<le> unat start"
    and a: "\<forall>p\<in>set aft. unat start + unat s \<le> unat (fst p)"
  obtains a' z bef' where "merge_prev start s (bef @ aft) = (a', z, bef' @ aft)"
    "range_ok (a', z)" "unat a' + unat z = unat start + unat s"
    "\<forall>p\<in>set bef'. gap p (a', z)" "free_ok (bef' @ aft)"
    "\<forall>x. fsum bef' x + occ (unat a') (unat z) x = fsum bef x + occ (unat start) (unat s) x"
proof -
  have pos: "\<forall>p\<in>set (bef @ aft). 0 < unat (snd p)"
    using F by (auto simp: free_ok_def range_ok_def)
  have tw: "takeWhile (\<lambda>(a, b). a \<le> start) (bef @ aft) = bef"
    using b a pos r
    by (intro takeWhile_split) (fastforce simp: word_le_unat range_ok_def)+
  show ?thesis
  proof (cases bef rule: rev_cases)
    case Nil
    then show ?thesis
      using that [of start s "[]"] F r tw by (simp add: merge_prev_def)
  next
    case (snoc xs p)
    obtain pa ps where p: "p = (pa, ps)" by (cases p)
    have rp: "range_ok (pa, ps)" using F by (auto simp: snoc p free_ok_def)
    note pe = range_end [OF rp]
    have gxs: "\<forall>q\<in>set xs. gap q (pa, ps)" and fxs: "free_ok (xs @ aft)"
      using F by (auto simp: snoc p free_ok_append free_ok_Cons)
    show ?thesis
    proof (cases "pa + vp ps = start")
      case True
      then have touch: "unat pa + unat ps = unat start" using pe by simp
      note J = range_join [OF rp r touch]
      have "pa \<notin> fst ` set xs" using gxs by (auto simp: gap_def)
      then have "al_erase pa (bef @ aft) = xs @ aft" by (simp add: snoc p al_erase_mid)
      with True tw have "merge_prev start s (bef @ aft) = (pa, s + ps, xs @ aft)"
        by (simp add: merge_prev_def snoc p)
      moreover have "fsum xs x + occ (unat pa) (unat (s + ps)) x
        = fsum bef x + occ (unat start) (unat s) x" for x
        using J(2) touch occ_join [of "unat pa" "unat ps" x "unat s"]
        by (simp add: snoc p add.commute [of s ps])
      ultimately show ?thesis
        using J touch gxs fxs
        by (intro that [of pa "s + ps" xs]) (auto simp: add.commute [of s ps] gap_def)
    next
      case False
      then have "unat pa + unat ps \<noteq> unat start" using pe by (auto simp: word_unat_eq_iff)
      then have "unat pa + unat ps < unat start" using b by (auto simp: snoc p)
      moreover have "\<forall>q\<in>set xs. gap q (start, s)"
        using gxs calculation by (auto simp: gap_def)
      ultimately show ?thesis
        using False tw F r
        by (intro that [of start s bef]) (auto simp: merge_prev_def snoc p gap_def)
    qed
  qed
qed

lemma merge_next_spec:
  assumes F: "free_ok (bef @ aft)" and r: "range_ok (start, s)"
    and b: "\<forall>p\<in>set bef. gap p (start, s)"
    and a: "\<forall>p\<in>set aft. unat start + unat s \<le> unat (fst p)"
  obtains z aft' where "merge_next start s (bef @ aft) = (z, bef @ aft')"
    "free_ok (bef @ (start, z) # aft')"
    "\<forall>x. occ (unat start) (unat z) x + fsum aft' x = occ (unat start) (unat s) x + fsum aft x"
proof -
  have lb: "om_lower_bound start (bef @ aft) = aft"
    unfolding om_lower_bound_def using b a
    by (intro dropWhile_split) (fastforce simp: word_lt_unat gap_def)+
  note e = range_end [OF r]
  have gb: "\<forall>p\<in>set bef. \<forall>z. gap p (start, z)" using b by (auto simp: gap_def)
  show ?thesis
  proof (cases aft)
    case Nil
    then show ?thesis
      using that [of s "[]"] F r b lb by (simp add: merge_next_def free_ok_append free_ok_Cons)
  next
    case (Cons q ys)
    obtain qa qs where q: "q = (qa, qs)" by (cases q)
    have rq: "range_ok (qa, qs)" and fb: "free_ok bef" "free_ok ys"
      and gq: "\<forall>p\<in>set ys. gap (qa, qs) p" "\<forall>p\<in>set bef. \<forall>q\<in>set ys. gap p q"
      using F by (auto simp: Cons q free_ok_append free_ok_Cons)
    show ?thesis
    proof (cases "start + vp s = qa")
      case True
      then have touch: "unat start + unat s = unat qa" using e by simp
      note J = range_join [OF r rq touch]
      have "qa \<notin> fst ` set bef" using F by (auto simp: Cons q free_ok_append free_ok_Cons gap_def)
      then have "al_erase qa (bef @ aft) = bef @ ys" by (simp add: Cons q al_erase_mid)
      with True lb have "merge_next start s (bef @ aft) = (s + qs, bef @ ys)"
        by (simp add: merge_next_def Cons q)
      moreover have "\<forall>p\<in>set ys. gap (start, s + qs) p"
        using gq(1) J(2) touch by (auto simp: gap_def)
      moreover have "occ (unat start) (unat (s + qs)) x + fsum ys x
        = occ (unat start) (unat s) x + fsum aft x" for x
        using J(2) touch occ_join [of "unat start" "unat s" x "unat qs"] by (simp add: Cons q)
      ultimately show ?thesis
        using J(1) gb gq fb
        by (intro that [of "s + qs" ys]) (auto simp: free_ok_append free_ok_Cons)
    next
      case False
      then have "unat start + unat s \<noteq> unat qa" using e by (auto simp: word_unat_eq_iff)
      then have lt: "unat start + unat s < unat qa" using a by (auto simp: Cons q)
      then have "\<forall>p\<in>set ys. gap (start, s) p" using gq(1) by (auto simp: gap_def)
      then show ?thesis
        using False lb lt gb gq fb rq r F
        by (intro that [of s aft])
          (auto simp: merge_next_def Cons q free_ok_append free_ok_Cons gap_def)
    qed
  qed
qed

lemma coalesce_split:
  assumes F: "free_ok (bef @ aft)" and r: "range_ok (start, s)"
    and b: "\<forall>p\<in>set bef. unat (fst p) + unat (snd p) \<le> unat start"
    and a: "\<forall>p\<in>set aft. unat start + unat s \<le> unat (fst p)"
  shows "free_ok (coalesce start s (bef @ aft))"
    and "fsum (coalesce start s (bef @ aft)) x = fsum (bef @ aft) x + occ (unat start) (unat s) x"
proof -
  obtain a' z bef' where
    P: "merge_prev start s (bef @ aft) = (a', z, bef' @ aft)"
      "range_ok (a', z)" "unat a' + unat z = unat start + unat s"
      "\<forall>p\<in>set bef'. gap p (a', z)" "free_ok (bef' @ aft)"
    and Ps: "\<forall>x. fsum bef' x + occ (unat a') (unat z) x = fsum bef x + occ (unat start) (unat s) x"
    by (rule merge_prev_spec [OF F r b a])
  have a': "\<forall>p\<in>set aft. unat a' + unat z \<le> unat (fst p)" using a P(3) by simp
  obtain z' aft' where
    N: "merge_next a' z (bef' @ aft) = (z', bef' @ aft')" "free_ok (bef' @ (a', z') # aft')"
    and Ns: "\<forall>x. occ (unat a') (unat z') x + fsum aft' x = occ (unat a') (unat z) x + fsum aft x"
    by (rule merge_next_spec [OF P(5,2,4) a'])
  have "om_emplace a' z' (bef' @ aft') = bef' @ (a', z') # aft'"
    using N(2) by (intro om_emplace_mid)
      (auto simp: free_ok_append free_ok_Cons gap_def word_lt_unat)
  then have c: "coalesce start s (bef @ aft) = bef' @ (a', z') # aft'"
    by (simp add: coalesce_def P(1) N(1))
  show "free_ok (coalesce start s (bef @ aft))" using N(2) by (simp add: c)
  show "fsum (coalesce start s (bef @ aft)) x = fsum (bef @ aft) x + occ (unat start) (unat s) x"
    using Ps [rule_format, of x] Ns [rule_format, of x] by (simp add: c)
qed

text \<open>Any free table splits at a range that overlaps none of its entries.\<close>

lemma free_split:
  assumes F: "free_ok F"
    and d: "\<forall>p\<in>set F. unat (fst p) + unat (snd p) \<le> a \<or> a + n \<le> unat (fst p)"
  obtains bef aft where "F = bef @ aft"
    "\<forall>p\<in>set bef. unat (fst p) + unat (snd p) \<le> a" "\<forall>p\<in>set aft. a + n \<le> unat (fst p)"
proof -
  have "\<exists>bef aft. F = bef @ aft \<and> (\<forall>p\<in>set bef. unat (fst p) + unat (snd p) \<le> a)
    \<and> (\<forall>p\<in>set aft. a + n \<le> unat (fst p))"
    using F d
  proof (induction F)
    case Nil
    then show ?case by simp
  next
    case (Cons p F)
    show ?case
    proof (cases "unat (fst p) + unat (snd p) \<le> a")
      case True
      from Cons obtain bef aft where "F = bef @ aft"
        "\<forall>p\<in>set bef. unat (fst p) + unat (snd p) \<le> a" "\<forall>p\<in>set aft. a + n \<le> unat (fst p)"
        by (auto simp: free_ok_Cons)
      with True show ?thesis by (intro exI [of _ "p # bef"] exI [of _ aft]) auto
    next
      case False
      with Cons.prems have "a + n \<le> unat (fst p)" by auto
      moreover have "\<forall>q\<in>set F. unat (fst p) < unat (fst q)"
        using Cons.prems(1) by (auto simp: free_ok_Cons gap_def)
      ultimately show ?thesis
        by (intro exI [of _ "[]"] exI [of _ "p # F"]) (auto intro: order_trans less_imp_le)
    qed
  qed
  with that show ?thesis by blast
qed

lemma coalesce_ok:
  assumes F: "free_ok F" and r: "range_ok (start, s)"
    and d: "\<forall>p\<in>set F. unat (fst p) + unat (snd p) \<le> unat start
              \<or> unat start + unat s \<le> unat (fst p)"
  shows "free_ok (coalesce start s F)"
    and "fsum (coalesce start s F) x = fsum F x + occ (unat start) (unat s) x"
proof -
  obtain bef aft where S: "F = bef @ aft"
    "\<forall>p\<in>set bef. unat (fst p) + unat (snd p) \<le> unat start"
    "\<forall>p\<in>set aft. unat start + unat s \<le> unat (fst p)" by (rule free_split [OF F d])
  show "free_ok (coalesce start s F)"
    using F S(2,3) r unfolding S(1) by (intro coalesce_split(1)) auto
  show "fsum (coalesce start s F) x = fsum F x + occ (unat start) (unat s) x"
    using F S(2,3) r unfolding S(1) by (intro coalesce_split(2)) auto
qed

section \<open>Taking the front of a free range\<close>

definition take_front ::
  "VirtPtr \<Rightarrow> size_t \<Rightarrow> size_t \<Rightarrow> (VirtPtr \<times> size_t) list \<Rightarrow> (VirtPtr \<times> size_t) list" where
  "take_front a s t F =
     (if t < s then om_emplace (a + vp t) (s - t) (al_erase a F) else al_erase a F)"

lemma take_front_ok:
  assumes F: "free_ok F" and a: "(a, s) \<in> set F"
    and t: "unat t \<le> unat s" "16 dvd unat t" "0 < unat t"
  shows "free_ok (take_front a s t F)"
    and "fsum (take_front a s t F) x + occ (unat a) (unat t) x = fsum F x"
proof -
  from a obtain xs ys where S: "F = xs @ (a, s) # ys" by (auto simp: in_set_conv_decomp)
  have f: "free_ok xs" "free_ok ys" "range_ok (a, s)" "\<forall>p\<in>set xs. gap p (a, s)"
    "\<forall>q\<in>set ys. gap (a, s) q" "\<forall>p\<in>set xs. \<forall>q\<in>set ys. gap p q"
    using F by (auto simp: S free_ok_append free_ok_Cons)
  have "a \<notin> fst ` set xs" using f(4) by (auto simp: gap_def)
  then have er: "al_erase a F = xs @ ys" by (simp add: S al_erase_mid)
  have E: "free_ok (take_front a s t F)
    \<and> fsum (take_front a s t F) x + occ (unat a) (unat t) x = fsum F x"
  proof (cases "t < s")
    case True
    have ra: "range_ok (a, t)" using t f(3) by (auto simp: range_ok_def)
    note e = range_end [OF ra]
    have d: "unat (s - t) = unat s - unat t" using True by (simp add: unat_sub_le less_imp_le)
    have lt: "unat t < unat s" using True by (simp add: word_lt_unat)
    have rr: "range_ok (a + vp t, s - t)"
      using f(3) t lt e d by (auto simp: range_ok_def)
    have g: "\<forall>p\<in>set xs. gap p (a + vp t, s - t)" "\<forall>q\<in>set ys. gap (a + vp t, s - t) q"
      using f(4,5) e d lt by (auto simp: gap_def)
    then have "om_emplace (a + vp t) (s - t) (xs @ ys) = xs @ (a + vp t, s - t) # ys"
      by (intro om_emplace_mid) (auto simp: gap_def word_lt_unat)
    moreover have "occ (unat a) (unat t) x + occ (unat (a + vp t)) (unat (s - t)) x
      = occ (unat a) (unat s) x"
      unfolding e d using occ_split [OF t(1), of "unat a" x] by simp
    ultimately show ?thesis
      using True er f g rr by (auto simp: take_front_def S free_ok_append free_ok_Cons)
  next
    case False
    then have "unat t = unat s" using t(1) by (simp add: word_lt_unat)
    with False er f show ?thesis by (simp add: take_front_def S free_ok_append)
  qed
  from E show "free_ok (take_front a s t F)" by blast
  from E show "fsum (take_front a s t F) x + occ (unat a) (unat t) x = fsum F x" by blast
qed

section \<open>Operations on layouts\<close>

lemma layoutI:
  assumes "free_ok F" "alloc_ok A" "\<And>x. cover F A x = (if in_heap x then 1 else 0)"
  shows "layout F A"
  using assms by (simp add: layout_def)

lemma layout_cover: "layout F A \<Longrightarrow> cover F A x = (if in_heap x then 1 else 0)"
  by (simp add: layout_def)

lemma layout_free_ok: "layout F A \<Longrightarrow> free_ok F" and layout_alloc_ok: "layout F A \<Longrightarrow> alloc_ok A"
  by (simp_all add: layout_def)

text \<open>Allocating: the front of a free range becomes a block; its user pointer is new.\<close>

lemma user_ptr:
  assumes "unat a + 8 < 4294967296"
  shows "unat (vp (sz a + kCookieSize)) = unat a + 8"
proof -
  have "unat (sz a + kCookieSize) = unat a + 8" using assms by (subst unat_add64) auto
  then show ?thesis using assms by (simp add: unat_vp)
qed

lemma block_start:
  assumes "8 \<le> unat u"
  shows "unat (vp (sz u - kCookieSize)) = unat u - 8"
proof -
  have "unat (sz u - kCookieSize) = unat u - 8" using assms by (simp add: unat_sub_le word_le_unat)
  then show ?thesis using unat32_lt [of u] by (simp add: unat_vp)
qed

lemma alloc_layout:
  assumes L: "layout F A" and a: "(a, s) \<in> set F" and t: "unat t \<le> unat s"
    and n: "unat t = unat n + 16" "16 dvd unat n"
  defines "u \<equiv> vp (sz a + kCookieSize)"
  shows "layout (take_front a s t F) (um_emplace u n A)" and "u \<notin> fst ` set A"
    and "unat u = unat a + 8"
proof -
  note H = free_in_heap [OF L a]
  have F: "free_ok F" and A: "alloc_ok A" using L by (auto simp: layout_def)
  have al: "16 dvd unat a" using F a by (auto simp: free_ok_def range_ok_def)
  show u: "unat u = unat a + 8" unfolding u_def using H by (intro user_ptr) auto
  show fresh: "u \<notin> fst ` set A"
  proof
    assume "u \<in> fst ` set A"
    then obtain r where r: "(u, r) \<in> set A" by auto
    from free_alloc_disjoint [OF L a r] show False using u H by auto
  qed
  have t16: "16 dvd unat t" "0 < unat t" using n by auto
  note T = take_front_ok [OF F a t t16]
  have um: "um_ok A" using A by (simp add: alloc_ok_def)
  show "layout (take_front a s t F) (um_emplace u n A)"
  proof (rule layoutI [OF T(1)])
    show "alloc_ok (um_emplace u n A)"
      using A umap.emplace_ok [OF um] umap.set_emplace [OF um fresh] u al n(2)
      by (auto simp: alloc_ok_def)
    show "cover (take_front a s t F) (um_emplace u n A) x = (if in_heap x then 1 else 0)" for x
      using T(2) [of x] umap.sum_emplace [OF um fresh, of "aocc x" n] layout_cover [OF L, of x]
      by (simp add: cover_def u n(1))
  qed
qed

text \<open>Releasing: the whole block, cookies included, goes back to the free ranges.\<close>

lemma block_range:
  assumes L: "layout F A" and u: "(u, s) \<in> set A"
  shows "range_ok (vp (sz u - kCookieSize), s + 2 * kCookieSize)"
    and "unat (vp (sz u - kCookieSize)) = unat u - 8"
    and "unat (s + 2 * kCookieSize) = unat s + 16"
proof -
  note H = alloc_in_heap [OF L u]
  have al: "16 dvd unat u + 8" "16 dvd unat s" using L u by (auto simp: layout_def alloc_ok_def)
  show b: "unat (vp (sz u - kCookieSize)) = unat u - 8" using H by (intro block_start) simp
  have "unat (2 * kCookieSize) = 16" by (simp add: kCookieSize_def)
  then show e: "unat (s + 2 * kCookieSize) = unat s + 16" using H by (subst unat_add64) auto
  have "unat u - 8 = (unat u + 8) - 16" using H by simp
  moreover have "16 dvd unat u + 8 - 16" using al(1) by (rule dvd_diff_nat) simp
  ultimately show "range_ok (vp (sz u - kCookieSize), s + 2 * kCookieSize)"
    using H al b e by (auto simp: range_ok_def)
qed

lemma free_layout:
  assumes L: "layout F A" and u: "(u, s) \<in> set A"
  shows "layout (coalesce (vp (sz u - kCookieSize)) (s + 2 * kCookieSize) F) (al_erase u A)"
proof -
  note R = block_range [OF L u]
  have F: "free_ok F" and A: "alloc_ok A" and um: "um_ok A" using L by (auto simp: layout_def alloc_ok_def)
  have d: "\<forall>p\<in>set F. unat (fst p) + unat (snd p) \<le> unat (vp (sz u - kCookieSize))
      \<or> unat (vp (sz u - kCookieSize)) + unat (s + 2 * kCookieSize) \<le> unat (fst p)"
    using free_alloc_disjoint [OF L _ u] alloc_in_heap [OF L u] by (fastforce simp: R)
  note C = coalesce_ok [OF F R(1) d]
  show ?thesis
  proof (rule layoutI [OF C(1)])
    show "alloc_ok (al_erase u A)"
      using A umap.erase_ok [OF um] al_erase_subset [of u A] by (auto simp: alloc_ok_def)
    show "cover (coalesce (vp (sz u - kCookieSize)) (s + 2 * kCookieSize) F) (al_erase u A) x
      = (if in_heap x then 1 else 0)" for x
      using C(2) [of x] umap.sum_erase [OF um u, of "aocc x"] layout_cover [OF L, of x]
      by (simp add: cover_def R)
  qed
qed

text \<open>Shrinking: the tail of the block, after the new trailing cookie, is released.\<close>

lemma shrink_layout:
  assumes L: "layout F A" and u: "(u, s) \<in> set A"
    and n: "unat n < unat s" "16 dvd unat n"
  defines "tail \<equiv> vp (sz (u + vp n) + kCookieSize)"
  shows "layout (coalesce tail (s - n) F) (um_set u n A)" and "unat tail = unat u + unat n + 8"
proof -
  note H = alloc_in_heap [OF L u]
  have F: "free_ok F" and A: "alloc_ok A" and um: "um_ok A" using L by (auto simp: layout_def alloc_ok_def)
  have al: "16 dvd unat u + 8" "16 dvd unat s" using A u by (auto simp: alloc_ok_def)
  have "unat (u + vp n) = unat u + unat n" using H n by (subst unat_add32) (auto simp: unat_vp)
  then show tl: "unat tail = unat u + unat n + 8"
    unfolding tail_def using H n by (subst user_ptr) auto
  have d: "unat (s - n) = unat s - unat n" using n by (simp add: unat_sub_le word_le_unat)
  have "16 dvd (unat u + 8) + unat n" using al(1) n(2) by (rule dvd_add)
  moreover have "16 dvd unat s - unat n" using al(2) n(2) by (rule dvd_diff_nat)
  ultimately have r: "range_ok (tail, s - n)"
    using H n tl d by (auto simp: range_ok_def add_ac)
  have dis: "\<forall>p\<in>set F. unat (fst p) + unat (snd p) \<le> unat tail
      \<or> unat tail + unat (s - n) \<le> unat (fst p)"
    using free_alloc_disjoint [OF L _ u] n by (fastforce simp: tl d)
  note C = coalesce_ok [OF F r dis]
  show "layout (coalesce tail (s - n) F) (um_set u n A)"
  proof (rule layoutI [OF C(1)])
    show "alloc_ok (um_set u n A)"
      using A um_set_ok [OF um] set_um_set [OF u um] al n(2) by (auto simp: alloc_ok_def)
    have "aocc x (u, s) = aocc x (u, n) + occ (unat tail) (unat (s - n)) x" for x
      using n H by (auto simp: occ_def tl d)
    then show "cover (coalesce tail (s - n) F) (um_set u n A) x = (if in_heap x then 1 else 0)"
      for x
      using C(2) [of x] sum_um_set [OF u um, of "aocc x" n] layout_cover [OF L, of x]
      by (simp add: cover_def)
  qed
qed

text \<open>Growing into the free range that starts right after the trailing cookie.\<close>

lemma grow_layout:
  assumes L: "layout F A" and u: "(u, s) \<in> set A"
    and n: "unat s < unat n" "16 dvd unat n"
    and tl: "(tail, z) \<in> set F" "unat tail = unat u + unat s + 8"
    and z: "unat (n - s) \<le> unat z"
  shows "layout (take_front tail z (n - s) F) (um_set u n A)"
    and "unat u + unat n + 8 \<le> 0x30000000"
proof -
  note H = alloc_in_heap [OF L u]
  have F: "free_ok F" and A: "alloc_ok A" and um: "um_ok A" using L by (auto simp: layout_def alloc_ok_def)
  have al: "16 dvd unat s" using A u by (auto simp: alloc_ok_def)
  have d: "unat (n - s) = unat n - unat s" using n by (simp add: unat_sub_le word_le_unat)
  have "16 dvd unat (n - s)" unfolding d using n(2) al by (rule dvd_diff_nat)
  note T = take_front_ok [OF F tl(1) z this]
  have pos: "0 < unat (n - s)" using d n by simp
  show bnd: "unat u + unat n + 8 \<le> 0x30000000"
    using free_in_heap [OF L tl(1)] tl(2) z d n by simp
  show "layout (take_front tail z (n - s) F) (um_set u n A)"
  proof (rule layoutI [OF T(1) [OF pos]])
    show "alloc_ok (um_set u n A)"
      using A um_set_ok [OF um] set_um_set [OF u um] u n(2) by (auto simp: alloc_ok_def)
    have "aocc x (u, n) = aocc x (u, s) + occ (unat tail) (unat (n - s)) x" for x
      using n H by (auto simp: occ_def tl d)
    then show "cover (take_front tail z (n - s) F) (um_set u n A) x = (if in_heap x then 1 else 0)"
      for x
      using T(2) [OF pos, of x] sum_um_set [OF u um, of "aocc x" n] layout_cover [OF L, of x]
      by (simp add: cover_def)
  qed
qed

end
