(* ===== verification/HeapInv.thy ===== *)
theory HeapInv
  imports HeapOps
begin

text \<open>
  The invariant of the virtual heap and the behaviour of its operations: the mappings are in
  order, the free ranges and the live blocks partition the region, and both cookies of every live
  block are intact.  Allocation, release and reallocation keep it and never reach \<open>abort()\<close>.
\<close>

section \<open>Heap addresses on the host\<close>

definition heap_real :: "MemoryManager \<Rightarrow> RealPtr" where
  "heap_real m = (case dynamicHeapBlock m of Some hb \<Rightarrow> realAddress hb | None \<Rightarrow> 0)"

lemma heap_translate:
  assumes "region_inv m" "in_heap (unat v)"
  shows "unat (GetRealAddr m v) = unat (heap_real m) + (unat v - 0x20000000)"
proof -
  from assms(1) obtain hb where hb: "dynamicHeapBlock m = Some hb" "hb \<in> set (blocks m)"
    "virtualAddress hb = MEM_DYNAMIC_HEAP_BASE" "csize hb = MEM_DYNAMIC_HEAP_SIZE" "whole_block hb"
    by (auto simp: region_inv_def)
  have c: "MemoryBlock_ContainsVAddr hb v"
    using assms(2) whole_ContainsVAddr [OF hb(5)] by (simp add: hb in_heap_def)
  show ?thesis
    using whole_GetRAddr [OF hb(5) c] GetRealAddr_block [OF assms(1) hb(2) c]
    by (simp add: heap_real_def hb)
qed

lemma heap_real_bound:
  assumes "region_inv m"
  shows "unat (heap_real m) + 0x10000000 < 18446744073709551616" "0 < unat (heap_real m)"
proof -
  from assms obtain hb where hb: "dynamicHeapBlock m = Some hb"
    "virtualAddress hb = MEM_DYNAMIC_HEAP_BASE" "csize hb = MEM_DYNAMIC_HEAP_SIZE" "whole_block hb"
    by (auto simp: region_inv_def)
  with whole_blockD [OF hb(4)] show "unat (heap_real m) + 0x10000000 < 18446744073709551616"
    "0 < unat (heap_real m)"
    by (auto simp: heap_real_def fits_def)
qed

lemma heap_translate_nz:
  assumes "region_inv m" "in_heap (unat v)"
  shows "GetRealAddr m v \<noteq> 0"
  using heap_translate [OF assms] heap_real_bound(2) [OF assms(1)]
  by (metis add_gr_0 less_irrefl unat_0)

text \<open>Translation looks at the blocks only.\<close>

lemma GetRealAddr_cong: "blocks m' = blocks m \<Longrightarrow> GetRealAddr m' v = GetRealAddr m v"
  by (simp add: GetRealAddr_def)

lemma GetRealAddr_upd [simp]:
  "GetRealAddr (m\<lparr>heapFree := f\<rparr>) v = GetRealAddr m v"
  "GetRealAddr (m\<lparr>heapAlloc := a\<rparr>) v = GetRealAddr m v"
  "GetRealAddr (m\<lparr>hmem := h\<rparr>) v = GetRealAddr m v"
  "GetRealAddr (m\<lparr>breaks := n\<rparr>) v = GetRealAddr m v"
  by (simp_all add: GetRealAddr_def)

lemma region_inv_upd [simp]:
  "region_inv (m\<lparr>heapFree := f\<rparr>) = region_inv m"
  "region_inv (m\<lparr>heapAlloc := a\<rparr>) = region_inv m"
  "region_inv (m\<lparr>hmem := h\<rparr>) = region_inv m"
  "region_inv (m\<lparr>breaks := n\<rparr>) = region_inv m"
  by (simp_all add: region_inv_def)

lemma HeapContains_iff:
  assumes "region_inv m"
  shows "HeapContains m v \<longleftrightarrow> in_heap (unat v)"
proof -
  from assms obtain hb where hb: "dynamicHeapBlock m = Some hb"
    "virtualAddress hb = MEM_DYNAMIC_HEAP_BASE" "heapSize m = MEM_DYNAMIC_HEAP_SIZE"
    by (auto simp: region_inv_def)
  have "unat (sz MEM_DYNAMIC_HEAP_BASE + MEM_DYNAMIC_HEAP_SIZE) = 0x30000000"
    by (subst unat_add64) auto
  then show ?thesis
    by (simp add: HeapContains_def hb Let_def word_le_unat word_lt_unat in_heap_def)
qed

section \<open>Cookies\<close>

definition cookie_at :: "MemoryManager \<Rightarrow> VirtPtr \<Rightarrow> bool" where
  "cookie_at m a \<longleftrightarrow> load_le 8 (hmem m) (GetRealAddr m a) = kHeapCookie"

definition block_cookies :: "MemoryManager \<Rightarrow> VirtPtr \<times> size_t \<Rightarrow> bool" where
  "block_cookies m p \<longleftrightarrow> cookie_at m (vp (sz (fst p) - kCookieSize))
     \<and> cookie_at m (fst p + vp (snd p))"

lemma cookie_at_upd [simp]:
  "cookie_at (m\<lparr>heapFree := f\<rparr>) v = cookie_at m v"
  "cookie_at (m\<lparr>heapAlloc := a\<rparr>) v = cookie_at m v"
  "cookie_at (m\<lparr>breaks := n\<rparr>) v = cookie_at m v"
  by (simp_all add: cookie_at_def)

lemma block_cookies_upd [simp]:
  "block_cookies (m\<lparr>heapFree := f\<rparr>) v = block_cookies m v"
  "block_cookies (m\<lparr>heapAlloc := a\<rparr>) v = block_cookies m v"
  "block_cookies (m\<lparr>breaks := n\<rparr>) v = block_cookies m v"
  by (simp_all add: block_cookies_def)

lemma WriteCookie_sel [simp]:
  "blocks (WriteCookie a m) = blocks m" "heapFree (WriteCookie a m) = heapFree m"
  "heapAlloc (WriteCookie a m) = heapAlloc m" "breaks (WriteCookie a m) = breaks m"
  "heapSize (WriteCookie a m) = heapSize m"
  "dynamicHeapBlock (WriteCookie a m) = dynamicHeapBlock m"
  by (simp_all add: WriteCookie_def Let_def)

lemma WriteCookie_real [simp]: "GetRealAddr (WriteCookie a m) v = GetRealAddr m v"
  by (rule GetRealAddr_cong) simp

lemma WriteCookie_region [simp]: "region_inv (WriteCookie a m) = region_inv m"
  by (simp add: region_inv_def)

lemma WriteCookie_heap_real [simp]: "heap_real (WriteCookie a m) = heap_real m"
  by (simp add: heap_real_def)

lemma cookie_write_same:
  assumes "region_inv m" "in_heap (unat a)"
  shows "cookie_at (WriteCookie a m) a"
  using heap_translate_nz [OF assms]
  by (simp add: cookie_at_def) (simp add: WriteCookie_def load_store_cookie)

lemma cookie_write_other:
  assumes inv: "region_inv m" and a: "0x20000000 \<le> unat a" "unat a + 8 \<le> 0x30000000"
    and b: "0x20000000 \<le> unat b" "unat b + 8 \<le> 0x30000000"
    and ne: "unat a + 8 \<le> unat b \<or> unat b + 8 \<le> unat a"
  shows "cookie_at (WriteCookie b m) a = cookie_at m a"
proof -
  have ha: "in_heap (unat a)" "in_heap (unat b)" using a b by (auto simp: in_heap_def)
  note A = heap_translate [OF inv ha(1)] and B = heap_translate [OF inv ha(2)]
  note R = heap_real_bound [OF inv]
  have "load_le 8 (store_le 8 (hmem m) (GetRealAddr m b) kHeapCookie) (GetRealAddr m a)
    = load_le 8 (hmem m) (GetRealAddr m a)"
    using ne a b R by (intro load_store_disjoint) (auto simp: A B)
  then show ?thesis
    using heap_translate_nz [OF inv ha(2)]
    by (simp add: cookie_at_def) (simp add: WriteCookie_def)
qed

lemma CheckCookie_iff:
  assumes "region_inv m" "in_heap (unat a)"
  shows "CheckCookie m a = (if cookie_at m a then Returned () else Aborted)"
  using heap_translate_nz [OF assms] by (simp add: CheckCookie_def cookie_at_def Let_def)

lemma check_cookies_iff:
  assumes inv: "region_inv m" and A: "\<forall>p\<in>set A. in_heap (unat (vp (sz (fst p) - kCookieSize)))
    \<and> in_heap (unat (fst p + vp (snd p)))"
  shows "check_cookies m A = (if \<forall>p\<in>set A. block_cookies m p then Returned () else Aborted)"
  using A
proof (induction A)
  case Nil
  then show ?case by simp
next
  case (Cons p A)
  obtain u s where p: "p = (u, s)" by (cases p)
  show ?case
    using Cons by (simp add: p CheckCookie_iff [OF inv] block_cookies_def)
qed

text \<open>The two cookies of a block, in natural numbers.\<close>

lemma block_ends:
  assumes L: "layout F A" and u: "(u, s) \<in> set A"
  shows "unat (vp (sz u - kCookieSize)) = unat u - 8" and "unat (u + vp s) = unat u + unat s"
    and "in_heap (unat (vp (sz u - kCookieSize)))" and "in_heap (unat (u + vp s))"
proof -
  note H = alloc_in_heap [OF L u]
  show a: "unat (vp (sz u - kCookieSize)) = unat u - 8" using H by (intro block_start) simp
  show b: "unat (u + vp s) = unat u + unat s"
    using H by (subst unat_add32) (auto simp: unat_vp)
  show "in_heap (unat (vp (sz u - kCookieSize)))" "in_heap (unat (u + vp s))"
    using H unfolding a b by (auto simp: in_heap_def)
qed

section \<open>The invariant\<close>

definition hinv :: "MemoryManager \<Rightarrow> bool" where
  "hinv m \<longleftrightarrow> region_inv m \<and> layout (heapFree m) (heapAlloc m)
     \<and> (\<forall>p\<in>set (heapAlloc m). block_cookies m p)"

lemma hinvD:
  assumes "hinv m"
  shows "region_inv m" "layout (heapFree m) (heapAlloc m)" "alloc_ok (heapAlloc m)"
    "um_ok (heapAlloc m)" "free_ok (heapFree m)" "\<And>p. p \<in> set (heapAlloc m) \<Longrightarrow> block_cookies m p"
  using assms by (auto simp: hinv_def layout_def alloc_ok_def)

lemma check_cookies_layout:
  assumes "region_inv m" "layout (heapFree m) (heapAlloc m)"
  shows "check_cookies m (heapAlloc m)
    = (if \<forall>p\<in>set (heapAlloc m). block_cookies m p then Returned () else Aborted)"
  using block_ends(3,4) [OF assms(2)] by (intro check_cookies_iff [OF assms(1)]) auto

lemma check_cookies_hinv: "hinv m \<Longrightarrow> check_cookies m (heapAlloc m) = Returned ()"
  by (simp add: check_cookies_layout hinvD)

text \<open>Writing a cookie outside a block's own cookies keeps them.\<close>

lemma block_cookies_write:
  assumes inv: "region_inv m" and L: "layout F A" and p: "(w, t) \<in> set A"
    and c: "block_cookies m (w, t)" and b: "0x20000000 \<le> unat b" "unat b + 8 \<le> 0x30000000"
    and far: "unat b + 8 \<le> unat w - 8 \<or> unat w \<le> unat b \<and> unat b + 8 \<le> unat w + unat t
      \<or> unat w + unat t + 8 \<le> unat b"
  shows "block_cookies (WriteCookie b m) (w, t)"
proof -
  note H = alloc_in_heap [OF L p] and E = block_ends [OF L p]
  have "cookie_at (WriteCookie b m) (vp (sz w - kCookieSize)) = cookie_at m (vp (sz w - kCookieSize))"
    using H b far by (intro cookie_write_other [OF inv]) (auto simp: E)
  moreover have "cookie_at (WriteCookie b m) (w + vp t) = cookie_at m (w + vp t)"
    using H b far by (intro cookie_write_other [OF inv]) (auto simp: E)
  ultimately show ?thesis using c by (simp add: block_cookies_def)
qed

text \<open>The constructor establishes it.\<close>

lemma MemoryManager_new_hinv:
  assumes ret: "MemoryManager_new h mem = Returned m"
    and host: "host_ok h (m\<lparr>blocks := []\<rparr>)"
  shows "hinv m"
proof -
  note M = MemoryManager_new_eq [OF ret]
  have "layout [(MEM_DYNAMIC_HEAP_BASE, MEM_DYNAMIC_HEAP_SIZE)] []"
    by (auto simp: layout_def free_ok_def range_ok_def alloc_ok_def um_ok_def cover_def occ_def
        in_heap_def)
  then show ?thesis
    using MemoryManager_new_region_inv [OF assms] by (simp add: hinv_def M(3))
qed

section \<open>Guest bytes\<close>

text \<open>The byte the guest sees at an address, and what a cookie does to the others.\<close>

definition gread :: "MemoryManager \<Rightarrow> VirtPtr \<Rightarrow> byte" where
  "gread m v = hmem m (GetRealAddr m v)"

lemma gread_upd [simp]:
  "gread (m\<lparr>heapFree := f\<rparr>) v = gread m v"
  "gread (m\<lparr>heapAlloc := a\<rparr>) v = gread m v"
  "gread (m\<lparr>breaks := n\<rparr>) v = gread m v"
  by (simp_all add: gread_def)

lemma in_heap_allocated:
  assumes "region_inv m" "in_heap (unat v)"
  shows "isVAddrAllocated m v"
  using heap_translate_nz [OF assms] GetRealAddr_null_iff [OF assms(1)] by blast

lemma GetRealAddr_inj:
  assumes "region_inv m" "isVAddrAllocated m v" "isVAddrAllocated m w"
    and "GetRealAddr m v = GetRealAddr m w"
  shows "v = w"
  using translate_roundtrip [OF assms(1,2)] translate_roundtrip [OF assms(1,3)] assms(4) by metis

text \<open>A host address inside the image of a heap range comes from a guest address inside it.\<close>

lemma heap_range_real:
  assumes inv: "region_inv m" and b: "0x20000000 \<le> unat b" "unat b + k \<le> 0x30000000"
    and v: "isVAddrAllocated m v" and d: "unat (GetRealAddr m v - GetRealAddr m b) < k"
  shows "unat b \<le> unat v" "unat v < unat b + k"
    and "unat (GetRealAddr m v - GetRealAddr m b) = unat v - unat b"
proof -
  define i where "i = unat (GetRealAddr m v - GetRealAddr m b)"
  let ?w = "b + of_nat i"
  have ik: "i < k" using d by (simp add: i_def)
  then have iw: "unat (of_nat i :: 32 word) = i" using b by (simp add: unat_of_nat)
  have w: "unat ?w = unat b + i" using b ik iw by (subst unat_add32) auto
  have hw: "in_heap (unat ?w)" "in_heap (unat b)" using b ik w by (auto simp: in_heap_def)
  note R = heap_real_bound [OF inv]
  have r: "GetRealAddr m v = GetRealAddr m b + of_nat i"
    by (simp add: i_def)
  have "unat (GetRealAddr m ?w) = unat (GetRealAddr m b) + i"
    using heap_translate [OF inv hw(1)] heap_translate [OF inv hw(2)] w b by simp
  moreover have "unat (GetRealAddr m b + of_nat i) = unat (GetRealAddr m b) + i"
    using heap_translate [OF inv hw(2)] R b ik by (intro unat_add_of_nat) simp
  ultimately have "GetRealAddr m v = GetRealAddr m ?w" by (simp add: r word_unat_eq_iff)
  then have "v = ?w" using GetRealAddr_inj [OF inv v in_heap_allocated [OF inv hw(1)]] by simp
  then have "unat v = unat b + i" using w by simp
  then show "unat b \<le> unat v" "unat v < unat b + k"
    "unat (GetRealAddr m v - GetRealAddr m b) = unat v - unat b"
    unfolding i_def [symmetric] using ik by linarith+
qed

lemma gread_WriteCookie:
  assumes inv: "region_inv m" and b: "0x20000000 \<le> unat b" "unat b + 8 \<le> 0x30000000"
    and v: "isVAddrAllocated m v" "unat v < unat b \<or> unat b + 8 \<le> unat v"
  shows "gread (WriteCookie b m) v = gread m v"
proof -
  have "\<not> unat (GetRealAddr m v - GetRealAddr m b) < 8"
    using heap_range_real(1,2) [OF inv b v(1)] v(2) by auto
  then show ?thesis
    by (simp add: gread_def) (simp add: WriteCookie_def Let_def store_le_def)
qed

section \<open>Allocation\<close>

lemma first_fit_find:
  assumes "free_ok F"
  shows "first_fit t F = find (\<lambda>p. t \<le> snd p) F"
  using assms
proof (induction t F rule: first_fit.induct)
  case (2 t a z F)
  then have "16 dvd unat a" "free_ok F" by (auto simp: free_ok_Cons range_ok_def)
  with 2 show ?case by (auto simp: AlignUp_id sz_def [of 0])
qed simp

lemma carve_take_front:
  assumes r: "range_ok (a, z)" and t: "unat t \<le> unat z"
  shows "(if a + vp t < a + vp z then om_emplace (a + vp t) (sz (vp z - vp t)) (al_erase a F)
          else al_erase a F) = take_front a z t F"
proof -
  have z: "unat a + unat z \<le> 0x30000000" using r by (simp add: range_ok_def)
  have v: "unat (vp z) = unat z" "unat (vp t) = unat t" using z t by (auto simp: unat_vp)
  have e: "unat (a + vp z) = unat a + unat z" "unat (a + vp t) = unat a + unat t"
    using z t v by (auto simp: unat_add32)
  have "unat (vp z - vp t) = unat (z - t)"
    using t v by (simp add: unat_sub_le word_le_unat)
  then have "sz (vp z - vp t) = z - t" by (simp add: word_unat_eq_iff)
  then show ?thesis by (simp add: take_front_def word_lt_unat e)
qed

lemma heap_carve_eq:
  assumes r: "range_ok (a, z)" and t: "unat t \<le> unat z"
  defines "u \<equiv> vp (sz a + kCookieSize)"
  shows "heap_carve m a z n t =
    (u, WriteCookie (u + vp n) (WriteCookie a m)
        \<lparr>heapFree := take_front a z t (heapFree m), heapAlloc := um_emplace u n (heapAlloc m)\<rparr>)"
proof -
  have al: "16 dvd unat a" using r by (simp add: range_ok_def)
  note T = carve_take_front [OF r t, of "heapFree m"]
  have up: "WriteCookie b (m'\<lparr>heapFree := f\<rparr>) = (WriteCookie b m')\<lparr>heapFree := f\<rparr>" for b m' f
    by (simp add: WriteCookie_def Let_def)
  have sz0: "sz 0 = 0" by (simp add: sz_def)
  show ?thesis
    unfolding heap_carve_def Let_def AlignUp_id [OF al] vp_sz u_def [symmetric]
    by (simp add: sz0 up u_def [symmetric] T [symmetric])
qed

text \<open>Sizes of a request: the rounded user size and the whole block.\<close>

lemma request_sizes:
  assumes "0 < unat s" "unat s + 31 < 18446744073709551616"
  defines "n \<equiv> AlignUp s kHeapAlign"
  shows "unat s \<le> unat n" "unat n < unat s + 16" "16 dvd unat n" "0 < unat n"
    and "unat (n + 2 * kCookieSize) = unat n + 16"
proof -
  have s: "unat s + 15 < 18446744073709551616" using assms(2) by simp
  show le: "unat s \<le> unat n" and lt: "unat n < unat s + 16" and "16 dvd unat n"
    using AlignUp_bounds [OF s] by (simp_all add: n_def)
  show "0 < unat n" using le assms(1) by simp
  have c: "unat (2 * kCookieSize) = 16" by (simp add: kCookieSize_def)
  show "unat (n + 2 * kCookieSize) = unat n + 16"
    using lt assms(2) c by (subst unat_add64) auto
qed

lemma HeapAlloc_Some:
  assumes inv: "hinv m" and s: "0 < unat s" "unat s + 31 < 18446744073709551616"
    and f: "find (\<lambda>p. unat (AlignUp s kHeapAlign) + 16 \<le> unat (snd p)) (heapFree m) = Some (a, z)"
  defines "n \<equiv> AlignUp s kHeapAlign" and "u \<equiv> vp (sz a + kCookieSize)"
  defines "m' \<equiv> WriteCookie (u + vp n) (WriteCookie a m)
        \<lparr>heapFree := take_front a z (n + 2 * kCookieSize) (heapFree m),
         heapAlloc := um_emplace u n (heapAlloc m)\<rparr>"
  shows "HeapAlloc m out s = (ERROR_OK, u, m')" and "hinv m'" and "u \<notin> fst ` set (heapAlloc m)"
    and "unat u = unat a + 8" and "(a, z) \<in> set (heapFree m)" and "unat n + 16 \<le> unat z"
proof -
  note D = hinvD [OF inv] and N = request_sizes [OF s, folded n_def]
  let ?t = "n + 2 * kCookieSize"
  from f obtain i where "i < length (heapFree m)" "unat n + 16 \<le> unat (snd (heapFree m ! i))"
    "(a, z) = heapFree m ! i"
    by (auto simp: find_Some_iff n_def)
  then show mem: "(a, z) \<in> set (heapFree m)" and le: "unat n + 16 \<le> unat z"
    by (auto simp: in_set_conv_nth intro!: exI [of _ i]) (metis snd_conv)
  have t: "unat ?t \<le> unat z" using N(5) le by simp
  have r: "range_ok (a, z)" using D(5) mem by (auto simp: free_ok_def)
  have ff: "first_fit ?t (heapFree m) = Some (a, z)"
    using f by (simp add: first_fit_find [OF D(5)] word_le_unat N(5) n_def [symmetric])
  have db: "dynamicHeapBlock m \<noteq> None" using D(1) by (auto simp: region_inv_def)
  have s0: "s \<noteq> 0" using s(1) by auto
  show "HeapAlloc m out s = (ERROR_OK, u, m')"
    by (simp add: HeapAlloc_def db s0 Let_def n_def [symmetric] ff heap_carve_eq [OF r t]
        u_def [symmetric] m'_def)
  note AL = alloc_layout [OF D(2) mem t N(5,3), folded u_def]
  show fresh: "u \<notin> fst ` set (heapAlloc m)" and u: "unat u = unat a + 8" by (rule AL)+
  let ?A = "um_emplace u n (heapAlloc m)"
  note H = free_in_heap [OF D(2) mem]
  have hA: "(u, n) \<in> set ?A" using umap.set_emplace [OF D(4) fresh] by simp
  note E = block_ends [OF AL(1) hA] and G = alloc_in_heap [OF AL(1) hA]
  have a: "vp (sz u - kCookieSize) = a" using E(1) u by (simp add: word_unat_eq_iff)
  have ia: "in_heap (unat a)" using H by (auto simp: in_heap_def)
  define m1 where "m1 = WriteCookie a m"
  have reg1: "region_inv m1" using D(1) by (simp add: m1_def)
  have new: "block_cookies (WriteCookie (u + vp n) m1) (u, n)"
  proof -
    have "cookie_at m1 a" unfolding m1_def by (rule cookie_write_same [OF D(1) ia])
    moreover have "cookie_at (WriteCookie (u + vp n) m1) a = cookie_at m1 a"
      using H G u by (intro cookie_write_other [OF reg1]) (auto simp: E)
    moreover have "cookie_at (WriteCookie (u + vp n) m1) (u + vp n)"
      by (rule cookie_write_same [OF reg1 E(4)])
    ultimately show ?thesis by (simp add: block_cookies_def a)
  qed
  have old: "block_cookies (WriteCookie (u + vp n) m1) (w, t)"
    if w: "(w, t) \<in> set (heapAlloc m)" for w t
  proof -
    note W = alloc_in_heap [OF D(2) w]
    note dis = free_alloc_disjoint [OF D(2) mem w]
    have "block_cookies m1 (w, t)"
      unfolding m1_def using dis H W le
      by (intro block_cookies_write [OF D(1,2) w D(6) [OF w]]) auto
    moreover have "region_inv m1" by (rule reg1)
    ultimately show ?thesis
      using dis H W G le u by (intro block_cookies_write [OF reg1 D(2) w]) (auto simp: E)
  qed
  have "set ?A = insert (u, n) (set (heapAlloc m))" by (rule umap.set_emplace [OF D(4) fresh])
  then have "\<forall>p\<in>set ?A. block_cookies (WriteCookie (u + vp n) m1) p" using new old by auto
  then show "hinv m'"
    using reg1 AL(1) by (simp add: hinv_def m'_def m1_def)
qed

lemma HeapAlloc_None:
  assumes inv: "hinv m" and s: "0 < unat s" "unat s + 31 < 18446744073709551616"
    and f: "find (\<lambda>p. unat (AlignUp s kHeapAlign) + 16 \<le> unat (snd p)) (heapFree m) = None"
  shows "HeapAlloc m out s = (ERROR_MEM_ALLOC_FAIL, out, m\<lparr>breaks := Suc (breaks m)\<rparr>)"
proof -
  note D = hinvD [OF inv] and N = request_sizes [OF s]
  have db: "dynamicHeapBlock m \<noteq> None" using D(1) by (auto simp: region_inv_def)
  have "s \<noteq> 0" using s(1) by auto
  then show ?thesis
    using f by (simp add: HeapAlloc_def db Let_def first_fit_find [OF D(5)] word_le_unat N(5))
qed

end
