(* ===== verification/HeapSafety.thy ===== *)
theory HeapSafety
  imports HeapInv
begin

text \<open>
  Release and reallocation under the heap invariant: they never abort, report exactly the
  addresses that are not live, keep the contents of the other blocks and, for a reallocation, the
  common prefix of the block.  The table of free ranges is a function of the live blocks.
\<close>

section \<open>The free table is determined by the live blocks\<close>

abbreviation fcover :: "(VirtPtr \<times> size_t) list \<Rightarrow> nat \<Rightarrow> nat" where
  "fcover F x \<equiv> (\<Sum>p\<leftarrow>F. focc x p)"

lemma fcover_outside:
  assumes "\<forall>q\<in>set F. x < unat (fst q)"
  shows "fcover F x = 0"
  using assms by (induction F) (auto simp: occ_def)

lemma fcover_head:
  assumes "free_ok ((a, s) # F)"
  shows "\<And>x. x < unat a \<Longrightarrow> fcover ((a, s) # F) x = 0"
    and "\<And>x. unat a \<le> x \<Longrightarrow> x < unat a + unat s \<Longrightarrow> fcover ((a, s) # F) x = 1"
    and "fcover ((a, s) # F) (unat a + unat s) = 0"
proof -
  from assms have g: "\<forall>q\<in>set F. unat a + unat s < unat (fst q)" and s: "0 < unat s"
    by (auto simp: free_ok_Cons gap_def range_ok_def)
  show "fcover ((a, s) # F) x = 0" if "x < unat a" for x
    using that fcover_outside [of F x] g by (fastforce simp: occ_def)
  show "fcover ((a, s) # F) x = 1" if "unat a \<le> x" "x < unat a + unat s" for x
    using that fcover_outside [of F x] g by (fastforce simp: occ_def)
  show "fcover ((a, s) # F) (unat a + unat s) = 0"
    using fcover_outside [of F "unat a + unat s"] g by (simp add: occ_def)
qed

lemma free_ok_head_eq:
  assumes F: "free_ok ((a, s) # F)" and G: "free_ok ((b, t) # G)"
    and eq: "\<And>x. fcover ((a, s) # F) x = fcover ((b, t) # G) x"
  shows "(a, s) = (b, t)"
proof -
  note f = fcover_head [OF F] and g = fcover_head [OF G]
  have s: "0 < unat s" "0 < unat t" using F G by (auto simp: free_ok_Cons range_ok_def)
  have "\<not> unat a < unat b"
    using f(2) [of "unat a"] g(1) [of "unat a"] eq [of "unat a"] s by linarith
  moreover have "\<not> unat b < unat a"
    using g(2) [of "unat b"] f(1) [of "unat b"] eq [of "unat b"] s by linarith
  ultimately have ab: "unat a = unat b" by simp
  have "\<not> unat s < unat t"
    using f(3) g(2) [of "unat a + unat s"] eq [of "unat a + unat s"] ab by linarith
  moreover have "\<not> unat t < unat s"
    using g(3) f(2) [of "unat b + unat t"] eq [of "unat b + unat t"] ab by linarith
  ultimately show ?thesis using ab by (simp add: word_unat_eq_iff)
qed

lemma free_ok_unique:
  assumes "free_ok F" "free_ok G" "\<And>x. fcover F x = fcover G x"
  shows "F = G"
  using assms
proof (induction F arbitrary: G)
  case Nil
  show ?case
  proof (cases G)
    case (Cons q G')
    obtain b t where q: "q = (b, t)" by (cases q)
    have "0 < unat t" using Nil.prems(2) by (simp add: Cons q free_ok_Cons range_ok_def)
    then have "fcover G (unat b) = 1"
      using fcover_head(2) [of b t G' "unat b"] Nil.prems(2) by (simp add: Cons q)
    then show ?thesis using Nil.prems(3) [of "unat b"] by simp
  qed simp
next
  case (Cons p F)
  obtain a s where p: "p = (a, s)" by (cases p)
  show ?case
  proof (cases G)
    case Nil
    have "0 < unat s" using Cons.prems(1) by (simp add: p free_ok_Cons range_ok_def)
    then have "fcover (p # F) (unat a) = 1"
      using fcover_head(2) [of a s F "unat a"] Cons.prems(1) by (simp add: p)
    then show ?thesis using Cons.prems(3) [of "unat a"] Nil by simp
  next
    case (Cons q G')
    obtain b t where q: "q = (b, t)" by (cases q)
    have G: "free_ok ((b, t) # G')" using Cons.prems(2) by (simp add: Cons q)
    have F: "free_ok ((a, s) # F)" using Cons.prems(1) by (simp add: p)
    have eq: "fcover ((a, s) # F) x = fcover ((b, t) # G') x" for x
      using Cons.prems(3) [of x] by (simp only: Cons p q)
    have h: "(a, s) = (b, t)" by (rule free_ok_head_eq [OF F G eq])
    moreover have "F = G'"
      using F G eq h by (intro Cons.IH) (auto simp: free_ok_Cons)
    ultimately show ?thesis by (simp add: Cons p q)
  qed
qed

lemma sum_list_mset: "(\<Sum>p\<leftarrow>xs. f p) = sum_mset (image_mset f (mset xs))"
  by (metis mset_map sum_mset_sum_list)

lemma layout_unique:
  assumes "layout F A" "layout G B" "mset A = mset B"
  shows "F = G"
proof (rule free_ok_unique)
  show "free_ok F" "free_ok G" using assms by (auto simp: layout_def)
  have "(\<Sum>p\<leftarrow>A. aocc x p) = (\<Sum>p\<leftarrow>B. aocc x p)" for x
    by (simp only: sum_list_mset assms(3))
  then show "fcover F x = fcover G x" for x
    using layout_cover [OF assms(1), of x] layout_cover [OF assms(2), of x]
    by (simp add: cover_def)
qed

section \<open>Release\<close>

lemma HeapFree_live:
  assumes inv: "hinv m" and u: "(u, n) \<in> set (heapAlloc m)"
  defines "m' \<equiv> m\<lparr>heapAlloc := al_erase u (heapAlloc m),
    heapFree := coalesce (vp (sz u - kCookieSize)) (n + 2 * kCookieSize) (heapFree m)\<rparr>"
  shows "HeapFree m u = Returned (ERROR_OK, m')" and "hinv m'"
proof -
  note D = hinvD [OF inv]
  have "map_of (heapAlloc m) u = Some n" using D(4) u by (simp add: um_ok_def)
  then show "HeapFree m u = Returned (ERROR_OK, m')"
    by (simp add: HeapFree_def check_cookies_hinv [OF inv] Let_def CoalesceAround_def m'_def)
  show "hinv m'"
    using D free_layout [OF D(2) u] al_erase_subset [of u "heapAlloc m"]
    by (auto simp: hinv_def m'_def)
qed

lemma HeapFree_dead:
  assumes "hinv m" "u \<notin> fst ` set (heapAlloc m)"
  shows "HeapFree m u = Returned (ERROR_MEM_ADDR_NOT_ALLOCATED, m)"
proof -
  have "map_of (heapAlloc m) u = None" using assms(2) by (simp add: map_of_eq_None_iff)
  then show ?thesis by (simp add: HeapFree_def check_cookies_hinv [OF assms(1)])
qed

lemma HeapFree_damaged:
  assumes "region_inv m" "layout (heapFree m) (heapAlloc m)"
    and "p \<in> set (heapAlloc m)" "\<not> block_cookies m p"
  shows "HeapFree m u = Aborted"
  using assms(3,4) check_cookies_layout [OF assms(1,2)] by (auto simp: HeapFree_def)

lemma live_in_heap:
  assumes "hinv m" "(u, n) \<in> set (heapAlloc m)"
  shows "HeapContains m u" "u \<noteq> 0"
proof -
  note H = alloc_in_heap [OF hinvD(2) [OF assms(1)] assms(2)]
  then show "HeapContains m u"
    using HeapContains_iff [OF hinvD(1) [OF assms(1)]] by (simp add: in_heap_def)
  show "u \<noteq> 0" using H by auto
qed

lemma live_unique: "hinv m \<Longrightarrow> (u, n) \<in> set (heapAlloc m) \<Longrightarrow> (u, n') \<in> set (heapAlloc m) \<Longrightarrow> n = n'"
  using hinvD(4) [of m] by (auto simp: um_ok_def eq_key_imp_eq_value)

lemma GetAllocSize_live:
  assumes "hinv m" "(u, n) \<in> set (heapAlloc m)"
  shows "GetAllocSize m u = n"
proof -
  have "map_of (heapAlloc m) u = Some n"
    using hinvD(4) [OF assms(1)] assms(2) by (simp add: um_ok_def)
  then show ?thesis using live_in_heap [OF assms] by (simp add: GetAllocSize_def)
qed

section \<open>Guest writes\<close>

definition user_area :: "(VirtPtr \<times> size_t) list \<Rightarrow> VirtPtr \<Rightarrow> bool" where
  "user_area A v \<longleftrightarrow> (\<exists>(u, n)\<in>set A. unat u \<le> unat v \<and> unat v < unat u + unat n)"

lemma cookie_bytes:
  assumes inv: "region_inv m" and b: "0x20000000 \<le> unat b" "unat b + 8 \<le> 0x30000000" and i: "i < 8"
  shows "GetRealAddr m b + of_nat i = GetRealAddr m (b + of_nat i)"
    and "unat (b + of_nat i) = unat b + i"
proof -
  have "unat (of_nat i :: 32 word) = i" using i by (simp add: unat_of_nat)
  then show w: "unat (b + of_nat i) = unat b + i" using b i by (subst unat_add32) auto
  have "in_heap (unat (b + of_nat i))" "in_heap (unat b)" unfolding w using b i by (auto simp: in_heap_def)
  note A = heap_translate [OF inv this(1)] heap_translate [OF inv this(2)]
  have "unat (GetRealAddr m b + of_nat i) = unat (GetRealAddr m b) + i"
    using A(2) heap_real_bound [OF inv] b i by (intro unat_add_of_nat) simp
  then show "GetRealAddr m b + of_nat i = GetRealAddr m (b + of_nat i)"
    using A w b by (simp add: word_unat_eq_iff)
qed

lemma cookie_kept:
  assumes inv: "region_inv m" and b: "0x20000000 \<le> unat b" "unat b + 8 \<le> 0x30000000"
    and eq: "\<And>v. unat b \<le> unat v \<Longrightarrow> unat v < unat b + 8 \<Longrightarrow>
      h (GetRealAddr m v) = hmem m (GetRealAddr m v)"
  shows "cookie_at (m\<lparr>hmem := h\<rparr>) b = cookie_at m b"
proof -
  have "load_le 8 h (GetRealAddr m b) = load_le 8 (hmem m) (GetRealAddr m b)"
  proof (rule load_le_cong)
    fix i :: nat assume i: "i < 8"
    note C = cookie_bytes [OF inv b i]
    show "h (GetRealAddr m b + of_nat i) = hmem m (GetRealAddr m b + of_nat i)"
      unfolding C(1) using C(2) i by (intro eq) auto
  qed
  then show ?thesis by (simp add: cookie_at_def)
qed

lemma not_user_area:
  assumes L: "layout F A" and p: "(w, t) \<in> set A"
    and v: "unat w - 8 \<le> unat v \<and> unat v < unat w
      \<or> unat w + unat t \<le> unat v \<and> unat v < unat w + unat t + 8"
  shows "\<not> user_area A v"
proof
  assume "user_area A v"
  then obtain u n where u: "(u, n) \<in> set A" "unat u \<le> unat v" "unat v < unat u + unat n"
    by (auto simp: user_area_def)
  note W = alloc_in_heap [OF L p]
  show False
  proof (cases "(u, n) = (w, t)")
    case True
    then show False using u v W by auto
  next
    case False
    from alloc_disjoint [OF L p u(1) False] show False using u v W by auto
  qed
qed

lemma hinv_user_write:
  assumes inv: "hinv m"
    and frame: "\<And>v. in_heap (unat v) \<Longrightarrow> \<not> user_area (heapAlloc m) v \<Longrightarrow>
      h (GetRealAddr m v) = hmem m (GetRealAddr m v)"
  shows "hinv (m\<lparr>hmem := h\<rparr>)"
proof -
  note D = hinvD [OF inv]
  have "block_cookies (m\<lparr>hmem := h\<rparr>) (w, t)" if p: "(w, t) \<in> set (heapAlloc m)" for w t
  proof -
    note H = alloc_in_heap [OF D(2) p] and E = block_ends [OF D(2) p]
    have "cookie_at (m\<lparr>hmem := h\<rparr>) (vp (sz w - kCookieSize)) = cookie_at m (vp (sz w - kCookieSize))"
      using H not_user_area [OF D(2) p]
      by (intro cookie_kept [OF D(1)] frame) (auto simp: E in_heap_def)
    moreover have "cookie_at (m\<lparr>hmem := h\<rparr>) (w + vp t) = cookie_at m (w + vp t)"
      using H not_user_area [OF D(2) p]
      by (intro cookie_kept [OF D(1)] frame) (auto simp: E in_heap_def)
    ultimately show ?thesis using D(6) [OF p] by (simp add: block_cookies_def)
  qed
  then show ?thesis using D(1,2) by (auto simp: hinv_def)
qed

end
