(* ===== verification/HeapRealloc.thy ===== *)
theory HeapRealloc
  imports HeapSafety
begin

text \<open>
  Reallocation: in place by giving back the tail of the block or by taking the front of the free
  range behind it, otherwise by allocating, copying and releasing.  In every case the invariant
  holds again and the guest sees the common prefix at the returned address.
\<close>

lemma AlignUp_id64:
  assumes "16 dvd unat v" "unat v + 15 < 18446744073709551616"
  shows "AlignUp v kHeapAlign = v"
proof -
  from assms(1) obtain k where k: "unat v = 16 * k" by blast
  have "unat (AlignUp v kHeapAlign) = unat v" using assms(2) by (simp add: AlignUp16) (simp add: k)
  then show ?thesis by (simp add: word_unat_eq_iff)
qed

lemma WriteCookie_upd:
  "WriteCookie b (m\<lparr>heapFree := f, heapAlloc := a\<rparr>) = (WriteCookie b m)\<lparr>heapFree := f, heapAlloc := a\<rparr>"
  by (simp add: WriteCookie_def Let_def)

lemma isVAddrAllocated_cong: "blocks m' = blocks m \<Longrightarrow> isVAddrAllocated m' v = isVAddrAllocated m v"
  by (simp add: isVAddrAllocated_def)

section \<open>Resizing in place\<close>

definition resized :: "MemoryManager \<Rightarrow> VirtPtr \<Rightarrow> size_t \<Rightarrow> (VirtPtr \<times> size_t) list \<Rightarrow> MemoryManager" where
  "resized m u n F = (WriteCookie (u + vp n) m)\<lparr>heapFree := F, heapAlloc := um_set u n (heapAlloc m)\<rparr>"

lemma resized_hinv:
  assumes inv: "hinv m" and u: "(u, s) \<in> set (heapAlloc m)"
    and L: "layout F (um_set u n (heapAlloc m))"
  shows "hinv (resized m u n F)"
proof -
  note D = hinvD [OF inv]
  let ?A = "um_set u n (heapAlloc m)"
  have A: "set ?A = insert (u, n) (set (heapAlloc m) - {(u, s)})" by (rule set_um_set [OF u D(4)])
  then have un: "(u, n) \<in> set ?A" by simp
  note E = block_ends [OF L un] and G = alloc_in_heap [OF L un]
  have "block_cookies (WriteCookie (u + vp n) m) (w, t)" if w: "(w, t) \<in> set ?A" for w t
  proof (cases "(w, t) = (u, n)")
    case True
    have "cookie_at m (vp (sz u - kCookieSize))" using D(6) [OF u] by (simp add: block_cookies_def)
    moreover have "cookie_at (WriteCookie (u + vp n) m) (vp (sz u - kCookieSize))
      = cookie_at m (vp (sz u - kCookieSize))"
      using G by (intro cookie_write_other [OF D(1)]) (auto simp: E)
    ultimately show ?thesis
      using True cookie_write_same [OF D(1) E(4)] by (simp add: block_cookies_def)
  next
    case False
    then have "(w, t) \<in> set (heapAlloc m)" using w A by auto
    then have c: "block_cookies m (w, t)" by (rule D(6))
    from alloc_disjoint [OF L un w False] G alloc_in_heap [OF L w] show ?thesis
      by (intro block_cookies_write [OF D(1) L w c]) (auto simp: E)
  qed
  then show ?thesis using D(1) L by (auto simp: hinv_def resized_def)
qed

lemma resized_gread:
  assumes inv: "hinv m" and u: "(u, s) \<in> set (heapAlloc m)"
    and L: "layout F (um_set u n (heapAlloc m))"
    and v: "isVAddrAllocated m v" "unat v < unat u + unat n \<or> unat u + unat n + 8 \<le> unat v"
  shows "gread (resized m u n F) v = gread m v"
proof -
  note D = hinvD [OF inv]
  have un: "(u, n) \<in> set (um_set u n (heapAlloc m))" using set_um_set [OF u D(4)] by simp
  note E = block_ends [OF L un] and G = alloc_in_heap [OF L un]
  have "gread (WriteCookie (u + vp n) m) v = gread m v"
    using v G by (intro gread_WriteCookie [OF D(1)]) (auto simp: E)
  then show ?thesis by (simp add: resized_def)
qed

lemma um_set_same: "map_of A u = Some n \<Longrightarrow> um_set u n A = A"
  by (induction u n A rule: um_set.induct) (auto split: if_splits)

lemma TryRealloc_checks:
  assumes inv: "hinv m" and u: "(u, s) \<in> set (heapAlloc m)"
  shows "CheckCookie m (vp (sz u - kCookieSize)) = Returned ()" "CheckCookie m (u + vp s) = Returned ()"
  using block_ends(3,4) [OF hinvD(2) [OF inv] u] hinvD(6) [OF inv u]
  by (simp_all add: CheckCookie_iff [OF hinvD(1) [OF inv]] block_cookies_def)

text \<open>The three outcomes: same size, a resized block, or no room behind the block.\<close>

lemma TryRealloc_same:
  assumes inv: "hinv m" and u: "(u, s) \<in> set (heapAlloc m)"
  shows "TryHeapReallocInPlace m u s s = Returned (True, m)"
proof -
  have "map_of (heapAlloc m) u = Some s" using hinvD(4) [OF inv] u by (simp add: um_ok_def)
  then show ?thesis
    by (simp add: TryHeapReallocInPlace_def TryRealloc_checks [OF inv u] Let_def um_set_same)
qed

lemma TryRealloc_shrink:
  assumes inv: "hinv m" and u: "(u, s) \<in> set (heapAlloc m)"
    and n: "unat n < unat s" "16 dvd unat n"
  obtains F where "TryHeapReallocInPlace m u s n = Returned (True, resized m u n F)"
    "layout F (um_set u n (heapAlloc m))"
proof
  let ?F = "coalesce (vp (sz (u + vp n) + kCookieSize)) (s - n) (heapFree m)"
  have "n \<le> s" "s - n > 0" using n by (auto simp: word_le_unat word_lt_unat unat_sub_le)
  then show "TryHeapReallocInPlace m u s n = Returned (True, resized m u n ?F)"
    by (simp add: TryHeapReallocInPlace_def TryRealloc_checks [OF inv u] Let_def CoalesceAround_def
        resized_def)
  show "layout ?F (um_set u n (heapAlloc m))"
    by (rule shrink_layout [OF hinvD(2) [OF inv] u n])
qed

lemma TryRealloc_grow:
  assumes inv: "hinv m" and u: "(u, s) \<in> set (heapAlloc m)"
    and n: "unat s < unat n" "16 dvd unat n"
  shows "TryHeapReallocInPlace m u s n = Returned (False, m) \<or>
    (\<exists>F. TryHeapReallocInPlace m u s n = Returned (True, resized m u n F)
       \<and> layout F (um_set u n (heapAlloc m)))"
proof -
  note D = hinvD [OF inv]
  define tail where "tail = vp (sz (u + vp s) + kCookieSize)"
  note H = alloc_in_heap [OF D(2) u] and E = block_ends [OF D(2) u]
  have tl: "unat tail = unat u + unat s + 8"
    unfolding tail_def using H by (subst user_ptr) (auto simp: E)
  have le: "\<not> n \<le> s" using n by (simp add: word_le_unat)
  show ?thesis
  proof (cases "\<exists>z. map_of (heapFree m) tail = Some z \<and> n - s \<le> z")
    case True
    then obtain z where z: "map_of (heapFree m) tail = Some z" "n - s \<le> z" by blast
    then have zF: "(tail, z) \<in> set (heapFree m)" by (simp add: map_of_SomeD)
    have nz: "unat (n - s) \<le> unat z" using z(2) by (simp add: word_le_unat)
    note GL = grow_layout [OF D(2) u n zF tl nz]
    have "(z - (n - s) > 0) = (n - s < z)"
      using z(2) nz by (auto simp: word_lt_unat unat_sub_le)
    then have "TryHeapReallocInPlace m u s n
      = Returned (True, resized m u n (take_front tail z (n - s) (heapFree m)))"
      using z by (simp add: TryHeapReallocInPlace_def TryRealloc_checks [OF inv u] le Let_def
          resized_def tail_def [symmetric] take_front_def WriteCookie_upd)
    with GL(1) show ?thesis by blast
  next
    case False
    then have "TryHeapReallocInPlace m u s n = Returned (False, m)"
      by (auto simp: TryHeapReallocInPlace_def TryRealloc_checks [OF inv u] le Let_def
          tail_def [symmetric] split: option.splits)
    then show ?thesis by blast
  qed
qed

section \<open>Moving a block\<close>

lemma user_area_member: "user_area A v \<longleftrightarrow> (\<exists>u n. (u, n) \<in> set A \<and> unat u \<le> unat v \<and> unat v < unat u + unat n)"
  by (auto simp: user_area_def)

text \<open>What a successful allocation leaves of the guest's memory.\<close>

lemma HeapAlloc_gread:
  assumes inv: "hinv m" and s: "0 < unat s" "unat s + 31 < 18446744073709551616"
    and f: "find (\<lambda>p. unat (AlignUp s kHeapAlign) + 16 \<le> unat (snd p)) (heapFree m) = Some (a, z)"
    and ret: "HeapAlloc m out s = (ERROR_OK, u, m')"
    and v: "isVAddrAllocated m v" "\<not> in_heap (unat v) \<or> user_area (heapAlloc m) v"
  shows "gread m' v = gread m v"
proof -
  define n where "n = AlignUp s kHeapAlign"
  note A = HeapAlloc_Some [OF inv s f, folded n_def]
  note D = hinvD [OF inv]
  have u: "u = vp (sz a + kCookieSize)" and m': "m' = WriteCookie (u + vp n) (WriteCookie a m)
        \<lparr>heapFree := take_front a z (n + 2 * kCookieSize) (heapFree m),
         heapAlloc := um_emplace u n (heapAlloc m)\<rparr>"
    using A(1) [of out] ret by auto
  have un: "(u, n) \<in> set (heapAlloc m')"
    using umap.set_emplace [OF D(4) A(3)] by (simp add: m' u)
  have inv': "hinv m'" using A(2) m' u by simp
  note H = free_in_heap [OF D(2) A(5)] and G = alloc_in_heap [OF hinvD(2) [OF inv'] un]
  note E = block_ends [OF hinvD(2) [OF inv'] un]
  have ua: "unat u = unat a + 8" using A(4) u by simp
  have far: "unat v < unat a \<or> unat a + unat n + 16 \<le> unat v"
  proof (cases "in_heap (unat v)")
    case True
    with v(2) obtain w t where w: "(w, t) \<in> set (heapAlloc m)" "unat w \<le> unat v"
      "unat v < unat w + unat t" by (auto simp: user_area_member)
    from free_alloc_disjoint [OF D(2) A(5) w(1)] w(2,3) A(6) show ?thesis by auto
  next
    case False
    with H A(6) show ?thesis by (auto simp: in_heap_def)
  qed
  have "gread (WriteCookie a m) v = gread m v"
    using far H A(6) v(1) by (intro gread_WriteCookie [OF D(1)]) auto
  moreover have "gread (WriteCookie (u + vp n) (WriteCookie a m)) v = gread (WriteCookie a m) v"
    using far G v(1) ua D(1)
    by (intro gread_WriteCookie) (auto simp: E isVAddrAllocated_def)
  ultimately show ?thesis by (simp add: m')
qed

lemma gread_copy:
  assumes inv: "region_inv m" and d: "0x20000000 \<le> unat dst" "unat dst + unat k \<le> 0x30000000"
    and s: "0x20000000 \<le> unat src" "unat src + unat k \<le> 0x30000000"
  defines "m' \<equiv> m\<lparr>hmem := mem_copy (hmem m) (GetRealAddr m dst) (GetRealAddr m src) k\<rparr>"
  shows "\<And>i. unat i < unat k \<Longrightarrow> gread m' (dst + i) = gread m (src + i)"
    and "\<And>v. isVAddrAllocated m v \<Longrightarrow> unat v < unat dst \<or> unat dst + unat k \<le> unat v \<Longrightarrow>
      gread m' v = gread m v"
proof -
  fix i :: VirtPtr assume i: "unat i < unat k"
  have e: "unat (dst + i) = unat dst + unat i" "unat (src + i) = unat src + unat i"
    using i d s by (auto simp: unat_add32)
  have h: "in_heap (unat (dst + i))" "in_heap (unat (src + i))" "in_heap (unat dst)" "in_heap (unat src)"
    using i d s e by (auto simp: in_heap_def)
  note T = heap_translate [OF inv h(1)] heap_translate [OF inv h(2)]
    heap_translate [OF inv h(3)] heap_translate [OF inv h(4)]
  note R = heap_real_bound [OF inv]
  have q: "unat (GetRealAddr m (dst + i) - GetRealAddr m dst) = unat i"
    using T e d by (subst unat_sub_le) (auto simp: word_le_unat)
  have "unat (GetRealAddr m src + (GetRealAddr m (dst + i) - GetRealAddr m dst))
    = unat (GetRealAddr m src) + unat i"
    using T R s i by (subst unat_add64) (auto simp: q)
  then have "GetRealAddr m src + (GetRealAddr m (dst + i) - GetRealAddr m dst) = GetRealAddr m (src + i)"
    using T e s by (simp add: word_unat_eq_iff)
  then show "gread m' (dst + i) = gread m (src + i)"
    using i q by (simp add: gread_def m'_def) (simp add: mem_copy_def word_lt_unat)
next
  fix v assume v: "isVAddrAllocated m v" "unat v < unat dst \<or> unat dst + unat k \<le> unat v"
  have "\<not> unat (GetRealAddr m v - GetRealAddr m dst) < unat k"
    using heap_range_real(1,2) [OF inv d v(1)] v(2) by auto
  then show "gread m' v = gread m v"
    by (simp add: gread_def m'_def) (simp add: mem_copy_def word_lt_unat)
qed

text \<open>
  What a reallocation promises for the block \<open>u\<close> of \<open>s\<close> bytes: the invariant, a block of the new
  size at the returned address with the common prefix of the old one, and every other block and
  every address outside the heap as before.
\<close>

definition in_block :: "VirtPtr \<Rightarrow> size_t \<Rightarrow> VirtPtr \<Rightarrow> bool" where
  "in_block u s v \<longleftrightarrow> unat u \<le> unat v \<and> unat v < unat u + unat s"

definition elsewhere :: "MemoryManager \<Rightarrow> VirtPtr \<Rightarrow> VirtPtr \<Rightarrow> bool" where
  "elsewhere m u v \<longleftrightarrow> isVAddrAllocated m v \<and>
     (\<not> in_heap (unat v) \<or> (\<exists>w t. (w, t) \<in> set (heapAlloc m) \<and> w \<noteq> u \<and> in_block w t v))"

definition realloc_post ::
  "MemoryManager \<Rightarrow> VirtPtr \<Rightarrow> size_t \<Rightarrow> size_t \<Rightarrow> VirtPtr \<Rightarrow> MemoryManager \<Rightarrow> bool" where
  "realloc_post m u s n u' m' \<longleftrightarrow> hinv m'
     \<and> set (heapAlloc m') = insert (u', n) (set (heapAlloc m) - {(u, s)})
     \<and> (\<forall>i. unat i < min (unat s) (unat n) \<longrightarrow> gread m' (u' + i) = gread m (u + i))
     \<and> (\<forall>v. elsewhere m u v \<longrightarrow> gread m' v = gread m v)"

lemma resized_post:
  assumes inv: "hinv m" and u: "(u, s) \<in> set (heapAlloc m)"
    and L: "layout F (um_set u n (heapAlloc m))"
  shows "realloc_post m u s n u (resized m u n F)"
proof -
  note D = hinvD [OF inv] and H = alloc_in_heap [OF hinvD(2) [OF inv] u]
  have A: "set (um_set u n (heapAlloc m)) = insert (u, n) (set (heapAlloc m) - {(u, s)})"
    by (rule set_um_set [OF u D(4)])
  then have un: "(u, n) \<in> set (um_set u n (heapAlloc m))" by simp
  note G = alloc_in_heap [OF L un]
  have pre: "gread (resized m u n F) (u + i) = gread m (u + i)"
    if i: "unat i < min (unat s) (unat n)" for i
  proof -
    have e: "unat (u + i) = unat u + unat i" using i G by (subst unat_add32) auto
    then have "in_heap (unat (u + i))" using i G by (auto simp: in_heap_def)
    from in_heap_allocated [OF D(1) this] show ?thesis
      using i e by (intro resized_gread [OF inv u L]) auto
  qed
  have els: "gread (resized m u n F) v = gread m v" if v: "elsewhere m u v" for v
  proof (cases "in_heap (unat v)")
    case True
    then obtain w t where w: "(w, t) \<in> set (heapAlloc m)" "w \<noteq> u" "in_block w t v"
      using v by (auto simp: elsewhere_def)
    then have "(w, t) \<in> set (um_set u n (heapAlloc m))" "(w, t) \<noteq> (u, n)" using A by auto
    from alloc_disjoint [OF L un this] w(3) v show ?thesis
      by (intro resized_gread [OF inv u L]) (auto simp: in_block_def elsewhere_def)
  next
    case False
    then show ?thesis
      using v G by (intro resized_gread [OF inv u L]) (auto simp: elsewhere_def in_heap_def)
  qed
  show ?thesis
    using resized_hinv [OF inv u L] A pre els by (simp add: realloc_post_def resized_def)
qed

lemma move_post:
  assumes inv: "hinv m" and u: "(u, s) \<in> set (heapAlloc m)"
    and n: "unat s < unat n" "16 dvd unat n" "unat n < 4294967312"
    and ret: "HeapAlloc m 0 n = (ERROR_OK, u', m2)"
  defines "m3 \<equiv> m2\<lparr>hmem := mem_copy (hmem m2) (GetRealAddr m2 u') (GetRealAddr m2 u) s\<rparr>"
  obtains m4 where "HeapFree m3 u = Returned (ERROR_OK, m4)" "realloc_post m u s n u' m4"
    "GetRealAddr m2 u' \<noteq> 0" "GetRealAddr m2 u \<noteq> 0"
proof -
  note D = hinvD [OF inv] and H = alloc_in_heap [OF hinvD(2) [OF inv] u]
  have s: "0 < unat n" "unat n + 31 < 18446744073709551616" using n by auto
  have nn: "AlignUp n kHeapAlign = n" using n by (intro AlignUp_id64) auto
  obtain a z where f: "find (\<lambda>p. unat (AlignUp n kHeapAlign) + 16 \<le> unat (snd p)) (heapFree m) = Some (a, z)"
    using ret HeapAlloc_None [OF inv s] by (cases "find (\<lambda>p. unat (AlignUp n kHeapAlign) + 16 \<le> unat (snd p)) (heapFree m)") auto
  note A = HeapAlloc_Some [OF inv s f, unfolded nn]
  have u': "u' = vp (sz a + kCookieSize)" and m2: "m2 = WriteCookie (u' + vp n) (WriteCookie a m)
        \<lparr>heapFree := take_front a z (n + 2 * kCookieSize) (heapFree m),
         heapAlloc := um_emplace u' n (heapAlloc m)\<rparr>"
    using A(1) [of 0] ret by auto
  have inv2: "hinv m2" using A(2) m2 u' by simp
  have A2: "set (heapAlloc m2) = insert (u', n) (set (heapAlloc m))"
    using umap.set_emplace [OF D(4) A(3)] by (simp add: m2 u')
  have fresh: "u' \<noteq> u" using A(3) u imageI [OF u, of fst] by (auto simp: u')
  have uA2: "(u, s) \<in> set (heapAlloc m2)" and u'A2: "(u', n) \<in> set (heapAlloc m2)" using A2 u by auto
  note D2 = hinvD [OF inv2]
  note G = alloc_in_heap [OF D2(2) u'A2]
  have hu: "in_heap (unat u')" "in_heap (unat u)" using G H s u n by (auto simp: in_heap_def)
  have b2: "blocks m2 = blocks m" by (simp add: m2)
  have C: "unat u + unat s \<le> 0x30000000" "0x20000000 \<le> unat u" "0x20000000 \<le> unat u'"
    "unat u' + unat s \<le> 0x30000000" using H G n by auto
  note cp = gread_copy [OF D2(1) C(3,4,2,1), folded m3_def]
  have al: "isVAddrAllocated m2 v = isVAddrAllocated m v" for v by (rule isVAddrAllocated_cong [OF b2])
  have inv3: "hinv m3"
    unfolding m3_def
  proof (rule hinv_user_write [OF inv2])
    fix v assume v: "in_heap (unat v)" "\<not> user_area (heapAlloc m2) v"
    then have "\<not> (unat u' \<le> unat v \<and> unat v < unat u' + unat n)" using u'A2 by (auto simp: user_area_def)
    then have "gread m3 v = gread m2 v"
      using n in_heap_allocated [OF D2(1) v(1)] by (intro cp(2)) auto
    then show "mem_copy (hmem m2) (GetRealAddr m2 u') (GetRealAddr m2 u) s (GetRealAddr m2 v)
      = hmem m2 (GetRealAddr m2 v)" by (simp add: gread_def m3_def)
  qed
  have A3: "heapAlloc m3 = heapAlloc m2" by (simp add: m3_def)
  then have uA3: "(u, s) \<in> set (heapAlloc m3)" using uA2 by simp
  define m4 where "m4 = m3\<lparr>heapAlloc := al_erase u (heapAlloc m3),
    heapFree := coalesce (vp (sz u - kCookieSize)) (s + 2 * kCookieSize) (heapFree m3)\<rparr>"
  note Fr = HeapFree_live [OF inv3 uA3, folded m4_def]
  have A4: "set (heapAlloc m4) = insert (u', n) (set (heapAlloc m) - {(u, s)})"
    using umap.set_erase [OF hinvD(4) [OF inv3] uA3] A2 fresh by (auto simp: m4_def A3)
  have g4: "gread m4 v = gread m3 v" for v by (simp add: m4_def)
  have old: "gread m2 v = gread m v" if "isVAddrAllocated m v" "\<not> in_heap (unat v) \<or> user_area (heapAlloc m) v" for v
    using that by (rule HeapAlloc_gread [OF inv s f ret])
  have pre: "gread m4 (u' + i) = gread m (u + i)" if i: "unat i < unat s" for i
  proof -
    have e: "unat (u + i) = unat u + unat i" using i H by (subst unat_add32) auto
    then have "user_area (heapAlloc m) (u + i)" "in_heap (unat (u + i))"
      using i u H by (auto simp: user_area_member in_heap_def intro!: exI [of _ u] exI [of _ s])
    then have "gread m2 (u + i) = gread m (u + i)"
      using in_heap_allocated [OF D(1)] by (intro old) auto
    then show ?thesis using cp(1) [OF i] by (simp add: g4)
  qed
  have els: "gread m4 v = gread m v" if v: "elsewhere m u v" for v
  proof -
    have "gread m2 v = gread m v"
      using v by (intro old) (auto simp: elsewhere_def user_area_member in_block_def)
    moreover have "gread m3 v = gread m2 v"
    proof (rule cp(2))
      show "isVAddrAllocated m2 v" using v by (simp add: al elsewhere_def)
      show "unat v < unat u' \<or> unat u' + unat s \<le> unat v"
      proof (cases "in_heap (unat v)")
        case True
        then obtain w t where w: "(w, t) \<in> set (heapAlloc m)" "in_block w t v"
          using v by (auto simp: elsewhere_def)
        have "(w, t) \<noteq> (u', n)" using w(1) A(3) by (auto simp: u' image_iff)
        from alloc_disjoint [OF D2(2) u'A2 _ this] w A2 n show ?thesis by (auto simp: in_block_def)
      next
        case False
        then show ?thesis using G n by (auto simp: in_heap_def)
      qed
    qed
    ultimately show ?thesis by (simp add: g4)
  qed
  show ?thesis
  proof (rule that [OF Fr(1)])
    show "realloc_post m u s n u' m4" using Fr(2) A4 pre els n by (simp add: realloc_post_def)
    show "GetRealAddr m2 u' \<noteq> 0" "GetRealAddr m2 u \<noteq> 0"
      using heap_translate_nz [OF D2(1)] hu by auto
  qed
qed

lemma DynamicRealloc_live:
  assumes inv: "hinv m" and u: "(u, s) \<in> set (heapAlloc m)"
    and new: "0 < unat new" "unat new < 4294967296"
  defines "n \<equiv> AlignUp new kHeapAlign"
  shows "(\<exists>u' m'. DynamicRealloc m u new = Returned (ERROR_OK, u', m') \<and> realloc_post m u s n u' m')
    \<or> DynamicRealloc m u new = Returned (ERROR_MEM_ALLOC_FAIL, u, m\<lparr>breaks := Suc (breaks m)\<rparr>)"
proof -
  note D = hinvD [OF inv]
  have "unat new + 31 < 18446744073709551616" using new by simp
  note N = request_sizes [OF new(1) this, folded n_def]
  have n16: "unat n < 4294967312" using N(2) new by simp
  have lk: "map_of (heapAlloc m) u = Some s" using D(4) u by (simp add: um_ok_def)
  note hc = live_in_heap [OF inv u]
  have n0: "new \<noteq> 0" using new by auto
  note dr = DynamicRealloc_def [of m u new, folded n_def, simplified hc lk n0 Let_def if_False if_True option.case]
  consider (eq) "unat n = unat s" | (lt) "unat n < unat s" | (gt) "unat s < unat n" by linarith
  then show ?thesis
  proof cases
    case eq
    then have "n = s" by (simp add: word_unat_eq_iff)
    then have "DynamicRealloc m u new = Returned (ERROR_OK, u, m)"
      by (simp add: dr TryRealloc_same [OF inv u] n_def [symmetric])
    moreover have "realloc_post m u s n u m"
      using inv u \<open>n = s\<close> by (auto simp: realloc_post_def)
    ultimately show ?thesis by blast
  next
    case lt
    obtain F where F: "TryHeapReallocInPlace m u s n = Returned (True, resized m u n F)"
      "layout F (um_set u n (heapAlloc m))" by (rule TryRealloc_shrink [OF inv u lt N(3)])
    have "DynamicRealloc m u new = Returned (ERROR_OK, u, resized m u n F)"
      by (simp add: dr F(1) n_def [symmetric])
    with resized_post [OF inv u F(2)] show ?thesis by blast
  next
    case gt
    from TryRealloc_grow [OF inv u gt N(3)] show ?thesis
    proof
      assume "\<exists>F. TryHeapReallocInPlace m u s n = Returned (True, resized m u n F)
        \<and> layout F (um_set u n (heapAlloc m))"
      then obtain F where F: "TryHeapReallocInPlace m u s n = Returned (True, resized m u n F)"
        "layout F (um_set u n (heapAlloc m))" by blast
      have "DynamicRealloc m u new = Returned (ERROR_OK, u, resized m u n F)"
        by (simp add: dr F(1) n_def [symmetric])
      with resized_post [OF inv u F(2)] show ?thesis by blast
    next
      assume no: "TryHeapReallocInPlace m u s n = Returned (False, m)"
      have bn: "0 < unat n" "unat n + 31 < 18446744073709551616" using N(4) n16 by auto
      have nn: "AlignUp n kHeapAlign = n" using N(3) n16 by (intro AlignUp_id64) auto
      show ?thesis
      proof (cases "find (\<lambda>p. unat (AlignUp n kHeapAlign) + 16 \<le> unat (snd p)) (heapFree m)")
        case None
        have "DynamicRealloc m u new
          = Returned (ERROR_MEM_ALLOC_FAIL, u, m\<lparr>breaks := Suc (breaks m)\<rparr>)"
          by (simp add: dr no n_def [symmetric] HeapAlloc_None [OF inv bn None])
        then show ?thesis ..
      next
        case (Some p)
        obtain a z where p: "p = (a, z)" by (cases p)
        obtain u' m2 where ret: "HeapAlloc m 0 n = (ERROR_OK, u', m2)"
          using HeapAlloc_Some(1) [OF inv bn Some [unfolded p], of 0] by blast
        obtain m4 where m4:
          "HeapFree (m2\<lparr>hmem := mem_copy (hmem m2) (GetRealAddr m2 u') (GetRealAddr m2 u) s\<rparr>) u
             = Returned (ERROR_OK, m4)" "realloc_post m u s n u' m4"
          "GetRealAddr m2 u' \<noteq> 0" "GetRealAddr m2 u \<noteq> 0"
          by (rule move_post [OF inv u gt N(3) n16 ret])
        have "min s n = s" using gt by (simp add: min_def word_le_unat)
        then have "DynamicRealloc m u new = Returned (ERROR_OK, u', m4)"
          using m4 by (simp add: dr no n_def [symmetric] ret)
        with m4(2) show ?thesis by blast
      qed
    qed
  qed
qed

end
