(* ===== verification/HeapServices.thy ===== *)
theory HeapServices
  imports HeapRealloc
begin

text \<open>
  The heap as the guest uses it: the system calls \<open>lmalloc\<close>, \<open>lcalloc\<close>, \<open>lrealloc\<close>, \<open>_lfree\<close>
  (PrimU/system.cpp) and plain stores, whole runs of them, and the contract other components
  (thread stacks, find contexts) rely on, as a locale.
\<close>

section \<open>System calls\<close>

definition lcalloc :: "SystemServiceArguments \<Rightarrow> MemoryManager \<Rightarrow> u32 \<times> MemoryManager" where
  "lcalloc args m =
     (let (e, addr, m') = DyanmicAlloc m 0 (sz (r0 args * r1 args))
      in if e = ERROR_OK then (addr, m') else (0, m'))"

definition lmalloc :: "SystemServiceArguments \<Rightarrow> MemoryManager \<Rightarrow> u32 \<times> MemoryManager" where
  "lmalloc args m =
     (let (e, addr, m') = DyanmicAlloc m 0 (sz (r0 args))
      in if e = ERROR_OK then (addr, m') else (0, m'))"

definition lrealloc :: "SystemServiceArguments \<Rightarrow> MemoryManager \<Rightarrow> (u32 \<times> MemoryManager) proc" where
  "lrealloc args m =
     (let ptr = r0 args; new_size = r1 args
      in if ptr = 0 then
           let (e, ptr', m') = DyanmicAlloc m ptr (sz new_size) in Returned (ptr', m')
         else proc_bind (DynamicRealloc m ptr (sz new_size)) (\<lambda>(e, ptr', m'). Returned (ptr', m')))"

definition lfree :: "SystemServiceArguments \<Rightarrow> MemoryManager \<Rightarrow> (u32 \<times> MemoryManager) proc" where
  "lfree args m = proc_bind (DynamicFree m (r0 args)) (\<lambda>(err, m'). Returned (r0 args, m'))"

section \<open>Allocation and release, every branch\<close>

lemma size32: "unat (sz n) + 31 < 18446744073709551616"
  using unat32_lt [of n] by simp

lemma sz_eq_0 [simp]: "sz n = 0 \<longleftrightarrow> n = 0"
  by (simp add: word_unat_eq_iff)

text \<open>What an allocation promises.\<close>

definition alloc_post :: "MemoryManager \<Rightarrow> u32 \<Rightarrow> VirtPtr \<Rightarrow> MemoryManager \<Rightarrow> bool" where
  "alloc_post m n u m' \<longleftrightarrow> hinv m' \<and> u \<noteq> 0 \<and> u \<notin> fst ` set (heapAlloc m) \<and> 8 dvd unat u
     \<and> (\<exists>k. unat n \<le> unat k \<and> unat k < unat n + 16
          \<and> set (heapAlloc m') = insert (u, k) (set (heapAlloc m)))
     \<and> (\<forall>v. isVAddrAllocated m v \<and> (\<not> in_heap (unat v) \<or> user_area (heapAlloc m) v) \<longrightarrow>
          gread m' v = gread m v)"

lemma DyanmicAlloc_cases:
  assumes inv: "hinv m" and n: "n \<noteq> 0"
  shows "(\<exists>u m'. DyanmicAlloc m out (sz n) = (ERROR_OK, u, m') \<and> alloc_post m n u m')
    \<or> DyanmicAlloc m out (sz n) = (ERROR_MEM_ALLOC_FAIL, out, m\<lparr>breaks := Suc (breaks m)\<rparr>)
       \<and> (\<forall>p\<in>set (heapFree m). unat (snd p) < unat (AlignUp (sz n) kHeapAlign) + 16)"
proof -
  have s: "0 < unat (sz n)" using n by (simp add: unat_gt_0)
  note N = request_sizes [OF s size32] and D = hinvD [OF inv]
  have da: "DyanmicAlloc m out (sz n) = HeapAlloc m out (sz n)" using n by (simp add: DyanmicAlloc_def)
  show ?thesis
  proof (cases "find (\<lambda>p. unat (AlignUp (sz n) kHeapAlign) + 16 \<le> unat (snd p)) (heapFree m)")
    case None
    then have "\<forall>p\<in>set (heapFree m). unat (snd p) < unat (AlignUp (sz n) kHeapAlign) + 16"
      by (auto simp: find_None_iff not_le)
    then show ?thesis using HeapAlloc_None [OF inv s size32 None, of out] by (simp add: da)
  next
    case (Some p)
    obtain a z where f: "find (\<lambda>p. unat (AlignUp (sz n) kHeapAlign) + 16 \<le> unat (snd p)) (heapFree m)
      = Some (a, z)" using Some by (cases p) simp
    note A = HeapAlloc_Some [OF inv s size32 f]
    define u where "u = vp (sz a + kCookieSize)"
    obtain m' where m': "HeapAlloc m out (sz n) = (ERROR_OK, u, m')" "hinv m'"
      "heapAlloc m' = um_emplace u (AlignUp (sz n) kHeapAlign) (heapAlloc m)"
      using A(1) [of out] A(2) by (simp add: u_def)
    have ua: "unat u = unat a + 8" "u \<notin> fst ` set (heapAlloc m)" using A(3,4) by (simp_all add: u_def)
    have "16 dvd unat a" using D(5) A(5) by (auto simp: free_ok_def range_ok_def)
    then have "8 dvd unat a" by (auto elim: dvd_trans [rotated])
    then have al: "8 dvd unat u" by (simp add: ua(1))
    have u0: "u \<noteq> 0" using ua(1) by auto
    have st: "set (heapAlloc m') = insert (u, AlignUp (sz n) kHeapAlign) (set (heapAlloc m))"
      using umap.set_emplace [OF D(4) ua(2)] by (simp add: m'(3))
    have "alloc_post m n u m'"
      using m'(2) u0 ua(2) al N(1,2) st HeapAlloc_gread [OF inv s size32 f m'(1)]
      by (auto simp: alloc_post_def intro!: exI [of _ "AlignUp (sz n) kHeapAlign"])
    then show ?thesis using m'(1) by (auto simp: da)
  qed
qed

lemma DyanmicAlloc_zero [simp]: "DyanmicAlloc m out 0 = (ERROR_OK, 0, m)"
  by (simp add: DyanmicAlloc_def)

lemma hinv_breaks: "hinv m \<Longrightarrow> hinv (m\<lparr>breaks := k\<rparr>)"
  by (simp add: hinv_def)

lemma DyanmicAlloc_hinv:
  assumes inv: "hinv m" and ret: "DyanmicAlloc m out (sz n) = (e, u, m')"
  shows "hinv m'"
proof (cases "n = 0")
  case True
  then have "sz n = 0" by simp
  with ret inv show ?thesis by simp
next
  case False
  from DyanmicAlloc_cases [OF inv False, of out] ret inv show ?thesis
    by (auto simp: alloc_post_def hinv_breaks)
qed

text \<open>Release.\<close>

lemma DynamicFree_cases:
  assumes inv: "hinv m"
  shows "u = 0 \<and> DynamicFree m u = Returned (ERROR_OK, m)
    \<or> (\<exists>n m'. (u, n) \<in> set (heapAlloc m) \<and> DynamicFree m u = Returned (ERROR_OK, m') \<and> hinv m'
         \<and> set (heapAlloc m') = set (heapAlloc m) - {(u, n)} \<and> hmem m' = hmem m \<and> blocks m' = blocks m)
    \<or> u \<noteq> 0 \<and> u \<notin> fst ` set (heapAlloc m)
       \<and> DynamicFree m u = Returned (ERROR_MEM_ADDR_NOT_ALLOCATED, m)"
proof (cases "u \<in> fst ` set (heapAlloc m)")
  case True
  then obtain n where u: "(u, n) \<in> set (heapAlloc m)" by auto
  note F = HeapFree_live [OF inv u] and H = live_in_heap [OF inv u] and D = hinvD [OF inv]
  define m' where "m' = m\<lparr>heapAlloc := al_erase u (heapAlloc m),
    heapFree := coalesce (vp (sz u - kCookieSize)) (n + 2 * kCookieSize) (heapFree m)\<rparr>"
  have "DynamicFree m u = Returned (ERROR_OK, m')" using F(1) H by (simp add: DynamicFree_def m'_def)
  moreover have "hinv m'" using F(2) by (simp add: m'_def)
  moreover have "set (heapAlloc m') = set (heapAlloc m) - {(u, n)}"
    using umap.set_erase [OF D(4) u] by (simp add: m'_def)
  moreover have "hmem m' = hmem m" "blocks m' = blocks m" by (simp_all add: m'_def)
  ultimately show ?thesis using u by blast
next
  case False
  then have "u = 0 \<or> DynamicFree m u = Returned (ERROR_MEM_ADDR_NOT_ALLOCATED, m)"
    using HeapFree_dead [OF inv False] by (simp add: DynamicFree_def)
  then show ?thesis using False by (auto simp: DynamicFree_def)
qed

lemma DynamicRealloc_hinv:
  assumes inv: "hinv m"
  obtains e u' m' where "DynamicRealloc m u (sz n) = Returned (e, u', m')" "hinv m'"
proof -
  have "\<exists>e u' m'. DynamicRealloc m u (sz n) = Returned (e, u', m') \<and> hinv m'"
  proof (cases "u = 0")
    case True
    obtain e u' m' where "DyanmicAlloc m u (sz n) = (e, u', m')" by (metis prod_cases3)
    then show ?thesis using True DyanmicAlloc_hinv [OF inv] by (auto simp: DynamicRealloc_def)
  next
    case u: False
    show ?thesis
    proof (cases "n = 0")
      case True
      then show ?thesis
        using u DynamicFree_cases [OF inv, of u] inv by (auto simp: DynamicRealloc_def)
    next
      case n: False
      show ?thesis
      proof (cases "u \<in> fst ` set (heapAlloc m)")
        case True
        then obtain k where k: "(u, k) \<in> set (heapAlloc m)" by auto
        have b: "0 < unat (sz n)" "unat (sz n) < 4294967296"
          using n unat32_lt [of n] by (auto simp: unat_gt_0)
        from DynamicRealloc_live [OF inv k b] inv show ?thesis
          by (auto simp: realloc_post_def hinv_breaks)
      next
        case False
        then have "map_of (heapAlloc m) u = None" by (simp add: map_of_eq_None_iff)
        then show ?thesis using u n inv by (simp add: DynamicRealloc_def)
      qed
    qed
  qed
  with that show ?thesis by blast
qed

section \<open>Runs of guest operations\<close>

datatype heap_call =
    Malloc SystemServiceArguments
  | Calloc SystemServiceArguments
  | Realloc SystemServiceArguments
  | Free SystemServiceArguments
  | Store VirtPtr byte

text \<open>A store by guest code goes through the host pointer Unicorn was given.\<close>

fun heap_step :: "heap_call \<Rightarrow> MemoryManager \<Rightarrow> (u32 \<times> MemoryManager) proc" where
  "heap_step (Malloc args) m = Returned (lmalloc args m)"
| "heap_step (Calloc args) m = Returned (lcalloc args m)"
| "heap_step (Realloc args) m = lrealloc args m"
| "heap_step (Free args) m = lfree args m"
| "heap_step (Store v b) m = Returned (0, m\<lparr>hmem := (hmem m)(GetRealAddr m v := b)\<rparr>)"

fun heap_run :: "heap_call list \<Rightarrow> MemoryManager \<Rightarrow> (u32 list \<times> MemoryManager) proc" where
  "heap_run [] m = Returned ([], m)"
| "heap_run (c # cs) m =
     proc_bind (heap_step c m) (\<lambda>(r, m').
     proc_bind (heap_run cs m') (\<lambda>(rs, m''). Returned (r # rs, m'')))"

text \<open>The guest stores only inside blocks that are live at that moment.\<close>

fun disciplined :: "heap_call list \<Rightarrow> MemoryManager \<Rightarrow> bool" where
  "disciplined [] m = True"
| "disciplined (c # cs) m =
     ((case c of Store v b \<Rightarrow> list_ex (\<lambda>(u, n). unat u \<le> unat v \<and> unat v < unat u + unat n) (heapAlloc m)
       | _ \<Rightarrow> True)
      \<and> (case heap_step c m of Aborted \<Rightarrow> True | Returned (r, m') \<Rightarrow> disciplined cs m'))"

lemma hinv_store:
  assumes inv: "hinv m" and v: "user_area (heapAlloc m) v"
  shows "hinv (m\<lparr>hmem := (hmem m)(GetRealAddr m v := b)\<rparr>)"
proof (rule hinv_user_write [OF inv])
  fix w assume w: "in_heap (unat w)" "\<not> user_area (heapAlloc m) w"
  note D = hinvD [OF inv]
  from v obtain u n where u: "(u, n) \<in> set (heapAlloc m)" "unat u \<le> unat v" "unat v < unat u + unat n"
    by (auto simp: user_area_member)
  have "in_heap (unat v)" using u alloc_in_heap [OF D(2) u(1)] by (auto simp: in_heap_def)
  then have "GetRealAddr m w \<noteq> GetRealAddr m v"
    using GetRealAddr_inj [OF D(1) in_heap_allocated [OF D(1) w(1)] in_heap_allocated [OF D(1)], of v]
      v w(2) by metis
  then show "((hmem m)(GetRealAddr m v := b)) (GetRealAddr m w) = hmem m (GetRealAddr m w)" by simp
qed

lemma heap_step_hinv:
  assumes inv: "hinv m"
    and st: "\<And>v b. c = Store v b \<Longrightarrow> user_area (heapAlloc m) v"
  obtains r m' where "heap_step c m = Returned (r, m')" "hinv m'"
proof -
  have "\<exists>r m'. heap_step c m = Returned (r, m') \<and> hinv m'"
  proof (cases c)
    case (Malloc args)
    obtain e u m' where A: "DyanmicAlloc m 0 (sz (r0 args)) = (e, u, m')" by (metis prod_cases3)
    then show ?thesis using DyanmicAlloc_hinv [OF inv A] by (simp add: Malloc lmalloc_def)
  next
    case (Calloc args)
    obtain e u m' where A: "DyanmicAlloc m 0 (sz (r0 args * r1 args)) = (e, u, m')" by (metis prod_cases3)
    then show ?thesis using DyanmicAlloc_hinv [OF inv A] by (simp add: Calloc lcalloc_def)
  next
    case (Realloc args)
    obtain e u m' where A: "DyanmicAlloc m (r0 args) (sz (r1 args)) = (e, u, m')" by (metis prod_cases3)
    obtain e2 u2 m2 where B: "DynamicRealloc m (r0 args) (sz (r1 args)) = Returned (e2, u2, m2)" "hinv m2"
      by (rule DynamicRealloc_hinv [OF inv])
    show ?thesis
      using A B DyanmicAlloc_hinv [OF inv A]
      by (cases "r0 args = 0") (simp_all add: Realloc lrealloc_def Let_def)
  next
    case (Free args)
    then show ?thesis
      using DynamicFree_cases [OF inv, of "r0 args"] inv by (auto simp: lfree_def)
  next
    case (Store v b)
    then show ?thesis using hinv_store [OF inv st [OF Store]] by simp
  qed
  with that show ?thesis by blast
qed

lemma heap_run_hinv:
  "hinv m \<Longrightarrow> disciplined cs m \<Longrightarrow> \<exists>rs m'. heap_run cs m = Returned (rs, m') \<and> hinv m'"
proof (induction cs arbitrary: m)
  case Nil
  then show ?case by simp
next
  case (Cons c cs)
  have st: "user_area (heapAlloc m) v" if "c = Store v b" for v b
    using Cons.prems(2) that by (auto simp: user_area_member list_ex_iff)
  obtain r m' where s: "heap_step c m = Returned (r, m')" "hinv m'"
    by (rule heap_step_hinv [OF Cons.prems(1) st])
  with Cons.prems(2) have "disciplined cs m'" by simp
  from Cons.IH [OF s(2) this] obtain rs m'' where "heap_run cs m' = Returned (rs, m'')" "hinv m''"
    by blast
  with s(1) show ?case by simp
qed

section \<open>The contract for other components\<close>

text \<open>
  What the rest of the emulator relies on: \<open>get\<close> returns a fresh block of at least the requested
  size or nothing, \<open>drop\<close> gives a live block back, and live blocks never share an address.
\<close>

locale block_provider =
  fixes ok :: "'s \<Rightarrow> bool"
    and live :: "'s \<Rightarrow> (VirtPtr \<times> size_t) set"
    and get :: "'s \<Rightarrow> u32 \<Rightarrow> VirtPtr option \<times> 's"
    and give :: "'s \<Rightarrow> VirtPtr \<Rightarrow> 's"
  assumes get_ok: "ok s \<Longrightarrow> n \<noteq> 0 \<Longrightarrow> ok (snd (get s n))"
    and get_Some: "ok s \<Longrightarrow> n \<noteq> 0 \<Longrightarrow> fst (get s n) = Some u \<Longrightarrow>
      u \<notin> fst ` live s \<and> (\<exists>k. unat n \<le> unat k \<and> live (snd (get s n)) = insert (u, k) (live s))"
    and get_None: "ok s \<Longrightarrow> n \<noteq> 0 \<Longrightarrow> fst (get s n) = None \<Longrightarrow> live (snd (get s n)) = live s"
    and give_ok: "ok s \<Longrightarrow> ok (give s u)"
    and give_live: "ok s \<Longrightarrow> (u, k) \<in> live s \<Longrightarrow> live (give s u) = live s - {(u, k)}"
    and give_dead: "ok s \<Longrightarrow> u \<notin> fst ` live s \<Longrightarrow> live (give s u) = live s"
    and live_apart: "ok s \<Longrightarrow> (u, k) \<in> live s \<Longrightarrow> (w, j) \<in> live s \<Longrightarrow> u \<noteq> w \<Longrightarrow>
      unat u + unat k \<le> unat w \<or> unat w + unat j \<le> unat u"
    and live_fun: "ok s \<Longrightarrow> (u, k) \<in> live s \<Longrightarrow> (u, j) \<in> live s \<Longrightarrow> k = j"
begin

lemma get_disjoint:
  assumes "ok s" "n \<noteq> 0" "fst (get s n) = Some u" "(w, j) \<in> live s"
  shows "unat u + unat n \<le> unat w \<or> unat w + unat j \<le> unat u"
proof -
  from get_Some [OF assms(1-3)] obtain k where k: "u \<notin> fst ` live s" "unat n \<le> unat k"
    "live (snd (get s n)) = insert (u, k) (live s)" by blast
  have "u \<noteq> w" using k(1) assms(4) by force
  then have "unat u + unat k \<le> unat w \<or> unat w + unat j \<le> unat u"
    using k(3) assms(4) by (intro live_apart [OF get_ok [OF assms(1,2)]]) auto
  with k(2) show ?thesis by auto
qed

lemma get_give:
  assumes "ok s" "n \<noteq> 0" "fst (get s n) = Some u"
  shows "live (give (snd (get s n)) u) = live s"
proof -
  from get_Some [OF assms] obtain k where k: "u \<notin> fst ` live s"
    "live (snd (get s n)) = insert (u, k) (live s)" by blast
  have "live (give (snd (get s n)) u) = insert (u, k) (live s) - {(u, k)}"
    using k(2) by (subst give_live [OF get_ok [OF assms(1,2)], of u k]) auto
  also have "\<dots> = live s" using k(1) by force
  finally show ?thesis .
qed

text \<open>A second release of the same block changes nothing.\<close>

lemma give_twice:
  assumes "ok s" "(u, k) \<in> live s"
  shows "live (give (give s u) u) = live (give s u)"
proof (rule give_dead [OF give_ok [OF assms(1)]])
  show "u \<notin> fst ` live (give s u)"
    unfolding give_live [OF assms] using live_fun [OF assms] by force
qed

end

definition heap_get :: "MemoryManager \<Rightarrow> u32 \<Rightarrow> VirtPtr option \<times> MemoryManager" where
  "heap_get m n =
     (let (e, u, m') = DyanmicAlloc m 0 (sz n) in (if e = ERROR_OK then Some u else None, m'))"

definition heap_give :: "MemoryManager \<Rightarrow> VirtPtr \<Rightarrow> MemoryManager" where
  "heap_give m u = (case DynamicFree m u of Returned (e, m') \<Rightarrow> m' | Aborted \<Rightarrow> m)"

definition heap_live :: "MemoryManager \<Rightarrow> (VirtPtr \<times> size_t) set" where
  "heap_live m = set (heapAlloc m)"

lemma heap_get_cases:
  assumes "hinv m" "n \<noteq> 0"
  shows "(\<exists>u m'. heap_get m n = (Some u, m') \<and> alloc_post m n u m')
    \<or> heap_get m n = (None, m\<lparr>breaks := Suc (breaks m)\<rparr>)"
  using DyanmicAlloc_cases [OF assms, of 0] by (auto simp: heap_get_def)

lemma heap_get_Some:
  assumes "hinv m" "n \<noteq> 0" "fst (heap_get m n) = Some u"
  shows "u \<notin> fst ` heap_live m
    \<and> (\<exists>k. unat n \<le> unat k \<and> heap_live (snd (heap_get m n)) = insert (u, k) (heap_live m))"
proof -
  from heap_get_cases [OF assms(1,2)] assms(3) obtain m' where
    "heap_get m n = (Some u, m')" "alloc_post m n u m'" by auto
  then show ?thesis unfolding alloc_post_def heap_live_def by simp blast
qed

lemma heap_give_cases:
  assumes "hinv m"
  shows "(\<exists>n. (u, n) \<in> set (heapAlloc m) \<and> hinv (heap_give m u)
      \<and> set (heapAlloc (heap_give m u)) = set (heapAlloc m) - {(u, n)})
    \<or> u \<notin> fst ` set (heapAlloc m) \<and> heap_give m u = m"
proof -
  have "(0, n) \<notin> set (heapAlloc m)" for n
    using alloc_in_heap(1) [OF hinvD(2) [OF assms], of 0 n] by auto
  then have z: "u = 0 \<Longrightarrow> u \<notin> fst ` set (heapAlloc m)" by auto
  show ?thesis using DynamicFree_cases [OF assms, of u] z by (auto simp: heap_give_def)
qed

lemma heap_give_live:
  assumes "hinv m" "(u, k) \<in> heap_live m"
  shows "heap_live (heap_give m u) = heap_live m - {(u, k)}"
proof -
  have "u \<in> fst ` set (heapAlloc m)" using assms(2) by (force simp: heap_live_def)
  with heap_give_cases [OF assms(1), of u] obtain n where n: "(u, n) \<in> set (heapAlloc m)"
    "set (heapAlloc (heap_give m u)) = set (heapAlloc m) - {(u, n)}" by auto
  have "n = k" using live_unique [OF assms(1) n(1)] assms(2) by (simp add: heap_live_def)
  with n(2) show ?thesis by (simp add: heap_live_def)
qed

interpretation vheap: block_provider hinv heap_live heap_get heap_give
proof
  fix m :: MemoryManager and n u k w j
  assume inv: "hinv m"
  show "hinv (heap_give m u)" using heap_give_cases [OF inv, of u] inv by auto
  show "u \<notin> fst ` heap_live m \<Longrightarrow> heap_live (heap_give m u) = heap_live m"
    using heap_give_cases [OF inv, of u] by (force simp: heap_live_def)
  show "n \<noteq> 0 \<Longrightarrow> hinv (snd (heap_get m n))"
    using heap_get_cases [OF inv, of n] inv by (auto simp: alloc_post_def hinv_breaks)
  show "n \<noteq> 0 \<Longrightarrow> fst (heap_get m n) = Some u \<Longrightarrow> u \<notin> fst ` heap_live m
    \<and> (\<exists>k. unat n \<le> unat k \<and> heap_live (snd (heap_get m n)) = insert (u, k) (heap_live m))"
    using heap_get_Some [OF inv] by blast
  show "n \<noteq> 0 \<Longrightarrow> fst (heap_get m n) = None \<Longrightarrow> heap_live (snd (heap_get m n)) = heap_live m"
    using heap_get_cases [OF inv, of n] by (auto simp: heap_live_def)
  assume uk: "(u, k) \<in> heap_live m"
  show "heap_live (heap_give m u) = heap_live m - {(u, k)}"
    by (rule heap_give_live [OF inv uk])
  show "(w, j) \<in> heap_live m \<Longrightarrow> u \<noteq> w \<Longrightarrow>
      unat u + unat k \<le> unat w \<or> unat w + unat j \<le> unat u"
    using alloc_disjoint [OF hinvD(2) [OF inv], of u k w j] uk by (auto simp: heap_live_def)
  show "(u, j) \<in> heap_live m \<Longrightarrow> k = j"
    using live_unique [OF inv, of u k j] uk by (simp add: heap_live_def)
qed

section \<open>Counting bytes\<close>

lemma occ_sum: "a + s \<le> N \<Longrightarrow> (\<Sum>x<N. occ a s x) = s"
proof -
  assume "a + s \<le> N"
  then have e: "{..<N} \<inter> {x. a \<le> x \<and> x < a + s} = {a..<a + s}" by auto
  have "(\<Sum>x<N. occ a s x) = card ({..<N} \<inter> {x. a \<le> x \<and> x < a + s})"
    by (simp add: occ_def sum.If_cases)
  then show ?thesis by (simp add: e)
qed

lemma occ_sum_list:
  assumes "\<forall>p\<in>set xs. f p + g p \<le> N"
  shows "(\<Sum>x<N. \<Sum>p\<leftarrow>xs. occ (f p) (g p) x) = (\<Sum>p\<leftarrow>xs. g p)"
  using assms by (induction xs) (auto simp: sum.distrib occ_sum)

lemma layout_conserved:
  assumes "layout F A"
  shows "(\<Sum>p\<leftarrow>F. unat (snd p)) + (\<Sum>p\<leftarrow>A. unat (snd p) + 16) = 0x10000000"
proof -
  define N :: nat where "N = 0x30000000"
  have F: "\<forall>p\<in>set F. unat (fst p) + unat (snd p) \<le> N"
    using free_in_heap(2) [OF assms] by (auto simp: N_def)
  have A: "\<forall>p\<in>set A. (unat (fst p) - 8) + (unat (snd p) + 16) \<le> N"
    using alloc_in_heap [OF assms] by (fastforce simp: N_def)
  have "(\<Sum>p\<leftarrow>F. unat (snd p)) + (\<Sum>p\<leftarrow>A. unat (snd p) + 16) = (\<Sum>x<N. cover F A x)"
    unfolding cover_def sum.distrib occ_sum_list [OF F] occ_sum_list [OF A] ..
  also have "\<dots> = (\<Sum>x<N. occ 0x20000000 0x10000000 x)"
    using layout_cover [OF assms] by (intro sum.cong) (auto simp: occ_def in_heap_def)
  also have "\<dots> = 0x10000000" by (rule occ_sum) (simp add: N_def)
  finally show ?thesis .
qed

end
