(* ===== verification/Scheduler.thy ===== *)
theory Scheduler
  imports ThreadInv HeapServices
begin

text \<open>
  The scheduler (PrimU/ThreadHandler.h, .cpp, the register state of PrimU/Thread.h, .cpp, the
  scheduling parts of PrimU/executor.cpp) and the system calls on threads, critical sections and
  events (PrimU/system.cpp).  Threads form a ring of \<open>nextThread\<close> pointers; a turn ends in
  \<open>code_hook\<close>, which stops the engine at a block boundary, and \<open>SwitchThread\<close> moves one step along
  the ring.  The Unicorn engine is the record \<open>unicorn\<close> of functions on an arbitrary type.  A null
  dereference ends the process (\<open>Aborted\<close>).
\<close>

section \<open>Register state\<close>

text \<open>The sixteen registers in the order of \<open>_regs\<close>: R0 to R12, SP, LR, PC.\<close>

record 'c ThreadState =
  sregs :: "u32 list"
  sctx :: 'c
  isNewThread :: bool

record ('u, 'c) unicorn =
  uc_context_save :: "'u \<Rightarrow> 'c"
  uc_context_restore :: "'c \<Rightarrow> 'u \<Rightarrow> 'u"
  uc_reg_write_batch :: "u32 list \<Rightarrow> 'u \<Rightarrow> 'u"
  uc_reg_read_batch :: "'u \<Rightarrow> u32 list"
  uc_query_thumb :: "'u \<Rightarrow> bool"

definition ThreadState_new :: "'c \<Rightarrow> VirtPtr \<Rightarrow> VirtPtr \<Rightarrow> u32 \<Rightarrow> 'c ThreadState" where
  "ThreadState_new ctx startPtr stackPtr arg =
     \<lparr>sregs = [arg, 0, 0, 0, 0, 0, 0, 0, 0, 0, 0, 0, 0, stackPtr, 0, startPtr],
      sctx = ctx, isNewThread = True\<rparr>"

definition ThreadState_LoadState :: "('u, 'c) unicorn \<Rightarrow> 'c ThreadState \<Rightarrow> 'u \<Rightarrow> 'u" where
  "ThreadState_LoadState uc ts u =
     uc_reg_write_batch uc (sregs ts)
       (if \<not> isNewThread ts then uc_context_restore uc (sctx ts) u else u)"

definition ThreadState_SaveState :: "('u, 'c) unicorn \<Rightarrow> 'u \<Rightarrow> 'c ThreadState \<Rightarrow> 'c ThreadState" where
  "ThreadState_SaveState uc u ts =
     (let regs = uc_reg_read_batch uc u
      in \<lparr>sregs = regs[15 := regs ! 15 + (if uc_query_thumb uc u then 1 else 0)],
          sctx = uc_context_save uc u, isNewThread = False\<rparr>)"

section \<open>The state manager\<close>

record 'c StateManager =
  sy :: sync
  tstate :: "nat \<Rightarrow> 'c ThreadState"
  nthreads :: nat
  currentThread :: "nat option"
  yielding :: bool
  interrupting :: bool
  pausing :: bool
  interruptPC :: VirtPtr

definition THREAD_PRIORITY_NORMAL :: "8 word" where
  "THREAD_PRIORITY_NORMAL = 8"

definition Thread_new :: "nat \<Rightarrow> nat \<Rightarrow> size_t \<Rightarrow> VirtPtr \<Rightarrow> 8 word \<Rightarrow> Thread" where
  "Thread_new this nxt stk addr p =
     \<lparr>priority = p, tid = int this, stackSize = stk, stackAddr = addr, nextThread = nxt,
      requested = None, ownedCriticalSections = Map.empty, waitingEvent = None,
      waitTimeoutEnd = 0, waitingInfinite = False, suspendCount = 0, isSuspended = False,
      sleepEnd = 0, isSleeping = False\<rparr>"

text \<open>
  \<open>ctx\<close> is what \<open>uc_context_alloc\<close> leaves in a new context, \<open>junk\<close> the content of \<open>_stackAddr\<close>
  before the allocation, which stays there when the allocation fails.
\<close>

definition NewThread ::
  "'c \<Rightarrow> VirtPtr \<Rightarrow> VirtPtr \<Rightarrow> u32 \<Rightarrow> 8 word \<Rightarrow> size_t \<Rightarrow> 'c StateManager \<Rightarrow> MemoryManager
     \<Rightarrow> int \<times> 'c StateManager \<times> MemoryManager" where
  "NewThread ctx junk start arg p stk sm m =
     (let this = nthreads sm;
          (s1, cur, nxt) = (case currentThread sm of
              None \<Rightarrow> (sy sm, this, this)
            | Some c \<Rightarrow> (upd_thr c (\<lambda>t. t\<lparr>nextThread := this\<rparr>) (sy sm), c, nextThread (thr (sy sm) c)));
          stk' = (if stk \<noteq> 0 then stk else 0x2000);
          (e, addr, m') = DyanmicAlloc m junk stk';
          stackPtrStart = vp (GetAllocSize m' addr + sz addr)
      in (int this,
          sm\<lparr>sy := upd_thr this (\<lambda>_. Thread_new this nxt stk' addr p) s1,
             tstate := (tstate sm)(this := ThreadState_new ctx start stackPtrStart arg),
             nthreads := Suc this, currentThread := Some cur\<rparr>, m'))"

definition LoadCurrentThreadState :: "('u, 'c) unicorn \<Rightarrow> 'c StateManager \<Rightarrow> 'u \<Rightarrow> 'u" where
  "LoadCurrentThreadState uc sm u =
     (case currentThread sm of Some c \<Rightarrow> ThreadState_LoadState uc (tstate sm c) u | None \<Rightarrow> u)"

definition SaveCurrentThreadState :: "('u, 'c) unicorn \<Rightarrow> 'u \<Rightarrow> 'c StateManager \<Rightarrow> 'c StateManager" where
  "SaveCurrentThreadState uc u sm =
     (case currentThread sm of
        Some c \<Rightarrow> sm\<lparr>tstate := (tstate sm)(c := ThreadState_SaveState uc u (tstate sm c))\<rparr>
      | None \<Rightarrow> sm)"

definition GetCurrentThreadPC :: "'c StateManager \<Rightarrow> u32" where
  "GetCurrentThreadPC sm =
     (case currentThread sm of Some c \<Rightarrow> sregs (tstate sm c) ! 15 | None \<Rightarrow> 0)"

definition SwitchThread :: "('u, 'c) unicorn \<Rightarrow> 'c StateManager \<Rightarrow> 'u \<Rightarrow> ('c StateManager \<times> 'u) proc" where
  "SwitchThread uc sm u =
     (case currentThread sm of None \<Rightarrow> Aborted | Some c \<Rightarrow>
        let nxt = nextThread (thr (sy sm) c) in
        if c \<noteq> nxt
        then Returned (sm\<lparr>currentThread := Some nxt\<rparr>, ThreadState_LoadState uc (tstate sm nxt) u)
        else Returned (sm, u))"

text \<open>
  The walk of \<open>SetThreadPriority\<close>: the current thread, then along the ring until it is back at the
  current one.  On pointers that are not a ring it would not return.
\<close>

partial_function (option) ring_find :: "sync \<Rightarrow> nat \<Rightarrow> int \<Rightarrow> nat \<Rightarrow> nat option option" where
  "ring_find s cur threadId t =
     (if tid (thr s t) = threadId then Some (Some t)
      else let n = nextThread (thr s t)
           in if n = cur then Some None else ring_find s cur threadId n)"

definition SetThreadPriority :: "int \<Rightarrow> 8 word \<Rightarrow> 'c StateManager \<Rightarrow> (int \<times> 'c StateManager) option" where
  "SetThreadPriority threadId p sm =
     (case currentThread sm of None \<Rightarrow> Some (0, sm) | Some cur \<Rightarrow>
        (case ring_find (sy sm) cur threadId cur of
           None \<Rightarrow> None
         | Some None \<Rightarrow> Some (0, sm)
         | Some (Some t) \<Rightarrow> Some (1, sm\<lparr>sy := SetPriority t p (sy sm)\<rparr>)))"

section \<open>The block hook\<close>

text \<open>
  \<open>code_hook\<close> runs before every basic block.  The result tells whether the engine was stopped, and
  gives the new state and the new \<open>lastUpdate\<close>.  \<open>now1\<close> to \<open>now4\<close> are its readings of the clock in
  order: at its start, two inside \<open>CanRun\<close>, and the one stored in \<open>lastUpdate\<close>.
\<close>

definition code_hook ::
  "('u, 'c) unicorn \<Rightarrow> int \<Rightarrow> int \<Rightarrow> int \<Rightarrow> int \<Rightarrow> int \<Rightarrow> 'u \<Rightarrow> 'c StateManager
     \<Rightarrow> (bool \<times> 'c StateManager \<times> int) proc" where
  "code_hook uc now1 now2 now3 now4 lastUpdate u sm =
     (case currentThread sm of None \<Rightarrow> Aborted | Some c \<Rightarrow>
        let elapsed = (now1 - lastUpdate) div 1000000;
            (canrun, s') = CanRun c now2 now3 (sy sm);
            sm1 = sm\<lparr>sy := s'\<rparr>
        in if yielding sm1 then
             Returned (True, (SaveCurrentThreadState uc u sm1)\<lparr>yielding := False\<rparr>, now4)
           else if elapsed < uint (GetTimeQuantum (thr s' c)) \<and> canrun
             then Returned (False, sm1, lastUpdate)
           else Returned (True, SaveCurrentThreadState uc u sm1, now4))"

section \<open>System calls on threads\<close>

text \<open>
  The tables of \<open>system.cpp\<close>: \<open>g_cs\<close> and \<open>g_events\<close> hold unique pointers, and indexing a missing
  key inserts a null one.  Storing a pointer under a key destroys the object the key had before.  The
  address that \<open>new\<close> returns is an argument \<open>obj\<close> of the calls that create objects: any address but
  those of the objects alive (\<open>unused_cs\<close>, \<open>unused_ev\<close>), the address of a destroyed object among them.
  The stores keep the last content of a destroyed object until its address is used again; a thread that
  still points there has a dangling pointer, which \<open>objects_alive\<close> excludes.
\<close>

record os_tables =
  g_cs :: "int \<rightharpoonup> nat option"
  g_events :: "u32 \<rightharpoonup> nat option"
  g_next_event_id :: u32

definition os_tables_init :: os_tables where
  "os_tables_init = \<lparr>g_cs = Map.empty, g_events = Map.empty, g_next_event_id = 1\<rparr>"

definition unused_cs :: "nat \<Rightarrow> os_tables \<Rightarrow> bool" where
  "unused_cs obj tb \<longleftrightarrow> (\<forall>k. g_cs tb k \<noteq> Some (Some obj))"

definition unused_ev :: "nat \<Rightarrow> os_tables \<Rightarrow> bool" where
  "unused_ev obj tb \<longleftrightarrow> (\<forall>k. g_events tb k \<noteq> Some (Some obj))"

definition at_cs :: "int \<Rightarrow> os_tables \<Rightarrow> nat option \<times> os_tables" where
  "at_cs k tb = (case g_cs tb k of Some p \<Rightarrow> (p, tb) | None \<Rightarrow> (None, tb\<lparr>g_cs := (g_cs tb)(k \<mapsto> None)\<rparr>))"

definition at_event :: "u32 \<Rightarrow> os_tables \<Rightarrow> nat option \<times> os_tables" where
  "at_event k tb =
     (case g_events tb k of Some p \<Rightarrow> (p, tb)
      | None \<Rightarrow> (None, tb\<lparr>g_events := (g_events tb)(k \<mapsto> None)\<rparr>))"

text \<open>
  Everything the scheduler touches.  \<open>AtBlock\<close>: the engine is about to call the block hook;
  \<open>InBlock\<close>: the hook let the block run; \<open>Stopped\<close>: \<open>uc_emu_start\<close> has returned.
\<close>

datatype phase = AtBlock | InBlock | Stopped

record ('u, 'c) mach =
  msm :: "'c StateManager"
  mos :: os_tables
  mmem :: MemoryManager
  mcpu :: 'u
  mlast :: int
  mphase :: phase

abbreviation upd_sync :: "(sync \<Rightarrow> sync) \<Rightarrow> ('u, 'c) mach \<Rightarrow> ('u, 'c) mach" where
  "upd_sync f ms \<equiv> ms\<lparr>msm := (msm ms)\<lparr>sy := f (sy (msm ms))\<rparr>\<rparr>"

text \<open>\<open>GetCurrentThread\<close> and the \<open>CurrentThread...\<close> members dereference the current thread.\<close>

definition on_current :: "(nat \<Rightarrow> sync \<Rightarrow> sync) \<Rightarrow> ('u, 'c) mach \<Rightarrow> ('u, 'c) mach proc" where
  "on_current f ms =
     (case currentThread (msm ms) of None \<Rightarrow> Aborted | Some c \<Rightarrow> Returned (upd_sync (f c) ms))"

definition OSInitCriticalSection ::
  "nat \<Rightarrow> SystemServiceArguments \<Rightarrow> ('u, 'c) mach \<Rightarrow> u32 \<times> ('u, 'c) mach" where
  "OSInitCriticalSection obj args ms =
     (r0 args, upd_sync (upd_cs obj (\<lambda>_. CriticalSection_new)) ms
        \<lparr>mos := (mos ms)\<lparr>g_cs := (g_cs (mos ms))(sint (r0 args) \<mapsto> Some obj)\<rparr>\<rparr>)"

definition OSEnterCriticalSection ::
  "SystemServiceArguments \<Rightarrow> ('u, 'c) mach \<Rightarrow> (u32 \<times> ('u, 'c) mach) proc" where
  "OSEnterCriticalSection args ms =
     (let (p, tb) = at_cs (sint (r0 args)) (mos ms)
      in proc_bind (on_current (\<lambda>c. EnterCriticalSection c p) (ms\<lparr>mos := tb\<rparr>))
           (\<lambda>ms'. Returned (r0 args, ms')))"

definition OSLeaveCriticalSection ::
  "SystemServiceArguments \<Rightarrow> ('u, 'c) mach \<Rightarrow> (u32 \<times> ('u, 'c) mach) proc" where
  "OSLeaveCriticalSection args ms =
     (let (p, tb) = at_cs (sint (r0 args)) (mos ms)
      in proc_bind (on_current (\<lambda>c. LeaveCriticalSection c p) (ms\<lparr>mos := tb\<rparr>))
           (\<lambda>ms'. Returned (r0 args, ms')))"

definition OSSleep :: "int \<Rightarrow> SystemServiceArguments \<Rightarrow> ('u, 'c) mach \<Rightarrow> (u32 \<times> ('u, 'c) mach) proc" where
  "OSSleep now args ms =
     proc_bind (on_current (\<lambda>c. Sleep c (r0 args) now) ms) (\<lambda>ms'. Returned (r0 args, ms'))"

text \<open>\<open>CreateEvent\<close> takes its two arguments as \<open>bool\<close>.\<close>

definition OSCreateEvent ::
  "nat \<Rightarrow> SystemServiceArguments \<Rightarrow> ('u, 'c) mach \<Rightarrow> u32 \<times> ('u, 'c) mach" where
  "OSCreateEvent obj args ms =
     (let tb = mos ms; new = Event_new (r0 args \<noteq> 0) (r1 args \<noteq> 0)
      in (g_next_event_id tb, upd_sync (upd_ev obj (\<lambda>_. new)) ms
            \<lparr>mos := tb\<lparr>g_events := (g_events tb)(g_next_event_id tb \<mapsto> Some obj),
                      g_next_event_id := g_next_event_id tb + 1\<rparr>\<rparr>))"

definition OSWaitForEvent ::
  "int \<Rightarrow> SystemServiceArguments \<Rightarrow> ('u, 'c) mach \<Rightarrow> (u32 \<times> ('u, 'c) mach) proc" where
  "OSWaitForEvent now args ms =
     (let (p, tb) = at_event (r0 args) (mos ms)
      in proc_bind (on_current (\<lambda>c. WaitForEvent c p (sint (r1 args)) now) (ms\<lparr>mos := tb\<rparr>))
           (\<lambda>ms'. Returned (0, ms')))"

definition OSSetEvent :: "SystemServiceArguments \<Rightarrow> ('u, 'c) mach \<Rightarrow> (u32 \<times> ('u, 'c) mach) proc" where
  "OSSetEvent args ms =
     (let (p, tb) = at_event (r0 args) (mos ms)
      in proc_bind (on_current (\<lambda>c. SetEvent p) (ms\<lparr>mos := tb\<rparr>)) (\<lambda>ms'. Returned (0, ms')))"

definition OSSuspendThread :: "SystemServiceArguments \<Rightarrow> ('u, 'c) mach \<Rightarrow> u32 \<times> ('u, 'c) mach" where
  "OSSuspendThread args ms = (0, ms)"

definition OSResumeThread :: "SystemServiceArguments \<Rightarrow> ('u, 'c) mach \<Rightarrow> u32 \<times> ('u, 'c) mach" where
  "OSResumeThread args ms = (0, ms)"

definition OSCreateThread ::
  "'c \<Rightarrow> VirtPtr \<Rightarrow> SystemServiceArguments \<Rightarrow> ('u, 'c) mach \<Rightarrow> u32 \<times> ('u, 'c) mach" where
  "OSCreateThread ctx junk args ms =
     (let (i, sm', m') = NewThread ctx junk (r0 args) (r4 args) THREAD_PRIORITY_NORMAL 0x2000
                           (msm ms) (mmem ms)
      in (of_int i, ms\<lparr>msm := sm', mmem := m'\<rparr>))"

definition OSSetThreadPriority ::
  "SystemServiceArguments \<Rightarrow> ('u, 'c) mach \<Rightarrow> (u32 \<times> ('u, 'c) mach) option" where
  "OSSetThreadPriority args ms =
     (case SetThreadPriority (sint (r0 args)) (ucast (r1 args)) (msm ms) of
        None \<Rightarrow> None | Some (i, sm') \<Rightarrow> Some (0, ms\<lparr>msm := sm'\<rparr>))"

definition CurrentThreadYield :: "('u, 'c) mach \<Rightarrow> ('u, 'c) mach" where
  "CurrentThreadYield ms = ms\<lparr>msm := (msm ms)\<lparr>yielding := True\<rparr>\<rparr>"

section \<open>Execution\<close>

text \<open>
  \<open>Execute\<close> creates thread 0 with a stack of 4 MB and loads its registers, then repeats: run the
  engine until it stops, save the state after an engine error, switch threads.
\<close>

definition MEM_STACK_SIZE :: size_t where
  "MEM_STACK_SIZE = 0x400000"

definition Execute_start ::
  "('u, 'c) unicorn \<Rightarrow> 'c \<Rightarrow> VirtPtr \<Rightarrow> VirtPtr \<Rightarrow> ('u, 'c) mach \<Rightarrow> ('u, 'c) mach" where
  "Execute_start uc ctx junk entry ms =
     (let (i, sm', m') = NewThread ctx junk entry 0 THREAD_PRIORITY_NORMAL MEM_STACK_SIZE (msm ms) (mmem ms)
      in ms\<lparr>msm := sm', mmem := m', mcpu := LoadCurrentThreadState uc sm' (mcpu ms), mphase := AtBlock\<rparr>)"

text \<open>
  One step: the hook, an ordinary block (the guest changes registers and memory), a block that ends
  in a system call on the scheduler, an engine error, the end of the engine's run at address 0 (the
  \<open>until\<close> argument of \<open>uc_emu_start\<close>), the switch.
\<close>

inductive sched_step :: "('u, 'c) unicorn \<Rightarrow> ('u, 'c) mach \<Rightarrow> ('u, 'c) mach \<Rightarrow> bool"
  for uc :: "('u, 'c) unicorn" where
  hook_run: "mphase ms = AtBlock \<Longrightarrow>
    code_hook uc n1 n2 n3 n4 (mlast ms) (mcpu ms) (msm ms) = Returned (False, sm', l) \<Longrightarrow>
    sched_step uc ms (ms\<lparr>msm := sm', mlast := l, mphase := InBlock\<rparr>)"
| hook_stop: "mphase ms = AtBlock \<Longrightarrow>
    code_hook uc n1 n2 n3 n4 (mlast ms) (mcpu ms) (msm ms) = Returned (True, sm', l) \<Longrightarrow>
    sched_step uc ms (ms\<lparr>msm := sm', mlast := l, mphase := Stopped\<rparr>)"
| block: "mphase ms = InBlock \<Longrightarrow> sched_step uc ms (ms\<lparr>mcpu := u, mmem := m, mphase := AtBlock\<rparr>)"
| init_cs: "mphase ms = InBlock \<Longrightarrow> unused_cs obj (mos ms) \<Longrightarrow> OSInitCriticalSection obj args ms = (r, ms') \<Longrightarrow>
    sched_step uc ms (ms'\<lparr>mphase := AtBlock\<rparr>)"
| enter_cs: "mphase ms = InBlock \<Longrightarrow> OSEnterCriticalSection args ms = Returned (r, ms') \<Longrightarrow>
    sched_step uc ms (ms'\<lparr>mphase := AtBlock\<rparr>)"
| leave_cs: "mphase ms = InBlock \<Longrightarrow> OSLeaveCriticalSection args ms = Returned (r, ms') \<Longrightarrow>
    sched_step uc ms (ms'\<lparr>mphase := AtBlock\<rparr>)"
| sleep: "mphase ms = InBlock \<Longrightarrow> OSSleep now args ms = Returned (r, ms') \<Longrightarrow>
    sched_step uc ms (ms'\<lparr>mphase := AtBlock\<rparr>)"
| create_event: "mphase ms = InBlock \<Longrightarrow> unused_ev obj (mos ms) \<Longrightarrow> OSCreateEvent obj args ms = (r, ms') \<Longrightarrow>
    sched_step uc ms (ms'\<lparr>mphase := AtBlock\<rparr>)"
| wait_event: "mphase ms = InBlock \<Longrightarrow> OSWaitForEvent now args ms = Returned (r, ms') \<Longrightarrow>
    sched_step uc ms (ms'\<lparr>mphase := AtBlock\<rparr>)"
| set_event: "mphase ms = InBlock \<Longrightarrow> OSSetEvent args ms = Returned (r, ms') \<Longrightarrow>
    sched_step uc ms (ms'\<lparr>mphase := AtBlock\<rparr>)"
| create_thread: "mphase ms = InBlock \<Longrightarrow> OSCreateThread ctx junk args ms = (r, ms') \<Longrightarrow>
    sched_step uc ms (ms'\<lparr>mphase := AtBlock\<rparr>)"
| set_priority: "mphase ms = InBlock \<Longrightarrow> OSSetThreadPriority args ms = Some (r, ms') \<Longrightarrow>
    sched_step uc ms (ms'\<lparr>mphase := AtBlock\<rparr>)"
| yield: "mphase ms = InBlock \<Longrightarrow> sched_step uc ms ((CurrentThreadYield ms)\<lparr>mphase := AtBlock\<rparr>)"
| engine_error: "mphase ms \<noteq> Stopped \<Longrightarrow>
    sched_step uc ms (ms\<lparr>mcpu := u, msm := SaveCurrentThreadState uc u (msm ms), mphase := Stopped\<rparr>)"
| finished: "mphase ms = AtBlock \<Longrightarrow> uc_reg_read_batch uc (mcpu ms) ! 15 = 0 \<Longrightarrow>
    sched_step uc ms (ms\<lparr>mphase := Stopped\<rparr>)"
| switch: "mphase ms = Stopped \<Longrightarrow>
    SwitchThread uc (msm ms) (mcpu ms) = Returned (sm', u) \<Longrightarrow>
    sched_step uc ms (ms\<lparr>msm := sm', mcpu := u, mphase := AtBlock\<rparr>)"

inductive sched_reachable :: "('u, 'c) unicorn \<Rightarrow> ('u, 'c) mach \<Rightarrow> ('u, 'c) mach \<Rightarrow> bool"
  for uc :: "('u, 'c) unicorn" and ms0 :: "('u, 'c) mach" where
  start: "sched_reachable uc ms0 ms0"
| more: "sched_reachable uc ms0 ms \<Longrightarrow> sched_step uc ms ms' \<Longrightarrow> sched_reachable uc ms0 ms'"

inductive_cases sched_stepE: "sched_step uc ms ms'"

text \<open>
  No dangling pointers: every section that a thread holds or waits for, and every event it waits for, is
  still in its table.  The code does not see to this: \<open>OSInitCriticalSection\<close> destroys the section that the
  key had, held or not, and \<open>OSCreateEvent\<close> does the same to an event once its counter has wrapped.
\<close>

definition objects_alive :: "('u, 'c) mach \<Rightarrow> bool" where
  "objects_alive ms \<longleftrightarrow>
     (\<forall>t c. ownedCriticalSections (thr (sy (msm ms)) t) c \<noteq> None \<or> requested (thr (sy (msm ms)) t) = Some c
        \<longrightarrow> (\<exists>k. g_cs (mos ms) k = Some (Some c)))
     \<and> (\<forall>t e. waitingEvent (thr (sy (msm ms)) t) = Some e \<longrightarrow> (\<exists>k. g_events (mos ms) k = Some (Some e)))"

end
