(* ===== verification/SchedInv.thy ===== *)
theory SchedInv
  imports Scheduler
begin

text \<open>
  Two invariants of the scheduler.  \<open>turn_inv\<close> holds in all reachable states: the threads form one ring
  that the current thread heads.  \<open>sched_inv\<close> adds that the synchronisation objects are consistent and a
  thread inside a block waits for nothing; it holds as long as no thread is left with a pointer to a
  destroyed object (\<open>objects_alive\<close>).
\<close>

section \<open>The ring of threads\<close>

definition ring :: "sync \<Rightarrow> nat \<Rightarrow> nat list \<Rightarrow> bool" where
  "ring s n xs \<longleftrightarrow> xs \<noteq> [] \<and> distinct xs \<and> set xs = {..<n}
     \<and> map (\<lambda>t. nextThread (thr s t)) xs = rotate1 xs"

lemma ring_next:
  assumes "ring s n xs"
  shows "nextThread (thr s (hd xs)) = hd (rotate1 xs)"
proof -
  from assms obtain c ys where xs: "xs = c # ys" by (cases xs) (auto simp: ring_def)
  have "map (\<lambda>t. nextThread (thr s t)) xs = rotate1 xs" using assms by (simp add: ring_def)
  then have "hd (map (\<lambda>t. nextThread (thr s t)) xs) = hd (rotate1 xs)" by simp
  then show ?thesis by (simp add: xs)
qed

lemma ring_rotate1: "ring s n xs \<Longrightarrow> ring s n (rotate1 xs)"
  by (simp add: ring_def rotate1_map [symmetric])

lemma ring_rotate: "ring s n xs \<Longrightarrow> ring s n (rotate k xs)"
  by (induction k) (auto simp: ring_rotate1)

lemma ring_cong:
  assumes "ring s n xs" "\<And>t. nextThread (thr s' t) = nextThread (thr s t)"
  shows "ring s' n xs"
  using assms by (simp add: ring_def)

lemma ring_single: "nextThread (thr s 0) = 0 \<Longrightarrow> ring s 1 [0]"
  by (auto simp: ring_def)

text \<open>A new thread is linked in right behind the current one.\<close>

lemma ring_insert:
  assumes r: "ring s n (c # ys)" and "n \<noteq> c"
    and c': "nextThread (thr s' c) = n" and n': "nextThread (thr s' n) = nextThread (thr s c)"
    and old: "\<And>t. t \<noteq> c \<Longrightarrow> t \<noteq> n \<Longrightarrow> nextThread (thr s' t) = nextThread (thr s t)"
  shows "ring s' (Suc n) (c # n # ys)"
proof -
  have ys: "distinct (c # ys)" "insert c (set ys) = {..<n}"
    "nextThread (thr s c) # map (\<lambda>t. nextThread (thr s t)) ys = ys @ [c]"
    using r by (auto simp: ring_def)
  have "n \<notin> set ys" using ys(2) by auto
  then have "map (\<lambda>t. nextThread (thr s' t)) ys = map (\<lambda>t. nextThread (thr s t)) ys"
    using ys(1) by (intro map_cong refl old) auto
  then have "map (\<lambda>t. nextThread (thr s' t)) (c # n # ys) = rotate1 (c # n # ys)"
    by (simp only: list.map c' n' ys(3) rotate1.simps append_Cons)
  moreover have "set (c # n # ys) = {..<Suc n}"
    using ys(2) by (simp only: list.set lessThan_Suc) (metis insert_commute)
  ultimately show ?thesis using ys(1) \<open>n \<notin> set ys\<close> \<open>n \<noteq> c\<close> by (simp add: ring_def)
qed

text \<open>The walk along the ring visits every thread once and returns.\<close>

lemma ring_find_suffix:
  assumes "map (\<lambda>t. nextThread (thr s t)) (t # post) = post @ [cur]" "cur \<notin> set post"
  shows "ring_find s cur i t = Some (find (\<lambda>t. tid (thr s t) = i) (t # post))"
  using assms
proof (induction post arbitrary: t)
  case Nil
  then show ?case by (subst ring_find.simps) simp
next
  case (Cons u post)
  then have "nextThread (thr s t) = u" "u \<noteq> cur" by auto
  moreover have "ring_find s cur i u = Some (find (\<lambda>t. tid (thr s t) = i) (u # post))"
    using Cons.prems by (intro Cons.IH) auto
  ultimately show ?case by (subst ring_find.simps) simp
qed

lemma ring_find_total:
  assumes "ring s n xs"
  shows "ring_find s (hd xs) i (hd xs) = Some (find (\<lambda>t. tid (thr s t) = i) xs)"
proof -
  from assms obtain c ys where xs: "xs = c # ys" by (cases xs) (auto simp: ring_def)
  show ?thesis using assms unfolding xs list.sel
    by (intro ring_find_suffix) (auto simp: ring_def)
qed

section \<open>What the operations leave alone\<close>

text \<open>No operation moves a thread in the ring or changes its id, whatever state it meets.\<close>

definition same_ring :: "sync \<Rightarrow> sync \<Rightarrow> bool" where
  "same_ring s s' \<longleftrightarrow> (\<forall>t. nextThread (thr s' t) = nextThread (thr s t) \<and> tid (thr s' t) = tid (thr s t))"

lemma same_ring_refl [simp]: "same_ring s s"
  by (simp add: same_ring_def)

lemma same_ring_trans: "same_ring s s' \<Longrightarrow> same_ring s' s'' \<Longrightarrow> same_ring s s''"
  by (simp add: same_ring_def)

lemma clear_wait_next [simp]: "nextThread (clear_wait t) = nextThread t" "tid (clear_wait t) = tid t"
  by (simp_all add: clear_wait_def)

lemma Enter_ring: "same_ring s (EnterCriticalSection me cs s)"
  by (simp add: same_ring_def EnterCriticalSection_def Let_def split: option.split)

lemma Leave_ring: "same_ring s (LeaveCriticalSection me cs s)"
  by (simp add: same_ring_def LeaveCriticalSection_def pass_on_def Let_def split: option.split list.split)

lemma release_all_ring: "same_ring s (release_all e ws s)"
proof (induction ws arbitrary: s)
  case (Cons t ws)
  have "same_ring s (upd_thr t clear_wait (upd_ev e (pop_waiter ws) s))" by (simp add: same_ring_def)
  then show ?case using Cons.IH by (simp add: same_ring_trans)
qed simp

lemma SetEvent_ring: "same_ring s (SetEvent ev s)"
proof -
  have "same_ring s (release_all e ws (upd_ev e f s))" for e ws f
    by (rule same_ring_trans [OF _ release_all_ring]) (simp add: same_ring_def)
  then show ?thesis by (simp add: SetEvent_def split: option.split list.split) (simp add: same_ring_def)
qed

lemma WaitForEvent_ring: "same_ring s (WaitForEvent me ev timeout now s)"
  by (simp add: same_ring_def WaitForEvent_def split: option.split)

lemma Sleep_ring: "same_ring s (Sleep me n now s)"
  by (simp add: same_ring_def Sleep_def)

lemma SetPriority_ring: "same_ring s (SetPriority me p s)"
  by (simp add: same_ring_def SetPriority_def)

lemma remove_from_event_waiters_thr [simp]: "thr (remove_from_event_waiters e t s) = thr s"
  by (simp add: remove_from_event_waiters_def)

lemma CanRun_waits_ring: "same_ring s (snd (CanRun_waits me now s))"
  by (simp add: same_ring_def CanRun_waits_def split: option.split)

lemma CanRun_ring: "same_ring s (snd (CanRun me now1 now2 s))"
proof -
  have "same_ring s (upd_thr me (\<lambda>t. t\<lparr>isSleeping := False\<rparr>) s)" by (simp add: same_ring_def)
  from same_ring_trans [OF this CanRun_waits_ring] CanRun_waits_ring show ?thesis by (simp add: CanRun_def)
qed

lemmas op_ring = Enter_ring Leave_ring SetEvent_ring WaitForEvent_ring Sleep_ring SetPriority_ring

text \<open>A thread that was never created has no part in any object, and another thread's operation keeps it so.\<close>

definition thr_fresh :: "sync \<Rightarrow> nat \<Rightarrow> bool" where
  "thr_fresh s t \<longleftrightarrow> requested (thr s t) = None \<and> waitingEvent (thr s t) = None
     \<and> ownedCriticalSections (thr s t) = Map.empty"

definition frame :: "nat \<Rightarrow> sync \<Rightarrow> sync \<Rightarrow> bool" where
  "frame me s s' \<longleftrightarrow> same_ring s s' \<and> (\<forall>t. t \<noteq> me \<and> thr_fresh s t \<longrightarrow> thr_fresh s' t)"

lemma frameI:
  "same_ring s s' \<Longrightarrow> (\<And>t. t \<noteq> me \<Longrightarrow> thr_fresh s t \<Longrightarrow> thr_fresh s' t) \<Longrightarrow> frame me s s'"
  by (simp add: frame_def)

lemma frame_refl: "frame me s s"
  by (simp add: frame_def)

lemma frame_trans: "frame me s s' \<Longrightarrow> frame me s' s'' \<Longrightarrow> frame me s s''"
  by (auto simp: frame_def intro: same_ring_trans)

lemma frame_thr:
  "nextThread (f (thr s me)) = nextThread (thr s me) \<Longrightarrow> tid (f (thr s me)) = tid (thr s me)
    \<Longrightarrow> frame me s (upd_thr me f s)"
  by (auto simp: frame_def same_ring_def thr_fresh_def)

lemma frame_store [simp]: "frame me s (s\<lparr>css := g\<rparr>)" "frame me s (s\<lparr>evs := h\<rparr>)"
  by (auto simp: frame_def same_ring_def thr_fresh_def)

lemma frame_clear: "frame me s (upd_thr t clear_wait s)"
  by (auto simp: frame_def same_ring_def thr_fresh_def)

lemma Enter_frame: "frame me s (EnterCriticalSection me cs s)"
  by (rule frameI [OF Enter_ring]) (auto simp: thr_fresh_def EnterCriticalSection_def Let_def split: option.split)

lemma Leave_frame:
  assumes inv: "sync_inv s"
  shows "frame me s (LeaveCriticalSection me cs s)"
proof (cases cs)
  case None
  then show ?thesis by (simp add: LeaveCriticalSection_def frame_refl)
next
  case (Some c)
  show ?thesis
  proof (cases "ownedCriticalSections (thr s me) c")
    case None
    with Some show ?thesis by (simp add: LeaveCriticalSection_def frame_refl)
  next
    case k: (Some k)
    consider (nested) "k \<noteq> 1" | (free) "k = 1" "cwaiters (css s c) = []"
      | (pass) nx ws where "k = 1" "cwaiters (css s c) = nx # ws"
      by (cases "cwaiters (css s c)") auto
    then show ?thesis
    proof cases
      case nested
      show ?thesis unfolding Some Leave_nested [OF inv k nested]
        by (rule frame_trans [OF frame_store(1) frame_thr]) simp_all
    next
      case free
      show ?thesis unfolding Some Leave_free [OF inv k [unfolded free(1)] free(2)]
        by (rule frame_trans [OF frame_store(1) frame_thr]) simp_all
    next
      case pass
      note e = Leave_pass [OF inv k [unfolded pass(1)] pass(2)]
      have "requested (thr s nx) = Some c"
        using sync_invD(2) [OF inv, of c] pass(2) by (simp add: cs_queue_def)
      then show ?thesis unfolding Some e(1) using e(2) by (auto simp: frame_def same_ring_def thr_fresh_def)
    qed
  qed
qed

lemma release_all_frame: "frame me s (release_all e ws s)"
proof (induction ws arbitrary: s)
  case Nil
  then show ?case by (simp add: frame_refl)
next
  case (Cons t ws)
  have "frame me s (upd_thr t clear_wait (upd_ev e (pop_waiter ws) s))"
    by (rule frame_trans [OF frame_store(2) frame_clear])
  then show ?case using Cons.IH by (simp add: frame_trans)
qed

lemma SetEvent_frame: "frame me s (SetEvent ev s)"
proof (cases ev)
  case None
  then show ?thesis by (simp add: SetEvent_def frame_refl)
next
  case (Some e)
  have b: "frame me s (release_all e ws (upd_ev e f s))" for ws f
    by (rule frame_trans [OF frame_store(2) release_all_frame])
  have "frame me s (SetEvent (Some e) s)" if "\<not> manualReset (evs s e)"
    using that by (cases "ewaiters (evs s e)") (auto simp: SetEvent_def frame_def same_ring_def thr_fresh_def)
  moreover have "frame me s (SetEvent (Some e) s)" if "manualReset (evs s e)"
    using that b by (simp add: SetEvent_def)
  ultimately show ?thesis unfolding Some by blast
qed

lemma WaitForEvent_frame: "frame me s (WaitForEvent me ev timeout now s)"
  by (rule frameI [OF WaitForEvent_ring]) (auto simp: thr_fresh_def WaitForEvent_def split: option.split)

lemma CanRun_waits_frame:
  assumes inv: "sync_inv s"
  shows "frame me s (snd (CanRun_waits me now s))"
proof -
  have "frame me s (upd_thr me clear_wait (remove_from_event_waiters e me s))" for e
    by (rule frame_trans [OF _ frame_clear])
      (auto simp: remove_from_event_waiters_def frame_store(2) frame_refl)
  then show ?thesis by (auto simp: CanRun_waits_eq [OF inv] frame_refl split: option.split)
qed

lemma CanRun_frame:
  assumes inv: "sync_inv s"
  shows "frame me s (snd (CanRun me now1 now2 s))"
proof -
  let ?x = "upd_thr me (\<lambda>t. t\<lparr>isSleeping := False\<rparr>) s"
  have x: "sync_inv ?x" using inv by (rule sync_inv_upd_thr) simp_all
  have "frame me s ?x" by (rule frame_thr) simp_all
  moreover have "frame me ?x (snd (CanRun_waits me now2 ?x))"
    using CanRun_waits_frame [OF x, of me now2] by simp
  ultimately show ?thesis
    using CanRun_waits_frame [OF inv, of me now2]
    by (auto simp: CanRun_def frame_refl intro: frame_trans)
qed

section \<open>The invariant\<close>

definition runnable :: "sync \<Rightarrow> nat \<Rightarrow> bool" where
  "runnable s t \<longleftrightarrow> requested (thr s t) = None \<and> waitingEvent (thr s t) = None
     \<and> \<not> isSuspended (thr s t) \<and> \<not> isSleeping (thr s t)"

definition turn_at :: "nat list \<Rightarrow> ('u, 'c) mach \<Rightarrow> bool" where
  "turn_at xs ms \<longleftrightarrow> ring (sy (msm ms)) (nthreads (msm ms)) xs \<and> currentThread (msm ms) = Some (hd xs)
     \<and> (\<forall>t. tid (thr (sy (msm ms)) t) = int t)"

definition turn_inv :: "('u, 'c) mach \<Rightarrow> bool" where
  "turn_inv ms \<longleftrightarrow> (\<exists>xs. turn_at xs ms)"

definition sched_inv_at :: "nat list \<Rightarrow> ('u, 'c) mach \<Rightarrow> bool" where
  "sched_inv_at xs ms \<longleftrightarrow> turn_at xs ms \<and> sync_inv (sy (msm ms))
     \<and> (\<forall>t\<ge>nthreads (msm ms). thr_fresh (sy (msm ms)) t)
     \<and> (mphase ms = InBlock \<longrightarrow> runnable (sy (msm ms)) (hd xs))"

definition sched_inv :: "('u, 'c) mach \<Rightarrow> bool" where
  "sched_inv ms \<longleftrightarrow> (\<exists>xs. sched_inv_at xs ms)"

lemma ring_hd_less: "ring s n xs \<Longrightarrow> hd xs < n"
proof -
  assume r: "ring s n xs"
  then have "xs \<noteq> []" by (simp add: ring_def)
  then have "hd xs \<in> set xs" by (rule hd_in_set)
  moreover have "set xs = {..<n}" using r by (simp add: ring_def)
  ultimately show "hd xs < n" by simp
qed

lemma sched_inv_turn: "sched_inv ms \<Longrightarrow> turn_inv ms"
  by (auto simp: sched_inv_def turn_inv_def sched_inv_at_def)

text \<open>An operation of the current thread.\<close>

lemma turn_at_op:
  assumes "turn_at xs ms" "same_ring (sy (msm ms)) (sy (msm ms'))" "nthreads (msm ms') = nthreads (msm ms)"
    "currentThread (msm ms') = currentThread (msm ms)"
  shows "turn_at xs ms'"
  using assms by (auto simp: turn_at_def same_ring_def intro: ring_cong)

lemma sched_inv_op:
  assumes inv: "sched_inv_at xs ms" and s': "sync_inv (sy (msm ms'))"
    and fr: "frame (hd xs) (sy (msm ms)) (sy (msm ms'))"
    and ms': "nthreads (msm ms') = nthreads (msm ms)" "currentThread (msm ms') = currentThread (msm ms)"
    and ph: "mphase ms' = InBlock \<Longrightarrow> runnable (sy (msm ms')) (hd xs)"
  shows "sched_inv_at xs ms'"
proof -
  have t: "turn_at xs ms" using inv by (simp add: sched_inv_at_def)
  then have "hd xs < nthreads (msm ms)" by (auto simp: turn_at_def dest: ring_hd_less)
  then have "\<forall>t\<ge>nthreads (msm ms'). thr_fresh (sy (msm ms')) t"
    using inv fr ms'(1) by (auto simp: sched_inv_at_def frame_def)
  moreover have "turn_at xs ms'" using t fr ms' by (auto simp: frame_def intro: turn_at_op)
  ultimately show ?thesis using s' ph by (simp add: sched_inv_at_def)
qed

section \<open>Creating threads\<close>

lemma NewThread_state:
  assumes "NewThread ctx junk start arg p stk sm m = (i, sm', m')"
  obtains a k where "i = int (nthreads sm)"
    "sy sm' = upd_thr (nthreads sm) (\<lambda>_. Thread_new (nthreads sm)
        (case currentThread sm of None \<Rightarrow> nthreads sm | Some c \<Rightarrow> nextThread (thr (sy sm) c)) k a p)
      (case currentThread sm of None \<Rightarrow> sy sm
        | Some c \<Rightarrow> upd_thr c (\<lambda>t. t\<lparr>nextThread := nthreads sm\<rparr>) (sy sm))"
    "nthreads sm' = Suc (nthreads sm)"
    "currentThread sm' = Some (case currentThread sm of None \<Rightarrow> nthreads sm | Some c \<Rightarrow> c)"
  using assms by (auto simp: NewThread_def Let_def split: option.splits prod.splits)

lemma fresh_thread_inv:
  assumes "sync_inv s" "thr_fresh s t"
  shows "sync_inv (upd_thr t (\<lambda>_. Thread_new t nx k a p) s)"
  using assms(1) by (rule sync_inv_upd_thr)
    (use assms sync_invD(1) [OF assms(1)] in \<open>simp_all add: Thread_new_def thr_fresh_def\<close>)

lemma NewThread_turn:
  assumes inv: "turn_at xs ms" and ret: "NewThread ctx junk start arg p stk (msm ms) m = (i, sm', m')"
  obtains ys where "xs = hd xs # ys"
    "turn_at (hd xs # nthreads (msm ms) # ys) (ms\<lparr>msm := sm', mmem := m', mphase := AtBlock\<rparr>)"
proof -
  let ?s = "sy (msm ms)" and ?n = "nthreads (msm ms)"
  have I: "ring ?s ?n xs" "currentThread (msm ms) = Some (hd xs)" "\<And>t. tid (thr ?s t) = int t"
    using inv by (auto simp: turn_at_def)
  obtain c ys where xs: "xs = c # ys" using I(1) by (cases xs) (auto simp: ring_def)
  have cn: "c < ?n" using ring_hd_less [OF I(1)] by (simp add: xs)
  from ret obtain a k where N: "sy sm' = upd_thr ?n (\<lambda>_. Thread_new ?n (nextThread (thr ?s c)) k a p)
      (upd_thr c (\<lambda>t. t\<lparr>nextThread := ?n\<rparr>) ?s)"
    "nthreads sm' = Suc ?n" "currentThread sm' = Some c"
    by (rule NewThread_state) (simp_all add: I(2) xs)
  have "ring (sy sm') (Suc ?n) (c # ?n # ys)"
    using cn I(1) unfolding xs by (intro ring_insert) (auto simp: N(1) Thread_new_def)
  moreover have "\<forall>t. tid (thr (sy sm') t) = int t" using I(3) by (simp add: N(1) Thread_new_def)
  ultimately show ?thesis using that [of ys] by (simp add: xs turn_at_def N(2,3))
qed

lemma NewThread_inv:
  assumes inv: "sched_inv_at xs ms" and ret: "NewThread ctx junk start arg p stk (msm ms) m = (i, sm', m')"
  shows "sched_inv (ms\<lparr>msm := sm', mmem := m', mphase := AtBlock\<rparr>)"
proof -
  let ?s = "sy (msm ms)" and ?n = "nthreads (msm ms)"
  have I: "turn_at xs ms" "sync_inv ?s" "\<forall>t\<ge>?n. thr_fresh ?s t" using inv by (auto simp: sched_inv_at_def)
  have T: "currentThread (msm ms) = Some (hd xs)" "hd xs < ?n" using I(1) by (auto simp: turn_at_def dest: ring_hd_less)
  obtain ys where t: "turn_at (hd xs # ?n # ys) (ms\<lparr>msm := sm', mmem := m', mphase := AtBlock\<rparr>)"
    by (rule NewThread_turn [OF I(1) ret])
  from ret obtain nx a k where N: "sy sm' = upd_thr ?n (\<lambda>_. Thread_new ?n nx k a p)
      (upd_thr (hd xs) (\<lambda>t. t\<lparr>nextThread := ?n\<rparr>) ?s)" "nthreads sm' = Suc ?n"
    by (rule NewThread_state) (simp_all add: T(1))
  define s1 where "s1 = upd_thr (hd xs) (\<lambda>t. t\<lparr>nextThread := ?n\<rparr>) ?s"
  have s1: "sync_inv s1" unfolding s1_def using I(2) by (rule sync_inv_upd_thr) simp_all
  have "thr_fresh s1 ?n" using I(3) T(2) by (simp add: s1_def thr_fresh_def)
  then have "sync_inv (sy sm')" unfolding N(1) s1_def [symmetric] by (rule fresh_thread_inv [OF s1])
  moreover have "\<forall>t\<ge>Suc ?n. thr_fresh (sy sm') t" using I(3) T(2) by (auto simp: N(1) thr_fresh_def)
  ultimately show ?thesis using t by (auto simp: sched_inv_def sched_inv_at_def N(2))
qed

section \<open>The initial state\<close>

definition sync_init :: sync where
  "sync_init = \<lparr>thr = (\<lambda>t. Thread_new t t 0 0 0), css = (\<lambda>_. CriticalSection_new),
     evs = (\<lambda>_. Event_new False False)\<rparr>"

definition StateManager_init :: "(nat \<Rightarrow> 'c ThreadState) \<Rightarrow> 'c StateManager" where
  "StateManager_init ts =
     \<lparr>sy = sync_init, tstate = ts, nthreads = 0, currentThread = None, yielding = False,
      interrupting = False, pausing = False, interruptPC = 0\<rparr>"

lemma sync_init_inv: "sync_inv sync_init"
  by (auto simp: sync_inv_def sync_init_def Thread_new_def CriticalSection_new_def Event_new_def
      cs_queue_def free_section_def ev_ok_def)

lemma Execute_start_inv:
  assumes "msm ms = StateManager_init ts"
  shows "sched_inv_at [0] (Execute_start uc ctx junk entry ms)"
proof -
  obtain i sm' m' where N: "NewThread ctx junk entry 0 THREAD_PRIORITY_NORMAL MEM_STACK_SIZE (msm ms) (mmem ms)
    = (i, sm', m')" by (metis prod_cases3)
  obtain a k where S: "sy sm' = upd_thr 0 (\<lambda>_. Thread_new 0 0 k a THREAD_PRIORITY_NORMAL) sync_init"
    "nthreads sm' = 1" "currentThread sm' = Some 0"
    by (rule NewThread_state [OF N]) (simp_all add: assms StateManager_init_def)
  have f: "thr_fresh sync_init t" for t by (simp add: thr_fresh_def sync_init_def Thread_new_def)
  have "sync_inv (sy sm')" unfolding S(1) by (rule fresh_thread_inv [OF sync_init_inv f])
  moreover have "ring (sy sm') 1 [0]" by (rule ring_single) (simp add: S(1) Thread_new_def)
  moreover have "\<forall>t\<ge>1. thr_fresh (sy sm') t" using f by (auto simp: S(1) thr_fresh_def)
  moreover have "\<forall>t. tid (thr (sy sm') t) = int t" by (simp add: S(1) sync_init_def Thread_new_def)
  ultimately show ?thesis
    by (simp add: Execute_start_def N sched_inv_at_def turn_at_def S(2,3))
qed

lemma Execute_start_alive:
  assumes "msm ms = StateManager_init ts"
  shows "objects_alive (Execute_start uc ctx junk entry ms)"
proof -
  obtain i sm' m' where N: "NewThread ctx junk entry 0 THREAD_PRIORITY_NORMAL MEM_STACK_SIZE (msm ms) (mmem ms)
    = (i, sm', m')" by (metis prod_cases3)
  obtain a k where "sy sm' = upd_thr 0 (\<lambda>_. Thread_new 0 0 k a THREAD_PRIORITY_NORMAL) sync_init"
    by (rule NewThread_state [OF N]) (simp_all add: assms StateManager_init_def)
  then show ?thesis by (simp add: Execute_start_def N objects_alive_def sync_init_def Thread_new_def)
qed

section \<open>Every step keeps the ring\<close>

lemma on_current_turn:
  assumes "turn_at xs ms" "on_current f (ms\<lparr>mos := tb\<rparr>) = Returned ms'"
    and "\<And>s. same_ring s (f (hd xs) s)"
  shows "turn_at xs (ms'\<lparr>mphase := AtBlock\<rparr>)"
proof -
  have "ms' = upd_sync (f (hd xs)) (ms\<lparr>mos := tb\<rparr>)" using assms(1,2) by (simp add: on_current_def turn_at_def)
  then show ?thesis by (intro turn_at_op [OF assms(1)]) (simp_all add: assms(3))
qed

text \<open>What the hook does to the synchronisation state is what \<open>CanRun\<close> does.\<close>

lemma SaveCurrent_sel [simp]:
  "sy (SaveCurrentThreadState uc u sm) = sy sm" "nthreads (SaveCurrentThreadState uc u sm) = nthreads sm"
  "currentThread (SaveCurrentThreadState uc u sm) = currentThread sm"
  by (simp_all add: SaveCurrentThreadState_def split: option.split)

lemma code_hook_cases:
  assumes "code_hook uc n1 n2 n3 n4 l u sm = Returned (stop, sm', l')" "currentThread sm = Some c"
  shows "sy sm' = snd (CanRun c n2 n3 (sy sm))" "nthreads sm' = nthreads sm"
    "currentThread sm' = Some c" "\<not> stop \<Longrightarrow> fst (CanRun c n2 n3 (sy sm))"
  using assms by (auto simp: code_hook_def Let_def split: prod.splits if_splits)

lemma code_hook_turn:
  assumes inv: "turn_at xs ms" and ret: "code_hook uc n1 n2 n3 n4 l u (msm ms) = Returned (stop, sm', l')"
  shows "turn_at xs (ms\<lparr>msm := sm', mlast := l', mphase := ph\<rparr>)"
proof -
  have "currentThread (msm ms) = Some (hd xs)" using inv by (simp add: turn_at_def)
  note H = code_hook_cases [OF ret this]
  show ?thesis by (rule turn_at_op [OF inv]) (simp_all add: H CanRun_ring \<open>currentThread (msm ms) = Some (hd xs)\<close>)
qed

lemma SetThreadPriority_eq:
  assumes inv: "turn_at xs ms"
  shows "SetThreadPriority i p (msm ms)
    = Some (if 0 \<le> i \<and> i < int (nthreads (msm ms))
            then (1, (msm ms)\<lparr>sy := SetPriority (nat i) p (sy (msm ms))\<rparr>) else (0, msm ms))"
proof -
  have D: "ring (sy (msm ms)) (nthreads (msm ms)) xs" "currentThread (msm ms) = Some (hd xs)"
    "\<And>t. tid (thr (sy (msm ms)) t) = int t" using inv by (auto simp: turn_at_def)
  let ?P = "\<lambda>t. tid (thr (sy (msm ms)) t) = i"
  have P: "?P t \<longleftrightarrow> 0 \<le> i \<and> t = nat i" for t using D(3) [of t] by auto
  have st: "set xs = {..<nthreads (msm ms)}" using D(1) by (simp add: ring_def)
  have "find ?P xs = (if 0 \<le> i \<and> i < int (nthreads (msm ms)) then Some (nat i) else None)"
  proof (cases "0 \<le> i \<and> i < int (nthreads (msm ms))")
    case True
    have "find ?P xs = Some (nat i)"
      by (rule find_unique) (use True st P in auto)
    with True show ?thesis by simp
  next
    case False
    then have "find ?P xs = None" using st P by (auto simp: find_None_iff)
    with False show ?thesis by simp
  qed
  then show ?thesis
    using ring_find_total [OF D(1), of i] by (simp add: SetThreadPriority_def D(2))
qed

lemma SwitchThread_turn:
  assumes inv: "turn_at xs ms" and ret: "SwitchThread uc (msm ms) u = Returned (sm', u')"
  shows "turn_at (rotate1 xs) (ms\<lparr>msm := sm', mcpu := u', mphase := AtBlock\<rparr>)" "sy sm' = sy (msm ms)"
    "nthreads sm' = nthreads (msm ms)"
proof -
  have D: "ring (sy (msm ms)) (nthreads (msm ms)) xs" "currentThread (msm ms) = Some (hd xs)"
    using inv by (auto simp: turn_at_def)
  have S: "sy sm' = sy (msm ms)" "nthreads sm' = nthreads (msm ms)" "currentThread sm' = Some (hd (rotate1 xs))"
    using ret ring_next [OF D(1)] D(2) by (auto simp: SwitchThread_def Let_def split: if_splits)
  then show "sy sm' = sy (msm ms)" "nthreads sm' = nthreads (msm ms)" by simp_all
  show "turn_at (rotate1 xs) (ms\<lparr>msm := sm', mcpu := u', mphase := AtBlock\<rparr>)"
    using inv ring_rotate1 [OF D(1)] S by (simp add: turn_at_def)
qed

lemma sched_step_turn:
  assumes step: "sched_step uc ms ms'" and "turn_inv ms"
  shows "turn_inv ms'"
proof -
  from assms(2) obtain xs where inv: "turn_at xs ms" by (auto simp: turn_inv_def)
  have same: "turn_at xs ms''" if "sy (msm ms'') = sy (msm ms)" "nthreads (msm ms'') = nthreads (msm ms)"
    "currentThread (msm ms'') = currentThread (msm ms)" for ms'' :: "('a, 'b) mach"
    using that by (intro turn_at_op [OF inv]) simp_all
  have "\<exists>xs. turn_at xs ms'"
    using step
  proof cases
    case (hook_run n1 n2 n3 n4 sm' l)
    then show ?thesis using code_hook_turn [OF inv hook_run(3)] by auto
  next
    case (hook_stop n1 n2 n3 n4 sm' l)
    then show ?thesis using code_hook_turn [OF inv hook_stop(3)] by auto
  next
    case (init_cs obj args r ms1)
    have "turn_at xs ms'"
      by (rule turn_at_op [OF inv]) (use init_cs in \<open>auto simp: OSInitCriticalSection_def same_ring_def\<close>)
    then show ?thesis by blast
  next
    case (enter_cs args r ms1)
    then show ?thesis
      by (auto simp: OSEnterCriticalSection_def split: prod.splits dest!: on_current_turn [OF inv] intro: op_ring)
  next
    case (leave_cs args r ms1)
    then show ?thesis
      by (auto simp: OSLeaveCriticalSection_def split: prod.splits dest!: on_current_turn [OF inv] intro: op_ring)
  next
    case (sleep now args r ms1)
    then have "on_current (\<lambda>c. Sleep c (r0 args) now) (ms\<lparr>mos := mos ms\<rparr>) = Returned ms1" by (auto simp: OSSleep_def)
    from on_current_turn [OF inv this] sleep(1) show ?thesis by (auto intro: op_ring)
  next
    case (create_event obj args r ms1)
    have "turn_at xs ms'"
      by (rule turn_at_op [OF inv]) (use create_event in \<open>auto simp: OSCreateEvent_def Let_def same_ring_def\<close>)
    then show ?thesis by blast
  next
    case (wait_event now args r ms1)
    then show ?thesis
      by (auto simp: OSWaitForEvent_def split: prod.splits dest!: on_current_turn [OF inv] intro: op_ring)
  next
    case (set_event args r ms1)
    then show ?thesis
      by (auto simp: OSSetEvent_def split: prod.splits dest!: on_current_turn [OF inv] intro: op_ring)
  next
    case (create_thread ctx junk args r ms1)
    obtain i sm' m' where N: "NewThread ctx junk (r0 args) (r4 args) THREAD_PRIORITY_NORMAL 0x2000
      (msm ms) (mmem ms) = (i, sm', m')" by (metis prod_cases3)
    obtain ys where "turn_at (hd xs # nthreads (msm ms) # ys)
      (ms\<lparr>msm := sm', mmem := m', mphase := AtBlock\<rparr>)" by (rule NewThread_turn [OF inv N])
    then show ?thesis using create_thread by (auto simp: OSCreateThread_def N)
  next
    case (set_priority args r ms1)
    have "turn_at xs ms'"
      by (rule turn_at_op [OF inv])
        (use set_priority in \<open>auto simp: OSSetThreadPriority_def SetThreadPriority_eq [OF inv] op_ring split: if_splits\<close>)
    then show ?thesis by blast
  next
    case (switch sm' u)
    then show ?thesis using SwitchThread_turn [OF inv switch(3)] by auto
  qed (auto simp: CurrentThreadYield_def intro!: exI [of _ xs] same)
  then show ?thesis by (simp add: turn_inv_def)
qed

lemma sched_reachable_turn:
  assumes "sched_reachable uc ms0 ms" "turn_inv ms0"
  shows "turn_inv ms"
  using assms by (induction) (auto intro: sched_step_turn)

section \<open>Every step keeps the invariant\<close>

lemma sched_inv_atD:
  assumes "sched_inv_at xs ms"
  shows "turn_at xs ms" "ring (sy (msm ms)) (nthreads (msm ms)) xs" "currentThread (msm ms) = Some (hd xs)"
    "sync_inv (sy (msm ms))" "mphase ms = InBlock \<Longrightarrow> runnable (sy (msm ms)) (hd xs)"
  using assms by (simp_all add: sched_inv_at_def turn_at_def)

lemma sched_inv_same:
  assumes "sched_inv_at xs ms" "sy (msm ms') = sy (msm ms)" "nthreads (msm ms') = nthreads (msm ms)"
    "currentThread (msm ms') = currentThread (msm ms)" "mphase ms' = mphase ms \<or> mphase ms' \<noteq> InBlock"
  shows "sched_inv_at xs ms'"
  using assms by (auto simp: sched_inv_at_def turn_at_def)

lemma on_current_inv:
  assumes inv: "sched_inv_at xs ms" and ret: "on_current f (ms\<lparr>mos := tb\<rparr>) = Returned ms'"
    and s': "sync_inv (f (hd xs) (sy (msm ms)))" and fr: "frame (hd xs) (sy (msm ms)) (f (hd xs) (sy (msm ms)))"
  shows "sched_inv_at xs (ms'\<lparr>mphase := AtBlock\<rparr>)"
proof -
  have "ms' = upd_sync (f (hd xs)) (ms\<lparr>mos := tb\<rparr>)"
    using ret sched_inv_atD(3) [OF inv] by (simp add: on_current_def)
  then show ?thesis by (intro sched_inv_op [OF inv]) (simp_all add: s' fr)
qed

lemma code_hook_inv:
  assumes inv: "sched_inv_at xs ms"
    and ret: "code_hook uc n1 n2 n3 n4 l u (msm ms) = Returned (stop, sm', l')"
    and ph: "stop \<Longrightarrow> ph \<noteq> InBlock"
  shows "sched_inv_at xs (ms\<lparr>msm := sm', mlast := l', mphase := ph\<rparr>)"
proof -
  note D = sched_inv_atD [OF inv]
  note H = code_hook_cases [OF ret D(3)]
  have run: "runnable (sy sm') (hd xs)" if "\<not> stop"
    using CanRun_True [OF D(4), of "hd xs" n2 n3 "sy sm'"] H(1,4) that
    by (cases "CanRun (hd xs) n2 n3 (sy (msm ms))") (auto simp: runnable_def)
  show ?thesis
    by (rule sched_inv_op [OF inv])
      (use ph run in \<open>auto simp: H D(3) CanRun_inv [OF D(4)] CanRun_frame [OF D(4)]\<close>)
qed

text \<open>A new object at an address that no table holds: no thread refers to it, so it can be made anew.\<close>

lemma init_cs_inv:
  assumes inv: "sched_inv_at xs ms" and alive: "objects_alive ms" and new: "unused_cs obj (mos ms)"
    and ret: "OSInitCriticalSection obj args ms = (r, ms')"
  shows "sched_inv_at xs (ms'\<lparr>mphase := AtBlock\<rparr>)"
proof -
  note D = sched_inv_atD [OF inv]
  let ?s = "sy (msm ms)"
  let ?s' = "upd_cs obj (\<lambda>_. CriticalSection_new) ?s"
  have un: "ownedCriticalSections (thr ?s t) obj = None" "requested (thr ?s t) \<noteq> Some obj" for t
    using alive new unfolding objects_alive_def unused_cs_def by blast+
  have "cs_queue ?s' obj" using un by (simp add: cs_queue_def CriticalSection_new_def)
  moreover have "free_section ?s' obj" using un by (simp add: free_section_def CriticalSection_new_def)
  ultimately have s': "sync_inv ?s'"
    by (intro sync_inv_section [OF D(4), where c = obj]) (auto simp: same_for_section_def)
  show ?thesis
    by (rule sched_inv_op [OF inv]) (use s' ret in \<open>auto simp: OSInitCriticalSection_def\<close>)
qed

lemma create_event_inv:
  assumes inv: "sched_inv_at xs ms" and alive: "objects_alive ms" and new: "unused_ev obj (mos ms)"
    and ret: "OSCreateEvent obj args ms = (r, ms')"
  shows "sched_inv_at xs (ms'\<lparr>mphase := AtBlock\<rparr>)"
proof -
  note D = sched_inv_atD [OF inv]
  let ?s = "sy (msm ms)" and ?new = "Event_new (r0 args \<noteq> 0) (r1 args \<noteq> 0)"
  have "waitingEvent (thr ?s t) \<noteq> Some obj" for t
    using alive new unfolding objects_alive_def unused_ev_def by blast
  then have "ev_ok (upd_ev obj (\<lambda>_. ?new) ?s) obj" by (simp add: ev_ok_def Event_new_def)
  then have s': "sync_inv (upd_ev obj (\<lambda>_. ?new) ?s)"
    by (intro sync_inv_event [OF D(4), where e = obj]) simp_all
  show ?thesis
    by (rule sched_inv_op [OF inv]) (use s' ret in \<open>auto simp: OSCreateEvent_def Let_def\<close>)
qed

lemma set_priority_inv:
  assumes inv: "sched_inv_at xs ms" and ret: "OSSetThreadPriority args ms = Some (r, ms')"
  shows "sched_inv_at xs (ms'\<lparr>mphase := AtBlock\<rparr>)"
proof -
  note D = sched_inv_atD [OF inv]
  have fr: "frame (hd xs) (sy (msm ms)) (SetPriority t p (sy (msm ms)))" for t p
    by (rule frameI [OF SetPriority_ring]) (auto simp: thr_fresh_def SetPriority_def)
  show ?thesis
    by (rule sched_inv_op [OF inv])
      (use ret fr SetPriority_inv [OF D(4)] D(4) in
        \<open>auto simp: OSSetThreadPriority_def SetThreadPriority_eq [OF D(1)] frame_refl split: if_splits\<close>)
qed

lemma sched_step_inv:
  assumes step: "sched_step uc ms ms'" and "sched_inv ms" and alive: "objects_alive ms"
  shows "sched_inv ms'"
proof -
  from assms(2) obtain xs where inv: "sched_inv_at xs ms" by (auto simp: sched_inv_def)
  note D = sched_inv_atD [OF inv]
  have "\<exists>xs. sched_inv_at xs ms'"
    using step
  proof cases
    case (hook_run n1 n2 n3 n4 sm' l)
    then show ?thesis using code_hook_inv [OF inv hook_run(3)] by auto
  next
    case (hook_stop n1 n2 n3 n4 sm' l)
    then show ?thesis using code_hook_inv [OF inv hook_stop(3)] by auto
  next
    case (init_cs obj args r ms1)
    then show ?thesis using init_cs_inv [OF inv alive init_cs(3,4)] by auto
  next
    case (enter_cs args r ms1)
    have "requested (thr (sy (msm ms)) (hd xs)) = None" using D(5) enter_cs(2) by (simp add: runnable_def)
    with enter_cs show ?thesis
      by (auto simp: OSEnterCriticalSection_def split: prod.splits
          dest!: on_current_inv [OF inv] intro: Enter_inv [OF D(4)] Enter_frame)
  next
    case (leave_cs args r ms1)
    then show ?thesis
      by (auto simp: OSLeaveCriticalSection_def split: prod.splits
          dest!: on_current_inv [OF inv] intro: Leave_inv [OF D(4)] Leave_frame [OF D(4)])
  next
    case (sleep now args r ms1)
    then have c: "on_current (\<lambda>c. Sleep c (r0 args) now) (ms\<lparr>mos := mos ms\<rparr>) = Returned ms1" by (auto simp: OSSleep_def)
    have "frame (hd xs) (sy (msm ms)) (Sleep (hd xs) (r0 args) now (sy (msm ms)))"
      unfolding Sleep_def by (rule frame_thr) simp_all
    from on_current_inv [OF inv c Sleep_inv [OF D(4)] this] show ?thesis unfolding sleep(1) by blast
  next
    case (create_event obj args r ms1)
    then show ?thesis using create_event_inv [OF inv alive create_event(3,4)] by auto
  next
    case (wait_event now args r ms1)
    have "waitingEvent (thr (sy (msm ms)) (hd xs)) = None" using D(5) wait_event(2) by (simp add: runnable_def)
    with wait_event show ?thesis
      by (auto simp: OSWaitForEvent_def split: prod.splits
          dest!: on_current_inv [OF inv] intro: WaitForEvent_inv [OF D(4)] WaitForEvent_frame)
  next
    case (set_event args r ms1)
    then show ?thesis
      by (auto simp: OSSetEvent_def split: prod.splits
          dest!: on_current_inv [OF inv] intro: SetEvent_inv [OF D(4)] SetEvent_frame)
  next
    case (create_thread ctx junk args r ms1)
    obtain i sm' m' where N: "NewThread ctx junk (r0 args) (r4 args) THREAD_PRIORITY_NORMAL 0x2000
      (msm ms) (mmem ms) = (i, sm', m')" by (metis prod_cases3)
    show ?thesis using NewThread_inv [OF inv N] create_thread by (auto simp: OSCreateThread_def N sched_inv_def)
  next
    case (set_priority args r ms1)
    then show ?thesis using set_priority_inv [OF inv] by auto
  next
    case (switch sm' u)
    note S = SwitchThread_turn [OF D(1) switch(3)]
    have "sched_inv_at (rotate1 xs) ms'" using inv S by (simp add: sched_inv_at_def switch(1))
    then show ?thesis by blast
  qed (auto simp: CurrentThreadYield_def intro!: exI [of _ xs] sched_inv_same [OF inv])
  then show ?thesis by (simp add: sched_inv_def)
qed

lemma sched_runs_inv:
  assumes "runs (sched_step uc) objects_alive ms0 ms" "sched_inv ms0"
  shows "sched_inv ms"
  using assms by (rule runs_inv) (rule sched_step_inv)

end
