(* ===== verification/HeapProps.thy ===== *)
theory HeapProps
  imports HeapServices
begin

text \<open>
  The properties of the memory manager and the virtual heap, for whole runs and for each call,
  with a concrete manager on which their hypotheses hold.
\<close>

section \<open>A concrete manager\<close>

definition demo_host :: host where
  "demo_host = \<lparr>calloc_r = (\<lambda>n. 0x100000000),
     uc_map = (\<lambda>v s r. s \<noteq> 0 \<and> unat v mod 4096 = 0), uc_unmap = (\<lambda>v s. True)\<rparr>"

definition demo_mm :: MemoryManager where
  "demo_mm = (case MemoryManager_new demo_host (\<lambda>_. 0) of Returned m \<Rightarrow> m | Aborted \<Rightarrow> undefined)"

lemma demo_mm_new: "MemoryManager_new demo_host (\<lambda>_. 0) = Returned demo_mm"
  unfolding demo_mm_def MemoryManager_new_def Let_def heap_pages
  by (simp add: demo_host_def MEM_DYNAMIC_HEAP_SIZE_def)

lemma demo_host_ok: "host_ok demo_host (demo_mm\<lparr>blocks := []\<rparr>)"
proof -
  have "unat (n * PAGE_SIZE) < 4294967296" for n :: u32 by (rule unat32_lt)
  then have "4294967296 + unat (n * PAGE_SIZE) < 18446744073709551616" for n :: u32
    by (rule order_less_le_trans [OF add_strict_left_mono]) simp
  then show ?thesis by (auto simp: host_ok_def demo_host_def unat_gt_0 mod_eq_0_iff_dvd)
qed

lemma demo_hinv: "hinv demo_mm"
  by (rule MemoryManager_new_hinv [OF demo_mm_new demo_host_ok])

lemma demo_tables:
  "heapAlloc demo_mm = []" "heapFree demo_mm = [(0x20000000, 0x10000000)]"
  using arg_cong [OF MemoryManager_new_eq(3) [OF demo_mm_new], of heapAlloc]
    arg_cong [OF MemoryManager_new_eq(3) [OF demo_mm_new], of heapFree]
  by (simp_all add: MEM_DYNAMIC_HEAP_SIZE_def MEM_DYNAMIC_HEAP_BASE_def)

abbreviation call_args :: "u32 \<Rightarrow> u32 \<Rightarrow> SystemServiceArguments" where
  "call_args x y \<equiv> \<lparr>r0 = x, r1 = y, r2 = 0, r3 = 0, r4 = 0, sp = 0\<rparr>"

text \<open>The manager after one \<open>lmalloc(24)\<close>.\<close>

definition demo_mm1 :: MemoryManager where
  "demo_mm1 = snd (lmalloc (call_args 24 0) demo_mm)"

lemma demo_malloc:
  "lmalloc (call_args 24 0) demo_mm = (0x20000008, demo_mm1)" "hinv demo_mm1"
  "heapAlloc demo_mm1 = [(0x20000008, 32)]" "heapFree demo_mm1 = [(0x20000030, 0x0FFFFFD0)]"
proof -
  have al: "AlignUp (sz 24) kHeapAlign = 32"
    by (simp add: AlignUp_def kHeapAlign_def sz_def)
  have s: "0 < unat (sz 24)" by simp
  have f: "find (\<lambda>p. unat (AlignUp (sz 24) kHeapAlign) + 16 \<le> unat (snd p)) (heapFree demo_mm)
    = Some (0x20000000, 0x10000000)"
    by (simp add: al demo_tables)
  note A = HeapAlloc_Some [OF demo_hinv s size32 f, unfolded al]
  have u: "vp (sz 0x20000000 + kCookieSize) = 0x20000008"
    by (simp add: vp_def sz_def kCookieSize_def)
  obtain m' where m': "HeapAlloc demo_mm 0 (sz 24) = (ERROR_OK, 0x20000008, m')" "hinv m'"
    "heapAlloc m' = um_emplace 0x20000008 32 (heapAlloc demo_mm)"
    "heapFree m' = take_front 0x20000000 0x10000000 (32 + 2 * kCookieSize) (heapFree demo_mm)"
    using A(1) [of 0] A(2) by (simp add: u)
  then have "lmalloc (call_args 24 0) demo_mm = (0x20000008, m')"
    by (simp add: lmalloc_def DyanmicAlloc_def)
  then show "lmalloc (call_args 24 0) demo_mm = (0x20000008, demo_mm1)" "hinv demo_mm1"
    "heapAlloc demo_mm1 = [(0x20000008, 32)]" "heapFree demo_mm1 = [(0x20000030, 0x0FFFFFD0)]"
    using m' by (simp_all add: demo_mm1_def demo_tables um_emplace_def take_front_def
        kCookieSize_def vp_def)
qed

lemma live_filter:
  assumes inv: "hinv m" and n: "(u, n) \<in> set (heapAlloc m)"
  shows "set (heapAlloc m) - {(u, n)} = {p \<in> set (heapAlloc m). fst p \<noteq> u}"
proof (rule set_eqI)
  fix p
  have "snd p = n" if "p \<in> set (heapAlloc m)" "fst p = u"
    using live_unique [OF inv _ n, of "snd p"] that(1) unfolding that(2) [symmetric] by simp
  then show "p \<in> set (heapAlloc m) - {(u, n)} \<longleftrightarrow> p \<in> {p \<in> set (heapAlloc m). fst p \<noteq> u}"
    by (cases "fst p = u"; cases "p = (u, n)") (auto simp: prod_eq_iff)
qed

lemma load_le_byte:
  assumes "i < n" "n \<le> 8"
  shows "ucast (drop_bit (8 * i) (load_le n h p)) = h (p + of_nat i)"
  using assms
proof (induction n arbitrary: p i)
  case 0
  then show ?case by simp
next
  case (Suc n)
  show ?case
  proof (cases i)
    case 0
    show ?thesis unfolding 0 by (rule bit_word_eqI) (auto simp: bit_simps)
  next
    case (Suc j)
    have "ucast (drop_bit (8 * i) (load_le (Suc n) h p)) = (ucast (drop_bit (8 * j) (load_le n h (p + 1))) :: byte)"
    proof (rule bit_word_eqI)
      fix k assume "k < LENGTH(8)"
      then have "8 * i + k < 64" "8 \<le> 8 * i + k" "8 * i + k - 8 = 8 * j + k"
        using Suc.prems Suc by auto
      then show "bit (ucast (drop_bit (8 * i) (load_le (Suc n) h p)) :: byte) k
        = bit (ucast (drop_bit (8 * j) (load_le n h (p + 1))) :: byte) k"
        using \<open>k < LENGTH(8)\<close> by (auto simp: bit_simps dest: bit_imp_le_length)
    qed
    also have "\<dots> = h (p + 1 + of_nat j)" using Suc.prems Suc by (intro Suc.IH) auto
    finally show ?thesis using Suc by (simp add: add.assoc)
  qed
qed


lemma cookie_damaged:
  assumes inv: "region_inv m" and c: "0x20000000 \<le> unat c" "unat c + 8 \<le> 0x30000000"
    and ok: "cookie_at m c" and v: "unat c \<le> unat v" "unat v < unat c + 8" and b: "b \<noteq> gread m v"
  shows "\<not> cookie_at (m\<lparr>hmem := (hmem m)(GetRealAddr m v := b)\<rparr>) c"
proof
  let ?h = "(hmem m)(GetRealAddr m v := b)"
  define i where "i = unat v - unat c"
  have i: "i < 8" using v by (simp add: i_def)
  note C = cookie_bytes [OF inv c i]
  have vi: "v = c + of_nat i" using C(2) v by (simp add: word_unat_eq_iff i_def)
  assume "cookie_at (m\<lparr>hmem := ?h\<rparr>) c"
  then have "load_le 8 ?h (GetRealAddr m c) = load_le 8 (hmem m) (GetRealAddr m c)"
    using ok by (simp add: cookie_at_def)
  then have "?h (GetRealAddr m c + of_nat i) = hmem m (GetRealAddr m c + of_nat i)"
    using load_le_byte [OF i, of ?h] load_le_byte [OF i, of "hmem m"] by (metis order_refl)
  then show False using b unfolding C(1) by (simp add: vi gread_def)
qed

section \<open>Properties\<close>

text \<open>
  C4. Memory safety of the emulated heap over whole runs: from the state the constructor builds,
  any sequence of \<open>lmalloc\<close>, \<open>lcalloc\<close>, \<open>lrealloc\<close>, \<open>_lfree\<close> (with any arguments, double and
  wild frees included) and guest stores into live blocks never reaches \<open>abort()\<close> and keeps the
  heap invariant: free ranges and live blocks partition the heap, every cookie is intact.
\<close>

theorem heap_run_safe:
  assumes "MemoryManager_new h mem = Returned m" "host_ok h (m\<lparr>blocks := []\<rparr>)"
    and "disciplined cs m"
  shows "\<exists>rs m'. heap_run cs m = Returned (rs, m') \<and> hinv m'"
  by (rule heap_run_hinv [OF MemoryManager_new_hinv [OF assms(1,2)] assms(3)])

lemma demo_disciplined:
  "disciplined [Malloc (call_args 24 0), Store 0x20000010 7] demo_mm"
  by (simp add: demo_malloc(1,3) del: One_nat_def)

theorem heap_run_safe_witness:
  "\<exists>rs m'. heap_run [Malloc (call_args 24 0), Store 0x20000010 7] demo_mm = Returned (rs, m') \<and> hinv m'"
  by (rule heap_run_safe [OF demo_mm_new demo_host_ok demo_disciplined])

text \<open>
  C5. \<open>lmalloc\<close> on every branch: a zero size yields the null pointer and no change; otherwise the
  call returns a fresh, 8-aligned block of at least the size asked for, disjoint from every live
  block and leaving their contents alone, or null when no free range holds the rounded size and
  its two cookies.
\<close>

theorem lmalloc_spec:
  assumes "hinv m"
  shows "r0 args = 0 \<and> lmalloc args m = (0, m)
    \<or> r0 args \<noteq> 0 \<and> (\<exists>u m'. lmalloc args m = (u, m') \<and> alloc_post m (r0 args) u m')
    \<or> lmalloc args m = (0, m\<lparr>breaks := Suc (breaks m)\<rparr>)
       \<and> (\<forall>p\<in>set (heapFree m). unat (snd p) < unat (AlignUp (sz (r0 args)) kHeapAlign) + 16)"
proof (cases "r0 args = 0")
  case True
  then show ?thesis by (simp add: lmalloc_def sz_def)
next
  case False
  then show ?thesis
    using DyanmicAlloc_cases [OF assms False, of 0] by (auto simp: lmalloc_def)
qed

theorem lmalloc_spec_witness:
  "\<exists>u m'. lmalloc (call_args 24 0) demo_mm = (u, m') \<and> alloc_post demo_mm 24 u m'"
  using lmalloc_spec [OF demo_hinv, of "call_args 24 0"] demo_malloc(1) by auto

text \<open>
  C6. \<open>_lfree\<close> on every branch, without ever aborting: null is ignored, a live block is removed
  from the table of live blocks and nothing else changes in it, and any other address (a double
  free, a pointer into the middle of a block, a wild address) leaves the state as it is.
\<close>

theorem lfree_spec:
  assumes "hinv m"
  shows "\<exists>m'. lfree args m = Returned (r0 args, m') \<and> hinv m'
    \<and> set (heapAlloc m') = {p \<in> set (heapAlloc m). fst p \<noteq> r0 args}
    \<and> hmem m' = hmem m \<and> blocks m' = blocks m
    \<and> (r0 args \<notin> fst ` set (heapAlloc m) \<longrightarrow> m' = m)"
proof -
  define K where "K = {p \<in> set (heapAlloc m). fst p \<noteq> r0 args}"
  have none: "set (heapAlloc m) = K"
    if "r0 args \<notin> fst ` set (heapAlloc m)" using that by (force simp: K_def)
  have one: "set (heapAlloc m) - {(r0 args, n)} = K" if "(r0 args, n) \<in> set (heapAlloc m)" for n
    unfolding K_def by (rule live_filter [OF assms that])
  have zero: "0 \<notin> fst ` set (heapAlloc m)" using live_in_heap(2) [OF assms] by fastforce
  from DynamicFree_cases [OF assms, of "r0 args"]
  have "\<exists>m'. lfree args m = Returned (r0 args, m') \<and> hinv m'
    \<and> set (heapAlloc m') = K
    \<and> hmem m' = hmem m \<and> blocks m' = blocks m
    \<and> (r0 args \<notin> fst ` set (heapAlloc m) \<longrightarrow> m' = m)"
  proof (elim disjE exE conjE)
    assume z: "r0 args = 0" "DynamicFree m (r0 args) = Returned (ERROR_OK, m)"
    then have l: "lfree args m = Returned (r0 args, m)" by (simp add: lfree_def)
    have "r0 args \<notin> fst ` set (heapAlloc m)" using zero z(1) by simp
    from none [OF this] assms l show ?thesis by blast
  next
    fix n m' assume n: "(r0 args, n) \<in> set (heapAlloc m)"
      "DynamicFree m (r0 args) = Returned (ERROR_OK, m')" "hinv m'"
      "set (heapAlloc m') = set (heapAlloc m) - {(r0 args, n)}" "hmem m' = hmem m" "blocks m' = blocks m"
    from n(1) have "r0 args \<in> fst ` set (heapAlloc m)" by force
    moreover have "lfree args m = Returned (r0 args, m')" using n(2) by (simp add: lfree_def)
    moreover have "set (heapAlloc m') = K"
      unfolding n(4) by (rule one [OF n(1)])
    ultimately show ?thesis using n(3,5,6) by blast
  next
    assume d: "r0 args \<notin> fst ` set (heapAlloc m)"
      "DynamicFree m (r0 args) = Returned (ERROR_MEM_ADDR_NOT_ALLOCATED, m)"
    then have "lfree args m = Returned (r0 args, m)" by (simp add: lfree_def)
    with none [OF d(1)] assms show ?thesis by blast
  qed
  then show ?thesis by (simp only: K_def)
qed

theorem lfree_spec_witness:
  "\<exists>m'. lfree (call_args 0x20000008 0) demo_mm1 = Returned (0x20000008, m') \<and> hinv m'
    \<and> set (heapAlloc m') = {}"
proof -
  obtain m' where "lfree (call_args 0x20000008 0) demo_mm1 = Returned (0x20000008, m')" "hinv m'"
    "set (heapAlloc m') = {p \<in> set (heapAlloc demo_mm1). fst p \<noteq> 0x20000008}"
    using lfree_spec [OF demo_malloc(2), of "call_args 0x20000008 0"] by auto
  moreover have "{p \<in> set (heapAlloc demo_mm1). fst p \<noteq> 0x20000008} = {}"
    by (auto simp: demo_malloc(3))
  ultimately show ?thesis by metis
qed

text \<open>
  C7. \<open>lrealloc\<close> of a live block to a non-zero size: the block gets the rounded new size, at the
  returned address, keeps its first bytes up to the smaller of the two sizes, and every other
  block and mapping keeps its contents; when there is no room the state is unchanged and the
  \<^emph>\<open>old\<close> pointer is returned, so the guest cannot tell failure from success in place.
\<close>

theorem lrealloc_spec:
  assumes "hinv m" "(r0 args, s) \<in> set (heapAlloc m)" "r1 args \<noteq> 0"
  shows "(\<exists>u' m'. lrealloc args m = Returned (u', m')
       \<and> realloc_post m (r0 args) s (AlignUp (sz (r1 args)) kHeapAlign) u' m')
    \<or> lrealloc args m = Returned (r0 args, m\<lparr>breaks := Suc (breaks m)\<rparr>)"
proof -
  have b: "0 < unat (sz (r1 args))" "unat (sz (r1 args)) < 4294967296"
    using assms(3) unat32_lt [of "r1 args"] by (auto simp: unat_gt_0)
  from DynamicRealloc_live [OF assms(1,2) b] live_in_heap(2) [OF assms(1,2)] show ?thesis
    by (auto simp: lrealloc_def Let_def)
qed

theorem lrealloc_spec_witness:
  "\<exists>u' m'. lrealloc (call_args 0x20000008 100) demo_mm1 = Returned (u', m')"
  using lrealloc_spec [OF demo_malloc(2), of "call_args 0x20000008 100" 32] demo_malloc(3) by auto

text \<open>Releasing a live block; heaps with the same live blocks have the same free ranges.\<close>

lemma free_live:
  assumes "hinv m" "(u, n) \<in> set (heapAlloc m)"
  obtains m' where "DynamicFree m u = Returned (ERROR_OK, m')" "hinv m'"
    "set (heapAlloc m') = set (heapAlloc m) - {(u, n)}"
proof -
  have "u \<noteq> 0" using alloc_in_heap [OF hinvD(2) [OF assms(1)] assms(2)] by auto
  with DynamicFree_cases [OF assms(1), of u] assms(2) obtain k m' where
    m': "(u, k) \<in> set (heapAlloc m)" "DynamicFree m u = Returned (ERROR_OK, m')" "hinv m'"
    "set (heapAlloc m') = set (heapAlloc m) - {(u, k)}"
    by (auto simp: image_iff)
  then show thesis using live_unique [OF assms(1) m'(1) assms(2)] by (intro that) simp_all
qed

lemma same_tables:
  assumes "hinv m'" "hinv m" "set (heapAlloc m') = set (heapAlloc m)"
  shows "heapFree m' = heapFree m \<and> mset (heapAlloc m') = mset (heapAlloc m)"
proof -
  have "distinct (heapAlloc m')" "distinct (heapAlloc m)"
    using hinvD(4) [OF assms(1)] hinvD(4) [OF assms(2)] by (simp_all add: um_ok_def distinct_map)
  then have "mset (heapAlloc m') = mset (heapAlloc m)" using assms(3) by (simp add: set_eq_iff_mset_eq_distinct)
  then show ?thesis using layout_unique [OF hinvD(2) [OF assms(1)] hinvD(2) [OF assms(2)]] by blast
qed

text \<open>
  C8. \<open>_lfree\<close> undoes \<open>lmalloc\<close>: both tables of the heap are exactly what they were, because the
  table of free ranges is determined by the live blocks (coalescing leaves no trace of the
  order in which blocks were taken and given back).
\<close>

theorem malloc_free_restores:
  assumes "hinv m" "lmalloc args m = (u, m1)" "u \<noteq> 0"
  shows "\<exists>m2. lfree (args\<lparr>r0 := u\<rparr>) m1 = Returned (u, m2) \<and> hinv m2
    \<and> heapFree m2 = heapFree m \<and> mset (heapAlloc m2) = mset (heapAlloc m)"
proof -
  from assms(2,3) obtain k where n: "r0 args \<noteq> 0" and p: "hinv m1" "u \<notin> fst ` set (heapAlloc m)"
    "set (heapAlloc m1) = insert (u, k) (set (heapAlloc m))"
    using DyanmicAlloc_cases [OF assms(1), of "r0 args" 0]
    by (cases "r0 args = 0") (auto simp: lmalloc_def alloc_post_def sz_def split: if_splits)
  from p(3) free_live [OF p(1), of u k] obtain m2 where
    m2: "DynamicFree m1 u = Returned (ERROR_OK, m2)" "hinv m2" "set (heapAlloc m2) = set (heapAlloc m1) - {(u, k)}"
    by blast
  then have "set (heapAlloc m2) = set (heapAlloc m)" using p(2,3) by force
  then show ?thesis using m2(1,2) same_tables [OF m2(2) assms(1)] by (simp add: lfree_def)
qed

theorem malloc_free_restores_witness:
  "\<exists>m2. lfree (call_args 0x20000008 0) demo_mm1 = Returned (0x20000008, m2)
    \<and> heapFree m2 = [(0x20000000, 0x10000000)]"
  using malloc_free_restores [OF demo_hinv demo_malloc(1)] by (auto simp: demo_tables)

text \<open>
  C9. Damage is detected: after a store that changes any byte of either cookie of a live block
  (an overrun of up to eight bytes before or behind the block), every later release of a heap
  address ends in \<open>abort()\<close>.
\<close>

theorem cookie_damage_detected:
  assumes "hinv m" "(u, n) \<in> set (heapAlloc m)"
    and "unat u - 8 \<le> unat v \<and> unat v < unat u
      \<or> unat u + unat n \<le> unat v \<and> unat v < unat u + unat n + 8"
    and "b \<noteq> gread m v" and "HeapContains m (r0 args)"
  shows "lfree args (m\<lparr>hmem := (hmem m)(GetRealAddr m v := b)\<rparr>) = Aborted"
proof -
  let ?m = "m\<lparr>hmem := (hmem m)(GetRealAddr m v := b)\<rparr>"
  note D = hinvD [OF assms(1)] and H = alloc_in_heap [OF hinvD(2) [OF assms(1)] assms(2)]
  note E = block_ends [OF D(2) assms(2)]
  have ck: "cookie_at m (vp (sz u - kCookieSize))" "cookie_at m (u + vp n)"
    using D(6) [OF assms(2)] by (simp_all add: block_cookies_def)
  have "\<not> block_cookies ?m (u, n)"
    using assms(3)
  proof
    assume "unat u - 8 \<le> unat v \<and> unat v < unat u"
    then have "\<not> cookie_at ?m (vp (sz u - kCookieSize))"
      using H by (intro cookie_damaged [OF D(1) _ _ ck(1) _ _ assms(4)]) (auto simp: E)
    then show ?thesis by (simp add: block_cookies_def)
  next
    assume "unat u + unat n \<le> unat v \<and> unat v < unat u + unat n + 8"
    then have "\<not> cookie_at ?m (u + vp n)"
      using H by (intro cookie_damaged [OF D(1) _ _ ck(2) _ _ assms(4)]) (auto simp: E)
    then show ?thesis by (simp add: block_cookies_def)
  qed
  then have "HeapFree ?m (r0 args) = Aborted"
    using D(1,2) assms(2) by (intro HeapFree_damaged [of _ "(u, n)"]) auto
  moreover have "r0 args \<noteq> 0" "HeapContains ?m (r0 args)"
    using assms(5) HeapContains_iff [OF D(1), of "r0 args"] D(1)
    by (auto simp: in_heap_def HeapContains_iff)
  ultimately show ?thesis by (simp add: lfree_def DynamicFree_def)
qed

theorem cookie_damage_detected_witness:
  "lfree (call_args 0x20000008 0)
     (demo_mm1\<lparr>hmem := (hmem demo_mm1)(GetRealAddr demo_mm1 0x20000028 := gread demo_mm1 0x20000028 + 1)\<rparr>)
   = Aborted"
proof (rule cookie_damage_detected [where u = "0x20000008" and n = "32", OF demo_malloc(2)])
  show "HeapContains demo_mm1 (r0 (call_args 0x20000008 0))"
    using HeapContains_iff [OF hinvD(1) [OF demo_malloc(2)]] by (simp add: in_heap_def)
qed (simp_all add: demo_malloc(3))

definition free_bytes :: "MemoryManager \<Rightarrow> nat" where
  "free_bytes m = (\<Sum>p\<leftarrow>heapFree m. unat (snd p))"

definition live_bytes :: "MemoryManager \<Rightarrow> nat" where
  "live_bytes m = (\<Sum>p\<in>set (heapAlloc m). unat (snd p) + 16)"

lemma bytes_conserved:
  assumes "hinv m"
  shows "free_bytes m + live_bytes m = 0x10000000"
proof -
  have "distinct (heapAlloc m)" using hinvD(4) [OF assms] by (simp add: um_ok_def distinct_map)
  then have "live_bytes m = (\<Sum>p\<leftarrow>heapAlloc m. unat (snd p) + 16)"
    by (simp add: live_bytes_def sum_list_distinct_conv_sum_set)
  with layout_conserved [OF hinvD(2) [OF assms]] show ?thesis by (simp add: free_bytes_def)
qed

lemma lmalloc_bytes:
  assumes inv: "hinv m" and ret: "lmalloc args m = (u, m')" "u \<noteq> 0"
  shows "\<exists>n. (u, n) \<in> set (heapAlloc m') \<and> unat (r0 args) \<le> unat n \<and> free_bytes m = free_bytes m' + unat n + 16"
proof -
  have "r0 args \<noteq> 0" using ret by (auto simp: lmalloc_def sz_def)
  with DyanmicAlloc_cases [OF inv this, of 0] ret have post: "alloc_post m (r0 args) u m'" by (auto simp: lmalloc_def)
  then obtain n where n: "unat (r0 args) \<le> unat n" "set (heapAlloc m') = insert (u, n) (set (heapAlloc m))"
    by (auto simp: alloc_post_def)
  have "(u, n) \<notin> set (heapAlloc m)" using post by (force simp: alloc_post_def)
  then have "live_bytes m' = live_bytes m + unat n + 16" by (simp add: live_bytes_def n(2))
  moreover have "hinv m'" using post by (simp add: alloc_post_def)
  ultimately have "free_bytes m = free_bytes m' + unat n + 16"
    using bytes_conserved [OF inv] bytes_conserved [of m'] by simp
  then show ?thesis using n by blast
qed

lemma lfree_bytes:
  assumes inv: "hinv m" and n: "(r0 args, n) \<in> set (heapAlloc m)"
  shows "\<exists>m'. lfree args m = Returned (r0 args, m') \<and> free_bytes m' = free_bytes m + unat n + 16"
proof -
  have "r0 args \<noteq> 0" using live_in_heap(2) [OF inv n] by blast
  with DynamicFree_cases [OF inv, of "r0 args"] n obtain k m' where F: "(r0 args, k) \<in> set (heapAlloc m)"
    "DynamicFree m (r0 args) = Returned (ERROR_OK, m')" "hinv m'"
    "set (heapAlloc m') = set (heapAlloc m) - {(r0 args, k)}" by force
  have "k = n" by (rule live_unique [OF inv F(1) n])
  then have "live_bytes m = live_bytes m' + unat n + 16"
    using sum.remove [OF _ n, of "\<lambda>p. unat (snd p) + 16"] by (simp add: live_bytes_def F(4))
  then have "free_bytes m' = free_bytes m + unat n + 16"
    using bytes_conserved [OF inv] bytes_conserved [OF F(3)] by simp
  moreover have "lfree args m = Returned (r0 args, m')" using F(2) by (simp add: lfree_def)
  ultimately show ?thesis by blast
qed

text \<open>
  C10. Conservation, over every run of heap calls and stores into live blocks from the state the constructor
  builds: the run returns; the bytes in free ranges and the bytes in live blocks (user area and the two
  cookies) add up to the 256 MB of the heap; the next \<open>lmalloc\<close> that succeeds takes exactly the block and its
  cookies from the free bytes, and a \<open>_lfree\<close> of any live block gives exactly these bytes back.
\<close>

theorem heap_conserved:
  assumes "MemoryManager_new h mem = Returned m" "host_ok h (m\<lparr>blocks := []\<rparr>)" "disciplined cs m"
  shows "\<exists>rs m'. heap_run cs m = Returned (rs, m')
    \<and> free_bytes m' + live_bytes m' = unat MEM_DYNAMIC_HEAP_SIZE
    \<and> (\<forall>args u m''. lmalloc args m' = (u, m'') \<and> u \<noteq> 0 \<longrightarrow>
         (\<exists>n. (u, n) \<in> set (heapAlloc m'') \<and> unat (r0 args) \<le> unat n \<and> free_bytes m' = free_bytes m'' + unat n + 16))
    \<and> (\<forall>args n. (r0 args, n) \<in> set (heapAlloc m') \<longrightarrow>
         (\<exists>m''. lfree args m' = Returned (r0 args, m'') \<and> free_bytes m'' = free_bytes m' + unat n + 16))"
proof -
  obtain rs m' where r: "heap_run cs m = Returned (rs, m')" "hinv m'"
    using heap_run_hinv [OF MemoryManager_new_hinv [OF assms(1,2)] assms(3)] by blast
  have "free_bytes m' + live_bytes m' = unat MEM_DYNAMIC_HEAP_SIZE"
    using bytes_conserved [OF r(2)] by (simp add: MEM_DYNAMIC_HEAP_SIZE_def)
  with r(1) lmalloc_bytes [OF r(2)] lfree_bytes [OF r(2)] show ?thesis by blast
qed

text \<open>After \<open>lmalloc(24)\<close>, which takes 32 + 16 bytes, the block can be given back.\<close>

theorem heap_conserved_witness:
  "\<exists>rs m' m''. heap_run [Malloc (call_args 24 0), Store 0x20000010 7] demo_mm = Returned (rs, m')
     \<and> free_bytes m' + live_bytes m' = 0x10000000
     \<and> lfree (call_args 0x20000008 0) m' = Returned (0x20000008, m'') \<and> free_bytes m'' = free_bytes m' + 48"
proof -
  let ?m = "demo_mm1\<lparr>hmem := (hmem demo_mm1)(GetRealAddr demo_mm1 0x20000010 := 7)\<rparr>"
  have r: "heap_run [Malloc (call_args 24 0), Store 0x20000010 7] demo_mm = Returned ([0x20000008, 0], ?m)"
    by (simp add: demo_malloc(1))
  from heap_conserved [OF demo_mm_new demo_host_ok demo_disciplined] r
  have A: "free_bytes ?m + live_bytes ?m = unat MEM_DYNAMIC_HEAP_SIZE"
    "\<forall>args n. (r0 args, n) \<in> set (heapAlloc ?m) \<longrightarrow>
       (\<exists>m''. lfree args ?m = Returned (r0 args, m'') \<and> free_bytes m'' = free_bytes ?m + unat n + 16)" by auto
  have "(r0 (call_args 0x20000008 0), 32) \<in> set (heapAlloc ?m)" by (simp add: demo_malloc(3))
  with A(2) have "\<exists>m''. lfree (call_args 0x20000008 0) ?m = Returned (r0 (call_args 0x20000008 0), m'')
      \<and> free_bytes m'' = free_bytes ?m + unat (32 :: size_t) + 16" by blast
  then obtain m'' where "lfree (call_args 0x20000008 0) ?m = Returned (0x20000008, m'')"
    "free_bytes m'' = free_bytes ?m + 48" by auto
  with r A(1) show ?thesis by (auto simp: MEM_DYNAMIC_HEAP_SIZE_def)
qed

text \<open>
  Address translation is one to one on mapped memory: translating a mapped guest address to
  the host and back gives the address again, null is returned exactly for unmapped addresses, and
  two different mapped addresses never share a host byte.
\<close>

theorem translation_faithful:
  assumes "region_inv m"
  shows "(isVAddrAllocated m v \<longrightarrow> GetVirtualAddr m (GetRealAddr m v) = v)
    \<and> (GetRealAddr m v = 0 \<longleftrightarrow> \<not> isVAddrAllocated m v)
    \<and> (isVAddrAllocated m v \<and> isVAddrAllocated m w \<and> v \<noteq> w \<longrightarrow> GetRealAddr m v \<noteq> GetRealAddr m w)"
  using translate_roundtrip [OF assms] GetRealAddr_null_iff [OF assms] GetRealAddr_inj [OF assms]
  by blast

theorem translation_faithful_witness:
  "GetVirtualAddr demo_mm (GetRealAddr demo_mm 0x20000010) = 0x20000010"
  using translation_faithful [OF hinvD(1) [OF demo_hinv], where v = "0x20000010"]
    in_heap_allocated [OF hinvD(1) [OF demo_hinv], where v = "0x20000010"]
  by (simp add: in_heap_def)

text \<open>
  A successful \<open>StaticAlloc\<close> maps a new zero-filled block at the requested address that covers
  the requested bytes, overlaps no other mapping in the guest or on the host, and keeps the
  mappings in order; a \<open>StaticFree\<close> of the address then removes exactly that block, while the heap
  region itself can never be unmapped.
\<close>

theorem static_mapping:
  assumes "region_inv m" "host_ok h m" "unat addr + unat s \<le> 2 ^ 32"
    and "StaticAlloc h m addr s out = (ERROR_OK, Some b, m')" "uc_unmap h addr (csize b)"
  shows "region_inv m' \<and> virtualAddress b = addr \<and> unat s \<le> unat (csize b)
    \<and> (\<forall>d\<in>set (blocks m). apart b d \<and> apart_r b d)
    \<and> (\<forall>q. unat (q - realAddress b) < unat (csize b) \<longrightarrow> hmem m' q = 0)
    \<and> (addr \<noteq> MEM_DYNAMIC_HEAP_BASE \<longrightarrow>
         StaticFree h m' addr = (ERROR_OK, m'\<lparr>blocks := blocks m\<rparr>))
    \<and> StaticFree h m' MEM_DYNAMIC_HEAP_BASE = (ERROR_MEM_STATIC_NOT_FREEABLE, m')"
proof -
  note A = StaticAlloc_region_inv [OF assms(1-4)]
  from assms(4) obtain n where b: "b = mapped_block addr (calloc_r h n) n"
    and m': "m' = m\<lparr>blocks := b # blocks m,
      hmem := mem_fill (hmem m) (calloc_r h n) (sz (n * PAGE_SIZE)) 0\<rparr>"
    by (rule StaticAlloc_OK)
  have "\<forall>q. unat (q - realAddress b) < unat (csize b) \<longrightarrow> hmem m' q = 0"
    by (simp add: m' b mem_fill_def word_lt_unat)
  then show ?thesis
    using A StaticAlloc_StaticFree [OF assms(1,4,5)] StaticFree_heap [OF A(1)] by blast
qed

definition demo_host2 :: host where
  "demo_host2 = \<lparr>calloc_r = (\<lambda>n. 0x200000000),
     uc_map = (\<lambda>v s r. s \<noteq> 0 \<and> unat v mod 4096 = 0 \<and> 0x30000000 \<le> unat v),
     uc_unmap = (\<lambda>v s. True)\<rparr>"

lemma demo_blocks:
  "blocks demo_mm = [mapped_block MEM_DYNAMIC_HEAP_BASE 0x100000000 0x10000]"
  using arg_cong [OF MemoryManager_new_eq(3) [OF demo_mm_new], of blocks]
  by (simp add: demo_host_def)

lemma demo_host2_ok: "host_ok demo_host2 demo_mm"
proof -
  have "unat (n * PAGE_SIZE) < 4294967296" for n :: u32 by (rule unat32_lt)
  then have "8589934592 + unat (n * PAGE_SIZE) < 18446744073709551616" for n :: u32
    by (rule order_less_le_trans [OF add_strict_left_mono]) simp
  then show ?thesis
    by (auto simp: host_ok_def demo_host2_def demo_blocks heap_pages unat_gt_0 mod_eq_0_iff_dvd)
qed

lemma demo_static:
  obtains b m' where "StaticAlloc demo_host2 demo_mm 0x51000000 0x44 None = (ERROR_OK, Some b, m')"
proof -
  have p: "vp ((67 + sz PAGE_SIZE) div sz PAGE_SIZE) = 1" "PAGE_SIZE \<noteq> 0"
    by (simp_all add: PAGE_SIZE_def sz_def vp_def)
  have "\<not> OverlapsAnyMappedBlock demo_mm 0x51000000 0x44"
    by (simp add: OverlapsAnyMappedBlock_def demo_blocks RangeOverlaps_def heap_pages Let_def
        MEM_DYNAMIC_HEAP_BASE_def MEM_DYNAMIC_HEAP_SIZE_def sz_def PAGE_SIZE_def)
  then have "\<exists>b m'. StaticAlloc demo_host2 demo_mm 0x51000000 0x44 None = (ERROR_OK, Some b, m')"
    by (simp add: StaticAlloc_def Let_def p demo_host2_def)
  with that show ?thesis by blast
qed

theorem static_mapping_witness:
  "\<exists>b m'. StaticAlloc demo_host2 demo_mm 0x51000000 0x44 None = (ERROR_OK, Some b, m')
    \<and> region_inv m' \<and> StaticFree demo_host2 m' 0x51000000 = (ERROR_OK, m'\<lparr>blocks := blocks demo_mm\<rparr>)"
proof -
  obtain b m' where s: "StaticAlloc demo_host2 demo_mm 0x51000000 0x44 None = (ERROR_OK, Some b, m')"
    by (rule demo_static)
  have "unat (0x51000000 :: VirtPtr) + unat (0x44 :: size_t) \<le> 2 ^ 32" by simp
  from static_mapping [OF hinvD(1) [OF demo_hinv] demo_host2_ok this s]
  show ?thesis using s by (simp add: demo_host2_def MEM_DYNAMIC_HEAP_BASE_def)
qed

end
