(* ===== verification/ThreadProps.thy ===== *)
theory ThreadProps
  imports SchedInv HeapProps
begin

text \<open>
  The properties of threads, critical sections, events and the scheduler, with a concrete engine
  and concrete states on which their hypotheses hold.
\<close>

section \<open>Concrete states\<close>

text \<open>An engine whose state is the register file and the Thumb flag.\<close>

definition demo_uc :: "(u32 list \<times> bool, u32 list \<times> bool) unicorn" where
  "demo_uc = \<lparr>uc_context_save = (\<lambda>u. u), uc_context_restore = (\<lambda>c u. c),
     uc_reg_write_batch = (\<lambda>rs u. (rs[15 := rs ! 15 AND NOT 1], rs ! 15 AND 1 = 1)),
     uc_reg_read_batch = fst, uc_query_thumb = snd\<rparr>"

definition demo_mach :: "(u32 list \<times> bool, u32 list \<times> bool) mach" where
  "demo_mach = \<lparr>msm = StateManager_init (\<lambda>_. ThreadState_new ([], False) 0 0 0), mos = os_tables_init,
     mmem = demo_mm, mcpu = (replicate 16 0, False), mlast = 0, mphase = AtBlock\<rparr>"

text \<open>Thread 0 holds section 0 twice or once, threads 1 and 2 wait for it, in this order.\<close>

definition demo_sync1 :: sync where
  "demo_sync1 = EnterCriticalSection 2 (Some 0) (EnterCriticalSection 1 (Some 0)
     (EnterCriticalSection 0 (Some 0) sync_init))"

lemma demo_sync1_eq:
  "demo_sync1 = sync_init
     \<lparr>thr := (thr sync_init)(0 := (Thread_new 0 0 0 0 0)\<lparr>ownedCriticalSections := [0 \<mapsto> 1]\<rparr>,
        1 := (Thread_new 1 1 0 0 0)\<lparr>requested := Some 0\<rparr>, 2 := (Thread_new 2 2 0 0 0)\<lparr>requested := Some 0\<rparr>),
      css := (css sync_init)(0 := \<lparr>isLocked = 0, ownerHandle = 0, recursionCount = 1,
        cwaiters = [1, 2], ccontentionCount = 2\<rparr>)\<rparr>"
  by (auto simp: demo_sync1_def EnterCriticalSection_def sync_init_def Thread_new_def
      CriticalSection_new_def Let_def fun_eq_iff)

lemma demo_sync1_inv: "sync_inv demo_sync1"
proof -
  let ?s1 = "EnterCriticalSection 0 (Some 0) sync_init"
  have a: "sync_inv ?s1"
    by (rule Enter_inv [OF sync_init_inv]) (simp add: sync_init_def Thread_new_def)
  let ?s2 = "EnterCriticalSection 1 (Some 0) ?s1"
  have b: "sync_inv ?s2"
    by (rule Enter_inv [OF a])
      (simp add: sync_init_def Thread_new_def EnterCriticalSection_def CriticalSection_new_def Let_def)
  show ?thesis unfolding demo_sync1_def
    by (rule Enter_inv [OF b])
      (simp add: sync_init_def Thread_new_def EnterCriticalSection_def CriticalSection_new_def Let_def)
qed

section \<open>Properties of the scheduler\<close>

text \<open>What the invariants say, in the terms of the code.\<close>

lemma turn_inv_current: "turn_inv ms \<Longrightarrow> \<exists>c<nthreads (msm ms). currentThread (msm ms) = Some c"
  by (auto simp: turn_inv_def turn_at_def dest: ring_hd_less)

lemma sched_inv_safe:
  assumes "sched_inv ms"
  defines "s \<equiv> sy (msm ms)"
  shows "(\<forall>c. currentThread (msm ms) = Some c \<and> mphase ms = InBlock \<longrightarrow> requested (thr s c) = None
         \<and> waitingEvent (thr s c) = None \<and> \<not> isSuspended (thr s c) \<and> \<not> isSleeping (thr s c))
    \<and> (\<forall>d t u. ownedCriticalSections (thr s t) d \<noteq> None \<and> ownedCriticalSections (thr s u) d \<noteq> None
         \<longrightarrow> t = u)
    \<and> (\<forall>d t. requested (thr s t) = Some d \<longleftrightarrow> t \<in> set (cwaiters (css s d)))
    \<and> (\<forall>e t. signaled (evs s e) \<longrightarrow> waitingEvent (thr s t) \<noteq> Some e)"
proof -
  from assms(1) obtain xs where inv: "sched_inv_at xs ms" by (auto simp: sched_inv_def)
  note D = sched_inv_atD [OF inv]
  have one: "t = u" if "ownedCriticalSections (thr s t) d \<noteq> None" "ownedCriticalSections (thr s u) d \<noteq> None"
    for t u d
  proof -
    from that obtain k k' where "ownedCriticalSections (thr s t) d = Some k"
      "ownedCriticalSections (thr s u) d = Some k'" by auto
    then have "held_section s d t" "held_section s d u"
      using owned_held(1) [OF D(4)] by (simp_all add: s_def)
    then show "t = u" by (simp add: held_section_def)
  qed
  have req: "requested (thr s t) = Some d \<longleftrightarrow> t \<in> set (cwaiters (css s d))" for d t
    using sync_invD(2) [OF D(4), of d] by (simp add: cs_queue_def s_def)
  have sig: "waitingEvent (thr s t) \<noteq> Some e" if "signaled (evs s e)" for e t
    using ev_queue(3,4) [OF D(4)] that by (auto simp: s_def)
  show ?thesis using D(3,5) one req sig by (auto simp: runnable_def s_def)
qed

text \<open>
  C11. In every state the emulator can reach from the start of \<open>Execute\<close>, whatever the guest and
  the clock do, there is a current thread.  As long as no section or event in use has been destroyed
  on the way: no two threads hold the same critical section; the queues of the sections hold exactly
  the threads that request them; the thread that executes a block holds everything it asked for, waits
  for no event and is neither suspended nor asleep; and no event is signaled while a thread waits for it.
  The condition is needed (\<open>reinit_breaks_exclusion\<close>): \<open>OSInitCriticalSection\<close> on the key of a section
  that is held or queued for destroys it and leaves the pointers of its owner and waiters dangling.
\<close>

theorem scheduler_safe:
  assumes "msm ms0 = StateManager_init ts"
    and "sched_reachable uc (Execute_start uc ctx junk entry ms0) ms"
  defines "s \<equiv> sy (msm ms)"
  shows "(\<exists>c<nthreads (msm ms). currentThread (msm ms) = Some c)
    \<and> (runs (sched_step uc) objects_alive (Execute_start uc ctx junk entry ms0) ms \<longrightarrow>
       (\<forall>c. currentThread (msm ms) = Some c \<and> mphase ms = InBlock \<longrightarrow> requested (thr s c) = None
           \<and> waitingEvent (thr s c) = None \<and> \<not> isSuspended (thr s c) \<and> \<not> isSleeping (thr s c))
       \<and> (\<forall>d t u. ownedCriticalSections (thr s t) d \<noteq> None \<and> ownedCriticalSections (thr s u) d \<noteq> None
           \<longrightarrow> t = u)
       \<and> (\<forall>d t. requested (thr s t) = Some d \<longleftrightarrow> t \<in> set (cwaiters (css s d)))
       \<and> (\<forall>e t. signaled (evs s e) \<longrightarrow> waitingEvent (thr s t) \<noteq> Some e))"
proof (intro conjI impI)
  have start: "sched_inv (Execute_start uc ctx junk entry ms0)"
    unfolding sched_inv_def using Execute_start_inv [OF assms(1)] by blast
  then show "\<exists>c<nthreads (msm ms). currentThread (msm ms) = Some c"
    using sched_reachable_turn [OF assms(2) sched_inv_turn] turn_inv_current by blast
  assume "runs (sched_step uc) objects_alive (Execute_start uc ctx junk entry ms0) ms"
  note safe = sched_inv_safe [OF sched_runs_inv [OF this start], folded s_def]
  show "\<forall>c. currentThread (msm ms) = Some c \<and> mphase ms = InBlock \<longrightarrow> requested (thr s c) = None
      \<and> waitingEvent (thr s c) = None \<and> \<not> isSuspended (thr s c) \<and> \<not> isSleeping (thr s c)"
    using safe by (rule conjunct1)
  show "\<forall>d t u. ownedCriticalSections (thr s t) d \<noteq> None \<and> ownedCriticalSections (thr s u) d \<noteq> None
      \<longrightarrow> t = u" "\<forall>d t. requested (thr s t) = Some d \<longleftrightarrow> t \<in> set (cwaiters (css s d))"
    "\<forall>e t. signaled (evs s e) \<longrightarrow> waitingEvent (thr s t) \<noteq> Some e"
    using safe by blast+
qed

text \<open>A run of two steps: the hook of the first block and a call that creates section 7.\<close>

abbreviation demo_started :: "(u32 list \<times> bool, u32 list \<times> bool) mach" where
  "demo_started \<equiv> Execute_start demo_uc ([], False) 0 0x10000 demo_mach"

lemma demo_start: "msm demo_mach = StateManager_init (\<lambda>_. ThreadState_new ([], False) 0 0 0)"
  by (simp add: demo_mach_def)

lemma demo_start_sync:
  "\<exists>k a. sy (msm demo_started) = upd_thr 0 (\<lambda>_. Thread_new 0 0 k a THREAD_PRIORITY_NORMAL) sync_init"
  "currentThread (msm demo_started) = Some 0" "\<not> yielding (msm demo_started)" "mos demo_started = os_tables_init"
  "mphase demo_started = AtBlock" "mlast demo_started = 0"
  by (auto simp: Execute_start_def NewThread_def demo_mach_def StateManager_init_def Let_def split: prod.split)

lemma demo_hook:
  obtains sm where "code_hook demo_uc 0 0 0 0 (mlast demo_started) (mcpu demo_started) (msm demo_started) = Returned (False, sm, 0)"
    "sy sm = sy (msm demo_started)"
proof -
  let ?s = "sy (msm demo_started)"
  obtain k a where s: "?s = upd_thr 0 (\<lambda>_. Thread_new 0 0 k a THREAD_PRIORITY_NORMAL) sync_init"
    using demo_start_sync(1) by blast
  have "CanRun 0 0 0 ?s = (True, ?s)" by (simp add: CanRun_def CanRun_waits_def s Thread_new_def)
  moreover have "GetTimeQuantum (thr ?s 0) = 4000" by (simp add: s GetTimeQuantum_def Thread_new_def)
  ultimately show thesis
    using that [of "(msm demo_started)\<lparr>sy := ?s\<rparr>"] demo_start_sync(2,3,6) by (simp add: code_hook_def)
qed

definition demo_init_args :: "u32 \<Rightarrow> SystemServiceArguments" where
  "demo_init_args k = \<lparr>r0 = k, r1 = 0, r2 = 0, r3 = 0, r4 = 0, sp = 0\<rparr>"

theorem scheduler_safe_witness:
  "\<exists>ms. runs (sched_step demo_uc) objects_alive demo_started ms \<and> g_cs (mos ms) 7 = Some (Some 0)
     \<and> currentThread (msm ms) \<noteq> None
     \<and> (\<forall>d t u. ownedCriticalSections (thr (sy (msm ms)) t) d \<noteq> None
          \<and> ownedCriticalSections (thr (sy (msm ms)) u) d \<noteq> None \<longrightarrow> t = u)"
proof -
  obtain sm where h: "code_hook demo_uc 0 0 0 0 (mlast demo_started) (mcpu demo_started) (msm demo_started) = Returned (False, sm, 0)"
    "sy sm = sy (msm demo_started)" by (rule demo_hook)
  define ms1 where "ms1 = demo_started\<lparr>msm := sm, mlast := 0, mphase := InBlock\<rparr>"
  define ms2 where "ms2 = (snd (OSInitCriticalSection 0 (demo_init_args 7) ms1))\<lparr>mphase := AtBlock\<rparr>"
  have s1: "sched_step demo_uc demo_started ms1"
    unfolding ms1_def by (rule sched_step.hook_run [OF demo_start_sync(5) h(1)])
  have "unused_cs 0 (mos ms1)" by (simp add: ms1_def demo_start_sync(4) unused_cs_def os_tables_init_def)
  then have s2: "sched_step demo_uc ms1 ms2"
    unfolding ms2_def by (intro sched_step.init_cs [OF _ _ surjective_pairing]) (simp_all add: ms1_def)
  obtain k a where s: "sy (msm demo_started) = upd_thr 0 (\<lambda>_. Thread_new 0 0 k a THREAD_PRIORITY_NORMAL) sync_init"
    using demo_start_sync(1) by blast
  have alive: "objects_alive ms1" "objects_alive ms2"
    by (simp_all add: objects_alive_def ms1_def ms2_def OSInitCriticalSection_def h(2) s Thread_new_def sync_init_def)
  have "runs (sched_step demo_uc) objects_alive demo_started demo_started"
    by (rule runs.start) (rule Execute_start_alive [OF demo_start])
  then have "runs (sched_step demo_uc) objects_alive demo_started ms1" by (rule runs.more) (rule s1 alive)+
  then have r: "runs (sched_step demo_uc) objects_alive demo_started ms2" by (rule runs.more) (rule s2 alive)+
  have q: "sched_reachable demo_uc demo_started ms2"
    by (rule sched_reachable.more [OF sched_reachable.more [OF sched_reachable.start s1] s2])
  have "g_cs (mos ms2) 7 = Some (Some 0)" by (simp add: ms2_def OSInitCriticalSection_def demo_init_args_def)
  with scheduler_safe [OF demo_start q] r show ?thesis by blast
qed

text \<open>
  C12. Why the condition is there.  When a thread holds a section, its key is initialised again, and
  the allocator gives the memory of the destroyed section to the next one: another thread enters the new
  section at once, and both threads' records say that they hold the object at this address.
\<close>

theorem reinit_breaks_exclusion:
  assumes "ownedCriticalSections (thr (sy (msm ms)) t) c \<noteq> None" "currentThread (msm ms) = Some u" "u \<noteq> t"
    and "\<forall>k. g_cs (mos ms) k = Some (Some c) \<longleftrightarrow> k = sint (r0 a)" "sint (r0 b) \<noteq> sint (r0 a)"
    and "unused_cs obj (mos ms)" "tid (thr (sy (msm ms)) u) \<noteq> -1"
  defines "ms1 \<equiv> snd (OSInitCriticalSection obj a ms)"
  defines "ms2 \<equiv> snd (OSInitCriticalSection c b ms1)"
  shows "unused_cs c (mos ms1) \<and> \<not> objects_alive ms1
    \<and> (\<exists>ms3. OSEnterCriticalSection b ms2 = Returned (r0 b, ms3)
         \<and> ownedCriticalSections (thr (sy (msm ms3)) t) c \<noteq> None
         \<and> ownedCriticalSections (thr (sy (msm ms3)) u) c \<noteq> None)"
proof -
  have "obj \<noteq> c" using assms(4,6) by (auto simp: unused_cs_def)
  then have un: "unused_cs c (mos ms1)" using assms(4) by (auto simp: unused_cs_def ms1_def OSInitCriticalSection_def)
  moreover have "ownedCriticalSections (thr (sy (msm ms1)) t) c \<noteq> None"
    using assms(1) by (simp add: ms1_def OSInitCriticalSection_def)
  ultimately have "\<not> objects_alive ms1" unfolding objects_alive_def unused_cs_def by blast
  moreover have "\<exists>ms3. OSEnterCriticalSection b ms2 = Returned (r0 b, ms3)
         \<and> ownedCriticalSections (thr (sy (msm ms3)) t) c \<noteq> None
         \<and> ownedCriticalSections (thr (sy (msm ms3)) u) c \<noteq> None"
    using assms(1-3,7)
    by (simp add: ms2_def ms1_def OSInitCriticalSection_def OSEnterCriticalSection_def at_cs_def on_current_def
        EnterCriticalSection_def CriticalSection_new_def Let_def)
  ultimately show ?thesis using un by blast
qed

text \<open>Thread 0 holds section 0 of key 1; the current thread is 1.\<close>

definition demo_held :: "(u32 list \<times> bool, u32 list \<times> bool) mach" where
  "demo_held = demo_mach\<lparr>
     msm := (StateManager_init (\<lambda>_. ThreadState_new ([], False) 0 0 0))\<lparr>
       sy := EnterCriticalSection 0 (Some 0) sync_init, nthreads := 2, currentThread := Some 1\<rparr>,
     mos := os_tables_init\<lparr>g_cs := [1 \<mapsto> Some 0]\<rparr>\<rparr>"

theorem reinit_breaks_exclusion_witness:
  "\<not> objects_alive (snd (OSInitCriticalSection 5 (demo_init_args 1) demo_held))"
proof -
  have E: "EnterCriticalSection 0 (Some 0) sync_init = upd_thr 0 (\<lambda>t. t\<lparr>ownedCriticalSections := [0 \<mapsto> 1]\<rparr>)
      (upd_cs 0 (\<lambda>cs. cs\<lparr>ownerHandle := 0, recursionCount := 1\<rparr>) sync_init)"
    by (simp add: EnterCriticalSection_def sync_init_def Thread_new_def CriticalSection_new_def)
  note E' = E [unfolded sync_init_def Thread_new_def]
  have "ownedCriticalSections (thr (sy (msm demo_held)) 0) 0 \<noteq> None" "currentThread (msm demo_held) = Some 1"
    "(1 :: nat) \<noteq> 0" "\<forall>k. g_cs (mos demo_held) k = Some (Some 0) \<longleftrightarrow> k = sint (r0 (demo_init_args 1))"
    "sint (r0 (demo_init_args 2)) \<noteq> sint (r0 (demo_init_args 1))" "unused_cs 5 (mos demo_held)"
    "tid (thr (sy (msm demo_held)) 1) \<noteq> - 1"
    by (simp_all add: demo_held_def E' demo_init_args_def unused_cs_def sync_init_def Thread_new_def)
  from reinit_breaks_exclusion [OF this] show ?thesis by blast
qed

text \<open>
  C13. Critical sections are handed over in the order of arrival: when the owner's last leave finds
  waiters, the first of them becomes the owner with a count of one, is no longer blocked, the
  others stay in order, and the leaving thread keeps nothing.
\<close>

theorem leave_hands_over:
  assumes "sync_inv s" "ownedCriticalSections (thr s me) c = Some 1" "cwaiters (css s c) = nx # ws"
  defines "s' \<equiv> LeaveCriticalSection me (Some c) s"
  shows "ownerHandle (css s' c) = tid (thr s' nx) \<and> cwaiters (css s' c) = ws
    \<and> ccontentionCount (css s' c) = int (length ws)
    \<and> ownedCriticalSections (thr s' nx) c = Some 1 \<and> requested (thr s' nx) = None
    \<and> ownedCriticalSections (thr s' me) c = None \<and> sync_inv s'"
  using Leave_pass [OF assms(1-3)] Leave_inv [OF assms(1), of me "Some c"] sync_invD(1) [OF assms(1), of nx]
  by (simp add: s'_def)

theorem leave_hands_over_witness:
  "ownerHandle (css (LeaveCriticalSection 0 (Some 0) demo_sync1) 0) = 1
    \<and> cwaiters (css (LeaveCriticalSection 0 (Some 0) demo_sync1) 0) = [2]"
proof -
  have "ownedCriticalSections (thr demo_sync1 0) 0 = Some 1" "cwaiters (css demo_sync1 0) = [1, 2]"
    by (simp_all add: demo_sync1_eq)
  from leave_hands_over [OF demo_sync1_inv this] show ?thesis
    using sync_invD(1) [of "LeaveCriticalSection 0 (Some 0) demo_sync1" 1] by auto
qed

definition holding :: "nat \<Rightarrow> nat \<Rightarrow> nat \<Rightarrow> sync \<Rightarrow> sync" where
  "holding me c k s =
     upd_thr me (\<lambda>t. t\<lparr>ownedCriticalSections := (ownedCriticalSections t)(c \<mapsto> int k)\<rparr>)
       (upd_cs c (\<lambda>cs. cs\<lparr>ownerHandle := int me, recursionCount := int k\<rparr>) s)"

lemma holding_first:
  assumes "sync_inv s" "free_section s c"
  shows "EnterCriticalSection me (Some c) s = holding me c 1 s"
    and "LeaveCriticalSection me (Some c) (holding me c 1 s) = s"
proof -
  have F: "ownerHandle (css s c) = -1" "recursionCount (css s c) = 0" "cwaiters (css s c) = []"
    "ownedCriticalSections (thr s me) c = None" using assms(2) by (simp_all add: free_section_def)
  show "EnterCriticalSection me (Some c) s = holding me c 1 s"
    using F sync_invD(1) [OF assms(1), of me]
    by (simp add: EnterCriticalSection_def Let_def holding_def)
  have "(ownedCriticalSections (thr s me))(c := None) = ownedCriticalSections (thr s me)"
    using F(4) by (simp add: fun_upd_idem)
  moreover have "css s c\<lparr>ownerHandle := -1, recursionCount := 0\<rparr> = css s c" using F by simp
  ultimately show "LeaveCriticalSection me (Some c) (holding me c 1 s) = s"
    by (simp add: LeaveCriticalSection_def Let_def pass_on_def F(3) holding_def)
qed

lemma holding_more:
  assumes "sync_inv s"
  shows "EnterCriticalSection me (Some c) (holding me c (Suc k) s) = holding me c (Suc (Suc k)) s"
    and "LeaveCriticalSection me (Some c) (holding me c (Suc (Suc k)) s) = holding me c (Suc k) s"
  using sync_invD(1) [OF assms, of me]
  by (simp_all add: EnterCriticalSection_def LeaveCriticalSection_def Let_def holding_def add_ac)

lemma enter_free:
  assumes "sync_inv s" "free_section s c"
  shows "(EnterCriticalSection me (Some c) ^^ Suc k) s = holding me c (Suc k) s"
  by (induction k) (simp_all add: holding_first [OF assms] holding_more [OF assms(1)])

lemma leave_held:
  assumes "sync_inv s" "free_section s c"
  shows "(LeaveCriticalSection me (Some c) ^^ Suc k) (holding me c (Suc k) s) = s"
proof (induction k)
  case 0
  then show ?case using holding_first(2) [OF assms] by simp
next
  case (Suc k)
  then show ?case
    using holding_more(2) [OF assms(1), of me c k] by (simp del: funpow.simps add: funpow_Suc_right)
qed

text \<open>
  Sections are recursive: a thread that enters a free section \<open>k\<close> times and leaves it \<open>k\<close>
  times leaves the whole state as it was.
\<close>

theorem enter_leave_balanced:
  assumes "sync_inv s" "free_section s c"
  shows "(LeaveCriticalSection me (Some c) ^^ k) ((EnterCriticalSection me (Some c) ^^ k) s) = s"
proof (cases k)
  case 0
  then show ?thesis by simp
next
  case (Suc i)
  show ?thesis unfolding Suc enter_free [OF assms] by (rule leave_held [OF assms])
qed

theorem enter_leave_balanced_witness:
  "(LeaveCriticalSection 0 (Some 3) ^^ 2) ((EnterCriticalSection 0 (Some 3) ^^ 2) demo_sync1) = demo_sync1"
  by (rule enter_leave_balanced [OF demo_sync1_inv])
    (auto simp: free_section_def demo_sync1_eq sync_init_def CriticalSection_new_def Thread_new_def)

text \<open>
  A thread that has to wait for a section stays blocked until it owns it: right after an
  \<open>EnterCriticalSection\<close> of a section somebody else holds, \<open>CanRun\<close> is false and changes at most the
  sleep flag, and the thread stands last in the queue.
\<close>

theorem contended_enter_blocks:
  assumes "sync_inv s" "requested (thr s me) = None" "held_section s c u" "u \<noteq> me"
  defines "s' \<equiv> EnterCriticalSection me (Some c) s"
  shows "\<not> fst (CanRun me now1 now2 s') \<and> cwaiters (css s' c) = cwaiters (css s c) @ [me]
    \<and> ownerHandle (css s' c) = int u"
proof -
  have e: "s' = upd_thr me (\<lambda>t. t\<lparr>requested := Some c\<rparr>)
      (upd_cs c (\<lambda>cs. cs\<lparr>cwaiters := cwaiters cs @ [me], ccontentionCount := ccontentionCount cs + 1\<rparr>) s)"
    using assms(2-4) sync_invD(1) [OF assms(1), of me]
    by (simp add: s'_def EnterCriticalSection_def Let_def held_section_def)
  have own: "ownerHandle (css s c) = int u" "ownerHandle (css s c) \<noteq> tid (thr s me)"
    using assms(3,4) sync_invD(1) [OF assms(1), of me] by (simp_all add: held_section_def)
  have "\<not> fst (CanRun_waits me now2 x)" if "thr x me = thr s' me \<or> thr x me = (thr s' me)\<lparr>isSleeping := False\<rparr>"
    "css x = css s'" for x
    using that own(2) by (auto simp: CanRun_waits_def e)
  then have "\<not> fst (CanRun me now1 now2 s')" by (simp add: CanRun_def)
  then show ?thesis using own(1) by (simp add: e)
qed

lemma demo_holds: "held_section demo_sync1 0 0"
  by (auto simp: held_section_def demo_sync1_eq sync_init_def Thread_new_def)

theorem contended_enter_blocks_witness:
  "\<not> fst (CanRun 3 0 0 (EnterCriticalSection 3 (Some 0) demo_sync1))"
proof -
  have "requested (thr demo_sync1 3) = None" by (simp add: demo_sync1_eq sync_init_def Thread_new_def)
  from contended_enter_blocks [OF demo_sync1_inv this demo_holds] show ?thesis by simp
qed

text \<open>
  C14. Setting an event loses no wake-up: a manual-reset event releases every waiter and stays
  signaled; an auto-reset event with waiters releases exactly the first and is not signaled; one
  without waiters stays signaled, and the next wait for it returns at once and consumes the signal.
\<close>

theorem set_event_wakes:
  fixes e :: nat
  assumes "sync_inv s"
  defines "s' \<equiv> SetEvent (Some e) s"
  shows "(manualReset (evs s e) \<longrightarrow> signaled (evs s' e) \<and> ewaiters (evs s' e) = []
      \<and> (\<forall>t. waitingEvent (thr s' t) = (if t \<in> set (ewaiters (evs s e)) then None
             else waitingEvent (thr s t))))
    \<and> (\<forall>t ws. \<not> manualReset (evs s e) \<and> ewaiters (evs s e) = t # ws \<longrightarrow>
         \<not> signaled (evs s' e) \<and> ewaiters (evs s' e) = ws
         \<and> (\<forall>u. waitingEvent (thr s' u) = (if u = t then None else waitingEvent (thr s u))))
    \<and> (\<not> manualReset (evs s e) \<and> ewaiters (evs s e) = [] \<longrightarrow>
         (\<forall>me timeout now. WaitForEvent me (Some e) timeout now s'
            = s\<lparr>evs := (evs s)(e := (evs s e)\<lparr>signaled := False\<rparr>)\<rparr>))"
proof (intro conjI impI allI)
  assume m: "manualReset (evs s e)"
  note S = SetEvent_manual [OF assms(1) m]
  show "signaled (evs s' e)" "ewaiters (evs s' e) = []" by (simp_all add: s'_def S)
  show "waitingEvent (thr s' t) = (if t \<in> set (ewaiters (evs s e)) then None
             else waitingEvent (thr s t))" for t by (simp add: s'_def S)
next
  fix t ws assume w: "\<not> manualReset (evs s e) \<and> ewaiters (evs s e) = t # ws"
  note S = SetEvent_auto [OF conjunct1 [OF w] conjunct2 [OF w]]
  show "\<not> signaled (evs s' e)" "ewaiters (evs s' e) = ws" by (simp_all add: s'_def S)
  show "waitingEvent (thr s' u) = (if u = t then None else waitingEvent (thr s u))" for u
    by (simp add: s'_def S)
next
  fix me timeout now assume w: "\<not> manualReset (evs s e) \<and> ewaiters (evs s e) = []"
  then have "s' = upd_ev e (\<lambda>ev. ev\<lparr>signaled := True\<rparr>) s" by (simp add: s'_def SetEvent_def)
  then show "WaitForEvent me (Some e) timeout now s'
      = s\<lparr>evs := (evs s)(e := (evs s e)\<lparr>signaled := False\<rparr>)\<rparr>"
    using w by (simp add: WaitForEvent_def)
qed

theorem set_event_wakes_witness:
  "WaitForEvent 1 (Some 4) 100 7 (SetEvent (Some 4) demo_sync1)
    = demo_sync1\<lparr>evs := (evs demo_sync1)(4 := (evs demo_sync1 4)\<lparr>signaled := False\<rparr>)\<rparr>"
  using set_event_wakes [OF demo_sync1_inv, of 4]
  by (simp add: demo_sync1_eq sync_init_def Event_new_def)

text \<open>
  C15. A wait with a positive timeout on an unsignaled event blocks the thread exactly until the
  deadline: before it \<open>CanRun\<close> is false and nothing changes; from the deadline on the thread can
  run, is no longer queued, and the event is as it was before the wait.
\<close>

theorem wait_timeout:
  fixes now :: int
  assumes "sync_inv s" "\<not> signaled (evs s e)" "0 < timeout" "runnable s me"
  defines "s' \<equiv> WaitForEvent me (Some e) timeout now s"
  shows "(now' < now + timeout * 1000000 \<longrightarrow> CanRun me now1 now' s' = (False, s'))
    \<and> (now + timeout * 1000000 \<le> now' \<longrightarrow>
         (\<exists>s''. CanRun me now1 now' s' = (True, s'') \<and> evs s'' e = evs s e \<and> runnable s'' me))"
proof -
  have idle: "waitingEvent (thr s me) = None" and rn: "requested (thr s me) = None"
    "\<not> isSuspended (thr s me)" "\<not> isSleeping (thr s me)"
    using assms(4) by (simp_all add: runnable_def)
  have e: "s' = upd_thr me (\<lambda>t. t\<lparr>waitingEvent := Some e, waitingInfinite := False,
      waitTimeoutEnd := now + timeout * 1000000\<rparr>)
      (upd_ev e (\<lambda>ev. ev\<lparr>ewaiters := ewaiters ev @ [me], econtentionCount := econtentionCount ev + 1\<rparr>) s)"
    using assms(2,3) idle by (simp add: s'_def WaitForEvent_def millis_def)
  have inv': "sync_inv s'" unfolding s'_def by (rule WaitForEvent_inv [OF assms(1) idle])
  have c: "CanRun me now1 now' s' = CanRun_waits me now' s'" using rn by (simp add: CanRun_def e)
  have w: "CanRun_waits me now' s' = (if now + timeout * 1000000 \<le> now'
      then (True, upd_thr me clear_wait (remove_from_event_waiters e me s')) else (False, s'))"
    unfolding CanRun_waits_eq [OF inv'] using rn by (simp add: e)
  have nin: "me \<notin> set (ewaiters (evs s e))" using ev_queue(3) [OF assms(1), of me e] idle by simp
  have cnt: "0 < econtentionCount (evs s e) + 1" using ev_queue(2) [OF assms(1), of e] by simp
  have "evs (upd_thr me clear_wait (remove_from_event_waiters e me s')) e = evs s e"
    using nin cnt by (simp add: remove_from_event_waiters_def pop_waiter_def e remove1_append)
  moreover have "runnable (upd_thr me clear_wait (remove_from_event_waiters e me s')) me"
    using rn by (simp add: runnable_def remove_from_event_waiters_def e)
  ultimately show ?thesis unfolding c w by auto
qed

theorem wait_timeout_witness:
  "\<exists>s''. CanRun 0 5 3000000 (WaitForEvent 0 (Some 4) 2 1000000 sync_init) = (True, s'') \<and> runnable s'' 0"
proof -
  have "\<not> signaled (evs sync_init 4)" "runnable sync_init 0"
    by (simp_all add: sync_init_def Event_new_def runnable_def Thread_new_def)
  from wait_timeout [OF sync_init_inv this(1) _ this(2), of 2 3000000 1000000 5] show ?thesis by auto
qed

section \<open>Fairness and priorities\<close>

fun switches :: "('u, 'c) unicorn \<Rightarrow> nat \<Rightarrow> 'c StateManager \<times> 'u \<Rightarrow> ('c StateManager \<times> 'u) proc" where
  "switches uc 0 x = Returned x"
| "switches uc (Suc k) x = proc_bind (SwitchThread uc (fst x) (snd x)) (switches uc k)"

lemma SwitchThread_ring:
  assumes "ring (sy sm) n xs" "currentThread sm = Some (hd xs)"
  obtains sm' u' where "SwitchThread uc sm u = Returned (sm', u')" "sy sm' = sy sm"
    "nthreads sm' = nthreads sm" "currentThread sm' = Some (hd (rotate1 xs))"
  using ring_next [OF assms(1)] assms(2) that
  by (cases "hd xs = hd (rotate1 xs)") (auto simp: SwitchThread_def Let_def)

lemma switches_ring:
  assumes "ring (sy sm) n xs" "currentThread sm = Some (hd xs)"
  shows "\<exists>sm' u'. switches uc k (sm, u) = Returned (sm', u') \<and> sy sm' = sy sm
    \<and> currentThread sm' = Some (hd (rotate k xs))"
  using assms
proof (induction k arbitrary: sm u xs)
  case 0
  then show ?case by simp
next
  case (Suc k)
  obtain sm1 u1 where s1: "SwitchThread uc sm u = Returned (sm1, u1)" "sy sm1 = sy sm"
    "currentThread sm1 = Some (hd (rotate1 xs))" by (rule SwitchThread_ring [OF Suc.prems])
  have "ring (sy sm1) n (rotate1 xs)" using ring_rotate1 [OF Suc.prems(1)] s1(2) by simp
  from Suc.IH [OF this s1(3), of u1] show ?case
    using s1(1,2) by (auto simp: rotate1_rotate_swap [symmetric] rotate_Suc)
qed

text \<open>
  C16. Scheduling is fair: in every reachable state (\<open>turn_inv\<close> holds in all of them), whichever thread
  is meant, some number of switches smaller than the number of threads makes it the current one, and
  after as many switches as there are threads the first is current again.
\<close>

theorem round_robin:
  assumes "turn_inv ms" "t < nthreads (msm ms)"
  shows "(\<exists>k<nthreads (msm ms). \<exists>sm' u'. switches uc k (msm ms, mcpu ms) = Returned (sm', u')
       \<and> currentThread sm' = Some t)
    \<and> (\<exists>sm' u'. switches uc (nthreads (msm ms)) (msm ms, mcpu ms) = Returned (sm', u')
       \<and> currentThread sm' = currentThread (msm ms))"
proof -
  from assms(1) obtain xs where D: "ring (sy (msm ms)) (nthreads (msm ms)) xs" "currentThread (msm ms) = Some (hd xs)"
    by (auto simp: turn_inv_def turn_at_def)
  have st: "set xs = {..<nthreads (msm ms)}" "distinct xs" "xs \<noteq> []" using D(1) by (simp_all add: ring_def)
  have len: "length xs = nthreads (msm ms)" using st(1,2) distinct_card by fastforce
  have "t \<in> set xs" using assms(2) st(1) by simp
  then obtain k where k: "k < length xs" "xs ! k = t" by (auto simp: in_set_conv_nth)
  then have "hd (rotate k xs) = t" by (simp add: hd_rotate_conv_nth st(3))
  moreover have "hd (rotate (nthreads (msm ms)) xs) = hd xs" by (simp add: len [symmetric])
  ultimately show ?thesis
    using switches_ring [OF D(1,2), where uc = uc and u = "mcpu ms"] k(1) D(2) len by metis
qed

lemma demo_start_turn: "turn_inv demo_started"
  using sched_inv_turn Execute_start_inv [OF demo_start] unfolding sched_inv_def by blast

lemma demo_start_n: "nthreads (msm demo_started) = 1"
  by (simp add: Execute_start_def NewThread_def demo_mach_def StateManager_init_def Let_def
      split: prod.split)

theorem round_robin_witness:
  "\<exists>sm' u'. switches demo_uc 0 (msm demo_started,
      mcpu demo_started) = Returned (sm', u')
    \<and> currentThread sm' = Some 0"
  using round_robin [OF demo_start_turn, of 0 demo_uc] by (simp add: demo_start_n)

text \<open>
  \<open>SetThreadPriority\<close> returns (its walk along the ring ends) in every reachable state; it
  changes the priority of exactly the thread with the given id and answers 1, or finds none and
  answers 0.
\<close>

theorem set_priority_total:
  assumes "turn_inv ms"
  shows "SetThreadPriority i p (msm ms)
    = Some (if 0 \<le> i \<and> i < int (nthreads (msm ms))
            then (1, (msm ms)\<lparr>sy := SetPriority (nat i) p (sy (msm ms))\<rparr>) else (0, msm ms))"
proof -
  from assms obtain xs where "turn_at xs ms" unfolding turn_inv_def by blast
  then show ?thesis by (rule SetThreadPriority_eq)
qed

theorem set_priority_total_witness:
  "SetThreadPriority 5 9 (msm demo_started)
    = Some (0, msm demo_started)"
  using set_priority_total [OF demo_start_turn, of 5 9] by (simp add: demo_start_n)

section \<open>Registers and stacks\<close>

text \<open>
  A context switch is invisible to a thread: what \<open>SaveState\<close> recorded (registers, and the
  Thumb state in bit 0 of the program counter) is what a later save reads again after \<open>LoadState\<close>
  on any engine state.  The hypothesis is Unicorn's documented behaviour for a write of the
  program counter: bit 0 selects the instruction set and is not part of the address.
\<close>

theorem save_load_registers:
  fixes uc :: "('u, 'c) unicorn" and ts0 :: "'c ThreadState"
  assumes "\<And>rs u. length rs = 16 \<Longrightarrow> uc_reg_read_batch uc (uc_reg_write_batch uc rs u) = rs[15 := rs ! 15 AND NOT 1]
      \<and> uc_query_thumb uc (uc_reg_write_batch uc rs u) = (rs ! 15 AND 1 = 1)"
    and "length (uc_reg_read_batch uc u) = 16"
  defines "ts \<equiv> ThreadState_SaveState uc u ts0"
  shows "sregs (ThreadState_SaveState uc (ThreadState_LoadState uc ts u') ts1) = sregs ts"
proof -
  define rs where "rs = sregs ts"
  have len: "length rs = 16" using assms(2) by (simp add: rs_def ts_def ThreadState_SaveState_def Let_def)
  have bits: "(x AND NOT 1) + (if x AND 1 = 1 then 1 else 0) = x" for x :: u32
  proof -
    have "x AND 1 = of_bool (odd x)" by (simp add: and_one_eq mod2_eq_if)
    then have "x AND 1 = 0 \<or> x AND 1 = 1" by simp
    then have "(if x AND 1 = 1 then 1 else 0) = x AND 1" by auto
    moreover have "(x AND NOT 1) + (x AND 1) = x"
    proof -
      have "(x AND NOT 1) + (x AND 1) = (x AND NOT 1) OR (x AND 1)"
        by (rule disjunctive_add) (auto simp: bit_simps)
      also have "\<dots> = x" by (rule bit_word_eqI) (auto simp: bit_simps)
      finally show ?thesis .
    qed
    ultimately show ?thesis by simp
  qed
  have "sregs (ThreadState_SaveState uc (ThreadState_LoadState uc ts u') ts1)
    = (rs[15 := rs ! 15 AND NOT 1])[15 := (rs ! 15 AND NOT 1) + (if rs ! 15 AND 1 = 1 then 1 else 0)]"
    using assms(1) [OF len] len
    by (simp add: ThreadState_SaveState_def ThreadState_LoadState_def Let_def rs_def [symmetric])
  also have "\<dots> = rs" unfolding bits by simp
  finally show ?thesis by (simp add: rs_def)
qed

abbreviation demo_ts :: "(u32 list \<times> bool) ThreadState" where
  "demo_ts \<equiv> ThreadState_new ([], False) 0 0 0"

theorem save_load_registers_witness:
  "sregs (ThreadState_SaveState demo_uc (ThreadState_LoadState demo_uc
      (ThreadState_SaveState demo_uc (replicate 16 8, True) demo_ts) ([], False)) demo_ts)
    = (replicate 16 8)[15 := 9]"
proof -
  have "sregs (ThreadState_SaveState demo_uc (replicate 16 8, True) demo_ts) = (replicate 16 8)[15 := 9]"
    by (simp add: ThreadState_SaveState_def demo_uc_def Let_def)
  moreover have "sregs (ThreadState_SaveState demo_uc (ThreadState_LoadState demo_uc
      (ThreadState_SaveState demo_uc (replicate 16 8, True) demo_ts) ([], False)) demo_ts)
    = sregs (ThreadState_SaveState demo_uc (replicate 16 8, True) demo_ts)"
    by (rule save_load_registers) (simp_all add: demo_uc_def)
  ultimately show ?thesis by simp
qed

text \<open>
  C17. Every new thread gets a stack of its own: when the allocation succeeds, the stack is a fresh
  block of the heap of at least the requested size that shares no byte with any live block, the
  stacks of the other threads among them; the initial stack pointer is the end of that block, the
  first argument is in R0 and the program counter is the entry point.
\<close>

theorem new_thread_stack:
  assumes "hinv m" "n \<noteq> 0" "fst (heap_get m n) = Some a"
    and "NewThread ctx junk entry arg p (sz n) sm m = (i, sm', m')"
  defines "t \<equiv> nthreads sm"
  shows "i = int t \<and> hinv m' \<and> stackAddr (thr (sy sm') t) = a
    \<and> (\<exists>k. (a, k) \<in> heap_live m' \<and> unat n \<le> unat k
         \<and> unat (sregs (tstate sm' t) ! 13) = unat a + unat k)
    \<and> (\<forall>(w, j)\<in>heap_live m. unat a + unat n \<le> unat w \<or> unat w + unat j \<le> unat a)
    \<and> sregs (tstate sm' t) ! 0 = arg \<and> sregs (tstate sm' t) ! 15 = entry"
proof -
  have A: "DyanmicAlloc m junk (sz n) = (ERROR_OK, a, snd (heap_get m n))"
    using DyanmicAlloc_cases [OF assms(1,2), of junk] DyanmicAlloc_cases [OF assms(1,2), of 0] assms(3)
    by (auto simp: heap_get_def DyanmicAlloc_def HeapAlloc_def Let_def split: if_splits option.splits prod.splits)
  define m1 where "m1 = snd (heap_get m n)"
  have inv1: "hinv m1" unfolding m1_def by (rule vheap.get_ok [OF assms(1,2)])
  from vheap.get_Some [OF assms(1-3)] obtain k where k: "unat n \<le> unat k"
    "heap_live m1 = insert (a, k) (heap_live m)" unfolding m1_def by blast
  have live: "(a, k) \<in> set (heapAlloc m1)" using k(2) by (auto simp: heap_live_def)
  have sz0: "sz n \<noteq> 0" using assms(2) by simp
  have N: "i = int t" "m' = m1" "stackAddr (thr (sy sm') t) = a"
    "sregs (tstate sm' t) = [arg, 0, 0, 0, 0, 0, 0, 0, 0, 0, 0, 0, 0, vp (GetAllocSize m1 a + sz a), 0, entry]"
    using assms(4) A sz0
    by (auto simp: NewThread_def Let_def t_def m1_def Thread_new_def ThreadState_new_def split: option.splits)
  note H = alloc_in_heap [OF hinvD(2) [OF inv1] live]
  have "unat (k + sz a) = unat k + unat a" using H by (subst unat_add64) auto
  then have sp: "unat (vp (GetAllocSize m1 a + sz a)) = unat a + unat k"
    using H by (simp add: GetAllocSize_live [OF inv1 live] unat_vp)
  have dis: "\<forall>(w, j)\<in>heap_live m. unat a + unat n \<le> unat w \<or> unat w + unat j \<le> unat a"
    using vheap.get_disjoint [OF assms(1-3)] by blast
  show ?thesis
    using N inv1 k live sp dis by (auto simp: heap_live_def)
qed

lemma demo_get: "fst (heap_get demo_mm 24) = Some 0x20000008"
  using demo_malloc(1) by (auto simp: lmalloc_def heap_get_def split: prod.splits if_splits)

theorem new_thread_stack_witness:
  "\<exists>i sm' m'. NewThread (([] :: u32 list), False) 0 0x10000 7 8 (sz 24)
      (StateManager_init (\<lambda>_. demo_ts)) demo_mm = (i, sm', m')
    \<and> hinv m' \<and> stackAddr (thr (sy sm') 0) = 0x20000008"
proof -
  obtain i sm' m' where N: "NewThread (([] :: u32 list), False) 0 0x10000 7 8 (sz 24)
      (StateManager_init (\<lambda>_. demo_ts)) demo_mm
    = (i, sm' :: (u32 list \<times> bool) StateManager, m')" by (metis prod_cases3)
  have z: "nthreads (StateManager_init (\<lambda>_. demo_ts)) = 0" by (simp add: StateManager_init_def)
  have "(24 :: u32) \<noteq> 0" by simp
  from new_thread_stack [OF demo_hinv this demo_get N, unfolded z]
  have "hinv m'" "stackAddr (thr (sy sm') 0) = 0x20000008" by blast+
  with N show ?thesis by (intro exI conjI)
qed

end
