(* ===== verification/Printf.thy ===== *)
theory Printf
  imports Prelude "HOL-Library.Char_ord"
begin

text \<open>
  The guest's \<open>printf\<close> (PrimU/vprintf.cpp without the \<open>HAS_FLOAT\<close> part, which is not compiled) and
  the debug message call that uses it (PrimU/dbgout.cpp).  What \<open>putchar\<close> writes is a string.  The
  C \<open>va_list\<close> is the sequence of its 64-bit slots, one per argument as on x64 Windows, and the
  number of slots already read; \<open>long\<close> and \<open>int\<close> have 32 bits.  A width or precision written in
  the format is accumulated in 32 bits and wraps around; what the code then subtracts from a width is
  computed on integers, which differs from \<open>int\<close> only for widths and precisions next to its limits.
\<close>

section \<open>Flags and digits\<close>

definition ZEROPAD :: u32 where "ZEROPAD = 1"
definition SIGN :: u32 where "SIGN = 2"
definition PLUS :: u32 where "PLUS = 4"
definition SPACE :: u32 where "SPACE = 8"
definition LEFT :: u32 where "LEFT = 16"
definition HEX_PREP :: u32 where "HEX_PREP = 32"
definition UPPERCASE :: u32 where "UPPERCASE = 64"

lemmas flag_defs = ZEROPAD_def SIGN_def PLUS_def SPACE_def LEFT_def HEX_PREP_def UPPERCASE_def

definition has :: "u32 \<Rightarrow> u32 \<Rightarrow> bool" where
  "has type f \<longleftrightarrow> type AND f \<noteq> 0"

definition is_digit :: "char \<Rightarrow> bool" where
  "is_digit c \<longleftrightarrow> CHR ''0'' \<le> c \<and> c \<le> CHR ''9''"

definition lower_digits :: string where
  "lower_digits = ''0123456789abcdefghijklmnopqrstuvwxyz''"

definition upper_digits :: string where
  "upper_digits = ''0123456789ABCDEFGHIJKLMNOPQRSTUVWXYZ''"

fun ee_skip_atoi :: "u32 \<Rightarrow> string \<Rightarrow> int \<times> string" where
  "ee_skip_atoi i [] = (sint i, [])"
| "ee_skip_atoi i (c # s) =
     (if is_digit c then ee_skip_atoi (i * 10 + word_of_int (of_char c) - 48) s else (sint i, c # s))"

section \<open>Numbers\<close>

text \<open>The loop that fills \<open>tmp\<close>, least significant digit first.\<close>

function number_digits :: "string \<Rightarrow> u32 \<Rightarrow> u32 \<Rightarrow> string" where
  "number_digits dig base num =
     (if num = 0 \<or> base < 2 then []
      else dig ! unat (num mod base) # number_digits dig base (num div base))"
  by pat_completeness auto
termination
proof (relation "measure (\<lambda>(dig, base, num). unat num)")
  fix dig :: string and base num :: u32
  assume a: "\<not> (num = 0 \<or> base < 2)"
  then have "1 < unat base" "0 < unat num" by (auto simp: word_le_unat not_less unat_gt_0)
  then show "((dig, base, num div base), dig, base, num) \<in> measure (\<lambda>(dig, base, num). unat num)"
    by (simp add: unat_div)
qed simp

declare number_digits.simps [simp del]

text \<open>\<open>while (size-- > 0) putchar(c)\<close>: what it prints and what is left of \<open>size\<close>.\<close>

definition pad_loop :: "bool \<Rightarrow> char \<Rightarrow> int \<Rightarrow> string \<times> int" where
  "pad_loop run c fsize =
     (if run then (replicate (nat fsize) c, if fsize > 0 then -1 else fsize - 1) else ([], fsize))"

text \<open>The sign: the character to print, if any, the magnitude, and the width that is left.\<close>

definition number_sign :: "u32 \<Rightarrow> u32 \<Rightarrow> int \<Rightarrow> string \<times> u32 \<times> int" where
  "number_sign type num fsize =
     (if has type SIGN then
        if sint num < 0 then (''-'', - num, fsize - 1)
        else if has type PLUS then (''+'', num, fsize - 1)
        else if has type SPACE then ('' '', num, fsize - 1)
        else ([], num, fsize)
      else ([], num, fsize))"

definition number_prefix :: "u32 \<Rightarrow> int \<Rightarrow> string" where
  "number_prefix type base =
     (if has type HEX_PREP then
        if base = 8 then ''0'' else if base = 16 then ''0'' @ [lower_digits ! 33] else []
      else [])"

definition number_prefix_size :: "u32 \<Rightarrow> int \<Rightarrow> int \<Rightarrow> int" where
  "number_prefix_size type base fsize =
     (if has type HEX_PREP then
        if base = 16 then fsize - 2 else if base = 8 then fsize - 1 else fsize
      else fsize)"

definition number_tmp :: "string \<Rightarrow> int \<Rightarrow> u32 \<Rightarrow> string" where
  "number_tmp dig base num = (if num = 0 then ''0'' else number_digits dig (of_int base) num)"

text \<open>The output once the digits are in \<open>tmp\<close> and \<open>fsize\<close> is what is left for padding.\<close>

definition number_emit :: "u32 \<Rightarrow> string \<Rightarrow> string \<Rightarrow> string \<Rightarrow> int \<Rightarrow> int \<Rightarrow> string" where
  "number_emit type sign prefix tmp precision fsize =
     (let c = (if has type ZEROPAD then CHR ''0'' else CHR '' '');
          (pad1, fsize) = pad_loop (\<not> has type (ZEROPAD OR LEFT)) (CHR '' '') fsize;
          (pad2, fsize) = pad_loop (\<not> has type LEFT) c fsize;
          zeros = replicate (nat (precision - int (length tmp))) (CHR ''0'');
          (pad3, fsize) = pad_loop True (CHR '' '') fsize
      in pad1 @ sign @ prefix @ pad2 @ zeros @ rev tmp @ pad3)"

definition ee_number :: "u32 \<Rightarrow> int \<Rightarrow> int \<Rightarrow> int \<Rightarrow> u32 \<Rightarrow> string" where
  "ee_number num base fsize precision type =
     (let dig = (if has type UPPERCASE then upper_digits else lower_digits);
          type = (if has type LEFT then type AND NOT ZEROPAD else type)
      in if base < 2 \<or> base > 36 then []
      else
        let (sign, num, fsize) = number_sign type num fsize;
            fsize = number_prefix_size type base fsize;
            tmp = number_tmp dig base num;
            i = int (length tmp);
            precision = (if i > precision then i else precision);
            fsize = fsize - precision
        in number_emit type sign (number_prefix type base) tmp precision fsize)"

section \<open>Addresses\<close>

text \<open>\<open>while (len < size--) putchar(' ')\<close>.\<close>

definition pad_to :: "bool \<Rightarrow> int \<Rightarrow> int \<Rightarrow> string \<times> int" where
  "pad_to run len fsize =
     (if run then (replicate (nat (fsize - len)) (CHR '' ''), min fsize len - 1) else ([], fsize))"

definition eaddr :: "byte list \<Rightarrow> int \<Rightarrow> u32 \<Rightarrow> string" where
  "eaddr addr fsize type =
     (let dig = (if has type UPPERCASE then upper_digits else lower_digits);
          hex = (\<lambda>i. [dig ! unat (drop_bit 4 (addr ! i)), dig ! unat (addr ! i AND 0x0F)]);
          tmp = hex 0 @ concat (map (\<lambda>i. '':'' @ hex i) [1, 2, 3, 4, 5]);
          len = int (length tmp);
          (pad1, fsize) = pad_to (\<not> has type LEFT) len fsize;
          (pad2, fsize) = pad_to True len fsize
      in pad1 @ tmp @ pad2)"

definition iaddr_part :: "nat \<Rightarrow> string" where
  "iaddr_part n =
     (if n = 0 then [lower_digits ! 0]
      else if n \<ge> 100 then
        [lower_digits ! (n div 100), lower_digits ! (n mod 100 div 10), lower_digits ! (n mod 100 mod 10)]
      else if n \<ge> 10 then [lower_digits ! (n div 10), lower_digits ! (n mod 10)]
      else [lower_digits ! n])"

definition iaddr :: "byte list \<Rightarrow> int \<Rightarrow> u32 \<Rightarrow> string" where
  "iaddr addr fsize type =
     (let tmp = iaddr_part (unat (addr ! 0))
                  @ concat (map (\<lambda>i. ''.'' @ iaddr_part (unat (addr ! i))) [1, 2, 3]);
          len = int (length tmp);
          (pad1, fsize) = pad_to (\<not> has type LEFT) len fsize;
          (pad2, fsize) = pad_to True len fsize
      in pad1 @ tmp @ pad2)"

section \<open>The format interpreter\<close>

text \<open>
  The environment of a run: the argument slots, the C string at a guest address (\<open>None\<close> when the
  address is not mapped), and the bytes of the host, which \<open>%a\<close> reads through its argument.
\<close>

record vprintf_env =
  va_slot :: "nat \<Rightarrow> 64 word"
  guest_string :: "u32 \<Rightarrow> string option"
  host_byte :: "64 word \<Rightarrow> byte"

definition va_int :: "vprintf_env \<Rightarrow> nat \<Rightarrow> u32" where
  "va_int env n = ucast (va_slot env n)"

fun take_flags :: "u32 \<Rightarrow> string \<Rightarrow> u32 \<times> string" where
  "take_flags flags [] = (flags, [])"
| "take_flags flags (c # s) =
     (if c = CHR ''-'' then take_flags (flags OR LEFT) s
      else if c = CHR ''+'' then take_flags (flags OR PLUS) s
      else if c = CHR '' '' then take_flags (flags OR SPACE) s
      else if c = CHR ''#'' then take_flags (flags OR HEX_PREP) s
      else if c = CHR ''0'' then take_flags (flags OR ZEROPAD) s
      else (flags, c # s))"

text \<open>The field width: the width, the flags, the rest of the format, the slots read.\<close>

definition take_width :: "vprintf_env \<Rightarrow> u32 \<Rightarrow> string \<Rightarrow> nat \<Rightarrow> int \<times> u32 \<times> string \<times> nat" where
  "take_width env flags s n =
     (case s of
        [] \<Rightarrow> (-1, flags, s, n)
      | c # s' \<Rightarrow>
          if is_digit c then let (w, s'') = ee_skip_atoi 0 s in (w, flags, s'', n)
          else if c = CHR ''*'' then
            let w = sint (va_int env n)
            in if w < 0 then (sint (- va_int env n), flags OR LEFT, s', Suc n) else (w, flags, s', Suc n)
          else (-1, flags, s, n))"

definition take_precision :: "vprintf_env \<Rightarrow> string \<Rightarrow> nat \<Rightarrow> int \<times> string \<times> nat" where
  "take_precision env s n =
     (case s of
        [] \<Rightarrow> (-1, s, n)
      | c # s' \<Rightarrow>
          if c = CHR ''.'' then
            let (p, s'', n') =
                  (case s' of
                     [] \<Rightarrow> (-1, s', n)
                   | d # t \<Rightarrow>
                       if is_digit d then let (p, t') = ee_skip_atoi 0 s' in (p, t', n)
                       else if d = CHR ''*'' then (sint (va_int env n), t, Suc n)
                       else (-1, s', n))
            in (if p < 0 then 0 else p, s'', n')
          else (-1, s, n))"

definition take_qualifier :: "string \<Rightarrow> char option \<times> string" where
  "take_qualifier s =
     (case s of [] \<Rightarrow> (None, s)
      | c # s' \<Rightarrow> if c = CHR ''l'' \<or> c = CHR ''L'' then (Some c, s') else (None, s))"

text \<open>One conversion character: the output and the number of slots read afterwards.\<close>

definition ee_integer :: "vprintf_env \<Rightarrow> int \<Rightarrow> int \<Rightarrow> int \<Rightarrow> u32 \<Rightarrow> nat \<Rightarrow> string \<times> nat" where
  "ee_integer env base width precision flags n =
     (ee_number (va_int env n) base width precision flags, Suc n)"

definition ee_convert ::
  "vprintf_env \<Rightarrow> u32 \<Rightarrow> int \<Rightarrow> int \<Rightarrow> char option \<Rightarrow> char \<Rightarrow> nat \<Rightarrow> string \<times> nat" where
  "ee_convert env flags width precision qualifier c n =
     (if c = CHR ''c'' then
        let (pad1, w) = (if \<not> has flags LEFT
               then (replicate (nat (width - 1)) (CHR '' ''), min (width - 1) 0) else ([], width));
            pad2 = replicate (nat (w - 1)) (CHR '' '')
        in (pad1 @ [char_of (unat (va_int env n AND 0xFF))] @ pad2, Suc n)
      else if c = CHR ''s'' then
        let s = (case guest_string env (va_int env n) of Some s \<Rightarrow> s | None \<Rightarrow> ''<NULL>'');
            s = (if precision = -1 then s else take (nat precision) s);
            len = int (length s);
            (pad1, w) = pad_to (\<not> has flags LEFT) len width;
            (pad2, w) = pad_to True len w
        in (pad1 @ s @ pad2, Suc n)
      else if c = CHR ''p'' then
        (if width = -1 then (ee_number (va_int env n) 16 16 precision (flags OR ZEROPAD), Suc n)
         else (ee_number (va_int env n) 16 width precision flags, Suc n))
      else if c = CHR ''A'' \<or> c = CHR ''a'' then
        let flags = (if c = CHR ''A'' then flags OR UPPERCASE else flags);
            addr = va_slot env n
        in (if qualifier = Some (CHR ''l'')
            then eaddr (map (\<lambda>i. host_byte env (addr + of_nat i)) [0..<6]) width flags
            else iaddr (map (\<lambda>i. host_byte env (addr + of_nat i)) [0..<4]) width flags, Suc n)
      else if c = CHR ''o'' then ee_integer env 8 width precision flags n
      else if c = CHR ''X'' then ee_integer env 16 width precision (flags OR UPPERCASE) n
      else if c = CHR ''x'' then ee_integer env 16 width precision flags n
      else if c = CHR ''d'' \<or> c = CHR ''i'' then ee_integer env 10 width precision (flags OR SIGN) n
      else if c = CHR ''u'' then ee_integer env 10 width precision flags n
      else ((if c \<noteq> CHR ''%'' then ''%'' else []) @ [c], n))"

text \<open>Everything between \<open>%\<close> and the conversion character.\<close>

definition ee_spec :: "vprintf_env \<Rightarrow> string \<Rightarrow> nat \<Rightarrow> u32 \<times> int \<times> int \<times> char option \<times> string \<times> nat" where
  "ee_spec env s n =
     (let (flags, s) = take_flags 0 s;
          (width, flags, s, n) = take_width env flags s n;
          (precision, s, n) = take_precision env s n;
          (qualifier, s) = take_qualifier s
      in (flags, width, precision, qualifier, s, n))"

lemma skip_atoi_length: "length (snd (ee_skip_atoi i s)) \<le> length s"
  by (induction i s rule: ee_skip_atoi.induct) auto

lemma take_flags_length: "length (snd (take_flags f s)) \<le> length s"
  by (induction f s rule: take_flags.induct) auto

lemma take_width_length: "length (fst (snd (snd (take_width env f s n)))) \<le> length s"
  using skip_atoi_length [of 0 s]
  by (auto simp: take_width_def Let_def split: list.split prod.split)

lemma take_precision_length: "length (fst (snd (take_precision env s n))) \<le> length s"
proof (cases s)
  case Nil
  then show ?thesis by (simp add: take_precision_def)
next
  case (Cons c t)
  then show ?thesis
    using skip_atoi_length [of 0 t]
    by (auto simp: take_precision_def Let_def split: list.split prod.split)
qed

lemma take_qualifier_length: "length (snd (take_qualifier s)) \<le> length s"
  by (auto simp: take_qualifier_def split: list.split)

lemma ee_spec_length:
  assumes "ee_spec env s n = (flags, width, precision, qualifier, t, n')"
  shows "length t \<le> length s"
proof -
  obtain f1 s1 where a: "take_flags 0 s = (f1, s1)" by fastforce
  obtain w f2 s2 n2 where b: "take_width env f1 s1 n = (w, f2, s2, n2)" by (metis prod_cases4)
  obtain p s3 n3 where c: "take_precision env s2 n2 = (p, s3, n3)" by (metis prod_cases3)
  obtain q s4 where d: "take_qualifier s3 = (q, s4)" by fastforce
  have "t = s4" using assms by (simp add: ee_spec_def a b c d)
  then show ?thesis
    using take_flags_length [of 0 s] take_width_length [of env f1 s1 n]
      take_precision_length [of env s2 n2] take_qualifier_length [of s3]
    by (simp add: a b c d)
qed

text \<open>
  The loop over the format: the output and the number of slots read.  A format that ends inside a
  conversion prints the \<open>%\<close> and stops.
\<close>

function ee_vsprintf :: "vprintf_env \<Rightarrow> string \<Rightarrow> nat \<Rightarrow> string \<times> nat" where
  "ee_vsprintf env [] n = ([], n)"
| "ee_vsprintf env (c # s) n =
     (if c \<noteq> CHR ''%'' then let (out, n') = ee_vsprintf env s n in (c # out, n')
      else case ee_spec env s n of (flags, width, precision, qualifier, t, n1) \<Rightarrow>
        (case t of
           [] \<Rightarrow> (''%'', n1)
         | d # t' \<Rightarrow>
             let (out1, n2) = ee_convert env flags width precision qualifier d n1;
                 (out2, n3) = ee_vsprintf env t' n2
             in (out1 @ out2, n3)))"
  by pat_completeness auto
termination
  by (relation "measure (\<lambda>(env, s, n). length s)") (auto dest: ee_spec_length [OF sym])

declare ee_vsprintf.simps(2) [simp del]

end
