(* ===== verification/PrintfProps.thy ===== *)
theory PrintfProps
  imports Printf
begin

text \<open>
  What \<open>printf\<close> prints: the digits denote the number, the width is respected exactly, plain text is
  copied, and no more argument slots are read than the format asks for.
\<close>

section \<open>Digits\<close>

text \<open>The value of a digit in an alphabet, and of a number written least significant digit first.\<close>

definition digit_value :: "string \<Rightarrow> char \<Rightarrow> nat" where
  "digit_value dig c = length (takeWhile (\<lambda>d. d \<noteq> c) dig)"

fun digits_value :: "string \<Rightarrow> nat \<Rightarrow> string \<Rightarrow> nat" where
  "digits_value dig base [] = 0"
| "digits_value dig base (c # s) = digit_value dig c + base * digits_value dig base s"

lemma digit_value_nth:
  assumes "distinct dig" "i < length dig"
  shows "digit_value dig (dig ! i) = i"
proof -
  have "takeWhile (\<lambda>d. d \<noteq> dig ! i) dig = take i dig"
  proof (rule takeWhile_eq_take_P_nth)
    show "dig ! j \<noteq> dig ! i" if "j < i" "j < length dig" for j
      using assms that by (simp add: nth_eq_iff_index_eq)
  qed simp
  then show ?thesis using assms(2) by (simp add: digit_value_def)
qed

lemma digits_distinct [simp]: "distinct lower_digits" "distinct upper_digits"
  by (simp_all add: lower_digits_def upper_digits_def)

lemma digits_length [simp]: "length lower_digits = 36" "length upper_digits = 36"
  by (simp_all add: lower_digits_def upper_digits_def)

lemma number_digits_value:
  assumes "2 \<le> unat base" "unat base \<le> length dig" "distinct dig"
  shows "digits_value dig (unat base) (number_digits dig base num) = unat num"
  using assms
proof (induction dig base num rule: number_digits.induct)
  case (1 dig base num)
  show ?case
  proof (cases "num = 0")
    case True
    then show ?thesis by (simp add: number_digits.simps)
  next
    case False
    have b: "\<not> base < 2" using 1(2) by (simp add: word_lt_unat)
    have m: "unat (num mod base) < length dig"
      using 1(2,3) by (simp add: unat_mod order_less_le_trans [OF mod_less_divisor])
    have "digits_value dig (unat base) (number_digits dig base num)
      = unat (num mod base) + unat base * unat (num div base)"
      using False b 1(1) [OF _ 1(2-4)] digit_value_nth [OF 1(4) m]
      by (simp add: number_digits.simps [of dig base num])
    then show ?thesis by (simp add: unat_mod unat_div)
  qed
qed

lemma number_digits_nonempty:
  assumes "num \<noteq> 0" "2 \<le> unat base"
  shows "number_digits dig base num \<noteq> []"
  using assms by (subst number_digits.simps) (simp add: word_lt_unat)

text \<open>The value of a decimal numeral, and what the 32-bit accumulator of \<open>ee_skip_atoi\<close> makes of it.\<close>

fun decimal_from :: "int \<Rightarrow> string \<Rightarrow> int" where
  "decimal_from v [] = v"
| "decimal_from v (c # s) = decimal_from (v * 10 + of_char c - 48) s"

definition numeral_of :: "string \<Rightarrow> int \<Rightarrow> bool" where
  "numeral_of ds v \<longleftrightarrow> ds \<noteq> [] \<and> (\<forall>c\<in>set ds. is_digit c) \<and> decimal_from 0 ds = v"

lemma decimal_from_append: "decimal_from v (s @ t) = decimal_from (decimal_from v s) t"
  by (induction s arbitrary: v) auto

lemma skip_atoi_decimal:
  "(\<forall>c\<in>set s. is_digit c) \<Longrightarrow> ee_skip_atoi (word_of_int v) s = (sint (word_of_int (decimal_from v s) :: u32), [])"
proof (induction s arbitrary: v)
  case (Cons c s)
  have "word_of_int v * 10 + word_of_int (of_char c) - 48 = (word_of_int (v * 10 + of_char c - 48) :: u32)" by simp
  then show ?case using Cons by (simp del: of_int_add of_int_mult of_int_diff)
qed simp

lemma decimal_digit:
  assumes "i < 10"
  shows "is_digit (lower_digits ! i)" "of_char (lower_digits ! i) = (int i + 48)"
proof -
  have "i = 0 \<or> i = 1 \<or> i = 2 \<or> i = 3 \<or> i = 4 \<or> i = 5 \<or> i = 6 \<or> i = 7 \<or> i = 8 \<or> i = 9"
    using assms by arith
  then show "is_digit (lower_digits ! i)" "of_char (lower_digits ! i) = (int i + 48)"
    by (auto simp: lower_digits_def is_digit_def less_eq_char_def)
qed

lemma decimal_digits:
  "(\<forall>c\<in>set (number_digits lower_digits 10 num). is_digit c)
   \<and> decimal_from 0 (rev (number_digits lower_digits 10 num)) = int (unat num)"
proof (induction lower_digits "10 :: u32" num rule: number_digits.induct)
  case (1 num)
  show ?case
  proof (cases "num = 0")
    case True
    then show ?thesis by (simp add: number_digits.simps)
  next
    case False
    let ?d = "lower_digits ! unat (num mod 10)"
    have m: "unat (num mod 10) < 10" by (simp add: unat_mod)
    have e: "number_digits lower_digits 10 num = ?d # number_digits lower_digits 10 (num div 10)"
      using False by (subst number_digits.simps) simp
    have IH: "\<forall>c\<in>set (number_digits lower_digits 10 (num div 10)). is_digit c"
      "decimal_from 0 (rev (number_digits lower_digits 10 (num div 10))) = int (unat (num div 10))"
      using 1 False by auto
    have "decimal_from 0 (rev (number_digits lower_digits 10 num)) = decimal_from (int (unat (num div 10))) [?d]"
      using IH by (simp add: e decimal_from_append)
    also have "\<dots> = int (unat (num div 10)) * 10 + int (unat (num mod 10))"
      using decimal_digit [OF m] by simp
    also have "int (unat (num div 10)) * 10 + int (unat (num mod 10)) = int (unat num)"
    proof -
      have "unat (num div 10) * 10 + unat (num mod 10) = unat num" by (simp add: unat_div unat_mod)
      then have "int (unat (num div 10) * 10 + unat (num mod 10)) = int (unat num)" by (simp only:)
      then show ?thesis by (simp only: of_nat_add of_nat_mult of_nat_numeral)
    qed
    finally show ?thesis using IH(1) decimal_digit(1) [OF m] by (simp add: e)
  qed
qed

section \<open>Whole numbers\<close>

lemma has_AND_NOT_ZEROPAD:
  "has (t AND NOT ZEROPAD) SIGN = has t SIGN" "has (t AND NOT ZEROPAD) PLUS = has t PLUS"
  "has (t AND NOT ZEROPAD) SPACE = has t SPACE" "has (t AND NOT ZEROPAD) LEFT = has t LEFT"
  "has (t AND NOT ZEROPAD) HEX_PREP = has t HEX_PREP" "\<not> has (t AND NOT ZEROPAD) ZEROPAD"
  by (simp_all add: has_def flag_defs and.assoc)

lemma has_OR: "has t (ZEROPAD OR LEFT) \<longleftrightarrow> has t ZEROPAD \<or> has t LEFT"
proof -
  have "t AND (ZEROPAD OR LEFT) = (t AND ZEROPAD) OR (t AND LEFT)" by (rule bit.conj_disj_distrib)
  then show ?thesis by (simp add: has_def or_eq_0_iff)
qed

lemma pad_loop_length:
  "int (length (fst (pad_loop run c s))) = (if run then max s 0 else 0)"
  "snd (pad_loop run c s) = (if run then if s > 0 then -1 else s - 1 else s)"
  by (simp_all add: pad_loop_def)

text \<open>The characters a number needs before any padding to the field width.\<close>

definition number_needed :: "u32 \<Rightarrow> int \<Rightarrow> int \<Rightarrow> u32 \<Rightarrow> int" where
  "number_needed num base precision type =
     (let (sign, v, _) = number_sign type num 0;
          dig = (if has type UPPERCASE then upper_digits else lower_digits)
      in int (length sign) + int (length (number_prefix type base))
         + max precision (int (length (number_tmp dig base v))))"

lemma number_emit_length:
  assumes "int (length tmp) \<le> precision" "has t LEFT \<Longrightarrow> \<not> has t ZEROPAD"
  shows "int (length (number_emit t sign prefix tmp precision w))
    = max w 0 + int (length sign) + int (length prefix) + precision"
proof -
  define p1 where "p1 = pad_loop (\<not> has t (ZEROPAD OR LEFT)) (CHR '' '') w"
  define p2 where "p2 = pad_loop (\<not> has t LEFT) (if has t ZEROPAD then CHR ''0'' else CHR '' '') (snd p1)"
  define p3 where "p3 = pad_loop True (CHR '' '') (snd p2)"
  have e: "number_emit t sign prefix tmp precision w = fst p1 @ sign @ prefix @ fst p2
      @ replicate (nat (precision - int (length tmp))) (CHR ''0'') @ rev tmp @ fst p3"
    by (simp add: number_emit_def Let_def p1_def p2_def p3_def case_prod_beta)
  have "int (length (fst p1)) + int (length (fst p2)) + int (length (fst p3)) = max w 0"
    using assms(2) by (auto simp: p1_def p2_def p3_def pad_loop_length has_OR)
  then show ?thesis unfolding e using assms(1) by simp
qed

lemma number_sign_size: "number_sign t num w = (let (sg, v, _) = number_sign t num 0 in (sg, v, w - int (length sg)))"
  by (simp add: number_sign_def)

lemma number_prefix_size: "number_prefix_size t base w = w - int (length (number_prefix t base))"
  by (auto simp: number_prefix_size_def number_prefix_def)

text \<open>How \<open>ee_number\<close> arrives at \<open>number_emit\<close>.\<close>

lemma ee_number_emit:
  assumes "2 \<le> base" "base \<le> 36" "number_sign type num 0 = (sg, v, x)"
    "tmp = number_tmp (if has type UPPERCASE then upper_digits else lower_digits) base v"
    "prc = max precision (int (length tmp))"
  obtains t where "has t LEFT \<Longrightarrow> \<not> has t ZEROPAD"
    "ee_number num base w precision type = number_emit t sg (number_prefix type base) tmp prc
      (w - int (length sg) - int (length (number_prefix type base)) - prc)"
proof
  define t where "t = (if has type LEFT then type AND NOT ZEROPAD else type)"
  have T: "has t SIGN = has type SIGN" "has t PLUS = has type PLUS" "has t SPACE = has type SPACE"
    "has t HEX_PREP = has type HEX_PREP"
    by (auto simp: t_def has_AND_NOT_ZEROPAD)
  show "\<not> has t ZEROPAD" if "has t LEFT"
    using that by (auto simp: t_def has_AND_NOT_ZEROPAD split: if_splits)
  have S: "number_sign t = number_sign type" by (intro ext) (simp add: number_sign_def T)
  have P: "number_prefix t base = number_prefix type base" by (simp add: number_prefix_def T)
  show "ee_number num base w precision type = number_emit t sg (number_prefix type base) tmp prc
      (w - int (length sg) - int (length (number_prefix type base)) - prc)"
    using assms(1-3) number_sign_size [of type num w]
    by (simp add: ee_number_def Let_def t_def [symmetric] S P number_prefix_size assms(4) [symmetric]
        assms(5) max_def)
qed

lemma ee_number_length:
  assumes "2 \<le> base" "base \<le> 36"
  shows "int (length (ee_number num base w precision type))
    = max w (number_needed num base precision type)"
proof -
  obtain sg v x where sg: "number_sign type num 0 = (sg, v, x)" by (metis prod_cases3)
  define tmp where "tmp = number_tmp (if has type UPPERCASE then upper_digits else lower_digits) base v"
  define prc where "prc = max precision (int (length tmp))"
  obtain t where t: "has t LEFT \<Longrightarrow> \<not> has t ZEROPAD"
    "ee_number num base w precision type = number_emit t sg (number_prefix type base) tmp prc
      (w - int (length sg) - int (length (number_prefix type base)) - prc)"
    using ee_number_emit [OF assms sg tmp_def prc_def, of w thesis] by blast
  have "number_needed num base precision type
    = int (length sg) + int (length (number_prefix type base)) + prc"
    by (simp add: number_needed_def sg tmp_def [symmetric] prc_def)
  then show ?thesis
    using number_emit_length [of tmp prc t, OF _ t(1)] t(2) by (simp add: prc_def)
qed

text \<open>Printed without padding, a number is its sign, its prefix and its digits.\<close>

lemma ee_number_plain:
  assumes "2 \<le> base" "base \<le> 36" "w \<le> 0" "precision \<le> 0"
    "number_sign type num 0 = (sg, v, x)"
    "dig = (if has type UPPERCASE then upper_digits else lower_digits)"
  shows "ee_number num base w precision type
    = sg @ number_prefix type base @ rev (number_tmp dig base v)"
proof -
  define tmp where "tmp = number_tmp (if has type UPPERCASE then upper_digits else lower_digits) base v"
  define prc where "prc = max precision (int (length tmp))"
  obtain t where t: "ee_number num base w precision type
      = number_emit t sg (number_prefix type base) tmp prc
        (w - int (length sg) - int (length (number_prefix type base)) - prc)"
    using ee_number_emit [OF assms(1,2,5) tmp_def prc_def, of w thesis] by blast
  have "prc = int (length tmp)" using assms(4) by (simp add: prc_def)
  moreover have "w - int (length sg) - int (length (number_prefix type base)) - prc \<le> 0"
    using assms(3) calculation by simp
  ultimately show ?thesis
    by (simp add: t number_emit_def pad_loop_def Let_def tmp_def assms(6))
qed

section \<open>The format interpreter\<close>

lemma ee_convert_slots: "snd (ee_convert env flags w p q c n) \<le> Suc n"
  by (simp add: ee_convert_def ee_integer_def case_prod_beta Let_def del: One_nat_def)

lemma skip_atoi_count: "count_list (snd (ee_skip_atoi i s)) c \<le> count_list s c"
  by (induction i s rule: ee_skip_atoi.induct) (auto simp: le_SucI)

lemma take_flags_count: "count_list (snd (take_flags f s)) c \<le> count_list s c"
  by (induction f s rule: take_flags.induct) (auto simp: le_SucI)

lemma take_width_count:
  "take_width env f s n = (w, f', t, n') \<Longrightarrow> count_list t c \<le> count_list s c \<and> n' \<le> Suc n"
  using skip_atoi_count [of 0 s c]
  by (auto simp: take_width_def Let_def case_prod_beta split: list.splits if_splits)

lemma take_precision_count:
  assumes "take_precision env s n = (p, t, n')"
  shows "count_list t c \<le> count_list s c \<and> n' \<le> Suc n"
proof (cases s)
  case Nil
  then show ?thesis using assms by (simp add: take_precision_def)
next
  case (Cons d s')
  then show ?thesis using assms skip_atoi_count [of 0 s' c]
    by (auto simp: take_precision_def Let_def case_prod_beta le_SucI split: list.splits if_splits)
qed

lemma take_qualifier_count: "count_list (snd (take_qualifier s)) c \<le> count_list s c"
  by (auto simp: take_qualifier_def split: list.split)

lemma ee_spec_count:
  assumes "ee_spec env s n = (flags, width, precision, qualifier, t, n')"
  shows "count_list t c \<le> count_list s c \<and> n' \<le> n + 2"
proof -
  obtain f1 s1 where a: "take_flags 0 s = (f1, s1)" by fastforce
  obtain w f2 s2 n2 where b: "take_width env f1 s1 n = (w, f2, s2, n2)" by (metis prod_cases4)
  obtain p s3 n3 where d: "take_precision env s2 n2 = (p, s3, n3)" by (metis prod_cases3)
  obtain q s4 where e: "take_qualifier s3 = (q, s4)" by fastforce
  have r: "t = s4" "n' = n3" using assms by (simp_all add: ee_spec_def a b d e)
  have "count_list s1 c \<le> count_list s c" using take_flags_count [of 0 s c] a by simp
  moreover have "count_list s4 c \<le> count_list s3 c" using take_qualifier_count [of s3 c] e by simp
  ultimately show ?thesis
    using take_width_count [OF b, of c] take_precision_count [OF d, of c] r by fastforce
qed

lemma ee_vsprintf_text:
  "CHR ''%'' \<notin> set s \<Longrightarrow> ee_vsprintf env (s @ t) n = apfst (\<lambda>out. s @ out) (ee_vsprintf env t n)"
  by (induction s) (auto simp: ee_vsprintf.simps(2) case_prod_beta apfst_def map_prod_def)

lemma ee_vsprintf_slots: "snd (ee_vsprintf env s n) \<le> n + 3 * count_list s (CHR ''%'')"
proof (induction env s n rule: ee_vsprintf.induct)
  case (2 env c s n)
  show ?case
  proof (cases "c = CHR ''%''")
    case False
    then show ?thesis using 2(1) by (simp add: ee_vsprintf.simps(2) case_prod_beta)
  next
    case True
    obtain flags w p q t n1 where sp: "ee_spec env s n = (flags, w, p, q, t, n1)" by (metis prod_cases6)
    note cnt = ee_spec_count [OF sp, of "CHR ''%''"]
    show ?thesis
    proof (cases t)
      case Nil
      then show ?thesis using True sp cnt by (simp add: ee_vsprintf.simps(2))
    next
      case (Cons d t')
      define n2 where "n2 = snd (ee_convert env flags w p q d n1)"
      have "snd (ee_vsprintf env t' n2) \<le> n2 + 3 * count_list t' (CHR ''%'')"
        by (rule 2(2) [OF _ sp [symmetric] refl refl refl refl Cons refl,
              of "fst (ee_convert env flags w p q d n1)"]) (simp_all add: True n2_def)
      moreover have "n2 \<le> n + 3" using ee_convert_slots [of env flags w p q d n1] cnt by (simp add: n2_def)
      moreover have "count_list t' (CHR ''%'') \<le> count_list s (CHR ''%'')"
        using cnt Cons by (auto split: if_splits)
      ultimately show ?thesis
        using True sp Cons by (simp add: ee_vsprintf.simps(2) case_prod_beta n2_def)
    qed
  qed
qed simp

lemma ee_vsprintf_conversion:
  assumes "c \<notin> set ''-+ #0''" "\<not> is_digit c" "c \<noteq> CHR ''*''" "c \<noteq> CHR ''.''" "c \<noteq> CHR ''l''" "c \<noteq> CHR ''L''"
  shows "ee_vsprintf env (CHR ''%'' # c # t) n
    = (let (out1, n2) = ee_convert env 0 (-1) (-1) None c n; (out2, n3) = ee_vsprintf env t n2
       in (out1 @ out2, n3))"
proof -
  have "ee_spec env (c # t) n = (0, -1, -1, None, c # t, n)"
    using assms by (simp add: ee_spec_def take_width_def take_precision_def take_qualifier_def)
  then show ?thesis by (simp add: ee_vsprintf.simps(2))
qed

lemma decimal_tmp: "numeral_of (rev (number_tmp lower_digits 10 num)) (int (unat num))"
  using decimal_digits [of num] number_digits_nonempty [of num 10 lower_digits]
  by (cases "num = 0") (auto simp: numeral_of_def number_tmp_def is_digit_def less_eq_char_def)

lemma numeral_skip_atoi: "numeral_of ds v \<Longrightarrow> ee_skip_atoi 0 ds = (sint (word_of_int v :: u32), [])"
  using skip_atoi_decimal [of ds 0] by (simp add: numeral_of_def)

lemma sint_neg_magnitude:
  assumes "sint (v :: u32) < 0"
  shows "int (unat (- v)) = - sint v"
proof -
  have "- v = word_of_int (- sint v)" by simp
  then have "int (unat (- v)) = (- sint v) mod 2 ^ 32"
    by (simp only: uint_nat [symmetric] uint_word_of_int) simp
  moreover have "- (2 ^ 31) \<le> sint v" using sint_ge [of v] by simp
  ultimately show ?thesis using assms by simp
qed

lemma sint_nonneg_value:
  assumes "0 \<le> sint (v :: u32)"
  shows "int (unat v) = sint v"
proof -
  have "v = word_of_int (sint v)" by simp
  then have "int (unat v) = sint v mod 2 ^ 32"
    using uint_word_of_int [of "sint v", where 'a = 32] by simp
  moreover have "sint v < 2 ^ 31" using sint_lt [of v] by simp
  ultimately show ?thesis using assms by simp
qed

section \<open>Properties\<close>

text \<open>
  C18. Decimal output denotes the argument.  \<open>%d\<close> and \<open>%u\<close> consume exactly one argument and print a
  non-empty string of decimal digits whose value is the argument: its magnitude behind a minus sign
  exactly when it is negative (2147483648 for the most negative number), its unsigned value for
  \<open>%u\<close>.  The interpreter's own number reader, which works in 32 bits, reads the same bits back.
\<close>

theorem print_decimal:
  "(\<exists>ds. ee_vsprintf env (''%d'' @ rest) n
       = apfst (\<lambda>out. (if sint (va_int env n) < 0 then ''-'' else []) @ ds @ out) (ee_vsprintf env rest (Suc n))
     \<and> numeral_of ds \<bar>sint (va_int env n)\<bar>
     \<and> ee_skip_atoi 0 ds = (sint (if sint (va_int env n) < 0 then - va_int env n else va_int env n), []))
   \<and> (\<exists>ds. ee_vsprintf env (''%u'' @ rest) n = apfst (\<lambda>out. ds @ out) (ee_vsprintf env rest (Suc n))
     \<and> numeral_of ds (uint (va_int env n)) \<and> ee_skip_atoi 0 ds = (sint (va_int env n), []))"
proof (intro conjI exI)
  let ?v = "va_int env n"
  let ?m = "if sint ?v < 0 then - ?v else ?v"
  have f: "has SIGN SIGN" "\<not> has SIGN PLUS" "\<not> has SIGN SPACE" "\<not> has SIGN HEX_PREP"
    "\<not> has SIGN UPPERCASE" "\<not> has 0 SIGN" "\<not> has 0 HEX_PREP" "\<not> has 0 UPPERCASE"
    by (simp_all add: has_def flag_defs)
  have d: "ee_number ?v 10 (-1) (-1) SIGN
      = (if sint ?v < 0 then ''-'' else []) @ rev (number_tmp lower_digits 10 ?m)"
    using ee_number_plain [of 10 "-1" "-1" SIGN ?v "if sint ?v < 0 then ''-'' else []" ?m
        "if sint ?v < 0 then -1 else 0" lower_digits]
    by (simp add: f number_sign_def number_prefix_def)
  show "ee_vsprintf env (''%d'' @ rest) n = apfst (\<lambda>out. (if sint ?v < 0 then ''-'' else [])
      @ rev (number_tmp lower_digits 10 ?m) @ out) (ee_vsprintf env rest (Suc n))"
    by (simp add: ee_vsprintf_conversion is_digit_def less_eq_char_def ee_convert_def ee_integer_def d
        case_prod_beta apfst_def map_prod_def)
  have "int (unat ?m) = \<bar>sint ?v\<bar>"
  proof (cases "sint ?v < 0")
    case True
    then show ?thesis using sint_neg_magnitude by simp
  next
    case False
    then show ?thesis using sint_nonneg_value [of ?v] by simp
  qed
  then show "numeral_of (rev (number_tmp lower_digits 10 ?m)) \<bar>sint ?v\<bar>"
    using decimal_tmp [of ?m] by simp
  show "ee_skip_atoi 0 (rev (number_tmp lower_digits 10 ?m)) = (sint ?m, [])"
    using numeral_skip_atoi [OF decimal_tmp [of ?m]] by simp
  have u: "ee_number ?v 10 (-1) (-1) 0 = rev (number_tmp lower_digits 10 ?v)"
    using ee_number_plain [of 10 "-1" "-1" 0 ?v "[]" ?v 0 lower_digits]
    by (simp add: f number_sign_def number_prefix_def)
  show "ee_vsprintf env (''%u'' @ rest) n
      = apfst (\<lambda>out. rev (number_tmp lower_digits 10 ?v) @ out) (ee_vsprintf env rest (Suc n))"
    by (simp add: ee_vsprintf_conversion is_digit_def less_eq_char_def ee_convert_def ee_integer_def u
        case_prod_beta apfst_def map_prod_def)
  show "numeral_of (rev (number_tmp lower_digits 10 ?v)) (uint ?v)" using decimal_tmp [of ?v] by simp
  show "ee_skip_atoi 0 (rev (number_tmp lower_digits 10 ?v)) = (sint ?v, [])"
    using numeral_skip_atoi [OF decimal_tmp [of ?v]] by simp
qed

text \<open>
  Exact field width.  In every base from 2 to 36 and under every combination of flags,
  \<open>ee_number\<close> prints exactly as many characters as the wider of the field width and what the number
  needs (sign, prefix, and the digits or the precision, whichever is longer): padding never
  truncates a number and never exceeds the field.
\<close>

theorem number_width:
  "2 \<le> base \<Longrightarrow> base \<le> 36 \<Longrightarrow>
   int (length (ee_number num base width precision flags))
     = max width (number_needed num base precision flags)"
  by (rule ee_number_length)

theorem number_width_witness:
  "int (length (ee_number 0xFFFFFFD6 10 8 (-1) (SIGN OR ZEROPAD)))
     = max 8 (number_needed 0xFFFFFFD6 10 (-1) (SIGN OR ZEROPAD))
   \<and> ee_number 0xFFFFFFD6 10 8 (-1) (SIGN OR ZEROPAD) = ''-0000042''"
  using number_width [of 10 "0xFFFFFFD6" 8 "-1" "SIGN OR ZEROPAD"]
  by code_simp

text \<open>
  The digits denote the number.  Printed unsigned and without padding in any base from 2 to
  36, a number is its base prefix followed by digits of the selected alphabet whose positional value
  is the number itself.
\<close>

theorem number_value:
  "2 \<le> base \<Longrightarrow> base \<le> 36 \<Longrightarrow> \<not> has flags SIGN \<Longrightarrow> width \<le> 0 \<Longrightarrow> precision \<le> 0 \<Longrightarrow>
   \<exists>ds. ee_number num base width precision flags = number_prefix flags base @ rev ds \<and> ds \<noteq> []
     \<and> digits_value (if has flags UPPERCASE then upper_digits else lower_digits) (nat base) ds = unat num"
proof -
  assume a: "2 \<le> base" "base \<le> 36" "\<not> has flags SIGN" "width \<le> 0" "precision \<le> 0"
  let ?dig = "if has flags UPPERCASE then upper_digits else lower_digits"
  have "number_sign flags num 0 = ([], num, 0)" using a(3) by (simp add: number_sign_def)
  then have e: "ee_number num base width precision flags
      = number_prefix flags base @ rev (number_tmp ?dig base num)"
    using ee_number_plain [OF a(1,2,4,5) _ refl, of flags num "[]" num 0] by simp
  have b: "unat (of_int base :: u32) = nat base"
    using a(1,2) by (simp add: unat_eq_nat_uint uint_word_of_int)
  have v: "digits_value ?dig (nat base) (number_tmp ?dig base num) = unat num"
    using number_digits_value [of "of_int base" ?dig num] a(1,2) b
    by (auto simp: number_tmp_def digit_value_def lower_digits_def upper_digits_def)
  have ne: "number_tmp ?dig base num \<noteq> []"
    using number_digits_nonempty [of num "of_int base" ?dig] a(1,2) b by (simp add: number_tmp_def)
  show ?thesis using e v ne by blast
qed

theorem number_value_witness:
  "\<exists>ds. ee_number 0xBEEF 16 0 (-1) (HEX_PREP OR UPPERCASE)
          = number_prefix (HEX_PREP OR UPPERCASE) 16 @ rev ds \<and> ds \<noteq> []
     \<and> digits_value (if has (HEX_PREP OR UPPERCASE) UPPERCASE then upper_digits else lower_digits) (nat 16) ds
         = unat (0xBEEF :: u32)"
  by (rule number_value) (simp_all add: has_def flag_defs)

text \<open>
  Plain text and argument use.  Characters before the first \<open>%\<close> are copied unchanged, and a
  whole format never reads more than three argument slots per \<open>%\<close> (width, precision, value), so
  a format without \<open>%\<close> reads none.
\<close>

theorem format_text_and_slots:
  "CHR ''%'' \<notin> set plain \<Longrightarrow>
   ee_vsprintf env (plain @ rest) n = apfst (\<lambda>out. plain @ out) (ee_vsprintf env rest n)
   \<and> snd (ee_vsprintf env (plain @ rest) n) \<le> n + 3 * count_list rest (CHR ''%'')"
  using ee_vsprintf_text [of plain env rest n] ee_vsprintf_slots [of env rest n]
  by (simp add: apfst_def map_prod_def case_prod_beta)

definition demo_va :: vprintf_env where
  "demo_va = \<lparr>va_slot = (\<lambda>i. of_nat (i + 7)), guest_string = (\<lambda>_. Some ''pen''), host_byte = (\<lambda>_. 0)\<rparr>"

theorem format_text_and_slots_witness:
  "ee_vsprintf demo_va (''x='' @ ''%*d %s'') 0 = apfst (\<lambda>out. ''x='' @ out) (ee_vsprintf demo_va ''%*d %s'' 0)
   \<and> snd (ee_vsprintf demo_va (''x='' @ ''%*d %s'') 0) \<le> 0 + 3 * count_list ''%*d %s'' (CHR ''%'')"
  by (rule format_text_and_slots) simp

end
