(* ===== verification/DbgMsg.thy ===== *)
theory DbgMsg
  imports HeapProps PrintfProps
begin

text \<open>
  The debug message call (PrimU/dbgout.cpp): it spills the argument registers below the guest
  stack and runs the format interpreter of Printf over guest memory.  \<open>__GET\<close> is the address
  translation of MemMgr.
\<close>

section \<open>C strings in host memory\<close>

text \<open>A string ends at its NUL or where the address space ends (the host faults there).\<close>

function read_cstr :: "hmemory \<Rightarrow> RealPtr \<Rightarrow> string" where
  "read_cstr h p =
     (if h p = 0 then []
      else if p = - 1 then [char_of (unat (h p))]
      else char_of (unat (h p)) # read_cstr h (p + 1))"
  by pat_completeness auto
termination
proof (relation "measure (\<lambda>(h, p). 2 ^ 64 - unat p)")
  fix h :: hmemory and p :: RealPtr
  assume "p \<noteq> - 1"
  then have "p + 1 \<noteq> 0" by (simp add: eq_neg_iff_add_eq_0)
  then have "unat (p + 1) = Suc (unat p)" by (simp add: unatSuc add.commute)
  then show "((h, p + 1), h, p) \<in> measure (\<lambda>(h, p). 2 ^ 64 - unat p)"
    using unat64_lt [of p] by simp
qed simp

declare read_cstr.simps [simp del]

definition guest_cstr :: "MemoryManager \<Rightarrow> VirtPtr \<Rightarrow> string option" where
  "guest_cstr m a =
     (let p = GetRealAddr m a in if p = 0 then None else Some (read_cstr (hmem m) p))"

section \<open>The call\<close>

definition dbg_env :: "MemoryManager \<Rightarrow> RealPtr \<Rightarrow> vprintf_env" where
  "dbg_env m va =
     \<lparr>va_slot = (\<lambda>i. load_le 8 (hmem m) (va + 8 * of_nat i)), guest_string = guest_cstr m,
      host_byte = hmem m\<rparr>"

text \<open>
  \<open>stack_ptr\<close> is a \<open>uint32_t*\<close>, so \<open>stack_ptr - 0xC\<close> is 48 bytes below it.  The result is the
  return value, what is printed, and the memory manager with the spilled registers.
\<close>

definition spill_registers :: "SystemServiceArguments \<Rightarrow> RealPtr \<Rightarrow> hmemory \<Rightarrow> hmemory" where
  "spill_registers args p h =
     (let h = store_le 4 h (p - 4 * 0x10) (sz (r0 args));
          h = store_le 4 h (p - 4 * 0xC) (sz (r1 args));
          h = store_le 4 h (p - 4 * 0x8) (sz (r2 args))
      in store_le 4 h (p - 4 * 0x4) (sz (r3 args)))"

definition dbgMsg :: "SystemServiceArguments \<Rightarrow> MemoryManager \<Rightarrow> u32 \<times> string \<times> MemoryManager" where
  "dbgMsg args m =
     (let stack_ptr = GetRealAddr m (sp args)
      in if stack_ptr = 0 then (- 1, [], m)
         else
           let m = m\<lparr>hmem := spill_registers args stack_ptr (hmem m)\<rparr>
           in case guest_cstr m (r0 args) of
                None \<Rightarrow> (0, [], m)
              | Some fmt \<Rightarrow> (0, fst (ee_vsprintf (dbg_env m (stack_ptr - 4 * 0xC)) fmt 0), m))"

section \<open>Where the arguments end up\<close>

lemma store_le_below:
  assumes "64 \<le> unat p" "k \<le> 64" "4 \<le> k" "unat q + n \<le> 18446744073709551616"
    "unat q + n \<le> unat p - k \<or> unat p - k + 4 \<le> unat q"
  shows "load_le n (store_le 4 h (p - of_nat k) v) q = load_le n h q"
proof -
  have u: "unat (p - of_nat k) = unat p - k"
    using assms by (simp add: unat_sub unat_of_nat word_le_unat)
  have "unat p - k + 4 \<le> 18446744073709551616" using assms(2,3) unat64_lt [of p] by linarith
  then show ?thesis using assms u by (intro load_store_disjoint) auto
qed

lemma spill_registers_outside:
  assumes "64 \<le> unat p" "unat q + n \<le> 18446744073709551616"
    "\<And>k. k \<in> {16, 32, 48, 64} \<Longrightarrow> unat q + n \<le> unat p - k \<or> unat p - k + 4 \<le> unat q"
  shows "load_le n (spill_registers args p h) q = load_le n h q"
  using assms(2) assms(3) [of 16] assms(3) [of 32] assms(3) [of 48] assms(3) [of 64]
    store_le_below [OF assms(1), of 64 q n] store_le_below [OF assms(1), of 48 q n]
    store_le_below [OF assms(1), of 32 q n] store_le_below [OF assms(1), of 16 q n]
  by (simp add: spill_registers_def Let_def)

text \<open>An \<open>int\<close> argument is the low half of its slot.\<close>

lemma load_le_low_half: "ucast (load_le 8 h q) = (ucast (load_le 4 h q) :: u32)"
proof -
  have "load_le 8 h q = load_le 4 h q OR push_bit 32 (load_le 4 h (q + 4))"
    by (simp add: numeral_eq_Suc add.assoc push_bit_or ac_simps)
  then show ?thesis
    by (auto intro!: bit_word_eqI simp: bit_simps)
qed

lemma ucast_sz_low: "ucast (take_bit 32 (sz r)) = r"
  by (auto intro!: bit_word_eqI simp: bit_simps sz_def dest: bit_imp_le_length)

lemma store_le_here:
  assumes "64 \<le> unat p" "k \<in> {16, 32, 48, 64}"
  shows "ucast (load_le 4 (store_le 4 h (p - of_nat k) (sz r)) (p - of_nat k)) = r"
  using load_store_le [of 4 h "p - of_nat k" "sz r"] by (simp add: ucast_sz_low)

lemma spilled:
  assumes "64 \<le> unat p"
  shows "ucast (load_le 4 (spill_registers args p h) (p - 48)) = r1 args"
    "ucast (load_le 4 (spill_registers args p h) (p - 32)) = r2 args"
    "ucast (load_le 4 (spill_registers args p h) (p - 16)) = r3 args"
proof -
  have u: "unat (p - of_nat k) = unat p - k" if "k \<le> 64" for k
    using assms that by (simp add: unat_sub unat_of_nat word_le_unat)
  have b: "load_le 4 (store_le 4 h (p - of_nat j) v) (p - of_nat k) = load_le 4 h (p - of_nat k)"
    if "4 \<le> j" "j + 4 \<le> k" "k \<le> 64" for j k h v
  proof (rule store_le_below [OF assms])
    show "unat (p - of_nat k) + 4 \<le> 18446744073709551616"
      using u [OF that(3)] that unat64_lt [of p] by linarith
    show "unat (p - of_nat k) + 4 \<le> unat p - j \<or> unat p - j + 4 \<le> unat (p - of_nat k)"
      using u [OF that(3)] that assms by linarith
  qed (use that in auto)
  show "ucast (load_le 4 (spill_registers args p h) (p - 48)) = r1 args"
    using b [of 32 48] b [of 16 48] store_le_here [OF assms, of 48 _ "r1 args"]
    by (simp add: spill_registers_def Let_def)
  show "ucast (load_le 4 (spill_registers args p h) (p - 32)) = r2 args"
    using b [of 16 32] store_le_here [OF assms, of 32 _ "r2 args"]
    by (simp add: spill_registers_def Let_def)
  show "ucast (load_le 4 (spill_registers args p h) (p - 16)) = r3 args"
    using store_le_here [OF assms, of 16 _ "r3 args"] by (simp add: spill_registers_def Let_def)
qed

section \<open>Property\<close>

text \<open>
  C19. Where the arguments of a debug message end up.  When the guest stack is mapped, \<open>dbgMsg\<close>
  runs the format over argument slots of eight bytes that start 48 bytes below the guest SP: the
  registers \<open>r1\<close>, \<open>r2\<close>, \<open>r3\<close> are the even slots 0, 2, 4, the stack arguments are read from slot 6 on,
  every second word only, and slots 1, 3 and 5 are whatever the memory below the stack held
  before the call; so a message whose format uses one argument sees \<open>r1\<close>, and one that uses two
  sees stale memory as its second argument.
\<close>

theorem dbgMsg_arguments:
  "GetRealAddr m (sp args) = p \<Longrightarrow> 64 \<le> unat p \<Longrightarrow> dbgMsg args m = (res, out, m') \<Longrightarrow>
   res = 0 \<and> m' = m\<lparr>hmem := spill_registers args p (hmem m)\<rparr>
   \<and> va_int (dbg_env m' (p - 48)) 0 = r1 args
   \<and> va_int (dbg_env m' (p - 48)) 2 = r2 args
   \<and> va_int (dbg_env m' (p - 48)) 4 = r3 args
   \<and> (\<forall>i\<in>{1, 3, 5}. va_slot (dbg_env m' (p - 48)) i = load_le 8 (hmem m) (p - 48 + 8 * of_nat i))
   \<and> (\<forall>j. unat p + 8 * j + 8 \<le> 2 ^ 64 \<longrightarrow>
        va_slot (dbg_env m' (p - 48)) (6 + j) = load_le 8 (hmem m) (p + 8 * of_nat j))
   \<and> out = (case guest_cstr m' (r0 args) of None \<Rightarrow> []
        | Some fmt \<Rightarrow> fst (ee_vsprintf (dbg_env m' (p - 48)) fmt 0))"
proof -
  assume a: "GetRealAddr m (sp args) = p" "64 \<le> unat p" "dbgMsg args m = (res, out, m')"
  have "p \<noteq> 0" using a(2) by auto
  then have r: "res = 0" and m': "m' = m\<lparr>hmem := spill_registers args p (hmem m)\<rparr>"
    and out: "out = (case guest_cstr m' (r0 args) of None \<Rightarrow> []
        | Some fmt \<Rightarrow> fst (ee_vsprintf (dbg_env m' (p - 48)) fmt 0))"
    using a(1,3) by (auto simp: dbgMsg_def Let_def split: option.splits)
  have h: "hmem m' = spill_registers args p (hmem m)" by (simp add: m')
  note sp = spilled [OF a(2), of args "hmem m"]
  have regs: "va_int (dbg_env m' (p - 48)) 0 = r1 args"
    "va_int (dbg_env m' (p - 48)) 2 = r2 args" "va_int (dbg_env m' (p - 48)) 4 = r3 args"
    using sp by (simp_all add: va_int_def dbg_env_def load_le_low_half h)
  have stale: "va_slot (dbg_env m' (p - 48)) i = load_le 8 (hmem m) (p - 48 + 8 * of_nat i)"
    if "i \<in> {1, 3, 5}" for i
  proof -
    have "unat (p - 40) = unat p - 40" "unat (p - 24) = unat p - 24" "unat (p - 8) = unat p - 8"
      using a(2) by (simp_all add: unat_sub word_le_unat)
    then have "load_le 8 (spill_registers args p (hmem m)) (p - 48 + 8 * of_nat i)
        = load_le 8 (hmem m) (p - 48 + 8 * of_nat i)"
      using that a(2) unat64_lt [of p] by (intro spill_registers_outside) auto
    then show ?thesis by (simp add: dbg_env_def h)
  qed
  have stack: "va_slot (dbg_env m' (p - 48)) (6 + j) = load_le 8 (hmem m) (p + 8 * of_nat j)"
    if "unat p + 8 * j + 8 \<le> 2 ^ 64" for j
  proof -
    have "p - 48 + 8 * of_nat (6 + j) = p + of_nat (8 * j)" by simp
    moreover have "unat (p + of_nat (8 * j)) = unat p + 8 * j"
      using that by (intro unat_add_of_nat) simp
    then have "load_le 8 (spill_registers args p (hmem m)) (p + of_nat (8 * j))
        = load_le 8 (hmem m) (p + of_nat (8 * j))"
      using that a(2) by (intro spill_registers_outside) auto
    ultimately show ?thesis by (simp add: dbg_env_def h)
  qed
  show ?thesis using r m' regs stale stack out by blast
qed

definition demo_dbg_args :: SystemServiceArguments where
  "demo_dbg_args = \<lparr>r0 = 0x20000008, r1 = 11, r2 = 12, r3 = 13, r4 = 0, sp = 0x20001000\<rparr>"

theorem dbgMsg_arguments_witness:
  "\<exists>res out m'. dbgMsg demo_dbg_args demo_mm = (res, out, m') \<and> res = 0
     \<and> va_int (dbg_env m' (0x100001000 - 48)) 0 = 11 \<and> va_int (dbg_env m' (0x100001000 - 48)) 2 = 12"
proof -
  obtain res out m' where d: "dbgMsg demo_dbg_args demo_mm = (res, out, m')" by (metis prod_cases3)
  have g: "GetRealAddr demo_mm (sp demo_dbg_args) = 0x100001000"
    unfolding MemoryManager_new_eq(3) [OF demo_mm_new]
    by (simp add: demo_dbg_args_def GetRealAddr_def MemoryBlock_ContainsVAddr_def
        MemoryChunk_ContainsVAddr_def MemoryChunk_GetRAddr_def demo_host_def MEM_DYNAMIC_HEAP_BASE_def
        MEM_DYNAMIC_HEAP_SIZE_def sz_def PAGE_SIZE_def)
  have "64 \<le> unat (0x100001000 :: RealPtr)" by simp
  from dbgMsg_arguments [OF g this d] d show ?thesis by (auto simp: demo_dbg_args_def)
qed

end
