(* ===== verification/Paths.thy ===== *)
theory Paths
  imports Prelude "HOL-Library.Char_ord" "HOL-Library.Sublist"
begin

text \<open>
  The guest's drives (PrimU/system.cpp, lines 39-190, and the directory calls 371-556): guest paths
  are mapped to host paths under \<open>prime_data\<close>, with one working directory per drive.  Strings are
  byte strings; the library functions the code uses (\<open>isspace\<close>, \<open>toupper\<close>,
  \<open>fs::path::lexically_normal\<close>, the UTF-16 to UTF-8 conversion) are written out.  The host's
  file system is the record \<open>host_fs\<close>.  \<open>None\<close> is a use of \<open>g_cwds\<close> outside its 26 entries, which
  is undefined in the code, or an exception the code does not catch.
\<close>

section \<open>Characters and strings\<close>

abbreviation bsl :: char where "bsl \<equiv> CHR 0x5C"

definition is_sep :: "char \<Rightarrow> bool" where "is_sep c \<longleftrightarrow> c = bsl \<or> c = CHR ''/''"

lemma is_sep_simps [simp]: "is_sep bsl" "is_sep (CHR ''/'')"
  by (simp_all add: is_sep_def)

definition isspace :: "char \<Rightarrow> bool" where
  "isspace c \<longleftrightarrow> (let n = (of_char c :: nat) in n = 32 \<or> 9 \<le> n \<and> n \<le> 13)"

definition toupper :: "char \<Rightarrow> char" where
  "toupper c = (if CHR ''a'' \<le> c \<and> c \<le> CHR ''z'' then char_of (of_char c - 32 :: nat) else c)"

definition tolower :: "char \<Rightarrow> char" where
  "tolower c = (if CHR ''A'' \<le> c \<and> c \<le> CHR ''Z'' then char_of (of_char c + 32 :: nat) else c)"

definition trim :: "string \<Rightarrow> string" where
  "trim s = rev (dropWhile isspace (rev (dropWhile isspace s)))"

text \<open>One leading and one trailing quote of either kind are removed.\<close>

abbreviation is_quote :: "char \<Rightarrow> bool" where
  "is_quote c \<equiv> c = CHR 0x22 \<or> c = CHR 0x27"

definition unquote :: "string \<Rightarrow> string" where
  "unquote s =
     (let s = (if s \<noteq> [] \<and> is_quote (hd s) then tl s else s)
      in if s \<noteq> [] \<and> is_quote (last s) then butlast s else s)"

text \<open>The loop of \<open>normalize_slashes\<close>; \<open>last_slash\<close> is \<open>lastWasSlash\<close>.\<close>

fun squash :: "bool \<Rightarrow> string \<Rightarrow> string" where
  "squash last_slash [] = []"
| "squash last_slash (c # s) =
     (if c = bsl then (if last_slash then [] else [bsl]) @ squash True s
      else c # squash False s)"

definition normalize_slashes :: "string \<Rightarrow> string" where
  "normalize_slashes s = squash False (map (\<lambda>c. if c = CHR ''/'' then bsl else c) s)"

section \<open>\<open>fs::path::lexically_normal\<close>\<close>

text \<open>
  The components of a relative path, split at every separator; empty components stand for repeated
  separators and a trailing one.
\<close>

fun path_comps :: "string \<Rightarrow> string \<Rightarrow> string list" where
  "path_comps cur [] = [cur]"
| "path_comps cur (c # s) = (if is_sep c then cur # path_comps [] s else path_comps (cur @ [c]) s)"

text \<open>One component is added to the normal form, kept as a stack.\<close>

definition norm_step :: "bool \<Rightarrow> string list \<Rightarrow> string \<Rightarrow> string list" where
  "norm_step rooted st c =
     (if c = '''' \<or> c = ''.'' then st
      else if c = ''..'' then
        (case st of [] \<Rightarrow> if rooted then [] else [c] | t # st' \<Rightarrow> if t = ''..'' then c # st else st')
      else c # st)"

fun join_comps :: "string list \<Rightarrow> string" where
  "join_comps [] = []"
| "join_comps [c] = c"
| "join_comps (c # cs) = c @ bsl # join_comps cs"

definition is_drive_letter :: "char \<Rightarrow> bool" where
  "is_drive_letter c \<longleftrightarrow> CHR ''A'' \<le> toupper c \<and> toupper c \<le> CHR ''Z''"

definition split_root_name :: "string \<Rightarrow> string \<times> string" where
  "split_root_name p =
     (case p of c # d # r \<Rightarrow> if is_drive_letter c \<and> d = CHR '':'' then ([c, d], r) else ([], p)
      | _ \<Rightarrow> ([], p))"

text \<open>
  The Windows normal form.  Network root names (two leading separators) do not arise: every path
  the code normalises starts with a working directory or \<open>prime_data\<close>.
\<close>

definition lexically_normal :: "string \<Rightarrow> string" where
  "lexically_normal p =
     (if p = [] then []
      else
        let (root, rest) = split_root_name p;
            rooted = (rest \<noteq> [] \<and> is_sep (hd rest));
            comps = path_comps [] rest;
            st = foldl (norm_step rooted) [] comps;
            trailing = (st \<noteq> [] \<and> hd st \<noteq> ''..'' \<and> last comps \<in> {'''', ''.'', ''..''})
        in if st = [] \<and> \<not> rooted \<and> root = [] then ''.''
           else root @ (if rooted then [bsl] else []) @ join_comps (rev st)
                  @ (if trailing then [bsl] else []))"

section \<open>State\<close>

record paths =
  g_init_flag :: bool
  g_cwds :: "string list"
  g_currentDrive :: char

text \<open>
  The host's directories: \<open>fs::exists\<close> and \<open>fs::create_directories\<close>, each of which may throw
  (\<open>None\<close>), on an abstract file system.
\<close>

record 'w host_fs =
  fs_exists :: "string \<Rightarrow> 'w \<Rightarrow> bool option"
  create_directories :: "string \<Rightarrow> 'w \<Rightarrow> 'w option"

definition sys_init :: "paths \<Rightarrow> paths" where
  "sys_init st = st\<lparr>g_cwds := (g_cwds st)[0 := ''A:'' @ bsl # ''WINDOW'' @ bsl # ''SYSTEM'']\<rparr>"

text \<open>The static initial values.\<close>

definition paths_init :: paths where
  "paths_init = \<lparr>g_init_flag = False, g_cwds = replicate 26 [], g_currentDrive = CHR ''A''\<rparr>"

definition drive_char :: "nat \<Rightarrow> char" where
  "drive_char i = char_of (65 + i)"

definition drive_root :: "char \<Rightarrow> string" where
  "drive_root d = ''prime_data'' @ [bsl, d, bsl]"

definition try_mkdirs :: "'w host_fs \<Rightarrow> string \<Rightarrow> 'w \<Rightarrow> 'w" where
  "try_mkdirs fs p w = (case create_directories fs p w of Some w' \<Rightarrow> w' | None \<Rightarrow> w)"

text \<open>\<open>std::call_once(g_init_flag, ensure_prime_drive_roots_initialized)\<close>.\<close>

definition ensure_prime_drive_roots_initialized ::
  "'w host_fs \<Rightarrow> paths \<times> 'w \<Rightarrow> paths \<times> 'w" where
  "ensure_prime_drive_roots_initialized fs = (\<lambda>(st, w).
     (st\<lparr>g_cwds := map (\<lambda>i. drive_root (drive_char i)) [0..<26]\<rparr>,
      foldl (\<lambda>w i. try_mkdirs fs (drive_root (drive_char i)) w) w [0..<26]))"

definition call_once_init :: "'w host_fs \<Rightarrow> paths \<times> 'w \<Rightarrow> paths \<times> 'w" where
  "call_once_init fs = (\<lambda>(st, w).
     if g_init_flag st then (st, w)
     else let (st', w') = ensure_prime_drive_roots_initialized fs (st, w)
          in (st'\<lparr>g_init_flag := True\<rparr>, w'))"

text \<open>\<open>g_cwds[d - 'A']\<close>.\<close>

definition drive_index :: "char \<Rightarrow> nat option" where
  "drive_index d = (if CHR ''A'' \<le> d \<and> d \<le> CHR ''Z'' then Some (of_char d - 65) else None)"

definition cwd_of :: "paths \<Rightarrow> char \<Rightarrow> string option" where
  "cwd_of st d = map_option (\<lambda>i. g_cwds st ! i) (drive_index d)"

definition set_cwd :: "char \<Rightarrow> string \<Rightarrow> paths \<Rightarrow> paths option" where
  "set_cwd d p st = map_option (\<lambda>i. st\<lparr>g_cwds := (g_cwds st)[i := p]\<rparr>) (drive_index d)"

section \<open>Guest paths to host paths\<close>

definition has_drive :: "string \<Rightarrow> bool" where
  "has_drive s \<longleftrightarrow> 2 \<le> length s \<and> s ! 1 = CHR '':''"

definition drop_sep :: "string \<Rightarrow> string" where
  "drop_sep s = (if s \<noteq> [] \<and> is_sep (hd s) then tl s else s)"

definition map_path :: "paths \<Rightarrow> string \<Rightarrow> string option" where
  "map_path st s =
     (if has_drive s then
        Some (normalize_slashes (drive_root (toupper (hd s)) @ drop_sep (drop 2 s)))
      else if s \<noteq> [] \<and> is_sep (hd s) then
        map_option (\<lambda>cwd. normalize_slashes (cwd @ dropWhile is_sep s)) (cwd_of st (g_currentDrive st))
      else
        map_option (\<lambda>cwd. normalize_slashes (lexically_normal (cwd @ s)))
          (cwd_of st (g_currentDrive st)))"

definition MapVMPathToHost ::
  "'w host_fs \<Rightarrow> string option \<Rightarrow> paths \<times> 'w \<Rightarrow> (string \<times> paths \<times> 'w) option" where
  "MapVMPathToHost fs vmPath s =
     (let (st, w) = call_once_init fs s
      in map_option (\<lambda>p. (p, st, w))
           (case vmPath of
              None \<Rightarrow> map_option normalize_slashes (cwd_of st (g_currentDrive st))
            | Some v \<Rightarrow> map_path st (unquote (trim v))))"

section \<open>Wide strings\<close>

fun wstr_to_utf8 :: "u16 list \<Rightarrow> string option" where
  "wstr_to_utf8 [] = Some []"
| "wstr_to_utf8 (c # ws) =
     (let n = unat c; byte = (\<lambda>k. char_of (k :: nat))
      in if n < 0x80 then map_option (\<lambda>s. byte n # s) (wstr_to_utf8 ws)
         else if n < 0x800 then
           map_option (\<lambda>s. byte (0xC0 + n div 64) # byte (0x80 + n mod 64) # s) (wstr_to_utf8 ws)
         else if n < 0xD800 \<or> 0xE000 \<le> n then
           map_option (\<lambda>s. byte (0xE0 + n div 4096) # byte (0x80 + n div 64 mod 64)
                           # byte (0x80 + n mod 64) # s) (wstr_to_utf8 ws)
         else if n < 0xDC00 then
           (case ws of [] \<Rightarrow> None
            | d # ws' \<Rightarrow>
                let k = unat d
                in if 0xDC00 \<le> k \<and> k < 0xE000 then
                     let v = 0x10000 + (n - 0xD800) * 1024 + (k - 0xDC00)
                     in map_option (\<lambda>s. byte (0xF0 + v div 262144) # byte (0x80 + v div 4096 mod 64)
                                      # byte (0x80 + v div 64 mod 64) # byte (0x80 + v mod 64) # s)
                          (wstr_to_utf8 ws')
                   else None)
         else None)"

text \<open>\<open>None\<close> as a result of the inner computation is the exception of the conversion.\<close>

definition MapVMPathToHostW ::
  "'w host_fs \<Rightarrow> u16 list option \<Rightarrow> paths \<times> 'w \<Rightarrow> (string \<times> paths \<times> 'w) option" where
  "MapVMPathToHostW fs vmPath s =
     (case vmPath of None \<Rightarrow> MapVMPathToHost fs None s
      | Some ws \<Rightarrow>
          (case wstr_to_utf8 ws of None \<Rightarrow> None
           | Some v \<Rightarrow> MapVMPathToHost fs (Some (takeWhile (\<lambda>c. c \<noteq> CHR 0x00) v)) s))"

section \<open>Directory calls\<close>

text \<open>\<open>if (!fs::exists(p)) fs::create_directories(p)\<close> inside \<open>try\<close>.\<close>

definition make_dir :: "'w host_fs \<Rightarrow> string \<Rightarrow> 'w \<Rightarrow> u32 \<times> 'w" where
  "make_dir fs p w =
     (case fs_exists fs p w of
        None \<Rightarrow> (0, w)
      | Some True \<Rightarrow> (1, w)
      | Some False \<Rightarrow> (case create_directories fs p w of None \<Rightarrow> (0, w) | Some w' \<Rightarrow> (1, w')))"

definition amkdir ::
  "'w host_fs \<Rightarrow> string option \<Rightarrow> paths \<times> 'w \<Rightarrow> (u32 \<times> paths \<times> 'w) option" where
  "amkdir fs vmname s =
     (case MapVMPathToHost fs vmname (call_once_init fs s) of
        None \<Rightarrow> None
      | Some (p, st, w) \<Rightarrow> let (r, w') = make_dir fs p w in Some (r, st, w'))"

definition wmkdir ::
  "'w host_fs \<Rightarrow> u16 list option \<Rightarrow> paths \<times> 'w \<Rightarrow> (u32 \<times> paths \<times> 'w) option" where
  "wmkdir fs vmname s =
     (let (st, w) = call_once_init fs s
      in if map_option wstr_to_utf8 vmname = Some None then Some (0, st, w)
         else case MapVMPathToHostW fs vmname (st, w) of
                None \<Rightarrow> None
              | Some (p, st, w) \<Rightarrow> let (r, w') = make_dir fs p w in Some (r, st, w'))"

text \<open>The new working directory of a drive: created on the host, stored with a final separator.\<close>

definition enter_dir ::
  "'w host_fs \<Rightarrow> char \<Rightarrow> string \<Rightarrow> paths \<times> 'w \<Rightarrow> (u32 \<times> paths \<times> 'w) option" where
  "enter_dir fs d mapped = (\<lambda>(st, w).
     let p = lexically_normal mapped
     in case create_directories fs p w of
          None \<Rightarrow> Some (0, st, w)
        | Some w' \<Rightarrow>
            map_option (\<lambda>st'. (1, st'\<lparr>g_currentDrive := d\<rparr>, w'))
              (set_cwd d (normalize_slashes p @ (if last p = bsl then [] else [bsl])) st))"

text \<open>\<open>_achdir\<close> and \<open>_wchdir\<close> after the name has been trimmed.\<close>

definition chdir_to ::
  "'w host_fs \<Rightarrow> string \<Rightarrow> paths \<times> 'w \<Rightarrow> (u32 \<times> paths \<times> 'w) option" where
  "chdir_to fs s = (\<lambda>(st, w).
     if has_drive s \<and> length s = 2 then Some (1, st\<lparr>g_currentDrive := toupper (hd s)\<rparr>, w)
     else if has_drive s then
       enter_dir fs (toupper (hd s)) (drive_root (toupper (hd s)) @ drop_sep (drop 2 s)) (st, w)
     else
       case cwd_of st (g_currentDrive st) of
         None \<Rightarrow> None
       | Some cwd \<Rightarrow>
           enter_dir fs (g_currentDrive st)
             (cwd @ (if s \<noteq> [] \<and> is_sep (hd s) then dropWhile is_sep s else s)) (st, w))"

definition achdir ::
  "'w host_fs \<Rightarrow> string option \<Rightarrow> paths \<times> 'w \<Rightarrow> (u32 \<times> paths \<times> 'w) option" where
  "achdir fs vmname s =
     (let (st, w) = call_once_init fs s
      in case vmname of
           None \<Rightarrow> Some (0, st, w)
         | Some v \<Rightarrow> if v = [] then Some (0, st, w) else chdir_to fs (trim v) (st, w))"

definition wchdir ::
  "'w host_fs \<Rightarrow> u16 list option \<Rightarrow> paths \<times> 'w \<Rightarrow> (u32 \<times> paths \<times> 'w) option" where
  "wchdir fs vmname s =
     (let (st, w) = call_once_init fs s
      in case vmname of
           None \<Rightarrow> Some (0, st, w)
         | Some v \<Rightarrow>
             if v = [] then Some (0, st, w)
             else chdir_to fs (trim (map (\<lambda>c. char_of (unat c mod 256)) v)) (st, w))"

section \<open>Host paths back to guest paths\<close>

text \<open>
  \<open>canon\<close> is \<open>fs::weakly_canonical\<close> of the absolute form of a path (\<open>None\<close> when it throws).
\<close>

definition strip_drive_prefix :: "string \<Rightarrow> string option" where
  "strip_drive_prefix s =
     (let lower = map tolower s; prefix = ''prime_data'' @ [bsl]; n = length prefix
      in if n < length lower \<and> take n lower = prefix then
           let pos = (if Suc n < length lower \<and> is_sep (lower ! Suc n) then Suc (Suc n) else Suc n)
           in Some ([toupper (lower ! n), CHR '':'', bsl] @ drop pos s)
         else None)"

definition strip_cwd :: "string \<Rightarrow> nat \<Rightarrow> string \<Rightarrow> string option" where
  "strip_cwd s i cwd =
     (let p = normalize_slashes cwd; lower = map tolower s; lowerPrefix = map tolower p
      in if length lowerPrefix \<le> length lower \<and> take (length lowerPrefix) lower = lowerPrefix
         then Some ([drive_char i, CHR '':'', bsl] @ drop (length p) s)
         else None)"

fun strip_cwds :: "string \<Rightarrow> nat \<Rightarrow> string list \<Rightarrow> string" where
  "strip_cwds s i [] = []"
| "strip_cwds s i (cwd # cwds) =
     (case strip_cwd s i cwd of Some r \<Rightarrow> r | None \<Rightarrow> strip_cwds s (Suc i) cwds)"

definition MapHostPathToVM ::
  "(string \<Rightarrow> string option) \<Rightarrow> 'w host_fs \<Rightarrow> string option \<Rightarrow> paths \<times> 'w \<Rightarrow> string \<times> paths \<times> 'w" where
  "MapHostPathToVM canon fs hostPath s =
     (let (st, w) = call_once_init fs s
      in case hostPath of
           None \<Rightarrow> ([g_currentDrive st, CHR '':'', bsl], st, w)
         | Some h \<Rightarrow>
             let s = normalize_slashes (case canon h of Some c \<Rightarrow> c | None \<Rightarrow> h)
             in (case strip_drive_prefix s of Some r \<Rightarrow> r | None \<Rightarrow> strip_cwds s 0 (g_cwds st), st, w))"

end
