(* ===== verification/VFiles.thy ===== *)
theory VFiles
  imports Paths DbgMsg
begin

text \<open>
  The guest's files (PrimU/system.cpp 28-40, 200-369, 1081-1240, 1623-1693): a table from 32-bit
  handles to open host files.  The host's streams are the record \<open>stdio\<close>, whose functions act on
  the host's world; a \<open>FILE*\<close> is an opaque 64-bit value, 0 when null.  \<open>None\<close> is undefined
  behaviour (see Paths) or an exception that is not caught.
\<close>

section \<open>State\<close>

record VFile =
  vf_fp :: RealPtr
  vf_hostPath :: string
  vf_mode :: string

record vfiles =
  g_vfile_table :: "(u32 \<times> VFile) list"
  g_next_handle :: u32

definition vfiles_init :: vfiles where
  "vfiles_init = \<lparr>g_vfile_table = [], g_next_handle = 1\<rparr>"

text \<open>
  \<open>c_fopen path mode\<close> is null on failure; \<open>c_fread f n\<close> the bytes read; \<open>c_fwrite f bs\<close> the number
  written; \<open>c_fseek\<close> and \<open>c_ftell\<close> the results of the 64-bit and 32-bit calls alike (-1 and False on
  failure); \<open>c_clearerr\<close> the \<open>feof\<close>, \<open>ferror\<close>, \<open>clearerr\<close> sequence of \<open>_fread\<close>; \<open>fs_remove p\<close> whether \<open>fs::remove\<close> reports no error.
\<close>

record 'w stdio = "'w host_fs" +
  c_fopen :: "string \<Rightarrow> string \<Rightarrow> 'w \<Rightarrow> RealPtr \<times> 'w"
  c_fclose :: "RealPtr \<Rightarrow> 'w \<Rightarrow> 'w"
  c_fread :: "RealPtr \<Rightarrow> nat \<Rightarrow> 'w \<Rightarrow> byte list \<times> 'w"
  c_fwrite :: "RealPtr \<Rightarrow> byte list \<Rightarrow> 'w \<Rightarrow> nat \<times> 'w"
  c_fflush :: "RealPtr \<Rightarrow> 'w \<Rightarrow> 'w"
  c_clearerr :: "RealPtr \<Rightarrow> 'w \<Rightarrow> 'w"
  c_fseek :: "RealPtr \<Rightarrow> int \<Rightarrow> int \<Rightarrow> 'w \<Rightarrow> bool \<times> 'w"
  c_ftell :: "RealPtr \<Rightarrow> 'w \<Rightarrow> int \<times> 'w"
  fs_remove :: "string \<Rightarrow> 'w \<Rightarrow> bool \<times> 'w"

text \<open>The fields of \<open>stdio\<close> that \<open>Paths\<close> uses.\<close>

definition fs_of :: "'w stdio \<Rightarrow> 'w host_fs" where
  "fs_of io = \<lparr>fs_exists = fs_exists io, create_directories = create_directories io\<rparr>"

text \<open>The part of the emulator the file calls act on.\<close>

record 'w files_state =
  fs_paths :: paths
  fs_files :: vfiles
  fs_mm :: MemoryManager
  fs_world :: 'w

definition map_vm ::
  "'w stdio \<Rightarrow> string option \<Rightarrow> 'w files_state \<Rightarrow> (string \<times> 'w files_state) option" where
  "map_vm io name s =
     map_option (\<lambda>(p, st, w). (p, s\<lparr>fs_paths := st, fs_world := w\<rparr>))
       (MapVMPathToHost (fs_of io) name (fs_paths s, fs_world s))"

section \<open>Strings in guest memory\<close>

text \<open>A UTF-16 string ends at its null unit or where the address space ends.\<close>

function read_wstr :: "hmemory \<Rightarrow> RealPtr \<Rightarrow> u16 list" where
  "read_wstr h p =
     (let c = ucast (load_le 2 h p)
      in if c = 0 \<or> unat p + 3 \<ge> 2 ^ 64 then [] else c # read_wstr h (p + 2))"
  by pat_completeness auto
termination
proof (relation "measure (\<lambda>(h, p). 2 ^ 64 - unat p)")
  fix h :: hmemory and p :: RealPtr and x :: u16
  assume "\<not> (x = 0 \<or> unat p + 3 \<ge> 2 ^ 64)"
  then have "unat (p + of_nat 2) = unat p + 2" by (intro unat_add_of_nat) simp
  then show "((h, p + 2), h, p) \<in> measure (\<lambda>(h, p). 2 ^ 64 - unat p)"
    using unat64_lt [of p] by simp
qed simp

declare read_wstr.simps [simp del]

definition guest_wstr :: "MemoryManager \<Rightarrow> VirtPtr \<Rightarrow> u16 list option" where
  "guest_wstr m a =
     (let p = GetRealAddr m a in if p = 0 then None else Some (read_wstr (hmem m) p))"

section \<open>Opening\<close>

text \<open>\<open>fs::path::parent_path\<close> of a path below \<open>prime_data\<close>: no root to keep.\<close>

definition parent_path :: "string \<Rightarrow> string" where
  "parent_path p = rev (dropWhile is_sep (dropWhile (\<lambda>c. \<not> is_sep c) (rev p)))"

definition ensure_parent_dirs_for_hostpath :: "'w stdio \<Rightarrow> string \<Rightarrow> 'w \<Rightarrow> 'w" where
  "ensure_parent_dirs_for_hostpath io p w =
     (let d = parent_path p
      in if d = [] then w
         else case fs_exists io d w of
                Some False \<Rightarrow> (case create_directories io d w of None \<Rightarrow> w | Some w' \<Rightarrow> w')
              | _ \<Rightarrow> w)"

text \<open>The open with its retry in binary mode, and the new table entry.\<close>

definition open_retry ::
  "'w stdio \<Rightarrow> string \<Rightarrow> string \<Rightarrow> 'w \<Rightarrow> RealPtr \<times> string \<times> 'w" where
  "open_retry io p mode w =
     (let (f, w1) = c_fopen io p mode w
      in if f \<noteq> 0 \<or> CHR ''b'' \<in> set mode then (f, mode, w1)
         else let (f2, w2) = c_fopen io p (mode @ ''b'') w1
              in (f2, if f2 \<noteq> 0 then mode @ ''b'' else mode, w2))"

definition new_handle :: "VFile \<Rightarrow> vfiles \<Rightarrow> u32 \<times> vfiles" where
  "new_handle v t =
     (g_next_handle t,
      \<lparr>g_vfile_table = um_set (g_next_handle t) v (g_vfile_table t),
       g_next_handle = g_next_handle t + 1\<rparr>)"

definition open_mapped ::
  "'w stdio \<Rightarrow> string \<Rightarrow> string \<Rightarrow> 'w files_state \<Rightarrow> u32 \<times> 'w files_state" where
  "open_mapped io p mode s =
     (let (f, mode', w) = open_retry io p mode (fs_world s); s = s\<lparr>fs_world := w\<rparr>
      in if f = 0 then (0, s)
         else let (h, t) = new_handle \<lparr>vf_fp = f, vf_hostPath = p, vf_mode = mode'\<rparr> (fs_files s)
              in (h, s\<lparr>fs_files := t\<rparr>))"

definition OpenFile ::
  "'w stdio \<Rightarrow> SystemServiceArguments \<Rightarrow> 'w files_state \<Rightarrow> (u32 \<times> 'w files_state) option" where
  "OpenFile io args s0 =
     (let (st, w) = call_once_init (fs_of io) (fs_paths s0, fs_world s0);
          s = s0\<lparr>fs_paths := st, fs_world := w\<rparr>
      in case guest_cstr (fs_mm s) (r0 args) of
           None \<Rightarrow> Some (0, s)
         | Some vmname \<Rightarrow>
             let mode = (case guest_cstr (fs_mm s) (r1 args) of Some f \<Rightarrow> f | None \<Rightarrow> ''rb'')
             in case map_vm io (Some vmname) s of
                  None \<Rightarrow> None
                | Some (p, s) \<Rightarrow>
                    let s = (if CHR ''w'' \<in> set mode \<or> CHR ''a'' \<in> set mode \<or> CHR ''x'' \<in> set mode
                             then s\<lparr>fs_world := ensure_parent_dirs_for_hostpath io p (fs_world s)\<rparr>
                             else s)
                    in Some (open_mapped io p mode s))"

text \<open>
  \<open>__wfopen\<close> first creates a missing file; closing the null stream of a failed creation is undefined.
\<close>

definition create_missing :: "'w stdio \<Rightarrow> string \<Rightarrow> 'w \<Rightarrow> 'w option" where
  "create_missing io p w =
     (case fs_exists io p w of
        None \<Rightarrow> None
      | Some True \<Rightarrow> Some w
      | Some False \<Rightarrow>
          let (f, w') = c_fopen io p ''w'' w in if f = 0 then None else Some (c_fclose io f w'))"

definition wfopen ::
  "'w stdio \<Rightarrow> SystemServiceArguments \<Rightarrow> 'w files_state \<Rightarrow> (u32 \<times> 'w files_state) option" where
  "wfopen io args s0 =
     (let (st, w) = call_once_init (fs_of io) (fs_paths s0, fs_world s0);
          s = s0\<lparr>fs_paths := st, fs_world := w\<rparr>
      in case MapVMPathToHostW (fs_of io) (guest_wstr (fs_mm s) (r0 args)) (fs_paths s, fs_world s) of
           None \<Rightarrow> None
         | Some (p, st, w) \<Rightarrow>
             let s = s\<lparr>fs_paths := st, fs_world := w\<rparr>
             in case (case guest_wstr (fs_mm s) (r1 args) of
                        Some f \<Rightarrow> wstr_to_utf8 f | None \<Rightarrow> Some ''rb'') of
                  None \<Rightarrow> None
                | Some mode \<Rightarrow>
                    let w = (if CHR ''w'' \<in> set mode \<or> CHR ''a'' \<in> set mode
                             then ensure_parent_dirs_for_hostpath io p (fs_world s) else fs_world s)
                    in case create_missing io p w of
                         None \<Rightarrow> None
                       | Some w \<Rightarrow> Some (open_mapped io p mode (s\<lparr>fs_world := w\<rparr>)))"

section \<open>Using a handle\<close>

text \<open>The lookup every call starts with: the stream of a known handle that is not null.\<close>

definition stream_of :: "u32 \<Rightarrow> vfiles \<Rightarrow> RealPtr option" where
  "stream_of h t =
     (case map_of (g_vfile_table t) h of
        None \<Rightarrow> None
      | Some v \<Rightarrow> if vf_fp v = 0 then None else Some (vf_fp v))"

definition CloseFile ::
  "'w stdio \<Rightarrow> SystemServiceArguments \<Rightarrow> 'w files_state \<Rightarrow> u32 \<times> 'w files_state" where
  "CloseFile io args s =
     (case map_of (g_vfile_table (fs_files s)) (r0 args) of
        None \<Rightarrow> (0, s)
      | Some v \<Rightarrow>
          (1, if vf_fp v \<noteq> 0 then s\<lparr>fs_world := c_fclose io (vf_fp v) (fs_world s)\<rparr> else s))"

definition fclose ::
  "'w stdio \<Rightarrow> SystemServiceArguments \<Rightarrow> 'w files_state \<Rightarrow> u32 \<times> 'w files_state" where
  "fclose io args s =
     (if r0 args = 0 then (0, s)
      else case map_of (g_vfile_table (fs_files s)) (r0 args) of
             None \<Rightarrow> (0, s)
           | Some v \<Rightarrow>
               (1, if vf_fp v \<noteq> 0 then
                     s\<lparr>fs_world := c_fclose io (vf_fp v) (fs_world s),
                       fs_files := (fs_files s)\<lparr>g_vfile_table :=
                         um_set (r0 args) (v\<lparr>vf_fp := 0\<rparr>) (g_vfile_table (fs_files s))\<rparr>\<rparr>
                   else s))"

text \<open>\<open>fread(dest, 1, size, f)\<close>: the bytes land in guest memory.\<close>

definition read_into ::
  "'w stdio \<Rightarrow> RealPtr \<Rightarrow> VirtPtr \<Rightarrow> u32 \<Rightarrow> 'w files_state \<Rightarrow> u32 \<times> 'w files_state" where
  "read_into io f dst n s =
     (let p = GetRealAddr (fs_mm s) dst
      in if p = 0 then (0, s)
         else let (bs, w) = c_fread io f (unat n) (fs_world s)
              in (of_nat (length bs),
                  s\<lparr>fs_world := w,
                    fs_mm := (fs_mm s)\<lparr>hmem := store_bytes (hmem (fs_mm s)) p bs\<rparr>\<rparr>))"

definition ReadFile ::
  "'w stdio \<Rightarrow> SystemServiceArguments \<Rightarrow> 'w files_state \<Rightarrow> u32 \<times> 'w files_state" where
  "ReadFile io args s =
     (case stream_of (r0 args) (fs_files s) of
        None \<Rightarrow> (0, s)
      | Some f \<Rightarrow> read_into io f (r1 args) (r2 args) s)"

text \<open>\<open>_fread\<close>; a failed read that is not the end of the file clears the error flag.\<close>

definition fread ::
  "'w stdio \<Rightarrow> SystemServiceArguments \<Rightarrow> 'w files_state \<Rightarrow> u32 \<times> 'w files_state" where
  "fread io args s =
     (let n = r1 args * r2 args
      in if r3 args = 0 \<or> n = 0 then (0, s)
         else case stream_of (r3 args) (fs_files s) of
                None \<Rightarrow> (0, s)
              | Some f \<Rightarrow>
                  let (k, s') = read_into io f (r0 args) n s
                  in if GetRealAddr (fs_mm s) (r0 args) \<noteq> 0 \<and> k = 0
                     then (k, s'\<lparr>fs_world := c_clearerr io f (fs_world s')\<rparr>) else (k, s'))"

text \<open>\<open>fwrite(src, 1, size, f)\<close> of guest bytes; \<open>_fwrite\<close> flushes only if something was written.\<close>

definition write_from ::
  "'w stdio \<Rightarrow> bool \<Rightarrow> RealPtr \<Rightarrow> VirtPtr \<Rightarrow> u32 \<Rightarrow> 'w files_state \<Rightarrow> u32 \<times> 'w files_state" where
  "write_from io always_flush f src n s =
     (let p = GetRealAddr (fs_mm s) src
      in if p = 0 then (0, s)
         else let (k, w) = c_fwrite io f (map (\<lambda>i. hmem (fs_mm s) (p + of_nat i)) [0..<unat n]) (fs_world s)
              in (of_nat k, s\<lparr>fs_world := if always_flush \<or> k > 0 then c_fflush io f w else w\<rparr>))"

definition WriteFile ::
  "'w stdio \<Rightarrow> SystemServiceArguments \<Rightarrow> 'w files_state \<Rightarrow> u32 \<times> 'w files_state" where
  "WriteFile io args s =
     (case stream_of (r0 args) (fs_files s) of
        None \<Rightarrow> (0, s)
      | Some f \<Rightarrow> write_from io True f (r1 args) (r2 args) s)"

definition fwrite ::
  "'w stdio \<Rightarrow> SystemServiceArguments \<Rightarrow> 'w files_state \<Rightarrow> u32 \<times> 'w files_state" where
  "fwrite io args s =
     (let n = r1 args * r2 args
      in if r3 args = 0 \<or> n = 0 then (0, s)
         else case stream_of (r3 args) (fs_files s) of
                None \<Rightarrow> (0, s)
              | Some f \<Rightarrow> write_from io False f (r0 args) n s)"

definition SeekFile ::
  "'w stdio \<Rightarrow> SystemServiceArguments \<Rightarrow> 'w files_state \<Rightarrow> u32 \<times> 'w files_state" where
  "SeekFile io args s =
     (case stream_of (r0 args) (fs_files s) of
        None \<Rightarrow> (1, s)
      | Some f \<Rightarrow>
          let origin = sint (r2 args); whence = (if origin = 1 then 1 else if origin = 2 then 2 else 0);
              (ok, w) = c_fseek io f (sint (r1 args)) whence (fs_world s)
          in (if ok then 0 else 1, s\<lparr>fs_world := w\<rparr>))"

text \<open>The size of a file, by seeking to its end and back: \<open>(size, position)\<close> or failure.\<close>

definition get_file_size_preserve_pos :: "'w stdio \<Rightarrow> RealPtr \<Rightarrow> 'w \<Rightarrow> (int \<times> int) option \<times> 'w" where
  "get_file_size_preserve_pos io f w0 =
     (let (cur, w1) = c_ftell io f w0
      in if cur = -1 then (None, w1)
         else let (ok, w2) = c_fseek io f 0 2 w1
              in if \<not> ok then (None, snd (c_fseek io f cur 0 w2))
                 else let (n, w3) = c_ftell io f w2; w4 = snd (c_fseek io f cur 0 w3)
                      in if n = -1 then (None, w4) else (Some (n, cur), w4))"

definition filesize ::
  "'w stdio \<Rightarrow> SystemServiceArguments \<Rightarrow> 'w files_state \<Rightarrow> u32 \<times> 'w files_state" where
  "filesize io args s =
     (if r0 args = 0 then (0, s)
      else case stream_of (r0 args) (fs_files s) of
             None \<Rightarrow> (0, s)
           | Some f \<Rightarrow>
               let (r, w) = get_file_size_preserve_pos io f (fs_world s); s = s\<lparr>fs_world := w\<rparr>
               in case r of
                    None \<Rightarrow> (0, s)
                  | Some (n, _) \<Rightarrow> (if n mod 2 ^ 64 > 0xFFFFFFFF then 0xFFFFFFFF else of_int n, s))"

section \<open>Removing files\<close>

definition aremove ::
  "'w stdio \<Rightarrow> SystemServiceArguments \<Rightarrow> 'w files_state \<Rightarrow> (u32 \<times> 'w files_state) option" where
  "aremove io args s =
     (case guest_cstr (fs_mm s) (r0 args) of
        None \<Rightarrow> Some (- 1, s)
      | Some v \<Rightarrow>
          (case map_vm io (Some v) s of
             None \<Rightarrow> None
           | Some (p, s) \<Rightarrow>
               let (ok, w) = fs_remove io p (fs_world s)
               in Some (if ok then 0 else - 1, s\<lparr>fs_world := w\<rparr>)))"

definition wremove ::
  "'w stdio \<Rightarrow> SystemServiceArguments \<Rightarrow> 'w files_state \<Rightarrow> (u32 \<times> 'w files_state) option" where
  "wremove io args s =
     (case guest_wstr (fs_mm s) (r0 args) of
        None \<Rightarrow> Some (- 1, s)
      | Some ws \<Rightarrow>
          (case MapVMPathToHostW (fs_of io) (Some ws) (fs_paths s, fs_world s) of
             None \<Rightarrow> None
           | Some (p, st, w) \<Rightarrow>
               let (ok, w) = fs_remove io p w
               in Some (if ok then 0 else - 1, s\<lparr>fs_paths := st, fs_world := w\<rparr>)))"

end
