(* ===== verification/PathProps.thy ===== *)
theory PathProps
  imports Paths
begin

text \<open>
  The virtual drives: slashes are normalised, directory calls keep the working directories
  well-formed, names without \<open>..\<close> never leave \<open>prime_data\<close>, and changing into a directory is the same
  as naming it.
\<close>

section \<open>Slashes\<close>

fun no_double :: "string \<Rightarrow> bool" where
  "no_double [] \<longleftrightarrow> True"
| "no_double (c # s) \<longleftrightarrow> \<not> (c = bsl \<and> s \<noteq> [] \<and> hd s = bsl) \<and> no_double s"

definition slash_normal :: "string \<Rightarrow> bool" where
  "slash_normal s \<longleftrightarrow> CHR ''/'' \<notin> set s \<and> no_double s"

lemma squash_hd: "squash True s \<noteq> [] \<Longrightarrow> hd (squash True s) \<noteq> bsl"
  by (induction s) (auto split: if_splits)

lemma squash_no_double: "no_double (squash b s)"
  using squash_hd by (induction b s rule: squash.induct) auto

lemma squash_set: "set (squash b s) \<subseteq> set s"
  by (induction b s rule: squash.induct) (auto split: if_splits)

lemma squash_id: "no_double s \<Longrightarrow> \<not> (b \<and> s \<noteq> [] \<and> hd s = bsl) \<Longrightarrow> squash b s = s"
  by (induction b s rule: squash.induct) auto

lemma normalize_slash_normal: "slash_normal (normalize_slashes s)"
  using squash_set [of False "map (\<lambda>c. if c = CHR ''/'' then bsl else c) s"]
  by (auto simp: slash_normal_def normalize_slashes_def squash_no_double split: if_splits)

lemma normalize_id:
  assumes "slash_normal s"
  shows "normalize_slashes s = s"
proof -
  have "map (\<lambda>c. if c = CHR ''/'' then bsl else c) s = s"
    using assms by (intro map_idI) (auto simp: slash_normal_def)
  then show ?thesis using assms by (simp add: normalize_slashes_def slash_normal_def squash_id)
qed

section \<open>Components\<close>

abbreviation "comps \<equiv> path_comps []"

lemma path_comps_nonempty [simp]: "path_comps cur s \<noteq> []"
  by (induction cur s rule: path_comps.induct) auto

lemma path_comps_append_sep:
  assumes "is_sep c"
  shows "path_comps cur (a @ c # b) = path_comps cur a @ comps b"
proof (induction a arbitrary: cur)
  case Nil
  show ?case by (simp add: assms)
next
  case (Cons d a)
  then show ?case by simp
qed

lemma path_comps_no_sep:
  "d \<in> set (path_comps cur s) \<Longrightarrow> \<forall>c\<in>set cur. \<not> is_sep c \<Longrightarrow> \<forall>c\<in>set d. \<not> is_sep c"
  by (induction cur s rule: path_comps.induct) (auto split: if_splits)

lemma path_comps_word: "\<forall>c\<in>set s. \<not> is_sep c \<Longrightarrow> path_comps cur s = [cur @ s]"
  by (induction cur s rule: path_comps.induct) auto

lemma comps_join:
  "cs \<noteq> [] \<Longrightarrow> \<forall>d\<in>set cs. \<forall>c\<in>set d. \<not> is_sep c \<Longrightarrow> comps (join_comps cs) = cs"
proof (induction cs rule: join_comps.induct)
  case (3 c d cs)
  then show ?case using path_comps_append_sep [of bsl "[]" c "join_comps (d # cs)"] path_comps_word [of c "[]"]
    by simp
qed (simp_all add: path_comps_word)

lemma path_comps_map: "path_comps cur (map (\<lambda>c. if c = CHR ''/'' then bsl else c) s) = path_comps cur s"
  by (induction cur s rule: path_comps.induct) auto

lemma path_comps_squash:
  "(b \<Longrightarrow> cur = []) \<Longrightarrow> set (path_comps cur (squash b s)) \<subseteq> set (path_comps cur s) \<union> {[]}"
proof (induction s arbitrary: b cur)
  case Nil
  then show ?case by simp
next
  case (Cons c s)
  show ?case
  proof (cases "c = bsl")
    case True
    then show ?thesis using Cons(1) [of True "[]"] Cons(2) by (cases b) auto
  next
    case False
    then show ?thesis using Cons(1) [of False "cur @ [c]"] Cons(1) [of False "[]"] by auto
  qed
qed

section \<open>Below \<open>prime_data\<close>\<close>

definition prime_data :: string where
  "prime_data = ''prime_data'' @ [bsl]"

definition up_free :: "string \<Rightarrow> bool" where
  "up_free s \<longleftrightarrow> ''..'' \<notin> set (comps s)"

definition below :: "string \<Rightarrow> bool" where
  "below p \<longleftrightarrow> (\<exists>r. p = prime_data @ r \<and> up_free r)"

lemma up_free_append:
  assumes "a = [] \<or> is_sep (last a)" "up_free a" "up_free b"
  shows "up_free (a @ b)"
proof (cases "a = []")
  case False
  then obtain a' c where "a = a' @ [c]" "is_sep c" using assms(1) by (metis append_butlast_last_id)
  then show ?thesis
    using assms(2,3) path_comps_append_sep [of c "[]" a' b] path_comps_append_sep [of c "[]" a' "[]"]
    by (simp add: up_free_def)
qed (use assms in simp)

lemma below_append:
  assumes "below p" "is_sep (last p)" "up_free s"
  shows "below (p @ s)"
proof -
  obtain r where r: "p = prime_data @ r" "up_free r" using assms(1) by (auto simp: below_def)
  then have "r = [] \<or> is_sep (last r)" using assms(2) by (cases "r = []") auto
  then have "up_free (r @ s)" using r assms(3) up_free_append by blast
  then show ?thesis using r by (auto simp: below_def)
qed

lemma below_normalize:
  assumes "below p"
  shows "below (normalize_slashes p)"
proof -
  obtain r where r: "p = prime_data @ r" "up_free r" using assms by (auto simp: below_def)
  let ?m = "\<lambda>s. map (\<lambda>c. if c = CHR ''/'' then bsl else c) s"
  have "normalize_slashes p = prime_data @ squash True (?m r)"
    by (simp add: r normalize_slashes_def prime_data_def)
  moreover have "up_free (squash True (?m r))"
    using r(2) path_comps_squash [of True "[]" "?m r"] by (auto simp: up_free_def path_comps_map)
  ultimately show ?thesis by (auto simp: below_def)
qed

lemma norm_steps_up_free:
  "''..'' \<notin> set cs \<Longrightarrow> foldl (norm_step r) st cs = rev (filter (\<lambda>c. c \<noteq> '''' \<and> c \<noteq> ''.'') cs) @ st"
  by (induction cs arbitrary: st) (auto simp: norm_step_def)

lemma below_lexically_normal:
  assumes "below p"
  shows "below (lexically_normal p)"
proof -
  obtain r where r: "p = prime_data @ r" "up_free r" using assms by (auto simp: below_def)
  define F where "F = filter (\<lambda>c. c \<noteq> '''' \<and> c \<noteq> ''.'') (comps r)"
  define tr where "tr \<longleftrightarrow> last (comps r) \<in> {'''', ''.'', ''..''}"
  have up: "''..'' \<notin> set (comps r)" using r(2) by (simp add: up_free_def)
  have root: "split_root_name p = ([], p)"
    by (simp add: r(1) prime_data_def split_root_name_def)
  have c: "comps p = ''prime_data'' # comps r"
    by (simp add: r(1) prime_data_def is_sep_def)
  have st: "foldl (norm_step False) [] (comps p) = rev F @ [''prime_data'']"
    using norm_steps_up_free [OF up] by (simp add: c F_def norm_step_def)
  have last: "last (comps p) = last (comps r)" by (simp add: c)
  have pne: "p \<noteq> []" "\<not> is_sep (hd p)" by (simp_all add: r(1) prime_data_def is_sep_def)
  have hd: "hd (rev F @ [''prime_data'']) \<noteq> ''..''"
  proof (cases "rev F")
    case (Cons d G)
    then have "d \<in> set F" by (metis list.set_intros(1) set_rev)
    then show ?thesis using up Cons by (auto simp: F_def)
  qed simp
  have L: "lexically_normal p = join_comps (''prime_data'' # F) @ (if tr then [bsl] else [])"
    using pne hd last
    unfolding lexically_normal_def Let_def root by (simp add: st tr_def)
  show ?thesis
  proof (cases "F = []")
    case True
    have "last (comps r) \<in> set (comps r)" by simp
    then have "last (comps r) = '''' \<or> last (comps r) = ''.''"
      using True unfolding F_def filter_empty_conv by blast
    then have tr unfolding tr_def by blast
    then have "lexically_normal p = prime_data @ []" using True L by (simp add: prime_data_def)
    moreover have "up_free []" by (simp add: up_free_def)
    ultimately show ?thesis unfolding below_def by blast
  next
    case False
    have J: "comps (join_comps F) = F"
      using False path_comps_no_sep [of _ "[]" r] by (intro comps_join) (auto simp: F_def)
    have "comps (join_comps F @ (if tr then [bsl] else [])) = F @ (if tr then [[]] else [])"
      using J path_comps_append_sep [of bsl "[]" "join_comps F" "[]"] by simp
    moreover have "''..'' \<notin> set F" using up by (simp add: F_def)
    ultimately have "up_free (join_comps F @ (if tr then [bsl] else []))"
      by (auto simp: up_free_def)
    moreover have "lexically_normal p = prime_data @ (join_comps F @ (if tr then [bsl] else []))"
      using False L by (cases F) (simp_all add: prime_data_def)
    ultimately show ?thesis unfolding below_def by blast
  qed
qed

section \<open>The invariant of the drives\<close>

text \<open>
  Every working directory is below \<open>prime_data\<close>, slash-normal and ends in a separator; the current
  drive is a letter.
\<close>

definition cwd_ok :: "string \<Rightarrow> bool" where
  "cwd_ok c \<longleftrightarrow> below c \<and> slash_normal c \<and> last c = bsl"

definition is_drive :: "char \<Rightarrow> bool" where
  "is_drive d \<longleftrightarrow> CHR ''A'' \<le> d \<and> d \<le> CHR ''Z''"

definition paths_ok :: "paths \<Rightarrow> bool" where
  "paths_ok st \<longleftrightarrow> is_drive (g_currentDrive st)
     \<and> (g_init_flag st \<longrightarrow> length (g_cwds st) = 26 \<and> (\<forall>c\<in>set (g_cwds st). cwd_ok c))"

text \<open>Two hosts agree below \<open>prime_data\<close>.\<close>

definition agree :: "'w host_fs \<Rightarrow> 'w host_fs \<Rightarrow> bool" where
  "agree fs fs' \<longleftrightarrow> (\<forall>p. below p \<longrightarrow>
     fs_exists fs p = fs_exists fs' p \<and> create_directories fs p = create_directories fs' p)"

text \<open>A guest name whose drive is a letter and that has no \<open>..\<close> component.\<close>

definition tame :: "string \<Rightarrow> bool" where
  "tame s \<longleftrightarrow> (has_drive s \<longrightarrow> is_drive_letter (hd s)) \<and> up_free (if has_drive s then drop 2 s else s)"

lemma drive_index_lt: "is_drive d \<Longrightarrow> \<exists>i < 26. drive_index d = Some i"
  by (auto simp: is_drive_def drive_index_def less_eq_char_def)

lemma cwd_of_ok:
  assumes "paths_ok st" "g_init_flag st" "is_drive d"
  shows "\<exists>c. cwd_of st d = Some c \<and> cwd_ok c"
  using assms drive_index_lt [of d] by (auto simp: paths_ok_def cwd_of_def)

lemma set_cwd_ok:
  assumes "paths_ok st" "g_init_flag st" "is_drive d" "cwd_ok c"
  shows "\<exists>st'. set_cwd d c st = Some st' \<and> paths_ok (st'\<lparr>g_currentDrive := d\<rparr>)
    \<and> g_init_flag st' = g_init_flag st"
  using assms drive_index_lt [of d]
  by (auto simp: paths_ok_def set_cwd_def dest!: set_update_subset_insert [THEN subsetD])

lemma drive_root_below:
  assumes "is_drive d"
  shows "below (drive_root d)" "last (drive_root d) = bsl" "slash_normal (drive_root d)"
proof -
  have s: "\<not> is_sep d" "d \<noteq> CHR ''.''" "d \<noteq> CHR ''/''" "d \<noteq> bsl"
    using assms by (auto simp: is_drive_def is_sep_def less_eq_char_def)
  have "up_free [d, bsl]" using s by (simp add: up_free_def)
  then show "below (drive_root d)" unfolding below_def drive_root_def prime_data_def
    by (intro exI [of _ "[d, bsl]"]) simp
  show "last (drive_root d) = bsl" by (simp add: drive_root_def)
  show "slash_normal (drive_root d)" using s by (simp add: drive_root_def slash_normal_def)
qed

lemma drive_char_drive: "i < 26 \<Longrightarrow> is_drive (drive_char i)"
  by (simp add: is_drive_def drive_char_def less_eq_char_def)

lemma try_mkdirs_agree: "agree fs fs' \<Longrightarrow> below p \<Longrightarrow> try_mkdirs fs p = try_mkdirs fs' p"
  by (intro ext) (simp add: try_mkdirs_def agree_def)

lemma call_once_agree:
  assumes "agree fs fs'"
  shows "call_once_init fs s = call_once_init fs' s"
proof -
  have "foldl (\<lambda>w i. try_mkdirs fs (drive_root (drive_char i)) w) w is
      = foldl (\<lambda>w i. try_mkdirs fs' (drive_root (drive_char i)) w) w is"
    if "\<forall>i\<in>set is. i < 26" for w "is"
    using that
    by (induction "is" arbitrary: w)
      (auto simp: try_mkdirs_agree [OF assms drive_root_below(1) [OF drive_char_drive]])
  then show ?thesis
    by (simp add: call_once_init_def ensure_prime_drive_roots_initialized_def split_beta)
qed

lemma call_once_ok:
  assumes "paths_ok st" "call_once_init fs (st, w) = (st', w')"
  shows "paths_ok st'" "g_init_flag st'"
  using assms drive_root_below [OF drive_char_drive]
  by (auto simp: call_once_init_def ensure_prime_drive_roots_initialized_def paths_ok_def cwd_ok_def
      split: if_splits)

section \<open>Mapping and changing directories\<close>

lemma up_free_drop_sep: "up_free s \<Longrightarrow> up_free (drop_sep s)"
  by (cases s) (auto simp: drop_sep_def up_free_def split: if_splits)

lemma up_free_dropWhile_sep: "up_free s \<Longrightarrow> up_free (dropWhile is_sep s)"
  by (induction s) (auto simp: up_free_def)

lemma is_drive_toupper: "is_drive_letter c \<Longrightarrow> is_drive (toupper c)"
  by (simp add: is_drive_letter_def is_drive_def)

lemma bsl_sep_last: "last c = bsl \<Longrightarrow> is_sep (last c)"
  by simp

lemma map_path_below:
  assumes "paths_ok st" "g_init_flag st" "tame s"
  shows "\<exists>p. map_path st s = Some p \<and> below p \<and> slash_normal p"
proof -
  obtain c where c: "cwd_of st (g_currentDrive st) = Some c" "cwd_ok c"
    using cwd_of_ok [OF assms(1,2)] assms(1) by (auto simp: paths_ok_def)
  then have b: "below c" "is_sep (last c)" by (auto simp: cwd_ok_def)
  show ?thesis
  proof (cases "has_drive s")
    case True
    then have d: "is_drive (toupper (hd s))" "up_free (drop_sep (drop 2 s))"
      using assms(3) by (auto simp: tame_def is_drive_toupper intro: up_free_drop_sep)
    have "below (drive_root (toupper (hd s)) @ drop_sep (drop 2 s))"
      using drive_root_below(1,2) [OF d(1)] d(2) by (intro below_append) auto
    then show ?thesis
      using True by (simp add: map_path_def below_normalize normalize_slash_normal)
  next
    case False
    then have "up_free s" using assms(3) by (simp add: tame_def)
    then have "below (c @ dropWhile is_sep s)" "below (c @ s)"
      using b up_free_dropWhile_sep by (auto intro: below_append)
    then show ?thesis
      using False c(1)
      by (auto simp: map_path_def below_normalize below_lexically_normal normalize_slash_normal)
  qed
qed

lemma MapVMPathToHost_below:
  assumes "paths_ok st" "\<And>v. name = Some v \<Longrightarrow> tame (unquote (trim v))"
  shows "\<exists>p st' w'. MapVMPathToHost fs name (st, w) = Some (p, st', w') \<and> below p \<and> slash_normal p
    \<and> paths_ok st'"
proof -
  obtain st1 w1 where i: "call_once_init fs (st, w) = (st1, w1)" by fastforce
  note ok = call_once_ok [OF assms(1) i]
  obtain c where c: "cwd_of st1 (g_currentDrive st1) = Some c" "cwd_ok c"
    using cwd_of_ok [OF ok] ok(1) by (auto simp: paths_ok_def)
  show ?thesis
  proof (cases name)
    case None
    then show ?thesis
      using c ok by (simp add: MapVMPathToHost_def i cwd_ok_def below_normalize normalize_slash_normal)
  next
    case (Some v)
    then show ?thesis
      using map_path_below [OF ok assms(2) [OF Some]] ok by (auto simp: MapVMPathToHost_def i)
  qed
qed

lemma MapVMPathToHost_agree:
  "agree fs fs' \<Longrightarrow> MapVMPathToHost fs name s = MapVMPathToHost fs' name s"
  by (simp add: MapVMPathToHost_def call_once_agree)

lemma make_dir_agree: "agree fs fs' \<Longrightarrow> below p \<Longrightarrow> make_dir fs p w = make_dir fs' p w"
  by (auto simp: make_dir_def agree_def split: option.split bool.split)

text \<open>What \<open>_achdir\<close> stores: a normal path with exactly one separator at the end.\<close>

lemma no_double_snoc: "no_double s \<Longrightarrow> (s = [] \<or> last s \<noteq> bsl) \<Longrightarrow> no_double (s @ [bsl])"
  by (induction s) (auto simp: hd_append)

lemma squash_last: "s \<noteq> [] \<Longrightarrow> last s \<noteq> bsl \<Longrightarrow> squash b s \<noteq> [] \<and> last (squash b s) = last s"
  by (induction b s rule: squash.induct) (auto split: if_splits)

lemma squash_last_sep: "s \<noteq> [] \<Longrightarrow> last s = bsl \<Longrightarrow> b \<and> squash b s = [] \<or> squash b s \<noteq> [] \<and> last (squash b s) = bsl"
  by (induction b s rule: squash.induct) (auto split: if_splits)

lemma norm_steps_set: "set (foldl (norm_step r) st cs) \<subseteq> set st \<union> set cs"
proof (induction cs arbitrary: st)
  case (Cons c cs)
  have "set (norm_step r st c) \<subseteq> insert c (set st)" by (auto simp: norm_step_def split: list.split)
  then show ?case using Cons [of "norm_step r st c"] by auto
qed simp

lemma join_comps_set: "set (join_comps cs) \<subseteq> insert bsl (\<Union>c\<in>set cs. set c)"
  by (induction cs rule: join_comps.induct) auto

lemma lexically_normal_slash: "CHR ''/'' \<notin> set (lexically_normal p)"
proof -
  obtain root rest where rr: "split_root_name p = (root, rest)" by fastforce
  then have root: "CHR ''/'' \<notin> set root"
    by (auto simp: split_root_name_def is_drive_letter_def toupper_def less_eq_char_def
        split: list.splits if_splits)
  define st where "st = foldl (norm_step (rest \<noteq> [] \<and> is_sep (hd rest))) [] (comps rest)"
  have "set st \<subseteq> set (comps rest)"
    using norm_steps_set [of _ "[]" "comps rest"] by (simp add: st_def)
  moreover have "\<forall>d\<in>set (comps rest). CHR ''/'' \<notin> set d"
    using path_comps_no_sep [of _ "[]" rest] is_sep_simps(2) by (metis empty_iff list.set(1))
  ultimately have "CHR ''/'' \<notin> (\<Union>c\<in>set (rev st). set c)" by (simp add: subset_iff)
  then have "CHR ''/'' \<notin> set (join_comps (rev st))"
    using subsetD [OF join_comps_set [of "rev st"], of "CHR ''/''"] by (auto simp del: set_rev)
  then show ?thesis
    using root unfolding lexically_normal_def Let_def rr by (simp add: st_def [symmetric])
qed

lemma normalized_cwd:
  assumes "below q" "CHR ''/'' \<notin> set q"
  shows "cwd_ok (normalize_slashes q @ (if last q = bsl then [] else [bsl]))"
proof -
  have m: "map (\<lambda>c. if c = CHR ''/'' then bsl else c) q = q"
    using assms(2) by (intro map_idI) auto
  have ne: "q \<noteq> []" using assms(1) by (auto simp: below_def prime_data_def)
  have n: "normalize_slashes q = squash False q" by (simp add: normalize_slashes_def m)
  have b: "below (normalize_slashes q)" by (rule below_normalize [OF assms(1)])
  have s: "slash_normal (normalize_slashes q)" by (rule normalize_slash_normal)
  show ?thesis
  proof (cases "last q = bsl")
    case True
    then show ?thesis using squash_last_sep [OF ne True, of False] b s n by (simp add: cwd_ok_def)
  next
    case False
    have l: "last (normalize_slashes q) \<noteq> bsl" using squash_last [OF ne False, of False] n False by simp
    have "below (normalize_slashes q @ [bsl])"
    proof -
      obtain r where r: "normalize_slashes q = prime_data @ r" "up_free r"
        using b by (auto simp: below_def)
      have "up_free (r @ [bsl])"
        using r(2) path_comps_append_sep [of bsl "[]" r "[]"] by (simp add: up_free_def)
      then show ?thesis using r(1) by (auto simp: below_def)
    qed
    moreover have "slash_normal (normalize_slashes q @ [bsl])"
      using s l no_double_snoc by (auto simp: slash_normal_def)
    ultimately show ?thesis using False by (simp add: cwd_ok_def)
  qed
qed

lemma enter_dir_ok:
  assumes "paths_ok st" "g_init_flag st" "is_drive d" "below m" "agree fs fs'"
  shows "\<exists>r st' w'. enter_dir fs d m (st, w) = Some (r, st', w') \<and> paths_ok st'
    \<and> enter_dir fs' d m (st, w) = enter_dir fs d m (st, w)"
proof -
  define q where "q = lexically_normal m"
  define c where "c = normalize_slashes q @ (if last q = bsl then [] else [bsl])"
  have q: "below q" by (simp add: q_def below_lexically_normal assms(4))
  have e: "create_directories fs' q = create_directories fs q" using assms(5) q by (simp add: agree_def)
  have "cwd_ok c" using normalized_cwd [OF q] lexically_normal_slash by (simp add: c_def q_def)
  from set_cwd_ok [OF assms(1-3) this] obtain st' where
    "set_cwd d c st = Some st'" "paths_ok (st'\<lparr>g_currentDrive := d\<rparr>)" by blast
  then show ?thesis
    using assms(1) e by (cases "create_directories fs q w")
      (auto simp: enter_dir_def Let_def q_def [symmetric] c_def [symmetric])
qed

lemma chdir_to_ok:
  assumes "paths_ok st" "g_init_flag st" "tame s" "agree fs fs'"
  shows "\<exists>r st' w'. chdir_to fs s (st, w) = Some (r, st', w') \<and> paths_ok st'
    \<and> chdir_to fs' s (st, w) = chdir_to fs s (st, w)"
proof (cases "has_drive s")
  case True
  then have d: "is_drive (toupper (hd s))" "up_free (drop_sep (drop 2 s))"
    using assms(3) by (auto simp: tame_def is_drive_toupper intro: up_free_drop_sep)
  have "below (drive_root (toupper (hd s)) @ drop_sep (drop 2 s))"
    using drive_root_below(1,2) [OF d(1)] d(2) by (intro below_append) auto
  from enter_dir_ok [OF assms(1,2) d(1) this assms(4), of w] show ?thesis
    using True assms(1) d(1) by (auto simp: chdir_to_def paths_ok_def)
next
  case False
  obtain c where c: "cwd_of st (g_currentDrive st) = Some c" "cwd_ok c" "is_drive (g_currentDrive st)"
    using cwd_of_ok [OF assms(1,2)] assms(1) by (auto simp: paths_ok_def)
  have "up_free s" using assms(3) False by (simp add: tame_def)
  then have "below (c @ (if s \<noteq> [] \<and> is_sep (hd s) then dropWhile is_sep s else s))"
    using c(2) up_free_dropWhile_sep by (auto simp: cwd_ok_def intro!: below_append)
  from enter_dir_ok [OF assms(1,2) c(3) this assms(4), of w] show ?thesis
    using False c(1) by (simp add: chdir_to_def)
qed

section \<open>Runs of directory calls\<close>

datatype path_call =
    Achdir "string option"
  | Wchdir "u16 list option"
  | Amkdir "string option"
  | Wmkdir "u16 list option"

fun path_call_step ::
  "'w host_fs \<Rightarrow> path_call \<Rightarrow> paths \<times> 'w \<Rightarrow> (u32 \<times> paths \<times> 'w) option" where
  "path_call_step fs (Achdir v) s = achdir fs v s"
| "path_call_step fs (Wchdir v) s = wchdir fs v s"
| "path_call_step fs (Amkdir v) s = amkdir fs v s"
| "path_call_step fs (Wmkdir v) s = wmkdir fs v s"

fun path_run ::
  "'w host_fs \<Rightarrow> path_call list \<Rightarrow> paths \<times> 'w \<Rightarrow> (u32 list \<times> paths \<times> 'w) option" where
  "path_run fs [] s = Some ([], s)"
| "path_run fs (c # cs) s =
     (case path_call_step fs c s of
        None \<Rightarrow> None
      | Some (r, s') \<Rightarrow> map_option (apfst (\<lambda>rs. r # rs)) (path_run fs cs s'))"

fun tame_call :: "path_call \<Rightarrow> bool" where
  "tame_call (Achdir v) = (case v of None \<Rightarrow> True | Some s \<Rightarrow> tame (trim s))"
| "tame_call (Wchdir v) =
     (case v of None \<Rightarrow> True | Some ws \<Rightarrow> tame (trim (map (\<lambda>c. char_of (unat c mod 256)) ws)))"
| "tame_call (Amkdir v) = (case v of None \<Rightarrow> True | Some s \<Rightarrow> tame (unquote (trim s)))"
| "tame_call (Wmkdir v) =
     (case v of None \<Rightarrow> True
      | Some ws \<Rightarrow>
          (case wstr_to_utf8 ws of None \<Rightarrow> True
           | Some s \<Rightarrow> tame (unquote (trim (takeWhile (\<lambda>c. c \<noteq> CHR 0x00) s)))))"

lemma mkdir_ok:
  assumes "paths_ok st" "agree fs fs'" "\<And>v. name = Some v \<Longrightarrow> tame (unquote (trim v))"
  shows "\<exists>p r st' w' w''. MapVMPathToHost fs name (st, w) = Some (p, st', w') \<and> make_dir fs p w' = (r, w'')
    \<and> MapVMPathToHost fs' name (st, w) = Some (p, st', w') \<and> make_dir fs' p w' = (r, w'') \<and> paths_ok st'"
proof -
  obtain p st' w' where m: "MapVMPathToHost fs name (st, w) = Some (p, st', w')" "below p" "paths_ok st'"
    using MapVMPathToHost_below [OF assms(1), of name fs w] assms(3) by blast
  obtain r w'' where "make_dir fs p w' = (r, w'')" by fastforce
  then show ?thesis
    using m MapVMPathToHost_agree [OF assms(2), of name "(st, w)"] make_dir_agree [OF assms(2) m(2), of w']
    by auto
qed

lemma path_call_step_ok:
  assumes "paths_ok st" "agree fs fs'" "tame_call c"
  shows "\<exists>r st' w'. path_call_step fs c (st, w) = Some (r, st', w') \<and> paths_ok st'
    \<and> path_call_step fs' c (st, w) = Some (r, st', w')"
proof -
  obtain st1 w1 where i: "call_once_init fs (st, w) = (st1, w1)" "call_once_init fs' (st, w) = (st1, w1)"
    using call_once_agree [OF assms(2), of "(st, w)"] by fastforce
  note ok = call_once_ok [OF assms(1) i(1)]
  show ?thesis
  proof (cases c)
    case (Achdir v)
    then show ?thesis using assms(3) ok chdir_to_ok [OF ok _ assms(2), of _ w1]
      by (cases v) (fastforce simp: achdir_def i)+
  next
    case (Wchdir v)
    then show ?thesis using assms(3) ok chdir_to_ok [OF ok _ assms(2), of _ w1]
      by (cases v) (fastforce simp: wchdir_def i)+
  next
    case (Amkdir v)
    with assms(3) have t: "\<And>s. v = Some s \<Longrightarrow> tame (unquote (trim s))" by simp
    show ?thesis
      using Amkdir mkdir_ok [OF ok(1) assms(2), of v w1, OF t] by (auto simp: amkdir_def i)
  next
    case (Wmkdir v)
    show ?thesis
    proof (cases "map_option wstr_to_utf8 v = Some None")
      case True
      then show ?thesis using Wmkdir ok by (simp add: wmkdir_def i)
    next
      case False
      define name where "name = (case v of None \<Rightarrow> None
        | Some ws \<Rightarrow> map_option (takeWhile (\<lambda>c. c \<noteq> CHR 0x00)) (wstr_to_utf8 ws))"
      have e: "MapVMPathToHostW f v s = MapVMPathToHost f name s" for f s
        using False by (auto simp: name_def MapVMPathToHostW_def split: option.split)
      have t: "\<And>s. name = Some s \<Longrightarrow> tame (unquote (trim s))"
        using assms(3) Wmkdir by (auto simp: name_def split: option.splits)
      show ?thesis
        using Wmkdir False mkdir_ok [OF ok(1) assms(2), of name w1, OF t] by (auto simp: wmkdir_def i e)
    qed
  qed
qed

section \<open>Properties\<close>

text \<open>
  C20. The guest stays below \<open>prime_data\<close>.  For names without \<open>..\<close> components, with letters for
  drives, every sequence of directory calls (\<open>_achdir\<close>, \<open>_wchdir\<close>, \<open>_amkdir\<close>, \<open>_wmkdir\<close>)
  returns, keeps the working directories well-formed, and depends on and changes the host only
  below \<open>prime_data\<close>: two hosts that agree there give the same results and the same final state.
\<close>

theorem directory_calls_contained:
  assumes "agree fs fs'" "paths_ok st" "list_all tame_call cs"
  shows "\<exists>rs st' w'. path_run fs cs (st, w) = Some (rs, st', w') \<and> paths_ok st'
    \<and> path_run fs' cs (st, w) = Some (rs, st', w')"
  using assms(2,3)
proof (induction cs arbitrary: st w)
  case (Cons c cs)
  obtain r st1 w1 where "path_call_step fs c (st, w) = Some (r, st1, w1)" "paths_ok st1"
    "path_call_step fs' c (st, w) = Some (r, st1, w1)"
    using path_call_step_ok [OF Cons(2) assms(1), of c w] Cons(3) by auto
  then show ?case using Cons(1) [of st1 w1] Cons(3) by auto
qed simp

definition demo_fs :: "string list host_fs" where
  "demo_fs = \<lparr>fs_exists = (\<lambda>p w. Some (p \<in> set w)), create_directories = (\<lambda>p w. Some (p # w))\<rparr>"

theorem directory_calls_contained_witness:
  "\<exists>rs st' w'. path_run demo_fs [Achdir (Some ''c:/games''), Amkdir (Some ''save'')] (sys_init paths_init, [])
     = Some (rs, st', w') \<and> paths_ok st'
    \<and> path_run demo_fs [Achdir (Some ''c:/games''), Amkdir (Some ''save'')] (sys_init paths_init, [])
     = Some (rs, st', w')"
proof (rule directory_calls_contained)
  show "agree demo_fs demo_fs" by (simp add: agree_def)
  show "paths_ok (sys_init paths_init)"
    by (simp add: paths_ok_def sys_init_def paths_init_def is_drive_def)
  show "list_all tame_call [Achdir (Some ''c:/games''), Amkdir (Some ''save'')]" by code_simp
qed

text \<open>
  C21. File names resolve below \<open>prime_data\<close>.  In a well-formed state a guest name without \<open>..\<close>
  components (or no name at all) is mapped, after trimming and unquoting, to a host path below
  \<open>prime_data\<close> that has no forward slash and no doubled separator.
\<close>

theorem mapping_contained:
  assumes "paths_ok st" "case name of None \<Rightarrow> True | Some v \<Rightarrow> tame (unquote (trim v))"
  shows "\<exists>p st' w'. MapVMPathToHost fs name (st, w) = Some (p, st', w') \<and> below p \<and> slash_normal p
    \<and> paths_ok st'"
  using assms by (intro MapVMPathToHost_below) auto

theorem mapping_contained_witness:
  "\<exists>p st' w'. MapVMPathToHost demo_fs (Some '' d:/a//b.txt '') (sys_init paths_init, []) = Some (p, st', w')
     \<and> below p \<and> slash_normal p \<and> paths_ok st'"
proof (rule mapping_contained)
  show "paths_ok (sys_init paths_init)"
    by (simp add: paths_ok_def sys_init_def paths_init_def is_drive_def)
  show "case Some '' d:/a//b.txt '' of None \<Rightarrow> True | Some v \<Rightarrow> tame (unquote (trim v))" by code_simp
qed

section \<open>Names made of plain words\<close>

text \<open>A plain word: no separator, colon, blank or quote, and not one of the special components.\<close>

definition word_name :: "string \<Rightarrow> bool" where
  "word_name c \<longleftrightarrow> c \<noteq> '''' \<and> c \<noteq> ''.'' \<and> c \<noteq> ''..''
     \<and> (\<forall>x\<in>set c. \<not> is_sep x \<and> x \<noteq> CHR '':'' \<and> \<not> isspace x \<and> \<not> is_quote x)"

abbreviation vm_path :: "char \<Rightarrow> string list \<Rightarrow> string" where
  "vm_path d ds \<equiv> [d, CHR '':'', bsl] @ join_comps ds"

lemma trim_id:
  assumes "s \<noteq> []" "\<not> isspace (hd s)" "\<not> isspace (last s)"
  shows "trim s = s"
proof -
  have "dropWhile isspace s = s" "dropWhile isspace (rev s) = rev s"
    using assms by (auto simp: dropWhile_eq_self_iff hd_rev)
  then show ?thesis by (simp add: trim_def)
qed

lemma unquote_id: "s \<noteq> [] \<Longrightarrow> \<not> is_quote (hd s) \<Longrightarrow> \<not> is_quote (last s) \<Longrightarrow> unquote s = s"
  by (simp add: unquote_def)

lemma join_comps_nonempty: "ds \<noteq> [] \<Longrightarrow> \<forall>d\<in>set ds. d \<noteq> [] \<Longrightarrow> join_comps ds \<noteq> []"
  by (induction ds rule: join_comps.induct) auto

lemma join_comps_hd:
  "ds \<noteq> [] \<Longrightarrow> \<forall>d\<in>set ds. d \<noteq> [] \<Longrightarrow> hd (join_comps ds) = hd (hd ds)"
  by (induction ds rule: join_comps.induct) auto

lemma join_comps_last:
  "ds \<noteq> [] \<Longrightarrow> \<forall>d\<in>set ds. d \<noteq> [] \<Longrightarrow> last (join_comps ds) = last (last ds)"
  by (induction ds rule: join_comps.induct) (auto simp: join_comps_nonempty)

lemma join_comps_snoc: "ds \<noteq> [] \<Longrightarrow> join_comps (ds @ [f]) = join_comps ds @ bsl # f"
  by (induction ds rule: join_comps.induct) auto

lemma join_comps_Cons: "ds \<noteq> [] \<Longrightarrow> join_comps (d # ds) = d @ bsl # join_comps ds"
  by (cases ds) auto

lemma no_double_append_sep:
  "no_double s \<Longrightarrow> s \<noteq> [] \<Longrightarrow> last s \<noteq> bsl \<Longrightarrow> no_double t \<Longrightarrow> t \<noteq> [] \<Longrightarrow> hd t \<noteq> bsl \<Longrightarrow> no_double (s @ bsl # t)"
  by (induction s) (auto simp: hd_append)

lemma no_double_word: "\<forall>c\<in>set s. \<not> is_sep c \<Longrightarrow> no_double s"
  by (induction s) (auto simp: is_sep_def)

definition part :: "string \<Rightarrow> bool" where
  "part c \<longleftrightarrow> c \<noteq> '''' \<and> c \<noteq> ''.'' \<and> c \<noteq> ''..'' \<and> (\<forall>x\<in>set c. \<not> is_sep x)"

lemma part_ends: "part c \<Longrightarrow> hd c \<noteq> bsl \<and> last c \<noteq> bsl"
  unfolding part_def by (metis hd_in_set is_sep_simps(1) last_in_set)

lemma slash_normal_join:
  "ds \<noteq> [] \<Longrightarrow> \<forall>d\<in>set ds. part d \<Longrightarrow> slash_normal (join_comps ds)"
proof (induction ds rule: join_comps.induct)
  case (2 c)
  then show ?case by (auto simp: slash_normal_def part_def intro: no_double_word)
next
  case (3 c d ds)
  have n: "slash_normal c" "c \<noteq> []" using 3(3) by (auto simp: slash_normal_def part_def intro: no_double_word)
  have "slash_normal (join_comps (d # ds))" using 3 by simp
  moreover have ne: "\<forall>e\<in>set (d # ds). e \<noteq> []" using 3(3) by (auto simp: part_def)
  moreover have "hd (join_comps (d # ds)) \<noteq> bsl" "join_comps (d # ds) \<noteq> []"
    using join_comps_hd [OF _ ne] join_comps_nonempty [OF _ ne] part_ends [of d] 3(3) by auto
  ultimately show ?case
    using n part_ends [of c] 3(3) no_double_append_sep [of c "join_comps (d # ds)"]
    by (auto simp: slash_normal_def)
qed simp

lemma lexically_normal_join:
  assumes "ds \<noteq> []" "\<forall>d\<in>set ds. part d" "\<And>c r. hd ds = c # r \<Longrightarrow> r \<noteq> [] \<and> hd r \<noteq> CHR '':''"
  shows "lexically_normal (join_comps ds) = join_comps ds"
proof -
  have ne: "\<forall>d\<in>set ds. d \<noteq> []" using assms(2) by (auto simp: part_def)
  have jne: "join_comps ds \<noteq> []" by (rule join_comps_nonempty [OF assms(1) ne])
  obtain d ds' where ds: "ds = d # ds'" using assms(1) by (cases ds) auto
  obtain c c' r where d: "d = c # c' # r" "c' \<noteq> CHR '':''"
    using assms(3) ne ds by (metis list.exhaust_sel list.sel(1) list.set_intros(1))
  have root: "split_root_name (join_comps ds) = ([], join_comps ds)"
    using d by (cases ds') (simp_all add: ds split_root_name_def)
  have "hd d \<in> set d" by (simp add: d)
  then have sep: "\<not> is_sep (hd (join_comps ds))"
    using assms(1,2) join_comps_hd [OF assms(1) ne] by (simp add: ds part_def)
  have cs: "comps (join_comps ds) = ds"
    using assms(2) by (intro comps_join [OF assms(1)]) (simp add: part_def)
  have up: "''..'' \<notin> set ds" "filter (\<lambda>c. c \<noteq> '''' \<and> c \<noteq> ''.'') ds = ds"
    using assms(2) by (auto simp: part_def intro!: filter_True)
  have st: "foldl (norm_step False) [] ds = rev ds"
    using norm_steps_up_free [OF up(1), of False "[]"] up(2) by simp
  have "last ds \<in> set ds" using assms(1) by simp
  then have "last ds \<notin> {'''', ''.'', ''..''}" using assms(2) by (auto simp: part_def)
  then show ?thesis
    using jne sep st assms(1) unfolding lexically_normal_def Let_def root by (simp add: cs)
qed

lemma word_part: "word_name c \<Longrightarrow> part c"
  by (auto simp: word_name_def part_def)

lemma drive_part: "is_drive d \<Longrightarrow> part [d]"
  by (auto simp: is_drive_def part_def is_sep_def less_eq_char_def)

lemma prime_parts:
  assumes "is_drive d" "\<forall>e\<in>set ds. word_name e"
  shows "\<forall>e\<in>set (''prime_data'' # [d] # ds). part e"
  using assms word_part drive_part by (auto simp: part_def is_sep_def)

lemma drive_root_join: "ds \<noteq> [] \<Longrightarrow> drive_root d @ join_comps ds = join_comps (''prime_data'' # [d] # ds)"
  by (simp add: drive_root_def join_comps_Cons)

lemma lexically_normal_drive:
  assumes "is_drive d" "\<forall>e\<in>set ds. word_name e" "ds \<noteq> []"
  shows "lexically_normal (drive_root d @ join_comps ds) = drive_root d @ join_comps ds"
    "normalize_slashes (drive_root d @ join_comps ds) = drive_root d @ join_comps ds"
    "last (drive_root d @ join_comps ds) \<noteq> bsl"
proof -
  note p = prime_parts [OF assms(1,2)]
  show "lexically_normal (drive_root d @ join_comps ds) = drive_root d @ join_comps ds"
    unfolding drive_root_join [OF assms(3)] by (rule lexically_normal_join [OF _ p]) auto
  show "normalize_slashes (drive_root d @ join_comps ds) = drive_root d @ join_comps ds"
    unfolding drive_root_join [OF assms(3)] by (rule normalize_id [OF slash_normal_join [OF _ p]]) simp
  have ne: "\<forall>e\<in>set ds. e \<noteq> []" using assms(2) by (auto simp: word_name_def)
  have "part (last ds)" using assms(2,3) word_part by auto
  then show "last (drive_root d @ join_comps ds) \<noteq> bsl"
    using assms(3) join_comps_last [OF assms(3) ne] join_comps_nonempty [OF assms(3) ne] part_ends by simp
qed

text \<open>A plain guest path survives trimming and unquoting and is recognised as a drive path.\<close>

lemma drive_char_plain: "is_drive d \<Longrightarrow> \<not> isspace d \<and> \<not> is_quote d \<and> toupper d = d"
  by (auto simp: is_drive_def isspace_def toupper_def less_eq_char_def Let_def)

lemma vm_path_plain:
  assumes "is_drive d" "\<forall>e\<in>set ds. word_name e" "ds \<noteq> []"
  shows "trim (vm_path d ds) = vm_path d ds" "unquote (vm_path d ds) = vm_path d ds"
    "has_drive (vm_path d ds)" "drop_sep (drop 2 (vm_path d ds)) = join_comps ds"
proof -
  have ne: "\<forall>e\<in>set ds. e \<noteq> []" using assms(2) by (auto simp: word_name_def)
  have "last (last ds) \<in> set (last ds)" "word_name (last ds)" using assms(2,3) ne by auto
  then have l: "\<not> isspace (last (vm_path d ds))" "\<not> is_quote (last (vm_path d ds))"
    using join_comps_last [OF assms(3) ne] join_comps_nonempty [OF assms(3) ne]
    by (auto simp: word_name_def)
  show "trim (vm_path d ds) = vm_path d ds"
    using l drive_char_plain [OF assms(1)] by (intro trim_id) simp_all
  show "unquote (vm_path d ds) = vm_path d ds"
    using l drive_char_plain [OF assms(1)] by (intro unquote_id) simp_all
qed (simp_all add: has_drive_def drop_sep_def)

lemma word_plain:
  assumes "word_name f"
  shows "trim f = f" "unquote f = f" "\<not> has_drive f" "\<not> (f \<noteq> [] \<and> is_sep (hd f))"
proof -
  have m: "hd f \<in> set f" "last f \<in> set f" "f \<noteq> []" using assms by (simp_all add: word_name_def)
  then have w: "\<not> isspace (hd f)" "\<not> isspace (last f)" "\<not> is_quote (hd f)" "\<not> is_quote (last f)"
    "\<not> is_sep (hd f)"
    using assms unfolding word_name_def by blast+
  show "trim f = f" by (rule trim_id [OF m(3) w(1,2)])
  show "unquote f = f" by (rule unquote_id [OF m(3) w(3,4)])
  show "\<not> (f \<noteq> [] \<and> is_sep (hd f))" using w(5) by simp
  show "\<not> has_drive f"
  proof
    assume "has_drive f"
    then have "1 < length f" "f ! 1 = CHR '':''" by (simp_all add: has_drive_def)
    then have "CHR '':'' \<in> set f" by (metis nth_mem)
    then show False using assms unfolding word_name_def by blast
  qed
qed

text \<open>
  Changing into a directory is naming it.  When the host creates the directory, \<open>_achdir\<close> of
  a plain path on drive X makes it the working directory of drive X and X the current drive, and afterwards the
  relative name of a file resolves to the same host path as its full name, namely
  the path below the root of the drive.
\<close>

theorem chdir_then_relative:
  assumes "paths_ok st" "is_drive d" "ds \<noteq> []" "\<forall>e\<in>set ds. word_name e" "word_name f"
    and "\<And>p w. create_directories fs p w \<noteq> None"
  shows "\<exists>st' w'. achdir fs (Some (vm_path d ds)) (st, w) = Some (1, st', w')
    \<and> g_currentDrive st' = d
    \<and> MapVMPathToHost fs (Some f) (st', w') = Some (drive_root d @ join_comps (ds @ [f]), st', w')
    \<and> MapVMPathToHost fs (Some (vm_path d (ds @ [f]))) (st', w')
        = Some (drive_root d @ join_comps (ds @ [f]), st', w')"
proof -
  obtain st1 w1 where i: "call_once_init fs (st, w) = (st1, w1)" by fastforce
  note ok = call_once_ok [OF assms(1) i]
  define q where "q = drive_root d @ join_comps ds"
  note n = lexically_normal_drive [OF assms(2,4,3), folded q_def]
  note v = vm_path_plain [OF assms(2,4,3)]
  have words: "\<forall>e\<in>set (ds @ [f]). word_name e" using assms(4,5) by simp
  have wne: "ds @ [f] \<noteq> []" by simp
  note vf = vm_path_plain [OF assms(2) words wne]
  note nf = lexically_normal_drive [OF assms(2) words wne]
  obtain k where k: "k < 26" "drive_index d = Some k" using drive_index_lt [OF assms(2)] by blast
  obtain w2 where w2: "create_directories fs q w1 = Some w2" using assms(6) [of q w1] by auto
  define st' where "st' = st1\<lparr>g_cwds := (g_cwds st1)[k := q @ [bsl]], g_currentDrive := d\<rparr>"
  have up: "toupper d = d" using drive_char_plain [OF assms(2)] by simp
  have len: "length (g_cwds st1) = 26" using ok by (simp add: paths_ok_def)
  have "\<not> (has_drive (vm_path d ds) \<and> length (vm_path d ds) = 2)" by simp
  then have "chdir_to fs (vm_path d ds) (st1, w1) = enter_dir fs d q (st1, w1)"
    unfolding chdir_to_def prod.case eqTrueI [OF v(3)] v(4)
    by (simp add: up q_def)
  also have "\<dots> = Some (1, st', w2)"
    using n w2 k by (simp add: enter_dir_def set_cwd_def st'_def)
  finally have a: "achdir fs (Some (vm_path d ds)) (st, w) = Some (1, st', w2)"
    unfolding achdir_def i Let_def prod.case option.case v(1) by simp
  have c: "cwd_of st' d = Some (q @ [bsl])" "g_currentDrive st' = d" "g_init_flag st'"
    using k len ok(2) by (simp_all add: st'_def cwd_of_def)
  have j: "q @ bsl # f = drive_root d @ join_comps (ds @ [f])"
    by (simp add: q_def join_comps_snoc [OF assms(3)])
  have id: "call_once_init fs (st', w2) = (st', w2)" using c(3) by (simp add: call_once_init_def)
  note wf = word_plain [OF assms(5)]
  have r: "MapVMPathToHost fs (Some f) (st', w2) = Some (drive_root d @ join_comps (ds @ [f]), st', w2)"
    unfolding MapVMPathToHost_def id Let_def prod.case option.case wf(1,2) map_path_def
    using c j nf unfolding if_not_P [OF wf(4)] if_not_P [OF wf(3)] by simp
  have "map_path st' (vm_path d (ds @ [f])) = Some (drive_root d @ join_comps (ds @ [f]))"
    unfolding map_path_def eqTrueI [OF vf(3)] vf(4) using nf(2) by (simp add: up)
  then have "MapVMPathToHost fs (Some (vm_path d (ds @ [f]))) (st', w2)
      = Some (drive_root d @ join_comps (ds @ [f]), st', w2)"
    unfolding MapVMPathToHost_def id Let_def prod.case option.case by (simp only: vf) simp
  then show ?thesis using a r c(2) by blast
qed

theorem chdir_then_relative_witness:
  "\<exists>st' w'. achdir demo_fs (Some (vm_path (CHR ''B'') [''GAMES'', ''2048''])) (sys_init paths_init, []) = Some (1, st', w')
    \<and> g_currentDrive st' = CHR ''B''
    \<and> MapVMPathToHost demo_fs (Some ''save.dat'') (st', w')
        = Some (drive_root (CHR ''B'') @ join_comps ([''GAMES'', ''2048''] @ [''save.dat'']), st', w')
    \<and> MapVMPathToHost demo_fs (Some (vm_path (CHR ''B'') ([''GAMES'', ''2048''] @ [''save.dat'']))) (st', w')
        = Some (drive_root (CHR ''B'') @ join_comps ([''GAMES'', ''2048''] @ [''save.dat'']), st', w')"
proof (rule chdir_then_relative)
  show "paths_ok (sys_init paths_init)"
    by (simp add: paths_ok_def sys_init_def paths_init_def is_drive_def)
  show "is_drive (CHR ''B'')" by code_simp
  show "\<forall>e\<in>set [''GAMES'', ''2048'']. word_name e" by code_simp
  show "word_name ''save.dat''" by code_simp
qed (simp_all add: demo_fs_def)

section \<open>From host paths back\<close>

lemma strip_cwd_absolute:
  assumes "cwd_ok cwd" "c = x # CHR '':'' # r"
  shows "strip_cwd c i cwd = None"
proof -
  obtain q where "cwd = prime_data @ q" using assms(1) by (auto simp: cwd_ok_def below_def)
  moreover have "normalize_slashes cwd = cwd" using assms(1) by (simp add: cwd_ok_def normalize_id)
  ultimately show ?thesis by (simp add: strip_cwd_def Let_def assms(2) prime_data_def tolower_def)
qed

lemma strip_cwds_absolute:
  "\<forall>c\<in>set cwds. cwd_ok c \<Longrightarrow> s = x # CHR '':'' # r \<Longrightarrow> strip_cwds s i cwds = []"
  by (induction cwds arbitrary: i) (auto simp: strip_cwd_absolute)

lemma drive_case: "is_drive d \<Longrightarrow> toupper (tolower d) = d"
  by (auto simp: is_drive_def toupper_def tolower_def less_eq_char_def)

lemma strip_drive_root:
  assumes "is_drive d"
  shows "strip_drive_prefix (drive_root d @ r) = Some ([d, CHR '':'', bsl] @ r)"
proof -
  let ?l = "map tolower (drive_root d @ r)"
  have l: "?l = ''prime_data'' @ bsl # tolower d # bsl # map tolower r"
    by (simp add: drive_root_def tolower_def)
  show ?thesis
    unfolding strip_drive_prefix_def Let_def l by (simp add: drive_case [OF assms] drive_root_def)
qed

text \<open>
  Host paths back to guest paths.  \<open>MapHostPathToVM\<close> inverts the mapping only when the host
  cannot canonicalise the path; when it can, and the canonical form is absolute (a drive letter
  first), the result is always the empty string, although the path is below \<open>prime_data\<close>.
\<close>

theorem host_path_back:
  assumes "paths_ok st" "is_drive d" "ds \<noteq> []" "\<forall>e\<in>set ds. word_name e"
    and "MapVMPathToHost fs (Some (vm_path d ds)) (st, w) = Some (p, st', w')"
  shows "(canon p = None \<longrightarrow> fst (MapHostPathToVM canon fs (Some p) (st', w')) = vm_path d ds)
    \<and> (\<forall>x r. canon p = Some (x # CHR '':'' # r) \<and> x \<noteq> bsl \<and> x \<noteq> CHR ''/'' \<longrightarrow>
         fst (MapHostPathToVM canon fs (Some p) (st', w')) = [])"
proof -
  obtain st1 w1 where i: "call_once_init fs (st, w) = (st1, w1)" by fastforce
  note ok = call_once_ok [OF assms(1) i]
  note v = vm_path_plain [OF assms(2,4,3)]
  note n = lexically_normal_drive [OF assms(2,4,3)]
  have up: "toupper d = d" using drive_char_plain [OF assms(2)] by simp
  have "map_path st1 (vm_path d ds) = Some (drive_root d @ join_comps ds)"
    unfolding map_path_def eqTrueI [OF v(3)] v(4) using n(2) by (simp add: up)
  then have "MapVMPathToHost fs (Some (vm_path d ds)) (st, w) = Some (drive_root d @ join_comps ds, st1, w1)"
    unfolding MapVMPathToHost_def i Let_def prod.case option.case by (simp only: v) simp
  then have p: "p = drive_root d @ join_comps ds" "st' = st1" "w' = w1" using assms(5) by auto
  have id: "call_once_init fs (st', w') = (st', w')" using ok(2) p by (simp add: call_once_init_def)
  have inverse: "fst (MapHostPathToVM canon fs (Some p) (st', w')) = vm_path d ds" if "canon p = None"
    unfolding MapHostPathToVM_def id Let_def prod.case option.case that
    by (simp only: p n(2) strip_drive_root [OF assms(2)] option.case fst_conv)
  have lost: "fst (MapHostPathToVM canon fs (Some p) (st', w')) = []"
    if c: "canon p = Some (x # CHR '':'' # r)" "x \<noteq> bsl" "x \<noteq> CHR ''/''" for x r
  proof -
    have s: "normalize_slashes (x # CHR '':'' # r) = x # CHR '':'' # squash False (map (\<lambda>c. if c = CHR ''/'' then bsl else c) r)"
      using c(2,3) by (simp add: normalize_slashes_def)
    have "strip_drive_prefix (x # CHR '':'' # r') = None" for r'
      by (simp add: strip_drive_prefix_def Let_def tolower_def)
    moreover have "\<forall>c\<in>set (g_cwds st'). cwd_ok c" using ok p by (simp add: paths_ok_def)
    ultimately show ?thesis
      unfolding MapHostPathToVM_def id Let_def prod.case option.case c(1) s
      by (simp add: strip_cwds_absolute)
  qed
  show ?thesis using inverse lost by blast
qed

theorem host_path_back_witness:
  "\<exists>p st' w'. MapVMPathToHost demo_fs (Some (vm_path (CHR ''A'') [''x.exe''])) (paths_init, []) = Some (p, st', w')
     \<and> fst (MapHostPathToVM (\<lambda>p. Some (''C:/emu/'' @ p)) demo_fs (Some p) (st', w')) = []"
proof -
  have ok: "paths_ok paths_init" by (simp add: paths_ok_def paths_init_def is_drive_def)
  have d: "is_drive (CHR ''A'')" by code_simp
  have w: "\<forall>e\<in>set [''x.exe'']. word_name e" by code_simp
  have t: "tame (unquote (trim (vm_path (CHR ''A'') [''x.exe''])))" by code_simp
  obtain p st' w' where m: "MapVMPathToHost demo_fs (Some (vm_path (CHR ''A'') [''x.exe''])) (paths_init, [])
      = Some (p, st', w')"
    using MapVMPathToHost_below [OF ok, of "Some (vm_path (CHR ''A'') [''x.exe''])" demo_fs "[]"] t by auto
  from host_path_back [OF ok d _ w m, of "\<lambda>p. Some (''C:/emu/'' @ p)"] m show ?thesis by auto
qed

end
