(* ===== verification/VFileProps.thy ===== *)
theory VFileProps
  imports VFiles PathProps
begin

text \<open>
  The file table: handles are fresh and never zero, closed handles are dead, and a read puts
  exactly the bytes it reports into guest memory.
\<close>

section \<open>The table\<close>

definition files_ok :: "vfiles \<Rightarrow> bool" where
  "files_ok t \<longleftrightarrow> 0 < g_next_handle t \<and> um_ok (g_vfile_table t)
     \<and> (\<forall>h\<in>fst ` set (g_vfile_table t). h < g_next_handle t)"

lemma unknown_handle: "files_ok t \<Longrightarrow> g_next_handle t \<le> h \<Longrightarrow> map_of (g_vfile_table t) h = None"
  by (auto simp: files_ok_def map_of_eq_None_iff not_less [symmetric])

lemma new_handle_ok:
  assumes "files_ok t" "g_next_handle t < - 1" "new_handle v t = (h, t')"
  shows "files_ok t'" "h \<noteq> 0" "map_of (g_vfile_table t) h = None"
    "map_of (g_vfile_table t') = (map_of (g_vfile_table t))(h \<mapsto> v)"
proof -
  have h: "h = g_next_handle t" "g_vfile_table t' = um_set h v (g_vfile_table t)"
    "g_next_handle t' = g_next_handle t + 1"
    using assms(3) by (auto simp: new_handle_def)
  have "g_next_handle t + 1 \<noteq> 0" using assms(2) by (metis add_eq_0_iff2 less_irrefl)
  then have lt: "g_next_handle t < g_next_handle t + 1" by (simp add: word_less_nat_alt unatSuc add.commute)
  then have "0 < g_next_handle t'" using h assms(1) order_less_trans [OF _ lt, of 0] by (simp add: files_ok_def)
  then show "files_ok t'" using assms(1) lt by (auto simp: files_ok_def h um_set_keys um_set_ok)
  show "h \<noteq> 0" using assms(1) h by (auto simp: files_ok_def)
  show "map_of (g_vfile_table t) h = None" using unknown_handle [OF assms(1), of h] h by simp
  show "map_of (g_vfile_table t') = (map_of (g_vfile_table t))(h \<mapsto> v)" by (simp add: h map_of_um_set)
qed

text \<open>What an open call does to the table.\<close>

definition open_post :: "vfiles \<Rightarrow> string \<Rightarrow> u32 \<Rightarrow> vfiles \<Rightarrow> bool" where
  "open_post t p h t' \<longleftrightarrow> files_ok t' \<and>
     (if h = 0 then t' = t
      else map_of (g_vfile_table t) h = None
        \<and> (\<exists>v. vf_fp v \<noteq> 0 \<and> vf_hostPath v = p
            \<and> map_of (g_vfile_table t') = (map_of (g_vfile_table t))(h \<mapsto> v)))"

lemma open_mapped_post:
  assumes "files_ok (fs_files s)" "g_next_handle (fs_files s) < - 1" "open_mapped io p mode s = (h, s')"
  shows "open_post (fs_files s) p h (fs_files s')"
proof -
  obtain f mode' w where r: "open_retry io p mode (fs_world s) = (f, mode', w)" by (metis prod_cases3)
  define v where "v = \<lparr>vf_fp = f, vf_hostPath = p, vf_mode = mode'\<rparr>"
  obtain k t where n: "new_handle v (fs_files s) = (k, t)" by fastforce
  show ?thesis
  proof (cases "f = 0")
    case True
    then show ?thesis using assms(1,3) by (auto simp: open_mapped_def r open_post_def)
  next
    case False
    then have "h = k" "fs_files s' = t"
      using assms(3) n by (auto simp: open_mapped_def r v_def Let_def)
    then show ?thesis
      using new_handle_ok [OF assms(1,2) n] False
      by (auto simp: open_post_def intro!: exI [of _ v]) (simp_all add: v_def)
  qed
qed

lemma map_vm_files: "map_vm io name s = Some (p, s') \<Longrightarrow> fs_files s' = fs_files s"
  by (auto simp: map_vm_def)

text \<open>Every call that returns fails without touching the table or ends in \<open>open_mapped\<close>.\<close>

lemma OpenFile_cases:
  assumes "OpenFile io args s = Some (h, s')"
  shows "h = 0 \<and> fs_files s' = fs_files s
    \<or> (\<exists>p mode s1. fs_files s1 = fs_files s \<and> open_mapped io p mode s1 = (h, s'))"
proof -
  obtain st w where i: "call_once_init (fs_of io) (fs_paths s, fs_world s) = (st, w)" by fastforce
  let ?s = "s\<lparr>fs_paths := st, fs_world := w\<rparr>"
  show ?thesis
  proof (cases "guest_cstr (fs_mm s) (r0 args)")
    case None
    then show ?thesis using assms by (auto simp: OpenFile_def i)
  next
    case (Some n)
    obtain p s1 where m: "map_vm io (Some n) ?s = Some (p, s1)"
      using assms Some by (auto simp: OpenFile_def i Let_def split: option.splits)
    let ?m = "case guest_cstr (fs_mm s) (r1 args) of None \<Rightarrow> ''rb'' | Some f \<Rightarrow> f"
    obtain s2 where "open_mapped io p ?m s2 = (h, s')" "fs_files s2 = fs_files s1"
      using assms Some m by (auto simp: OpenFile_def i Let_def split: if_splits)
    then show ?thesis using map_vm_files [OF m] by auto
  qed
qed

lemma wfopen_cases:
  assumes "wfopen io args s = Some (h, s')"
  shows "\<exists>p mode s1. fs_files s1 = fs_files s \<and> open_mapped io p mode s1 = (h, s')"
proof -
  obtain st w where i: "call_once_init (fs_of io) (fs_paths s, fs_world s) = (st, w)" by fastforce
  obtain p st1 w1 where m: "MapVMPathToHostW (fs_of io) (guest_wstr (fs_mm s) (r0 args)) (st, w)
      = Some (p, st1, w1)"
    using assms by (auto simp: wfopen_def i Let_def split: option.splits)
  obtain mode where md: "(case guest_wstr (fs_mm s) (r1 args) of None \<Rightarrow> Some ''rb'' | Some f \<Rightarrow> wstr_to_utf8 f)
      = Some mode"
    using assms by (auto simp: wfopen_def i m Let_def split: option.splits)
  obtain s2 where "open_mapped io p mode s2 = (h, s')" "fs_files s2 = fs_files s"
    using assms by (auto simp: wfopen_def i m md Let_def split: option.splits)
  then show ?thesis by blast
qed

section \<open>Bytes in memory\<close>

lemma store_bytes_apply:
  "length bs < 2 ^ 64 \<Longrightarrow>
   store_bytes h p bs q = (if unat (q - p) < length bs then bs ! unat (q - p) else h q)"
proof (induction h p bs rule: store_bytes.induct)
  case (2 h p b bs)
  show ?case
  proof (cases "q = p")
    case True
    have "p - (p + 1) = (- 1 :: 64 word)" by simp
    then have "unat (p - (p + 1)) = 2 ^ 64 - 1" by (simp add: unsigned_minus_1_eq_mask mask_eq_exp_minus_1)
    then show ?thesis using 2 True by (simp add: fun_upd_def)
  next
    case False
    then have "q - p \<noteq> 0" by simp
    then have "unat (q - p) = Suc (unat (q - p - 1))"
      by (metis Suc_pred' unat_gt_0 unat_minus_one)
    then show ?thesis using 2 False by (simp add: diff_diff_eq fun_upd_def)
  qed
qed simp

section \<open>Properties\<close>

text \<open>
  C22. Handles are fresh.  An open call that returns gives either 0, with the table as it was, or a
  handle that was not in use, now bound to a non-null stream; every other handle keeps its file.
  This holds for the narrow and the wide call until the 32-bit handle counter is exhausted.
\<close>

theorem open_fresh_handle:
  assumes "files_ok (fs_files s)" "g_next_handle (fs_files s) < - 1"
    and "OpenFile io args s = Some (h, s') \<or> wfopen io args s = Some (h, s')"
  shows "\<exists>p. open_post (fs_files s) p h (fs_files s')"
proof -
  have "h = 0 \<and> fs_files s' = fs_files s
      \<or> (\<exists>p mode s1. fs_files s1 = fs_files s \<and> open_mapped io p mode s1 = (h, s'))"
    using assms(3) OpenFile_cases wfopen_cases by blast
  then show ?thesis
  proof (elim disjE conjE exE)
    assume "h = 0" "fs_files s' = fs_files s"
    then show ?thesis using assms(1) by (simp add: open_post_def)
  next
    fix p mode s1 assume "fs_files s1 = fs_files s" "open_mapped io p mode s1 = (h, s')"
    then show ?thesis using open_mapped_post [of s1 io p mode h s'] assms(1,2) by auto
  qed
qed

text \<open>A host with one stream, whose world is the bytes still to be read, and a state with it open.\<close>

definition demo_io :: "byte list stdio" where
  "demo_io = \<lparr>fs_exists = (\<lambda>p w. Some True), create_directories = (\<lambda>p w. Some w),
     c_fopen = (\<lambda>p m w. (7, w)), c_fclose = (\<lambda>f w. w), c_fread = (\<lambda>f n w. (take n w, drop n w)),
     c_fwrite = (\<lambda>f bs w. (length bs, w)), c_fflush = (\<lambda>f w. w), c_clearerr = (\<lambda>f w. w),
     c_fseek = (\<lambda>f off wh w. (True, w)), c_ftell = (\<lambda>f w. (0, w)), fs_remove = (\<lambda>p w. (True, w))\<rparr>"

definition demo_files :: "byte list files_state" where
  "demo_files = \<lparr>fs_paths = paths_init,
     fs_files = \<lparr>g_vfile_table = [(1, \<lparr>vf_fp = 7, vf_hostPath = ''f'', vf_mode = ''rb''\<rparr>)], g_next_handle = 2\<rparr>,
     fs_mm = demo_mm, fs_world = [1, 2, 3]\<rparr>"

lemma demo_addr: "GetRealAddr demo_mm 0x20001000 = 0x100001000"
  unfolding MemoryManager_new_eq(3) [OF demo_mm_new]
  by (simp add: GetRealAddr_def MemoryBlock_ContainsVAddr_def MemoryChunk_ContainsVAddr_def
      MemoryChunk_GetRAddr_def demo_host_def MEM_DYNAMIC_HEAP_BASE_def MEM_DYNAMIC_HEAP_SIZE_def
      sz_def PAGE_SIZE_def)

lemma demo_string: "guest_cstr demo_mm 0x20001000 = Some []"
  unfolding guest_cstr_def Let_def demo_addr unfolding MemoryManager_new_eq(3) [OF demo_mm_new]
  by (simp add: read_cstr.simps mem_fill_def)

theorem open_fresh_handle_witness:
  "\<exists>h s' p. OpenFile demo_io \<lparr>r0 = 0x20001000, r1 = 0, r2 = 0, r3 = 0, r4 = 0, sp = 0\<rparr> demo_files = Some (h, s')
     \<and> open_post (fs_files demo_files) p h (fs_files s')"
proof -
  let ?args = "\<lparr>r0 = 0x20001000, r1 = 0, r2 = 0, r3 = 0, r4 = 0, sp = 0\<rparr> :: SystemServiceArguments"
  have ok: "files_ok (fs_files demo_files)" "g_next_handle (fs_files demo_files) < - 1"
    by (simp_all add: files_ok_def demo_files_def um_ok_def)
  obtain st w where i: "call_once_init (fs_of demo_io) (fs_paths demo_files, fs_world demo_files) = (st, w)"
    by fastforce
  have pok: "paths_ok (fs_paths demo_files)"
    by (simp add: demo_files_def paths_ok_def paths_init_def is_drive_def)
  note st = call_once_ok [OF pok i]
  have "tame (unquote (trim []))" by code_simp
  then obtain p st2 w2 where "MapVMPathToHost (fs_of demo_io) (Some []) (st, w) = Some (p, st2, w2)"
    using MapVMPathToHost_below [OF st(1), of "Some []" "fs_of demo_io" w] by auto
  moreover have "guest_cstr (fs_mm demo_files) 0x20001000 = Some []"
    by (simp add: demo_files_def demo_string)
  ultimately have "OpenFile demo_io ?args demo_files \<noteq> None"
    by (simp add: OpenFile_def i map_vm_def Let_def)
  then obtain h s' where o: "OpenFile demo_io ?args demo_files = Some (h, s')" by auto
  from open_fresh_handle [OF ok, of demo_io ?args h s'] o show ?thesis by auto
qed

text \<open>
  C23. A handle closed by \<open>_fclose\<close> is dead: no later call reaches its stream, each returns its
  failure value (\<open>_fclose\<close> and \<open>_CloseFile\<close> again 1) and leaves the whole state alone, and all other
  handles keep their streams.  \<open>_CloseFile\<close>, in contrast, leaves the table as it was, so the next
  read through the handle passes the closed stream to the host.
\<close>

theorem closed_handle_dead:
  assumes "files_ok (fs_files s)" "fclose io args s = (1, s1)" "r0 a = r0 args" "r3 b = r0 args"
  shows "ReadFile io a s1 = (0, s1) \<and> WriteFile io a s1 = (0, s1) \<and> SeekFile io a s1 = (1, s1)
    \<and> filesize io a s1 = (0, s1) \<and> fclose io a s1 = (1, s1) \<and> CloseFile io a s1 = (1, s1)
    \<and> fread io b s1 = (0, s1) \<and> fwrite io b s1 = (0, s1)
    \<and> (\<forall>h. h \<noteq> r0 args \<longrightarrow> stream_of h (fs_files s1) = stream_of h (fs_files s))
    \<and> fs_files (snd (CloseFile io args s)) = fs_files s
    \<and> (\<forall>f. stream_of (r0 args) (fs_files s) = Some f \<longrightarrow>
         ReadFile io a (snd (CloseFile io args s))
           = read_into io f (r1 a) (r2 a) (snd (CloseFile io args s)))"
proof -
  obtain v where v: "map_of (g_vfile_table (fs_files s)) (r0 args) = Some v" "r0 args \<noteq> 0"
    using assms(2) by (auto simp: fclose_def split: if_splits option.splits)
  have m: "\<exists>u. map_of (g_vfile_table (fs_files s1)) (r0 args) = Some u \<and> vf_fp u = 0"
    using assms(2) v by (auto simp: fclose_def map_of_um_set split: if_splits)
  then have dead: "stream_of (r0 args) (fs_files s1) = None" by (auto simp: stream_of_def)
  have others: "\<forall>h. h \<noteq> r0 args \<longrightarrow> stream_of h (fs_files s1) = stream_of h (fs_files s)"
    using assms(2) v by (auto simp: fclose_def stream_of_def map_of_um_set split: if_splits)
  have c: "fs_files (snd (CloseFile io args s)) = fs_files s"
    by (simp add: CloseFile_def split: option.split)
  show ?thesis
    using dead m others c v assms(3,4)
    by (auto simp: ReadFile_def WriteFile_def SeekFile_def filesize_def fclose_def CloseFile_def
        fread_def fwrite_def Let_def)
qed

theorem closed_handle_dead_witness:
  "\<exists>s1. fclose demo_io \<lparr>r0 = 1, r1 = 0, r2 = 0, r3 = 0, r4 = 0, sp = 0\<rparr> demo_files = (1, s1)
     \<and> ReadFile demo_io \<lparr>r0 = 1, r1 = 0x20001000, r2 = 2, r3 = 1, r4 = 0, sp = 0\<rparr> s1 = (0, s1)"
proof -
  let ?a = "\<lparr>r0 = 1, r1 = 0, r2 = 0, r3 = 0, r4 = 0, sp = 0\<rparr> :: SystemServiceArguments"
  let ?b = "\<lparr>r0 = 1, r1 = 0x20001000, r2 = 2, r3 = 1, r4 = 0, sp = 0\<rparr> :: SystemServiceArguments"
  have ok: "files_ok (fs_files demo_files)" by (simp add: files_ok_def demo_files_def um_ok_def)
  obtain s1 where "fclose demo_io ?a demo_files = (1, s1)" by (simp add: fclose_def demo_files_def)
  with closed_handle_dead [OF ok this, of ?b ?b] show ?thesis by auto
qed

text \<open>
  C24. A read delivers what it reports.  For a live handle and a mapped destination, and a host
  whose \<open>fread\<close> never returns more than was asked for, \<open>_fread\<close> returns the number of bytes the host
  delivered, at most the 32-bit product of count and size, puts exactly those bytes at the
  destination, and changes no other byte of memory and no table entry.
\<close>

theorem fread_delivers:
  assumes "stream_of (r3 args) (fs_files s) = Some f" "r3 args \<noteq> 0" "r1 args * r2 args \<noteq> 0"
    and "GetRealAddr (fs_mm s) (r0 args) = p" "p \<noteq> 0"
    and "\<And>f n w. length (fst (c_fread io f n w)) \<le> n"
  defines "bs \<equiv> fst (c_fread io f (unat (r1 args * r2 args)) (fs_world s))"
  shows "\<exists>s'. fread io args s = (of_nat (length bs), s')
    \<and> length bs \<le> unat (r1 args * r2 args) \<and> fs_files s' = fs_files s
    \<and> (\<forall>i < length bs. hmem (fs_mm s') (p + of_nat i) = bs ! i)
    \<and> (\<forall>q. length bs \<le> unat (q - p) \<longrightarrow> hmem (fs_mm s') q = hmem (fs_mm s) q)"
proof -
  obtain w where w: "c_fread io f (unat (r1 args * r2 args)) (fs_world s) = (bs, w)"
    by (metis bs_def prod.collapse)
  have le: "length bs \<le> unat (r1 args * r2 args)" using assms(6) by (simp add: bs_def)
  then have lt: "length bs < 2 ^ 64" using unat32_lt [of "r1 args * r2 args"] by simp
  define s1 where "s1 = s\<lparr>fs_world := w,
    fs_mm := (fs_mm s)\<lparr>hmem := store_bytes (hmem (fs_mm s)) p bs\<rparr>\<rparr>"
  have r: "read_into io f (r0 args) (r1 args * r2 args) s = (of_nat (length bs), s1)"
    using assms(4,5) w by (simp add: read_into_def s1_def)
  have e: "\<exists>w'. fread io args s = (of_nat (length bs), s1\<lparr>fs_world := w'\<rparr>)"
    using assms(1-3) r unfolding fread_def Let_def
    by (cases "of_nat (length bs) = (0 :: u32)") (auto simp: assms(4,5) s1_def intro: exI [of _ w])
  have "hmem (fs_mm s1) (p + of_nat i) = bs ! i" if "i < length bs" for i
    using that lt by (simp add: s1_def store_bytes_apply unat_of_nat)
  moreover have "hmem (fs_mm s1) q = hmem (fs_mm s) q" if "length bs \<le> unat (q - p)" for q
    using that lt by (simp add: s1_def store_bytes_apply)
  moreover have "fs_files s1 = fs_files s" by (simp add: s1_def)
  ultimately show ?thesis using e le by auto
qed

theorem fread_delivers_witness:
  "\<exists>s'. fread demo_io \<lparr>r0 = 0x20001000, r1 = 1, r2 = 2, r3 = 1, r4 = 0, sp = 0\<rparr> demo_files = (2, s')
     \<and> (\<forall>i<2. hmem (fs_mm s') (0x100001000 + of_nat i) = [1, 2] ! i)"
proof -
  let ?a = "\<lparr>r0 = 0x20001000, r1 = 1, r2 = 2, r3 = 1, r4 = 0, sp = 0\<rparr> :: SystemServiceArguments"
  have l: "length (fst (c_fread demo_io f n w)) \<le> n" for f n w by (simp add: demo_io_def)
  have "fst (c_fread demo_io 7 (unat (r1 ?a * r2 ?a)) (fs_world demo_files)) = [1, 2]"
    by (simp add: demo_io_def demo_files_def)
  then show ?thesis
    using fread_delivers [of ?a demo_files 7 "0x100001000" demo_io, OF _ _ _ _ _ l]
    by (auto simp: demo_files_def stream_of_def demo_addr)
qed

end
