(* ===== verification/Display.thy ===== *)
theory Display
  imports DbgMsg
begin

text \<open>
  The display (PrimU/LCD.h, the handler, the constructor and the painting of PrimU/LCD.cpp, and the
  calls \<open>GetActiveLCD\<close>, \<open>SetSystemVariable\<close> and \<open>LCDOn\<close> of PrimU/system.cpp).  The LCD object lives
  in the guest's heap, packed; host pointers inside it take 8 bytes.  The window and its thread are in
  theory \<open>Window\<close>.  \<open>None\<close> is a write through a null pointer.
\<close>

section \<open>The LCD object\<close>

text \<open>Offsets in \<open>struct LCD\<close> and \<open>struct LCD_MAGIC\<close>, both with \<open>#pragma pack(1)\<close>.\<close>

definition LCD_itself :: "64 word" where "LCD_itself = 16"
definition LCD_xRes :: "64 word" where "LCD_xRes = 480"
definition LCD_yRes :: "64 word" where "LCD_yRes = 482"
definition LCD_LcdMagic :: "64 word" where "LCD_LcdMagic = 612"
definition LCD_buffer :: "64 word" where "LCD_buffer = 632"
definition sizeof_LCD :: size_t where "sizeof_LCD = 632 + 2 * (320 * 240 * 3)"

lemmas lcd_offsets = LCD_itself_def LCD_xRes_def LCD_yRes_def LCD_LcdMagic_def LCD_buffer_def sizeof_LCD_def

text \<open>The constructor at host address \<open>p\<close>, without the launch of the window thread.\<close>

definition LCD_new :: "RealPtr \<Rightarrow> MemoryManager \<Rightarrow> MemoryManager" where
  "LCD_new p m =
     (let guest = (\<lambda>q. sz (GetVirtualAddr m q)); magic = p + LCD_LcdMagic;
          h = store_le 2 (hmem m) (p + LCD_xRes) 320;
          h = store_le 2 h (p + LCD_yRes) 240;
          h = store_le 2 h magic 0x5850;
          h = store_le 2 h (magic + 2) 320;
          h = store_le 2 h (magic + 4) 240;
          h = store_le 2 h (magic + 6) 32;
          h = store_le 2 h (magic + 8) 640;
          h = store_le 2 h (magic + 10) 2;
          h = store_le 4 h (magic + 12) 8;
          h = store_le 4 h (magic + 16) (guest (p + LCD_buffer));
          h = store_le 8 h p (guest magic);
          h = store_le 8 h (p + LCD_itself) (guest p);
          h = mem_fill h (p + LCD_buffer) (2 * (320 * 240)) 0
      in m\<lparr>hmem := h\<rparr>)"

section \<open>The handler\<close>

record lcd_handler =
  activeLCD :: RealPtr
  activeLCDPtr :: VirtPtr
  brightness_level :: u16

text \<open>A failed allocation stops in the debugger, then goes on.\<close>

definition checked_alloc :: "VirtPtr \<Rightarrow> size_t \<Rightarrow> MemoryManager \<Rightarrow> VirtPtr \<times> MemoryManager" where
  "checked_alloc out n m =
     (let (e, v, m') = DyanmicAlloc m out n
      in (v, if e \<noteq> ERROR_OK then m'\<lparr>breaks := Suc (breaks m')\<rparr> else m'))"

text \<open>\<open>junk\<close> is the uninitialised \<open>lcd\<close>.\<close>

definition InitActiveLCD :: "VirtPtr \<Rightarrow> MemoryManager \<Rightarrow> (lcd_handler \<times> MemoryManager) option" where
  "InitActiveLCD junk m =
     (let (lcd, m1) = checked_alloc junk sizeof_LCD m; p = GetRealAddr m1 lcd
      in if p = 0 then None
         else
           let m2 = LCD_new p m1; (v, m3) = checked_alloc 0 4 m2; q = GetRealAddr m3 v
           in if q = 0 then None
              else Some (\<lparr>activeLCD = p, activeLCDPtr = v, brightness_level = 2\<rparr>,
                         m3\<lparr>hmem := store_le 4 (hmem m3) q (load_le 8 (hmem m3) p)\<rparr>))"

text \<open>\<open>sLCDHandler\<close>: the instance is made at the first use.\<close>

definition LCDHandler_GetInstance ::
  "VirtPtr \<Rightarrow> lcd_handler option \<times> MemoryManager \<Rightarrow> (lcd_handler \<times> MemoryManager) option" where
  "LCDHandler_GetInstance junk = (\<lambda>(lh, m).
     case lh of Some l \<Rightarrow> Some (l, m) | None \<Rightarrow> InitActiveLCD junk m)"

definition GetActiveLCD ::
  "VirtPtr \<Rightarrow> lcd_handler option \<times> MemoryManager \<Rightarrow> (u32 \<times> lcd_handler option \<times> MemoryManager) option" where
  "GetActiveLCD junk s = map_option (\<lambda>(l, m). (activeLCDPtr l, Some l, m)) (LCDHandler_GetInstance junk s)"

definition SetSystemVariable ::
  "VirtPtr \<Rightarrow> SystemServiceArguments \<Rightarrow> lcd_handler option \<times> MemoryManager
     \<Rightarrow> (u32 \<times> lcd_handler option \<times> MemoryManager) option" where
  "SetSystemVariable junk args s =
     (if r0 args = 6 \<and> r1 args = 2
      then map_option (\<lambda>(l, m). (0, Some (l\<lparr>brightness_level := ucast (r2 args)\<rparr>), m))
             (LCDHandler_GetInstance junk s)
      else Some (0, s))"

definition LCDOn :: "SystemServiceArguments \<Rightarrow> 's \<Rightarrow> u32 \<times> 's" where
  "LCDOn args s = (0, s)"

section \<open>Painting\<close>

text \<open>
  A pixel of \<open>WM_PAINT\<close>: five bits per channel widened to eight, then scaled by
  \<open>brightness_level / 4.0 + 0.25\<close> and truncated.  The product is exact in double precision; converting
  a value above 255 to \<open>uint8_t\<close> is undefined.
\<close>

definition widen5 :: "byte \<Rightarrow> byte" where
  "widen5 c = push_bit 3 c OR drop_bit 2 c"

definition scale :: "u16 \<Rightarrow> byte \<Rightarrow> byte option" where
  "scale level c =
     (let v = unat c * (unat level + 1) div 4 in if v < 256 then Some (of_nat v) else None)"

definition channel :: "nat \<Rightarrow> u16 \<Rightarrow> byte" where
  "channel shift rgb555 = ucast (drop_bit shift rgb555 AND 0x1F)"

definition paint_pixel :: "u16 \<Rightarrow> u16 \<Rightarrow> u32 option" where
  "paint_pixel level rgb555 =
     Option.bind (scale level (widen5 (channel 10 rgb555))) (\<lambda>r.
       Option.bind (scale level (widen5 (channel 5 rgb555))) (\<lambda>g.
         Option.bind (scale level (widen5 (channel 0 rgb555))) (\<lambda>b.
           Some (0xFF000000 OR push_bit 16 (ucast r) OR push_bit 8 (ucast g) OR ucast b))))"

text \<open>The frame the window shows: \<open>xRes * yRes\<close> pixels of the buffer.\<close>

definition paint_frame :: "lcd_handler \<Rightarrow> MemoryManager \<Rightarrow> u32 option list" where
  "paint_frame lh m =
     (let p = activeLCD lh; h = hmem m;
          n = unat (load_le 2 h (p + LCD_xRes)) * unat (load_le 2 h (p + LCD_yRes))
      in map (\<lambda>i. paint_pixel (brightness_level lh) (ucast (load_le 2 h (p + LCD_buffer + 2 * of_nat i)))) [0..<n])"

section \<open>Lemmas\<close>

text \<open>Up to level 3 every pixel is defined; at level 3 its channels are the widened ones.\<close>

lemma scale_defined: "unat level \<le> 3 \<Longrightarrow> \<exists>d. scale level c = Some d \<and> unat d \<le> unat c"
proof -
  assume l: "unat level \<le> 3"
  have c: "unat c < 256" using unsigned_less [of c, where 'a = nat] by simp
  have "unat c * (unat level + 1) div 4 \<le> unat c * 4 div 4" using l by (intro div_le_mono mult_le_mono2) simp
  then have "unat c * (unat level + 1) div 4 \<le> unat c" by simp
  then show ?thesis using c by (auto simp: scale_def Let_def unat_of_nat)
qed

lemma scale_full: "scale 3 c = Some c"
  using unsigned_less [of c, where 'a = nat] by (simp add: scale_def)

lemma paint_pixel_defined: "unat level \<le> 3 \<Longrightarrow> paint_pixel level x \<noteq> None"
  using scale_defined [of level] by (auto simp: paint_pixel_def bind_eq_None_conv)

text \<open>Widening loses nothing: the five bits are the top ones of the channel.\<close>

lemma channel_lt: "unat (channel k x) < 32"
proof -
  have "drop_bit k x AND 0x1F = take_bit 5 (drop_bit k x)" by (simp add: take_bit_eq_mask mask_eq_exp_minus_1)
  moreover have "unat (take_bit 5 (drop_bit k x)) < 2 ^ 5"
    unfolding unsigned_take_bit_eq by (rule take_bit_nat_less_exp)
  ultimately show ?thesis by (simp add: channel_def unsigned_ucast_eq take_bit_nat_eq_self)
qed

lemma widen5_table: "\<forall>n \<in> set [0..<32]. drop_bit 3 (widen5 (of_nat n)) = of_nat n"
  by code_simp

lemma widen5_top: "drop_bit 3 (widen5 (channel k x)) = channel k x"
  using widen5_table [rule_format, of "unat (channel k x)"] channel_lt [of k x] by simp

end
