(* ===== verification/StructFields.thy ===== *)
theory StructFields
  imports Prelude
begin

text \<open>
  Structures in memory: fields of 2, 4 and 8 bytes at offsets from a pointer.  Distances are taken
  modulo \<open>2 ^ 64\<close>, so the lemmas need no bound on the pointer.
\<close>

section \<open>Fields of structures\<close>

lemma load_store_dist:
  assumes "k \<le> unat (r - q)" "unat (r - q) + n \<le> 18446744073709551616"
  shows "load_le n (store_le k h q v) r = load_le n h r"
proof (rule load_le_cong)
  fix i assume i: "i < n"
  have "r + of_nat i - q = r - q + of_nat i" by simp
  then have "unat (r + of_nat i - q) = unat (r - q) + i"
    using assms(2) i by (simp only:) (rule unat_add_of_nat, simp)
  then show "store_le k h q v (r + of_nat i) = h (r + of_nat i)"
    using assms(1) by (simp add: store_le_def)
qed

lemma field_widths [simp]:
  "ucast (take_bit 16 (ucast (x :: u16) :: 64 word)) = x"
  "ucast (take_bit 32 (ucast (y :: u32) :: 64 word)) = y"
  by (auto intro!: bit_word_eqI simp: bit_simps dest: bit_imp_le_length)

lemma field_load [simp]:
  "ucast (load_le 2 (store_le 2 h p (ucast x)) p) = (x :: u16)"
  "ucast (load_le 4 (store_le 4 h p (ucast y)) p) = (y :: u32)"
  by (simp_all add: load_store_le del: load_le.simps)

text \<open>Bytes behind the ones written stay.\<close>

lemma unat_less_by: "unat j \<le> unat d \<Longrightarrow> unat (d - j) = unat d - unat (j :: 64 word)"
  by (simp add: unat_sub word_le_unat)

lemma unat_behind: "unat j \<le> unat (q - p) \<Longrightarrow> unat (q - (p + j)) = unat (q - p) - unat (j :: 64 word)"
  using unat_less_by [of j "q - p"] by (simp only: diff_diff_eq)

lemma unat_negative: "0 < unat j \<Longrightarrow> unat (- j :: 64 word) = 18446744073709551616 - unat j"
  using unat_sub_if_size [of 0 j] by (simp add: word_size word_le_unat)

lemma field_outside: "unat j + k \<le> unat (q - p) \<Longrightarrow> store_le k h (p + j) v q = h q"
proof -
  assume a: "unat j + k \<le> unat (q - p)"
  have "unat (q - (p + j)) = unat (q - p) - unat j" using a by (intro unat_behind) simp
  then have "k \<le> unat (q - (p + j))" using a by linarith
  then show ?thesis by (simp add: store_le_def)
qed

lemma fill_outside: "unat j + unat n \<le> unat (q - p) \<Longrightarrow> mem_fill h (p + j) n b q = h q"
proof -
  assume a: "unat j + unat n \<le> unat (q - p)"
  then have "unat n \<le> unat (q - (p + j))" using unat_behind [of j q p] by linarith
  then show ?thesis by (simp add: mem_fill_def word_lt_unat)
qed

lemma load_fill_dist:
  assumes "unat k \<le> unat (r - q)" "unat (r - q) + n \<le> 18446744073709551616"
  shows "load_le n (mem_fill h q k b) r = load_le n h r"
proof (rule load_le_cong)
  fix i assume i: "i < n"
  have "r + of_nat i - q = r - q + of_nat i" by simp
  then have "unat (r + of_nat i - q) = unat (r - q) + i"
    using assms(2) i by (simp only:) (rule unat_add_of_nat, simp)
  then show "mem_fill h q k b (r + of_nat i) = h (r + of_nat i)"
    using assms(1) by (simp add: mem_fill_def word_lt_unat)
qed

lemma load_filled:
  assumes "unat (r - q) + n \<le> unat k"
  shows "load_le n (mem_fill h q k 0) r = 0"
proof -
  have "mem_fill h q k 0 (r + of_nat i) = 0" if "i < n" for i
  proof -
    have "r + of_nat i - q = r - q + of_nat i" by simp
    moreover have "unat (r - q + of_nat i) = unat (r - q) + i"
      using assms that unat64_lt [of k] by (intro unat_add_of_nat) linarith
    ultimately have "unat (r + of_nat i - q) < unat k" using assms that by (simp only:)
    then show ?thesis by (simp add: mem_fill_def word_lt_unat)
  qed
  then have "load_le n (mem_fill h q k 0) r = load_le n (\<lambda>_. 0) r" by (intro load_le_cong) simp
  moreover have "load_le n (\<lambda>_. 0) r = 0" by (induction n arbitrary: r) simp_all
  ultimately show ?thesis by simp
qed

end
