(* ===== verification/DisplayProps.thy ===== *)
theory DisplayProps
  imports Display StructFields HeapProps
begin

text \<open>
  The pointers of the display hold together: from what \<open>GetActiveLCD\<close> returns the guest reaches the
  description of the display and its frame buffer, which lies in one allocation of the heap.
\<close>

section \<open>The object in the heap\<close>

lemma heap_offset:
  assumes inv: "region_inv m" and u: "0x20000000 \<le> unat u" "unat u + n \<le> 0x30000000" and j: "j < n"
  shows "GetRealAddr m u + of_nat j = GetRealAddr m (u + of_nat j)" "unat (u + of_nat j) = unat u + j"
proof -
  have w: "unat (u + of_nat j) = unat u + j"
    using u j by (subst unat_add32) (auto simp: unat_of_nat)
  then have h: "in_heap (unat u)" "in_heap (unat (u + of_nat j))" using u j by (simp_all add: in_heap_def)
  have "unat (GetRealAddr m u + of_nat j) = unat (GetRealAddr m u) + j"
    using heap_translate [OF inv h(1)] heap_real_bound [OF inv] u j by (intro unat_add_of_nat) simp
  then have "unat (GetRealAddr m u + of_nat j) = unat (GetRealAddr m (u + of_nat j))"
    using heap_translate [OF inv h(1)] heap_translate [OF inv h(2)] w u by simp
  then show "GetRealAddr m u + of_nat j = GetRealAddr m (u + of_nat j)" "unat (u + of_nat j) = unat u + j"
    using w by (simp_all add: word_unat_eq_iff)
qed

text \<open>A change of host memory inside one live allocation keeps the heap.\<close>

lemma hinv_block_write:
  assumes inv: "hinv m" and u: "(u, k) \<in> set (heapAlloc m)" and n: "n \<le> unat k"
    and h: "\<And>q. n \<le> unat (q - GetRealAddr m u) \<Longrightarrow> h q = hmem m q"
  shows "hinv (m\<lparr>hmem := h\<rparr>)"
proof (rule hinv_user_write [OF inv])
  fix v assume v: "in_heap (unat v)" "\<not> user_area (heapAlloc m) v"
  note D = hinvD [OF inv] and B = alloc_in_heap [OF hinvD(2) [OF inv] u]
  show "h (GetRealAddr m v) = hmem m (GetRealAddr m v)"
  proof (rule h, rule ccontr)
    assume "\<not> n \<le> unat (GetRealAddr m v - GetRealAddr m u)"
    then have "unat u \<le> unat v" "unat v < unat u + n"
      using heap_range_real [OF D(1) _ _ in_heap_allocated [OF D(1) v(1)], of u n] B n by simp_all
    then show False using v(2) u n by (auto simp: user_area_def)
  qed
qed

text \<open>What the constructor leaves in memory.\<close>

lemma LCD_new_outside: "461432 \<le> unat (q - p) \<Longrightarrow> hmem (LCD_new p m) q = hmem m q"
  using field_outside [of 0 8 q p]
  by (simp add: LCD_new_def Let_def lcd_offsets field_outside fill_outside add.assoc)

lemma take_bit_wide [simp]: "take_bit 32 (ucast (x :: u32) :: 64 word) = ucast x"
  by (auto intro!: bit_word_eqI simp: bit_simps) (auto dest: bit_imp_le_length)

lemma LCD_new_fields:
  "load_le 8 (hmem (LCD_new p m)) p = sz (GetVirtualAddr m (p + LCD_LcdMagic))"
  "load_le 2 (hmem (LCD_new p m)) (p + LCD_xRes) = 320"
  "load_le 2 (hmem (LCD_new p m)) (p + LCD_yRes) = 240"
  "load_le 2 (hmem (LCD_new p m)) (p + LCD_LcdMagic + 2) = 320"
  "load_le 2 (hmem (LCD_new p m)) (p + LCD_LcdMagic + 4) = 240"
  "load_le 4 (hmem (LCD_new p m)) (p + LCD_LcdMagic + 16) = sz (GetVirtualAddr m (p + LCD_buffer))"
  by (simp_all add: LCD_new_def Let_def lcd_offsets add.assoc load_fill_dist load_store_dist load_store_le
      load_store_cookie sz_def del: load_le.simps)

lemma LCD_new_buffer:
  "i < 76800 \<Longrightarrow> load_le 2 (hmem (LCD_new p m)) (p + LCD_buffer + 2 * of_nat i) = 0"
proof -
  assume i: "i < 76800"
  have "unat (p + 632 + 2 * of_nat i - (p + 632)) = 2 * i"
    using i by (simp add: unat_word_ariths unat_of_nat)
  then show ?thesis using i unfolding LCD_new_def Let_def lcd_offsets
    by (simp add: load_filled del: load_le.simps)
qed

section \<open>The first use\<close>

lemma checked_alloc_OK:
  assumes inv: "hinv m" and n: "n \<noteq> 0" and ret: "checked_alloc out (sz n) m = (v, m')" "breaks m' = breaks m"
  shows "alloc_post m n v m'"
  using DyanmicAlloc_cases [OF inv n, of out] ret by (auto simp: checked_alloc_def)

lemma DyanmicAlloc_frame:
  "DyanmicAlloc m out n = (e, v, m') \<Longrightarrow> blocks m' = blocks m \<and> breaks m \<le> breaks m'"
  by (auto simp: DyanmicAlloc_def HeapAlloc_def heap_carve_def Let_def split: if_splits option.splits prod.splits)

lemma checked_alloc_frame:
  assumes "checked_alloc out n m = (v, m')"
  shows "blocks m' = blocks m" "breaks m \<le> breaks m'"
  using assms DyanmicAlloc_frame [of m out n]
  by (auto simp: checked_alloc_def split: prod.splits if_splits intro: le_SucI)

text \<open>Bytes of a live block survive an allocation and a write to another block.\<close>

lemma block_byte:
  assumes inv: "hinv m" and u: "(u, k) \<in> set (heapAlloc m)" and i: "i < unat k"
  shows "GetRealAddr m u + of_nat i = GetRealAddr m (u + of_nat i)" "unat (u + of_nat i) = unat u + i"
    "isVAddrAllocated m (u + of_nat i)" "user_area (heapAlloc m) (u + of_nat i)"
proof -
  note B = alloc_in_heap [OF hinvD(2) [OF inv] u]
  show a: "GetRealAddr m u + of_nat i = GetRealAddr m (u + of_nat i)" "unat (u + of_nat i) = unat u + i"
    using heap_offset [OF hinvD(1) [OF inv], of u "unat k" i] B i by simp_all
  show "isVAddrAllocated m (u + of_nat i)"
    using in_heap_allocated [OF hinvD(1) [OF inv], of "u + of_nat i"] B i a(2) by (simp add: in_heap_def)
  show "user_area (heapAlloc m) (u + of_nat i)"
    unfolding user_area_def using u i a(2) by (intro bexI [of _ "(u, k)"]) simp_all
qed

lemma block_write_other:
  assumes inv: "hinv m" and u: "(u, k) \<in> set (heapAlloc m)" and i: "i < unat k"
    and v: "(v, j) \<in> set (heapAlloc m)" "(v, j) \<noteq> (u, k)" and n: "n \<le> unat j"
  shows "store_le n h (GetRealAddr m v) x (GetRealAddr m u + of_nat i) = h (GetRealAddr m u + of_nat i)"
proof -
  note b = block_byte [OF inv u i] and L = hinvD(2) [OF inv]
  have "\<not> unat (GetRealAddr m (u + of_nat i) - GetRealAddr m v) < n"
  proof
    assume "unat (GetRealAddr m (u + of_nat i) - GetRealAddr m v) < n"
    note range = heap_range_real [OF hinvD(1) [OF inv] _ _ b(3) this]
    have "unat v \<le> unat u + i" "unat u + i < unat v + n"
      using range alloc_in_heap [OF L v(1)] n b(2) by simp_all
    then show False using alloc_disjoint [OF L u v] i n by auto
  qed
  then show ?thesis by (simp add: store_le_def b(1))
qed

text \<open>
  The first use of the handler: the object is in a live block, and the pointer to it in another one
  whose word holds the address of the description.
\<close>

lemma first_use:
  assumes "hinv m" "GetActiveLCD junk (None, m) = Some (a, Some lh, m')" "breaks m' = breaks m"
  obtains m1 u k j where "hinv m1" "(u, k) \<in> set (heapAlloc m1)" "461432 \<le> unat k"
    and "hinv m'" "a \<in> fst ` set (heapAlloc m')" "(u, k) \<in> set (heapAlloc m')"
    and "lh = \<lparr>activeLCD = GetRealAddr m1 u, activeLCDPtr = a, brightness_level = 2\<rparr>"
    and "\<And>w. GetRealAddr m' w = GetRealAddr m1 w"
    and "\<And>i. i < 461432 \<Longrightarrow> hmem m' (GetRealAddr m1 u + of_nat i)
          = hmem (LCD_new (GetRealAddr m1 u) m1) (GetRealAddr m1 u + of_nat i)"
    and "load_le 4 (hmem m') (GetRealAddr m' a)
          = take_bit 32 (load_le 8 (hmem (LCD_new (GetRealAddr m1 u) m1)) (GetRealAddr m1 u))"
    and "set (heapAlloc m') = insert (a, j) (insert (u, k) (set (heapAlloc m)))"
      "u \<notin> fst ` set (heapAlloc m)" "a \<notin> insert u (fst ` set (heapAlloc m))"
proof -
  obtain u m1 where a1: "checked_alloc junk sizeof_LCD m = (u, m1)" by fastforce
  define p where "p = GetRealAddr m1 u"
  define m2 where "m2 = LCD_new p m1"
  obtain v m3 where a2: "checked_alloc 0 4 m2 = (v, m3)" by fastforce
  define q where "q = GetRealAddr m3 v"
  have r: "a = v" "lh = \<lparr>activeLCD = p, activeLCDPtr = v, brightness_level = 2\<rparr>"
    "m' = m3\<lparr>hmem := store_le 4 (hmem m3) q (load_le 8 (hmem m3) p)\<rparr>"
    using assms(2)
    by (auto simp: GetActiveLCD_def LCDHandler_GetInstance_def InitActiveLCD_def Let_def a1 p_def [symmetric]
        m2_def [symmetric] a2 q_def [symmetric] split: if_splits)
  have m2: "m2 = m1\<lparr>hmem := hmem m2\<rparr>" by (simp add: m2_def LCD_new_def Let_def)
  have "breaks m2 = breaks m1" by (subst m2) simp
  then have b: "breaks m1 = breaks m" "breaks m3 = breaks m2"
    using checked_alloc_frame(2) [OF a1] checked_alloc_frame(2) [OF a2] assms(3) by (simp_all add: r(3))
  have s: "sizeof_LCD = sz 461432" "(4 :: size_t) = sz 4" by (simp_all add: sizeof_LCD_def sz_def)
  have "alloc_post m 461432 u m1" using checked_alloc_OK [OF assms(1), of 461432 junk u m1] a1 b(1) s(1) by simp
  then obtain k where i1: "hinv m1" and A1: "set (heapAlloc m1) = insert (u, k) (set (heapAlloc m))"
    and k: "461432 \<le> unat k" and new: "u \<notin> fst ` set (heapAlloc m)"
    by (auto simp: alloc_post_def)
  have u: "(u, k) \<in> set (heapAlloc m1)" using A1 by simp
  have i2: "hinv m2"
    using hinv_block_write [OF i1 u k, of "hmem m2"] LCD_new_outside [of _ p m1] m2
    by (simp add: p_def [symmetric] m2_def [symmetric])
  have A2: "set (heapAlloc m2) = insert (u, k) (set (heapAlloc m))" using A1 by (subst m2) simp
  then have u2: "(u, k) \<in> set (heapAlloc m2)" by simp
  have "alloc_post m2 4 v m3" using checked_alloc_OK [OF i2, of 4 0 v m3] a2 b(2) s(2) by simp
  then obtain j where i3: "hinv m3" and j: "4 \<le> unat j" and A3: "set (heapAlloc m3) = insert (v, j) (set (heapAlloc m2))"
    and v: "v \<notin> fst ` set (heapAlloc m2)"
    and g3: "\<And>w. isVAddrAllocated m2 w \<Longrightarrow> user_area (heapAlloc m2) w \<Longrightarrow> gread m3 w = gread m2 w"
    by (auto simp: alloc_post_def)
  have u3: "(u, k) \<in> set (heapAlloc m3)" and v3: "(v, j) \<in> set (heapAlloc m3)" using A3 u2 by simp_all
  have ne: "(v, j) \<noteq> (u, k)" using v u2 by (auto simp: image_iff)
  have R2: "GetRealAddr m2 w = GetRealAddr m1 w" for w by (subst m2) simp
  have R3: "GetRealAddr m3 w = GetRealAddr m1 w" for w
    using GetRealAddr_cong [OF checked_alloc_frame(1) [OF a2]] R2 by simp
  have kept: "hmem m3 (p + of_nat i) = hmem m2 (p + of_nat i)" if i: "i < 461432" for i
    using block_byte [OF i2 u2, of i] g3 [of "u + of_nat i"] i k by (simp add: gread_def R2 R3 p_def)
  have same: "hmem m' (p + of_nat i) = hmem m2 (p + of_nat i)" if i: "i < 461432" for i
    using block_write_other [OF i3 u3 _ v3 ne j, of i] kept [OF i] i k by (simp add: r(3) q_def R3 p_def)
  have "load_le 8 (hmem m3) p = load_le 8 (hmem m2) p" by (intro load_le_cong kept) simp
  then have "load_le 4 (hmem m') q = take_bit 32 (load_le 8 (hmem m2) p)"
    by (simp add: r(3) load_store_le del: load_le.simps)
  moreover have "hinv m'"
    unfolding r(3) by (rule hinv_block_write [OF i3 v3 j]) (simp add: q_def [symmetric] store_le_def)
  moreover note A3 [unfolded A2] v [unfolded A2 image_insert fst_conv]
  ultimately show thesis
    using i1 u k imageI [OF v3, of fst] u3 same new
    by (intro that [of m1 u k j]) (simp_all add: r p_def m2_def q_def R3)
qed

text \<open>The first frame.\<close>

lemma paint_black:
  assumes "load_le 2 (hmem m) (p + LCD_xRes) = 320" "load_le 2 (hmem m) (p + LCD_yRes) = 240"
    and "\<And>i. i < 76800 \<Longrightarrow> load_le 2 (hmem m) (p + LCD_buffer + 2 * of_nat i) = 0"
  shows "paint_frame \<lparr>activeLCD = p, activeLCDPtr = a, brightness_level = 2\<rparr> m
    = replicate (320 * 240) (Some 0xFF000000)"
proof -
  have px: "paint_pixel 2 0 = Some 0xFF000000" by (simp add: paint_pixel_def scale_def widen5_def channel_def)
  have "map (\<lambda>i. paint_pixel 2 (ucast (load_le 2 (hmem m) (p + LCD_buffer + 2 * of_nat i)))) [0..<76800]
      = map (\<lambda>i. Some 0xFF000000) [0..<76800]" by (intro map_cong refl) (simp add: px assms(3) del: load_le.simps)
  then show ?thesis using assms(1,2) by (simp add: paint_frame_def map_replicate_const del: load_le.simps)
qed

text \<open>
  C40. The display can be reached.  The first \<open>GetActiveLCD\<close> on a sound heap, when neither allocation
  fails, keeps the heap sound and returns a live guest pointer; the word there is the guest address of
  the display's description, which gives the resolution and the guest address of the frame buffer; that
  buffer lies inside one live allocation, 20 bytes behind the description; and the first frame shown
  has 320 by 240 black pixels.
\<close>

theorem display_reachable:
  assumes "hinv m" "GetActiveLCD junk (None, m) = Some (a, Some lh, m')" "breaks m' = breaks m"
  shows "hinv m' \<and> a \<in> fst ` set (heapAlloc m')
    \<and> (\<exists>magic u k. sz magic = load_le 4 (hmem m') (GetRealAddr m' a)
         \<and> load_le 2 (hmem m') (GetRealAddr m' magic + 2) = 320
         \<and> load_le 2 (hmem m') (GetRealAddr m' magic + 4) = 240
         \<and> load_le 4 (hmem m') (GetRealAddr m' magic + 16) = sz (magic + 20)
         \<and> (u, k) \<in> set (heapAlloc m') \<and> u \<le> magic
         \<and> unat magic + 20 + 2 * (320 * 240 * 3) \<le> unat u + unat k)
    \<and> paint_frame lh m' = replicate (320 * 240) (Some 0xFF000000)"
proof -
  obtain m1 u k j where
    H: "hinv m1" "(u, k) \<in> set (heapAlloc m1)" "461432 \<le> unat k"
      "hinv m'" "a \<in> fst ` set (heapAlloc m')" "(u, k) \<in> set (heapAlloc m')"
      "lh = \<lparr>activeLCD = GetRealAddr m1 u, activeLCDPtr = a, brightness_level = 2\<rparr>"
    and R: "\<And>w. GetRealAddr m' w = GetRealAddr m1 w"
    and same: "\<And>i. i < 461432 \<Longrightarrow> hmem m' (GetRealAddr m1 u + of_nat i)
          = hmem (LCD_new (GetRealAddr m1 u) m1) (GetRealAddr m1 u + of_nat i)"
    and word: "load_le 4 (hmem m') (GetRealAddr m' a)
          = take_bit 32 (load_le 8 (hmem (LCD_new (GetRealAddr m1 u) m1)) (GetRealAddr m1 u))"
    by (rule first_use [OF assms]) (rule that)
  define p where "p = GetRealAddr m1 u"
  define magic where "magic = u + 612"
  have b: "p + of_nat i = GetRealAddr m1 (u + of_nat i)" "unat (u + of_nat i) = unat u + i"
    "isVAddrAllocated m1 (u + of_nat i)" if "i < 461432" for i
    using block_byte [OF H(1,2), of i] that H(3) by (simp_all add: p_def)
  have ld: "load_le n (hmem m') (p + of_nat k) = load_le n (hmem (LCD_new p m1)) (p + of_nat k)"
    if "k + n \<le> 461432" for n k
    using same [of "k + i" for i] that by (intro load_le_cong) (simp add: add.assoc p_def)
  have pm: "GetRealAddr m' magic = p + 612" "unat magic = unat u + 612"
    using b [of 612] by (simp_all add: magic_def R)
  have "GetVirtualAddr m1 (p + 612) = magic" "GetVirtualAddr m1 (p + 632) = magic + 20"
    using translate_roundtrip [OF hinvD(1) [OF H(1)] b(3) [of 612]] b(1) [of 612]
      translate_roundtrip [OF hinvD(1) [OF H(1)] b(3) [of 632]] b(1) [of 632] by (simp_all add: magic_def)
  note F = LCD_new_fields [of p m1, unfolded lcd_offsets this]
  have w: "load_le 4 (hmem m') (GetRealAddr m' a) = sz magic"
    using word F(1) by (simp add: p_def [symmetric] sz_def del: load_le.simps)
  have f: "load_le 2 (hmem m') (p + 612 + 2) = 320" "load_le 2 (hmem m') (p + 612 + 4) = 240"
    "load_le 4 (hmem m') (p + 612 + 16) = sz (magic + 20)"
    using F(4-6) ld [of 614 2] ld [of 616 2] ld [of 628 4] by (simp_all add: add.assoc del: load_le.simps)
  have "load_le 2 (hmem m') (p + LCD_buffer + 2 * of_nat i) = 0" if "i < 76800" for i
    using ld [of "632 + 2 * i" 2] LCD_new_buffer [OF that, of p m1] that
    by (simp add: lcd_offsets add.assoc del: load_le.simps)
  then have "paint_frame lh m' = replicate (320 * 240) (Some 0xFF000000)"
    unfolding H(7) p_def [symmetric] using F(2,3) ld [of 480 2] ld [of 482 2]
    by (intro paint_black) (simp_all add: lcd_offsets del: load_le.simps)
  moreover have "u \<le> magic" "unat magic + 20 + 2 * (320 * 240 * 3) \<le> unat u + unat k"
    using pm(2) H(3) by (simp_all add: word_le_unat)
  ultimately show ?thesis using H(4-6) w f
    by (intro conjI, simp_all del: load_le.simps)
       (rule exI [of _ magic], intro conjI, simp_all add: pm(1) del: load_le.simps,
        rule exI [of _ u], rule exI [of _ k], simp)
qed

text \<open>On the initial memory manager both allocations succeed.\<close>

lemma DyanmicAlloc_OK_breaks: "DyanmicAlloc m out n = (ERROR_OK, v, m') \<Longrightarrow> breaks m' = breaks m"
  by (auto simp: DyanmicAlloc_def HeapAlloc_def heap_carve_def Let_def split: if_splits option.splits prod.splits)

lemma demo_display:
  obtains a lh m' where "GetActiveLCD 0 (None, demo_mm) = Some (a, Some lh, m')" "breaks m' = breaks demo_mm"
proof -
  have al: "AlignUp (sz 461432) kHeapAlign = 461440" "AlignUp (sz 4) kHeapAlign = 16"
    by (simp_all add: AlignUp_def kHeapAlign_def sz_def)
  have n: "0 < unat (sz 461432)" "0 < unat (sz 4)" by simp_all
  have s: "sizeof_LCD = sz 461432" "(4 :: size_t) = sz 4" by (simp_all add: sizeof_LCD_def sz_def)
  have f: "find (\<lambda>p. unat (AlignUp (sz 461432) kHeapAlign) + 16 \<le> unat (snd p)) (heapFree demo_mm)
    = Some (0x20000000, 0x10000000)" by (simp add: al demo_tables)
  note A = HeapAlloc_Some [OF demo_hinv n(1) size32 f, unfolded al]
  define u where "u = vp (sz 0x20000000 + kCookieSize)"
  define m1 where "m1 = snd (snd (HeapAlloc demo_mm 0 (sz 461432)))"
  have m1: "HeapAlloc demo_mm 0 (sz 461432) = (ERROR_OK, u, m1)" "hinv m1"
    "heapFree m1 = take_front 0x20000000 0x10000000 (461440 + 2 * kCookieSize) (heapFree demo_mm)"
    "heapAlloc m1 = um_emplace u 461440 (heapAlloc demo_mm)"
    using A(1) [of 0] A(2) by (simp_all add: m1_def u_def)
  then have d1: "DyanmicAlloc demo_mm 0 (sz 461432) = (ERROR_OK, u, m1)" by (simp add: DyanmicAlloc_def)
  have f1: "heapFree m1 = [(0x20070A90, 0x0FF8F570)]"
    using m1(3) by (simp add: demo_tables take_front_def kCookieSize_def vp_def)
  have a1: "checked_alloc 0 sizeof_LCD demo_mm = (u, m1)" by (simp add: checked_alloc_def s(1) d1)
  have inr: "in_heap (unat u)" by (simp add: u_def vp_def sz_def kCookieSize_def in_heap_def)
  define p where "p = GetRealAddr m1 u"
  have p0: "p \<noteq> 0" using heap_translate_nz [OF hinvD(1) [OF m1(2)] inr] by (simp add: p_def)
  define m2 where "m2 = LCD_new p m1"
  have m2: "m2 = m1\<lparr>hmem := hmem m2\<rparr>" by (simp add: m2_def LCD_new_def Let_def)
  have f2: "heapFree m2 = [(0x20070A90, 0x0FF8F570)]" by (subst m2) (simp add: f1)
  have u1: "(u, 461440) \<in> set (heapAlloc m1)" using m1(4) by (simp add: demo_tables um_emplace_def)
  have i2: "hinv m2"
    using hinv_block_write [OF m1(2) u1, of 461432 "hmem m2"] LCD_new_outside [of _ p m1] m2
    by (simp add: p_def [symmetric] m2_def [symmetric])
  obtain v m3 where d2: "DyanmicAlloc m2 0 (sz 4) = (ERROR_OK, v, m3)" and P: "alloc_post m2 4 v m3"
    using DyanmicAlloc_cases [OF i2, of 4 0] by (auto simp: f2 al)
  have a2: "checked_alloc 0 4 m2 = (v, m3)" by (simp add: checked_alloc_def s(2) d2)
  obtain k where v3: "hinv m3" "(v, k) \<in> set (heapAlloc m3)" using P by (auto simp: alloc_post_def)
  have "in_heap (unat v)" using alloc_in_heap [OF hinvD(2) [OF v3(1)] v3(2)] by (auto simp: in_heap_def)
  then have q0: "GetRealAddr m3 v \<noteq> 0" using heap_translate_nz [OF hinvD(1) [OF v3(1)]] by blast
  have "breaks m2 = breaks m1" by (subst m2) simp
  then have "breaks m3 = breaks demo_mm" using DyanmicAlloc_OK_breaks [OF d1] DyanmicAlloc_OK_breaks [OF d2] by simp
  then show thesis using p0 q0
    by (intro that [of v "\<lparr>activeLCD = p, activeLCDPtr = v, brightness_level = 2\<rparr>"
          "m3\<lparr>hmem := store_le 4 (hmem m3) (GetRealAddr m3 v) (load_le 8 (hmem m3) p)\<rparr>"])
       (simp_all add: GetActiveLCD_def LCDHandler_GetInstance_def InitActiveLCD_def Let_def a1 a2
         p_def [symmetric] m2_def [symmetric] del: load_le.simps)
qed

theorem display_reachable_witness:
  "\<exists>a lh m'. GetActiveLCD 0 (None, demo_mm) = Some (a, Some lh, m')
     \<and> paint_frame lh m' = replicate (320 * 240) (Some 0xFF000000)"
proof -
  obtain a lh m' where d: "GetActiveLCD 0 (None, demo_mm) = Some (a, Some lh, m')" "breaks m' = breaks demo_mm"
    by (rule demo_display)
  from display_reachable [OF demo_hinv d] d(1) show ?thesis by blast
qed

end
