(* ===== verification/FindFiles.thy ===== *)
theory FindFiles
  imports VFiles
begin

text \<open>
  Directory searches (PrimU/system.cpp 1236-1616): wildcard matching, 8.3 names, and the search
  contexts that keep the rest of a directory iteration and the guest copies of the names found.
  A directory iterator is the list of the entries it has not visited.
\<close>

section \<open>Names and attributes\<close>

fun nonempty_suffixes :: "'a list \<Rightarrow> 'a list list" where
  "nonempty_suffixes [] = []"
| "nonempty_suffixes (c # t) = (c # t) # nonempty_suffixes t"

text \<open>
  The match of one pattern character after another; after a run of \<open>*\<close> the rest of the pattern is
  tried at every remaining position of the text.
\<close>

function wildcard_match :: "string \<Rightarrow> string \<Rightarrow> bool" where
  "wildcard_match [] t = (t = [])"
| "wildcard_match (c # p) t =
     (if c = CHR ''*'' then
        let p' = dropWhile (\<lambda>c. c = CHR ''*'') p
        in p' = [] \<or> list_ex (\<lambda>s. wildcard_match p' s) (nonempty_suffixes t)
      else
        case t of [] \<Rightarrow> False
        | d # t' \<Rightarrow> (c = CHR ''?'' \<or> tolower c = tolower d) \<and> wildcard_match p t')"
  by pat_completeness auto
termination
  by (relation "measure (\<lambda>(p, t). length p)") (auto simp: le_imp_less_Suc length_dropWhile_le)

definition isalnum :: "char \<Rightarrow> bool" where
  "isalnum c \<longleftrightarrow> CHR ''0'' \<le> c \<and> c \<le> CHR ''9'' \<or> CHR ''A'' \<le> toupper c \<and> toupper c \<le> CHR ''Z''"

definition sanitize :: "nat \<Rightarrow> string \<Rightarrow> string" where
  "sanitize max_len s = take max_len (filter (\<lambda>c. isalnum c \<or> c = CHR ''_'') s)"

text \<open>\<open>find_last_of('.')\<close>.\<close>

definition last_dot :: "string \<Rightarrow> nat option" where
  "last_dot s =
     (if CHR ''.'' \<in> set s then Some (length s - 1 - length (takeWhile (\<lambda>c. c \<noteq> CHR ''.'') (rev s)))
      else None)"

definition create_sfn :: "string \<Rightarrow> string" where
  "create_sfn lfn =
     (let (name, ext) =
            (case last_dot lfn of
               Some d \<Rightarrow> if d > 0 \<and> d < length lfn - 1 then (take d lfn, drop (Suc d) lfn) else (lfn, [])
             | None \<Rightarrow> (lfn, []));
          name = sanitize 8 name; ext = sanitize 3 ext
      in map toupper (name @ (if ext \<noteq> [] then CHR ''.'' # ext else [])))"

text \<open>The arithmetic of \<open>pack_dos_datetime\<close> on the fields of the local time.\<close>

definition pack_dos_datetime :: "int \<Rightarrow> int \<Rightarrow> int \<Rightarrow> int \<Rightarrow> int \<Rightarrow> int \<Rightarrow> u32" where
  "pack_dos_datetime tm_year tm_mon tm_mday tm_hour tm_min tm_sec =
     (let year = (if tm_year \<ge> 80 then of_int (tm_year - 80) else 0) :: u16;
          dos_date = push_bit 9 year OR push_bit 5 (of_int (tm_mon + 1)) OR of_int tm_mday;
          dos_time = push_bit 11 (of_int tm_hour) OR push_bit 5 (of_int tm_min) OR of_int (tm_sec div 2) :: u16
      in push_bit 16 (ucast dos_date) OR ucast dos_time)"

record dir_entry =
  de_name :: string
  de_uname :: "u16 list"
  de_is_directory :: bool
  de_is_regular :: bool
  de_writable :: bool
  de_size :: nat

definition get_fat_attributes :: "dir_entry \<Rightarrow> byte" where
  "get_fat_attributes e =
     (if de_is_directory e then 0x10 else 0x20)
     OR (if \<not> de_writable e then 0x01 else 0)
     OR (if de_name e \<noteq> [] \<and> hd (de_name e) = CHR ''.'' then 0x02 else 0)"

section \<open>Search contexts\<close>

record InternalFindContext =
  fc_iterator :: "dir_entry list"
  fc_pattern :: string
  fc_attrib_mask :: u32
  fc_lfn :: VirtPtr
  fc_sfn :: VirtPtr

record 'w search =
  se_paths :: paths
  se_mm :: MemoryManager
  se_world :: 'w
  g_find_contexts :: "(64 word \<times> InternalFindContext) list"
  g_next_find_handle :: "64 word"

record 'w dirs = "'w host_fs" +
  is_directory :: "string \<Rightarrow> 'w \<Rightarrow> bool"
  directory_iterator :: "string \<Rightarrow> 'w \<Rightarrow> dir_entry list option"

definition fs_of_dirs :: "'w dirs \<Rightarrow> 'w host_fs" where
  "fs_of_dirs d = \<lparr>fs_exists = fs_exists d, create_directories = create_directories d\<rparr>"

text \<open>
  A field of the guest's \<open>find_context_t\<close> at the host address \<open>p\<close> of the structure.  Its layout is the
  host's: \<open>size\<close> is a 64-bit \<open>size_t\<close> at offset 24, behind four bytes of padding.
\<close>

definition ctx_store :: "nat \<Rightarrow> RealPtr \<Rightarrow> nat \<Rightarrow> 64 word \<Rightarrow> MemoryManager \<Rightarrow> MemoryManager" where
  "ctx_store n p off v m = m\<lparr>hmem := store_le n (hmem m) (p + of_nat off) v\<rparr>"

definition ctx_handle :: "MemoryManager \<Rightarrow> RealPtr \<Rightarrow> 64 word" where
  "ctx_handle m p = load_le 4 (hmem m) p"

definition free_name :: "VirtPtr \<Rightarrow> MemoryManager \<Rightarrow> MemoryManager proc" where
  "free_name v m = (if v \<noteq> 0 then proc_bind (DynamicFree m v) (\<lambda>(e, m'). Returned m') else Returned m)"

definition entry_matches :: "string \<Rightarrow> u32 \<Rightarrow> dir_entry \<Rightarrow> bool" where
  "entry_matches pattern amask e \<longleftrightarrow> wildcard_match pattern (de_name e)
     \<and> \<not> (amask \<noteq> 0 \<and> ucast (get_fat_attributes e) AND amask = 0)"

text \<open>The fixed fields of a match.\<close>

definition fill_fields :: "RealPtr \<Rightarrow> u32 \<Rightarrow> dir_entry \<Rightarrow> MemoryManager \<Rightarrow> MemoryManager" where
  "fill_fields p amask e m =
     (let m = ctx_store 8 p 24 (if de_is_regular e then of_nat (de_size e) else 0) m;
          m = ctx_store 4 p 36 0 m;
          m = ctx_store 4 p 32 0 m;
          m = ctx_store 4 p 40 0 m;
          m = ctx_store 1 p 45 (ucast (get_fat_attributes e)) m
      in ctx_store 1 p 44 (ucast amask) m)"

text \<open>A name copied to a fresh guest block: the pointer kept in the context, and the manager.\<close>

definition put_name :: "byte list \<Rightarrow> nat list \<Rightarrow> RealPtr \<Rightarrow> MemoryManager \<Rightarrow> VirtPtr \<times> MemoryManager" where
  "put_name bytes offs p m =
     (let (e, v, m') = DyanmicAlloc m 0 (of_nat (length bytes))
      in if e = ERROR_OK then
           let m' = m'\<lparr>hmem := store_bytes (hmem m') (GetRealAddr m' v) bytes\<rparr>
           in (v, fold (\<lambda>off. ctx_store 4 p off (sz v)) offs m')
         else (v, m'))"

definition narrow_bytes :: "string \<Rightarrow> byte list" where
  "narrow_bytes s = map (\<lambda>c. of_char c) s @ [0]"

fun wide_bytes :: "u16 list \<Rightarrow> byte list" where
  "wide_bytes [] = [0, 0]"
| "wide_bytes (c # ws) = ucast c # ucast (drop_bit 8 c) # wide_bytes ws"

definition set_ctx :: "64 word \<Rightarrow> InternalFindContext \<Rightarrow> 'w search \<Rightarrow> 'w search" where
  "set_ctx h c s = s\<lparr>g_find_contexts := um_set h c (g_find_contexts s)\<rparr>"

text \<open>The part of \<open>find_next_internal\<close> that reports the entry \<open>e\<close>; \<open>es\<close> is what follows it.\<close>

definition report_entry ::
  "64 word \<Rightarrow> InternalFindContext \<Rightarrow> dir_entry \<Rightarrow> dir_entry list \<Rightarrow> RealPtr \<Rightarrow> 'w search \<Rightarrow> 'w search" where
  "report_entry h c e es p s =
     (let m = fill_fields p (fc_attrib_mask c) e (se_mm s);
          (sfn, m) = put_name (narrow_bytes (create_sfn (de_name e))) [12, 16] p m;
          (lfn, m) = put_name (wide_bytes (de_uname e)) [8] p m
      in set_ctx h (c\<lparr>fc_iterator := es, fc_sfn := sfn, fc_lfn := lfn\<rparr>) (s\<lparr>se_mm := m\<rparr>))"

definition find_next_internal :: "VirtPtr \<Rightarrow> 'w search \<Rightarrow> (u32 \<times> 'w search) proc" where
  "find_next_internal ctx s =
     (let p = GetRealAddr (se_mm s) ctx
      in if p = 0 then Returned (- 1, s)
         else let h = ctx_handle (se_mm s) p in
           case map_of (g_find_contexts s) h of
             None \<Rightarrow> Returned (- 1, s)
           | Some c \<Rightarrow>
               proc_bind (free_name (fc_sfn c) (se_mm s)) (\<lambda>m1.
               proc_bind (free_name (fc_lfn c) m1) (\<lambda>m2.
                 let c = c\<lparr>fc_sfn := 0, fc_lfn := 0\<rparr>; s = s\<lparr>se_mm := m2\<rparr>
                 in case dropWhile (\<lambda>e. \<not> entry_matches (fc_pattern c) (fc_attrib_mask c) e) (fc_iterator c) of
                      [] \<Rightarrow> Returned (- 1, set_ctx h (c\<lparr>fc_iterator := []\<rparr>) s)
                    | e # es \<Rightarrow> Returned (0, report_entry h c e es p s))))"

text \<open>\<open>fs::path::filename\<close> on Windows: what follows the last separator, or the drive of a path like \<open>C:a\<close>.\<close>

definition path_filename :: "string \<Rightarrow> string" where
  "path_filename p = rev (takeWhile (\<lambda>c. \<not> is_sep c) (rev (snd (split_root_name p))))"

text \<open>The directory and the name pattern that a path stands for, and the state after the mapping.\<close>

definition search_dir ::
  "'w dirs \<Rightarrow> string \<Rightarrow> paths \<times> 'w \<Rightarrow> (string \<times> string \<times> paths \<times> 'w) option" where
  "search_dir d vm_pattern s =
     Option.bind (MapVMPathToHost (fs_of_dirs d) (Some vm_pattern) s) (\<lambda>(host_path, st, w).
       let (dir, pattern) = (if is_directory d host_path w then (host_path, ''*'')
                             else (parent_path host_path, path_filename host_path))
       in map_option (\<lambda>(dir, st, w). (dir, pattern, st, w))
            (if dir = [] \<or> dir = ''.'' then MapVMPathToHost (fs_of_dirs d) None (st, w) else Some (dir, st, w)))"

definition find_first_internal ::
  "'w dirs \<Rightarrow> string \<Rightarrow> VirtPtr \<Rightarrow> u32 \<Rightarrow> 'w search \<Rightarrow> (u32 \<times> 'w search) proc option" where
  "find_first_internal d vm_pattern ctx amask s =
     Option.bind (search_dir d vm_pattern (se_paths s, se_world s)) (\<lambda>(dir, pattern, st, w).
       let s = s\<lparr>se_paths := st, se_world := w\<rparr>
       in case directory_iterator d dir w of
            None \<Rightarrow> Some (Returned (- 1, s))
          | Some es \<Rightarrow>
              let h = g_next_find_handle s;
                  c = \<lparr>fc_iterator = es, fc_pattern = pattern, fc_attrib_mask = amask,
                       fc_lfn = 0, fc_sfn = 0\<rparr>;
                  p = GetRealAddr (se_mm s) ctx
              in if p = 0 then Some (Returned (- 1, s\<lparr>g_next_find_handle := h + 1\<rparr>))
                 else
                   let m = ctx_store 4 p 0 h (se_mm s); m = ctx_store 4 p 4 0xdeadbeef m
                   in Some (find_next_internal ctx
                        (s\<lparr>g_next_find_handle := h + 1, se_mm := m,
                           g_find_contexts := um_emplace h c (g_find_contexts s)\<rparr>)))"

definition find_close_internal :: "VirtPtr \<Rightarrow> 'w search \<Rightarrow> (u32 \<times> 'w search) proc" where
  "find_close_internal ctx s =
     (let p = GetRealAddr (se_mm s) ctx
      in if p = 0 \<or> ctx_handle (se_mm s) p = 0 then Returned (0, s)
         else let h = ctx_handle (se_mm s) p in
           case map_of (g_find_contexts s) h of
             None \<Rightarrow> Returned (0, s)
           | Some c \<Rightarrow>
               proc_bind (free_name (fc_sfn c) (se_mm s)) (\<lambda>m1.
               proc_bind (free_name (fc_lfn c) m1) (\<lambda>m2.
                 Returned (0, s\<lparr>g_find_contexts := al_erase h (g_find_contexts s),
                   se_mm := fold (\<lambda>off. ctx_store 4 p off 0) [0, 12, 8, 16] m2\<rparr>))))"

section \<open>System calls\<close>

definition afindfirst ::
  "'w dirs \<Rightarrow> SystemServiceArguments \<Rightarrow> 'w search \<Rightarrow> (u32 \<times> 'w search) proc option" where
  "afindfirst d args s =
     (case guest_cstr (se_mm s) (r0 args) of
        None \<Rightarrow> Some (Returned (- 1, s))
      | Some f \<Rightarrow>
          if r1 args = 0 then Some (Returned (- 1, s))
          else find_first_internal d f (r1 args) (r2 args) s)"

definition wfindfirst ::
  "'w dirs \<Rightarrow> SystemServiceArguments \<Rightarrow> 'w search \<Rightarrow> (u32 \<times> 'w search) proc option" where
  "wfindfirst d args s =
     (case guest_wstr (se_mm s) (r0 args) of
        None \<Rightarrow> Some (Returned (- 1, s))
      | Some ws \<Rightarrow>
          if r1 args = 0 then Some (Returned (- 1, s))
          else case wstr_to_utf8 ws of
                 None \<Rightarrow> None
               | Some f \<Rightarrow>
                   find_first_internal d (takeWhile (\<lambda>c. c \<noteq> CHR 0x00) f) (r1 args) (r2 args) s)"

definition findnext :: "SystemServiceArguments \<Rightarrow> 'w search \<Rightarrow> (u32 \<times> 'w search) proc" where
  "findnext args s = (if r0 args = 0 then Returned (- 1, s) else find_next_internal (r0 args) s)"

definition findclose :: "SystemServiceArguments \<Rightarrow> 'w search \<Rightarrow> (u32 \<times> 'w search) proc" where
  "findclose args s = (if r0 args = 0 then Returned (- 1, s) else find_close_internal (r0 args) s)"

section \<open>The matcher against its specification\<close>

text \<open>\<open>*\<close> stands for any text, \<open>?\<close> for any character, other characters for themselves up to case.\<close>

fun glob :: "string \<Rightarrow> string \<Rightarrow> bool" where
  "glob [] t = (t = [])"
| "glob (c # p) t =
     (if c = CHR ''*'' then \<exists>a b. t = a @ b \<and> glob p b
      else \<exists>d b. t = d # b \<and> (c = CHR ''?'' \<or> tolower c = tolower d) \<and> glob p b)"

lemma nonempty_suffixes_iff: "s \<in> set (nonempty_suffixes t) \<longleftrightarrow> s \<noteq> [] \<and> (\<exists>a. t = a @ s)"
proof (induction t)
  case (Cons c t)
  show ?case by (auto simp: Cons Cons_eq_append_conv)
qed auto

lemma glob_star: "glob (dropWhile (\<lambda>c. c = CHR ''*'') p) b \<Longrightarrow> \<exists>a' b'. b = a' @ b' \<and> glob (dropWhile (\<lambda>c. c = CHR ''*'') p) b'"
  by (metis append_Nil)

lemma glob_stars:
  "(\<exists>a b. t = a @ b \<and> glob p b) \<longleftrightarrow> (\<exists>a b. t = a @ b \<and> glob (dropWhile (\<lambda>c. c = CHR ''*'') p) b)"
proof (induction p arbitrary: t)
  case (Cons c p)
  show ?case
  proof (cases "c = CHR ''*''")
    case True
    have "(\<exists>a b. t = a @ b \<and> glob (c # p) b) \<longleftrightarrow> (\<exists>a b. t = a @ b \<and> glob p b)"
      using True by simp (metis append.assoc append_Nil)
    then show ?thesis using Cons [of t] True by simp
  qed simp
qed simp

lemma glob_nonempty: "p \<noteq> [] \<Longrightarrow> hd p \<noteq> CHR ''*'' \<Longrightarrow> glob p b \<Longrightarrow> b \<noteq> []"
  by (cases p) auto

lemma glob_empty_any: "(\<exists>a b. t = a @ b \<and> glob [] b)"
  by simp

text \<open>
  C25. The wildcard matcher decides the usual glob relation: a name matches a pattern exactly when
  every \<open>*\<close> can be replaced by some text and every \<open>?\<close> by some character so that the two agree up to
  the case of letters.
\<close>

theorem wildcard_match_glob: "wildcard_match p t \<longleftrightarrow> glob p t"
proof (induction p t rule: wildcard_match.induct)
  case (2 c p t)
  show ?case
  proof (cases "c = CHR ''*''")
    case True
    define p' where "p' = dropWhile (\<lambda>c. c = CHR ''*'') p"
    have g: "glob (c # p) t \<longleftrightarrow> (\<exists>a b. t = a @ b \<and> glob p' b)"
      using True glob_stars [of t p] by (simp add: p'_def)
    show ?thesis
    proof (cases "p' = []")
      case True
      then show ?thesis using g \<open>c = CHR ''*''\<close> by (simp add: p'_def [symmetric])
    next
      case False
      have h: "hd p' \<noteq> CHR ''*''" using False hd_dropWhile [of "\<lambda>c. c = CHR ''*''" p] by (simp add: p'_def)
      have "wildcard_match (c # p) t \<longleftrightarrow> (\<exists>s\<in>set (nonempty_suffixes t). glob p' s)"
        using True False 2(1) [OF True p'_def] by (auto simp: p'_def [symmetric] list_ex_iff)
      also have "\<dots> \<longleftrightarrow> (\<exists>a b. t = a @ b \<and> glob p' b)"
        using glob_nonempty [OF False h] nonempty_suffixes_iff by metis
      finally show ?thesis using g by simp
    qed
  next
    case False
    then show ?thesis using 2(2) by (auto split: list.split)
  qed
qed simp

text \<open>
  Short names have the 8.3 form: at most eight characters, then nothing or a dot and one to
  three more, all of them upper-case letters, digits or underscores.
\<close>

theorem create_sfn_form:
  "\<exists>name ext. create_sfn lfn = name @ (if ext = [] then [] else CHR ''.'' # ext)
     \<and> length name \<le> 8 \<and> length ext \<le> 3
     \<and> (\<forall>c\<in>set (name @ ext). CHR ''0'' \<le> c \<and> c \<le> CHR ''9'' \<or> CHR ''A'' \<le> c \<and> c \<le> CHR ''Z'' \<or> c = CHR ''_'')"
proof -
  obtain n e where ne: "(case last_dot lfn of
      Some d \<Rightarrow> if d > 0 \<and> d < length lfn - 1 then (take d lfn, drop (Suc d) lfn) else (lfn, [])
    | None \<Rightarrow> (lfn, [])) = (n, e)" by fastforce
  have c: "create_sfn lfn = map toupper (sanitize 8 n)
      @ (if sanitize 3 e = [] then [] else CHR ''.'' # map toupper (sanitize 3 e))"
    using ne by (simp add: create_sfn_def toupper_def)
  have s: "\<forall>c\<in>set (map toupper (sanitize k x)).
      CHR ''0'' \<le> c \<and> c \<le> CHR ''9'' \<or> CHR ''A'' \<le> c \<and> c \<le> CHR ''Z'' \<or> c = CHR ''_''" for k x
  proof
    fix c assume "c \<in> set (map toupper (sanitize k x))"
    then obtain b where b: "c = toupper b" "isalnum b \<or> b = CHR ''_''"
      by (auto simp: sanitize_def dest: in_set_takeD)
    then show "CHR ''0'' \<le> c \<and> c \<le> CHR ''9'' \<or> CHR ''A'' \<le> c \<and> c \<le> CHR ''Z'' \<or> c = CHR ''_''"
      by (auto simp: isalnum_def toupper_def less_eq_char_def)
  qed
  show ?thesis
    using c s [of 8 n] s [of 3 e]
    by (intro exI [of _ "map toupper (sanitize 8 n)"] exI [of _ "map toupper (sanitize 3 e)"])
      (auto simp: sanitize_def)
qed

theorem create_sfn_form_witness:
  "create_sfn ''My Pictures.2004.jpeg'' = ''MYPICTUR.JPE''
   \<and> (\<exists>name ext. create_sfn ''My Pictures.2004.jpeg'' = name @ (if ext = [] then [] else CHR ''.'' # ext)
     \<and> length name \<le> 8 \<and> length ext \<le> 3
     \<and> (\<forall>c\<in>set (name @ ext). CHR ''0'' \<le> c \<and> c \<le> CHR ''9'' \<or> CHR ''A'' \<le> c \<and> c \<le> CHR ''Z'' \<or> c = CHR ''_''))"
  by (rule conjI [OF _ create_sfn_form]) code_simp

end
