(* ===== verification/PELoader.thy ===== *)
theory PELoader
  imports FindFiles "HOL-Library.Monad_Syntax" "HOL-Library.List_Lexorder"
begin

text \<open>
  The loader of ARM PE images (PrimU/PELoader.h, PELoader.cpp).  Header fields are read from the file
  at the offsets of the PE format; a read outside the file is undefined in the code and \<open>None\<close> here,
  as is a loop that does not end.  Images are objects that several tables share, so they live in a
  store and are named by their index.  Every allocation asks the host anew: \<open>hosts k m\<close> answers the
  k-th request, made in the state \<open>m\<close> of the memory manager.
\<close>

section \<open>State\<close>

record BlockInfo =
  bi_vaddr :: u32
  bi_size :: u32
  bi_block :: MemoryBlock

record PEImage =
  pe_path :: string
  preferredImageBase :: u32
  actualImageBase :: u32
  sizeOfImage :: u32
  pe_blocks :: "BlockInfo list"
  exportsByName :: "(string \<times> u32) list"
  exportsByOrdinal :: "(u32 \<times> u32) list"

definition PEImage_new :: PEImage where
  "PEImage_new = \<lparr>pe_path = [], preferredImageBase = 0, actualImageBase = 0, sizeOfImage = 0,
     pe_blocks = [], exportsByName = [], exportsByOrdinal = []\<rparr>"

record loader =
  ld_mm :: MemoryManager
  ld_calls :: nat
  ld_images :: "PEImage list"
  g_loadedPEImages :: "(string \<times> PEImage) list"

record loader_env =
  hosts :: "nat \<Rightarrow> MemoryManager \<Rightarrow> host"
  host_file :: "string \<Rightarrow> byte list option"

text \<open>The table of modules of one load: \<open>None\<close> is the null pointer of an unresolved module.\<close>

type_synonym loaded = "(string \<times> nat option) list"

definition ToLower :: "string \<Rightarrow> string" where
  "ToLower s = map tolower s"

definition ReadFileToVector :: "loader_env \<Rightarrow> string \<Rightarrow> byte list option" where
  "ReadFileToVector env p =
     (case host_file env p of None \<Rightarrow> None | Some bs \<Rightarrow> if bs = [] then None else Some bs)"

definition upd_image :: "nat \<Rightarrow> (PEImage \<Rightarrow> PEImage) \<Rightarrow> loader \<Rightarrow> loader" where
  "upd_image i f st = st\<lparr>ld_images := (ld_images st)[i := f (ld_images st ! i)]\<rparr>"

section \<open>The image in memory\<close>

definition FindBlockForVA :: "BlockInfo list \<Rightarrow> u32 \<Rightarrow> BlockInfo option" where
  "FindBlockForVA bs va = find (\<lambda>b. bi_vaddr b \<le> va \<and> va < bi_vaddr b + bi_size b) bs"

definition HostPtrForVA :: "BlockInfo list \<Rightarrow> u32 \<Rightarrow> RealPtr option" where
  "HostPtrForVA bs va =
     map_option (\<lambda>b. realAddress (bi_block b) + sz (va - bi_vaddr b)) (FindBlockForVA bs va)"

definition load_u32 :: "hmemory \<Rightarrow> RealPtr \<Rightarrow> u32" where
  "load_u32 h p = ucast (load_le 4 h p)"

definition load_u16 :: "hmemory \<Rightarrow> RealPtr \<Rightarrow> u16" where
  "load_u16 h p = ucast (load_le 2 h p)"

definition ReadU32AtVA :: "BlockInfo list \<Rightarrow> u32 \<Rightarrow> hmemory \<Rightarrow> u32 option" where
  "ReadU32AtVA bs va h = map_option (load_u32 h) (HostPtrForVA bs va)"

definition WriteU32AtVA :: "BlockInfo list \<Rightarrow> u32 \<Rightarrow> u32 \<Rightarrow> hmemory \<Rightarrow> hmemory option" where
  "WriteU32AtVA bs va v h = map_option (\<lambda>p. store_le 4 h p (sz v)) (HostPtrForVA bs va)"

section \<open>Memory for an image\<close>

text \<open>\<open>sMemoryManager->StaticAlloc\<close> and \<open>StaticFree\<close> as the loader calls them.\<close>

definition ld_alloc ::
  "loader_env \<Rightarrow> u32 \<Rightarrow> u32 \<Rightarrow> MemoryManager \<times> nat \<Rightarrow> MemoryBlock option \<times> MemoryManager \<times> nat" where
  "ld_alloc env addr n = (\<lambda>(m, k).
     let (e, b, m') = StaticAlloc (hosts env k m) m addr (sz n) None
     in (if e = ERROR_OK then b else None, m', Suc k))"

definition ld_free :: "loader_env \<Rightarrow> u32 \<Rightarrow> MemoryManager \<times> nat \<Rightarrow> MemoryManager \<times> nat" where
  "ld_free env addr = (\<lambda>(m, k). (snd (StaticFree (hosts env k m) m addr), Suc k))"

definition free_blocks :: "loader_env \<Rightarrow> BlockInfo list \<Rightarrow> MemoryManager \<times> nat \<Rightarrow> MemoryManager \<times> nat" where
  "free_blocks env bs s = foldl (\<lambda>s b. ld_free env (bi_vaddr b) s) s bs"

fun first_alloc ::
  "loader_env \<Rightarrow> u32 \<Rightarrow> u32 list \<Rightarrow> MemoryManager \<times> nat \<Rightarrow> (MemoryBlock \<times> u32) option \<times> MemoryManager \<times> nat" where
  "first_alloc env n [] s = (None, s)"
| "first_alloc env n (a # as) s =
     (case ld_alloc env a n s of
        (Some b, s') \<Rightarrow> (Some (b, a), s')
      | (None, s') \<Rightarrow> first_alloc env n as s')"

text \<open>From 0x10000000 to 0x70000000 in steps of 1 MB.\<close>

definition AllocateAny ::
  "loader_env \<Rightarrow> u32 \<Rightarrow> MemoryManager \<times> nat \<Rightarrow> (MemoryBlock \<times> u32) option \<times> MemoryManager \<times> nat" where
  "AllocateAny env n = first_alloc env n (map (\<lambda>i. 0x10000000 + of_nat i * 0x00100000) [0..<0x600])"

text \<open>A stub that returns 0: its address (0 on failure), and the image and manager with it.\<close>

definition CreateReturnZeroStub ::
  "loader_env \<Rightarrow> bool \<Rightarrow> BlockInfo list \<Rightarrow> MemoryManager \<times> nat \<Rightarrow> u32 \<times> BlockInfo list \<times> MemoryManager \<times> nat" where
  "CreateReturnZeroStub env thumb bs s =
     (let n = (if thumb then 4 else 8);
          code = (if thumb then [0x00, 0x20, 0x70, 0x47]
                  else [0x00, 0x00, 0xA0, 0xE3, 0x1E, 0xFF, 0x2F, 0xE1])
      in case AllocateAny env n s of
           (None, s') \<Rightarrow> (0, bs, s')
         | (Some (b, a), m, k) \<Rightarrow>
             (if thumb then a OR 1 else a, bs @ [\<lparr>bi_vaddr = a, bi_size = n, bi_block = b\<rparr>],
              m\<lparr>hmem := store_bytes (hmem m) (realAddress b) code\<rparr>, k))"

section \<open>Headers\<close>

text \<open>A little-endian field of \<open>n\<close> bytes at an offset of the file.\<close>

definition peek :: "nat \<Rightarrow> byte list \<Rightarrow> int \<Rightarrow> u32 option" where
  "peek n buf off =
     (if 0 \<le> off \<and> off + int n \<le> int (length buf)
      then Some (ucast (load_le n (\<lambda>p. buf ! unat p) (of_int off))) else None)"

text \<open>\<open>IMAGE_NT_HEADERS32\<close> at offset \<open>nt\<close>: the fields the loader uses.\<close>

definition number_of_sections :: "byte list \<Rightarrow> int \<Rightarrow> u32 option" where
  "number_of_sections buf nt = peek 2 buf (nt + 6)"

definition image_base :: "byte list \<Rightarrow> int \<Rightarrow> u32 option" where
  "image_base buf nt = peek 4 buf (nt + 24 + 28)"

definition size_of_image :: "byte list \<Rightarrow> int \<Rightarrow> u32 option" where
  "size_of_image buf nt = peek 4 buf (nt + 24 + 56)"

definition data_directory :: "nat \<Rightarrow> byte list \<Rightarrow> int \<Rightarrow> (u32 \<times> u32) option" where
  "data_directory k buf nt =
     do { va \<leftarrow> peek 4 buf (nt + 24 + 96 + 8 * int k);
          n \<leftarrow> peek 4 buf (nt + 24 + 100 + 8 * int k);
          Some (va, n) }"

record section_header =
  s_VirtualSize :: u32
  s_VirtualAddress :: u32
  s_SizeOfRawData :: u32
  s_PointerToRawData :: u32

definition section_at :: "byte list \<Rightarrow> int \<Rightarrow> nat \<Rightarrow> section_header option" where
  "section_at buf nt i =
     do { opt \<leftarrow> peek 2 buf (nt + 20);
          let off = nt + 24 + uint opt + 40 * int i;
          vs \<leftarrow> peek 4 buf (off + 8);
          va \<leftarrow> peek 4 buf (off + 12);
          rs \<leftarrow> peek 4 buf (off + 16);
          rp \<leftarrow> peek 4 buf (off + 20);
          Some \<lparr>s_VirtualSize = vs, s_VirtualAddress = va, s_SizeOfRawData = rs,
                s_PointerToRawData = rp\<rparr> }"

text \<open>The checks of \<open>MapPEIntoMemory\<close>: an error, or the offset of the NT headers.\<close>

definition check_headers :: "byte list \<Rightarrow> (ErrorCode + int) option" where
  "check_headers buf =
     (if length buf < 64 then Some (Inl ERROR_LOADER_READER_FAIL)
      else do {
        magic \<leftarrow> peek 2 buf 0;
        if magic \<noteq> 0x5A4D then Some (Inl ERROR_LOADER_READER_FAIL)
        else do {
          lfanew \<leftarrow> peek 4 buf 60;
          let nt = sint lfanew;
          if length buf < unat (of_int nt + 248 :: size_t) then Some (Inl ERROR_LOADER_READER_FAIL)
          else do {
            sig \<leftarrow> peek 4 buf nt;
            if sig \<noteq> 0x4550 then Some (Inl ERROR_LOADER_READER_FAIL)
            else do {
              optmagic \<leftarrow> peek 2 buf (nt + 24);
              if optmagic \<noteq> 0x10B then Some (Inl ERROR_LOADER_INCORRECT_ATTRIBUTE)
              else do {
                n \<leftarrow> size_of_image buf nt;
                if n = 0 then Some (Inl ERROR_LOADER_INCORRECT_ATTRIBUTE) else Some (Inr nt) } } } } })"

section \<open>Sections\<close>

datatype placement = Placed | NoSpace | Truncated

text \<open>The bytes of a section: its raw data, then zeros up to its size.\<close>

definition fill_section :: "byte list \<Rightarrow> section_header \<Rightarrow> RealPtr \<Rightarrow> u32 \<Rightarrow> hmemory \<Rightarrow> hmemory" where
  "fill_section buf s dest n h =
     (let raw = s_SizeOfRawData s
      in if raw > 0 then
           let h = store_bytes h dest (take (unat raw) (drop (unat (s_PointerToRawData s)) buf))
           in if n > raw then mem_fill h (dest + sz raw) (sz (n - raw)) 0 else h
         else mem_fill h dest (sz n) 0)"

definition section_size :: "section_header \<Rightarrow> u32" where
  "section_size s = max (s_VirtualSize s) (s_SizeOfRawData s)"

definition place_section ::
  "loader_env \<Rightarrow> byte list \<Rightarrow> u32 \<Rightarrow> section_header \<Rightarrow> BlockInfo list \<times> MemoryManager \<times> nat
     \<Rightarrow> placement \<times> BlockInfo list \<times> MemoryManager \<times> nat" where
  "place_section env buf base s = (\<lambda>(bs, m, k).
     let va = base + s_VirtualAddress s; n = section_size s
     in if n = 0 then (Placed, bs, m, k)
        else case ld_alloc env va n (m, k) of
               (None, m, k) \<Rightarrow> (NoSpace, bs, m, k)
             | (Some b, m, k) \<Rightarrow>
                 if s_SizeOfRawData s > 0
                   \<and> unat (s_PointerToRawData s) + unat (s_SizeOfRawData s) > length buf
                 then (Truncated, bs, ld_free env va (m, k))
                 else (Placed, bs @ [\<lparr>bi_vaddr = va, bi_size = n, bi_block = b\<rparr>],
                       m\<lparr>hmem := fill_section buf s (realAddress b) n (hmem m)\<rparr>, k))"

text \<open>The loop over the section headers, which the code has twice.\<close>

fun place_sections ::
  "loader_env \<Rightarrow> byte list \<Rightarrow> int \<Rightarrow> u32 \<Rightarrow> nat list \<Rightarrow> BlockInfo list \<times> MemoryManager \<times> nat
     \<Rightarrow> (placement \<times> BlockInfo list \<times> MemoryManager \<times> nat) option" where
  "place_sections env buf nt base [] s = Some (Placed, s)"
| "place_sections env buf nt base (i # is) s =
     do { sec \<leftarrow> section_at buf nt i;
          case place_section env buf base sec s of
            (Placed, s') \<Rightarrow> place_sections env buf nt base is s'
          | r \<Rightarrow> Some r }"

text \<open>The trial of a candidate base: each section is allocated and released at once.\<close>

fun base_fits ::
  "loader_env \<Rightarrow> byte list \<Rightarrow> int \<Rightarrow> u32 \<Rightarrow> nat list \<Rightarrow> MemoryManager \<times> nat
     \<Rightarrow> (bool \<times> MemoryManager \<times> nat) option" where
  "base_fits env buf nt base [] s = Some (True, s)"
| "base_fits env buf nt base (i # is) s =
     do { sec \<leftarrow> section_at buf nt i;
          let va = base + s_VirtualAddress sec;
          if section_size sec = 0 then base_fits env buf nt base is s
          else case ld_alloc env va (section_size sec) s of
                 (None, s') \<Rightarrow> Some (False, s')
               | (Some b, s') \<Rightarrow> base_fits env buf nt base is (ld_free env va s') }"

fun find_base ::
  "loader_env \<Rightarrow> byte list \<Rightarrow> int \<Rightarrow> nat list \<Rightarrow> u32 list \<Rightarrow> MemoryManager \<times> nat
     \<Rightarrow> (u32 option \<times> MemoryManager \<times> nat) option" where
  "find_base env buf nt is [] s = Some (None, s)"
| "find_base env buf nt is (c # cs) s =
     do { (ok, s') \<leftarrow> base_fits env buf nt c is s;
          if ok then Some (Some c, s') else find_base env buf nt is cs s' }"

definition base_candidates :: "u32 list" where
  "base_candidates = map (\<lambda>i. 0x20000000 + of_nat i * 0x00100000) [0..<0x400]"

section \<open>Relocations\<close>

text \<open>The entries of one relocation block, \<open>n\<close> of them from \<open>p\<close> on; \<open>None\<close> is the reader error.\<close>

fun reloc_entries ::
  "BlockInfo list \<Rightarrow> u32 \<Rightarrow> u32 \<Rightarrow> nat \<Rightarrow> RealPtr \<Rightarrow> hmemory \<Rightarrow> hmemory option" where
  "reloc_entries bs page delta 0 p h = Some h"
| "reloc_entries bs page delta (Suc n) p h =
     (let e = load_u16 h p; offset = ucast (e AND 0x0FFF) :: u32
      in if drop_bit 12 e = 3 then
           do { orig \<leftarrow> ReadU32AtVA bs (page + offset) h;
                h' \<leftarrow> WriteU32AtVA bs (page + offset) (orig + delta) h;
                reloc_entries bs page delta n (p + 2) h' }
         else reloc_entries bs page delta n (p + 2) h)"

text \<open>The loop over the blocks; the inner option is the error, the outer one termination.\<close>

partial_function (option) reloc_blocks ::
  "BlockInfo list \<Rightarrow> u32 \<Rightarrow> u32 \<Rightarrow> u32 \<Rightarrow> u32 \<Rightarrow> hmemory \<Rightarrow> hmemory option option" where
  "reloc_blocks bs base delta fin cur h =
     (if \<not> cur < fin then Some (Some h)
      else case HostPtrForVA bs (base + cur) of
             None \<Rightarrow> Some None
           | Some p \<Rightarrow>
               if load_u32 h (p + 4) < 8 then Some None
               else case reloc_entries bs (base + load_u32 h p) delta
                           (unat ((load_u32 h (p + 4) - 8) div 2)) (p + 8) h of
                      None \<Rightarrow> Some None
                    | Some h' \<Rightarrow> reloc_blocks bs base delta fin (cur + load_u32 h (p + 4)) h')"

definition ApplyRelocations ::
  "BlockInfo list \<Rightarrow> u32 \<Rightarrow> u32 \<times> u32 \<Rightarrow> u32 \<Rightarrow> hmemory \<Rightarrow> hmemory option option" where
  "ApplyRelocations bs base dir delta h =
     (if delta = 0 \<or> snd dir = 0 then Some (Some h)
      else reloc_blocks bs base delta (fst dir + snd dir) (fst dir) h)"

section \<open>Exports\<close>

text \<open>The loop over the functions: ordinals in order.\<close>

fun fill_ordinals :: "u32 \<Rightarrow> u32 \<Rightarrow> RealPtr \<Rightarrow> hmemory \<Rightarrow> nat list \<Rightarrow> PEImage \<Rightarrow> PEImage" where
  "fill_ordinals base ord fns h [] img = img"
| "fill_ordinals base ord fns h (i # is) img =
     fill_ordinals base ord fns h is
       (img\<lparr>exportsByOrdinal := um_set (ord + of_nat i) (base + load_u32 h (fns + 4 * of_nat i))
                                 (exportsByOrdinal img)\<rparr>)"

text \<open>
  The loop over the names; \<open>None\<close> when the table of functions is missing but a name needs it.
\<close>

fun fill_names ::
  "u32 \<Rightarrow> RealPtr option \<Rightarrow> RealPtr \<Rightarrow> RealPtr \<Rightarrow> hmemory \<Rightarrow> nat list \<Rightarrow> PEImage \<Rightarrow> PEImage option" where
  "fill_names base fns names ords h [] img = Some img"
| "fill_names base fns names ords h (i # is) img =
     (case HostPtrForVA (pe_blocks img) (base + load_u32 h (names + 4 * of_nat i)) of
        None \<Rightarrow> fill_names base fns names ords h is img
      | Some p \<Rightarrow>
          do { f \<leftarrow> fns;
               let k = load_u16 h (ords + 2 * of_nat i);
               let va = base + load_u32 h (f + 4 * ucast k);
               fill_names base fns names ords h is
                 (img\<lparr>exportsByName := om_set (read_cstr h p) va (exportsByName img)\<rparr>) })"

text \<open>
  \<open>IMAGE_EXPORT_DIRECTORY\<close>: \<open>Base\<close> at 16, \<open>NumberOfFunctions\<close> at 20, \<open>NumberOfNames\<close> at 24, then
  the three table addresses.
\<close>

definition ParseAndFillExports :: "u32 \<times> u32 \<Rightarrow> hmemory \<Rightarrow> PEImage \<Rightarrow> PEImage option" where
  "ParseAndFillExports dir h img =
     (if snd dir = 0 then Some img
      else
        let base = actualImageBase img; ptr = HostPtrForVA (pe_blocks img)
        in case ptr (base + fst dir) of
             None \<Rightarrow> Some img
           | Some e \<Rightarrow>
               let fns = ptr (base + load_u32 h (e + 28));
                   names = ptr (base + load_u32 h (e + 32));
                   ords = ptr (base + load_u32 h (e + 36));
                   img1 = (case fns of
                             None \<Rightarrow> img
                           | Some f \<Rightarrow> fill_ordinals base (load_u32 h (e + 16)) f h
                                        [0..<unat (load_u32 h (e + 20))] img)
               in case (names, ords) of
                    (Some ns, Some os) \<Rightarrow>
                      fill_names base fns ns os h [0..<unat (load_u32 h (e + 24))] img1
                  | _ \<Rightarrow> Some img1)"

section \<open>Imports\<close>

text \<open>The address a thunk resolves to in the module it is imported from.\<close>

definition resolve_thunk :: "PEImage \<Rightarrow> PEImage option \<Rightarrow> u32 \<Rightarrow> hmemory \<Rightarrow> u32 option" where
  "resolve_thunk img dep thunk h =
     (if thunk AND 0x80000000 \<noteq> 0 then
        Option.bind dep (\<lambda>d. map_of (exportsByOrdinal d) (thunk AND 0xFFFF))
      else
        Option.bind (HostPtrForVA (pe_blocks img) (actualImageBase img + thunk)) (\<lambda>p.
          Option.bind dep (\<lambda>d. map_of (exportsByName d) (read_cstr h (p + 2)))))"

text \<open>
  The loop over the thunks of one import descriptor of image \<open>o\<close>, with the image found for the
  module re-read at each turn, as it may still be under construction.
\<close>

fun resolve_thunks ::
  "loader_env \<Rightarrow> nat \<Rightarrow> nat \<Rightarrow> nat option \<Rightarrow> u32 \<Rightarrow> u32 \<Rightarrow> loader \<Rightarrow> (ErrorCode \<times> loader) option" where
  "resolve_thunks env 0 i dep oft ft st = None"
| "resolve_thunks env (Suc fuel) i dep oft ft st =
     (let img = ld_images st ! i
      in case ReadU32AtVA (pe_blocks img) oft (hmem (ld_mm st)) of
           None \<Rightarrow> Some (ERROR_LOADER_READER_FAIL, st)
         | Some thunk \<Rightarrow>
             if thunk = 0 then Some (ERROR_OK, st)
             else
               let (addr, st) =
                 (case resolve_thunk img (map_option (\<lambda>d. ld_images st ! d) dep) thunk (hmem (ld_mm st)) of
                    Some a \<Rightarrow> (Some a, st)
                  | None \<Rightarrow>
                      let (a, bs, m, k) = CreateReturnZeroStub env True (pe_blocks img) (ld_mm st, ld_calls st);
                          st = upd_image i (\<lambda>g. g\<lparr>pe_blocks := bs\<rparr>) (st\<lparr>ld_mm := m, ld_calls := k\<rparr>)
                      in (if a = 0 then None else Some a, st))
               in case addr of
                    None \<Rightarrow> Some (ERROR_GENERIC, st)
                  | Some a \<Rightarrow>
                      (case WriteU32AtVA (pe_blocks (ld_images st ! i)) ft a (hmem (ld_mm st)) of
                         None \<Rightarrow> Some (ERROR_LOADER_READER_FAIL, st)
                       | Some h \<Rightarrow> resolve_thunks env fuel i dep (oft + 4) (ft + 4)
                                     (st\<lparr>ld_mm := (ld_mm st)\<lparr>hmem := h\<rparr>\<rparr>)))"

text \<open>\<open>find_last_of("\\/")\<close>: the file name part of a module name, in lower case.\<close>

definition dll_name :: "string \<Rightarrow> string" where
  "dll_name s = rev (takeWhile (\<lambda>c. \<not> is_sep c) (rev (ToLower s)))"

text \<open>
  The module a descriptor names: the one already known to this load, or a new object that is
  entered in the table before it is loaded, so that modules that import each other find it.
\<close>

definition find_module ::
  "loader_env \<Rightarrow> (byte list \<Rightarrow> string \<Rightarrow> nat \<Rightarrow> loaded \<times> loader \<Rightarrow> (ErrorCode \<times> loaded \<times> loader) option)
     \<Rightarrow> string \<Rightarrow> string \<Rightarrow> loaded \<times> loader \<Rightarrow> (ErrorCode \<times> nat option \<times> loaded \<times> loader) option" where
  "find_module env map_dep sysdir name = (\<lambda>(ld, st).
     case map_of ld name of
       Some (Some d) \<Rightarrow> Some (ERROR_OK, Some d, ld, st)
     | _ \<Rightarrow>
         let d = length (ld_images st); st = st\<lparr>ld_images := ld_images st @ [PEImage_new]\<rparr>;
             path = sysdir @ bsl # name
         in case ReadFileToVector env path of
              None \<Rightarrow> Some (ERROR_OK, None, om_set name None ld, st)
            | Some buf \<Rightarrow>
                do { (e, ld, st) \<leftarrow> map_dep buf path d (om_set name (Some d) ld, st);
                     if e \<noteq> ERROR_OK then Some (e, None, ld, st)
                     else Some (ERROR_OK, Some d, om_set name (Some d) ld, st) })"

text \<open>
  The loop over the import descriptors: \<open>OriginalFirstThunk\<close> at 0, \<open>Name\<close> at 12, \<open>FirstThunk\<close> at 16.
\<close>

fun resolve_descriptors ::
  "loader_env \<Rightarrow> (byte list \<Rightarrow> string \<Rightarrow> nat \<Rightarrow> loaded \<times> loader \<Rightarrow> (ErrorCode \<times> loaded \<times> loader) option)
     \<Rightarrow> string \<Rightarrow> nat \<Rightarrow> nat \<Rightarrow> RealPtr \<Rightarrow> loaded \<times> loader \<Rightarrow> (ErrorCode \<times> loaded \<times> loader) option" where
  "resolve_descriptors env map_dep sysdir 0 i p s = None"
| "resolve_descriptors env map_dep sysdir (Suc fuel) i p (ld, st) =
     (let img = ld_images st ! i; base = actualImageBase img; h = hmem (ld_mm st);
          name = load_u32 h (p + 12)
      in if name = 0 then Some (ERROR_OK, ld, st)
         else case HostPtrForVA (pe_blocks img) (base + name) of
                None \<Rightarrow> Some (ERROR_LOADER_READER_FAIL, ld, st)
              | Some np \<Rightarrow>
                  do { (e, dep, ld, st) \<leftarrow> find_module env map_dep sysdir (dll_name (read_cstr h np)) (ld, st);
                       if e \<noteq> ERROR_OK then Some (e, ld, st)
                       else do {
                         let h = hmem (ld_mm st);
                         let first = load_u32 h (p + 16);
                         let orig = (if load_u32 h p \<noteq> 0 then load_u32 h p else first);
                         (e, st) \<leftarrow> resolve_thunks env fuel i dep (base + orig) (base + first) st;
                         if e \<noteq> ERROR_OK then Some (e, ld, st)
                         else resolve_descriptors env map_dep sysdir fuel i (p + 20) (ld, st) } })"

definition ResolveImports ::
  "loader_env \<Rightarrow> (byte list \<Rightarrow> string \<Rightarrow> nat \<Rightarrow> loaded \<times> loader \<Rightarrow> (ErrorCode \<times> loaded \<times> loader) option)
     \<Rightarrow> string \<Rightarrow> nat \<Rightarrow> u32 \<times> u32 \<Rightarrow> nat \<Rightarrow> loaded \<times> loader \<Rightarrow> (ErrorCode \<times> loaded \<times> loader) option" where
  "ResolveImports env map_dep sysdir fuel dir i = (\<lambda>(ld, st).
     if snd dir = 0 then Some (ERROR_OK, ld, st)
     else case HostPtrForVA (pe_blocks (ld_images st ! i)) (actualImageBase (ld_images st ! i) + fst dir) of
            None \<Rightarrow> Some (ERROR_LOADER_READER_FAIL, ld, st)
          | Some p \<Rightarrow> resolve_descriptors env map_dep sysdir fuel i p (ld, st))"

section \<open>Mapping an image\<close>

text \<open>
  The sections at the preferred base or, when that fails, at the first candidate base that passes
  the trial, relocated: the error, the base, the blocks, the manager and the number of host calls.
\<close>

definition place_elsewhere ::
  "loader_env \<Rightarrow> byte list \<Rightarrow> int \<Rightarrow> u32 \<Rightarrow> nat list \<Rightarrow> MemoryManager \<times> nat
     \<Rightarrow> (ErrorCode \<times> u32 \<times> BlockInfo list \<times> MemoryManager \<times> nat) option" where
  "place_elsewhere env buf nt preferred is s =
     do { (found, s) \<leftarrow> find_base env buf nt is base_candidates s;
          case found of
            None \<Rightarrow> Some (ERROR_GENERIC, 0, [], s)
          | Some base \<Rightarrow>
              do { (r, bs, m, k) \<leftarrow> place_sections env buf nt base is ([], s);
                   case r of
                     NoSpace \<Rightarrow> Some (ERROR_GENERIC, 0, [], free_blocks env bs (m, k))
                   | Truncated \<Rightarrow> Some (ERROR_LOADER_READER_FAIL, 0, bs, m, k)
                   | Placed \<Rightarrow>
                       do { dir \<leftarrow> data_directory 5 buf nt;
                            rel \<leftarrow> ApplyRelocations bs base dir (base - preferred) (hmem m);
                            case rel of
                              None \<Rightarrow> Some (ERROR_LOADER_READER_FAIL, base, [], free_blocks env bs (m, k))
                            | Some h \<Rightarrow> Some (ERROR_OK, base, bs, m\<lparr>hmem := h\<rparr>, k) } } }"

definition place_image ::
  "loader_env \<Rightarrow> byte list \<Rightarrow> int \<Rightarrow> u32 \<Rightarrow> nat list \<Rightarrow> BlockInfo list \<times> MemoryManager \<times> nat
     \<Rightarrow> (ErrorCode \<times> u32 \<times> BlockInfo list \<times> MemoryManager \<times> nat) option" where
  "place_image env buf nt preferred is s =
     do { (r, bs, m, k) \<leftarrow> place_sections env buf nt preferred is s;
          case r of
            Placed \<Rightarrow> Some (ERROR_OK, preferred, bs, m, k)
          | Truncated \<Rightarrow> Some (ERROR_LOADER_READER_FAIL, 0, bs, m, k)
          | NoSpace \<Rightarrow> place_elsewhere env buf nt preferred is (free_blocks env bs (m, k)) }"

fun MapPEIntoMemory ::
  "nat \<Rightarrow> loader_env \<Rightarrow> string \<Rightarrow> byte list \<Rightarrow> string \<Rightarrow> nat \<Rightarrow> loaded \<times> loader
     \<Rightarrow> (ErrorCode \<times> loaded \<times> loader) option" where
  "MapPEIntoMemory 0 env sysdir buf path i s = None"
| "MapPEIntoMemory (Suc fuel) env sysdir buf path i (ld, st) =
     (let filename = ToLower (path_filename path)
      in case map_of (g_loadedPEImages st) filename of
           Some img \<Rightarrow> Some (ERROR_OK, ld, upd_image i (\<lambda>_. img) st)
         | None \<Rightarrow>
             do { r \<leftarrow> check_headers buf;
                  case r of
                    Inl e \<Rightarrow> Some (e, ld, st)
                  | Inr nt \<Rightarrow>
                      do { preferred \<leftarrow> image_base buf nt;
                           n \<leftarrow> size_of_image buf nt;
                           nsec \<leftarrow> number_of_sections buf nt;
                           let st = upd_image i (\<lambda>g. g\<lparr>pe_path := path, preferredImageBase := preferred,
                                                       sizeOfImage := n\<rparr>) st;
                           (e, base, bs, m, k) \<leftarrow> place_image env buf nt preferred [0..<unat nsec]
                             (pe_blocks (ld_images st ! i), ld_mm st, ld_calls st);
                           let st = upd_image i (\<lambda>g. g\<lparr>pe_blocks := bs, actualImageBase := base\<rparr>)
                                      (st\<lparr>ld_mm := m, ld_calls := k\<rparr>);
                           if e \<noteq> ERROR_OK then Some (e, ld, st)
                           else do {
                             expdir \<leftarrow> data_directory 0 buf nt;
                             img \<leftarrow> ParseAndFillExports expdir (hmem (ld_mm st)) (ld_images st ! i);
                             impdir \<leftarrow> data_directory 1 buf nt;
                             (e, ld, st) \<leftarrow> ResolveImports env (MapPEIntoMemory fuel env sysdir) sysdir fuel
                                              impdir i (ld, upd_image i (\<lambda>_. img) st);
                             if e \<noteq> ERROR_OK then
                               let (m, k) = free_blocks env (pe_blocks (ld_images st ! i)) (ld_mm st, ld_calls st)
                               in Some (e, ld, upd_image i (\<lambda>g. g\<lparr>pe_blocks := []\<rparr>)
                                                 (st\<lparr>ld_mm := m, ld_calls := k\<rparr>))
                             else Some (ERROR_OK, ld, st\<lparr>g_loadedPEImages :=
                                      om_set filename (ld_images st ! i) (g_loadedPEImages st)\<rparr>) } } })"

text \<open>The top level: the error and, on success, the image.\<close>

definition LoadPEImage ::
  "nat \<Rightarrow> loader_env \<Rightarrow> string \<Rightarrow> string \<Rightarrow> loader \<Rightarrow> (ErrorCode \<times> PEImage option \<times> loader) option" where
  "LoadPEImage fuel env path sysdir st =
     (case ReadFileToVector env path of
        None \<Rightarrow> Some (ERROR_LOADER_READER_FAIL, None, st)
      | Some buf \<Rightarrow>
          let root = length (ld_images st)
          in do { (e, ld, st) \<leftarrow> MapPEIntoMemory fuel env sysdir buf path root
                                  ([], st\<lparr>ld_images := ld_images st @ [PEImage_new]\<rparr>);
                  Some (e, if e = ERROR_OK then Some (ld_images st ! root) else None, st) })"

definition GetPEImageByHandle :: "u32 \<Rightarrow> loader \<Rightarrow> PEImage option" where
  "GetPEImageByHandle handle st =
     map_option snd (find (\<lambda>p. actualImageBase (snd p) = handle) (g_loadedPEImages st))"

end
