(* ===== verification/LoadKeeps.thy ===== *)
theory LoadKeeps
  imports PELoader
begin

text \<open>
  What a load does to the memory manager, once for every relation of interest.  The loader changes it
  only by \<open>StaticAlloc\<close>, \<open>StaticFree\<close> and stores; the locale \<open>load_keeps\<close> turns a relation that these keep
  into one that every load keeps, on every branch and however modules import each other.
\<close>

section \<open>The runs of MapPEIntoMemory\<close>

lemma upd_image_simps [simp]:
  "ld_mm (upd_image i f st) = ld_mm st" "ld_calls (upd_image i f st) = ld_calls st"
  "length (ld_images (upd_image i f st)) = length (ld_images st)"
  "g_loadedPEImages (upd_image i f st) = g_loadedPEImages st"
  by (simp_all add: upd_image_def)

text \<open>The runs of \<open>MapPEIntoMemory\<close>: a module already there, bad headers, and a new image.\<close>

lemma MapPEIntoMemory_cases:
  assumes ret: "MapPEIntoMemory (Suc fuel) env sysdir buf path i (ld, st) = Some (e, ld', st')"
  defines "name \<equiv> ToLower (path_filename path)"
  obtains (known) img where "map_of (g_loadedPEImages st) name = Some img" "e = ERROR_OK" "ld' = ld"
      "st' = upd_image i (\<lambda>_. img) st"
  | (bad) "map_of (g_loadedPEImages st) name = None" "e \<noteq> ERROR_OK" "st' = st"
  | (unplaced) nt preferred nsec st1 base bs m k where
      "check_headers buf = Some (Inr nt)" "image_base buf nt = Some preferred" "number_of_sections buf nt = Some nsec"
      "length (ld_images st1) = length (ld_images st)" "ld_mm st1 = ld_mm st" "e \<noteq> ERROR_OK"
      "place_image env buf nt preferred [0..<unat nsec] (pe_blocks (ld_images st1 ! i), ld_mm st, ld_calls st)
        = Some (e, base, bs, m, k)"
      "st' = upd_image i (\<lambda>g. g\<lparr>pe_blocks := bs, actualImageBase := base\<rparr>) (st1\<lparr>ld_mm := m, ld_calls := k\<rparr>)"
  | (placed) nt preferred nsec st1 base bs m k dir img st2 e3 ld3 st3 where
      "check_headers buf = Some (Inr nt)" "image_base buf nt = Some preferred" "number_of_sections buf nt = Some nsec"
      "length (ld_images st1) = length (ld_images st)" "ld_mm st1 = ld_mm st"
      "place_image env buf nt preferred [0..<unat nsec] (pe_blocks (ld_images st1 ! i), ld_mm st, ld_calls st)
        = Some (ERROR_OK, base, bs, m, k)"
      "st2 = upd_image i (\<lambda>g. g\<lparr>pe_blocks := bs, actualImageBase := base\<rparr>) (st1\<lparr>ld_mm := m, ld_calls := k\<rparr>)"
      "ResolveImports env (MapPEIntoMemory fuel env sysdir) sysdir fuel dir i (ld, upd_image i (\<lambda>_. img) st2)
        = Some (e3, ld3, st3)"
      "e3 = ERROR_OK \<and> e = ERROR_OK \<and> st' = st3\<lparr>g_loadedPEImages := om_set name (ld_images st3 ! i) (g_loadedPEImages st3)\<rparr>
       \<or> e3 \<noteq> ERROR_OK \<and> e = e3 \<and> (\<exists>m' k'. free_blocks env (pe_blocks (ld_images st3 ! i)) (ld_mm st3, ld_calls st3) = (m', k')
          \<and> st' = upd_image i (\<lambda>g. g\<lparr>pe_blocks := []\<rparr>) (st3\<lparr>ld_mm := m', ld_calls := k'\<rparr>))"
proof (cases "map_of (g_loadedPEImages st) name")
  case (Some img)
  then show thesis using ret known by (auto simp: name_def Let_def)
next
  case None
  note N = None [unfolded name_def]
  from ret N obtain r where r: "check_headers buf = Some r" by (auto simp: Let_def split: bind_splits)
  show thesis
  proof (cases r)
    case (Inl x)
    have "x \<noteq> ERROR_OK" using r Inl by (auto simp: check_headers_def Let_def split: if_splits bind_splits)
    then show thesis using ret N r Inl None by (intro bad) (auto simp: Let_def)
  next
    case (Inr nt)
    from ret N r Inr obtain preferred n nsec where
      h: "image_base buf nt = Some preferred" "size_of_image buf nt = Some n" "number_of_sections buf nt = Some nsec"
      by (auto simp: Let_def split: bind_splits)
    define st1 where "st1 = upd_image i (\<lambda>g. g\<lparr>pe_path := path, preferredImageBase := preferred, sizeOfImage := n\<rparr>) st"
    have g1: "length (ld_images st1) = length (ld_images st)" "ld_mm st1 = ld_mm st" "ld_calls st1 = ld_calls st" by (simp_all add: st1_def)
    from ret N r Inr h obtain e1 base bs m k where
      1: "place_image env buf nt preferred [0..<unat nsec] (pe_blocks (ld_images st1 ! i), ld_mm st, ld_calls st)
        = Some (e1, base, bs, m, k)"
      by (auto simp: Let_def st1_def split: bind_splits)
    define st2 where "st2 = upd_image i (\<lambda>g. g\<lparr>pe_blocks := bs, actualImageBase := base\<rparr>) (st1\<lparr>ld_mm := m, ld_calls := k\<rparr>)"
    have mm2: "ld_mm st2 = m" by (simp add: st2_def)
    show thesis
    proof (cases "e1 = ERROR_OK")
      case False
      then have "e = e1" "st' = st2" using ret N r Inr h 1 by (auto simp: Let_def st1_def st2_def)
      then show thesis using unplaced [OF _ h(1,3) g1(1,2)] False 1 r Inr st2_def by blast
    next
      case True
      note S = N r Inr h 1 True
      from ret S obtain expdir img impdir x where
        2: "data_directory 0 buf nt = Some expdir" "ParseAndFillExports expdir (hmem m) (ld_images st2 ! i) = Some img"
          "data_directory 1 buf nt = Some impdir"
        and 3: "ResolveImports env (MapPEIntoMemory fuel env sysdir) sysdir fuel impdir i
          (ld, upd_image i (\<lambda>_. img) st2) = Some x"
        by (simp add: Let_def st1_def [symmetric] st2_def [symmetric] mm2 split: bind_splits)
      obtain e3 ld3 st3 where x: "x = (e3, ld3, st3)" by (metis prod_cases3)
      have "e3 = ERROR_OK \<and> e = ERROR_OK
          \<and> st' = st3\<lparr>g_loadedPEImages := om_set name (ld_images st3 ! i) (g_loadedPEImages st3)\<rparr>
        \<or> e3 \<noteq> ERROR_OK \<and> e = e3 \<and> (\<exists>m' k'. free_blocks env (pe_blocks (ld_images st3 ! i)) (ld_mm st3, ld_calls st3) = (m', k')
            \<and> st' = upd_image i (\<lambda>g. g\<lparr>pe_blocks := []\<rparr>) (st3\<lparr>ld_mm := m', ld_calls := k'\<rparr>))"
        using ret S 2 3 x by (auto simp: Let_def st1_def [symmetric] st2_def [symmetric] name_def mm2
            split: prod.splits if_splits)
      from placed [OF _ h(1,3) g1(1,2) _ st2_def 3 [unfolded x] this] show thesis using r Inr 1 True by blast
    qed
  qed
qed

section \<open>The contract\<close>

text \<open>
  \<open>Q\<close> relates managers before and after; \<open>ok\<close> says which ranges may be asked for and \<open>good\<close> which files
  may be read, so that sections and stubs are only placed at ranges that are \<open>ok\<close>.
\<close>

locale load_keeps =
  fixes env :: loader_env and Q :: "MemoryManager \<Rightarrow> MemoryManager \<Rightarrow> bool"
    and ok :: "u32 \<Rightarrow> u32 \<Rightarrow> bool" and good :: "byte list \<Rightarrow> bool"
  assumes refl: "Q m m" and trans: "Q m m' \<Longrightarrow> Q m' m'' \<Longrightarrow> Q m m''"
    and memory: "Q m (m\<lparr>hmem := h\<rparr>)"
    and alloc: "ld_alloc env va n (m, k) = (r, m', k') \<Longrightarrow> ok va n \<Longrightarrow> Q m m'"
    and free: "ld_free env va (m, k) = (m', k') \<Longrightarrow> Q m m'"
    and files: "ReadFileToVector env p = Some buf \<Longrightarrow> good buf"
    and stubs: "i < 0x600 \<Longrightarrow> n \<le> 8 \<Longrightarrow> ok (0x10000000 + of_nat i * 0x00100000) n"
    and sections: "good buf \<Longrightarrow> check_headers buf = Some (Inr nt) \<Longrightarrow> image_base buf nt = Some preferred \<Longrightarrow>
      number_of_sections buf nt = Some nsec \<Longrightarrow> i < unat nsec \<Longrightarrow> section_at buf nt i = Some s \<Longrightarrow>
      section_size s \<noteq> 0 \<Longrightarrow> base = preferred \<or> base \<in> set base_candidates \<Longrightarrow>
      ok (base + s_VirtualAddress s) (section_size s)"
begin

lemma free_blocks_keeps: "free_blocks env bs (m, k) = (m', k') \<Longrightarrow> Q m m'"
  unfolding free_blocks_def
proof (induction bs arbitrary: m k)
  case (Cons b bs)
  obtain m1 k1 where f: "ld_free env (bi_vaddr b) (m, k) = (m1, k1)" by (cases "ld_free env (bi_vaddr b) (m, k)")
  show ?case using trans [OF free [OF f]] Cons.IH Cons.prems by (simp add: f)
qed (simp add: refl)

lemma first_alloc_keeps:
  "first_alloc env n as (m, k) = (r, m', k') \<Longrightarrow> \<forall>a\<in>set as. ok a n \<Longrightarrow> Q m m'"
proof (induction as arbitrary: m k)
  case (Cons a as)
  obtain b m1 k1 where al: "ld_alloc env a n (m, k) = (b, m1, k1)" by (cases "ld_alloc env a n (m, k)")
  have "Q m m1" using alloc [OF al] Cons.prems(2) by simp
  then show ?case using Cons.IH [of m1 k1] Cons.prems al trans [of m m1 m'] by (cases b) auto
qed (simp add: refl)

lemma CreateReturnZeroStub_keeps:
  assumes "CreateReturnZeroStub env thumb bs (m, k) = (a, bs', m', k')"
  shows "Q m m'"
proof -
  let ?n = "if thumb then 4 else 8 :: u32"
  obtain r m1 k1 where al: "AllocateAny env ?n (m, k) = (r, m1, k1)" by (cases "AllocateAny env ?n (m, k)")
  have "ok a ?n" if "a \<in> set (map (\<lambda>i. 0x10000000 + of_nat i * 0x00100000) [0..<0x600])" for a
    using that stubs [of _ ?n] by (auto split: if_splits)
  then have "Q m m1" using first_alloc_keeps al unfolding AllocateAny_def by blast
  then show ?thesis using assms al trans [OF _ memory]
    by (auto simp: CreateReturnZeroStub_def Let_def split: option.splits prod.splits)
qed

definition placeable :: "byte list \<Rightarrow> int \<Rightarrow> u32 \<Rightarrow> nat list \<Rightarrow> bool" where
  "placeable buf nt base is \<longleftrightarrow> (\<forall>i\<in>set is. \<forall>s. section_at buf nt i = Some s \<longrightarrow> section_size s \<noteq> 0 \<longrightarrow>
     ok (base + s_VirtualAddress s) (section_size s))"

lemma place_section_keeps:
  assumes "place_section env buf base s (bs, m, k) = (r, bs', m', k')"
    and "section_size s \<noteq> 0 \<Longrightarrow> ok (base + s_VirtualAddress s) (section_size s)"
  shows "Q m m'"
proof (cases "section_size s = 0")
  case True
  then show ?thesis using assms(1) refl by (simp add: place_section_def)
next
  case False
  let ?va = "base + s_VirtualAddress s"
  obtain b m1 k1 where al: "ld_alloc env ?va (section_size s) (m, k) = (b, m1, k1)"
    by (cases "ld_alloc env ?va (section_size s) (m, k)")
  note q = alloc [OF al assms(2) [OF False]]
  obtain m2 k2 where fr: "ld_free env ?va (m1, k1) = (m2, k2)" by (cases "ld_free env ?va (m1, k1)")
  show ?thesis using assms(1) False al fr q trans [OF q free [OF fr]] trans [OF q memory]
    by (auto simp: place_section_def Let_def split: option.splits if_splits)
qed

lemma place_sections_keeps:
  "place_sections env buf nt base is (bs, m, k) = Some (r, bs', m', k') \<Longrightarrow> placeable buf nt base is \<Longrightarrow> Q m m'"
proof (induction "is" arbitrary: bs m k)
  case (Cons i "is")
  obtain s where s: "section_at buf nt i = Some s" using Cons.prems(1) by (auto split: Option.bind_splits)
  obtain r1 bs1 m1 k1 where p: "place_section env buf base s (bs, m, k) = (r1, bs1, m1, k1)"
    by (cases "place_section env buf base s (bs, m, k)") auto
  have q: "Q m m1" using place_section_keeps [OF p] Cons.prems(2) s by (auto simp: placeable_def)
  have "placeable buf nt base is" using Cons.prems(2) by (simp add: placeable_def)
  then show ?case using Cons.IH [of bs1 m1 k1] Cons.prems(1) q trans [OF q] by (cases r1) (auto simp: s p)
qed (simp add: refl)

lemma base_fits_keeps:
  "base_fits env buf nt base is (m, k) = Some (r, m', k') \<Longrightarrow> placeable buf nt base is \<Longrightarrow> Q m m'"
proof (induction "is" arbitrary: m k)
  case (Cons i "is")
  obtain s where s: "section_at buf nt i = Some s" using Cons.prems(1) by (auto split: Option.bind_splits)
  have rest: "placeable buf nt base is" using Cons.prems(2) by (simp add: placeable_def)
  let ?va = "base + s_VirtualAddress s"
  show ?case
  proof (cases "section_size s = 0")
    case True
    then show ?thesis using Cons.IH [OF _ rest] Cons.prems(1) by (simp add: s)
  next
    case False
    obtain b m1 k1 where al: "ld_alloc env ?va (section_size s) (m, k) = (b, m1, k1)"
      by (cases "ld_alloc env ?va (section_size s) (m, k)")
    have q: "Q m m1" using alloc [OF al] Cons.prems(2) s False by (simp add: placeable_def)
    obtain m2 k2 where fr: "ld_free env ?va (m1, k1) = (m2, k2)" by (cases "ld_free env ?va (m1, k1)")
    show ?thesis using Cons.IH [OF _ rest, of m2 k2] Cons.prems(1) False q trans [OF trans [OF q free [OF fr]]]
      by (cases b) (auto simp: s al fr)
  qed
qed (simp add: refl)

lemma find_base_keeps:
  "find_base env buf nt is cs (m, k) = Some (r, m', k') \<Longrightarrow> \<forall>c\<in>set cs. placeable buf nt c is \<Longrightarrow>
    Q m m' \<and> (\<forall>c. r = Some c \<longrightarrow> c \<in> set cs)"
proof (induction cs arbitrary: m k)
  case (Cons c cs)
  obtain b m1 k1 where f: "base_fits env buf nt c is (m, k) = Some (b, m1, k1)"
    using Cons.prems(1) by (auto split: Option.bind_splits)
  have q: "Q m m1" using base_fits_keeps [OF f] Cons.prems(2) by simp
  show ?case using Cons.IH [of m1 k1] Cons.prems q trans [OF q] by (cases b) (auto simp: f)
qed (simp add: refl)

lemma place_elsewhere_keeps:
  assumes "place_elsewhere env buf nt preferred is (m, k) = Some (e, base, bs, m', k')"
    and fit: "\<forall>c\<in>set base_candidates. placeable buf nt c is"
  shows "Q m m'"
proof -
  from assms(1) obtain found m1 k1 where 1: "find_base env buf nt is base_candidates (m, k) = Some (found, m1, k1)"
    by (auto simp: place_elsewhere_def split: Option.bind_splits)
  note F = find_base_keeps [OF 1 fit]
  show ?thesis
  proof (cases found)
    case None
    then show ?thesis using assms(1) 1 F by (simp add: place_elsewhere_def)
  next
    case (Some b)
    with assms(1) 1 obtain r bs1 m2 k2 where 2: "place_sections env buf nt b is ([], m1, k1) = Some (r, bs1, m2, k2)"
      by (auto simp: place_elsewhere_def split: Option.bind_splits)
    have q: "Q m m2" using trans place_sections_keeps [OF 2] F fit Some by blast
    show ?thesis
      using assms(1) 1 2 Some q trans [OF q memory] trans [OF q free_blocks_keeps]
      by (cases r) (auto simp: place_elsewhere_def split: Option.bind_splits option.splits)
  qed
qed

lemma place_image_keeps:
  assumes "place_image env buf nt preferred is (bs0, m, k) = Some (e, base, bs, m', k')"
    and fit: "placeable buf nt preferred is" "\<forall>c\<in>set base_candidates. placeable buf nt c is"
  shows "Q m m'"
proof -
  from assms(1) obtain r bs1 m1 k1 where 1: "place_sections env buf nt preferred is (bs0, m, k) = Some (r, bs1, m1, k1)"
    by (auto simp: place_image_def split: Option.bind_splits)
  note q = place_sections_keeps [OF 1 fit(1)]
  show ?thesis
  proof (cases r)
    case NoSpace
    obtain m2 k2 where f: "free_blocks env bs1 (m1, k1) = (m2, k2)" by (cases "free_blocks env bs1 (m1, k1)")
    have "place_elsewhere env buf nt preferred is (m2, k2) = Some (e, base, bs, m', k')"
      using assms(1) 1 NoSpace by (simp add: place_image_def f)
    from place_elsewhere_keeps [OF this fit(2)] show ?thesis using trans q free_blocks_keeps [OF f] by blast
  qed (use assms(1) 1 q in \<open>auto simp: place_image_def\<close>)
qed

text \<open>The relation on loaders: \<open>Q\<close> of the managers, and images are only added.\<close>

definition grows :: "loader \<Rightarrow> loader \<Rightarrow> bool" where
  "grows st st' \<longleftrightarrow> Q (ld_mm st) (ld_mm st') \<and> length (ld_images st) \<le> length (ld_images st')"

lemma grows_refl [simp]: "grows st st"
  by (simp add: grows_def refl)

lemma grows_trans: "grows st st1 \<Longrightarrow> grows st1 st2 \<Longrightarrow> grows st st2"
  by (auto simp: grows_def intro: trans)

lemma grows_upd [simp]:
  "grows st (upd_image i f st') = grows st st'" "grows (upd_image i f st) st' = grows st st'"
  "grows st (st'\<lparr>g_loadedPEImages := t\<rparr>) = grows st st'"
  by (simp_all add: grows_def)

lemma grows_mm: "Q (ld_mm st) m \<Longrightarrow> grows st (st\<lparr>ld_mm := m, ld_calls := k\<rparr>)"
  by (simp add: grows_def)

lemma grows_add: "grows (st\<lparr>ld_images := ld_images st @ is\<rparr>) st' \<Longrightarrow> grows st st'"
  by (simp add: grows_def)

lemma resolve_thunks_grows: "resolve_thunks env fuel i dep oft ft st = Some (e, st') \<Longrightarrow> grows st st'"
proof (induction fuel arbitrary: oft ft st)
  case (Suc fuel)
  let ?img = "ld_images st ! i"
  show ?case
  proof (cases "ReadU32AtVA (pe_blocks ?img) oft (hmem (ld_mm st))")
    case None
    with Suc.prems show ?thesis by simp
  next
    case (Some thunk)
    show ?thesis
    proof (cases "thunk = 0")
      case True
      with Some Suc.prems show ?thesis by simp
    next
      case False
      define p where "p = (case resolve_thunk ?img (map_option (\<lambda>d. ld_images st ! d) dep) thunk (hmem (ld_mm st)) of
          Some a \<Rightarrow> (Some a, st)
        | None \<Rightarrow>
            let (a, bs, m, k) = CreateReturnZeroStub env True (pe_blocks ?img) (ld_mm st, ld_calls st);
                st = upd_image i (\<lambda>g. g\<lparr>pe_blocks := bs\<rparr>) (st\<lparr>ld_mm := m, ld_calls := k\<rparr>)
            in (if a = 0 then None else Some a, st))"
      obtain addr st1 where a: "p = (addr, st1)" by fastforce
      then have t: "grows st st1"
        by (auto simp: p_def Let_def split: option.splits prod.splits dest!: CreateReturnZeroStub_keeps intro: grows_mm)
      have step: "grows st st'" if "resolve_thunks env fuel i dep (oft + 4) (ft + 4)
          (st1\<lparr>ld_mm := (ld_mm st1)\<lparr>hmem := h\<rparr>\<rparr>) = Some (e, st')" for h
      proof -
        have "grows st1 (st1\<lparr>ld_mm := (ld_mm st1)\<lparr>hmem := h\<rparr>\<rparr>)" by (simp add: grows_def memory)
        then show ?thesis using grows_trans t Suc.IH [OF that] by blast
      qed
      show ?thesis
        using Suc.prems Some False a [unfolded p_def] t step
        by (auto simp: Let_def split: option.splits)
    qed
  qed
qed simp

text \<open>The functions that load a dependency through their argument, given that it keeps the relation.\<close>

definition loads_grow :: "(byte list \<Rightarrow> string \<Rightarrow> nat \<Rightarrow> loaded \<times> loader \<Rightarrow> (ErrorCode \<times> loaded \<times> loader) option) \<Rightarrow> bool" where
  "loads_grow f \<longleftrightarrow> (\<forall>buf path d ld st e ld' st'. good buf \<longrightarrow> f buf path d (ld, st) = Some (e, ld', st')
     \<longrightarrow> grows st st')"

lemma loads_growD:
  "loads_grow f \<Longrightarrow> good buf \<Longrightarrow> f buf path d (ld, st) = Some (e, ld', st') \<Longrightarrow> grows st st'"
  unfolding loads_grow_def by blast

lemma find_module_grows:
  assumes "find_module env f sysdir name (ld, st) = Some (e, d, ld', st')" "loads_grow f"
  shows "grows st st'"
proof (cases "map_of ld name = None \<or> map_of ld name = Some None")
  case False
  then show ?thesis using assms(1) by (auto simp: find_module_def split: option.splits)
next
  case True
  let ?st = "st\<lparr>ld_images := ld_images st @ [PEImage_new]\<rparr>"
  show ?thesis
  proof (cases "ReadFileToVector env (sysdir @ bsl # name)")
    case None
    then show ?thesis using assms(1) True by (auto simp: find_module_def Let_def grows_def refl)
  next
    case (Some buf)
    then obtain e1 ld1 st1 where
      1: "f buf (sysdir @ bsl # name) (length (ld_images st)) (om_set name (Some (length (ld_images st))) ld, ?st)
        = Some (e1, ld1, st1)" and st': "st' = st1"
      using assms(1) True by (auto simp: find_module_def Let_def split: Option.bind_splits if_splits)
    from loads_growD [OF assms(2) files [OF Some] 1] show ?thesis
      unfolding st' by (rule grows_add)
  qed
qed

lemma resolve_descriptors_grows:
  assumes f: "loads_grow f"
  shows "resolve_descriptors env f sysdir fuel i p (ld, st) = Some (e, ld', st') \<Longrightarrow> grows st st'"
proof (induction fuel arbitrary: p ld st)
  case (Suc fuel)
  let ?img = "ld_images st ! i"
  let ?name = "load_u32 (hmem (ld_mm st)) (p + 12)"
  show ?case
  proof (cases "?name = 0 \<or> HostPtrForVA (pe_blocks ?img) (actualImageBase ?img + ?name) = None")
    case True
    with Suc.prems show ?thesis by (auto simp: Let_def split: if_splits)
  next
    case False
    then obtain np where np: "HostPtrForVA (pe_blocks ?img) (actualImageBase ?img + ?name) = Some np" by auto
    with False Suc.prems obtain e1 dep ld1 st1 where
      1: "find_module env f sysdir (dll_name (read_cstr (hmem (ld_mm st)) np)) (ld, st) = Some (e1, dep, ld1, st1)"
      by (auto simp: Let_def split: Option.bind_splits)
    note t1 = find_module_grows [OF 1 f]
    show ?thesis
    proof (cases "e1 = ERROR_OK")
      case False2: False
      then show ?thesis using Suc.prems False np 1 t1 by (simp add: Let_def)
    next
      case True
      let ?first = "load_u32 (hmem (ld_mm st1)) (p + 16)" and ?o = "load_u32 (hmem (ld_mm st1)) p"
      obtain e2 st2 where 2: "resolve_thunks env fuel i dep (actualImageBase ?img + (if ?o \<noteq> 0 then ?o else ?first))
          (actualImageBase ?img + ?first) st1 = Some (e2, st2)"
        using Suc.prems False np 1 True by (auto simp: Let_def split: Option.bind_splits)
      have t2: "grows st st2" using grows_trans [OF t1] resolve_thunks_grows [OF 2] by blast
      have "st' = st2 \<or> resolve_descriptors env f sysdir fuel i (p + 20) (ld1, st2) = Some (e, ld', st')"
        using Suc.prems False np 1 True 2 by (auto simp: Let_def split: if_splits)
      then show ?thesis using t2 grows_trans [OF t2] Suc.IH by blast
    qed
  qed
qed simp

lemma ResolveImports_grows:
  "ResolveImports env f sysdir fuel dir i (ld, st) = Some (e, ld', st') \<Longrightarrow> loads_grow f \<Longrightarrow> grows st st'"
  by (auto simp: ResolveImports_def split: if_splits option.splits dest: resolve_descriptors_grows)

lemma placed_grows:
  assumes "place_image env buf nt preferred [0..<unat nsec] (bs0, ld_mm st, k0) = Some (e, base, bs, m, k)"
    and H: "check_headers buf = Some (Inr nt)" "image_base buf nt = Some preferred" "number_of_sections buf nt = Some nsec"
    and "good buf" "length (ld_images st1) = length (ld_images st)" "ld_mm st1 = ld_mm st"
  shows "grows st (upd_image i f (st1\<lparr>ld_mm := m, ld_calls := k\<rparr>))"
proof -
  have "placeable buf nt b [0..<unat nsec]" if "b = preferred \<or> b \<in> set base_candidates" for b
    using sections [OF assms(5) H _ _ _ that] by (simp add: placeable_def)
  then have "Q (ld_mm st) m" using place_image_keeps [OF assms(1)] by blast
  then show ?thesis using assms(6) by (simp add: grows_def)
qed

lemma MapPEIntoMemory_grows: "loads_grow (MapPEIntoMemory fuel env sysdir)"
proof (induction fuel)
  case (Suc fuel)
  show ?case unfolding loads_grow_def
  proof (intro allI impI)
    fix buf path i ld st e ld' st'
    assume g: "good buf" and ret: "MapPEIntoMemory (Suc fuel) env sysdir buf path i (ld, st) = Some (e, ld', st')"
    from ret show "grows st st'"
    proof (cases rule: MapPEIntoMemory_cases)
      case (unplaced nt preferred nsec st1 base bs m k)
      show ?thesis unfolding unplaced(8) by (rule placed_grows [OF unplaced(7,1-3) g unplaced(4,5)])
    next
      case (placed nt preferred nsec st1 base bs m k dir img st2 e3 ld3 st3)
      have "grows st st2" unfolding placed(7) by (rule placed_grows [OF placed(6,1-3) g placed(4,5)])
      moreover have "grows st2 st3" using ResolveImports_grows [OF placed(8) Suc.IH] by simp
      ultimately have s: "grows st st3" by (rule grows_trans)
      from placed(9) show ?thesis
      proof (elim disjE conjE exE)
        fix m' k' assume f: "free_blocks env (pe_blocks (ld_images st3 ! i)) (ld_mm st3, ld_calls st3) = (m', k')"
          and st': "st' = upd_image i (\<lambda>g. g\<lparr>pe_blocks := []\<rparr>) (st3\<lparr>ld_mm := m', ld_calls := k'\<rparr>)"
        show ?thesis unfolding st' using grows_trans [OF s grows_mm [OF free_blocks_keeps [OF f]]] by simp
      qed (use s in simp)
    qed simp_all
  qed
qed (simp add: loads_grow_def)

lemma LoadPEImage_grows:
  assumes "LoadPEImage fuel env path sysdir st = Some (e, img, st')"
  shows "grows st st'"
proof (cases "ReadFileToVector env path")
  case None
  then show ?thesis using assms by (simp add: LoadPEImage_def)
next
  case (Some buf)
  with assms obtain ld where "MapPEIntoMemory fuel env sysdir buf path (length (ld_images st))
      ([], st\<lparr>ld_images := ld_images st @ [PEImage_new]\<rparr>) = Some (e, ld, st')"
    by (auto simp: LoadPEImage_def Let_def split: Option.bind_splits)
  then show ?thesis by (intro grows_add [OF loads_growD [OF MapPEIntoMemory_grows files [OF Some]]])
qed

lemma LoadPEImage_keeps:
  "LoadPEImage fuel env path sysdir st = Some (e, img, st') \<Longrightarrow> Q (ld_mm st) (ld_mm st')"
  using LoadPEImage_grows by (auto simp: grows_def)

end

section \<open>Modules stay in the store\<close>

text \<open>With the trivial relation: a load only adds images.\<close>

interpretation store: load_keeps env "\<lambda>m m'. True" "\<lambda>va n. True" "\<lambda>buf. True" for env :: loader_env
  by unfold_locales simp_all

lemma MapPEIntoMemory_length:
  "MapPEIntoMemory fuel env sysdir buf path i (ld, st) = Some (e, ld', st') \<Longrightarrow>
    length (ld_images st) \<le> length (ld_images st')"
  using store.loads_growD [OF store.MapPEIntoMemory_grows TrueI] by (auto simp: store.grows_def)

end
