(* ===== verification/HeapTables.thy ===== *)
theory HeapTables
  imports DisplayProps LoadKeeps FindFiles
begin

text \<open>
  The tables of the heap under arbitrary memory contents.  Guest code can overwrite every byte of its
  memory, the cookies included, but not the tables \<open>heapFree\<close> and \<open>heapAlloc\<close>, which live on the host.
  Whatever the memory holds, each operation of the memory manager that returns keeps their layout:
  free ranges and live blocks partition the region.  \<open>keeps\<close> says this of two states, together with
  the mappings being the same; it holds for every operation but the static mappings.
\<close>

section \<open>The relation\<close>

definition heap_tables :: "MemoryManager \<Rightarrow> bool" where
  "heap_tables m \<longleftrightarrow> layout (heapFree m) (heapAlloc m)"

definition keeps :: "MemoryManager \<Rightarrow> MemoryManager \<Rightarrow> bool" where
  "keeps m m' \<longleftrightarrow> (heap_tables m \<longrightarrow> heap_tables m') \<and> blocks m' = blocks m
     \<and> dynamicHeapBlock m' = dynamicHeapBlock m \<and> heapSize m' = heapSize m"

lemma keeps_refl [simp]: "keeps m m"
  by (simp add: keeps_def)

lemma keeps_trans: "keeps m m' \<Longrightarrow> keeps m' m'' \<Longrightarrow> keeps m m''"
  by (simp add: keeps_def)

lemma keeps_upd [simp]:
  "keeps m (m'\<lparr>hmem := h\<rparr>) = keeps m m'" "keeps m (m'\<lparr>breaks := k\<rparr>) = keeps m m'"
  "keeps (m\<lparr>hmem := h\<rparr>) m' = keeps m m'" "keeps (m\<lparr>breaks := k\<rparr>) m' = keeps m m'"
  by (simp_all add: keeps_def heap_tables_def)

lemma keepsD:
  assumes "keeps m m'"
  shows "heap_tables m \<Longrightarrow> heap_tables m'" "blocks m' = blocks m" "region_inv m' = region_inv m"
  using assms by (simp_all add: keeps_def region_inv_def)

lemma WriteCookie_tables [simp]: "keeps m (WriteCookie a m') = keeps m m'"
  by (simp add: WriteCookie_def Let_def)

text \<open>New tables with a layout.\<close>

lemma keeps_tables:
  assumes "heap_tables m \<Longrightarrow> layout F A"
  shows "keeps m (m\<lparr>heapFree := F, heapAlloc := A\<rparr>)"
  using assms by (simp add: keeps_def heap_tables_def)

lemma keeps_cong:
  assumes "keeps m m1" "heapFree m2 = heapFree m1" "heapAlloc m2 = heapAlloc m1" "blocks m2 = blocks m1"
    "dynamicHeapBlock m2 = dynamicHeapBlock m1" "heapSize m2 = heapSize m1"
  shows "keeps m m2"
  using assms by (simp add: keeps_def heap_tables_def)

section \<open>Heap operations\<close>

lemma find_SomeD: "find P xs = Some x \<Longrightarrow> x \<in> set xs \<and> P x"
  by (induction xs) (auto split: if_splits)

lemma heap_carve_frame:
  "heap_carve m a z n t = (u, m') \<Longrightarrow>
    blocks m' = blocks m \<and> dynamicHeapBlock m' = dynamicHeapBlock m \<and> heapSize m' = heapSize m"
  by (auto simp: heap_carve_def Let_def)

lemma heap_carve_keeps:
  assumes ff: "first_fit (n + 2 * kCookieSize) (heapFree m) = Some (a, z)"
    and s: "0 < unat s" "unat s + 31 < 18446744073709551616" and n: "n = AlignUp s kHeapAlign"
    and ret: "heap_carve m a z n (n + 2 * kCookieSize) = (u, m')"
  shows "keeps m m'"
proof (cases "heap_tables m")
  case False
  then show ?thesis using heap_carve_frame [OF ret] by (simp add: keeps_def)
next
  case True
  then have L: "layout (heapFree m) (heapAlloc m)" by (simp add: heap_tables_def)
  note N = request_sizes [OF s, folded n]
  note F = layout_free_ok [OF L]
  from ff have "find (\<lambda>p. n + 2 * kCookieSize \<le> snd p) (heapFree m) = Some (a, z)"
    by (simp add: first_fit_find [OF F])
  then have mem: "(a, z) \<in> set (heapFree m)" and t: "unat (n + 2 * kCookieSize) \<le> unat z"
    by (auto simp: word_le_unat dest: find_SomeD)
  have r: "range_ok (a, z)" using F mem by (auto simp: free_ok_def)
  have "layout (take_front a z (n + 2 * kCookieSize) (heapFree m))
      (um_emplace (vp (sz a + kCookieSize)) n (heapAlloc m))"
    by (rule alloc_layout [OF L mem t N(5,3)])
  then show ?thesis
    using ret [unfolded heap_carve_eq [OF r t]] by (auto simp: keeps_def heap_tables_def)
qed

lemma HeapAlloc_keeps:
  assumes "HeapAlloc m out s = (e, v, m')" "unat s + 31 < 18446744073709551616"
  shows "keeps m m'"
proof (cases "dynamicHeapBlock m = None \<or> s = 0")
  case True
  with assms(1) show ?thesis by (auto simp: HeapAlloc_def split: if_splits)
next
  case False
  then have s: "0 < unat s" by (simp add: unat_gt_0)
  show ?thesis
  proof (cases "first_fit (AlignUp s kHeapAlign + 2 * kCookieSize) (heapFree m)")
    case None
    with False assms(1) show ?thesis by (auto simp: HeapAlloc_def Let_def)
  next
    case (Some p)
    obtain a z where p: "p = (a, z)" by (cases p)
    obtain u m1 where c: "heap_carve m a z (AlignUp s kHeapAlign) (AlignUp s kHeapAlign + 2 * kCookieSize) = (u, m1)"
      by fastforce
    have "m' = m1" using False assms(1) Some by (auto simp: HeapAlloc_def Let_def p c)
    then show ?thesis using heap_carve_keeps [OF Some [unfolded p] s assms(2) refl c] by simp
  qed
qed

lemma DyanmicAlloc_keeps:
  "DyanmicAlloc m out s = (e, v, m') \<Longrightarrow> unat s + 31 < 18446744073709551616 \<Longrightarrow> keeps m m'"
  by (auto simp: DyanmicAlloc_def HeapAlloc_keeps split: if_splits)

lemma HeapFree_keeps:
  assumes "HeapFree m a = Returned (e, m')"
  shows "keeps m m'"
proof (cases "map_of (heapAlloc m) a")
  case None
  with assms show ?thesis by (auto simp: HeapFree_def)
next
  case (Some s)
  then have "(a, s) \<in> set (heapAlloc m)" by (rule map_of_SomeD)
  with assms Some show ?thesis
    using free_layout [of "heapFree m" "heapAlloc m" a s]
    by (auto simp: HeapFree_def Let_def CoalesceAround_def keeps_def heap_tables_def)
qed

lemma DynamicFree_keeps: "DynamicFree m a = Returned (e, m') \<Longrightarrow> keeps m m'"
  by (auto simp: DynamicFree_def HeapFree_keeps split: if_splits)

lemma TryHeapReallocInPlace_keeps:
  assumes ret: "TryHeapReallocInPlace m u s n = Returned (b, m')"
    and u: "map_of (heapAlloc m) u = Some s" and n: "16 dvd unat n"
  shows "keeps m m'"
proof (cases "heap_tables m")
  case False
  with ret show ?thesis
    by (auto simp: TryHeapReallocInPlace_def Let_def CoalesceAround_def keeps_def split: if_splits option.splits)
next
  case True
  then have L: "layout (heapFree m) (heapAlloc m)" by (simp add: heap_tables_def)
  have mem: "(u, s) \<in> set (heapAlloc m)" using u by (rule map_of_SomeD)
  consider (same) "n = s" | (shrink) "unat n < unat s" | (grow) "unat s < unat n"
    by (metis nat_neq_iff word_unat_eq_iff)
  then show ?thesis
  proof cases
    case same
    with ret show ?thesis by (auto simp: TryHeapReallocInPlace_def Let_def um_set_same [OF u])
  next
    case shrink
    then have "n \<le> s" "s - n > 0" by (auto simp: word_le_unat word_lt_unat unat_sub_le)
    with ret shrink_layout [OF L mem shrink n] show ?thesis
      by (auto simp: TryHeapReallocInPlace_def Let_def CoalesceAround_def keeps_def heap_tables_def)
  next
    case grow
    define tail where "tail = vp (sz (u + vp s) + kCookieSize)"
    note H = alloc_in_heap [OF L mem] and E = block_ends [OF L mem]
    have tl: "unat tail = unat u + unat s + 8"
      unfolding tail_def using H by (subst user_ptr) (auto simp: E)
    have le: "\<not> n \<le> s" using grow by (simp add: word_le_unat)
    show ?thesis
    proof (cases "\<exists>z. map_of (heapFree m) tail = Some z \<and> n - s \<le> z")
      case True
      then obtain z where z: "map_of (heapFree m) tail = Some z" "n - s \<le> z" by blast
      then have zF: "(tail, z) \<in> set (heapFree m)" by (simp add: map_of_SomeD)
      have nz: "unat (n - s) \<le> unat z" using z(2) by (simp add: word_le_unat)
      have "(z - (n - s) > 0) = (n - s < z)" using z(2) nz by (auto simp: word_lt_unat unat_sub_le)
      with ret z le grow_layout(1) [OF L mem grow n zF tl nz] show ?thesis
        by (auto simp: TryHeapReallocInPlace_def Let_def tail_def [symmetric] take_front_def keeps_def
            heap_tables_def split: if_splits)
    next
      case False
      with ret le show ?thesis
        by (auto simp: TryHeapReallocInPlace_def Let_def tail_def [symmetric] split: option.splits if_splits)
    qed
  qed
qed

lemma TryHeapReallocInPlace_failed:
  "TryHeapReallocInPlace m u s n = Returned (False, m') \<Longrightarrow> m' = m"
  by (auto simp: TryHeapReallocInPlace_def Let_def split: if_splits option.splits)

lemma aligned_request:
  assumes "0 < unat (sz n)"
  shows "16 dvd unat (AlignUp (sz n) kHeapAlign)" "unat (AlignUp (sz n) kHeapAlign) + 31 < 18446744073709551616"
  using request_sizes [OF assms size32] unat32_lt [of n] by simp_all

lemma DynamicRealloc_keeps:
  assumes ret: "DynamicRealloc m u (sz n) = Returned (e, v, m')"
  shows "keeps m m'"
proof -
  consider (alloc) "u = 0" | (release) "u \<noteq> 0" "n = 0" | (outside) "u \<noteq> 0" "n \<noteq> 0" "\<not> HeapContains m u"
    | (unknown) "u \<noteq> 0" "n \<noteq> 0" "HeapContains m u" "map_of (heapAlloc m) u = None"
    | (live) s where "u \<noteq> 0" "n \<noteq> 0" "HeapContains m u" "map_of (heapAlloc m) u = Some s"
    by fastforce
  then show ?thesis
  proof cases
    case alloc
    with ret show ?thesis by (auto simp: DynamicRealloc_def intro: DyanmicAlloc_keeps [OF _ size32])
  next
    case release
    with ret show ?thesis by (auto simp: DynamicRealloc_def intro: DynamicFree_keeps)
  next
    case outside
    with ret show ?thesis by (simp add: DynamicRealloc_def)
  next
    case unknown
    with ret show ?thesis by (simp add: DynamicRealloc_def)
  next
    case live
    define k where "k = AlignUp (sz n) kHeapAlign"
    have "0 < unat (sz n)" using live(2) by (simp add: unat_gt_0)
    note K = aligned_request [OF this, folded k_def]
    from ret live obtain ok m1 where inpl: "TryHeapReallocInPlace m u s k = Returned (ok, m1)"
      by (auto simp: DynamicRealloc_def Let_def k_def)
    show ?thesis
    proof (cases ok)
      case True
      with ret live inpl TryHeapReallocInPlace_keeps [OF inpl live(4) K(1)] show ?thesis
        by (simp add: DynamicRealloc_def Let_def k_def del: proc_bind_Returned)
    next
      case False
      with inpl have m1: "m1 = m" by (auto dest: TryHeapReallocInPlace_failed)
      obtain err w m2 where al: "HeapAlloc m 0 k = (err, w, m2)" by (metis prod_cases3)
      have k2: "keeps m m2" by (rule HeapAlloc_keeps [OF al K(2)])
      show ?thesis
        using ret live inpl False m1 al k2
        by (auto simp: DynamicRealloc_def Let_def k_def split: if_splits
            dest!: HeapFree_keeps intro: keeps_trans)
    qed
  qed
qed

section \<open>The calls on the heap\<close>

lemmas alloc_keeps32 = DyanmicAlloc_keeps [OF _ size32]

lemma lmalloc_keeps: "lmalloc args m = (r, m') \<Longrightarrow> keeps m m'"
  and lcalloc_keeps: "lcalloc args m = (r, m') \<Longrightarrow> keeps m m'"
  by (auto simp: lmalloc_def lcalloc_def split: prod.splits if_splits dest: alloc_keeps32)

lemma lrealloc_keeps: "lrealloc args m = Returned (r, m') \<Longrightarrow> keeps m m'"
  by (auto simp: lrealloc_def Let_def split: prod.splits if_splits dest: alloc_keeps32 DynamicRealloc_keeps)

lemma lfree_keeps: "lfree args m = Returned (r, m') \<Longrightarrow> keeps m m'"
  by (auto simp: lfree_def dest: DynamicFree_keeps)

lemma checked_alloc_keeps:
  "checked_alloc out n m = (v, m') \<Longrightarrow> unat n + 31 < 18446744073709551616 \<Longrightarrow> keeps m m'"
  by (auto simp: checked_alloc_def split: prod.splits if_splits dest: DyanmicAlloc_keeps)

lemma InitActiveLCD_keeps:
  assumes "InitActiveLCD junk m = Some (lh, m')"
  shows "keeps m m'"
proof -
  obtain v1 m1 where a: "checked_alloc junk sizeof_LCD m = (v1, m1)" by fastforce
  obtain v2 m3 where b: "checked_alloc 0 4 (LCD_new (GetRealAddr m1 v1) m1) = (v2, m3)" by fastforce
  have "keeps m m1" by (rule checked_alloc_keeps [OF a]) (simp add: sizeof_LCD_def)
  moreover have "keeps (LCD_new (GetRealAddr m1 v1) m1) m3" by (rule checked_alloc_keeps [OF b]) simp
  then have "keeps m1 m3" by (simp add: LCD_new_def Let_def)
  ultimately have "keeps m m3" by (rule keeps_trans)
  with assms a b show ?thesis by (auto simp: InitActiveLCD_def Let_def split: if_splits)
qed

section \<open>Searches\<close>

lemma free_name_keeps: "free_name v m = Returned m' \<Longrightarrow> keeps m m'"
  by (auto simp: free_name_def dest: DynamicFree_keeps split: if_splits)

lemma ctx_store_keeps [simp]:
  "keeps m (ctx_store n p off v m') = keeps m m'" "keeps (ctx_store n p off v m) m' = keeps m m'"
  by (simp_all add: ctx_store_def)

lemma fold_ctx_store_keeps [simp]: "keeps m (fold (\<lambda>off. ctx_store n p off v) offs m') = keeps m m'"
  by (induction offs arbitrary: m') simp_all

lemma fill_fields_keeps [simp]: "keeps (fill_fields p a e m) m' = keeps m m'"
  by (simp add: fill_fields_def Let_def)

text \<open>The length of a name fits, which is why it is bounded here: no host string is longer than 2 ^ 63.\<close>

lemma put_name_keeps:
  assumes "put_name bs offs p m = (v, m')" "length bs < 2 ^ 63"
  shows "keeps m m'"
proof -
  obtain e u m1 where a: "DyanmicAlloc m 0 (of_nat (length bs)) = (e, u, m1)" by (metis prod_cases3)
  have "unat (of_nat (length bs) :: size_t) = length bs" using assms(2) by (simp add: unat_of_nat)
  then have "keeps m m1" using DyanmicAlloc_keeps [OF a] assms(2) by simp
  with assms(1) a show ?thesis by (auto simp: put_name_def Let_def split: if_splits)
qed

text \<open>Contexts and listings whose names fit.\<close>

definition entry_short :: "dir_entry \<Rightarrow> bool" where
  "entry_short e \<longleftrightarrow> length (de_uname e) < 2 ^ 60"

definition search_ok :: "'w search \<Rightarrow> bool" where
  "search_ok s \<longleftrightarrow> (\<forall>(h, c) \<in> set (g_find_contexts s). \<forall>e \<in> set (fc_iterator c). entry_short e)"

definition dirs_ok :: "'w dirs \<Rightarrow> bool" where
  "dirs_ok d \<longleftrightarrow> (\<forall>p w es. directory_iterator d p w = Some es \<longrightarrow> (\<forall>e \<in> set es. entry_short e))"

lemma um_set_subset: "set (um_set k v m) \<subseteq> insert (k, v) (set m)"
  by (induction k v m rule: um_set.induct) auto

lemma create_sfn_length: "length (create_sfn s) \<le> 12"
  by (auto simp: create_sfn_def Let_def sanitize_def split: prod.splits)

lemma wide_bytes_length: "length (wide_bytes ws) = 2 * length ws + 2"
  by (induction ws) simp_all

lemma search_ok_upd [simp]:
  "search_ok (s\<lparr>se_mm := m\<rparr>) = search_ok s" "search_ok (s\<lparr>g_next_find_handle := h\<rparr>) = search_ok s"
  "search_ok (s\<lparr>se_paths := st\<rparr>) = search_ok s" "search_ok (s\<lparr>se_world := w\<rparr>) = search_ok s"
  by (simp_all add: search_ok_def)

lemma set_ctx_ok:
  assumes "search_ok s" "\<forall>e \<in> set (fc_iterator c). entry_short e"
  shows "search_ok (set_ctx h c s)"
  using assms um_set_subset [of h c "g_find_contexts s"]
  by (fastforce simp: search_ok_def set_ctx_def)

lemma report_entry_keeps:
  assumes "entry_short e"
  shows "keeps (se_mm s) (se_mm (report_entry h c e es p s))"
proof -
  define m0 where "m0 = fill_fields p (fc_attrib_mask c) e (se_mm s)"
  obtain v1 m1 where a: "put_name (narrow_bytes (create_sfn (de_name e))) [12, 16] p m0 = (v1, m1)" by fastforce
  obtain v2 m2 where b: "put_name (wide_bytes (de_uname e)) [8] p m1 = (v2, m2)" by fastforce
  have "keeps m0 m1"
    using create_sfn_length [of "de_name e"] by (intro put_name_keeps [OF a]) (simp add: narrow_bytes_def)
  moreover have "keeps m1 m2"
    using assms by (intro put_name_keeps [OF b]) (simp add: wide_bytes_length entry_short_def)
  ultimately have "keeps m0 m2" by (rule keeps_trans)
  then show ?thesis using a b by (simp add: report_entry_def Let_def m0_def set_ctx_def)
qed

lemma report_entry_ok:
  assumes "search_ok s" "\<forall>e \<in> set es. entry_short e"
  shows "search_ok (report_entry h c e es p s)"
  using assms by (auto simp: report_entry_def Let_def intro!: set_ctx_ok split: prod.splits)

lemma dropWhile_subset: "dropWhile P xs = y # ys \<Longrightarrow> y \<in> set xs \<and> set ys \<subseteq> set xs"
  by (metis insert_subset list.simps(15) set_dropWhileD subsetI)

lemma find_next_keeps:
  assumes "find_next_internal ctx s = Returned (r, s')" "search_ok s"
  shows "keeps (se_mm s) (se_mm s')" "search_ok s'"
proof -
  have "keeps (se_mm s) (se_mm s') \<and> search_ok s'"
  proof (cases "GetRealAddr (se_mm s) ctx = 0 \<or> map_of (g_find_contexts s) (ctx_handle (se_mm s) (GetRealAddr (se_mm s) ctx)) = None")
    case True
    with assms have "s' = s" by (auto simp: find_next_internal_def Let_def split: if_splits)
    with assms show ?thesis by simp
  next
    case False
    define p h where "p = GetRealAddr (se_mm s) ctx" and "h = ctx_handle (se_mm s) p"
    from False obtain c where c: "map_of (g_find_contexts s) h = Some c" "p \<noteq> 0" by (auto simp: p_def h_def)
    have short: "\<forall>e \<in> set (fc_iterator c). entry_short e"
      using map_of_SomeD [OF c(1)] assms(2) by (auto simp: search_ok_def)
    from assms(1) c obtain m1 m2 where m: "free_name (fc_sfn c) (se_mm s) = Returned m1"
      "free_name (fc_lfn c) m1 = Returned m2"
      by (auto simp: find_next_internal_def Let_def p_def h_def)
    have k: "keeps (se_mm s) m2" using m by (blast intro: free_name_keeps keeps_trans)
    define c1 where "c1 = c\<lparr>fc_sfn := 0, fc_lfn := 0\<rparr>"
    show ?thesis
    proof (cases "dropWhile (\<lambda>e. \<not> entry_matches (fc_pattern c1) (fc_attrib_mask c1) e) (fc_iterator c1)")
      case Nil
      with assms c m have "s' = set_ctx h (c1\<lparr>fc_iterator := []\<rparr>) (s\<lparr>se_mm := m2\<rparr>)"
        by (simp add: find_next_internal_def Let_def p_def h_def c1_def del: dropWhile_eq_Nil_conv)
      then show ?thesis using k assms(2) by (simp add: set_ctx_ok) (simp add: set_ctx_def)
    next
      case (Cons e es)
      with assms c m have s': "s' = report_entry h c1 e es p (s\<lparr>se_mm := m2\<rparr>)"
        by (simp add: find_next_internal_def Let_def p_def h_def c1_def)
      have "entry_short e" "\<forall>e \<in> set es. entry_short e"
        using dropWhile_subset [OF Cons] short by (auto simp: c1_def)
      then show ?thesis
        using k assms(2) report_entry_keeps [of e "s\<lparr>se_mm := m2\<rparr>" h c1 es p]
        by (auto simp: s' intro: keeps_trans report_entry_ok)
    qed
  qed
  then show "keeps (se_mm s) (se_mm s')" "search_ok s'" by blast+
qed

lemma find_first_keeps:
  assumes ret: "find_first_internal d pat ctx a s = Some (Returned (r, s'))" and ok: "search_ok s" "dirs_ok d"
  shows "keeps (se_mm s) (se_mm s') \<and> search_ok s'"
proof -
  from ret obtain dir pattern st w where 1: "search_dir d pat (se_paths s, se_world s) = Some (dir, pattern, st, w)"
    by (auto simp: find_first_internal_def split: bind_splits)
  show ?thesis
  proof (cases "directory_iterator d dir w")
    case None
    with ret 1 ok show ?thesis by (simp add: find_first_internal_def Let_def) auto
  next
    case (Some es)
    have short: "\<forall>e \<in> set es. entry_short e" using ok(2) Some by (simp add: dirs_ok_def)
    let ?s = "s\<lparr>se_paths := st, se_world := w\<rparr>"
    show ?thesis
    proof (cases "GetRealAddr (se_mm s) ctx = 0")
      case True
      with ret 1 Some ok show ?thesis by (simp add: find_first_internal_def Let_def) auto
    next
      case False
      define c where "c = \<lparr>fc_iterator = es, fc_pattern = pattern, fc_attrib_mask = a, fc_lfn = 0, fc_sfn = 0\<rparr>"
      define m where "m = ctx_store 4 (GetRealAddr (se_mm s) ctx) 4 0xdeadbeef
        (ctx_store 4 (GetRealAddr (se_mm s) ctx) 0 (g_next_find_handle s) (se_mm s))"
      define s1 where "s1 = ?s\<lparr>g_next_find_handle := g_next_find_handle s + 1, se_mm := m,
        g_find_contexts := um_emplace (g_next_find_handle s) c (g_find_contexts s)\<rparr>"
      have "find_next_internal ctx s1 = Returned (r, s')"
        using ret 1 Some False by (simp add: find_first_internal_def Let_def s1_def m_def c_def)
      moreover have "search_ok s1"
        using ok(1) short by (auto simp: search_ok_def s1_def c_def um_emplace_def)
      ultimately have "keeps m (se_mm s')" "search_ok s'" using find_next_keeps [of ctx s1] by (auto simp: s1_def)
      then show ?thesis by (simp add: m_def)
    qed
  qed
qed

lemma search_ok_subset: "search_ok s \<Longrightarrow> set (g_find_contexts s') \<subseteq> set (g_find_contexts s) \<Longrightarrow> search_ok s'"
  unfolding search_ok_def by blast

lemma find_close_keeps:
  assumes "find_close_internal ctx s = Returned (r, s')" "search_ok s"
  shows "keeps (se_mm s) (se_mm s') \<and> search_ok s'"
  using assms
  by (auto simp: find_close_internal_def Let_def split: if_splits option.splits
      dest!: free_name_keeps intro: keeps_trans elim!: search_ok_subset dest: al_erase_subset [THEN subsetD])

lemma findnext_keeps:
  "findnext args s = Returned (r, s') \<Longrightarrow> search_ok s \<Longrightarrow> keeps (se_mm s) (se_mm s') \<and> search_ok s'"
  by (auto simp: findnext_def find_next_keeps split: if_splits)

lemma findclose_keeps:
  "findclose args s = Returned (r, s') \<Longrightarrow> search_ok s \<Longrightarrow> keeps (se_mm s) (se_mm s') \<and> search_ok s'"
  by (auto simp: findclose_def find_close_keeps split: if_splits)

lemma findfirst_keeps:
  assumes "search_ok s" "dirs_ok d"
  shows "afindfirst d args s = Some (Returned (r, s')) \<Longrightarrow> keeps (se_mm s) (se_mm s') \<and> search_ok s'"
    and "wfindfirst d args s = Some (Returned (r, s')) \<Longrightarrow> keeps (se_mm s) (se_mm s') \<and> search_ok s'"
  using find_first_keeps [OF _ assms] assms
  by (auto simp: afindfirst_def wfindfirst_def split: option.splits if_splits)

section \<open>Static mappings and the loader\<close>

text \<open>They change the mappings and the memory, never the tables of the heap.\<close>

definition tables :: "MemoryManager \<Rightarrow> (VirtPtr \<times> size_t) list \<times> (VirtPtr \<times> size_t) list" where
  "tables m = (heapFree m, heapAlloc m)"

lemma heap_tables_eq: "tables m' = tables m \<Longrightarrow> heap_tables m' = heap_tables m"
  by (simp add: tables_def heap_tables_def)

lemma tables_upd [simp]:
  "tables (m\<lparr>hmem := h\<rparr>) = tables m" "tables (m\<lparr>blocks := bs\<rparr>) = tables m" "tables (m\<lparr>breaks := k\<rparr>) = tables m"
  by (simp_all add: tables_def)

lemma StaticAlloc_tables: "StaticAlloc h m a n out = (e, b, m') \<Longrightarrow> tables m' = tables m"
  by (auto simp: StaticAlloc_def Let_def split: if_splits)

lemma StaticFree_tables: "StaticFree h m a = (e, m') \<Longrightarrow> tables m' = tables m"
  by (auto simp: StaticFree_def split: option.splits if_splits)

lemma ld_alloc_tables: "ld_alloc env a n (m, k) = (b, m', k') \<Longrightarrow> tables m' = tables m"
  by (auto simp: ld_alloc_def dest: StaticAlloc_tables split: prod.splits)

lemma ld_free_tables: "ld_free env a (m, k) = (m', k') \<Longrightarrow> tables m' = tables m"
  by (auto simp: ld_free_def StaticFree_tables [OF prod.collapse [symmetric]])

interpretation tables_kept: load_keeps env "\<lambda>m m'. tables m' = tables m" "\<lambda>va n. True" "\<lambda>buf. True" for env :: loader_env
  by unfold_locales (auto dest: ld_alloc_tables ld_free_tables)

lemmas LoadPEImage_tables = tables_kept.LoadPEImage_keeps

end
