(* ===== verification/LiveBlocks.thy ===== *)
theory LiveBlocks
  imports HeapTables DisplayProps VFileProps
begin

text \<open>
  The contents of live blocks under the operations that other components use: a write inside one block,
  an allocation, a release and the stores to a guest structure that lies in a block.  Each keeps the heap
  sound and every other live block with its bytes.
\<close>

section \<open>Contents of live blocks\<close>

text \<open>Byte \<open>i\<close> behind the guest address \<open>b\<close>, as the host sees it.\<close>

definition cont :: "MemoryManager \<Rightarrow> VirtPtr \<Rightarrow> nat \<Rightarrow> byte" where
  "cont m b i = hmem m (GetRealAddr m b + of_nat i)"

text \<open>A step that keeps the heap sound, and the live block \<open>b\<close> of size \<open>k\<close> with its contents.\<close>

definition sound :: "MemoryManager \<Rightarrow> MemoryManager \<Rightarrow> bool" where
  "sound m m' \<longleftrightarrow> hinv m' \<and> blocks m' = blocks m \<and> breaks m \<le> breaks m'"

definition kept :: "VirtPtr \<Rightarrow> size_t \<Rightarrow> MemoryManager \<Rightarrow> MemoryManager \<Rightarrow> bool" where
  "kept b k m m' \<longleftrightarrow> (b, k) \<in> set (heapAlloc m') \<and> (\<forall>i<unat k. cont m' b i = cont m b i)"

lemma sound_trans: "sound m m' \<Longrightarrow> sound m' m'' \<Longrightarrow> sound m m''"
  by (auto simp: sound_def)

lemma kept_trans: "kept b k m m' \<Longrightarrow> kept b k m' m'' \<Longrightarrow> kept b k m m''"
  by (auto simp: kept_def)

lemma soundD: "sound m m' \<Longrightarrow> hinv m'" "sound m m' \<Longrightarrow> GetRealAddr m' v = GetRealAddr m v" "sound m m' \<Longrightarrow> breaks m \<le> breaks m'"
  by (auto simp: sound_def intro: GetRealAddr_cong)

lemma keptD: "kept b k m m' \<Longrightarrow> (b, k) \<in> set (heapAlloc m')" "kept b k m m' \<Longrightarrow> i < unat k \<Longrightarrow> cont m' b i = cont m b i"
  by (simp_all add: kept_def)

lemma cont_load_cong:
  assumes "blocks m' = blocks m" "\<And>j. j < n \<Longrightarrow> cont m' u (i + j) = cont m u (i + j)"
  shows "load_le n (hmem m') (GetRealAddr m u + of_nat i) = load_le n (hmem m) (GetRealAddr m u + of_nat i)"
proof (rule load_le_cong)
  fix j assume "j < n"
  from assms(2) [OF this] show "hmem m' (GetRealAddr m u + of_nat i + of_nat j) = hmem m (GetRealAddr m u + of_nat i + of_nat j)"
    unfolding cont_def GetRealAddr_cong [OF assms(1)] by (simp add: add.assoc)
qed

text \<open>A write of \<open>n\<close> bytes at offset \<open>i\<close> of the live block \<open>u\<close>.\<close>

lemma block_write:
  assumes inv: "hinv m" and u: "(u, k) \<in> set (heapAlloc m)" and i: "i + n \<le> unat k"
    and h: "\<And>q. n \<le> unat (q - (GetRealAddr m u + of_nat i)) \<Longrightarrow> h q = hmem m q"
  shows "sound m (m\<lparr>hmem := h\<rparr>)"
    "(b, l) \<in> set (heapAlloc m) \<Longrightarrow> b \<noteq> u \<Longrightarrow> kept b l m (m\<lparr>hmem := h\<rparr>)"
    "j < unat k \<Longrightarrow> j < i \<or> i + n \<le> j \<Longrightarrow> cont (m\<lparr>hmem := h\<rparr>) u j = cont m u j"
proof -
  note D = hinvD [OF inv] and B = alloc_in_heap [OF hinvD(2) [OF inv] u]
  have far: "n \<le> unat (GetRealAddr m v - (GetRealAddr m u + of_nat i))"
    if v: "in_heap (unat v)" "unat v < unat u + i \<or> unat u + i + n \<le> unat v" for v
  proof (rule ccontr)
    assume "\<not> ?thesis"
    then have l: "unat (GetRealAddr m v - (GetRealAddr m u + of_nat i)) < n" by simp
    then have n: "0 < n" by simp
    then have ui: "GetRealAddr m u + of_nat i = GetRealAddr m (u + of_nat i)" "unat (u + of_nat i) = unat u + i"
      using block_byte [OF inv u, of i] i by simp_all
    have "unat u + i \<le> unat v" "unat v < unat u + i + n"
      using heap_range_real [OF D(1) _ _ in_heap_allocated [OF D(1) v(1)], of "u + of_nat i" n] l B i n
      by (simp_all add: ui)
    then show False using v(2) by simp
  qed
  have inv': "hinv (m\<lparr>hmem := h\<rparr>)"
  proof (rule hinv_user_write [OF inv])
    fix v assume v: "in_heap (unat v)" "\<not> user_area (heapAlloc m) v"
    then have "unat v < unat u + i \<or> unat u + i + n \<le> unat v"
      using u i by (force simp: user_area_def)
    then show "h (GetRealAddr m v) = hmem m (GetRealAddr m v)" using far v(1) h by blast
  qed
  have byte: "cont (m\<lparr>hmem := h\<rparr>) b j = cont m b j"
    if b: "(b, l) \<in> set (heapAlloc m)" "j < unat l" and o: "unat b + j < unat u + i \<or> unat u + i + n \<le> unat b + j" for b l j
  proof -
    note bj = block_byte [OF inv b]
    have "in_heap (unat (b + of_nat j))"
      using alloc_in_heap [OF D(2) b(1)] b(2) by (simp add: bj(2) in_heap_def)
    then show ?thesis using far [of "b + of_nat j"] o by (simp add: cont_def bj(1,2) h)
  qed
  show "sound m (m\<lparr>hmem := h\<rparr>)" using inv' by (simp add: sound_def)
  show "kept b l m (m\<lparr>hmem := h\<rparr>)" if "(b, l) \<in> set (heapAlloc m)" "b \<noteq> u"
    using alloc_disjoint [OF D(2) u that(1)] that i by (auto simp: kept_def intro!: byte)
  show "j < unat k \<Longrightarrow> j < i \<or> i + n \<le> j \<Longrightarrow> cont (m\<lparr>hmem := h\<rparr>) u j = cont m u j"
    using byte [OF u] by auto
qed

lemma block_alloc:
  assumes inv: "hinv m" and n: "n \<noteq> 0" and r: "DyanmicAlloc m 0 (sz n) = (e, v, m')"
  shows "sound m m'" "(b, k) \<in> set (heapAlloc m) \<Longrightarrow> kept b k m m'"
    "e = ERROR_OK \<and> v \<noteq> 0 \<and> v \<notin> fst ` set (heapAlloc m) \<and> breaks m' = breaks m
       \<and> (\<exists>j. unat n \<le> unat j \<and> set (heapAlloc m') = insert (v, j) (set (heapAlloc m)))
     \<or> e \<noteq> ERROR_OK \<and> v = 0 \<and> m' = m\<lparr>breaks := Suc (breaks m)\<rparr>"
proof -
  have b: "blocks m' = blocks m" "breaks m \<le> breaks m'" using DyanmicAlloc_frame [OF r] by simp_all
  consider (ok) "e = ERROR_OK" "alloc_post m n v m'" | (no) "e \<noteq> ERROR_OK" "v = 0" "m' = m\<lparr>breaks := Suc (breaks m)\<rparr>"
    using DyanmicAlloc_cases [OF inv n, of 0] r by auto
  note C = this
  from C show "sound m m'"
    by cases (use inv b in \<open>auto simp: sound_def alloc_post_def hinv_breaks\<close>)
  show "kept b k m m'" if p: "(b, k) \<in> set (heapAlloc m)"
    using C
  proof cases
    case ok
    then show ?thesis using p block_byte [OF inv p]
      by (auto simp: alloc_post_def kept_def cont_def gread_def GetRealAddr_cong [OF b(1)])
  qed (use p in \<open>simp add: kept_def cont_def\<close>)
  from C show "e = ERROR_OK \<and> v \<noteq> 0 \<and> v \<notin> fst ` set (heapAlloc m) \<and> breaks m' = breaks m
       \<and> (\<exists>j. unat n \<le> unat j \<and> set (heapAlloc m') = insert (v, j) (set (heapAlloc m)))
     \<or> e \<noteq> ERROR_OK \<and> v = 0 \<and> m' = m\<lparr>breaks := Suc (breaks m)\<rparr>"
    by cases (use DyanmicAlloc_OK_breaks [of m 0 "sz n" v m'] r in \<open>auto simp: alloc_post_def\<close>)
qed

lemma null_not_live: "hinv m \<Longrightarrow> (0, k) \<notin> set (heapAlloc m)"
  using alloc_in_heap(1) [OF hinvD(2), of m 0 k] by auto

lemma block_free:
  assumes inv: "hinv m" and r: "free_name v m = Returned m'"
  shows "sound m m'" "(b, k) \<in> set (heapAlloc m) \<Longrightarrow> b \<noteq> v \<Longrightarrow> kept b k m m'"
    "set (heapAlloc m') = {p \<in> set (heapAlloc m). fst p \<noteq> v}" "breaks m' = breaks m"
proof -
  have br: "breaks m' = breaks m"
    using r by (auto simp: free_name_def DynamicFree_def HeapFree_def CoalesceAround_def Let_def split: if_splits option.splits prod.splits)
  have "hinv m' \<and> blocks m' = blocks m \<and> hmem m' = hmem m \<and> set (heapAlloc m') = {p \<in> set (heapAlloc m). fst p \<noteq> v}"
  proof (cases "v \<in> fst ` set (heapAlloc m)")
    case True
    then have v: "v \<noteq> 0" using null_not_live [OF inv] by auto
    from DynamicFree_cases [OF inv, of v] True v obtain n m2 where
      d: "DynamicFree m v = Returned (ERROR_OK, m2)" and
      n: "(v, n) \<in> set (heapAlloc m)" "hinv m2" "set (heapAlloc m2) = set (heapAlloc m) - {(v, n)}"
      "hmem m2 = hmem m" "blocks m2 = blocks m" by blast
    have m': "m' = m2" using r v d by (simp add: free_name_def)
    have "set (heapAlloc m) - {(v, n)} = {p \<in> set (heapAlloc m). fst p \<noteq> v}"
      using n(1) by (auto dest: live_unique [OF inv n(1)])
    then show ?thesis using n by (simp add: m')
  next
    case False
    then have "m' = m" using DynamicFree_cases [OF inv, of v] r by (auto simp: free_name_def image_iff split: if_splits)
    then show ?thesis using False inv by (auto simp: image_iff)
  qed
  note F = this
  have R: "GetRealAddr m' w = GetRealAddr m w" for w using GetRealAddr_cong F by blast
  from F br show "sound m m'" "(b, k) \<in> set (heapAlloc m) \<Longrightarrow> b \<noteq> v \<Longrightarrow> kept b k m m'"
    "set (heapAlloc m') = {p \<in> set (heapAlloc m). fst p \<noteq> v}" "breaks m' = breaks m"
    by (simp_all add: sound_def kept_def cont_def R)
qed

lemma free_name_returns: "hinv m \<Longrightarrow> \<exists>m'. free_name v m = Returned m'"
  using DynamicFree_cases [of m v] by (auto simp: free_name_def)

section \<open>Fields of the context\<close>

text \<open>The address \<open>u + o\<close> of a structure of 46 bytes in the live block \<open>u\<close>; several stores to its fields.\<close>

definition ctx_stores :: "(nat \<times> nat \<times> 64 word) list \<Rightarrow> RealPtr \<Rightarrow> MemoryManager \<Rightarrow> MemoryManager" where
  "ctx_stores ws p m = fold (\<lambda>(n, off, x). ctx_store n p off x) ws m"

definition apart_fields :: "(nat \<times> nat \<times> 64 word) list \<Rightarrow> bool" where
  "apart_fields ws \<longleftrightarrow> sorted_wrt (\<lambda>(n, off, x) (n', off', x'). off + n \<le> off' \<or> off' + n' \<le> off) ws"

definition ctx_field :: "MemoryManager \<Rightarrow> VirtPtr \<Rightarrow> nat \<Rightarrow> nat \<Rightarrow> 64 word" where
  "ctx_field m ctx n off = load_le n (hmem m) (GetRealAddr m ctx + of_nat off)"

lemma ctx_stores_simps [simp]:
  "ctx_stores [] p m = m"
  "ctx_stores ((n, off, x) # ws) p m = ctx_stores ws p (ctx_store n p off x m)"
  by (simp_all add: ctx_stores_def)

lemma ctx_store_frame [simp]:
  "heapAlloc (ctx_store n p off x m) = heapAlloc m" "blocks (ctx_store n p off x m) = blocks m"
  "breaks (ctx_store n p off x m) = breaks m" "GetRealAddr (ctx_store n p off x m) v = GetRealAddr m v"
  by (simp_all add: ctx_store_def)

lemma ctx_stores_frame [simp]:
  "heapAlloc (ctx_stores ws p m) = heapAlloc m" "blocks (ctx_stores ws p m) = blocks m"
  "breaks (ctx_stores ws p m) = breaks m" "GetRealAddr (ctx_stores ws p m) v = GetRealAddr m v"
  by (induction ws arbitrary: m) auto

lemma ctx_store_block:
  assumes inv: "hinv m" and u: "(u, k) \<in> set (heapAlloc m)" and p: "p = GetRealAddr m u + of_nat i" and i: "i + off + n \<le> unat k"
  shows "sound m (ctx_store n p off x m)"
    "(b, l) \<in> set (heapAlloc m) \<Longrightarrow> b \<noteq> u \<Longrightarrow> kept b l m (ctx_store n p off x m)"
    "j < unat k \<Longrightarrow> j < i + off \<or> i + off + n \<le> j \<Longrightarrow> cont (ctx_store n p off x m) u j = cont m u j"
proof -
  have h: "store_le n (hmem m) (p + of_nat off) x q = hmem m q" if "n \<le> unat (q - (GetRealAddr m u + of_nat (i + off)))" for q
    using that by (simp add: store_le_def p add.assoc)
  note W = block_write [OF inv u i h]
  show "sound m (ctx_store n p off x m)"
    "(b, l) \<in> set (heapAlloc m) \<Longrightarrow> b \<noteq> u \<Longrightarrow> kept b l m (ctx_store n p off x m)"
    "j < unat k \<Longrightarrow> j < i + off \<or> i + off + n \<le> j \<Longrightarrow> cont (ctx_store n p off x m) u j = cont m u j"
    using W by (simp_all add: ctx_store_def)
qed

lemma ctx_stores_block:
  assumes "hinv m" "(u, k) \<in> set (heapAlloc m)" "p = GetRealAddr m u + of_nat i" "\<forall>(n, off, x) \<in> set ws. i + off + n \<le> unat k"
  shows "sound m (ctx_stores ws p m) \<and> (\<forall>(b, l) \<in> set (heapAlloc m). b \<noteq> u \<longrightarrow> kept b l m (ctx_stores ws p m))
    \<and> (\<forall>j<unat k. (\<forall>(n, off, x) \<in> set ws. j < i + off \<or> i + off + n \<le> j) \<longrightarrow> cont (ctx_stores ws p m) u j = cont m u j)"
  using assms
proof (induction ws arbitrary: m)
  case Nil
  then show ?case by (simp add: sound_def kept_def case_prod_beta)
next
  case (Cons w ws)
  obtain n off x where w: "w = (n, off, x)" by (cases w)
  let ?m = "ctx_store n p off x m"
  have i: "i + off + n \<le> unat k" using Cons.prems(4) by (simp add: w)
  note S = ctx_store_block [OF Cons.prems(1-3) i, where x = x]
  have "hinv ?m" "(u, k) \<in> set (heapAlloc ?m)" "p = GetRealAddr ?m u + of_nat i" "\<forall>(n, off, x) \<in> set ws. i + off + n \<le> unat k"
    using soundD(1) [OF S(1)] Cons.prems by simp_all
  note IH = Cons.IH [OF this]
  have "kept b l m (ctx_stores ws p ?m)" if "(b, l) \<in> set (heapAlloc m)" "b \<noteq> u" for b l
    using kept_trans [OF S(2) [OF that]] IH that by fastforce
  moreover have "sound m (ctx_stores ws p ?m)" using sound_trans [OF S(1)] IH by simp
  ultimately show ?case using S(3) IH by (auto simp: w)
qed

lemma ctx_stores_field:
  assumes "apart_fields ws" "(n, off, x) \<in> set ws" "n \<le> 8" "\<forall>(n, off, x) \<in> set ws. off + n \<le> 1000"
  shows "load_le n (hmem (ctx_stores ws p m)) (p + of_nat off) = take_bit (8 * n) x"
  using assms
proof (induction ws arbitrary: m)
  case (Cons w ws)
  obtain n' off' x' where w: "w = (n', off', x')" by (cases w)
  show ?case
  proof (cases "(n, off, x) \<in> set ws")
    case True
    then show ?thesis using Cons by (simp add: w apart_fields_def)
  next
    case False
    then have here: "n = n'" "off = off'" "x = x'" using Cons.prems(2) by (simp_all add: w)
    have far: "\<forall>(n'', off'', x'') \<in> set ws. off + n \<le> off'' \<or> off'' + n'' \<le> off"
      using Cons.prems(1) by (simp add: apart_fields_def w here)
    have "load_le n (hmem (ctx_stores ws p m')) (p + of_nat off) = load_le n (hmem m') (p + of_nat off)" for m'
      using far Cons.prems(4)
    proof (induction ws arbitrary: m')
      case (Cons v vs)
      obtain n1 o1 x1 where v: "v = (n1, o1, x1)" by (cases v)
      have o: "off + n \<le> 1000" "o1 + n1 \<le> 1000" "off + n \<le> o1 \<or> o1 + n1 \<le> off"
        using Cons.prems by (simp_all add: v w here)
      have "load_le n (store_le n1 (hmem m') (p + of_nat o1) x1) (p + of_nat off) = load_le n (hmem m') (p + of_nat off)"
      proof (rule load_le_cong)
        fix j assume j: "j < n"
        have "n1 \<le> unat (p + of_nat off + of_nat j - (p + of_nat o1))"
        proof (cases "o1 \<le> off + j")
          case True
          have "p + of_nat off + of_nat j - (p + of_nat o1) = of_nat (off + j - o1)"
            by (simp add: of_nat_diff [OF True])
          then have "unat (p + of_nat off + of_nat j - (p + of_nat o1)) = off + j - o1"
            using o j by (simp only: unat_of_nat) simp
          then show ?thesis using o j True by linarith
        next
          case False
          have "p + of_nat off + of_nat j - (p + of_nat o1) = - of_nat (o1 - (off + j))"
            using False by (simp add: of_nat_diff)
          moreover have "unat (of_nat (o1 - (off + j)) :: 64 word) = o1 - (off + j)" using o by (simp add: unat_of_nat)
          ultimately have "unat (p + of_nat off + of_nat j - (p + of_nat o1)) = 18446744073709551616 - (o1 - (off + j))"
            using False unat_negative [of "of_nat (o1 - (off + j))"] by (simp only:)
          then show ?thesis using o j False by linarith
        qed
        then show "store_le n1 (hmem m') (p + of_nat o1) x1 (p + of_nat off + of_nat j) = hmem m' (p + of_nat off + of_nat j)"
          by (simp add: store_le_def)
      qed
      then show ?case using Cons by (simp add: v w ctx_store_def)
    qed simp
    then show ?thesis using Cons.prems(3) by (simp add: w here ctx_store_def load_store_le del: load_le.simps)
  qed
qed simp

end
