(* ===== verification/SearchProps.thy ===== *)
theory SearchProps
  imports LiveBlocks PathProps
begin

text \<open>
  What a directory search delivers: the sequence of \<open>find\<close> calls reports exactly the matching entries
  of the listing, in order, with names and fields in guest memory, and closing it gives back all it allocated.
\<close>

section \<open>Names\<close>

definition bytes_at :: "MemoryManager \<Rightarrow> VirtPtr \<Rightarrow> byte list \<Rightarrow> bool" where
  "bytes_at m v bs \<longleftrightarrow> (\<forall>i<length bs. cont m v i = bs ! i)"

lemma bytes_kept: "bytes_at m v bs \<Longrightarrow> kept v k m m' \<Longrightarrow> length bs \<le> unat k \<Longrightarrow> bytes_at m' v bs"
  by (simp add: bytes_at_def kept_def)

lemma fold_ctx_store: "fold (\<lambda>off. ctx_store n p off x) offs m = ctx_stores (map (\<lambda>f. (n, f, x)) offs) p m"
  by (induction offs arbitrary: m) simp_all

lemma put_name_spec:
  assumes inv: "hinv m" and u: "(u, k) \<in> set (heapAlloc m)" and p: "p = GetRealAddr m u + of_nat i" and i: "i + 46 \<le> unat k"
    and bs: "bs \<noteq> []" "length bs < 2 ^ 32" and offs: "\<forall>f \<in> set offs. f + 4 \<le> 46"
    and r: "put_name bs offs p m = (v, m')"
  shows "sound m m'" "(b, l) \<in> set (heapAlloc m) \<Longrightarrow> b \<noteq> u \<Longrightarrow> kept b l m m'" "(u, k) \<in> set (heapAlloc m')"
    "j < unat k \<Longrightarrow> \<forall>f \<in> set offs. j < i + f \<or> i + f + 4 \<le> j \<Longrightarrow> cont m' u j = cont m u j"
    "v = 0 \<and> set (heapAlloc m') = set (heapAlloc m) \<and> breaks m < breaks m'
     \<or> v \<noteq> 0 \<and> v \<notin> fst ` set (heapAlloc m)
       \<and> (\<exists>l. length bs \<le> unat l \<and> set (heapAlloc m') = insert (v, l) (set (heapAlloc m))) \<and> bytes_at m' v bs
       \<and> (apart_fields (map (\<lambda>f. (4, f, sz v)) offs) \<longrightarrow> (\<forall>f \<in> set offs. load_le 4 (hmem m') (p + of_nat f) = sz v))"
proof -
  define n :: u32 where "n = of_nat (length bs)"
  have n: "unat n = length bs" using bs(2) by (simp add: n_def unat_of_nat)
  then have nz: "n \<noteq> 0" using bs(1) by (auto simp: unat_eq_zero)
  have sn: "of_nat (length bs) = sz n" using n bs(2) by (simp add: word_unat_eq_iff unat_of_nat)
  obtain e m1 where al: "DyanmicAlloc m 0 (sz n) = (e, v, m1)"
    using r by (auto simp: put_name_def sn split: prod.splits if_splits)
  note A = block_alloc [OF inv nz al]
  have u1: "(u, k) \<in> set (heapAlloc m1)" using keptD(1) [OF A(2) [OF u]] .
  have "sound m m' \<and> ((b, l) \<in> set (heapAlloc m) \<longrightarrow> b \<noteq> u \<longrightarrow> kept b l m m') \<and> (u, k) \<in> set (heapAlloc m')
    \<and> (j < unat k \<longrightarrow> (\<forall>f \<in> set offs. j < i + f \<or> i + f + 4 \<le> j) \<longrightarrow> cont m' u j = cont m u j)
    \<and> (v = 0 \<and> set (heapAlloc m') = set (heapAlloc m) \<and> breaks m < breaks m'
     \<or> v \<noteq> 0 \<and> v \<notin> fst ` set (heapAlloc m)
       \<and> (\<exists>l. length bs \<le> unat l \<and> set (heapAlloc m') = insert (v, l) (set (heapAlloc m))) \<and> bytes_at m' v bs
       \<and> (apart_fields (map (\<lambda>f. (4, f, sz v)) offs) \<longrightarrow> (\<forall>f \<in> set offs. load_le 4 (hmem m') (p + of_nat f) = sz v)))"
    (is "?G")
  proof (cases "e = ERROR_OK")
    case False
    then have "v = 0" "m1 = m\<lparr>breaks := Suc (breaks m)\<rparr>" "m' = m1" using A(3) r al by (auto simp: put_name_def sn)
    then show ?thesis using A(1,2) u by (auto simp: kept_def)
  next
    case True
    then obtain l0 where v: "v \<noteq> 0" "v \<notin> fst ` set (heapAlloc m)" "breaks m1 = breaks m"
      "unat n \<le> unat l0" "set (heapAlloc m1) = insert (v, l0) (set (heapAlloc m))" using A(3) by blast
    have vu: "v \<noteq> u" using v(2) u by force
    define m2 where "m2 = m1\<lparr>hmem := store_bytes (hmem m1) (GetRealAddr m1 v) bs\<rparr>"
    have v1: "(v, l0) \<in> set (heapAlloc m1)" using v(5) by simp
    have out: "store_bytes (hmem m1) (GetRealAddr m1 v) bs q = hmem m1 q"
      if "length bs \<le> unat (q - (GetRealAddr m1 v + of_nat 0))" for q
      using that bs(2) by (simp add: store_bytes_apply)
    have l0: "0 + length bs \<le> unat l0" using v(4) n by simp
    have W: "sound m1 m2" "\<And>b l. (b, l) \<in> set (heapAlloc m1) \<Longrightarrow> b \<noteq> v \<Longrightarrow> kept b l m1 m2"
      using block_write(1,2) [OF soundD(1) [OF A(1)] v1 l0 out] by (simp_all add: m2_def)
    have m2: "heapAlloc m2 = heapAlloc m1" "breaks m2 = breaks m1" "GetRealAddr m2 w = GetRealAddr m1 w" for w
      by (simp_all add: m2_def)
    have b2: "bytes_at m2 v bs"
      using bs(2)
      by (simp add: bytes_at_def m2_def cont_def store_bytes_apply unat_of_nat)
    have R: "GetRealAddr m2 w = GetRealAddr m w" for w using soundD(2) [OF A(1)] m2(3) by simp
    define ws where "ws = map (\<lambda>f. (4 :: nat, f, sz v)) offs"
    have m': "m' = ctx_stores ws p m2"
      using r al True by (simp add: put_name_def sn m2_def fold_ctx_store ws_def Let_def)
    have u2: "(u, k) \<in> set (heapAlloc m2)" using u1 by (simp add: m2)
    have wo: "\<forall>(n, off, x) \<in> set ws. i + off + n \<le> unat k" using offs i by (auto simp: ws_def)
    have p2: "p = GetRealAddr m2 u + of_nat i" by (simp add: p R)
    note C = ctx_stores_block [OF soundD(1) [OF W(1)] u2 p2 wo, folded m']
    have "sound m m'" using sound_trans [OF A(1)] sound_trans [OF W(1)] C by blast
    moreover have "kept b l m m'" if "(b, l) \<in> set (heapAlloc m)" "b \<noteq> u"
    proof -
      have "b \<noteq> v" using that(1) v(2) by force
      note k1 = A(2) [OF that(1)]
      have "kept b l m1 m2" using W(2) [OF keptD(1) [OF k1] \<open>b \<noteq> v\<close>] .
      note k2 = kept_trans [OF k1 this]
      have "kept b l m2 m'" using C keptD(1) [OF k2] that(2) by fastforce
      then show ?thesis using kept_trans [OF k2] by simp
    qed
    moreover have "cont m' u j = cont m u j" if "j < unat k" "\<forall>f \<in> set offs. j < i + f \<or> i + f + 4 \<le> j"
    proof -
      have "cont m' u j = cont m2 u j" using C that by (auto simp: ws_def)
      also have "\<dots> = cont m1 u j" using keptD(2) [OF W(2) [OF u1]] vu that(1) by simp
      finally show ?thesis using keptD(2) [OF A(2) [OF u]] that(1) by simp
    qed
    moreover have "bytes_at m' v bs"
    proof (rule bytes_kept [OF b2])
      show "kept v l0 m2 m'" using C v1 vu m2(1) by fastforce
    qed (use l0 in simp)
    moreover have "\<forall>f \<in> set offs. load_le 4 (hmem m') (p + of_nat f) = sz v" if "apart_fields ws"
    proof
      fix f assume f: "f \<in> set offs"
      have "load_le 4 (hmem (ctx_stores ws p m2)) (p + of_nat f) = take_bit (8 * 4) (sz v)"
        using offs f by (intro ctx_stores_field [OF that]) (auto simp: ws_def)
      then show "load_le 4 (hmem m') (p + of_nat f) = sz v" by (simp add: m' sz_def del: load_le.simps)
    qed
    moreover have "heapAlloc m' = heapAlloc m1" by (simp add: m' m2)
    ultimately show ?thesis using v l0 u1 by (auto simp: ws_def)
  qed
  then show "sound m m'" "(b, l) \<in> set (heapAlloc m) \<Longrightarrow> b \<noteq> u \<Longrightarrow> kept b l m m'" "(u, k) \<in> set (heapAlloc m')"
    "j < unat k \<Longrightarrow> \<forall>f \<in> set offs. j < i + f \<or> i + f + 4 \<le> j \<Longrightarrow> cont m' u j = cont m u j"
    "v = 0 \<and> set (heapAlloc m') = set (heapAlloc m) \<and> breaks m < breaks m'
     \<or> v \<noteq> 0 \<and> v \<notin> fst ` set (heapAlloc m)
       \<and> (\<exists>l. length bs \<le> unat l \<and> set (heapAlloc m') = insert (v, l) (set (heapAlloc m))) \<and> bytes_at m' v bs
       \<and> (apart_fields (map (\<lambda>f. (4, f, sz v)) offs) \<longrightarrow> (\<forall>f \<in> set offs. load_le 4 (hmem m') (p + of_nat f) = sz v))"
    by blast+
qed


section \<open>One report\<close>

text \<open>What the guest finds in its \<open>find_context_t\<close> at \<open>ctx\<close> after a call reported the entry \<open>e\<close>.\<close>

definition reported :: "MemoryManager \<Rightarrow> VirtPtr \<Rightarrow> dir_entry \<Rightarrow> bool" where
  "reported m ctx e \<longleftrightarrow> ctx_field m ctx 8 24 = (if de_is_regular e then of_nat (de_size e) else 0)
     \<and> ctx_field m ctx 1 45 = ucast (get_fat_attributes e)
     \<and> (\<exists>sfn lfn. ctx_field m ctx 4 16 = sz sfn \<and> ctx_field m ctx 4 12 = sz sfn \<and> ctx_field m ctx 4 8 = sz lfn
          \<and> bytes_at m sfn (narrow_bytes (create_sfn (de_name e))) \<and> bytes_at m lfn (wide_bytes (de_uname e)))"

definition field_writes :: "u32 \<Rightarrow> dir_entry \<Rightarrow> (nat \<times> nat \<times> 64 word) list" where
  "field_writes a e = [(8, 24, if de_is_regular e then of_nat (de_size e) else 0), (4, 36, 0), (4, 32, 0), (4, 40, 0),
     (1, 45, ucast (get_fat_attributes e)), (1, 44, ucast a)]"

lemma fill_fields_eq: "fill_fields p a e m = ctx_stores (field_writes a e) p m"
  by (simp add: fill_fields_def field_writes_def Let_def)

lemma field_writes_apart: "apart_fields (field_writes a e)"
  by (simp add: apart_fields_def field_writes_def)

lemma take_bit_byte: "take_bit 8 (ucast (b :: byte) :: 64 word) = ucast b"
  by (auto intro!: bit_word_eqI simp: bit_simps) (auto dest: bit_imp_le_length)

lemma report_spec:
  assumes inv: "hinv m" and u: "(u, k) \<in> set (heapAlloc m)" and i: "i + 46 \<le> unat k"
    and ctx: "GetRealAddr m ctx = GetRealAddr m u + of_nat i" and short: "length (de_uname e) < 2 ^ 30"
    and s: "put_name (narrow_bytes (create_sfn (de_name e))) [12, 16] (GetRealAddr m ctx)
        (fill_fields (GetRealAddr m ctx) a e m) = (sfn, m1)"
    and l: "put_name (wide_bytes (de_uname e)) [8] (GetRealAddr m ctx) m1 = (lfn, m2)"
  shows "sound m m2" "(u, k) \<in> set (heapAlloc m2)" "sfn \<noteq> u" "lfn \<noteq> u" "ctx_field m2 ctx 4 0 = ctx_field m ctx 4 0"
    "{q \<in> set (heapAlloc m2). fst q \<noteq> sfn \<and> fst q \<noteq> lfn} = set (heapAlloc m)"
    "breaks m2 = breaks m \<Longrightarrow> reported m2 ctx e"
proof -
  define p where "p = GetRealAddr m ctx"
  define m0 where "m0 = ctx_stores (field_writes a e) p m"
  have p: "p = GetRealAddr m u + of_nat i" by (simp add: p_def ctx)
  have w: "\<forall>(n, off, x) \<in> set (field_writes a e). i + off + n \<le> unat k" using i by (simp add: field_writes_def)
  note F = ctx_stores_block [OF inv u p w, folded m0_def]
  have s0: "sound m m0" and A0: "heapAlloc m0 = heapAlloc m" using F by (simp_all add: m0_def)
  have u0: "(u, k) \<in> set (heapAlloc m0)" using u A0 by simp
  have p0: "p = GetRealAddr m0 u + of_nat i" using p soundD(2) [OF s0] by simp
  have n1: "narrow_bytes (create_sfn (de_name e)) \<noteq> []" "length (narrow_bytes (create_sfn (de_name e))) < 2 ^ 32"
    using create_sfn_length [of "de_name e"] by (simp_all add: narrow_bytes_def)
  have n2: "wide_bytes (de_uname e) \<noteq> []" "length (wide_bytes (de_uname e)) < 2 ^ 32"
    using short by (auto simp: wide_bytes_length dest: arg_cong [of _ _ length])
  have r1: "put_name (narrow_bytes (create_sfn (de_name e))) [12, 16] p m0 = (sfn, m1)"
    using s by (simp add: p_def m0_def fill_fields_eq)
  have r2: "put_name (wide_bytes (de_uname e)) [8] p m1 = (lfn, m2)" using l by (simp add: p_def)
  have o: "\<forall>f \<in> set [12, 16]. f + 4 \<le> (46 :: nat)" "\<forall>f \<in> set [8]. f + 4 \<le> (46 :: nat)" by simp_all
  note P1 = put_name_spec [OF soundD(1) [OF s0] u0 p0 i n1 o(1) r1]
  have p1: "p = GetRealAddr m1 u + of_nat i" using p0 soundD(2) [OF P1(1)] by simp
  note P2 = put_name_spec [OF soundD(1) [OF P1(1)] P1(3) p1 i n2 o(2) r2]
  have S1: "sound m m1" using sound_trans [OF s0 P1(1)] .
  show S2: "sound m m2" using sound_trans [OF S1 P2(1)] .
  show "(u, k) \<in> set (heapAlloc m2)" by (rule P2(3))
  have u_nz: "u \<noteq> 0" using null_not_live [OF inv] u by auto
  show "sfn \<noteq> u" using P1(5) u u_nz A0 by (auto simp: image_iff)
  show "lfn \<noteq> u" using P2(5) P1(3) u_nz by (auto simp: image_iff)
  have same: "ctx_field m'' ctx n off = ctx_field m' ctx n off"
    if "sound m m'" "sound m' m''" "\<And>j. j < n \<Longrightarrow> cont m'' u (i + off + j) = cont m' u (i + off + j)" for m' m'' n off
  proof -
    have b: "blocks m'' = blocks m'" using that(2) by (simp add: sound_def)
    have "GetRealAddr m'' ctx + of_nat off = GetRealAddr m' u + of_nat (i + off)"
      "GetRealAddr m' ctx + of_nat off = GetRealAddr m' u + of_nat (i + off)"
      using soundD(2) [OF that(1)] soundD(2) [OF that(2)] ctx by (simp_all add: add.assoc)
    then show ?thesis unfolding ctx_field_def by (simp only:) (rule cont_load_cong [OF b that(3)])
  qed
  have k0: "cont m0 u (i + j) = cont m u (i + j)" if "j < 24" for j using F that i by (auto simp: field_writes_def)
  have k1: "cont m1 u (i + j) = cont m0 u (i + j)" if "j < 46" "j < 12 \<or> 20 \<le> j" for j
    using P1(4) [of "i + j"] that i by auto
  have k2: "cont m2 u (i + j) = cont m1 u (i + j)" if "j < 46" "j < 8 \<or> 12 \<le> j" for j
    using P2(4) [of "i + j"] that i by auto
  have f2: "ctx_field m2 ctx n off = ctx_field m1 ctx n off" if "off + n \<le> 8 \<or> 12 \<le> off" "off + n \<le> 46" for n off
    using that by (intro same [OF S1 P2(1)]) (auto simp: add.assoc intro!: k2)
  have f1: "ctx_field m1 ctx n off = ctx_field m0 ctx n off" if "off + n \<le> 12 \<or> 20 \<le> off" "off + n \<le> 46" for n off
    using that by (intro same [OF s0 P1(1)]) (auto simp: add.assoc intro!: k1)
  have "ctx_field m0 ctx 4 0 = ctx_field m ctx 4 0"
    by (rule same) (use s0 inv k0 in \<open>simp_all add: sound_def\<close>)
  then show "ctx_field m2 ctx 4 0 = ctx_field m ctx 4 0" by (simp add: f1 f2)
  have "fst q \<noteq> sfn \<and> fst q \<noteq> lfn \<and> q \<in> set (heapAlloc m2)" if q: "q \<in> set (heapAlloc m)" for q
  proof -
    have "fst q \<in> fst ` set (heapAlloc m)" "fst q \<noteq> 0"
      using q null_not_live [OF inv, of "snd q"] by (auto simp: prod_eq_iff) (metis prod.collapse)
    then show ?thesis using P1(5) P2(5) A0 q by auto
  qed
  moreover have "q \<in> set (heapAlloc m2) \<Longrightarrow> fst q \<noteq> sfn \<Longrightarrow> fst q \<noteq> lfn \<Longrightarrow> q \<in> set (heapAlloc m)" for q
    using P1(5) P2(5) A0 by auto
  ultimately show "{q \<in> set (heapAlloc m2). fst q \<noteq> sfn \<and> fst q \<noteq> lfn} = set (heapAlloc m)" by blast
  show "reported m2 ctx e" if b: "breaks m2 = breaks m"
  proof -
    have ne: "\<not> breaks m0 < breaks m1" "\<not> breaks m1 < breaks m2"
      using b soundD(3) [OF s0] soundD(3) [OF P1(1)] soundD(3) [OF P2(1)] by simp_all
    have ap: "apart_fields (map (\<lambda>f. (4, f, sz v)) [12, 16])" "apart_fields (map (\<lambda>f. (4, f, sz v)) [8])" for v
      by (simp_all add: apart_fields_def)
    obtain j1 where N1: "length (narrow_bytes (create_sfn (de_name e))) \<le> unat j1" "(sfn, j1) \<in> set (heapAlloc m1)"
      "bytes_at m1 sfn (narrow_bytes (create_sfn (de_name e)))" "ctx_field m1 ctx 4 12 = sz sfn" "ctx_field m1 ctx 4 16 = sz sfn"
      using P1(5) ne ap soundD(2) [OF S1] by (auto simp: ctx_field_def p_def)
    have N2: "bytes_at m2 lfn (wide_bytes (de_uname e))" "ctx_field m2 ctx 4 8 = sz lfn"
      using P2(5) ne ap soundD(2) [OF S2] by (auto simp: ctx_field_def p_def)
    have "bytes_at m2 sfn (narrow_bytes (create_sfn (de_name e)))"
      using bytes_kept [OF N1(3) P2(2) [OF N1(2)] N1(1)] \<open>sfn \<noteq> u\<close> by simp
    moreover have "ctx_field m0 ctx n off = take_bit (8 * n) x" if "(n, off, x) \<in> set (field_writes a e)" for n off x
    proof -
      have "load_le n (hmem m0) (p + of_nat off) = take_bit (8 * n) x"
        unfolding m0_def using that by (intro ctx_stores_field [OF field_writes_apart]) (auto simp: field_writes_def)
      then show ?thesis by (simp add: ctx_field_def soundD(2) [OF s0] p_def del: load_le.simps)
    qed
    note this [of 8 24 "if de_is_regular e then of_nat (de_size e) else 0"] this [of 1 45 "ucast (get_fat_attributes e)"]
    ultimately show ?thesis using N1 N2 by (auto simp: reported_def f1 f2 field_writes_def take_bit_byte take_bit_word_eq_self)
  qed
qed


section \<open>The sequence of calls\<close>

text \<open>
  The search \<open>h\<close> with context \<open>c\<close> is under way: the guest's structure at \<open>ctx\<close> lies in the live block \<open>u\<close>
  (an allocation or a thread's stack) and holds the handle; the names last reported are not in that block.
\<close>

definition search_at :: "'w search \<Rightarrow> VirtPtr \<Rightarrow> 64 word \<Rightarrow> InternalFindContext \<Rightarrow> VirtPtr \<Rightarrow> size_t \<Rightarrow> bool" where
  "search_at s ctx h c u k \<longleftrightarrow> hinv (se_mm s) \<and> (u, k) \<in> set (heapAlloc (se_mm s))
     \<and> unat u \<le> unat ctx \<and> unat ctx + 46 \<le> unat u + unat k
     \<and> ctx_field (se_mm s) ctx 4 0 = h \<and> map_of (g_find_contexts s) h = Some c \<and> fc_sfn c \<noteq> u \<and> fc_lfn c \<noteq> u"

text \<open>The live blocks without the two names.\<close>

definition rest_of :: "MemoryManager \<Rightarrow> InternalFindContext \<Rightarrow> (VirtPtr \<times> size_t) set" where
  "rest_of m c = {q \<in> set (heapAlloc m). fst q \<noteq> fc_sfn c \<and> fst q \<noteq> fc_lfn c}"

lemma ctx_in_block:
  assumes inv: "hinv m" and u: "(u, k) \<in> set (heapAlloc m)" and c: "unat u \<le> unat ctx" "unat ctx + 46 \<le> unat u + unat k"
  shows "GetRealAddr m ctx = GetRealAddr m u + of_nat (unat ctx - unat u)" "unat ctx - unat u + 46 \<le> unat k"
    "GetRealAddr m ctx \<noteq> 0"
proof -
  let ?i = "unat ctx - unat u"
  have b: "GetRealAddr m u + of_nat ?i = GetRealAddr m (u + of_nat ?i)" "unat (u + of_nat ?i) = unat u + ?i"
    using block_byte [OF inv u, of ?i] c by simp_all
  then have e: "u + of_nat ?i = ctx" using c by (simp add: word_unat_eq_iff)
  show "GetRealAddr m ctx = GetRealAddr m u + of_nat ?i" using b(1) e by simp
  show "?i + 46 \<le> unat k" using c by simp
  have "in_heap (unat ctx)" using alloc_in_heap [OF hinvD(2) [OF inv] u] c by (simp add: in_heap_def)
  then show "GetRealAddr m ctx \<noteq> 0" using heap_translate_nz [OF hinvD(1) [OF inv]] by blast
qed

lemma ctx_field_kept:
  assumes inv: "hinv m" and u: "(u, k) \<in> set (heapAlloc m)" and c: "unat u \<le> unat ctx" "unat ctx + 46 \<le> unat u + unat k"
    and k: "sound m m'" "kept u k m m'" and f: "off + n \<le> 46"
  shows "ctx_field m' ctx n off = ctx_field m ctx n off"
proof -
  note C = ctx_in_block [OF inv u c]
  let ?i = "unat ctx - unat u"
  have "load_le n (hmem m') (GetRealAddr m u + of_nat (?i + off)) = load_le n (hmem m) (GetRealAddr m u + of_nat (?i + off))"
    using k f C(2) by (intro cont_load_cong) (auto simp: sound_def intro: keptD(2))
  then show ?thesis by (simp add: ctx_field_def soundD(2) [OF k(1)] C(1) add.assoc del: load_le.simps)
qed

text \<open>Both calls of a search under way first release the two names.\<close>

lemma names_freed:
  assumes S: "search_at s ctx h c u k"
  obtains m1 m2 where "free_name (fc_sfn c) (se_mm s) = Returned m1" "free_name (fc_lfn c) m1 = Returned m2"
    "sound (se_mm s) m2" "kept u k (se_mm s) m2" "set (heapAlloc m2) = rest_of (se_mm s) c"
    "breaks m2 = breaks (se_mm s)" "ctx_handle (se_mm s) (GetRealAddr (se_mm s) ctx) = h" "ctx_field m2 ctx 4 0 = h"
proof -
  define m where "m = se_mm s"
  have D: "hinv m" "(u, k) \<in> set (heapAlloc m)" "unat u \<le> unat ctx" "unat ctx + 46 \<le> unat u + unat k"
    "ctx_field m ctx 4 0 = h" "fc_sfn c \<noteq> u" "fc_lfn c \<noteq> u"
    using S by (simp_all add: search_at_def m_def)
  obtain m1 where m1: "free_name (fc_sfn c) m = Returned m1" using free_name_returns [OF D(1)] by blast
  note F1 = block_free [OF D(1) m1]
  obtain m2 where m2: "free_name (fc_lfn c) m1 = Returned m2" using free_name_returns [OF soundD(1) [OF F1(1)]] by blast
  note F2 = block_free [OF soundD(1) [OF F1(1)] m2]
  have s2: "sound m m2" using sound_trans [OF F1(1) F2(1)] .
  have k1: "kept u k m m1" using F1(2) [OF D(2)] D(6) by simp
  have k2: "kept u k m m2" using kept_trans [OF k1] F2(2) [OF keptD(1) [OF k1]] D(7) by simp
  have "set (heapAlloc m2) = rest_of m c" by (auto simp: F2(3) F1(3) rest_of_def)
  moreover have "ctx_field m2 ctx 4 0 = h" using ctx_field_kept [OF D(1-4) s2 k2, of 0 4] D(5) by simp
  moreover have "ctx_handle m (GetRealAddr m ctx) = h" using D(5) by (simp add: ctx_field_def ctx_handle_def)
  ultimately show thesis using m1 m2 s2 k2 F1(4) F2(4) by (intro that [of m1 m2]) (simp_all add: m_def)
qed

lemma find_next_step:
  assumes S: "search_at s ctx h c u k" and short: "\<forall>e \<in> set (fc_iterator c). length (de_uname e) < 2 ^ 30"
  defines "M \<equiv> entry_matches (fc_pattern c) (fc_attrib_mask c)"
  shows "\<exists>r s' c'. find_next_internal ctx s = Returned (r, s') \<and> search_at s' ctx h c' u k
    \<and> rest_of (se_mm s') c' = rest_of (se_mm s) c \<and> breaks (se_mm s) \<le> breaks (se_mm s')
    \<and> fc_pattern c' = fc_pattern c \<and> fc_attrib_mask c' = fc_attrib_mask c
    \<and> (case dropWhile (\<lambda>e. \<not> M e) (fc_iterator c) of
         [] \<Rightarrow> r = - 1 \<and> fc_iterator c' = []
       | e # es \<Rightarrow> r = 0 \<and> fc_iterator c' = es \<and> (breaks (se_mm s') = breaks (se_mm s) \<longrightarrow> reported (se_mm s') ctx e))"
proof -
  define m where "m = se_mm s"
  have D: "hinv m" "(u, k) \<in> set (heapAlloc m)" "unat u \<le> unat ctx" "unat ctx + 46 \<le> unat u + unat k"
    "map_of (g_find_contexts s) h = Some c"
    using S by (simp_all add: search_at_def m_def)
  note C = ctx_in_block [OF D(1-4)]
  define p where "p = GetRealAddr m ctx"
  obtain m1 m2 where m1: "free_name (fc_sfn c) m = Returned m1" and m2: "free_name (fc_lfn c) m1 = Returned m2"
    and s2: "sound m m2" and k2: "kept u k m m2" and A2: "set (heapAlloc m2) = rest_of m c"
    and b2: "breaks m2 = breaks m" and hd: "ctx_handle m p = h" and h2: "ctx_field m2 ctx 4 0 = h"
    using names_freed [OF S] unfolding m_def p_def by metis
  have r2: "GetRealAddr m2 ctx = GetRealAddr m2 u + of_nat (unat ctx - unat u)"
    using ctx_in_block(1) [OF soundD(1) [OF s2] keptD(1) [OF k2] D(3,4)] .
  define c1 where "c1 = c\<lparr>fc_sfn := 0, fc_lfn := 0\<rparr>"
  have u0: "u \<noteq> 0" using null_not_live [OF D(1)] D(2) by auto
  have step: "find_next_internal ctx s = (case dropWhile (\<lambda>e. \<not> M e) (fc_iterator c) of
      [] \<Rightarrow> Returned (- 1, set_ctx h (c1\<lparr>fc_iterator := []\<rparr>) (s\<lparr>se_mm := m2\<rparr>))
    | e # es \<Rightarrow> Returned (0, report_entry h c1 e es p (s\<lparr>se_mm := m2\<rparr>)))"
    using C(3) D(5) hd m1 m2 by (simp add: find_next_internal_def Let_def m_def p_def M_def c1_def del: dropWhile_eq_Nil_conv split: list.split)
  show ?thesis
  proof (cases "dropWhile (\<lambda>e. \<not> M e) (fc_iterator c)")
    case Nil
    let ?c = "c1\<lparr>fc_iterator := []\<rparr>" and ?s = "set_ctx h (c1\<lparr>fc_iterator := []\<rparr>) (s\<lparr>se_mm := m2\<rparr>)"
    have "search_at ?s ctx h ?c u k"
      using D(3,4) s2 k2 h2 u0 by (simp add: search_at_def set_ctx_def map_of_um_set c1_def soundD keptD(1))
    moreover have "rest_of m2 ?c = rest_of m c"
      using A2 null_not_live [OF soundD(1) [OF s2]] by (auto simp: rest_of_def c1_def)
    ultimately show ?thesis using Nil step b2
      by (intro exI [of _ "- 1"] exI [of _ ?s] exI [of _ ?c])
         (simp add: set_ctx_def c1_def m_def del: dropWhile_eq_Nil_conv)
  next
    case (Cons e es)
    have "length (de_uname e) < 2 ^ 30" using short dropWhile_subset [OF Cons] by simp
    note sh = this
    obtain sfn m3 where n1: "put_name (narrow_bytes (create_sfn (de_name e))) [12, 16] p (fill_fields p (fc_attrib_mask c) e m2) = (sfn, m3)"
      by fastforce
    obtain lfn m4 where n2: "put_name (wide_bytes (de_uname e)) [8] p m3 = (lfn, m4)" by fastforce
    have p2: "p = GetRealAddr m2 ctx" using soundD(2) [OF s2] by (simp add: p_def)
    note P = report_spec [OF soundD(1) [OF s2] keptD(1) [OF k2] C(2) r2 sh n1 [unfolded p2] n2 [unfolded p2]]
    let ?c = "c1\<lparr>fc_iterator := es, fc_sfn := sfn, fc_lfn := lfn\<rparr>"
    have s': "report_entry h c1 e es p (s\<lparr>se_mm := m2\<rparr>) = set_ctx h ?c (s\<lparr>se_mm := m4\<rparr>)"
      using n1 n2 by (simp add: report_entry_def c1_def)
    have "search_at (set_ctx h ?c (s\<lparr>se_mm := m4\<rparr>)) ctx h ?c u k"
      using D(3,4) P h2 by (simp add: search_at_def set_ctx_def map_of_um_set soundD)
    moreover have "rest_of m4 ?c = rest_of m c" using P(6) A2 by (simp add: rest_of_def)
    moreover have "breaks m \<le> breaks m4" using soundD(3) [OF P(1)] b2 by simp
    moreover have "find_next_internal ctx s = Returned (0, set_ctx h ?c (s\<lparr>se_mm := m4\<rparr>))"
      by (simp add: step Cons s')
    ultimately show ?thesis using Cons b2 P(7)
      by (intro exI [of _ 0] exI [of _ "set_ctx h ?c (s\<lparr>se_mm := m4\<rparr>)"] exI [of _ ?c])
         (simp add: set_ctx_def c1_def m_def)
  qed
qed


text \<open>The guest's loop: \<open>_findnext\<close> until it fails; the memory after each entry it reports.\<close>

definition collect ::
  "('w search \<Rightarrow> (MemoryManager list \<times> 'w search) proc) \<Rightarrow> u32 \<times> 'w search \<Rightarrow> (MemoryManager list \<times> 'w search) proc" where
  "collect rest = (\<lambda>(r, s).
     if r \<noteq> 0 then Returned ([], s) else proc_bind (rest s) (\<lambda>(ms, t). Returned (se_mm s # ms, t)))"

fun search_all :: "nat \<Rightarrow> SystemServiceArguments \<Rightarrow> 'w search \<Rightarrow> (MemoryManager list \<times> 'w search) proc" where
  "search_all 0 args s = Returned ([], s)"
| "search_all (Suc n) args s = proc_bind (findnext args s) (collect (search_all n args))"

text \<open>A listing of a directory: \<open>_findfirst\<close> with the structure in \<open>r1\<close>, then \<open>_findnext\<close>.\<close>

definition list_directory ::
  "'w dirs \<Rightarrow> nat \<Rightarrow> SystemServiceArguments \<Rightarrow> 'w search \<Rightarrow> (MemoryManager list \<times> 'w search) proc option" where
  "list_directory d n args s =
     map_option (\<lambda>x. proc_bind x (collect (search_all n (args\<lparr>r0 := r1 args\<rparr>)))) (afindfirst d args s)"

lemma filter_dropWhile:
  "filter M xs = (case dropWhile (\<lambda>e. \<not> M e) xs of [] \<Rightarrow> [] | e # es \<Rightarrow> e # filter M es)"
  by (induction xs) auto

lemma collect_lists:
  assumes "search_at s (r0 args) h c u k" "\<forall>e \<in> set (fc_iterator c). length (de_uname e) < 2 ^ 30" "length (fc_iterator c) \<le> n"
  defines "M \<equiv> entry_matches (fc_pattern c) (fc_attrib_mask c)"
  shows "\<exists>ms t c'. proc_bind (find_next_internal (r0 args) s) (collect (search_all n args)) = Returned (ms, t)
    \<and> search_at t (r0 args) h c' u k \<and> rest_of (se_mm t) c' = rest_of (se_mm s) c \<and> breaks (se_mm s) \<le> breaks (se_mm t)
    \<and> length ms = length (filter M (fc_iterator c))
    \<and> (breaks (se_mm t) = breaks (se_mm s) \<longrightarrow> list_all2 (\<lambda>m e. reported m (r0 args) e) ms (filter M (fc_iterator c)))"
  using assms(1-3) unfolding M_def
proof (induction n arbitrary: s c rule: less_induct)
  case (less n)
  let ?M = "entry_matches (fc_pattern c) (fc_attrib_mask c)"
  obtain r s' c' where st: "find_next_internal (r0 args) s = Returned (r, s')" "search_at s' (r0 args) h c' u k"
    "rest_of (se_mm s') c' = rest_of (se_mm s) c" "breaks (se_mm s) \<le> breaks (se_mm s')"
    "fc_pattern c' = fc_pattern c" "fc_attrib_mask c' = fc_attrib_mask c"
    and cs: "case dropWhile (\<lambda>e. \<not> ?M e) (fc_iterator c) of
         [] \<Rightarrow> r = - 1 \<and> fc_iterator c' = []
       | e # es \<Rightarrow> r = 0 \<and> fc_iterator c' = es \<and> (breaks (se_mm s') = breaks (se_mm s) \<longrightarrow> reported (se_mm s') (r0 args) e)"
    using find_next_step [OF less.prems(1,2)] by blast
  show ?case
  proof (cases "dropWhile (\<lambda>e. \<not> ?M e) (fc_iterator c)")
    case Nil
    then have "r \<noteq> 0" using cs by (simp del: dropWhile_eq_Nil_conv)
    then show ?thesis using st Nil
      by (intro exI [of _ "[]"] exI [of _ s'] exI [of _ c'])
         (simp add: filter_dropWhile [of ?M] collect_def del: dropWhile_eq_Nil_conv)
  next
    case (Cons e es)
    then have r: "r = 0" "fc_iterator c' = es" "breaks (se_mm s') = breaks (se_mm s) \<longrightarrow> reported (se_mm s') (r0 args) e"
      using cs by simp_all
    have le: "length es < n" using less.prems(3) length_dropWhile_le [of "\<lambda>e. \<not> ?M e" "fc_iterator c"] Cons by simp
    then obtain n' where n: "n = Suc n'" by (cases n) auto
    have sh: "\<forall>e \<in> set (fc_iterator c'). length (de_uname e) < 2 ^ 30"
      using dropWhile_subset [OF Cons] less.prems(2) r(2) by auto
    have "r0 args \<noteq> 0"
      using st(2) null_not_live [of "se_mm s'" k] by (auto simp: search_at_def unat_eq_zero)
    then have "search_all n args s' = proc_bind (find_next_internal (r0 args) s') (collect (search_all n' args))"
      by (simp add: n findnext_def)
    moreover have "n' < n" "length (fc_iterator c') \<le> n'" using le n r(2) by simp_all
    note less.IH [OF this(1) st(2) sh this(2), unfolded st(5,6) r(2)]
    ultimately obtain ms t c'' where IH: "search_all n args s' = Returned (ms, t)" "search_at t (r0 args) h c'' u k"
      "rest_of (se_mm t) c'' = rest_of (se_mm s') c'" "breaks (se_mm s') \<le> breaks (se_mm t)" "length ms = length (filter ?M es)"
      "breaks (se_mm t) = breaks (se_mm s') \<longrightarrow> list_all2 (\<lambda>m e. reported m (r0 args) e) ms (filter ?M es)"
      by auto
    then show ?thesis using st r Cons
      by (intro exI [of _ "se_mm s' # ms"] exI [of _ t] exI [of _ c''])
         (auto simp: filter_dropWhile [of ?M "fc_iterator c"] collect_def)
  qed
qed

text \<open>Closing.\<close>

lemma find_close_spec:
  assumes S: "search_at s ctx h c u k" and h: "h \<noteq> 0"
  shows "\<exists>t. find_close_internal ctx s = Returned (0, t) \<and> hinv (se_mm t) \<and> breaks (se_mm t) = breaks (se_mm s)
    \<and> set (heapAlloc (se_mm t)) = rest_of (se_mm s) c \<and> ctx_field (se_mm t) ctx 4 0 = 0
    \<and> g_find_contexts t = al_erase h (g_find_contexts s)"
proof -
  define m where "m = se_mm s"
  have D: "hinv m" "(u, k) \<in> set (heapAlloc m)" "unat u \<le> unat ctx" "unat ctx + 46 \<le> unat u + unat k"
    "map_of (g_find_contexts s) h = Some c"
    using S by (simp_all add: search_at_def m_def)
  note C = ctx_in_block [OF D(1-4)]
  define p where "p = GetRealAddr m ctx"
  obtain m1 m2 where m1: "free_name (fc_sfn c) m = Returned m1" and m2: "free_name (fc_lfn c) m1 = Returned m2"
    and s2: "sound m m2" and k2: "kept u k m m2" and A2: "set (heapAlloc m2) = rest_of m c"
    and b2: "breaks m2 = breaks m" and hd: "ctx_handle m p = h" and h2: "ctx_field m2 ctx 4 0 = h"
    using names_freed [OF S] unfolding m_def p_def by metis
  define ws where "ws = map (\<lambda>f. (4 :: nat, f :: nat, 0 :: 64 word)) [0, 12, 8, 16]"
  define m3 where "m3 = ctx_stores ws p m2"
  have p2: "p = GetRealAddr m2 u + of_nat (unat ctx - unat u)" using C(1) soundD(2) [OF s2] by (simp add: p_def)
  have w: "\<forall>(n, off, x) \<in> set ws. unat ctx - unat u + off + n \<le> unat k" using C(2) by (auto simp: ws_def)
  have "sound m2 m3" using ctx_stores_block [OF soundD(1) [OF s2] keptD(1) [OF k2] p2 w] by (simp add: m3_def)
  moreover have "load_le 4 (hmem m3) (p + of_nat 0) = take_bit (8 * 4) 0"
    unfolding m3_def by (rule ctx_stores_field) (auto simp: ws_def apart_fields_def)
  moreover have "find_close_internal ctx s = Returned (0, s\<lparr>g_find_contexts := al_erase h (g_find_contexts s), se_mm := m3\<rparr>)"
    using C(3) D(5) hd h m1 m2 by (simp add: find_close_internal_def Let_def m_def p_def m3_def ws_def)
  moreover have "set (heapAlloc m3) = rest_of m c" by (simp add: m3_def A2)
  ultimately show ?thesis using b2 soundD(2) [OF s2]
    by (auto simp: m_def ctx_field_def p_def sound_def GetRealAddr_upd m3_def)
qed


text \<open>Opening.\<close>

lemma find_first_spec:
  assumes inv: "hinv (se_mm s)" and u: "(u, k) \<in> set (heapAlloc (se_mm s))"
    and c: "unat u \<le> unat ctx" "unat ctx + 46 \<le> unat u + unat k"
    and h: "unat (g_next_find_handle s) < 2 ^ 32" "g_next_find_handle s \<notin> fst ` set (g_find_contexts s)"
    and dir: "search_dir d f (se_paths s, se_world s) = Some (dir, pattern, st, w)" "directory_iterator d dir w = Some es"
  shows "\<exists>s1. find_first_internal d f ctx a s = Some (find_next_internal ctx s1)
    \<and> search_at s1 ctx (g_next_find_handle s) \<lparr>fc_iterator = es, fc_pattern = pattern, fc_attrib_mask = a, fc_lfn = 0, fc_sfn = 0\<rparr> u k
    \<and> heapAlloc (se_mm s1) = heapAlloc (se_mm s) \<and> breaks (se_mm s1) = breaks (se_mm s)"
proof -
  note C = ctx_in_block [OF inv u c]
  define p where "p = GetRealAddr (se_mm s) ctx"
  define h0 where "h0 = g_next_find_handle s"
  define ws where "ws = [(4 :: nat, 0 :: nat, h0), (4, 4, 0xdeadbeef)]"
  define m1 where "m1 = ctx_stores ws p (se_mm s)"
  define c0 where "c0 = \<lparr>fc_iterator = es, fc_pattern = pattern, fc_attrib_mask = a, fc_lfn = 0, fc_sfn = 0\<rparr>"
  define s1 where "s1 = s\<lparr>se_paths := st, se_world := w, g_next_find_handle := h0 + 1, se_mm := m1,
    g_find_contexts := um_emplace h0 c0 (g_find_contexts s)\<rparr>"
  have w: "\<forall>(n, off, x) \<in> set ws. unat ctx - unat u + off + n \<le> unat k" using C(2) by (auto simp: ws_def)
  have sd: "sound (se_mm s) m1" using ctx_stores_block [OF inv u C(1) w] by (simp add: m1_def p_def)
  have "load_le 4 (hmem m1) (p + of_nat 0) = take_bit (8 * 4) h0"
    unfolding m1_def by (rule ctx_stores_field) (auto simp: ws_def apart_fields_def)
  moreover have "take_bit 32 h0 = h0"
    using h(1) by (simp add: word_unat_eq_iff h0_def unsigned_take_bit_eq take_bit_nat_eq_self)
  ultimately have hd: "ctx_field m1 ctx 4 0 = h0"
    by (simp add: ctx_field_def soundD(2) [OF sd] p_def del: load_le.simps)
  have "find_first_internal d f ctx a s = Some (find_next_internal ctx s1)"
    using C(3) by (simp add: find_first_internal_def dir Let_def s1_def m1_def ws_def p_def h0_def c0_def)
  moreover have "u \<noteq> 0" using null_not_live [OF inv] u by auto
  then have "search_at s1 ctx h0 c0 u k"
    using soundD(1) [OF sd] u c hd h(2) by (simp add: search_at_def s1_def m1_def um_emplace_def h0_def c0_def)
  ultimately show ?thesis by (intro exI [of _ s1]) (simp add: s1_def m1_def c0_def h0_def)
qed

text \<open>
  C26. A search lists the directory.  With its \<open>find_context_t\<close> in a live block of a sound heap,
  \<open>_afindfirst\<close> followed by \<open>_findnext\<close> until it fails never aborts and succeeds once for each entry of the
  host's listing that matches the pattern and the attributes, in the order of the listing; if no
  allocation failed, after each of these calls the structure holds the size and the attributes of that entry and
  pointers to its short and its long name.  \<open>_findclose\<close> afterwards leaves both tables of the heap exactly as
  they were before the search.
\<close>

theorem search_lists_directory:
  assumes "hinv (se_mm s)" "(u, k) \<in> set (heapAlloc (se_mm s))"
    and "unat u \<le> unat (r1 args)" "unat (r1 args) + 46 \<le> unat u + unat k"
    and "g_next_find_handle s \<noteq> 0" "unat (g_next_find_handle s) < 2 ^ 32"
    and "g_next_find_handle s \<notin> fst ` set (g_find_contexts s)"
    and "guest_cstr (se_mm s) (r0 args) = Some f"
    and "search_dir d f (se_paths s, se_world s) = Some (dir, pattern, st, w)" "directory_iterator d dir w = Some es"
    and "\<forall>e \<in> set es. length (de_uname e) < 2 ^ 30" "length es \<le> n"
  shows "\<exists>ms t. list_directory d n args s = Some (Returned (ms, t))
    \<and> length ms = length (filter (entry_matches pattern (r2 args)) es)
    \<and> (breaks (se_mm t) = breaks (se_mm s) \<longrightarrow>
         list_all2 (\<lambda>m e. reported m (r1 args) e) ms (filter (entry_matches pattern (r2 args)) es))
    \<and> (\<exists>t'. findclose (args\<lparr>r0 := r1 args\<rparr>) t = Returned (0, t')
         \<and> heapFree (se_mm t') = heapFree (se_mm s) \<and> mset (heapAlloc (se_mm t')) = mset (heapAlloc (se_mm s)))"
proof -
  let ?a = "args\<lparr>r0 := r1 args\<rparr>"
  define c0 where "c0 = \<lparr>fc_iterator = es, fc_pattern = pattern, fc_attrib_mask = r2 args, fc_lfn = 0, fc_sfn = 0\<rparr>"
  obtain s1 where s1: "find_first_internal d f (r1 args) (r2 args) s = Some (find_next_internal (r1 args) s1)"
    "search_at s1 (r1 args) (g_next_find_handle s) c0 u k" "heapAlloc (se_mm s1) = heapAlloc (se_mm s)"
    "breaks (se_mm s1) = breaks (se_mm s)"
    using find_first_spec [OF assms(1-4,6,7,9,10), of "r2 args"] by (auto simp: c0_def)
  have nz: "r1 args \<noteq> 0" using assms(3) null_not_live [OF assms(1), of k] assms(2) by (auto simp: unat_eq_zero)
  obtain ms t c' where L: "proc_bind (find_next_internal (r1 args) s1) (collect (search_all n ?a)) = Returned (ms, t)"
    "search_at t (r1 args) (g_next_find_handle s) c' u k" "rest_of (se_mm t) c' = rest_of (se_mm s1) c0"
    "length ms = length (filter (entry_matches pattern (r2 args)) es)"
    "breaks (se_mm t) = breaks (se_mm s1) \<longrightarrow>
       list_all2 (\<lambda>m e. reported m (r1 args) e) ms (filter (entry_matches pattern (r2 args)) es)"
    using collect_lists [of s1 ?a "g_next_find_handle s" c0 u k n] s1(2) assms(11,12) by (auto simp: c0_def)
  have first: "list_directory d n args s = Some (Returned (ms, t))"
    using L(1) s1(1) nz assms(8) by (simp add: list_directory_def afindfirst_def)
  obtain t' where t': "find_close_internal (r1 args) t = Returned (0, t')" "hinv (se_mm t')"
    "set (heapAlloc (se_mm t')) = rest_of (se_mm t) c'"
    using find_close_spec [OF L(2) assms(5)] by blast
  have "rest_of (se_mm s1) c0 = set (heapAlloc (se_mm s))"
    using s1(3) null_not_live [OF assms(1)] by (auto simp: rest_of_def c0_def)
  then have "heapFree (se_mm t') = heapFree (se_mm s) \<and> mset (heapAlloc (se_mm t')) = mset (heapAlloc (se_mm s))"
    using same_tables [OF t'(2) assms(1)] t'(3) L(3) by simp
  then show ?thesis using first L(4,5) s1(4) t'(1) nz
    by (intro exI [of _ ms] exI [of _ t]) (simp add: findclose_def)
qed


text \<open>A directory with a file and a folder, searched for files; the structure is in a block of 64 bytes.\<close>

definition demo_file :: dir_entry where
  "demo_file = \<lparr>de_name = ''Notes.txt'', de_uname = [78, 111, 116, 101, 115, 46, 116, 120, 116], de_is_directory = False,
     de_is_regular = True, de_writable = True, de_size = 5\<rparr>"

definition demo_listing :: "dir_entry list" where
  "demo_listing = [demo_file\<lparr>de_name := ''sub'', de_is_directory := True, de_is_regular := False\<rparr>, demo_file]"

definition demo_dirs :: "unit dirs" where
  "demo_dirs = \<lparr>fs_exists = (\<lambda>p w. Some True), create_directories = (\<lambda>p w. Some w), is_directory = (\<lambda>p w. True),
     directory_iterator = (\<lambda>p w. Some demo_listing)\<rparr>"

definition demo_block :: VirtPtr where
  "demo_block = fst (snd (DyanmicAlloc demo_mm 0 (sz 64)))"

definition demo_heap :: MemoryManager where
  "demo_heap = (let m = snd (snd (DyanmicAlloc demo_mm 0 (sz 64)))
     in m\<lparr>hmem := (hmem m)(GetRealAddr m demo_block + of_nat 63 := 0)\<rparr>)"

definition demo_search :: "unit search" where
  "demo_search = \<lparr>se_paths = sys_init paths_init, se_mm = demo_heap, se_world = (), g_find_contexts = [], g_next_find_handle = 1\<rparr>"

definition demo_search_args :: SystemServiceArguments where
  "demo_search_args = (call_args 0 0)\<lparr>r0 := demo_block + of_nat 63, r1 := demo_block, r2 := 0x20\<rparr>"

lemma demo_heap_ok:
  obtains k where "hinv demo_heap" "(demo_block, k) \<in> set (heapAlloc demo_heap)" "64 \<le> unat k"
    "guest_cstr demo_heap (demo_block + of_nat 63) = Some []"
proof -
  have al: "AlignUp (sz 64) kHeapAlign = 64" by (simp add: AlignUp_def kHeapAlign_def sz_def)
  obtain u m where a: "DyanmicAlloc demo_mm 0 (sz 64) = (ERROR_OK, u, m)" "alloc_post demo_mm 64 u m"
    using DyanmicAlloc_cases [OF demo_hinv, of 64 0] by (auto simp: demo_tables al)
  obtain k where k: "hinv m" "(u, k) \<in> set (heapAlloc m)" "64 \<le> unat k" using a(2) by (auto simp: alloc_post_def)
  have b: "demo_block = u" by (simp add: demo_block_def a(1))
  have d: "demo_heap = m\<lparr>hmem := (hmem m)(GetRealAddr m u + of_nat 63 := 0)\<rparr>"
    by (simp add: demo_heap_def b a(1))
  have i: "63 + 1 \<le> unat k" using k(3) by simp
  have "sound m demo_heap"
    unfolding d by (rule block_write(1) [OF k(1,2) i]) auto
  note S = soundD [OF this]
  have live: "(u, k) \<in> set (heapAlloc demo_heap)" using k(2) by (simp add: d)
  note B = block_byte [OF S(1) live, of 63]
  have "in_heap (unat (u + of_nat 63))"
    using B(2) k(3) alloc_in_heap [OF hinvD(2) [OF k(1)] k(2)] by (simp add: in_heap_def)
  then have "GetRealAddr demo_heap (u + of_nat 63) \<noteq> 0"
    using heap_translate_nz [OF hinvD(1) [OF S(1)]] by blast
  moreover have "hmem demo_heap (GetRealAddr demo_heap (u + of_nat 63)) = 0"
    using B(1) k(3) S(2) by (simp add: d)
  ultimately have "guest_cstr demo_heap (u + of_nat 63) = Some []"
    by (simp add: guest_cstr_def read_cstr.simps)
  then show thesis using that [of k] S(1) live k(3) b by simp
qed

lemma demo_search_dir: "\<exists>dir st w. search_dir demo_dirs [] (sys_init paths_init, ()) = Some (dir, ''*'', st, w)"
proof -
  have ok: "paths_ok (sys_init paths_init)"
    by (simp add: paths_ok_def sys_init_def paths_init_def is_drive_def)
  have "tame (unquote (trim []))" by code_simp
  then obtain p st w where m: "MapVMPathToHost (fs_of_dirs demo_dirs) (Some []) (sys_init paths_init, ()) = Some (p, st, w)"
    "paths_ok st" using MapVMPathToHost_below [OF ok, of "Some []" "fs_of_dirs demo_dirs" "()"] by auto
  obtain q st' w' where n: "MapVMPathToHost (fs_of_dirs demo_dirs) None (st, w) = Some (q, st', w')"
    using MapVMPathToHost_below [OF m(2), of None "fs_of_dirs demo_dirs" w] by auto
  show ?thesis using m(1) n by (auto simp: search_dir_def demo_dirs_def)
qed

lemma demo_matches: "filter (entry_matches ''*'' 0x20) demo_listing = [demo_file]"
proof -
  have "wildcard_match ''*'' s" for s by simp
  then show ?thesis
    by (simp add: demo_listing_def demo_file_def entry_matches_def get_fat_attributes_def)
qed

theorem search_lists_directory_witness:
  "\<exists>m t. list_directory demo_dirs 2 demo_search_args demo_search = Some (Returned ([m], t))"
proof -
  obtain k where H: "hinv demo_heap" "(demo_block, k) \<in> set (heapAlloc demo_heap)" "64 \<le> unat k"
    "guest_cstr demo_heap (demo_block + of_nat 63) = Some []" by (rule demo_heap_ok)
  obtain dir st w where "search_dir demo_dirs [] (sys_init paths_init, ()) = Some (dir, ''*'', st, w)"
    using demo_search_dir by blast
  then obtain ms t where "list_directory demo_dirs 2 demo_search_args demo_search = Some (Returned (ms, t))"
    "length ms = length (filter (entry_matches ''*'' 0x20) demo_listing)"
    using search_lists_directory [of demo_search demo_block k demo_search_args "[]" demo_dirs dir "''*''" st w demo_listing 2] H
    by (auto simp: demo_search_def demo_search_args_def demo_dirs_def demo_listing_def demo_file_def)
  then show ?thesis by (auto simp: demo_matches length_Suc_conv)
qed

end
