(* ===== verification/SysTable.thy ===== *)
theory SysTable
  imports Prelude
begin

text \<open>
  The system-call numbers (PrimU/interrupts.h) and the handlers the constructor of \<open>SystemAPI\<close>
  registers for them (PrimU/SystemAPI.cpp 10-755), entry by entry in the order of the code, in tables
  of at most 149 lines.  A callback is named by the function the code registers.
\<close>

section \<open>Handlers\<close>

type_synonym InterruptID = u32

datatype HandleStatus = HANDLE_IMPLEMENTED | HANDLE_NAMEONLY | HANDLE_UNKOWN

text \<open>The functions that are registered as callbacks, in the order of their registration.\<close>

datatype callback =
    Cb_OSCreateThread | Cb_OSSetThreadPriority | Cb_OSSuspendThread | Cb_OSResumeThread
    | Cb_OSSleep | Cb_OSCreateEvent | Cb_OSWaitForEvent | Cb_OSSetEvent
    | Cb_OSInitCriticalSection | Cb_OSEnterCriticalSection | Cb_OSLeaveCriticalSection
    | Cb_InterruptInitialize | Cb_InterruptDone | Cb_LCDOn | Cb_SysPowerOff | Cb_BatteryLowCheck
    | Cb_lmalloc | Cb_lcalloc | Cb_lrealloc | Cb_lfree | Cb_GetEvent | Cb_SetSystemVariable
    | Cb_GetActiveLCD | Cb_GetSysTime | Cb_GetMasterIDInfo | Cb_fclose | Cb_filesize | Cb_fread
    | Cb_fwrite | Cb_afindfirst | Cb_afindnext | Cb_findclose | Cb_aremove | Cb_amkdir
    | Cb_achdir | Cb_OpenFile | Cb_GetPrivateProfileString | Cb_SetPrivateProfileString
    | Cb_GetCurrentExecutable | Cb_prgrmIsRunning | Cb_wfopen | Cb_wfindfirst | Cb_wfindnext
    | Cb_wremove | Cb_wmkdir | Cb_wchdir | Cb_LoadLibraryA | Cb_GetModuleFileNameA
    | Cb_FindResourceW | Cb_FreeLibrary | Cb_dbgMsg | Cb_CreateFile | Cb_DeviceIoControl
    | Cb_CloseHandle

record InterruptHandler =
  Id :: InterruptID
  Status :: HandleStatus
  Callback :: "callback option"
  Name :: string

text \<open>\<open>new InterruptHandler(id, s, h, n)\<close>, in the argument order of \<open>REGISTER_HANDLER\<close>.\<close>

definition handler :: "InterruptID \<Rightarrow> HandleStatus \<Rightarrow> string \<Rightarrow> callback option \<Rightarrow> InterruptHandler" where
  "handler i s n h = \<lparr>Id = i, Status = s, Callback = h, Name = n\<rparr>"

section \<open>System-call numbers\<close>

definition interrupts_1 :: "(string \<times> InterruptID) list" where
  "interrupts_1 =
    [(''SDKLIB_OSCreateThread'', 0x10000),
     (''SDKLIB_OSTerminateThread'', 0x10001),
     (''SDKLIB_OSSetThreadPriority'', 0x10002),
     (''SDKLIB_OSGetThreadPriority'', 0x10003),
     (''SDKLIB_OSSuspendThread'', 0x10004),
     (''SDKLIB_OSResumeThread'', 0x10005),
     (''SDKLIB_OSWakeUpThread'', 0x10006),
     (''SDKLIB_OSExitThread'', 0x10007),
     (''SDKLIB_OSSleep'', 0x10008),
     (''SDKLIB_OSCreateSemaphore'', 0x10009),
     (''SDKLIB_OSWaitForSemaphore'', 0x1000A),
     (''SDKLIB_OSReleaseSemaphore'', 0x1000B),
     (''SDKLIB_OSCloseSemaphore'', 0x1000C),
     (''SDKLIB_OSCreateEvent'', 0x1000D),
     (''SDKLIB_OSWaitForEvent'', 0x1000E),
     (''SDKLIB_OSSetEvent'', 0x1000F),
     (''SDKLIB_OSResetEvent'', 0x10010),
     (''SDKLIB_OSCloseEvent'', 0x10011),
     (''SDKLIB_OSInitCriticalSection'', 0x10012),
     (''SDKLIB_OSEnterCriticalSection'', 0x10013),
     (''SDKLIB_OSLeaveCriticalSection'', 0x10014),
     (''SDKLIB_OSDeleteCriticalSection'', 0x10015),
     (''SDKLIB_OSSetLastError'', 0x10016),
     (''SDKLIB_OSGetLastError'', 0x10017),
     (''SDKLIB_OSCreateMsgQue'', 0x10018),
     (''SDKLIB_OSPostMsgQue'', 0x10019),
     (''SDKLIB_OSSendMsgQue'', 0x1001A),
     (''SDKLIB_OSPeekMsgQue'', 0x1001B),
     (''SDKLIB_OSGetMsgQue'', 0x1001C),
     (''SDKLIB_OSCloseMsgQue'', 0x1001D),
     (''SDKLIB_InterruptInitialize'', 0x1001E),
     (''SDKLIB_InterruptEnable'', 0x1001F),
     (''SDKLIB_InterruptDisable'', 0x10020),
     (''SDKLIB_InterruptDone'', 0x10021),
     (''SDKLIB_InterruptSetMode'', 0x10022),
     (''SDKLIB_DisableAutoSync'', 0x10023),
     (''SDKLIB_EnableAutoSync'', 0x10024),
     (''SDKLIB_getvect'', 0x10025),
     (''SDKLIB_setvect'', 0x10026),
     (''SDKLIB_GetLCDContrast'', 0x10027),
     (''SDKLIB_SetLCDContrast'', 0x10028),
     (''SDKLIB_LCDOn'', 0x10029),
     (''SDKLIB_LCDOff'', 0x1002A),
     (''SDKLIB_CheckLCDOn'', 0x1002B),
     (''SDKLIB_Buzzer'', 0x1002C),
     (''SDKLIB_KeyBeep'', 0x1002D),
     (''SDKLIB_SetTimer1IntHandler'', 0x1002E),
     (''SDKLIB_SetAutoPowerOff'', 0x1002F),
     (''SDKLIB_GetTimer1IntHandler'', 0x10030),
     (''SDKLIB_RemapMemory'', 0x10031),
     (''SDKLIB_SysPowerOff'', 0x10032),
     (''SDKLIB_SetSysKeyState'', 0x10033),
     (''SDKLIB_GetSysKeyState'', 0x10034),
     (''SDKLIB_GetBatteryType'', 0x10035),
     (''SDKLIB_BatteryLowCheck'', 0x10036),
     (''SDKLIB_lmalloc'', 0x10037),
     (''SDKLIB_lcalloc'', 0x10038),
     (''SDKLIB_lrealloc'', 0x10039),
     (''SDKLIB__lfree'', 0x1003A),
     (''SDKLIB_GetPenEvent'', 0x1003B),
     (''SDKLIB_CheckPenEvent'', 0x1003C),
     (''SDKLIB_ClearPenEvent'', 0x1003D),
     (''SDKLIB_PutSystemEvent'', 0x1003E),
     (''SDKLIB_GetEvent'', 0x1003F),
     (''SDKLIB_GetPendEvent'', 0x10040),
     (''SDKLIB_SetEventType'', 0x10041),
     (''SDKLIB_GetEventType'', 0x10042),
     (''SDKLIB_PutEvent'', 0x10043),
     (''SDKLIB_PutEventExt'', 0x10044),
     (''SDKLIB_GetLastEvent'', 0x10045),
     (''SDKLIB_TestPendEvent'', 0x10046),
     (''SDKLIB_ClearPendEvent'', 0x10047),
     (''SDKLIB_ClearPenState'', 0x10048),
     (''SDKLIB_ClearEvent'', 0x10049),
     (''SDKLIB_ClearAllEvents'', 0x1004A),
     (''SDKLIB_TestKeyEvent'', 0x1004B),
     (''SDKLIB_SetSystemVariable'', 0x1004C),
     (''SDKLIB_GetCharWidth'', 0x1004D),
     (''SDKLIB_GetFontHeight'', 0x1004E),
     (''SDKLIB_GetFontType'', 0x1004F),
     (''SDKLIB_GetStringLength'', 0x10050),
     (''SDKLIB_SetFontType'', 0x10051),
     (''SDKLIB_WriteAlignString'', 0x10052),
     (''SDKLIB_WriteChar'', 0x10053),
     (''SDKLIB_WriteString'', 0x10054),
     (''SDKLIB_WriteStringInWindow'', 0x10055),
     (''SDKLIB_WriteStringInWindowEx'', 0x10056),
     (''SDKLIB_Printf'', 0x10057),
     (''SDKLIB_PrintfXY'', 0x10058),
     (''SDKLIB_ShowGraphic'', 0x10059),
     (''SDKLIB_SizeofGraphic'', 0x1005A),
     (''SDKLIB_InitGraphic'', 0x1005B),
     (''SDKLIB_CreateIcon'', 0x1005C),
     (''SDKLIB_SetCursorSize'', 0x1005D),
     (''SDKLIB_GetCursorSize'', 0x1005E),
     (''SDKLIB_SetCursorPosition'', 0x1005F),
     (''SDKLIB_GetCursorPosition'', 0x10060),
     (''SDKLIB_SetCursorType'', 0x10061),
     (''SDKLIB_GetCursorType'', 0x10062),
     (''SDKLIB_CursorLock'', 0x10063),
     (''SDKLIB_CursorUnlock'', 0x10064),
     (''SDKLIB_SetTransparentColor'', 0x10065),
     (''SDKLIB_GetTransparentColor'', 0x10066),
     (''SDKLIB_rgbSetBkColor'', 0x10067),
     (''SDKLIB_rgbSetColor'', 0x10068),
     (''SDKLIB_rgbGetBkColor'', 0x10069),
     (''SDKLIB_rgbGetColor'', 0x1006A),
     (''SDKLIB_SetPenStyle'', 0x1006B),
     (''SDKLIB_GetPenStyle'', 0x1006C),
     (''SDKLIB_GetPenSize'', 0x1006D),
     (''SDKLIB_SetPenSize'', 0x1006E),
     (''SDKLIB_GetPixel'', 0x1006F),
     (''SDKLIB_SetPixel'', 0x10070),
     (''SDKLIB_GetImage'', 0x10071),
     (''SDKLIB_PutImage'', 0x10072),
     (''SDKLIB_SetDrawArea'', 0x10073),
     (''SDKLIB_GetDrawArea'', 0x10074),
     (''SDKLIB_DrawLine'', 0x10075),
     (''SDKLIB_DrawRect'', 0x10076),
     (''SDKLIB_FillRect'', 0x10077),
     (''SDKLIB_DrawRoundRect'', 0x10078),
     (''SDKLIB_DrawCircle'', 0x10079),
     (''SDKLIB_FillCircle'', 0x1007A),
     (''SDKLIB_DrawEllipse'', 0x1007B),
     (''SDKLIB_FillEllipse'', 0x1007C),
     (''SDKLIB_InverseSetArea'', 0x1007D),
     (''SDKLIB_ClearScreen'', 0x1007E),
     (''SDKLIB_ClearSetArea'', 0x1007F),
     (''SDKLIB_ScrollDown'', 0x10080),
     (''SDKLIB_ScrollLeft'', 0x10081),
     (''SDKLIB_ScrollRight'', 0x10082),
     (''SDKLIB_ScrollUp'', 0x10083),
     (''SDKLIB_GetRealLCD'', 0x10084),
     (''SDKLIB_SetToRealLCD'', 0x10085),
     (''SDKLIB_SetToVirtualLCD'', 0x10086),
     (''SDKLIB_CreateVirtualLCD'', 0x10087),
     (''SDKLIB_DeleteVirtualLCD'', 0x10088),
     (''SDKLIB__BitBlt'', 0x10089),
     (''SDKLIB___fillrect'', 0x1008A),
     (''SDKLIB_SetActiveLCD'', 0x1008B),
     (''SDKLIB_SetRealLCD'', 0x1008C),
     (''SDKLIB_GetActiveLCD'', 0x1008D),
     (''SDKLIB_CreateCompatibleLCD'', 0x1008E),
     (''SDKLIB_CreateCompatibleImage'', 0x1008F),
     (''SDKLIB_DeleteLCD'', 0x10090),
     (''SDKLIB_SelectLCDObject'', 0x10091),
     (''SDKLIB_DeleteLCDObject'', 0x10092),
     (''SDKLIB_SetDCObject'', 0x10093),
     (''SDKLIB_GetWindowSize'', 0x10094)]"

definition interrupts_2 :: "(string \<times> InterruptID) list" where
  "interrupts_2 =
    [(''SDKLIB_GetImageSize'', 0x10095),
     (''SDKLIB_GetImageSizeExt'', 0x10096),
     (''SDKLIB_ImageData'', 0x10097),
     (''SDKLIB_SizeofImage'', 0x10098),
     (''SDKLIB_FreeImage'', 0x10099),
     (''SDKLIB_Delay'', 0x1009A),
     (''SDKLIB_PenDelay'', 0x1009B),
     (''SDKLIB_GetPenSilenceArea'', 0x1009C),
     (''SDKLIB_SetPenSilenceArea'', 0x1009D),
     (''SDKLIB_WarningBeep'', 0x1009E),
     (''SDKLIB_LockSystem'', 0x1009F),
     (''SDKLIB_UnlockSystem'', 0x100A0),
     (''SDKLIB_CopyToClipBoard'', 0x100A1),
     (''SDKLIB_CopyFromClipBoard'', 0x100A2),
     (''SDKLIB_ClearClipBoard'', 0x100A3),
     (''SDKLIB_GetClipBoardTextLength'', 0x100A4),
     (''SDKLIB_GetSysTime'', 0x100A5),
     (''SDKLIB_SetSysTime'', 0x100A6),
     (''SDKLIB_PopupWaitingMsg'', 0x100A7),
     (''SDKLIB_CloseWaitingMsg'', 0x100A8),
     (''SDKLIB_GetLanguageType'', 0x100A9),
     (''SDKLIB_SetLanguageType'', 0x100AA),
     (''SDKLIB_SetChineseFont'', 0x100AB),
     (''SDKLIB_GetChineseFont'', 0x100AC),
     (''SDKLIB_SetShiftState'', 0x100AD),
     (''SDKLIB_SetCapsState'', 0x100AE),
     (''SDKLIB_GetShiftState'', 0x100AF),
     (''SDKLIB_GetCapsState'', 0x100B0),
     (''SDKLIB_Tradional2Simple'', 0x100B1),
     (''SDKLIB_Simple2Tradional'', 0x100B2),
     (''SDKLIB_SetEPTSLastChar'', 0x100B3),
     (''SDKLIB_PlayAllVoice'', 0x100B4),
     (''SDKLIB_StopAllVoice'', 0x100B5),
     (''SDKLIB_PauseAllVoice'', 0x100B6),
     (''SDKLIB_ContinueAllVoice'', 0x100B7),
     (''SDKLIB_GetAllVoiceState'', 0x100B8),
     (''SDKLIB_RecordVoiceEx'', 0x100B9),
     (''SDKLIB_PlaybackVoiceEx'', 0x100BA),
     (''SDKLIB_SetAudioHandler'', 0x100BB),
     (''SDKLIB_ConvCharToUnicode'', 0x100BC),
     (''SDKLIB_ConvStrToUnicode'', 0x100BD),
     (''SDKLIB_CompSecretkey'', 0x100BE),
     (''SDKLIB_ClearSecretkey'', 0x100BF),
     (''SDKLIB_SetUserFontHandle'', 0x100C0),
     (''SDKLIB_GetMasterIDInfo'', 0x100C1),
     (''SDKLIB_ReadFollowMe'', 0x100C2),
     (''SDKLIB_GetPrivateState'', 0x100C3),
     (''SDKLIB_SetPrivateState'', 0x100C4),
     (''SDKLIB__afnsplit'', 0x100C5),
     (''SDKLIB__afnmerge'', 0x100C6),
     (''SDKLIB__afcreate'', 0x100C7),
     (''SDKLIB__afcreateSz'', 0x100C8),
     (''SDKLIB__afopen'', 0x100C9),
     (''SDKLIB__fclose'', 0x100CA),
     (''SDKLIB__filesize'', 0x100CB),
     (''SDKLIB___fflush'', 0x100CC),
     (''SDKLIB__fflushall'', 0x100CD),
     (''SDKLIB__rewind'', 0x100CE),
     (''SDKLIB___fseek'', 0x100CF),
     (''SDKLIB__ftell'', 0x100D0),
     (''SDKLIB__feof'', 0x100D1),
     (''SDKLIB__fgetc'', 0x100D2),
     (''SDKLIB__fgets'', 0x100D3),
     (''SDKLIB__fread'', 0x100D4),
     (''SDKLIB__fputc'', 0x100D5),
     (''SDKLIB__fputs'', 0x100D6),
     (''SDKLIB__fwrite'', 0x100D7),
     (''SDKLIB__afindfirst'', 0x100D8),
     (''SDKLIB__afindnext'', 0x100D9),
     (''SDKLIB__findclose'', 0x100DA),
     (''SDKLIB__afgetattr'', 0x100DB),
     (''SDKLIB__afsetattr'', 0x100DC),
     (''SDKLIB__aremove'', 0x100DD),
     (''SDKLIB__arename'', 0x100DE),
     (''SDKLIB__afcopy'', 0x100DF),
     (''SDKLIB__amkdir'', 0x100E0),
     (''SDKLIB__armdir'', 0x100E1),
     (''SDKLIB__achdir'', 0x100E2),
     (''SDKLIB__agetcurdir'', 0x100E3),
     (''SDKLIB__isformateddisk'', 0x100E4),
     (''SDKLIB__getfattype'', 0x100E5),
     (''SDKLIB__setdisk'', 0x100E6),
     (''SDKLIB__getdisk'', 0x100E7),
     (''SDKLIB__getdiskchar'', 0x100E8),
     (''SDKLIB__setdiskchar'', 0x100E9),
     (''SDKLIB__getdisknum'', 0x100EA),
     (''SDKLIB_FSGetDiskRoomState'', 0x100EB),
     (''SDKLIB__OpenFile'', 0x100EC),
     (''SDKLIB__OpenFileEx'', 0x100ED),
     (''SDKLIB__OpenFileW'', 0x100EE),
     (''SDKLIB__CloseFile'', 0x100EF),
     (''SDKLIB__ReadFile'', 0x100F0),
     (''SDKLIB__FseekFile'', 0x100F1),
     (''SDKLIB__FileSize'', 0x100F2),
     (''SDKLIB__OpenSubFile'', 0x100F3),
     (''SDKLIB__TellFile'', 0x100F4),
     (''SDKLIB_DBSave'', 0x100F5),
     (''SDKLIB_DBSaveAll'', 0x100F6),
     (''SDKLIB_DBOpenUserFile'', 0x100F7),
     (''SDKLIB_DBCreate'', 0x100F8),
     (''SDKLIB_DBCreateSZ'', 0x100F9),
     (''SDKLIB_DBOpen'', 0x100FA),
     (''SDKLIB_DBClose'', 0x100FB),
     (''SDKLIB_DBRemove'', 0x100FC),
     (''SDKLIB_DBEmpty'', 0x100FD),
     (''SDKLIB_DBOptimize'', 0x100FE),
     (''SDKLIB_DBRepair'', 0x100FF),
     (''SDKLIB_DBGetNewRecordPID'', 0x10100),
     (''SDKLIB_DBGetNewRecordID'', 0x10101),
     (''SDKLIB_DBCreateNewRecord'', 0x10102),
     (''SDKLIB_DBInsertRecord'', 0x10103),
     (''SDKLIB_DBModifyRecord'', 0x10104),
     (''SDKLIB_DBRemoveRecord'', 0x10105),
     (''SDKLIB_DBReadRecord'', 0x10106),
     (''SDKLIB_DBGetRecordTime'', 0x10107),
     (''SDKLIB_DBGetRecordDate'', 0x10108),
     (''SDKLIB_DBGetRecordPid'', 0x10109),
     (''SDKLIB_DBGetCurRecordCount'', 0x1010A),
     (''SDKLIB_DBOverLoadSortFunc'', 0x1010B),
     (''SDKLIB_DBGetRecPidState'', 0x1010C),
     (''SDKLIB_DBGetDBState'', 0x1010D),
     (''SDKLIB__GetSystemDirectory'', 0x1010E),
     (''SDKLIB__GetTempPath'', 0x1010F),
     (''SDKLIB__GetPrivateProfileInt'', 0x10110),
     (''SDKLIB__GetPrivateProfileString'', 0x10111),
     (''SDKLIB__WritePrivateProfileString'', 0x10112),
     (''SDKLIB_GetTadCityNo'', 0x10113),
     (''SDKLIB_RunApplicationA'', 0x10114),
     (''SDKLIB_GetApplicationNameA'', 0x10115),
     (''SDKLIB_LoadProgramA'', 0x10116),
     (''SDKLIB_FreeProgram'', 0x10117),
     (''SDKLIB_ExecuteProgram'', 0x10118),
     (''SDKLIB_GetCurrentPathA'', 0x10119),
     (''SDKLIB_ProgramIsRunningA'', 0x1011A),
     (''SDKLIB_FindApplications'', 0x1011B),
     (''SDKLIB_FreeFindApplications'', 0x1011C),
     (''SDKLIB_GetApplicationInfo'', 0x1011D),
     (''SDKLIB_CreateAppView'', 0x1011E),
     (''SDKLIB_TextPicker'', 0x1011F),
     (''SDKLIB_GetMonDays'', 0x10120),
     (''SDKLIB_GetWeekDay'', 0x10121),
     (''SDKLIB_ConvSolarToLunar'', 0x10122),
     (''SDKLIB_ConvLunarToSolar'', 0x10123),
     (''SDKLIB_GetLeapMonth'', 0x10124),
     (''SDKLIB_CreateEdit'', 0x10125),
     (''SDKLIB_EDInitEdit'', 0x10126),
     (''SDKLIB_EDDraw'', 0x10127),
     (''SDKLIB_EDDrawText'', 0x10128),
     (''SDKLIB_EDHandleEvent'', 0x10129)]"

definition interrupts_3 :: "(string \<times> InterruptID) list" where
  "interrupts_3 =
    [(''SDKLIB_InsertTextField'', 0x1012A),
     (''SDKLIB_ReplaceEditBuffer'', 0x1012B),
     (''SDKLIB_SetEditCmdFunc'', 0x1012C),
     (''SDKLIB_GetEditCmdFunc'', 0x1012D),
     (''SDKLIB_SetEditFunctionMenuState'', 0x1012E),
     (''SDKLIB_DatePicker'', 0x1012F),
     (''SDKLIB_CreateBoolDateField'', 0x10130),
     (''SDKLIB_CreateBoolMenuField'', 0x10131),
     (''SDKLIB_CreateBoolField'', 0x10132),
     (''SDKLIB_CreateBoolTextField'', 0x10133),
     (''SDKLIB_CreateTimeField'', 0x10134),
     (''SDKLIB_CreateDateField'', 0x10135),
     (''SDKLIB_CreateDoubleTimeField'', 0x10136),
     (''SDKLIB_CreateNumericField'', 0x10137),
     (''SDKLIB_PDATEFIELD_draw'', 0x10138),
     (''SDKLIB_PDATEFIELD_handleEvent'', 0x10139),
     (''SDKLIB_PDATEFIELD_setState'', 0x1013A),
     (''SDKLIB_PNUMERICFIELD_handleEvent'', 0x1013B),
     (''SDKLIB_PBOOLFIELD_draw'', 0x1013C),
     (''SDKLIB_MessageBox'', 0x1013D),
     (''SDKLIB_CreateMessageBox'', 0x1013E),
     (''SDKLIB_NumericPicker'', 0x1013F),
     (''SDKLIB_SetNumPkValidHandle'', 0x10140),
     (''SDKLIB_CreateDetailView'', 0x10141),
     (''SDKLIB_PDETAILVIEW_draw'', 0x10142),
     (''SDKLIB_NumericToStr'', 0x10143),
     (''SDKLIB_StrToNumeric'', 0x10144),
     (''SDKLIB_AllocBlock'', 0x10145),
     (''SDKLIB_FreeBlock'', 0x10146),
     (''SDKLIB_RelatedKeyButton'', 0x10147),
     (''SDKLIB_RelatedKeyButtonEx'', 0x10148),
     (''SDKLIB_UnRelatedKeyButton'', 0x10149),
     (''SDKLIB_CreateButton'', 0x1014A),
     (''SDKLIB_ChangeButton'', 0x1014B),
     (''SDKLIB_InsertButton'', 0x1014C),
     (''SDKLIB_CreateStatic'', 0x1014D),
     (''SDKLIB_PBUTTON_draw'', 0x1014E),
     (''SDKLIB_InsertImageClip'', 0x1014F),
     (''SDKLIB_CreatePageArrow'', 0x10150),
     (''SDKLIB_InsertPgUpDn'', 0x10151),
     (''SDKLIB_CreateHorPageArrow'', 0x10152),
     (''SDKLIB_CreateControlMenu'', 0x10153),
     (''SDKLIB_CreateMenuField'', 0x10154),
     (''SDKLIB_CreateNumberSet'', 0x10155),
     (''SDKLIB_CreateStackedList'', 0x10156),
     (''SDKLIB_CreateSlider'', 0x10157),
     (''SDKLIB_CreateProgress'', 0x10158),
     (''SDKLIB_CreateRadioButton'', 0x10159),
     (''SDKLIB_PPROGRESSetPos'', 0x1015A),
     (''SDKLIB_PPROGRESSetRange'', 0x1015B),
     (''SDKLIB_PSLIDER_SetPos'', 0x1015C),
     (''SDKLIB_PSLIDER_SetRange'', 0x1015D),
     (''SDKLIB_PSLIDER_handleEvent'', 0x1015E),
     (''SDKLIB_IsRadioButtonCheck'', 0x1015F),
     (''SDKLIB_CheckDeskRadioButton'', 0x10160),
     (''SDKLIB_PNUMBERSET_handleEvent'', 0x10161),
     (''SDKLIB_PMENUFIELD_draw'', 0x10162),
     (''SDKLIB_PMENUFIELD_handleEvent'', 0x10163),
     (''SDKLIB_PCONTROLMENU_draw'', 0x10164),
     (''SDKLIB_PCONTROLMENU_handleEvent'', 0x10165),
     (''SDKLIB_PVIEW_draw'', 0x10166),
     (''SDKLIB_PVIEW_EraseBackGround'', 0x10167),
     (''SDKLIB_PVIEW_handleEvent'', 0x10168),
     (''SDKLIB_PVIEW_setState'', 0x10169),
     (''SDKLIB_PGROUP_draw'', 0x1016A),
     (''SDKLIB_PGROUP_handleEvent'', 0x1016B),
     (''SDKLIB_PGROUP_insert'', 0x1016C),
     (''SDKLIB_PGROUP_redraw'', 0x1016D),
     (''SDKLIB_PGROUP_setCurrent'', 0x1016E),
     (''SDKLIB_PGROUP_setState'', 0x1016F),
     (''SDKLIB_PGROUP_execute'', 0x10170),
     (''SDKLIB_PGROUP_preView'', 0x10171),
     (''SDKLIB_CreateDeskBox'', 0x10172),
     (''SDKLIB_PDESKBOX_draw'', 0x10173),
     (''SDKLIB_PDESKBOX_drawTitle'', 0x10174),
     (''SDKLIB_PDESKBOX_handleEvent'', 0x10175),
     (''SDKLIB_PDESKBOX_redraw'', 0x10176),
     (''SDKLIB_Destroy'', 0x10177),
     (''SDKLIB_DeskBox_construct'', 0x10178),
     (''SDKLIB_DrawDeskBoxBound'', 0x10179),
     (''SDKLIB_ChangeCommandMenu'', 0x1017A),
     (''SDKLIB_SetDeskBoxReturn'', 0x1017B),
     (''SDKLIB_ExecView'', 0x1017C),
     (''SDKLIB_SetExitWordVal'', 0x1017D),
     (''SDKLIB_GetExitWordVal'', 0x1017E),
     (''SDKLIB_SetCurModeWord'', 0x1017F),
     (''SDKLIB_GetCurModeWord'', 0x10180),
     (''SDKLIB_InsertTitleBarButton'', 0x10181),
     (''SDKLIB_Delete'', 0x10182),
     (''SDKLIB_DisableCommand'', 0x10183),
     (''SDKLIB_EnableCommand'', 0x10184),
     (''SDKLIB_InverseSetAreaArc'', 0x10185),
     (''SDKLIB_InverseSetAreaColor'', 0x10186),
     (''SDKLIB_InverseSetAreaArcColor'', 0x10187),
     (''SDKLIB_SendMessage'', 0x10188),
     (''SDKLIB_SendMessageExt'', 0x10189),
     (''SDKLIB_GetPreView'', 0x1018A),
     (''SDKLIB_SetFocuseItem'', 0x1018B),
     (''SDKLIB_SetTabOrder'', 0x1018C),
     (''SDKLIB_GetDeskEntry'', 0x1018D),
     (''SDKLIB_GetDeskItem'', 0x1018E),
     (''SDKLIB_QueryByCommand'', 0x1018F),
     (''SDKLIB_GetMaxScrX'', 0x10190),
     (''SDKLIB_GetMaxScrY'', 0x10191),
     (''SDKLIB_GetDeskClientRect'', 0x10192),
     (''SDKLIB_InvalidateRect'', 0x10193),
     (''SDKLIB_InsertSplitViewFrame'', 0x10194),
     (''SDKLIB_CreateSplitView'', 0x10195),
     (''SDKLIB_InsertSplitView'', 0x10196),
     (''SDKLIB_PSPLITVIEW_draw'', 0x10197),
     (''SDKLIB_PSPLITVIEW_handleEvent'', 0x10198),
     (''SDKLIB_PSPLITVIEW_setState'', 0x10199),
     (''SDKLIB_InsertMultiPage'', 0x1019A),
     (''SDKLIB_PPAGE_draw'', 0x1019B),
     (''SDKLIB_PPAGE_handleEvent'', 0x1019C),
     (''SDKLIB_PMPAGE_insertPage'', 0x1019D),
     (''SDKLIB_PMPAGE_handleEvent'', 0x1019E),
     (''SDKLIB_ConverNumToStr'', 0x1019F),
     (''SDKLIB_ConverTimeToStr'', 0x101A0),
     (''SDKLIB_DateToString'', 0x101A1),
     (''SDKLIB_TimeToString'', 0x101A2),
     (''SDKLIB_ZfxGetWeekDay'', 0x101A3),
     (''SDKLIB_WriteNumber'', 0x101A4),
     (''SDKLIB_ConverDateToStr'', 0x101A5),
     (''SDKLIB_PopUpList'', 0x101A6),
     (''SDKLIB_PressAtRange'', 0x101A7),
     (''SDKLIB_PressAtButton'', 0x101A8),
     (''SDKLIB_PressAtButtonInv'', 0x101A9),
     (''SDKLIB_PressAtButtonIconAddr'', 0x101AA),
     (''SDKLIB_PressAtButtonIcon'', 0x101AB),
     (''SDKLIB_IsSystemItemID'', 0x101AC),
     (''SDKLIB_WaitingMessageBox'', 0x101AD),
     (''SDKLIB_CreateCalendar'', 0x101AE),
     (''SDKLIB_PCALENDAR_draw'', 0x101AF),
     (''SDKLIB_PCALENDAR_handleEvent'', 0x101B0),
     (''SDKLIB_CreateScrollBar'', 0x101B1),
     (''SDKLIB_InsertScrollBar'', 0x101B2),
     (''SDKLIB_InsertScrollBarPosition'', 0x101B3),
     (''SDKLIB_PSCROLLBAR_draw'', 0x101B4),
     (''SDKLIB_PSCROLLBAR_redraw'', 0x101B5),
     (''SDKLIB_PSCROLLBAR_handleEvent'', 0x101B6),
     (''SDKLIB_ChangeScrollBarValue'', 0x101B7),
     (''SDKLIB_ChangeScrollBarStep'', 0x101B8),
     (''SDKLIB_SetScrollBarValue'', 0x101B9),
     (''SDKLIB_SetScrollBarStep'', 0x101BA),
     (''SDKLIB_CreateLister'', 0x101BB),
     (''SDKLIB_PLISTER_draw'', 0x101BC),
     (''SDKLIB_PLISTER_handleEvent'', 0x101BD),
     (''SDKLIB_PLISTER_writeItem'', 0x101BE)]"

definition interrupts_4 :: "(string \<times> InterruptID) list" where
  "interrupts_4 =
    [(''SDKLIB_PLISTER_penDownAct'', 0x101BF),
     (''SDKLIB_PLISTER_changeFocuseAct'', 0x101C0),
     (''SDKLIB_ChangeListRowHeight'', 0x101C1),
     (''SDKLIB_ChangeListItemSum'', 0x101C2),
     (''SDKLIB_CreateLongLister'', 0x101C3),
     (''SDKLIB_PLONGLISTER_draw'', 0x101C4),
     (''SDKLIB_PLONGLISTER_handleEvent'', 0x101C5),
     (''SDKLIB_PLONGLISTER_changeFocuseAct'', 0x101C6),
     (''SDKLIB_PLONGLISTER_writeItem'', 0x101C7),
     (''SDKLIB_PLONGLISTER_penDownAct'', 0x101C8),
     (''SDKLIB_ChangeLongListItemSum'', 0x101C9),
     (''SDKLIB_ChangeLongListRowHeight'', 0x101CA),
     (''SDKLIB_SetSysColorConfig'', 0x101CB),
     (''SDKLIB_GetSysColorConfig'', 0x101CC),
     (''SDKLIB_GetSysColor'', 0x101CD),
     (''SDKLIB_SetSysColor'', 0x101CE),
     (''SDKLIB_SetDefaultSysIconCfg'', 0x101CF),
     (''SDKLIB_DrawGradientRect'', 0x101D0),
     (''SDKLIB_TimePicker'', 0x101D1),
     (''SDKLIB__GetOpenFileName'', 0x101D2),
     (''SDKLIB__GetSaveFileName'', 0x101D3),
     (''SDKLIB__GetNextFileName'', 0x101D4),
     (''SDKLIB_InsertFileFilter'', 0x101D5),
     (''SDKLIB_PFILEFILTER_draw'', 0x101D6),
     (''SDKLIB_PFILEFILTER_handleEvent'', 0x101D7),
     (''SDKLIB_PFILEFILTER_chgColumnText'', 0x101D8),
     (''SDKLIB_PFILEFILTER_setPathInfo'', 0x101D9),
     (''SDKLIB_PFILEFILTER_getFillMode'', 0x101DA),
     (''SDKLIB_PFILEFILTER_setFillMode'', 0x101DB),
     (''SDKLIB_PFILEFILTER_getItemName'', 0x101DC),
     (''SDKLIB_PFILEFILTER_writeColumn0'', 0x101DD),
     (''SDKLIB_GetFileExecuteFunction'', 0x101DE),
     (''SDKLIB__EditFileName'', 0x101DF),
     (''SDKLIB_IME_GetHandActiveState'', 0x101E0),
     (''SDKLIB_IME_GetCtrlSize'', 0x101E1),
     (''SDKLIB_IME_ActiveCtrl'', 0x101E2),
     (''SDKLIB_IME_IsActiveInputer'', 0x101E3),
     (''SDKLIB_IME_SetDefault'', 0x101E4),
     (''SDKLIB_IME_GetLXResult'', 0x101E5),
     (''SDKLIB_IME_SetHandFilter'', 0x101E6),
     (''SDKLIB_IME_GetHandFilter'', 0x101E7),
     (''SDKLIB_IME_IsFuncKey'', 0x101E8),
     (''SDKLIB_IME_SearchKeyMap'', 0x101E9),
     (''SDKLIB_IME_IsSelectKey'', 0x101EA),
     (''SDKLIB_IME_SaveUserInfo'', 0x101EB),
     (''SDKLIB_IME_ReadUserInfo'', 0x101EC),
     (''SDKLIB_IME_IsEmptyFont'', 0x101ED),
     (''SDKLIB_IME_SetHandWrtConfig'', 0x101EE),
     (''SDKLIB_IME_SetHandWrtStudyFlag'', 0x101EF),
     (''SDKLIB_IME_SetRecognizeFlag'', 0x101F0),
     (''SDKLIB_IME_GetCtrl'', 0x101F1),
     (''SDKLIB_IME_GetCtrlState'', 0x101F2),
     (''SDKLIB_IME_GetViewInfo'', 0x101F3),
     (''SDKLIB_SCcorrection'', 0x101F4),
     (''SDKLIB_SCwildcard'', 0x101F5),
     (''SDKLIB_SCverify'', 0x101F6),
     (''SDKLIB_InitialSpelling'', 0x101F7),
     (''SDKLIB_SCopenDatabase'', 0x101F8),
     (''SDKLIB_SCcloseDatabase'', 0x101F9),
     (''SDKLIB_SCGetMaxWordLen'', 0x101FA),
     (''SDKLIB_GetTotalItem'', 0x101FB),
     (''SDKLIB_GetMaxBlockSize'', 0x101FC),
     (''SDKLIB_GetKeyWord'', 0x101FD),
     (''SDKLIB_GetAllContent'', 0x101FE),
     (''SDKLIB_GetSaveAddress'', 0x101FF),
     (''SDKLIB_GetAlpExit'', 0x10200),
     (''SDKLIB_SetAlpExit'', 0x10201),
     (''SDKLIB_SetDictFont'', 0x10202),
     (''SDKLIB_GetDictFont'', 0x10203),
     (''SDKLIB_UniversalCrossSearch'', 0x10204),
     (''SDKLIB_UniversalDictList'', 0x10205),
     (''SDKLIB_UniversalDictListForAll'', 0x10206),
     (''SDKLIB_UniversalCardList'', 0x10207),
     (''SDKLIB_SearchEveryWay'', 0x10208),
     (''SDKLIB_GetAddDictPosInList'', 0x10209),
     (''SDKLIB_GetCurrentCardDictNum'', 0x1020A),
     (''SDKLIB_SearchCurrentCardDictInfo'', 0x1020B),
     (''SDKLIB_ReleaseCardDictInfo'', 0x1020C),
     (''SDKLIB_PRICHVIEW_SetBufferAttrib'', 0x1020D),
     (''SDKLIB_PRICHVIEW_SpeechForRich'', 0x1020E),
     (''SDKLIB_IsDictOuYu'', 0x1020F),
     (''SDKLIB_CreateRichView'', 0x10210),
     (''SDKLIB_AddScrollBarToRichview'', 0x10211),
     (''SDKLIB_ChangeScrollBarToRichview'', 0x10212),
     (''SDKLIB_ChangeScrollBarPos'', 0x10213),
     (''SDKLIB_SetDisplayMode'', 0x10214),
     (''SDKLIB_SetShowSearchLayer'', 0x10215),
     (''SDKLIB_SetWindowState'', 0x10216),
     (''SDKLIB_GetWindowState'', 0x10217),
     (''SDKLIB_GetBaseLine'', 0x10218),
     (''SDKLIB_SetBaseLine'', 0x10219),
     (''SDKLIB_BackupWindowState'', 0x1021A),
     (''SDKLIB_RestoreWindowState'', 0x1021B),
     (''SDKLIB_PRICHVIEW_draw'', 0x1021C),
     (''SDKLIB_PRICHVIEW_handleEvent'', 0x1021D),
     (''SDKLIB_GetMarkString'', 0x1021E),
     (''SDKLIB_GetRichWindowState'', 0x1021F),
     (''SDKLIB_SetShowMode'', 0x10220),
     (''SDKLIB_PRICHVIEW_ShowSearchLayer'', 0x10221),
     (''SDKLIB_PRICHVIEW_SetStateForUser'', 0x10222),
     (''SDKLIB_PRICHVIEW_WriteString'', 0x10223),
     (''SDKLIB_RichViewSetColor'', 0x10224),
     (''SDKLIB_SetTotalLine'', 0x10225),
     (''SDKLIB_ShowRichContentOnly'', 0x10226),
     (''SDKLIB_PRICHVIEW_SetCttsType'', 0x10227),
     (''SDKLIB_SetDefLineEditorInfo'', 0x10228),
     (''SDKLIB_LineEditor'', 0x10229),
     (''SDKLIB_LineEditor_handleEvent'', 0x1022A),
     (''SDKLIB_DictEditor_handleEvent'', 0x1022B),
     (''SDKLIB_LEModuleForUser'', 0x1022C),
     (''SDKLIB_LineEditor_ModuleForUser'', 0x1022D),
     (''SDKLIB_LEDictWiseSearch'', 0x1022E),
     (''SDKLIB_IsWildCard'', 0x1022F),
     (''SDKLIB_LEditor_draw'', 0x10230),
     (''SDKLIB_LINEEDITOR_changeFocuseAct'', 0x10231),
     (''SDKLIB_LEDSK_handleEvent'', 0x10232),
     (''SDKLIB_LineEditorCompareStr'', 0x10233),
     (''SDKLIB_LineEditorWiseSearch'', 0x10234),
     (''SDKLIB_SearchDict'', 0x10235),
     (''SDKLIB_GetSearchDictShortName'', 0x10236),
     (''SDKLIB_GetCurrentMainDictNum'', 0x10237),
     (''SDKLIB_PRICHVIEW_OKSpeechForRich'', 0x10238),
     (''SDKLIB_GetIndexHcaOffset'', 0x10239),
     (''SDKLIB_GetIndexIconOffset'', 0x1023A),
     (''SDKLIB_GetAppIndexIconOffset'', 0x1023B),
     (''SDKLIB_LoadHCAToGraphicByIdx'', 0x1023C),
     (''SDKLIB_LoadHCAToGraphicHeadByIdx'', 0x1023D),
     (''SDKLIB_GetIndexHCAHeight'', 0x1023E),
     (''SDKLIB_GetIndexHCAWidth'', 0x1023F),
     (''SDKLIB_ShowHCAByOffset'', 0x10240),
     (''SDKLIB_SetHCATransparentMode'', 0x10241),
     (''SDKLIB_ReleaseHcaCache'', 0x10242),
     (''SDKLIB_ResetCache'', 0x10243),
     (''SDKLIB_SetLibDataindexOffset'', 0x10244),
     (''SDKLIB_GetLibAddrFromID'', 0x10245),
     (''SDKLIB_ShowBookProFromFile'', 0x10246),
     (''SDKLIB_RunBook'', 0x10247),
     (''SDKLIB_ShowBook'', 0x10248),
     (''SDKLIB_ShowBookPreview'', 0x10249),
     (''SDKLIB_ShowBookEx'', 0x1024A),
     (''SDKLIB_USBMassStorageRun'', 0x1024B),
     (''SDKLIB_SetPassThroughCallBack'', 0x1024C),
     (''SDKLIB_ctts_predict'', 0x1024D),
     (''SDKLIB_ctts_nounce'', 0x1024E),
     (''SDKLIB_SetAllVoiceState'', 0x1024F),
     (''SDKLIB_OpenPCMCodec'', 0x10250),
     (''SDKLIB_ClosePCMCodec'', 0x10251),
     (''SDKLIB_AudioPlayBackPause'', 0x10252),
     (''SDKLIB_AudioPlayBackContinue'', 0x10253)]"

definition interrupts_5 :: "(string \<times> InterruptID) list" where
  "interrupts_5 =
    [(''SDKLIB_PlayWaveData'', 0x10254),
     (''SDKLIB_StopWaveDataPlay'', 0x10255),
     (''SDKLIB_PauseWaveDataPlay'', 0x10256),
     (''SDKLIB_ContinueWaveDataPlay'', 0x10257),
     (''SDKLIB_RecordAdpcmEx'', 0x10258),
     (''SDKLIB_StopADPCMRecord'', 0x10259),
     (''SDKLIB_IsWaveDataPlayStopped'', 0x1025A),
     (''SDKLIB_PlayMP3Data'', 0x1025B),
     (''SDKLIB_StopMP3DataPlay'', 0x1025C),
     (''SDKLIB_PausePlayMP3Data'', 0x1025D),
     (''SDKLIB_ContinuePlayMP3Data'', 0x1025E),
     (''SDKLIB_InitBestlkHandle'', 0x1025F),
     (''SDKLIB_SetBestlkVoiceHandle'', 0x10260),
     (''SDKLIB_IME_RegistInputer'', 0x10261),
     (''SDKLIB_SetLanguageAttr'', 0x10262),
     (''SDKLIB_SetDialectAttr'', 0x10263),
     (''SDKLIB_SetLineEditorAttr'', 0x10264),
     (''SDKLIB_SetBookLibDataHFile'', 0x10265),
     (''SDKLIB_SetBookVocLibDataHFile'', 0x10266),
     (''SDKLIB_IME_SetGlobalVar'', 0x10267),
     (''SDKLIB_IME_Functions'', 0x10268),
     (''SDKLIB_LE_SupportMultiLangFunc'', 0x10269),
     (''SDKLIB_ShowBookFromHANDLE'', 0x1026A),
     (''SDKLIB__wfnsplit'', 0x1026B),
     (''SDKLIB__wfnmerge'', 0x1026C),
     (''SDKLIB__wfcreate'', 0x1026D),
     (''SDKLIB__wfcreateSz'', 0x1026E),
     (''SDKLIB___wfopen'', 0x1026F),
     (''SDKLIB__wfindfirst'', 0x10270),
     (''SDKLIB__wfindnext'', 0x10271),
     (''SDKLIB__wfgetattr'', 0x10272),
     (''SDKLIB__wfsetattr'', 0x10273),
     (''SDKLIB___wremove'', 0x10274),
     (''SDKLIB__wrename'', 0x10275),
     (''SDKLIB__wfcopy'', 0x10276),
     (''SDKLIB__wmkdir'', 0x10277),
     (''SDKLIB__wrmdir'', 0x10278),
     (''SDKLIB__wchdir'', 0x10279),
     (''SDKLIB__wgetcurdir'', 0x1027A),
     (''SDKLIB__afsettime'', 0x1027B),
     (''SDKLIB__wfsettime'', 0x1027C),
     (''SDKLIB__afullpath'', 0x1027D),
     (''SDKLIB__wfullpath'', 0x1027E),
     (''SDKLIB_RunApplicationW'', 0x1027F),
     (''SDKLIB_GetApplicationNameW'', 0x10280),
     (''SDKLIB_LoadProgramW'', 0x10281),
     (''SDKLIB_GetCurrentPathW'', 0x10282),
     (''SDKLIB_ProgramIsRunningW'', 0x10283),
     (''SDKLIB_LoadHFileProgramW'', 0x10284),
     (''SDKLIB_LoadHFileProgramA'', 0x10285),
     (''SDKLIB__LoadLibraryA'', 0x10286),
     (''SDKLIB__GetModuleFileNameA'', 0x10287),
     (''SDKLIB__GetModuleHandleA'', 0x10288),
     (''SDKLIB_GetApplicationProcA'', 0x10289),
     (''SDKLIB_StayResidentProgramA'', 0x1028A),
     (''SDKLIB_UnStayResidentProgramA'', 0x1028B),
     (''SDKLIB_CheckProgramIsStayResident'', 0x1028C),
     (''SDKLIB__FindResourceA'', 0x1028D),
     (''SDKLIB__FindResourceExA'', 0x1028E),
     (''SDKLIB__LoadLibraryW'', 0x1028F),
     (''SDKLIB__GetModuleFileNameW'', 0x10290),
     (''SDKLIB__GetModuleHandleW'', 0x10291),
     (''SDKLIB_GetApplicationProcW'', 0x10292),
     (''SDKLIB__FindResourceW'', 0x10293),
     (''SDKLIB__FindResourceExW'', 0x10294),
     (''SDKLIB_StayResidentProgramW'', 0x10295),
     (''SDKLIB_UnStayResidentProgramW'', 0x10296),
     (''SDKLIB__FreeLibrary'', 0x10297),
     (''SDKLIB__GetProcAddress'', 0x10298),
     (''SDKLIB__SizeofResource'', 0x10299),
     (''SDKLIB__OpenResourceItemFile'', 0x1029A),
     (''SDKLIB__CloseResourceItemFile'', 0x1029B),
     (''SDKLIB_GetCardSN'', 0x1029C),
     (''SDKLIB_GetCardSize'', 0x1029D),
     (''SDKLIB_GetThaiWord'', 0x1029E),
     (''SDKLIB_LoadThaiGrammarLib'', 0x1029F),
     (''SDKLIB_FreeThaiGrammarLib'', 0x102A0),
     (''SDKLIB_WriteComDebugMsg'', 0x102A1),
     (''SDKLIB_CreateIconButton'', 0x102A2),
     (''SDKLIB_LoadImageFile'', 0x102A3),
     (''SDKLIB_GetResourceCfg'', 0x102A4),
     (''SDKLIB_GetSystemDefaultLangID'', 0x102A5),
     (''SDKLIB_SetSystemDefaultLangID'', 0x102A6),
     (''SDKLIB_CreateFile'', 0x102A7),
     (''SDKLIB_DeleteFile'', 0x102A8),
     (''SDKLIB_ReadFile'', 0x102A9),
     (''SDKLIB_WriteFile'', 0x102AA),
     (''SDKLIB_SetFilePointer'', 0x102AB),
     (''SDKLIB_DeviceIoControl'', 0x102AC),
     (''SDKLIB_CloseHandle'', 0x102AD),
     (''SDKLIB_DictLastWord'', 0x102AE),
     (''SDKLIB_GetTransBuffer'', 0x102AF),
     (''SDKLIB_DictIsYuanYinPhonetic'', 0x102B0),
     (''SDKLIB_InsertButtonTeam'', 0x102B1),
     (''SDKLIB_CreateSearchInfo'', 0x102B2),
     (''SDKLIB_FreeSearchInfo'', 0x102B3),
     (''SDKLIB_DefProcessContent'', 0x102B4),
     (''SDKLIB_DefInsertPic'', 0x102B5),
     (''SDKLIB_DefGetWholeWord'', 0x102B6),
     (''SDKLIB_DefAddALine'', 0x102B7),
     (''SDKLIB_PRICHVIEW_GetFlagLength'', 0x102B8),
     (''SDKLIB_PRICHVIEW_FilterMark'', 0x102B9),
     (''SDKLIB_AddNewWord'', 0x102BA),
     (''SDKLIB_GetMaxSearchLayer'', 0x102BB),
     (''SDKLIB_FormatMessage'', 0x102BC),
     (''SDKLIB_SetFont'', 0x102BD),
     (''SDKLIB_GetFont'', 0x102BE),
     (''SDKLIB_GetFontWidth'', 0x102BF),
     (''SDKLIB_GetStringLengthEx'', 0x102C0),
     (''SDKLIB_SetFontStyle'', 0x102C1),
     (''SDKLIB_RegisterUserFont'', 0x102C2),
     (''SDKLIB_UnRegisterUserFont'', 0x102C3),
     (''SDKLIB_SetCurrentVideoDevice'', 0x102C4),
     (''SDKLIB_SetSupportDoubleLCD'', 0x102C5),
     (''SDKLIB__GetDriverType'', 0x102C6),
     (''SDKLIB_EditControlFunc'', 0x102C7),
     (''SDKLIB_GetMasterSerialNumber'', 0x102C8),
     (''SDKLIB_GetMasterVendorInfo'', 0x102C9),
     (''SDKLIB_PRICHVIEW_SetDisplayPosition'', 0x102CA),
     (''SDKLIB_GetApplicationHeadInfoA'', 0x102CB),
     (''SDKLIB_GetApplicationHeadInfoW'', 0x102CC),
     (''SDKLIB__FreeFindResInfo'', 0x102CD),
     (''SDKLIB_GetWholeWord'', 0x102CE),
     (''SDKLIB_LoadWordGrammarLib'', 0x102CF),
     (''SDKLIB_FreeWordGrammarLib'', 0x102D0),
     (''SDKLIB_mount_file_disk'', 0x102D1),
     (''SDKLIB_umount_file_disk'', 0x102D2),
     (''SDKLIB___close'', 0x102D3),
     (''SDKLIB___commit'', 0x102D4),
     (''SDKLIB___creat'', 0x102D5),
     (''SDKLIB___dup'', 0x102D6),
     (''SDKLIB___wcreat'', 0x102D7),
     (''SDKLIB___eof'', 0x102D8),
     (''SDKLIB___get_errno'', 0x102D9),
     (''SDKLIB___lseek'', 0x102DA),
     (''SDKLIB___lseeki64'', 0x102DB),
     (''SDKLIB___open'', 0x102DC),
     (''SDKLIB___wopen'', 0x102DD),
     (''SDKLIB___read'', 0x102DE),
     (''SDKLIB___set_errno'', 0x102DF),
     (''SDKLIB___tell'', 0x102E0),
     (''SDKLIB___telli64'', 0x102E1),
     (''SDKLIB___truncate'', 0x102E2),
     (''SDKLIB___write'', 0x102E3),
     (''SDKLIB__MultiByteToWideChar'', 0x102E4),
     (''SDKLIB__WideCharToMultiByte'', 0x102E5)]"

definition interrupts :: "(string \<times> InterruptID) list" where
  "interrupts = interrupts_1 @ interrupts_2 @ interrupts_3 @ interrupts_4 @ interrupts_5"

section \<open>Registrations\<close>

definition handlers_1 :: "InterruptHandler list" where
  "handlers_1 =
    [handler 0x10000 HANDLE_IMPLEMENTED ''OSCreateThread'' (Some Cb_OSCreateThread),
     handler 0x10001 HANDLE_NAMEONLY ''OSTerminateThread'' None,
     handler 0x10002 HANDLE_IMPLEMENTED ''OSSetThreadPriority'' (Some Cb_OSSetThreadPriority),
     handler 0x10003 HANDLE_NAMEONLY ''OSGetThreadPriority'' None,
     handler 0x10004 HANDLE_NAMEONLY ''OSSuspendThread'' (Some Cb_OSSuspendThread),
     handler 0x10005 HANDLE_NAMEONLY ''OSResumeThread'' (Some Cb_OSResumeThread),
     handler 0x10006 HANDLE_NAMEONLY ''OSWakeUpThread'' None,
     handler 0x10007 HANDLE_NAMEONLY ''OSExitThread'' None,
     handler 0x10008 HANDLE_IMPLEMENTED ''OSSleep'' (Some Cb_OSSleep),
     handler 0x10009 HANDLE_NAMEONLY ''OSCreateSemaphore'' None,
     handler 0x1000A HANDLE_NAMEONLY ''OSWaitForSemaphore'' None,
     handler 0x1000B HANDLE_NAMEONLY ''OSReleaseSemaphore'' None,
     handler 0x1000C HANDLE_NAMEONLY ''OSCloseSemaphore'' None,
     handler 0x1000D HANDLE_IMPLEMENTED ''OSCreateEvent'' (Some Cb_OSCreateEvent),
     handler 0x1000E HANDLE_NAMEONLY ''OSWaitForEvent'' (Some Cb_OSWaitForEvent),
     handler 0x1000F HANDLE_IMPLEMENTED ''OSSetEvent'' (Some Cb_OSSetEvent),
     handler 0x10010 HANDLE_NAMEONLY ''OSResetEvent'' None,
     handler 0x10011 HANDLE_NAMEONLY ''OSCloseEvent'' None,
     handler 0x10012 HANDLE_IMPLEMENTED ''OSInitCriticalSection'' (Some Cb_OSInitCriticalSection),
     handler 0x10013 HANDLE_IMPLEMENTED ''OSEnterCriticalSection'' (Some Cb_OSEnterCriticalSection),
     handler 0x10014 HANDLE_IMPLEMENTED ''OSLeaveCriticalSection'' (Some Cb_OSLeaveCriticalSection),
     handler 0x10015 HANDLE_NAMEONLY ''OSDeleteCriticalSection'' None,
     handler 0x10016 HANDLE_NAMEONLY ''OSSetLastError'' None,
     handler 0x10017 HANDLE_NAMEONLY ''OSGetLastError'' None,
     handler 0x10018 HANDLE_NAMEONLY ''OSCreateMsgQue'' None,
     handler 0x10019 HANDLE_NAMEONLY ''OSPostMsgQue'' None,
     handler 0x1001A HANDLE_NAMEONLY ''OSSendMsgQue'' None,
     handler 0x1001B HANDLE_NAMEONLY ''OSPeekMsgQue'' None,
     handler 0x1001C HANDLE_NAMEONLY ''OSGetMsgQue'' None,
     handler 0x1001D HANDLE_NAMEONLY ''OSCloseMsgQue'' None,
     handler 0x1001E HANDLE_NAMEONLY ''InterruptInitialize'' (Some Cb_InterruptInitialize),
     handler 0x1001F HANDLE_NAMEONLY ''InterruptEnable'' None,
     handler 0x10020 HANDLE_NAMEONLY ''InterruptDisable'' None,
     handler 0x10021 HANDLE_NAMEONLY ''InterruptDone'' (Some Cb_InterruptDone),
     handler 0x10022 HANDLE_NAMEONLY ''InterruptSetMode'' None,
     handler 0x10023 HANDLE_NAMEONLY ''DisableAutoSync'' None,
     handler 0x10024 HANDLE_NAMEONLY ''EnableAutoSync'' None,
     handler 0x10025 HANDLE_NAMEONLY ''getvect'' None,
     handler 0x10026 HANDLE_NAMEONLY ''setvect'' None,
     handler 0x10027 HANDLE_NAMEONLY ''GetLCDContrast'' None,
     handler 0x10028 HANDLE_NAMEONLY ''SetLCDContrast'' None,
     handler 0x10029 HANDLE_IMPLEMENTED ''LCDOn'' (Some Cb_LCDOn),
     handler 0x1002A HANDLE_NAMEONLY ''LCDOff'' None,
     handler 0x1002B HANDLE_NAMEONLY ''CheckLCDOn'' None,
     handler 0x1002C HANDLE_NAMEONLY ''Buzzer'' None,
     handler 0x1002D HANDLE_NAMEONLY ''KeyBeep'' None,
     handler 0x1002E HANDLE_NAMEONLY ''SetTimer1IntHandler'' None,
     handler 0x1002F HANDLE_NAMEONLY ''SetAutoPowerOff'' None,
     handler 0x10030 HANDLE_NAMEONLY ''GetTimer1IntHandler'' None,
     handler 0x10031 HANDLE_NAMEONLY ''RemapMemory'' None,
     handler 0x10032 HANDLE_NAMEONLY ''SysPowerOff'' (Some Cb_SysPowerOff),
     handler 0x10033 HANDLE_NAMEONLY ''SetSysKeyState'' None,
     handler 0x10034 HANDLE_NAMEONLY ''GetSysKeyState'' None,
     handler 0x10035 HANDLE_NAMEONLY ''GetBatteryType'' None,
     handler 0x10036 HANDLE_NAMEONLY ''BatteryLowCheck'' (Some Cb_BatteryLowCheck),
     handler 0x10037 HANDLE_IMPLEMENTED ''lmalloc'' (Some Cb_lmalloc),
     handler 0x10038 HANDLE_IMPLEMENTED ''lcalloc'' (Some Cb_lcalloc),
     handler 0x10039 HANDLE_IMPLEMENTED ''lrealloc'' (Some Cb_lrealloc),
     handler 0x1003A HANDLE_IMPLEMENTED ''_lfree'' (Some Cb_lfree),
     handler 0x1003B HANDLE_NAMEONLY ''GetPenEvent'' None,
     handler 0x1003C HANDLE_NAMEONLY ''CheckPenEvent'' None,
     handler 0x1003D HANDLE_NAMEONLY ''ClearPenEvent'' None,
     handler 0x1003E HANDLE_NAMEONLY ''PutSystemEvent'' None,
     handler 0x1003F HANDLE_NAMEONLY ''GetEvent'' (Some Cb_GetEvent),
     handler 0x10040 HANDLE_NAMEONLY ''GetPendEvent'' None,
     handler 0x10041 HANDLE_NAMEONLY ''SetEventType'' None,
     handler 0x10042 HANDLE_NAMEONLY ''GetEventType'' None,
     handler 0x10043 HANDLE_NAMEONLY ''PutEvent'' None,
     handler 0x10044 HANDLE_NAMEONLY ''PutEventExt'' None,
     handler 0x10045 HANDLE_NAMEONLY ''GetLastEvent'' None,
     handler 0x10046 HANDLE_NAMEONLY ''TestPendEvent'' None,
     handler 0x10047 HANDLE_NAMEONLY ''ClearPendEvent'' None,
     handler 0x10048 HANDLE_NAMEONLY ''ClearPenState'' None,
     handler 0x10049 HANDLE_NAMEONLY ''ClearEvent'' None,
     handler 0x1004A HANDLE_NAMEONLY ''ClearAllEvents'' None,
     handler 0x1004B HANDLE_NAMEONLY ''TestKeyEvent'' None,
     handler 0x1004C HANDLE_NAMEONLY ''SetSystemVariable'' (Some Cb_SetSystemVariable),
     handler 0x1004D HANDLE_NAMEONLY ''GetCharWidth'' None,
     handler 0x1004E HANDLE_NAMEONLY ''GetFontHeight'' None,
     handler 0x1004F HANDLE_NAMEONLY ''GetFontType'' None,
     handler 0x10050 HANDLE_NAMEONLY ''GetStringLength'' None,
     handler 0x10051 HANDLE_NAMEONLY ''SetFontType'' None,
     handler 0x10052 HANDLE_NAMEONLY ''WriteAlignString'' None,
     handler 0x10053 HANDLE_NAMEONLY ''WriteChar'' None,
     handler 0x10054 HANDLE_NAMEONLY ''WriteString'' None,
     handler 0x10055 HANDLE_NAMEONLY ''WriteStringInWindow'' None,
     handler 0x10056 HANDLE_NAMEONLY ''WriteStringInWindowEx'' None,
     handler 0x10057 HANDLE_NAMEONLY ''Printf'' None,
     handler 0x10058 HANDLE_NAMEONLY ''PrintfXY'' None,
     handler 0x10059 HANDLE_NAMEONLY ''ShowGraphic'' None,
     handler 0x1005A HANDLE_NAMEONLY ''SizeofGraphic'' None,
     handler 0x1005B HANDLE_NAMEONLY ''InitGraphic'' None,
     handler 0x1005C HANDLE_NAMEONLY ''CreateIcon'' None,
     handler 0x1005D HANDLE_NAMEONLY ''SetCursorSize'' None,
     handler 0x1005E HANDLE_NAMEONLY ''GetCursorSize'' None,
     handler 0x1005F HANDLE_NAMEONLY ''SetCursorPosition'' None,
     handler 0x10060 HANDLE_NAMEONLY ''GetCursorPosition'' None,
     handler 0x10061 HANDLE_NAMEONLY ''SetCursorType'' None,
     handler 0x10062 HANDLE_NAMEONLY ''GetCursorType'' None,
     handler 0x10063 HANDLE_NAMEONLY ''CursorLock'' None,
     handler 0x10064 HANDLE_NAMEONLY ''CursorUnlock'' None,
     handler 0x10065 HANDLE_NAMEONLY ''SetTransparentColor'' None,
     handler 0x10066 HANDLE_NAMEONLY ''GetTransparentColor'' None,
     handler 0x10067 HANDLE_NAMEONLY ''rgbSetBkColor'' None,
     handler 0x10068 HANDLE_NAMEONLY ''rgbSetColor'' None,
     handler 0x10069 HANDLE_NAMEONLY ''rgbGetBkColor'' None,
     handler 0x1006A HANDLE_NAMEONLY ''rgbGetColor'' None,
     handler 0x1006B HANDLE_NAMEONLY ''SetPenStyle'' None,
     handler 0x1006C HANDLE_NAMEONLY ''GetPenStyle'' None,
     handler 0x1006D HANDLE_NAMEONLY ''GetPenSize'' None,
     handler 0x1006E HANDLE_NAMEONLY ''SetPenSize'' None,
     handler 0x1006F HANDLE_NAMEONLY ''GetPixel'' None,
     handler 0x10070 HANDLE_NAMEONLY ''SetPixel'' None,
     handler 0x10071 HANDLE_NAMEONLY ''GetImage'' None,
     handler 0x10072 HANDLE_NAMEONLY ''PutImage'' None,
     handler 0x10073 HANDLE_NAMEONLY ''SetDrawArea'' None,
     handler 0x10074 HANDLE_NAMEONLY ''GetDrawArea'' None,
     handler 0x10075 HANDLE_NAMEONLY ''DrawLine'' None,
     handler 0x10076 HANDLE_NAMEONLY ''DrawRect'' None,
     handler 0x10077 HANDLE_NAMEONLY ''FillRect'' None,
     handler 0x10078 HANDLE_NAMEONLY ''DrawRoundRect'' None,
     handler 0x10079 HANDLE_NAMEONLY ''DrawCircle'' None,
     handler 0x1007A HANDLE_NAMEONLY ''FillCircle'' None,
     handler 0x1007B HANDLE_NAMEONLY ''DrawEllipse'' None,
     handler 0x1007C HANDLE_NAMEONLY ''FillEllipse'' None,
     handler 0x1007D HANDLE_NAMEONLY ''InverseSetArea'' None,
     handler 0x1007E HANDLE_NAMEONLY ''ClearScreen'' None,
     handler 0x1007F HANDLE_NAMEONLY ''ClearSetArea'' None,
     handler 0x10080 HANDLE_NAMEONLY ''ScrollDown'' None,
     handler 0x10081 HANDLE_NAMEONLY ''ScrollLeft'' None,
     handler 0x10082 HANDLE_NAMEONLY ''ScrollRight'' None,
     handler 0x10083 HANDLE_NAMEONLY ''ScrollUp'' None,
     handler 0x10084 HANDLE_NAMEONLY ''GetRealLCD'' None,
     handler 0x10085 HANDLE_NAMEONLY ''SetToRealLCD'' None,
     handler 0x10086 HANDLE_NAMEONLY ''SetToVirtualLCD'' None,
     handler 0x10087 HANDLE_NAMEONLY ''CreateVirtualLCD'' None,
     handler 0x10088 HANDLE_NAMEONLY ''DeleteVirtualLCD'' None,
     handler 0x10089 HANDLE_NAMEONLY ''_BitBlt'' None,
     handler 0x1008A HANDLE_NAMEONLY ''__fillrect'' None,
     handler 0x1008B HANDLE_NAMEONLY ''SetActiveLCD'' None,
     handler 0x1008C HANDLE_NAMEONLY ''SetRealLCD'' None,
     handler 0x1008D HANDLE_IMPLEMENTED ''GetActiveLCD'' (Some Cb_GetActiveLCD),
     handler 0x1008E HANDLE_NAMEONLY ''CreateCompatibleLCD'' None,
     handler 0x1008F HANDLE_NAMEONLY ''CreateCompatibleImage'' None,
     handler 0x10090 HANDLE_NAMEONLY ''DeleteLCD'' None,
     handler 0x10091 HANDLE_NAMEONLY ''SelectLCDObject'' None,
     handler 0x10092 HANDLE_NAMEONLY ''DeleteLCDObject'' None,
     handler 0x10093 HANDLE_NAMEONLY ''SetDCObject'' None,
     handler 0x10094 HANDLE_NAMEONLY ''GetWindowSize'' None]"

definition handlers_2 :: "InterruptHandler list" where
  "handlers_2 =
    [handler 0x10095 HANDLE_NAMEONLY ''GetImageSize'' None,
     handler 0x10096 HANDLE_NAMEONLY ''GetImageSizeExt'' None,
     handler 0x10097 HANDLE_NAMEONLY ''ImageData'' None,
     handler 0x10098 HANDLE_NAMEONLY ''SizeofImage'' None,
     handler 0x10099 HANDLE_NAMEONLY ''FreeImage'' None,
     handler 0x1009A HANDLE_NAMEONLY ''Delay'' None,
     handler 0x1009B HANDLE_NAMEONLY ''PenDelay'' None,
     handler 0x1009C HANDLE_NAMEONLY ''GetPenSilenceArea'' None,
     handler 0x1009D HANDLE_NAMEONLY ''SetPenSilenceArea'' None,
     handler 0x1009E HANDLE_NAMEONLY ''WarningBeep'' None,
     handler 0x1009F HANDLE_NAMEONLY ''LockSystem'' None,
     handler 0x100A0 HANDLE_NAMEONLY ''UnlockSystem'' None,
     handler 0x100A1 HANDLE_NAMEONLY ''CopyToClipBoard'' None,
     handler 0x100A2 HANDLE_NAMEONLY ''CopyFromClipBoard'' None,
     handler 0x100A3 HANDLE_NAMEONLY ''ClearClipBoard'' None,
     handler 0x100A4 HANDLE_NAMEONLY ''GetClipBoardTextLength'' None,
     handler 0x100A5 HANDLE_IMPLEMENTED ''GetSysTime'' (Some Cb_GetSysTime),
     handler 0x100A6 HANDLE_NAMEONLY ''SetSysTime'' None,
     handler 0x100A7 HANDLE_NAMEONLY ''PopupWaitingMsg'' None,
     handler 0x100A8 HANDLE_NAMEONLY ''CloseWaitingMsg'' None,
     handler 0x100A9 HANDLE_NAMEONLY ''GetLanguageType'' None,
     handler 0x100AA HANDLE_NAMEONLY ''SetLanguageType'' None,
     handler 0x100AB HANDLE_NAMEONLY ''SetChineseFont'' None,
     handler 0x100AC HANDLE_NAMEONLY ''GetChineseFont'' None,
     handler 0x100AD HANDLE_NAMEONLY ''SetShiftState'' None,
     handler 0x100AE HANDLE_NAMEONLY ''SetCapsState'' None,
     handler 0x100AF HANDLE_NAMEONLY ''GetShiftState'' None,
     handler 0x100B0 HANDLE_NAMEONLY ''GetCapsState'' None,
     handler 0x100B1 HANDLE_NAMEONLY ''Tradional2Simple'' None,
     handler 0x100B2 HANDLE_NAMEONLY ''Simple2Tradional'' None,
     handler 0x100B3 HANDLE_NAMEONLY ''SetEPTSLastChar'' None,
     handler 0x100B4 HANDLE_NAMEONLY ''PlayAllVoice'' None,
     handler 0x100B5 HANDLE_NAMEONLY ''StopAllVoice'' None,
     handler 0x100B6 HANDLE_NAMEONLY ''PauseAllVoice'' None,
     handler 0x100B7 HANDLE_NAMEONLY ''ContinueAllVoice'' None,
     handler 0x100B8 HANDLE_NAMEONLY ''GetAllVoiceState'' None,
     handler 0x100B9 HANDLE_NAMEONLY ''RecordVoiceEx'' None,
     handler 0x100BA HANDLE_NAMEONLY ''PlaybackVoiceEx'' None,
     handler 0x100BB HANDLE_NAMEONLY ''SetAudioHandler'' None,
     handler 0x100BC HANDLE_NAMEONLY ''ConvCharToUnicode'' None,
     handler 0x100BD HANDLE_NAMEONLY ''ConvStrToUnicode'' None,
     handler 0x100BE HANDLE_NAMEONLY ''CompSecretkey'' None,
     handler 0x100BF HANDLE_NAMEONLY ''ClearSecretkey'' None,
     handler 0x100C0 HANDLE_NAMEONLY ''SetUserFontHandle'' None,
     handler 0x100C1 HANDLE_NAMEONLY ''GetMasterIDInfo'' (Some Cb_GetMasterIDInfo),
     handler 0x100C2 HANDLE_NAMEONLY ''ReadFollowMe'' None,
     handler 0x100C3 HANDLE_NAMEONLY ''GetPrivateState'' None,
     handler 0x100C4 HANDLE_NAMEONLY ''SetPrivateState'' None,
     handler 0x100C5 HANDLE_NAMEONLY ''_afnsplit'' None,
     handler 0x100C6 HANDLE_NAMEONLY ''_afnmerge'' None,
     handler 0x100C7 HANDLE_NAMEONLY ''_afcreate'' None,
     handler 0x100C8 HANDLE_NAMEONLY ''_afcreateSz'' None,
     handler 0x100C9 HANDLE_NAMEONLY ''_afopen'' None,
     handler 0x100CA HANDLE_IMPLEMENTED ''_fclose'' (Some Cb_fclose),
     handler 0x100CB HANDLE_NAMEONLY ''_filesize'' (Some Cb_filesize),
     handler 0x100CC HANDLE_NAMEONLY ''__fflush'' None,
     handler 0x100CD HANDLE_NAMEONLY ''_fflushall'' None,
     handler 0x100CE HANDLE_NAMEONLY ''_rewind'' None,
     handler 0x100CF HANDLE_NAMEONLY ''__fseek'' None,
     handler 0x100D0 HANDLE_NAMEONLY ''_ftell'' None,
     handler 0x100D1 HANDLE_NAMEONLY ''_feof'' None,
     handler 0x100D2 HANDLE_NAMEONLY ''_fgetc'' None,
     handler 0x100D3 HANDLE_NAMEONLY ''_fgets'' None,
     handler 0x100D4 HANDLE_NAMEONLY ''_fread'' (Some Cb_fread),
     handler 0x100D5 HANDLE_NAMEONLY ''_fputc'' None,
     handler 0x100D6 HANDLE_NAMEONLY ''_fputs'' None,
     handler 0x100D7 HANDLE_IMPLEMENTED ''_fwrite'' (Some Cb_fwrite),
     handler 0x100D8 HANDLE_NAMEONLY ''_afindfirst'' (Some Cb_afindfirst),
     handler 0x100D9 HANDLE_NAMEONLY ''_afindnext'' (Some Cb_afindnext),
     handler 0x100DA HANDLE_NAMEONLY ''_findclose'' (Some Cb_findclose),
     handler 0x100DB HANDLE_NAMEONLY ''_afgetattr'' None,
     handler 0x100DC HANDLE_NAMEONLY ''_afsetattr'' None,
     handler 0x100DD HANDLE_NAMEONLY ''_aremove'' (Some Cb_aremove),
     handler 0x100DE HANDLE_NAMEONLY ''_arename'' None,
     handler 0x100DF HANDLE_NAMEONLY ''_afcopy'' None,
     handler 0x100E0 HANDLE_IMPLEMENTED ''_amkdir'' (Some Cb_amkdir),
     handler 0x100E1 HANDLE_NAMEONLY ''_armdir'' None,
     handler 0x100E2 HANDLE_IMPLEMENTED ''_achdir'' (Some Cb_achdir),
     handler 0x100E3 HANDLE_NAMEONLY ''_agetcurdir'' None,
     handler 0x100E4 HANDLE_NAMEONLY ''_isformateddisk'' None,
     handler 0x100E5 HANDLE_NAMEONLY ''_getfattype'' None,
     handler 0x100E6 HANDLE_NAMEONLY ''_setdisk'' None,
     handler 0x100E7 HANDLE_NAMEONLY ''_getdisk'' None,
     handler 0x100E8 HANDLE_NAMEONLY ''_getdiskchar'' None,
     handler 0x100E9 HANDLE_NAMEONLY ''_setdiskchar'' None,
     handler 0x100EA HANDLE_NAMEONLY ''_getdisknum'' None,
     handler 0x100EB HANDLE_NAMEONLY ''FSGetDiskRoomState'' None,
     handler 0x100EC HANDLE_IMPLEMENTED ''_OpenFile'' (Some Cb_OpenFile),
     handler 0x100ED HANDLE_NAMEONLY ''_OpenFileEx'' None,
     handler 0x100EE HANDLE_NAMEONLY ''_OpenFileW'' None,
     handler 0x100EF HANDLE_NAMEONLY ''_CloseFile'' None,
     handler 0x100F0 HANDLE_NAMEONLY ''_ReadFile'' None,
     handler 0x100F1 HANDLE_NAMEONLY ''_FseekFile'' None,
     handler 0x100F2 HANDLE_NAMEONLY ''_FileSize'' None,
     handler 0x100F3 HANDLE_NAMEONLY ''_OpenSubFile'' None,
     handler 0x100F4 HANDLE_NAMEONLY ''_TellFile'' None,
     handler 0x100F5 HANDLE_NAMEONLY ''DBSave'' None,
     handler 0x100F6 HANDLE_NAMEONLY ''DBSaveAll'' None,
     handler 0x100F7 HANDLE_NAMEONLY ''DBOpenUserFile'' None,
     handler 0x100F8 HANDLE_NAMEONLY ''DBCreate'' None,
     handler 0x100F9 HANDLE_NAMEONLY ''DBCreateSZ'' None,
     handler 0x100FA HANDLE_NAMEONLY ''DBOpen'' None,
     handler 0x100FB HANDLE_NAMEONLY ''DBClose'' None,
     handler 0x100FC HANDLE_NAMEONLY ''DBRemove'' None,
     handler 0x100FD HANDLE_NAMEONLY ''DBEmpty'' None,
     handler 0x100FE HANDLE_NAMEONLY ''DBOptimize'' None,
     handler 0x100FF HANDLE_NAMEONLY ''DBRepair'' None,
     handler 0x10100 HANDLE_NAMEONLY ''DBGetNewRecordPID'' None,
     handler 0x10101 HANDLE_NAMEONLY ''DBGetNewRecordID'' None,
     handler 0x10102 HANDLE_NAMEONLY ''DBCreateNewRecord'' None,
     handler 0x10103 HANDLE_NAMEONLY ''DBInsertRecord'' None,
     handler 0x10104 HANDLE_NAMEONLY ''DBModifyRecord'' None,
     handler 0x10105 HANDLE_NAMEONLY ''DBRemoveRecord'' None,
     handler 0x10106 HANDLE_NAMEONLY ''DBReadRecord'' None,
     handler 0x10107 HANDLE_NAMEONLY ''DBGetRecordTime'' None,
     handler 0x10108 HANDLE_NAMEONLY ''DBGetRecordDate'' None,
     handler 0x10109 HANDLE_NAMEONLY ''DBGetRecordPid'' None,
     handler 0x1010A HANDLE_NAMEONLY ''DBGetCurRecordCount'' None,
     handler 0x1010B HANDLE_NAMEONLY ''DBOverLoadSortFunc'' None,
     handler 0x1010C HANDLE_NAMEONLY ''DBGetRecPidState'' None,
     handler 0x1010D HANDLE_NAMEONLY ''DBGetDBState'' None,
     handler 0x1010E HANDLE_NAMEONLY ''_GetSystemDirectory'' None,
     handler 0x1010F HANDLE_NAMEONLY ''_GetTempPath'' None,
     handler 0x10110 HANDLE_NAMEONLY ''_GetPrivateProfileInt'' None,
     handler 0x10111 HANDLE_IMPLEMENTED ''_GetPrivateProfileString'' (Some Cb_GetPrivateProfileString),
     handler 0x10112 HANDLE_NAMEONLY ''_WritePrivateProfileString'' (Some Cb_SetPrivateProfileString),
     handler 0x10113 HANDLE_NAMEONLY ''GetTadCityNo'' None,
     handler 0x10114 HANDLE_NAMEONLY ''RunApplicationA'' None,
     handler 0x10115 HANDLE_NAMEONLY ''GetApplicationNameA'' None,
     handler 0x10116 HANDLE_NAMEONLY ''LoadProgramA'' None,
     handler 0x10117 HANDLE_NAMEONLY ''FreeProgram'' None,
     handler 0x10118 HANDLE_NAMEONLY ''ExecuteProgram'' None,
     handler 0x10119 HANDLE_IMPLEMENTED ''GetCurrentPathA'' (Some Cb_GetCurrentExecutable),
     handler 0x1011A HANDLE_IMPLEMENTED ''ProgramIsRunningA'' (Some Cb_prgrmIsRunning),
     handler 0x1011B HANDLE_NAMEONLY ''FindApplications'' None,
     handler 0x1011C HANDLE_NAMEONLY ''FreeFindApplications'' None,
     handler 0x1011D HANDLE_NAMEONLY ''GetApplicationInfo'' None,
     handler 0x1011E HANDLE_NAMEONLY ''CreateAppView'' None,
     handler 0x1011F HANDLE_NAMEONLY ''TextPicker'' None,
     handler 0x10120 HANDLE_NAMEONLY ''GetMonDays'' None,
     handler 0x10121 HANDLE_NAMEONLY ''GetWeekDay'' None,
     handler 0x10122 HANDLE_NAMEONLY ''ConvSolarToLunar'' None,
     handler 0x10123 HANDLE_NAMEONLY ''ConvLunarToSolar'' None,
     handler 0x10124 HANDLE_NAMEONLY ''GetLeapMonth'' None,
     handler 0x10125 HANDLE_NAMEONLY ''CreateEdit'' None,
     handler 0x10126 HANDLE_NAMEONLY ''EDInitEdit'' None,
     handler 0x10127 HANDLE_NAMEONLY ''EDDraw'' None,
     handler 0x10128 HANDLE_NAMEONLY ''EDDrawText'' None,
     handler 0x10129 HANDLE_NAMEONLY ''EDHandleEvent'' None]"

definition handlers_3 :: "InterruptHandler list" where
  "handlers_3 =
    [handler 0x1012A HANDLE_NAMEONLY ''InsertTextField'' None,
     handler 0x1012B HANDLE_NAMEONLY ''ReplaceEditBuffer'' None,
     handler 0x1012C HANDLE_NAMEONLY ''SetEditCmdFunc'' None,
     handler 0x1012D HANDLE_NAMEONLY ''GetEditCmdFunc'' None,
     handler 0x1012E HANDLE_NAMEONLY ''SetEditFunctionMenuState'' None,
     handler 0x1012F HANDLE_NAMEONLY ''DatePicker'' None,
     handler 0x10130 HANDLE_NAMEONLY ''CreateBoolDateField'' None,
     handler 0x10131 HANDLE_NAMEONLY ''CreateBoolMenuField'' None,
     handler 0x10132 HANDLE_NAMEONLY ''CreateBoolField'' None,
     handler 0x10133 HANDLE_NAMEONLY ''CreateBoolTextField'' None,
     handler 0x10134 HANDLE_NAMEONLY ''CreateTimeField'' None,
     handler 0x10135 HANDLE_NAMEONLY ''CreateDateField'' None,
     handler 0x10136 HANDLE_NAMEONLY ''CreateDoubleTimeField'' None,
     handler 0x10137 HANDLE_NAMEONLY ''CreateNumericField'' None,
     handler 0x10138 HANDLE_NAMEONLY ''PDATEFIELD_draw'' None,
     handler 0x10139 HANDLE_NAMEONLY ''PDATEFIELD_handleEvent'' None,
     handler 0x1013A HANDLE_NAMEONLY ''PDATEFIELD_setState'' None,
     handler 0x1013B HANDLE_NAMEONLY ''PNUMERICFIELD_handleEvent'' None,
     handler 0x1013C HANDLE_NAMEONLY ''PBOOLFIELD_draw'' None,
     handler 0x1013D HANDLE_NAMEONLY ''MessageBox'' None,
     handler 0x1013E HANDLE_NAMEONLY ''CreateMessageBox'' None,
     handler 0x1013F HANDLE_NAMEONLY ''NumericPicker'' None,
     handler 0x10140 HANDLE_NAMEONLY ''SetNumPkValidHandle'' None,
     handler 0x10141 HANDLE_NAMEONLY ''CreateDetailView'' None,
     handler 0x10142 HANDLE_NAMEONLY ''PDETAILVIEW_draw'' None,
     handler 0x10143 HANDLE_NAMEONLY ''NumericToStr'' None,
     handler 0x10144 HANDLE_NAMEONLY ''StrToNumeric'' None,
     handler 0x10145 HANDLE_NAMEONLY ''AllocBlock'' None,
     handler 0x10146 HANDLE_NAMEONLY ''FreeBlock'' None,
     handler 0x10147 HANDLE_NAMEONLY ''RelatedKeyButton'' None,
     handler 0x10148 HANDLE_NAMEONLY ''RelatedKeyButtonEx'' None,
     handler 0x10149 HANDLE_NAMEONLY ''UnRelatedKeyButton'' None,
     handler 0x1014A HANDLE_NAMEONLY ''CreateButton'' None,
     handler 0x1014B HANDLE_NAMEONLY ''ChangeButton'' None,
     handler 0x1014C HANDLE_NAMEONLY ''InsertButton'' None,
     handler 0x1014D HANDLE_NAMEONLY ''CreateStatic'' None,
     handler 0x1014E HANDLE_NAMEONLY ''PBUTTON_draw'' None,
     handler 0x1014F HANDLE_NAMEONLY ''InsertImageClip'' None,
     handler 0x10150 HANDLE_NAMEONLY ''CreatePageArrow'' None,
     handler 0x10151 HANDLE_NAMEONLY ''InsertPgUpDn'' None,
     handler 0x10152 HANDLE_NAMEONLY ''CreateHorPageArrow'' None,
     handler 0x10153 HANDLE_NAMEONLY ''CreateControlMenu'' None,
     handler 0x10154 HANDLE_NAMEONLY ''CreateMenuField'' None,
     handler 0x10155 HANDLE_NAMEONLY ''CreateNumberSet'' None,
     handler 0x10156 HANDLE_NAMEONLY ''CreateStackedList'' None,
     handler 0x10157 HANDLE_NAMEONLY ''CreateSlider'' None,
     handler 0x10158 HANDLE_NAMEONLY ''CreateProgress'' None,
     handler 0x10159 HANDLE_NAMEONLY ''CreateRadioButton'' None,
     handler 0x1015A HANDLE_NAMEONLY ''PPROGRESSetPos'' None,
     handler 0x1015B HANDLE_NAMEONLY ''PPROGRESSetRange'' None,
     handler 0x1015C HANDLE_NAMEONLY ''PSLIDER_SetPos'' None,
     handler 0x1015D HANDLE_NAMEONLY ''PSLIDER_SetRange'' None,
     handler 0x1015E HANDLE_NAMEONLY ''PSLIDER_handleEvent'' None,
     handler 0x1015F HANDLE_NAMEONLY ''IsRadioButtonCheck'' None,
     handler 0x10160 HANDLE_NAMEONLY ''CheckDeskRadioButton'' None,
     handler 0x10161 HANDLE_NAMEONLY ''PNUMBERSET_handleEvent'' None,
     handler 0x10162 HANDLE_NAMEONLY ''PMENUFIELD_draw'' None,
     handler 0x10163 HANDLE_NAMEONLY ''PMENUFIELD_handleEvent'' None,
     handler 0x10164 HANDLE_NAMEONLY ''PCONTROLMENU_draw'' None,
     handler 0x10165 HANDLE_NAMEONLY ''PCONTROLMENU_handleEvent'' None,
     handler 0x10166 HANDLE_NAMEONLY ''PVIEW_draw'' None,
     handler 0x10167 HANDLE_NAMEONLY ''PVIEW_EraseBackGround'' None,
     handler 0x10168 HANDLE_NAMEONLY ''PVIEW_handleEvent'' None,
     handler 0x10169 HANDLE_NAMEONLY ''PVIEW_setState'' None,
     handler 0x1016A HANDLE_NAMEONLY ''PGROUP_draw'' None,
     handler 0x1016B HANDLE_NAMEONLY ''PGROUP_handleEvent'' None,
     handler 0x1016C HANDLE_NAMEONLY ''PGROUP_insert'' None,
     handler 0x1016D HANDLE_NAMEONLY ''PGROUP_redraw'' None,
     handler 0x1016E HANDLE_NAMEONLY ''PGROUP_setCurrent'' None,
     handler 0x1016F HANDLE_NAMEONLY ''PGROUP_setState'' None,
     handler 0x10170 HANDLE_NAMEONLY ''PGROUP_execute'' None,
     handler 0x10171 HANDLE_NAMEONLY ''PGROUP_preView'' None,
     handler 0x10172 HANDLE_NAMEONLY ''CreateDeskBox'' None,
     handler 0x10173 HANDLE_NAMEONLY ''PDESKBOX_draw'' None,
     handler 0x10174 HANDLE_NAMEONLY ''PDESKBOX_drawTitle'' None,
     handler 0x10175 HANDLE_NAMEONLY ''PDESKBOX_handleEvent'' None,
     handler 0x10176 HANDLE_NAMEONLY ''PDESKBOX_redraw'' None,
     handler 0x10177 HANDLE_NAMEONLY ''Destroy'' None,
     handler 0x10178 HANDLE_NAMEONLY ''DeskBox_construct'' None,
     handler 0x10179 HANDLE_NAMEONLY ''DrawDeskBoxBound'' None,
     handler 0x1017A HANDLE_NAMEONLY ''ChangeCommandMenu'' None,
     handler 0x1017B HANDLE_NAMEONLY ''SetDeskBoxReturn'' None,
     handler 0x1017C HANDLE_NAMEONLY ''ExecView'' None,
     handler 0x1017D HANDLE_NAMEONLY ''SetExitWordVal'' None,
     handler 0x1017E HANDLE_NAMEONLY ''GetExitWordVal'' None,
     handler 0x1017F HANDLE_NAMEONLY ''SetCurModeWord'' None,
     handler 0x10180 HANDLE_NAMEONLY ''GetCurModeWord'' None,
     handler 0x10181 HANDLE_NAMEONLY ''InsertTitleBarButton'' None,
     handler 0x10182 HANDLE_NAMEONLY ''Delete'' None,
     handler 0x10183 HANDLE_NAMEONLY ''DisableCommand'' None,
     handler 0x10184 HANDLE_NAMEONLY ''EnableCommand'' None,
     handler 0x10185 HANDLE_NAMEONLY ''InverseSetAreaArc'' None,
     handler 0x10186 HANDLE_NAMEONLY ''InverseSetAreaColor'' None,
     handler 0x10187 HANDLE_NAMEONLY ''InverseSetAreaArcColor'' None,
     handler 0x10188 HANDLE_NAMEONLY ''SendMessage'' None,
     handler 0x10189 HANDLE_NAMEONLY ''SendMessageExt'' None,
     handler 0x1018A HANDLE_NAMEONLY ''GetPreView'' None,
     handler 0x1018B HANDLE_NAMEONLY ''SetFocuseItem'' None,
     handler 0x1018C HANDLE_NAMEONLY ''SetTabOrder'' None,
     handler 0x1018D HANDLE_NAMEONLY ''GetDeskEntry'' None,
     handler 0x1018E HANDLE_NAMEONLY ''GetDeskItem'' None,
     handler 0x1018F HANDLE_NAMEONLY ''QueryByCommand'' None,
     handler 0x10190 HANDLE_NAMEONLY ''GetMaxScrX'' None,
     handler 0x10191 HANDLE_NAMEONLY ''GetMaxScrY'' None,
     handler 0x10192 HANDLE_NAMEONLY ''GetDeskClientRect'' None,
     handler 0x10193 HANDLE_NAMEONLY ''InvalidateRect'' None,
     handler 0x10194 HANDLE_NAMEONLY ''InsertSplitViewFrame'' None,
     handler 0x10195 HANDLE_NAMEONLY ''CreateSplitView'' None,
     handler 0x10196 HANDLE_NAMEONLY ''InsertSplitView'' None,
     handler 0x10197 HANDLE_NAMEONLY ''PSPLITVIEW_draw'' None,
     handler 0x10198 HANDLE_NAMEONLY ''PSPLITVIEW_handleEvent'' None,
     handler 0x10199 HANDLE_NAMEONLY ''PSPLITVIEW_setState'' None,
     handler 0x1019A HANDLE_NAMEONLY ''InsertMultiPage'' None,
     handler 0x1019B HANDLE_NAMEONLY ''PPAGE_draw'' None,
     handler 0x1019C HANDLE_NAMEONLY ''PPAGE_handleEvent'' None,
     handler 0x1019D HANDLE_NAMEONLY ''PMPAGE_insertPage'' None,
     handler 0x1019E HANDLE_NAMEONLY ''PMPAGE_handleEvent'' None,
     handler 0x1019F HANDLE_NAMEONLY ''ConverNumToStr'' None,
     handler 0x101A0 HANDLE_NAMEONLY ''ConverTimeToStr'' None,
     handler 0x101A1 HANDLE_NAMEONLY ''DateToString'' None,
     handler 0x101A2 HANDLE_NAMEONLY ''TimeToString'' None,
     handler 0x101A3 HANDLE_NAMEONLY ''ZfxGetWeekDay'' None,
     handler 0x101A4 HANDLE_NAMEONLY ''WriteNumber'' None,
     handler 0x101A5 HANDLE_NAMEONLY ''ConverDateToStr'' None,
     handler 0x101A6 HANDLE_NAMEONLY ''PopUpList'' None,
     handler 0x101A7 HANDLE_NAMEONLY ''PressAtRange'' None,
     handler 0x101A8 HANDLE_NAMEONLY ''PressAtButton'' None,
     handler 0x101A9 HANDLE_NAMEONLY ''PressAtButtonInv'' None,
     handler 0x101AA HANDLE_NAMEONLY ''PressAtButtonIconAddr'' None,
     handler 0x101AB HANDLE_NAMEONLY ''PressAtButtonIcon'' None,
     handler 0x101AC HANDLE_NAMEONLY ''IsSystemItemID'' None,
     handler 0x101AD HANDLE_NAMEONLY ''WaitingMessageBox'' None,
     handler 0x101AE HANDLE_NAMEONLY ''CreateCalendar'' None,
     handler 0x101AF HANDLE_NAMEONLY ''PCALENDAR_draw'' None,
     handler 0x101B0 HANDLE_NAMEONLY ''PCALENDAR_handleEvent'' None,
     handler 0x101B1 HANDLE_NAMEONLY ''CreateScrollBar'' None,
     handler 0x101B2 HANDLE_NAMEONLY ''InsertScrollBar'' None,
     handler 0x101B3 HANDLE_NAMEONLY ''InsertScrollBarPosition'' None,
     handler 0x101B4 HANDLE_NAMEONLY ''PSCROLLBAR_draw'' None,
     handler 0x101B5 HANDLE_NAMEONLY ''PSCROLLBAR_redraw'' None,
     handler 0x101B6 HANDLE_NAMEONLY ''PSCROLLBAR_handleEvent'' None,
     handler 0x101B7 HANDLE_NAMEONLY ''ChangeScrollBarValue'' None,
     handler 0x101B8 HANDLE_NAMEONLY ''ChangeScrollBarStep'' None,
     handler 0x101B9 HANDLE_NAMEONLY ''SetScrollBarValue'' None,
     handler 0x101BA HANDLE_NAMEONLY ''SetScrollBarStep'' None,
     handler 0x101BB HANDLE_NAMEONLY ''CreateLister'' None,
     handler 0x101BC HANDLE_NAMEONLY ''PLISTER_draw'' None,
     handler 0x101BD HANDLE_NAMEONLY ''PLISTER_handleEvent'' None,
     handler 0x101BE HANDLE_NAMEONLY ''PLISTER_writeItem'' None]"

definition handlers_4 :: "InterruptHandler list" where
  "handlers_4 =
    [handler 0x101BF HANDLE_NAMEONLY ''PLISTER_penDownAct'' None,
     handler 0x101C0 HANDLE_NAMEONLY ''PLISTER_changeFocuseAct'' None,
     handler 0x101C1 HANDLE_NAMEONLY ''ChangeListRowHeight'' None,
     handler 0x101C2 HANDLE_NAMEONLY ''ChangeListItemSum'' None,
     handler 0x101C3 HANDLE_NAMEONLY ''CreateLongLister'' None,
     handler 0x101C4 HANDLE_NAMEONLY ''PLONGLISTER_draw'' None,
     handler 0x101C5 HANDLE_NAMEONLY ''PLONGLISTER_handleEvent'' None,
     handler 0x101C6 HANDLE_NAMEONLY ''PLONGLISTER_changeFocuseAct'' None,
     handler 0x101C7 HANDLE_NAMEONLY ''PLONGLISTER_writeItem'' None,
     handler 0x101C8 HANDLE_NAMEONLY ''PLONGLISTER_penDownAct'' None,
     handler 0x101C9 HANDLE_NAMEONLY ''ChangeLongListItemSum'' None,
     handler 0x101CA HANDLE_NAMEONLY ''ChangeLongListRowHeight'' None,
     handler 0x101CB HANDLE_NAMEONLY ''SetSysColorConfig'' None,
     handler 0x101CC HANDLE_NAMEONLY ''GetSysColorConfig'' None,
     handler 0x101CD HANDLE_NAMEONLY ''GetSysColor'' None,
     handler 0x101CE HANDLE_NAMEONLY ''SetSysColor'' None,
     handler 0x101CF HANDLE_NAMEONLY ''SetDefaultSysIconCfg'' None,
     handler 0x101D0 HANDLE_NAMEONLY ''DrawGradientRect'' None,
     handler 0x101D1 HANDLE_NAMEONLY ''TimePicker'' None,
     handler 0x101D2 HANDLE_NAMEONLY ''_GetOpenFileName'' None,
     handler 0x101D3 HANDLE_NAMEONLY ''_GetSaveFileName'' None,
     handler 0x101D4 HANDLE_NAMEONLY ''_GetNextFileName'' None,
     handler 0x101D5 HANDLE_NAMEONLY ''InsertFileFilter'' None,
     handler 0x101D6 HANDLE_NAMEONLY ''PFILEFILTER_draw'' None,
     handler 0x101D7 HANDLE_NAMEONLY ''PFILEFILTER_handleEvent'' None,
     handler 0x101D8 HANDLE_NAMEONLY ''PFILEFILTER_chgColumnText'' None,
     handler 0x101D9 HANDLE_NAMEONLY ''PFILEFILTER_setPathInfo'' None,
     handler 0x101DA HANDLE_NAMEONLY ''PFILEFILTER_getFillMode'' None,
     handler 0x101DB HANDLE_NAMEONLY ''PFILEFILTER_setFillMode'' None,
     handler 0x101DC HANDLE_NAMEONLY ''PFILEFILTER_getItemName'' None,
     handler 0x101DD HANDLE_NAMEONLY ''PFILEFILTER_writeColumn0'' None,
     handler 0x101DE HANDLE_NAMEONLY ''GetFileExecuteFunction'' None,
     handler 0x101DF HANDLE_NAMEONLY ''_EditFileName'' None,
     handler 0x101E0 HANDLE_NAMEONLY ''IME_GetHandActiveState'' None,
     handler 0x101E1 HANDLE_NAMEONLY ''IME_GetCtrlSize'' None,
     handler 0x101E2 HANDLE_NAMEONLY ''IME_ActiveCtrl'' None,
     handler 0x101E3 HANDLE_NAMEONLY ''IME_IsActiveInputer'' None,
     handler 0x101E4 HANDLE_NAMEONLY ''IME_SetDefault'' None,
     handler 0x101E5 HANDLE_NAMEONLY ''IME_GetLXResult'' None,
     handler 0x101E6 HANDLE_NAMEONLY ''IME_SetHandFilter'' None,
     handler 0x101E7 HANDLE_NAMEONLY ''IME_GetHandFilter'' None,
     handler 0x101E8 HANDLE_NAMEONLY ''IME_IsFuncKey'' None,
     handler 0x101E9 HANDLE_NAMEONLY ''IME_SearchKeyMap'' None,
     handler 0x101EA HANDLE_NAMEONLY ''IME_IsSelectKey'' None,
     handler 0x101EB HANDLE_NAMEONLY ''IME_SaveUserInfo'' None,
     handler 0x101EC HANDLE_NAMEONLY ''IME_ReadUserInfo'' None,
     handler 0x101ED HANDLE_NAMEONLY ''IME_IsEmptyFont'' None,
     handler 0x101EE HANDLE_NAMEONLY ''IME_SetHandWrtConfig'' None,
     handler 0x101EF HANDLE_NAMEONLY ''IME_SetHandWrtStudyFlag'' None,
     handler 0x101F0 HANDLE_NAMEONLY ''IME_SetRecognizeFlag'' None,
     handler 0x101F1 HANDLE_NAMEONLY ''IME_GetCtrl'' None,
     handler 0x101F2 HANDLE_NAMEONLY ''IME_GetCtrlState'' None,
     handler 0x101F3 HANDLE_NAMEONLY ''IME_GetViewInfo'' None,
     handler 0x101F4 HANDLE_NAMEONLY ''SCcorrection'' None,
     handler 0x101F5 HANDLE_NAMEONLY ''SCwildcard'' None,
     handler 0x101F6 HANDLE_NAMEONLY ''SCverify'' None,
     handler 0x101F7 HANDLE_NAMEONLY ''InitialSpelling'' None,
     handler 0x101F8 HANDLE_NAMEONLY ''SCopenDatabase'' None,
     handler 0x101F9 HANDLE_NAMEONLY ''SCcloseDatabase'' None,
     handler 0x101FA HANDLE_NAMEONLY ''SCGetMaxWordLen'' None,
     handler 0x101FB HANDLE_NAMEONLY ''GetTotalItem'' None,
     handler 0x101FC HANDLE_NAMEONLY ''GetMaxBlockSize'' None,
     handler 0x101FD HANDLE_NAMEONLY ''GetKeyWord'' None,
     handler 0x101FE HANDLE_NAMEONLY ''GetAllContent'' None,
     handler 0x101FF HANDLE_NAMEONLY ''GetSaveAddress'' None,
     handler 0x10200 HANDLE_NAMEONLY ''GetAlpExit'' None,
     handler 0x10201 HANDLE_NAMEONLY ''SetAlpExit'' None,
     handler 0x10202 HANDLE_NAMEONLY ''SetDictFont'' None,
     handler 0x10203 HANDLE_NAMEONLY ''GetDictFont'' None,
     handler 0x10204 HANDLE_NAMEONLY ''UniversalCrossSearch'' None,
     handler 0x10205 HANDLE_NAMEONLY ''UniversalDictList'' None,
     handler 0x10206 HANDLE_NAMEONLY ''UniversalDictListForAll'' None,
     handler 0x10207 HANDLE_NAMEONLY ''UniversalCardList'' None,
     handler 0x10208 HANDLE_NAMEONLY ''SearchEveryWay'' None,
     handler 0x10209 HANDLE_NAMEONLY ''GetAddDictPosInList'' None,
     handler 0x1020A HANDLE_NAMEONLY ''GetCurrentCardDictNum'' None,
     handler 0x1020B HANDLE_NAMEONLY ''SearchCurrentCardDictInfo'' None,
     handler 0x1020C HANDLE_NAMEONLY ''ReleaseCardDictInfo'' None,
     handler 0x1020D HANDLE_NAMEONLY ''PRICHVIEW_SetBufferAttrib'' None,
     handler 0x1020E HANDLE_NAMEONLY ''PRICHVIEW_SpeechForRich'' None,
     handler 0x1020F HANDLE_NAMEONLY ''IsDictOuYu'' None,
     handler 0x10210 HANDLE_NAMEONLY ''CreateRichView'' None,
     handler 0x10211 HANDLE_NAMEONLY ''AddScrollBarToRichview'' None,
     handler 0x10212 HANDLE_NAMEONLY ''ChangeScrollBarToRichview'' None,
     handler 0x10213 HANDLE_NAMEONLY ''ChangeScrollBarPos'' None,
     handler 0x10214 HANDLE_NAMEONLY ''SetDisplayMode'' None,
     handler 0x10215 HANDLE_NAMEONLY ''SetShowSearchLayer'' None,
     handler 0x10216 HANDLE_NAMEONLY ''SetWindowState'' None,
     handler 0x10217 HANDLE_NAMEONLY ''GetWindowState'' None,
     handler 0x10218 HANDLE_NAMEONLY ''GetBaseLine'' None,
     handler 0x10219 HANDLE_NAMEONLY ''SetBaseLine'' None,
     handler 0x1021A HANDLE_NAMEONLY ''BackupWindowState'' None,
     handler 0x1021B HANDLE_NAMEONLY ''RestoreWindowState'' None,
     handler 0x1021C HANDLE_NAMEONLY ''PRICHVIEW_draw'' None,
     handler 0x1021D HANDLE_NAMEONLY ''PRICHVIEW_handleEvent'' None,
     handler 0x1021E HANDLE_NAMEONLY ''GetMarkString'' None,
     handler 0x1021F HANDLE_NAMEONLY ''GetRichWindowState'' None,
     handler 0x10220 HANDLE_NAMEONLY ''SetShowMode'' None,
     handler 0x10221 HANDLE_NAMEONLY ''PRICHVIEW_ShowSearchLayer'' None,
     handler 0x10222 HANDLE_NAMEONLY ''PRICHVIEW_SetStateForUser'' None,
     handler 0x10223 HANDLE_NAMEONLY ''PRICHVIEW_WriteString'' None,
     handler 0x10224 HANDLE_NAMEONLY ''RichViewSetColor'' None,
     handler 0x10225 HANDLE_NAMEONLY ''SetTotalLine'' None,
     handler 0x10226 HANDLE_NAMEONLY ''ShowRichContentOnly'' None,
     handler 0x10227 HANDLE_NAMEONLY ''PRICHVIEW_SetCttsType'' None,
     handler 0x10228 HANDLE_NAMEONLY ''SetDefLineEditorInfo'' None,
     handler 0x10229 HANDLE_NAMEONLY ''LineEditor'' None,
     handler 0x1022A HANDLE_NAMEONLY ''LineEditor_handleEvent'' None,
     handler 0x1022B HANDLE_NAMEONLY ''DictEditor_handleEvent'' None,
     handler 0x1022C HANDLE_NAMEONLY ''LEModuleForUser'' None,
     handler 0x1022D HANDLE_NAMEONLY ''LineEditor_ModuleForUser'' None,
     handler 0x1022E HANDLE_NAMEONLY ''LEDictWiseSearch'' None,
     handler 0x1022F HANDLE_NAMEONLY ''IsWildCard'' None,
     handler 0x10230 HANDLE_NAMEONLY ''LEditor_draw'' None,
     handler 0x10231 HANDLE_NAMEONLY ''LINEEDITOR_changeFocuseAct'' None,
     handler 0x10232 HANDLE_NAMEONLY ''LEDSK_handleEvent'' None,
     handler 0x10233 HANDLE_NAMEONLY ''LineEditorCompareStr'' None,
     handler 0x10234 HANDLE_NAMEONLY ''LineEditorWiseSearch'' None,
     handler 0x10235 HANDLE_NAMEONLY ''SearchDict'' None,
     handler 0x10236 HANDLE_NAMEONLY ''GetSearchDictShortName'' None,
     handler 0x10237 HANDLE_NAMEONLY ''GetCurrentMainDictNum'' None,
     handler 0x10238 HANDLE_NAMEONLY ''PRICHVIEW_OKSpeechForRich'' None,
     handler 0x10239 HANDLE_NAMEONLY ''GetIndexHcaOffset'' None,
     handler 0x1023A HANDLE_NAMEONLY ''GetIndexIconOffset'' None,
     handler 0x1023B HANDLE_NAMEONLY ''GetAppIndexIconOffset'' None,
     handler 0x1023C HANDLE_NAMEONLY ''LoadHCAToGraphicByIdx'' None,
     handler 0x1023D HANDLE_NAMEONLY ''LoadHCAToGraphicHeadByIdx'' None,
     handler 0x1023E HANDLE_NAMEONLY ''GetIndexHCAHeight'' None,
     handler 0x1023F HANDLE_NAMEONLY ''GetIndexHCAWidth'' None,
     handler 0x10240 HANDLE_NAMEONLY ''ShowHCAByOffset'' None,
     handler 0x10241 HANDLE_NAMEONLY ''SetHCATransparentMode'' None,
     handler 0x10242 HANDLE_NAMEONLY ''ReleaseHcaCache'' None,
     handler 0x10243 HANDLE_NAMEONLY ''ResetCache'' None,
     handler 0x10244 HANDLE_NAMEONLY ''SetLibDataindexOffset'' None,
     handler 0x10245 HANDLE_NAMEONLY ''GetLibAddrFromID'' None,
     handler 0x10246 HANDLE_NAMEONLY ''ShowBookProFromFile'' None,
     handler 0x10247 HANDLE_NAMEONLY ''RunBook'' None,
     handler 0x10248 HANDLE_NAMEONLY ''ShowBook'' None,
     handler 0x10249 HANDLE_NAMEONLY ''ShowBookPreview'' None,
     handler 0x1024A HANDLE_NAMEONLY ''ShowBookEx'' None,
     handler 0x1024B HANDLE_NAMEONLY ''USBMassStorageRun'' None,
     handler 0x1024C HANDLE_NAMEONLY ''SetPassThroughCallBack'' None,
     handler 0x1024D HANDLE_NAMEONLY ''ctts_predict'' None,
     handler 0x1024E HANDLE_NAMEONLY ''ctts_nounce'' None,
     handler 0x1024F HANDLE_NAMEONLY ''SetAllVoiceState'' None,
     handler 0x10250 HANDLE_NAMEONLY ''OpenPCMCodec'' None,
     handler 0x10251 HANDLE_NAMEONLY ''ClosePCMCodec'' None,
     handler 0x10252 HANDLE_NAMEONLY ''AudioPlayBackPause'' None,
     handler 0x10253 HANDLE_NAMEONLY ''AudioPlayBackContinue'' None]"

definition handlers_5 :: "InterruptHandler list" where
  "handlers_5 =
    [handler 0x10254 HANDLE_NAMEONLY ''PlayWaveData'' None,
     handler 0x10255 HANDLE_NAMEONLY ''StopWaveDataPlay'' None,
     handler 0x10256 HANDLE_NAMEONLY ''PauseWaveDataPlay'' None,
     handler 0x10257 HANDLE_NAMEONLY ''ContinueWaveDataPlay'' None,
     handler 0x10258 HANDLE_NAMEONLY ''RecordAdpcmEx'' None,
     handler 0x10259 HANDLE_NAMEONLY ''StopADPCMRecord'' None,
     handler 0x1025A HANDLE_NAMEONLY ''IsWaveDataPlayStopped'' None,
     handler 0x1025B HANDLE_NAMEONLY ''PlayMP3Data'' None,
     handler 0x1025C HANDLE_NAMEONLY ''StopMP3DataPlay'' None,
     handler 0x1025D HANDLE_NAMEONLY ''PausePlayMP3Data'' None,
     handler 0x1025E HANDLE_NAMEONLY ''ContinuePlayMP3Data'' None,
     handler 0x1025F HANDLE_NAMEONLY ''InitBestlkHandle'' None,
     handler 0x10260 HANDLE_NAMEONLY ''SetBestlkVoiceHandle'' None,
     handler 0x10261 HANDLE_NAMEONLY ''IME_RegistInputer'' None,
     handler 0x10262 HANDLE_NAMEONLY ''SetLanguageAttr'' None,
     handler 0x10263 HANDLE_NAMEONLY ''SetDialectAttr'' None,
     handler 0x10264 HANDLE_NAMEONLY ''SetLineEditorAttr'' None,
     handler 0x10265 HANDLE_NAMEONLY ''SetBookLibDataHFile'' None,
     handler 0x10266 HANDLE_NAMEONLY ''SetBookVocLibDataHFile'' None,
     handler 0x10267 HANDLE_NAMEONLY ''IME_SetGlobalVar'' None,
     handler 0x10268 HANDLE_NAMEONLY ''IME_Functions'' None,
     handler 0x10269 HANDLE_NAMEONLY ''LE_SupportMultiLangFunc'' None,
     handler 0x1026A HANDLE_NAMEONLY ''ShowBookFromHANDLE'' None,
     handler 0x1026B HANDLE_NAMEONLY ''_wfnsplit'' None,
     handler 0x1026C HANDLE_NAMEONLY ''_wfnmerge'' None,
     handler 0x1026D HANDLE_NAMEONLY ''_wfcreate'' None,
     handler 0x1026E HANDLE_NAMEONLY ''_wfcreateSz'' None,
     handler 0x1026F HANDLE_IMPLEMENTED ''__wfopen'' (Some Cb_wfopen),
     handler 0x10270 HANDLE_NAMEONLY ''_wfindfirst'' (Some Cb_wfindfirst),
     handler 0x10271 HANDLE_NAMEONLY ''_wfindnext'' (Some Cb_wfindnext),
     handler 0x10272 HANDLE_NAMEONLY ''_wfgetattr'' None,
     handler 0x10273 HANDLE_NAMEONLY ''_wfsetattr'' None,
     handler 0x10274 HANDLE_NAMEONLY ''__wremove'' (Some Cb_wremove),
     handler 0x10275 HANDLE_NAMEONLY ''_wrename'' None,
     handler 0x10276 HANDLE_NAMEONLY ''_wfcopy'' None,
     handler 0x10277 HANDLE_NAMEONLY ''_wmkdir'' (Some Cb_wmkdir),
     handler 0x10278 HANDLE_NAMEONLY ''_wrmdir'' None,
     handler 0x10279 HANDLE_NAMEONLY ''_wchdir'' (Some Cb_wchdir),
     handler 0x1027A HANDLE_NAMEONLY ''_wgetcurdir'' None,
     handler 0x1027B HANDLE_NAMEONLY ''_afsettime'' None,
     handler 0x1027C HANDLE_NAMEONLY ''_wfsettime'' None,
     handler 0x1027D HANDLE_NAMEONLY ''_afullpath'' None,
     handler 0x1027E HANDLE_NAMEONLY ''_wfullpath'' None,
     handler 0x1027F HANDLE_NAMEONLY ''RunApplicationW'' None,
     handler 0x10280 HANDLE_NAMEONLY ''GetApplicationNameW'' None,
     handler 0x10281 HANDLE_NAMEONLY ''LoadProgramW'' None,
     handler 0x10282 HANDLE_NAMEONLY ''GetCurrentPathW'' None,
     handler 0x10283 HANDLE_NAMEONLY ''ProgramIsRunningW'' None,
     handler 0x10284 HANDLE_NAMEONLY ''LoadHFileProgramW'' None,
     handler 0x10285 HANDLE_NAMEONLY ''LoadHFileProgramA'' None,
     handler 0x10286 HANDLE_IMPLEMENTED ''_LoadLibraryA'' (Some Cb_LoadLibraryA),
     handler 0x10287 HANDLE_NAMEONLY ''_GetModuleFileNameA'' (Some Cb_GetModuleFileNameA),
     handler 0x10288 HANDLE_NAMEONLY ''_GetModuleHandleA'' None,
     handler 0x10289 HANDLE_NAMEONLY ''GetApplicationProcA'' None,
     handler 0x1028A HANDLE_NAMEONLY ''StayResidentProgramA'' None,
     handler 0x1028B HANDLE_NAMEONLY ''UnStayResidentProgramA'' None,
     handler 0x1028C HANDLE_NAMEONLY ''CheckProgramIsStayResident'' None,
     handler 0x1028D HANDLE_NAMEONLY ''_FindResourceA'' None,
     handler 0x1028E HANDLE_NAMEONLY ''_FindResourceExA'' None,
     handler 0x1028F HANDLE_NAMEONLY ''_LoadLibraryW'' None,
     handler 0x10290 HANDLE_NAMEONLY ''_GetModuleFileNameW'' None,
     handler 0x10291 HANDLE_NAMEONLY ''_GetModuleHandleW'' None,
     handler 0x10292 HANDLE_NAMEONLY ''GetApplicationProcW'' None,
     handler 0x10293 HANDLE_IMPLEMENTED ''_FindResourceW'' (Some Cb_FindResourceW),
     handler 0x10294 HANDLE_NAMEONLY ''_FindResourceExW'' None,
     handler 0x10295 HANDLE_NAMEONLY ''StayResidentProgramW'' None,
     handler 0x10296 HANDLE_NAMEONLY ''UnStayResidentProgramW'' None,
     handler 0x10297 HANDLE_IMPLEMENTED ''_FreeLibrary'' (Some Cb_FreeLibrary),
     handler 0x10298 HANDLE_NAMEONLY ''_GetProcAddress'' None,
     handler 0x10299 HANDLE_NAMEONLY ''_SizeofResource'' None,
     handler 0x1029A HANDLE_NAMEONLY ''_OpenResourceItemFile'' None,
     handler 0x1029B HANDLE_NAMEONLY ''_CloseResourceItemFile'' None,
     handler 0x1029C HANDLE_NAMEONLY ''GetCardSN'' None,
     handler 0x1029D HANDLE_NAMEONLY ''GetCardSize'' None,
     handler 0x1029E HANDLE_NAMEONLY ''GetThaiWord'' None,
     handler 0x1029F HANDLE_NAMEONLY ''LoadThaiGrammarLib'' None,
     handler 0x102A0 HANDLE_NAMEONLY ''FreeThaiGrammarLib'' None,
     handler 0x102A1 HANDLE_IMPLEMENTED ''WriteComDebugMsg'' (Some Cb_dbgMsg),
     handler 0x102A2 HANDLE_NAMEONLY ''CreateIconButton'' None,
     handler 0x102A3 HANDLE_NAMEONLY ''LoadImageFile'' None,
     handler 0x102A4 HANDLE_NAMEONLY ''GetResourceCfg'' None,
     handler 0x102A5 HANDLE_NAMEONLY ''GetSystemDefaultLangID'' None,
     handler 0x102A6 HANDLE_NAMEONLY ''SetSystemDefaultLangID'' None,
     handler 0x102A7 HANDLE_NAMEONLY ''CreateFile'' (Some Cb_CreateFile),
     handler 0x102A8 HANDLE_NAMEONLY ''DeleteFile'' None,
     handler 0x102A9 HANDLE_NAMEONLY ''ReadFile'' None,
     handler 0x102AA HANDLE_NAMEONLY ''WriteFile'' None,
     handler 0x102AB HANDLE_NAMEONLY ''SetFilePointer'' None,
     handler 0x102AC HANDLE_NAMEONLY ''DeviceIoControl'' (Some Cb_DeviceIoControl),
     handler 0x102AD HANDLE_NAMEONLY ''CloseHandle'' (Some Cb_CloseHandle),
     handler 0x102AE HANDLE_NAMEONLY ''DictLastWord'' None,
     handler 0x102AF HANDLE_NAMEONLY ''GetTransBuffer'' None,
     handler 0x102B0 HANDLE_NAMEONLY ''DictIsYuanYinPhonetic'' None,
     handler 0x102B1 HANDLE_NAMEONLY ''InsertButtonTeam'' None,
     handler 0x102B2 HANDLE_NAMEONLY ''CreateSearchInfo'' None,
     handler 0x102B3 HANDLE_NAMEONLY ''FreeSearchInfo'' None,
     handler 0x102B4 HANDLE_NAMEONLY ''DefProcessContent'' None,
     handler 0x102B5 HANDLE_NAMEONLY ''DefInsertPic'' None,
     handler 0x102B6 HANDLE_NAMEONLY ''DefGetWholeWord'' None,
     handler 0x102B7 HANDLE_NAMEONLY ''DefAddALine'' None,
     handler 0x102B8 HANDLE_NAMEONLY ''PRICHVIEW_GetFlagLength'' None,
     handler 0x102B9 HANDLE_NAMEONLY ''PRICHVIEW_FilterMark'' None,
     handler 0x102BA HANDLE_NAMEONLY ''AddNewWord'' None,
     handler 0x102BB HANDLE_NAMEONLY ''GetMaxSearchLayer'' None,
     handler 0x102BC HANDLE_NAMEONLY ''FormatMessage'' None,
     handler 0x102BD HANDLE_NAMEONLY ''SetFont'' None,
     handler 0x102BE HANDLE_NAMEONLY ''GetFont'' None,
     handler 0x102BF HANDLE_NAMEONLY ''GetFontWidth'' None,
     handler 0x102C0 HANDLE_NAMEONLY ''GetStringLengthEx'' None,
     handler 0x102C1 HANDLE_NAMEONLY ''SetFontStyle'' None,
     handler 0x102C2 HANDLE_NAMEONLY ''RegisterUserFont'' None,
     handler 0x102C3 HANDLE_NAMEONLY ''UnRegisterUserFont'' None,
     handler 0x102C4 HANDLE_NAMEONLY ''SetCurrentVideoDevice'' None,
     handler 0x102C5 HANDLE_NAMEONLY ''SetSupportDoubleLCD'' None,
     handler 0x102C6 HANDLE_NAMEONLY ''_GetDriverType'' None,
     handler 0x102C7 HANDLE_NAMEONLY ''EditControlFunc'' None,
     handler 0x102C8 HANDLE_NAMEONLY ''GetMasterSerialNumber'' None,
     handler 0x102C9 HANDLE_NAMEONLY ''GetMasterVendorInfo'' None,
     handler 0x102CA HANDLE_NAMEONLY ''PRICHVIEW_SetDisplayPosition'' None,
     handler 0x102CB HANDLE_NAMEONLY ''GetApplicationHeadInfoA'' None,
     handler 0x102CC HANDLE_NAMEONLY ''GetApplicationHeadInfoW'' None,
     handler 0x102CD HANDLE_NAMEONLY ''_FreeFindResInfo'' None,
     handler 0x102CE HANDLE_NAMEONLY ''GetWholeWord'' None,
     handler 0x102CF HANDLE_NAMEONLY ''LoadWordGrammarLib'' None,
     handler 0x102D0 HANDLE_NAMEONLY ''FreeWordGrammarLib'' None,
     handler 0x102D1 HANDLE_NAMEONLY ''mount_file_disk'' None,
     handler 0x102D2 HANDLE_NAMEONLY ''umount_file_disk'' None,
     handler 0x102D3 HANDLE_NAMEONLY ''__close'' None,
     handler 0x102D4 HANDLE_NAMEONLY ''__commit'' None,
     handler 0x102D5 HANDLE_NAMEONLY ''__creat'' None,
     handler 0x102D6 HANDLE_NAMEONLY ''__dup'' None,
     handler 0x102D7 HANDLE_NAMEONLY ''__wcreat'' None,
     handler 0x102D8 HANDLE_NAMEONLY ''__eof'' None,
     handler 0x102D9 HANDLE_NAMEONLY ''__get_errno'' None,
     handler 0x102DA HANDLE_NAMEONLY ''__lseek'' None,
     handler 0x102DB HANDLE_NAMEONLY ''__lseeki64'' None,
     handler 0x102DC HANDLE_NAMEONLY ''__open'' None,
     handler 0x102DD HANDLE_NAMEONLY ''__wopen'' None,
     handler 0x102DE HANDLE_NAMEONLY ''__read'' None,
     handler 0x102DF HANDLE_NAMEONLY ''__set_errno'' None,
     handler 0x102E0 HANDLE_NAMEONLY ''__tell'' None,
     handler 0x102E1 HANDLE_NAMEONLY ''__telli64'' None,
     handler 0x102E2 HANDLE_NAMEONLY ''__truncate'' None,
     handler 0x102E3 HANDLE_NAMEONLY ''__write'' None,
     handler 0x102E4 HANDLE_NAMEONLY ''_MultiByteToWideChar'' None,
     handler 0x102E5 HANDLE_NAMEONLY ''_WideCharToMultiByte'' None]"

definition registrations :: "InterruptHandler list" where
  "registrations = handlers_1 @ handlers_2 @ handlers_3 @ handlers_4 @ handlers_5"

end
