(* ===== verification/SysCalls.thy ===== *)
theory SysCalls
  imports SysTable AssocMap
begin

text \<open>
  The system-call dispatcher (\<open>SystemAPI::RegisterHandler\<close> and \<open>SystemAPI::Call\<close>,
  PrimU/SystemAPI.cpp 758-792): a map from call numbers to handlers.  What a callback does is the
  argument \<open>run\<close>, what the dispatcher itself returns is \<open>ret\<close>, so that the dispatcher can be used
  with any state and any kind of outcome.
\<close>

section \<open>The dispatcher\<close>

type_synonym handlers = "(InterruptID \<times> InterruptHandler) list"

definition RegisterHandler :: "InterruptHandler option \<Rightarrow> handlers \<Rightarrow> handlers" where
  "RegisterHandler h t = (case h of None \<Rightarrow> t | Some h \<Rightarrow> om_set (Id h) h t)"

text \<open>The constructor, without the final call of \<open>sys_init\<close> (see Paths).\<close>

definition SystemAPI_new :: handlers where
  "SystemAPI_new = foldl (\<lambda>t h. RegisterHandler (Some h) t) [] registrations"

definition Call ::
  "(callback \<Rightarrow> 'a \<Rightarrow> 's \<Rightarrow> 'r) \<Rightarrow> (u32 \<Rightarrow> 's \<Rightarrow> 'r) \<Rightarrow> handlers \<Rightarrow> InterruptID \<Rightarrow> 'a \<Rightarrow> 's \<Rightarrow> 'r" where
  "Call run ret t i args s =
     (case map_of t i of
        Some h \<Rightarrow> (case Callback h of Some cb \<Rightarrow> run cb args s | None \<Rightarrow> ret 0 s)
      | None \<Rightarrow> ret 0 s)"

section \<open>Registration\<close>

lemma register_all:
  "om_ok t \<Longrightarrow> om_ok (foldl (\<lambda>t h. RegisterHandler (Some h) t) t hs)
   \<and> map_of (foldl (\<lambda>t h. RegisterHandler (Some h) t) t hs)
      = map_of t ++ map_of (rev (map (\<lambda>h. (Id h, h)) hs))"
proof (induction hs arbitrary: t)
  case (Cons h hs)
  have "om_ok (om_set (Id h) h t)" by (rule om_set_sorted [OF Cons(2)])
  from Cons(1) [OF this] show ?case
    by (simp add: RegisterHandler_def map_of_om_set [OF Cons(2)] map_add_assoc [symmetric] map_add_upd_left)
       (simp add: map_add_def fun_eq_iff split: option.split)
qed simp

section \<open>The tables\<close>

fun consecutive :: "u32 \<Rightarrow> u32 list \<Rightarrow> bool" where
  "consecutive a [] \<longleftrightarrow> True"
| "consecutive a (b # xs) \<longleftrightarrow> b = a \<and> consecutive (a + 1) xs"

lemma consecutive_nth: "consecutive a xs \<Longrightarrow> i < length xs \<Longrightarrow> xs ! i = a + of_nat i"
proof (induction a xs arbitrary: i rule: consecutive.induct)
  case (2 a b xs)
  then show ?case by (cases i) (auto simp: add.assoc)
qed simp

lemma consecutive_append:
  "consecutive a xs \<Longrightarrow> consecutive (a + of_nat (length xs)) ys \<Longrightarrow> consecutive a (xs @ ys)"
  by (induction a xs rule: consecutive.induct) (auto simp: add.assoc)

text \<open>The enumerator of a handler: its name with the prefix \<open>SDKLIB_\<close>.\<close>

definition enumerator :: "InterruptHandler \<Rightarrow> string \<times> InterruptID" where
  "enumerator h = (''SDKLIB_'' @ Name h, Id h)"

lemma handlers_1_ids:
  "consecutive 0x10000 (map Id handlers_1)" "length handlers_1 = 149"
  "map enumerator handlers_1 = interrupts_1"
  by (simp_all add: handlers_1_def interrupts_1_def handler_def enumerator_def)

lemma handlers_2_ids:
  "consecutive 0x10095 (map Id handlers_2)" "length handlers_2 = 149"
  "map enumerator handlers_2 = interrupts_2"
  by (simp_all add: handlers_2_def interrupts_2_def handler_def enumerator_def)

lemma handlers_3_ids:
  "consecutive 0x1012a (map Id handlers_3)" "length handlers_3 = 149"
  "map enumerator handlers_3 = interrupts_3"
  by (simp_all add: handlers_3_def interrupts_3_def handler_def enumerator_def)

lemma handlers_4_ids:
  "consecutive 0x101bf (map Id handlers_4)" "length handlers_4 = 149"
  "map enumerator handlers_4 = interrupts_4"
  by (simp_all add: handlers_4_def interrupts_4_def handler_def enumerator_def)

lemma handlers_5_ids:
  "consecutive 0x10254 (map Id handlers_5)" "length handlers_5 = 146"
  "map enumerator handlers_5 = interrupts_5"
  by (simp_all add: handlers_5_def interrupts_5_def handler_def enumerator_def)

lemma registrations_ids: "consecutive 0x10000 (map Id registrations)"
  unfolding registrations_def map_append
  by (intro consecutive_append) (simp_all add: handlers_1_ids handlers_2_ids handlers_3_ids handlers_4_ids handlers_5_ids)

lemma registrations_length: "length registrations = 742"
  by (simp add: registrations_def handlers_1_ids handlers_2_ids handlers_3_ids handlers_4_ids handlers_5_ids)

lemma registrations_names: "map enumerator registrations = interrupts"
  by (simp add: registrations_def interrupts_def handlers_1_ids handlers_2_ids handlers_3_ids handlers_4_ids
      handlers_5_ids)

lemma registrations_nth: "i < 742 \<Longrightarrow> Id (registrations ! i) = 0x10000 + of_nat i"
  using consecutive_nth [OF registrations_ids, of i] by (simp add: registrations_length)

lemma registrations_distinct: "distinct (map Id registrations)"
proof (subst distinct_conv_nth, intro allI impI)
  fix i j assume "i < length (map Id registrations)" "j < length (map Id registrations)" "i \<noteq> j"
  moreover from this have "unat (of_nat i :: u32) = i" "unat (of_nat j :: u32) = j"
    by (simp_all add: registrations_length unat_of_nat)
  ultimately show "map Id registrations ! i \<noteq> map Id registrations ! j"
    by (auto simp: registrations_length registrations_nth dest: arg_cong [of _ _ unat])
qed

lemma handlers_lookup:
  "map_of SystemAPI_new i =
     (if 0x10000 \<le> i \<and> i \<le> 0x102E5 then Some (registrations ! (unat i - 0x10000)) else None)"
proof -
  let ?m = "map (\<lambda>h. (Id h, h)) registrations"
  have d: "distinct (map fst ?m)" using registrations_distinct by (simp add: comp_def)
  have e: "map_of SystemAPI_new = map_of ?m"
    using register_all [of "[]" registrations] map_of_inject_set [of "rev ?m" ?m] d
    by (simp add: SystemAPI_new_def om_ok_def rev_map [symmetric] distinct_rev)
  show ?thesis
  proof (cases "0x10000 \<le> i \<and> i \<le> 0x102E5")
    case True
    then have k: "unat i - 0x10000 < 742" "0x10000 \<le> unat i" by (auto simp: word_le_unat)
    have "0x10000 + of_nat (unat i - 0x10000) = i"
      using k(2) by (simp add: word_unat_eq_iff unat_of_nat word_le_unat of_nat_diff)
    then have "Id (registrations ! (unat i - 0x10000)) = i" using registrations_nth [OF k(1)] by simp
    moreover have "registrations ! (unat i - 0x10000) \<in> set registrations"
      using k(1) by (intro nth_mem) (simp add: registrations_length)
    ultimately have "(i, registrations ! (unat i - 0x10000)) \<in> set ?m" by force
    then show ?thesis using True d e by simp
  next
    case False
    have "i \<notin> Id ` set registrations"
    proof
      assume "i \<in> Id ` set registrations"
      then obtain k where k: "k < 742" "i = 0x10000 + of_nat k"
        using registrations_nth by (metis (no_types) image_iff in_set_conv_nth registrations_length)
      then have "unat i = 0x10000 + k" by (simp add: unat_add32 unat_of_nat)
      then show False using False k(1) by (simp add: word_le_unat)
    qed
    then show ?thesis using False e by (auto simp: map_of_eq_None_iff image_iff)
  qed
qed

section \<open>Properties\<close>

text \<open>
  C32. The dispatcher refines the table of the header.  Registered one after the other into a
  \<open>std::map\<close>, the handlers form the function that the header describes: the calls numbered 0x10000 to
  0x102E5 and no others are known; the call with the number of an enumerator \<open>SDKLIB_f\<close> runs the
  handler registered with the name \<open>f\<close>, or returns 0 with the state unchanged when that handler has no
  callback; every other number returns 0 with the state unchanged.
\<close>

theorem dispatch_refines_header:
  "Call run ret SystemAPI_new i args s =
     (if 0x10000 \<le> i \<and> i \<le> 0x102E5 then
        case Callback (registrations ! (unat i - 0x10000)) of
          Some cb \<Rightarrow> run cb args s
        | None \<Rightarrow> ret 0 s
      else ret 0 s)
   \<and> map enumerator registrations = interrupts
   \<and> map snd interrupts = map (\<lambda>k. 0x10000 + of_nat k) [0..<742]"
proof (intro conjI)
  show "Call run ret SystemAPI_new i args s =
     (if 0x10000 \<le> i \<and> i \<le> 0x102E5 then
        case Callback (registrations ! (unat i - 0x10000)) of
          Some cb \<Rightarrow> run cb args s
        | None \<Rightarrow> ret 0 s
      else ret 0 s)"
    by (simp add: Call_def handlers_lookup)
  show "map enumerator registrations = interrupts" by (rule registrations_names)
  show "map snd interrupts = map (\<lambda>k. 0x10000 + of_nat k) [0..<742]"
    unfolding registrations_names [symmetric]
    by (rule nth_equalityI) (simp_all add: registrations_length registrations_nth enumerator_def)
qed

end
