(* ===== verification/LoaderProps.thy ===== *)
theory LoaderProps
  imports PELoader VFileProps
begin

text \<open>
  The loader: relocating an image adds the same difference to every word its table names and
  changes nothing else, and a mapped image shows the file's sections at their addresses.
\<close>

section \<open>Words in memory\<close>

definition word_bytes :: "RealPtr \<Rightarrow> RealPtr set" where
  "word_bytes q = (\<lambda>i. q + of_nat i) ` {..<4}"

definition agree_on :: "RealPtr set \<Rightarrow> hmemory \<Rightarrow> hmemory \<Rightarrow> bool" where
  "agree_on T h h' \<longleftrightarrow> (\<forall>p\<in>T. h p = h' p)"

lemma store_word_outside: "r \<notin> word_bytes q \<Longrightarrow> store_le 4 h q v r = h r"
proof -
  assume r: "r \<notin> word_bytes q"
  have "\<not> unat (r - q) < 4"
  proof
    assume "unat (r - q) < 4"
    then have "q + of_nat (unat (r - q)) \<in> word_bytes q" unfolding word_bytes_def by blast
    then show False using r by simp
  qed
  then show ?thesis by (simp add: store_le_def)
qed

lemma load_agree: "agree_on T h h' \<Longrightarrow> (\<And>i. i < n \<Longrightarrow> p + of_nat i \<in> T) \<Longrightarrow> load_le n h p = load_le n h' p"
  by (rule load_le_cong) (simp add: agree_on_def)

lemma load_u32_store: "load_u32 (store_le 4 h q (sz v)) q = v"
  using load_store_le [of 4 h q "sz v"] by (simp add: load_u32_def ucast_sz_low)

lemma load_u32_other:
  assumes "word_bytes q \<inter> word_bytes r = {}"
  shows "load_u32 (store_le 4 h r v) q = load_u32 h q"
proof -
  have "load_le 4 (store_le 4 h r v) q = load_le 4 h q"
    using assms by (intro load_le_cong store_word_outside) (auto simp: word_bytes_def)
  then show ?thesis by (simp add: load_u32_def)
qed

section \<open>Adding a difference to a list of words\<close>

definition bump :: "u32 \<Rightarrow> RealPtr \<Rightarrow> hmemory \<Rightarrow> hmemory" where
  "bump delta q h = store_le 4 h q (sz (load_u32 h q + delta))"

definition bump_all :: "u32 \<Rightarrow> RealPtr list \<Rightarrow> hmemory \<Rightarrow> hmemory" where
  "bump_all delta qs h = foldl (\<lambda>h q. bump delta q h) h qs"

lemma bump_outside: "r \<notin> word_bytes q \<Longrightarrow> bump delta q h r = h r"
  by (simp add: bump_def store_word_outside)

lemma bump_all_outside: "\<forall>q\<in>set qs. r \<notin> word_bytes q \<Longrightarrow> bump_all delta qs h r = h r"
  by (induction qs arbitrary: h) (auto simp: bump_all_def bump_outside)

lemma bump_all_other:
  "\<forall>q\<in>set qs. word_bytes p \<inter> word_bytes q = {} \<Longrightarrow> load_u32 (bump_all delta qs h) p = load_u32 h p"
  by (induction qs arbitrary: h) (auto simp: bump_all_def bump_def load_u32_other)

lemma bump_all_word:
  assumes "sorted_wrt (\<lambda>p q. word_bytes p \<inter> word_bytes q = {}) qs" "q \<in> set qs"
  shows "load_u32 (bump_all delta qs h) q = load_u32 h q + delta"
  using assms
proof (induction qs arbitrary: h)
  case (Cons p qs)
  have s: "bump_all delta (p # qs) h = bump_all delta qs (bump delta p h)" by (simp add: bump_all_def)
  show ?case
  proof (cases "q = p")
    case True
    have "load_u32 (bump_all delta qs (bump delta p h)) p = load_u32 (bump delta p h) p"
      using Cons(2) by (intro bump_all_other) simp
    then show ?thesis using True by (simp add: s bump_def load_u32_store)
  next
    case False
    then have q: "q \<in> set qs" using Cons(3) by simp
    have "load_u32 (bump delta p h) q = load_u32 h q"
      using Cons(2) q unfolding bump_def by (intro load_u32_other) auto
    then show ?thesis using Cons(1) [of "bump delta p h"] Cons(2) q by (simp add: s)
  qed
qed simp

lemma bump_all_append: "bump_all delta (ps @ qs) h = bump_all delta qs (bump_all delta ps h)"
  by (simp add: bump_all_def)

section \<open>Relocation tables\<close>

text \<open>The words the entries of one block name.\<close>

fun entry_targets :: "BlockInfo list \<Rightarrow> u32 \<Rightarrow> nat \<Rightarrow> RealPtr \<Rightarrow> hmemory \<Rightarrow> RealPtr list option" where
  "entry_targets bs page 0 p h = Some []"
| "entry_targets bs page (Suc n) p h =
     (let e = load_u16 h p
      in if drop_bit 12 e = 3 then
           Option.bind (HostPtrForVA bs (page + ucast (e AND 0x0FFF)))
             (\<lambda>q. map_option (\<lambda>qs. q # qs) (entry_targets bs page n (p + 2) h))
         else entry_targets bs page n (p + 2) h)"

text \<open>
  A well-formed table between two addresses: blocks of at least eight bytes one after the other,
  whose bytes lie in \<open>T\<close>; the list collects the words they name.
\<close>

inductive reloc_table ::
  "BlockInfo list \<Rightarrow> u32 \<Rightarrow> RealPtr set \<Rightarrow> hmemory \<Rightarrow> u32 \<Rightarrow> u32 \<Rightarrow> RealPtr list \<Rightarrow> bool"
  for bs base T h fin where
  finished: "\<not> cur < fin \<Longrightarrow> reloc_table bs base T h fin cur []"
| next_block:
    "cur < fin \<Longrightarrow> HostPtrForVA bs (base + cur) = Some p \<Longrightarrow> n = load_u32 h (p + 4) \<Longrightarrow> 8 \<le> n \<Longrightarrow>
     (\<forall>i < unat n. p + of_nat i \<in> T) \<Longrightarrow>
     entry_targets bs (base + load_u32 h p) (unat ((n - 8) div 2)) (p + 8) h = Some qs \<Longrightarrow>
     reloc_table bs base T h fin (cur + n) rest \<Longrightarrow>
     reloc_table bs base T h fin cur (qs @ rest)"

lemma reloc_entries_bump:
  assumes "agree_on T h h0" "entry_targets bs page n p h0 = Some qs"
    "\<And>i. i < 2 * n \<Longrightarrow> p + of_nat i \<in> T" "\<forall>q\<in>set qs. word_bytes q \<inter> T = {}"
  shows "reloc_entries bs page delta n p h = Some (bump_all delta qs h)"
  using assms
proof (induction n arbitrary: p h qs)
  case 0
  then show ?case by (simp add: bump_all_def)
next
  case (Suc n)
  have e: "load_u16 h p = load_u16 h0 p"
    using load_agree [OF Suc.prems(1), of 2 p] Suc.prems(3) by (simp add: load_u16_def)
  have T: "p + 2 + of_nat i \<in> T" if "i < 2 * n" for i
    using Suc.prems(3) [of "i + 2"] that by (simp add: ac_simps)
  show ?case
  proof (cases "drop_bit 12 (load_u16 h0 p) = 3")
    case False
    then show ?thesis using Suc.IH [OF Suc.prems(1) _ T] Suc.prems(2,4) by (simp add: e)
  next
    case True
    let ?va = "page + ucast (load_u16 h0 p AND 0x0FFF)"
    obtain q rest where q: "HostPtrForVA bs ?va = Some q" "entry_targets bs page n (p + 2) h0 = Some rest"
      "qs = q # rest"
      using Suc.prems(2) True by (auto simp: bind_eq_Some_conv)
    have "agree_on T (bump delta q h) h0"
      using Suc.prems(1,4) q(3) unfolding agree_on_def
      by (metis bump_outside disjoint_iff list.set_intros(1))
    then have "reloc_entries bs page delta n (p + 2) (bump delta q h) = Some (bump_all delta rest (bump delta q h))"
      using Suc.IH [OF _ q(2) T] Suc.prems(4) q(3) by simp
    then show ?thesis
      using True q by (simp add: e ReadU32AtVA_def WriteU32AtVA_def bump_def bump_all_def)
  qed
qed

lemma bump_all_agree: "agree_on T h h0 \<Longrightarrow> \<forall>q\<in>set qs. word_bytes q \<inter> T = {} \<Longrightarrow> agree_on T (bump_all delta qs h) h0"
  unfolding agree_on_def by (metis bump_all_outside disjoint_iff)

lemma reloc_blocks_bump:
  assumes "reloc_table bs base T h0 fin cur qs" "agree_on T h h0" "\<forall>q\<in>set qs. word_bytes q \<inter> T = {}"
  shows "reloc_blocks bs base delta fin cur h = Some (Some (bump_all delta qs h))"
  using assms
proof (induction arbitrary: h rule: reloc_table.induct)
  case (finished cur)
  then show ?case by (subst reloc_blocks.simps) (simp add: bump_all_def)
next
  case (next_block cur p n qs rest)
  have n: "8 \<le> unat n" using next_block(4) by (simp add: word_le_unat)
  have w: "load_u32 h (p + of_nat j) = load_u32 h0 (p + of_nat j)" if "j + 4 \<le> 8" for j
  proof -
    have "load_le 4 h (p + of_nat j) = load_le 4 h0 (p + of_nat j)"
    proof (rule load_agree [OF next_block.prems(1)])
      fix i :: nat assume "i < 4"
      then show "p + of_nat j + of_nat i \<in> T"
        using next_block(5) n that by (metis (no_types, opaque_lifting) add.assoc add_less_le_mono
            add_strict_left_mono less_le_trans of_nat_add)
    qed
    then show ?thesis by (simp add: load_u32_def)
  qed
  have s: "load_u32 h (p + 4) = n" "load_u32 h p = load_u32 h0 p"
    using w [of 4] w [of 0] next_block(3) by simp_all
  have d: "unat ((n - 8) div 2) = (unat n - 8) div 2"
    using next_block(4) by (simp add: unat_div unat_sub)
  have "reloc_entries bs (base + load_u32 h0 p) delta (unat ((n - 8) div 2)) (p + 8) h
    = Some (bump_all delta qs h)"
  proof (rule reloc_entries_bump [OF next_block.prems(1) next_block(6)])
    fix i assume i: "i < 2 * unat ((n - 8) div 2)"
    then have "8 + i < unat n" using n by (simp add: d)
    then show "p + 8 + of_nat i \<in> T" using next_block(5) by (metis add.assoc of_nat_add of_nat_numeral)
  qed (use next_block.prems(2) in auto)
  moreover have "reloc_blocks bs base delta fin (cur + n) (bump_all delta qs h)
    = Some (Some (bump_all delta rest (bump_all delta qs h)))"
    using next_block.prems(2) by (intro next_block.IH bump_all_agree [OF next_block.prems(1)]) auto
  moreover have "\<not> n < 8" using next_block(4) by simp
  ultimately show ?case
    using next_block(1,2) by (subst reloc_blocks.simps) (simp add: s bump_all_append)
qed

text \<open>
  C27. Relocation is exact.  When the base-relocation directory is a well-formed table whose words
  do not overlap each other or the table, \<open>ApplyRelocations\<close> ends without an error, every word the
  table names has grown by the difference of the bases, once, and every other byte of memory is what
  it was; with no difference or no directory the memory is left alone.
\<close>

theorem relocation_exact:
  assumes "reloc_table bs base T h (fst dir + snd dir) (fst dir) qs"
    and "sorted_wrt (\<lambda>p q. word_bytes p \<inter> word_bytes q = {}) qs"
    and "\<forall>q\<in>set qs. word_bytes q \<inter> T = {}"
  shows "\<exists>h'. ApplyRelocations bs base dir delta h = Some (Some h')
    \<and> (if delta = 0 \<or> snd dir = 0 then h' = h
       else (\<forall>q\<in>set qs. load_u32 h' q = load_u32 h q + delta)
          \<and> (\<forall>r. (\<forall>q\<in>set qs. r \<notin> word_bytes q) \<longrightarrow> h' r = h r))"
proof (cases "delta = 0 \<or> snd dir = 0")
  case True
  then show ?thesis by (simp add: ApplyRelocations_def)
next
  case False
  have "reloc_blocks bs base delta (fst dir + snd dir) (fst dir) h = Some (Some (bump_all delta qs h))"
    by (rule reloc_blocks_bump [OF assms(1) _ assms(3)]) (simp add: agree_on_def)
  then show ?thesis
    using False bump_all_word [OF assms(2)] bump_all_outside [of qs] by (simp add: ApplyRelocations_def)
qed

text \<open>An image of one block whose table, at 0x1000, names the word at 4.\<close>

definition demo_image :: "BlockInfo list" where
  "demo_image = [\<lparr>bi_vaddr = 0x400000, bi_size = 0x2000,
     bi_block = \<lparr>virtualAddress = 0x400000, realAddress = 0x10000, csize = 0x2000, pageCount = 2,
                 bfree = 0, bfreed = 0, chunks = []\<rparr>\<rparr>]"

definition demo_table :: hmemory where
  "demo_table = (\<lambda>_. 0)(0x11004 := 10, 0x11008 := 4, 0x11009 := 0x30)"

lemma demo_reloc_table:
  "reloc_table demo_image 0x400000 {0x11000..0x11009} demo_table 0x100A 0x1000 ([0x10004] @ [])"
proof (rule next_block [where p = "0x11000" and n = 10])
  show "HostPtrForVA demo_image (0x400000 + 0x1000) = Some 0x11000"
    by (simp add: HostPtrForVA_def FindBlockForVA_def demo_image_def sz_def)
  show "10 = load_u32 demo_table (0x11000 + 4)"
    by (simp add: load_u32_def load_word_bytes demo_table_def del: load_le.simps)
  have "(0x11000 :: RealPtr) + of_nat i \<in> {0x11000..0x11009}" if "i < 10" for i
  proof -
    have "i \<in> {0, 1, 2, 3, 4, 5, 6, 7, 8, 9}" using that by auto
    then show ?thesis by auto
  qed
  then show "\<forall>i < unat (10 :: u32). (0x11000 :: RealPtr) + of_nat i \<in> {0x11000..0x11009}" by simp
  have p: "load_u32 demo_table 0x11000 = 0"
    by (simp add: load_u32_def load_word_bytes demo_table_def del: load_le.simps)
  have e: "load_u16 demo_table 0x11008 = 0x3004"
    by (simp add: load_u16_def load_word_bytes demo_table_def del: load_le.simps)
  have q: "HostPtrForVA demo_image 0x400004 = Some 0x10004"
    by (simp add: HostPtrForVA_def FindBlockForVA_def demo_image_def sz_def)
  have one: "unat ((10 - 8) div 2 :: u32) = Suc 0" by simp
  show "entry_targets demo_image (0x400000 + load_u32 demo_table 0x11000) (unat ((10 - 8) div 2 :: u32))
      (0x11000 + 8) demo_table = Some [0x10004]"
    unfolding one p by (simp add: e q)
  show "reloc_table demo_image 0x400000 {0x11000..0x11009} demo_table 0x100A (0x1000 + 10) []"
    by (rule finished) simp
qed simp_all

theorem relocation_exact_witness:
  "\<exists>h'. ApplyRelocations demo_image 0x400000 (0x1000, 10) 0x100000 demo_table = Some (Some h')
     \<and> load_u32 h' 0x10004 = 0x100000"
proof -
  have t: "reloc_table demo_image 0x400000 {0x11000..0x11009} demo_table (fst (0x1000, 10) + snd (0x1000, 10))
      (fst (0x1000, 10)) [0x10004]"
    using demo_reloc_table by simp
  have d: "\<forall>q\<in>set [0x10004 :: RealPtr]. word_bytes q \<inter> {0x11000..0x11009} = {}"
  proof -
    have "(0x10004 :: RealPtr) + of_nat i \<notin> {0x11000..0x11009}" if "i < 4" for i
    proof -
      have "i \<in> {0, 1, 2, 3}" using that by auto
      then show ?thesis by auto
    qed
    then show ?thesis by (auto simp: word_bytes_def simp del: atLeastAtMost_iff)
  qed
  have z: "load_u32 demo_table 0x10004 = 0"
    by (simp add: load_u32_def load_word_bytes demo_table_def del: load_le.simps)
  from relocation_exact [OF t _ d, where delta = "0x100000"] show ?thesis by (auto simp: z)
qed

section \<open>Imports\<close>

text \<open>The bytes of the first \<open>n\<close> slots.\<close>

definition slots :: "(nat \<Rightarrow> RealPtr) \<Rightarrow> nat \<Rightarrow> RealPtr set" where
  "slots q n = (\<Union>k<n. word_bytes (q k))"

text \<open>
  The thunk at \<open>va\<close> is \<open>t\<close> and resolves to \<open>a\<close>, whatever the bytes in \<open>W\<close> have become.
\<close>

definition binds ::
  "PEImage \<Rightarrow> PEImage option \<Rightarrow> hmemory \<Rightarrow> RealPtr set \<Rightarrow> u32 \<Rightarrow> u32 \<Rightarrow> u32 \<Rightarrow> bool" where
  "binds img dep h W va t a \<longleftrightarrow> t \<noteq> 0 \<and>
     (\<forall>h'. (\<forall>r. r \<notin> W \<longrightarrow> h' r = h r) \<longrightarrow>
        ReadU32AtVA (pe_blocks img) va h' = Some t \<and> resolve_thunk img dep t h' = Some a)"

definition ends_at :: "PEImage \<Rightarrow> hmemory \<Rightarrow> RealPtr set \<Rightarrow> u32 \<Rightarrow> bool" where
  "ends_at img h W va \<longleftrightarrow>
     (\<forall>h'. (\<forall>r. r \<notin> W \<longrightarrow> h' r = h r) \<longrightarrow> ReadU32AtVA (pe_blocks img) va h' = Some 0)"

abbreviation with_mem :: "hmemory \<Rightarrow> loader \<Rightarrow> loader" where
  "with_mem h st \<equiv> st\<lparr>ld_mm := (ld_mm st)\<lparr>hmem := h\<rparr>\<rparr>"

lemma thunks_bound_from:
  fixes st :: loader and i :: nat and dep :: "nat option"
  defines "img \<equiv> ld_images st ! i" and "d \<equiv> map_option (\<lambda>d. ld_images st ! d) dep" and "h \<equiv> hmem (ld_mm st)"
  assumes slot: "\<forall>j<n. HostPtrForVA (pe_blocks img) (ft + 4 * of_nat j) = Some (q j)"
    and apart: "\<forall>j<n. \<forall>k<n. j \<noteq> k \<longrightarrow> word_bytes (q j) \<inter> word_bytes (q k) = {}"
    and thunk: "\<forall>j<n. binds img d h (slots q j) (oft + 4 * of_nat j) (t j) (a j)"
    and last: "ends_at img h (slots q n) (oft + 4 * of_nat n)"
  shows "j \<le> n \<Longrightarrow> n - j < fuel \<Longrightarrow> \<forall>r. r \<notin> slots q j \<longrightarrow> h' r = h r \<Longrightarrow> \<forall>k<j. load_u32 h' (q k) = a k \<Longrightarrow>
    \<exists>h''. resolve_thunks env fuel i dep (oft + 4 * of_nat j) (ft + 4 * of_nat j) (with_mem h' st)
        = Some (ERROR_OK, with_mem h'' st)
      \<and> (\<forall>k<n. load_u32 h'' (q k) = a k) \<and> (\<forall>r. r \<notin> slots q n \<longrightarrow> h'' r = h r)"
proof (induction fuel arbitrary: j h')
  case (Suc fuel)
  show ?case
  proof (cases "j = n")
    case True
    then have "ReadU32AtVA (pe_blocks img) (oft + 4 * of_nat n) h' = Some 0"
      using last Suc.prems(3) by (auto simp: ends_at_def)
    then show ?thesis using Suc.prems(3,4) True by (intro exI [of _ h']) (simp add: img_def)
  next
    case False
    then have j: "j < n" using Suc.prems(1) by simp
    have b: "t j \<noteq> 0" "ReadU32AtVA (pe_blocks img) (oft + 4 * of_nat j) h' = Some (t j)"
      "resolve_thunk img d (t j) h' = Some (a j)"
      using thunk j Suc.prems(3) by (auto simp: binds_def)
    define h1 where "h1 = store_le 4 h' (q j) (sz (a j))"
    have w: "WriteU32AtVA (pe_blocks img) (ft + 4 * of_nat j) (a j) h' = Some h1"
      using slot j by (simp add: WriteU32AtVA_def h1_def)
    have "slots q (Suc j) = slots q j \<union> word_bytes (q j)" by (auto simp: slots_def less_Suc_eq)
    then have o: "\<forall>r. r \<notin> slots q (Suc j) \<longrightarrow> h1 r = h r"
      using Suc.prems(3) by (auto simp: h1_def store_word_outside)
    have k: "\<forall>k<Suc j. load_u32 h1 (q k) = a k"
    proof (intro allI impI)
      fix k assume "k < Suc j"
      then consider "k = j" | "k < j" "k < n" using j by linarith
      then show "load_u32 h1 (q k) = a k"
      proof cases
        case 2
        then have "word_bytes (q k) \<inter> word_bytes (q j) = {}" using apart j by simp
        then show ?thesis using Suc.prems(4) 2(1) by (simp add: h1_def load_u32_other)
      qed (simp add: h1_def load_u32_store)
    qed
    have "Suc j \<le> n" "n - Suc j < fuel" using j Suc.prems(2) by simp_all
    from Suc.IH [OF this o k] obtain h'' where
      h: "resolve_thunks env fuel i dep (oft + 4 * of_nat (Suc j)) (ft + 4 * of_nat (Suc j)) (with_mem h1 st)
        = Some (ERROR_OK, with_mem h'' st)"
      "\<forall>k<n. load_u32 h'' (q k) = a k" "\<forall>r. r \<notin> slots q n \<longrightarrow> h'' r = h r" by blast
    have "resolve_thunks env (Suc fuel) i dep (oft + 4 * of_nat j) (ft + 4 * of_nat j) (with_mem h' st)
      = resolve_thunks env fuel i dep (oft + 4 * of_nat (Suc j)) (ft + 4 * of_nat (Suc j)) (with_mem h1 st)"
      using b w by (simp add: img_def d_def Let_def algebra_simps)
    then show ?thesis using h by auto
  qed
qed simp

text \<open>
  C31. Imports are bound exactly.  For a list of import thunks that ends with zero and all of whose
  thunks resolve in the module (the words that earlier turns write may overwrite thunks already
  read, as in an image without \<open>OriginalFirstThunk\<close>), the loop ends without an error with any fuel above
  the length of the list; every slot of the import address table then holds the address of its
  thunk, and nothing but these slots has changed in the loader or in memory.
\<close>

theorem imports_bound:
  fixes st :: loader and i :: nat and dep :: "nat option"
  defines "img \<equiv> ld_images st ! i" and "d \<equiv> map_option (\<lambda>d. ld_images st ! d) dep" and "h \<equiv> hmem (ld_mm st)"
  assumes "\<forall>j<n. HostPtrForVA (pe_blocks img) (ft + 4 * of_nat j) = Some (q j)"
    and "\<forall>j<n. \<forall>k<n. j \<noteq> k \<longrightarrow> word_bytes (q j) \<inter> word_bytes (q k) = {}"
    and "\<forall>j<n. binds img d h (slots q j) (oft + 4 * of_nat j) (t j) (a j)"
    and "ends_at img h (slots q n) (oft + 4 * of_nat n)" and "n < fuel"
  shows "\<exists>h'. resolve_thunks env fuel i dep oft ft st = Some (ERROR_OK, with_mem h' st)
    \<and> (\<forall>j<n. load_u32 h' (q j) = a j) \<and> (\<forall>r. r \<notin> slots q n \<longrightarrow> h' r = h r)"
  using thunks_bound_from [OF assms(4-7) [unfolded img_def d_def h_def], of 0 fuel h env] assms(8)
  by (simp add: h_def)

text \<open>One import by ordinal, with the table of addresses behind the table of names.\<close>

definition demo_importer :: loader where
  "demo_importer = \<lparr>ld_mm = demo_mm\<lparr>hmem := (\<lambda>_. 0)(0x11000 := 7, 0x11003 := 0x80)\<rparr>, ld_calls = 0,
     ld_images = [PEImage_new\<lparr>pe_blocks := demo_image\<rparr>, PEImage_new\<lparr>exportsByOrdinal := [(7, 0x500010)]\<rparr>],
     g_loadedPEImages = []\<rparr>"

definition demo_no_files :: loader_env where
  "demo_no_files = \<lparr>hosts = (\<lambda>k m. demo_host), host_file = (\<lambda>p. None)\<rparr>"

theorem imports_bound_witness:
  "\<exists>h'. resolve_thunks demo_no_files 2 0 (Some 1) 0x401000 0x401100 demo_importer = Some (ERROR_OK, with_mem h' demo_importer)
     \<and> load_u32 h' 0x11100 = 0x500010"
proof -
  let ?img = "ld_images demo_importer ! 0" and ?d = "map_option (\<lambda>d. ld_images demo_importer ! d) (Some 1)"
  note E = demo_importer_def PEImage_new_def demo_image_def HostPtrForVA_def FindBlockForVA_def ReadU32AtVA_def
    load_u32_def load_word_bytes resolve_thunk_def sz_def
  have w: "slots (\<lambda>_. 0x11100) n \<subseteq> {0x11100, 0x11101, 0x11102, 0x11103}" for n
    by (auto simp: slots_def word_bytes_def less_Suc_eq numeral_eq_Suc)
  have "\<forall>j<1. HostPtrForVA (pe_blocks ?img) (0x401100 + 4 * of_nat j) = Some 0x11100" by (simp add: E)
  moreover have "\<forall>j<1. binds ?img ?d (hmem (ld_mm demo_importer)) (slots (\<lambda>_. 0x11100) j) (0x401000 + 4 * of_nat j)
      0x80000007 0x500010"
    by (simp add: binds_def slots_def E)
  moreover have "ends_at ?img (hmem (ld_mm demo_importer)) (slots (\<lambda>_. 0x11100) 1) (0x401000 + 4 * of_nat 1)"
    unfolding ends_at_def
  proof (intro allI impI)
    fix h' assume "\<forall>r. r \<notin> slots (\<lambda>_. 0x11100) 1 \<longrightarrow> h' r = hmem (ld_mm demo_importer) r"
    then have "h' r = hmem (ld_mm demo_importer) r" if "r \<in> {0x11004, 0x11005, 0x11006, 0x11007}" for r
      using w [of 1] that by auto
    then show "ReadU32AtVA (pe_blocks ?img) (0x401000 + 4 * of_nat 1) h' = Some 0" by (simp add: E)
  qed
  ultimately show ?thesis
    using imports_bound [of 1 demo_importer 0 "0x401100" "\<lambda>_. 0x11100" "Some 1" "0x401000" "\<lambda>_. 0x80000007"
      "\<lambda>_. 0x500010" 2 demo_no_files] by auto
qed

section \<open>Fuel\<close>

text \<open>
  More fuel never changes what a load returns.  \<open>le m m'\<close> is the order on results in which a result
  that is not there is below every other; the loader is built of operations that respect it.
\<close>

definition le :: "'a option \<Rightarrow> 'a option \<Rightarrow> bool" where
  "le m m' \<longleftrightarrow> (\<forall>r. m = Some r \<longrightarrow> m' = Some r)"

lemma leD: "le m m' \<Longrightarrow> m = Some r \<Longrightarrow> m' = Some r"
  by (simp add: le_def)

lemma le_refl: "le m m"
  by (simp add: le_def)

lemma le_None: "le None m"
  by (simp add: le_def)

lemma le_bind: "le m m' \<Longrightarrow> (\<And>x. le (f x) (g x)) \<Longrightarrow> le (Option.bind m f) (Option.bind m' g)"
  by (auto simp: le_def bind_eq_Some_conv)

lemma le_prod: "(\<And>a b. le (f a b) (g a b)) \<Longrightarrow> le (case_prod f p) (case_prod g p)"
  by (simp split: prod.split)

lemma le_option: "le a b \<Longrightarrow> (\<And>x. le (f x) (g x)) \<Longrightarrow> le (case_option a f x) (case_option b g x)"
  by (simp split: option.split)

lemma le_sum: "(\<And>x. le (f x) (f' x)) \<Longrightarrow> (\<And>x. le (g x) (g' x)) \<Longrightarrow> le (case_sum f g x) (case_sum f' g' x)"
  by (simp split: sum.split)

lemma le_if: "le a b \<Longrightarrow> le c d \<Longrightarrow> le (if p then a else c) (if p then b else d)"
  by simp

lemma le_let: "(\<And>x. le (f x) (g x)) \<Longrightarrow> le (Let v f) (Let v g)"
  by (simp add: Let_def)

lemmas le_intros = le_refl le_None le_bind le_prod le_option le_sum le_if le_let

lemma resolve_thunks_mono:
  "fuel \<le> fuel' \<Longrightarrow> le (resolve_thunks env fuel i dep oft ft st) (resolve_thunks env fuel' i dep oft ft st)"
proof (induction fuel arbitrary: fuel' oft ft st)
  case (Suc fuel)
  then obtain k where k: "fuel' = Suc k" "fuel \<le> k" by (cases fuel') auto
  show ?case unfolding k(1) resolve_thunks.simps by (intro le_intros Suc.IH [OF k(2)])
qed (simp add: le_None)

lemma find_module_mono:
  assumes "\<And>b p d s. le (f b p d s) (g b p d s)"
  shows "le (find_module env f sysdir name s) (find_module env g sysdir name s)"
  unfolding find_module_def by (intro le_intros assms)

lemma resolve_descriptors_mono:
  assumes mono: "\<And>b p d s. le (f b p d s) (g b p d s)"
  shows "fuel \<le> fuel' \<Longrightarrow>
    le (resolve_descriptors env f sysdir fuel i p s) (resolve_descriptors env g sysdir fuel' i p s)"
proof (induction fuel arbitrary: fuel' p s)
  case (Suc fuel)
  then obtain k where k: "fuel' = Suc k" "fuel \<le> k" by (cases fuel') auto
  obtain ld st where s: "s = (ld, st)" by (cases s)
  show ?case unfolding k(1) s resolve_descriptors.simps
    by (intro le_intros find_module_mono mono resolve_thunks_mono Suc.IH k(2))
qed (simp add: le_None)

lemma ResolveImports_mono:
  assumes mono: "\<And>b p d s. le (f b p d s) (g b p d s)" and "fuel \<le> fuel'"
  shows "le (ResolveImports env f sysdir fuel dir i s) (ResolveImports env g sysdir fuel' dir i s)"
  unfolding ResolveImports_def by (intro le_intros resolve_descriptors_mono mono assms(2))

lemma MapPEIntoMemory_mono:
  "fuel \<le> fuel' \<Longrightarrow>
    le (MapPEIntoMemory fuel env sysdir buf path i s) (MapPEIntoMemory fuel' env sysdir buf path i s)"
proof (induction fuel arbitrary: fuel' buf path i s)
  case (Suc fuel)
  then obtain k where k: "fuel' = Suc k" "fuel \<le> k" by (cases fuel') auto
  obtain ld st where s: "s = (ld, st)" by (cases s)
  show ?case unfolding k(1) s MapPEIntoMemory.simps
    by (intro le_intros ResolveImports_mono Suc.IH k(2))
qed (simp add: le_None)

text \<open>
  The result of a load does not depend on the fuel.  What \<open>LoadPEImage\<close> returns with some fuel
  (error, image and the whole state, modules that import each other included) it returns with any
  larger one; so no two amounts of fuel give different results.
\<close>

theorem load_fuel_irrelevant:
  assumes "LoadPEImage fuel env path sysdir st = Some r"
  shows "LoadPEImage (fuel + extra) env path sysdir st = Some r
    \<and> (LoadPEImage fuel' env path sysdir st = Some r' \<longrightarrow> r' = r)"
proof -
  have mono: "le (LoadPEImage f env path sysdir st) (LoadPEImage (f + g) env path sysdir st)" for f g
    unfolding LoadPEImage_def by (intro le_intros MapPEIntoMemory_mono) simp
  have "r' = r" if "LoadPEImage fuel' env path sysdir st = Some r'"
    using leD [OF mono [of fuel' fuel] that] leD [OF mono [of fuel fuel'] assms] by (simp add: add.commute)
  then show ?thesis using leD [OF mono assms] by simp
qed

text \<open>A file of bare headers: base 0x400000, one byte of image, no sections and no directories.\<close>

definition demo_pe :: "byte list" where
  "demo_pe = (replicate 312 0)[0 := 0x4D, 1 := 0x5A, 60 := 64, 64 := 0x50, 65 := 0x45, 88 := 0x0B, 89 := 1,
     118 := 0x40, 144 := 1]"

definition demo_files_env :: loader_env where
  "demo_files_env = \<lparr>hosts = (\<lambda>k m. demo_host), host_file = (\<lambda>p. Some demo_pe)\<rparr>"

definition demo_empty :: loader where
  "demo_empty = \<lparr>ld_mm = demo_mm, ld_calls = 0, ld_images = [], g_loadedPEImages = []\<rparr>"

lemma demo_headers:
  "check_headers demo_pe = Some (Inr 64)" "image_base demo_pe 64 = Some 0x400000" "size_of_image demo_pe 64 = Some 1"
  "number_of_sections demo_pe 64 = Some 0" "data_directory 0 demo_pe 64 = Some (0, 0)"
  "data_directory 1 demo_pe 64 = Some (0, 0)" "demo_pe \<noteq> []"
  by code_simp+

lemma demo_load:
  "\<exists>img st. LoadPEImage 1 demo_files_env ''A.DLL'' [] demo_empty = Some (ERROR_OK, Some img, st)
     \<and> actualImageBase img = 0x400000 \<and> map_of (g_loadedPEImages st) ''a.dll'' = Some img"
proof -
  have "ToLower (path_filename ''A.DLL'') = ''a.dll''" by code_simp
  then show ?thesis
    by (simp add: LoadPEImage_def demo_files_env_def ReadFileToVector_def demo_headers
        demo_headers(6) [unfolded One_nat_def] demo_empty_def upd_image_def
        place_image_def ParseAndFillExports_def ResolveImports_def Let_def PEImage_new_def)
qed

theorem load_fuel_irrelevant_witness:
  "\<exists>img st. LoadPEImage 100 demo_files_env ''A.DLL'' [] demo_empty = Some (ERROR_OK, Some img, st)
     \<and> actualImageBase img = 0x400000"
proof -
  obtain img st where l: "LoadPEImage 1 demo_files_env ''A.DLL'' [] demo_empty = Some (ERROR_OK, Some img, st)"
    and b: "actualImageBase img = 0x400000" using demo_load by blast
  from load_fuel_irrelevant [OF l, of 99] b show ?thesis by simp
qed

end
