(* ===== verification/SectionProps.thy ===== *)
theory SectionProps
  imports LoaderProps
begin

text \<open>
  Where the loader puts the sections of an image: each is readable at its guest address, byte for byte
  as the file has it and padded with zeros, and what was mapped before stays as it was, whether the
  preferred base is free or the image moves to another one.
\<close>

section \<open>What a mapping keeps\<close>

definition within :: "MemoryBlock \<Rightarrow> RealPtr \<Rightarrow> bool" where
  "within b q \<longleftrightarrow> unat (q - realAddress b) < unat (csize b)"

text \<open>The mappings of \<open>m\<close> are still there in \<open>m'\<close>, with the same bytes.\<close>

definition held :: "MemoryManager \<Rightarrow> MemoryManager \<Rightarrow> bool" where
  "held m m' \<longleftrightarrow> region_inv m' \<and> set (blocks m) \<subseteq> set (blocks m')
     \<and> (\<forall>b\<in>set (blocks m). \<forall>q. within b q \<longrightarrow> hmem m' q = hmem m q)"

lemma held_refl: "region_inv m \<Longrightarrow> held m m"
  by (simp add: held_def)

lemma held_trans: "held m m1 \<Longrightarrow> held m1 m2 \<Longrightarrow> held m m2"
  by (auto simp: held_def)

lemma held_inv: "held m m' \<Longrightarrow> region_inv m'"
  by (simp add: held_def)

lemma within_range:
  assumes "whole_block b"
  shows "within b q \<longleftrightarrow> unat (realAddress b) \<le> unat q \<and> unat q < unat (realAddress b) + unat (csize b)"
proof -
  have f: "unat (realAddress b) + unat (csize b) < 2 ^ 64"
    using whole_blockD(1) [OF assms] by (simp add: fits_def)
  show ?thesis
  proof (cases "realAddress b \<le> q")
    case True
    then show ?thesis by (auto simp: within_def unat_sub word_le_nat_alt)
  next
    case False
    then have "unat q < unat (realAddress b)" by (simp add: word_le_nat_alt)
    moreover have "unat (q - realAddress b) = unat q + 2 ^ 64 - unat (realAddress b)"
      using False by (simp add: unat_sub_if' word_le_nat_alt)
    ultimately show ?thesis using f by (simp add: within_def)
  qed
qed

lemma within_apart:
  assumes "whole_block b" "whole_block d" "apart_r b d" "within d q"
  shows "\<not> within b q"
  using assms by (auto simp: within_range apart_r_def)

lemma GetRealAddr_within:
  assumes "region_inv m" "b \<in> set (blocks m)" "MemoryBlock_ContainsVAddr b v"
  shows "GetRealAddr m v = realAddress b + of_nat (unat v - unat (virtualAddress b))" "within b (GetRealAddr m v)"
proof -
  have w: "whole_block b" using assms(1,2) by (auto simp: region_inv_def)
  have c: "unat (virtualAddress b) \<le> unat v" "unat v < unat (virtualAddress b) + unat (csize b)"
    using assms(3) whole_ContainsVAddr [OF w] by auto
  have e: "unat (GetRealAddr m v) = unat (realAddress b) + (unat v - unat (virtualAddress b))"
    using whole_GetRAddr [OF w assms(3)] by (simp add: GetRealAddr_block [OF assms])
  show "GetRealAddr m v = realAddress b + of_nat (unat v - unat (virtualAddress b))"
    using arg_cong [OF e, of "of_nat :: nat \<Rightarrow> 64 word"] by simp
  show "within b (GetRealAddr m v)" unfolding within_range [OF w] e using c by linarith
qed

lemma held_guest:
  assumes "region_inv m" "held m m'" "isVAddrAllocated m v"
  shows "GetRealAddr m' v = GetRealAddr m v" "hmem m' (GetRealAddr m v) = hmem m (GetRealAddr m v)"
proof -
  obtain b where b: "b \<in> set (blocks m)" "MemoryBlock_ContainsVAddr b v"
    using assms(3) by (rule allocated_block)
  then have b': "b \<in> set (blocks m')" using assms(2) by (auto simp: held_def)
  show "GetRealAddr m' v = GetRealAddr m v"
    using GetRealAddr_block [OF assms(1) b] GetRealAddr_block [OF held_inv [OF assms(2)] b' b(2)] by simp
  show "hmem m' (GetRealAddr m v) = hmem m (GetRealAddr m v)"
    using assms(2) b(1) GetRealAddr_within(2) [OF assms(1) b] by (auto simp: held_def)
qed

section \<open>Allocation and release\<close>

text \<open>The hosts of a load behave as documented in every state the load reaches.\<close>

definition hosts_ok :: "loader_env \<Rightarrow> bool" where
  "hosts_ok env \<longleftrightarrow> (\<forall>k m. region_inv m \<longrightarrow> host_ok (hosts env k m) m)"

lemma ld_alloc_cases:
  assumes inv: "region_inv m" and env: "hosts_ok env" and fit: "unat va + unat n \<le> 2 ^ 32" and n: "n \<noteq> 0"
    and r: "ld_alloc env va n (m, k) = (r, m', k')"
  obtains "r = None" "m' = m"
  | b where "r = Some b" "held m m'" "set (blocks m') = insert b (set (blocks m))" "whole_block b"
    "virtualAddress b = va" "unat n \<le> unat (csize b)" "va \<notin> virtualAddress ` set (blocks m)"
    "\<forall>d\<in>set (blocks m). apart_r b d"
proof -
  obtain e r' where s: "StaticAlloc (hosts env k m) m va (sz n) None = (e, r', m')"
    and r': "r = (if e = ERROR_OK then r' else None)"
    using r by (auto simp: ld_alloc_def split: prod.splits)
  show thesis
  proof (cases "e = ERROR_OK \<and> r' \<noteq> None")
    case False
    then have "m' = m" using StaticAlloc_fail [OF s] by auto
    then show thesis using that(1) False r' by (auto split: if_splits)
  next
    case True
    then obtain b where b: "r' = Some b" "r = Some b" using r' by auto
    have s': "StaticAlloc (hosts env k m) m va (sz n) None = (ERROR_OK, Some b, m')" using s b True by simp
    have host: "host_ok (hosts env k m) m" using env inv by (simp add: hosts_ok_def)
    have fit': "unat va + unat (sz n) \<le> 2 ^ 32" using fit by simp
    note A = StaticAlloc_region_inv [OF inv host fit' s']
    obtain x where x: "b = mapped_block va (calloc_r (hosts env k m) x) x"
      "m' = m\<lparr>blocks := b # blocks m, hmem := mem_fill (hmem m) (calloc_r (hosts env k m) x) (sz (x * PAGE_SIZE)) 0\<rparr>"
      using s' by (rule StaticAlloc_OK)
    have W: "\<forall>d\<in>set (blocks m). whole_block d" using inv by (simp add: region_inv_def)
    have "hmem m' q = hmem m q" if "d \<in> set (blocks m)" "within d q" for d q
    proof -
      have "\<not> within b q" using within_apart [OF A(2)] W A(5) that by blast
      then show ?thesis by (simp add: x within_def mem_fill_def word_less_nat_alt)
    qed
    then have "held m m'" using A(1) by (auto simp: held_def x(2))
    moreover have "va \<notin> virtualAddress ` set (blocks m)"
    proof
      assume "va \<in> virtualAddress ` set (blocks m)"
      then obtain d where "d \<in> set (blocks m)" "virtualAddress d = va" by blast
      then have "apart b d" "virtualAddress b = virtualAddress d" "0 < unat (csize b)" "0 < unat (csize d)"
        using A(3,5) W whole_blockD(3) [OF A(2)] whole_blockD(3) by auto
      then show False by (simp add: apart_def)
    qed
    ultimately show thesis
      using that(2) [of b] A b by (auto simp: x(2))
  qed
qed

lemma held_free:
  assumes "held m m1" "va \<notin> virtualAddress ` set (blocks m)"
  shows "held m (fst (ld_free env va (m1, k)))"
proof -
  obtain e m2 where s: "StaticFree (hosts env k m1) m1 va = (e, m2)" by (cases "StaticFree (hosts env k m1) m1 va")
  have "m2 = m1 \<or> (\<exists>b. virtualAddress b = va \<and> m2 = m1\<lparr>blocks := remove1 b (blocks m1)\<rparr>)"
    using s by (auto simp: StaticFree_def find_Some_iff split: option.splits if_splits)
  then have "set (blocks m) \<subseteq> set (blocks m2) \<and> hmem m2 = hmem m1"
  proof (elim disjE exE conjE)
    fix b assume b: "virtualAddress b = va" "m2 = m1\<lparr>blocks := remove1 b (blocks m1)\<rparr>"
    have "d \<in> set (remove1 b (blocks m1))" if "d \<in> set (blocks m)" for d
      using that assms b(1) by (subst in_set_remove1) (auto simp: held_def)
    then show ?thesis by (auto simp: b(2))
  qed (use assms in \<open>simp add: held_def\<close>)
  moreover have "region_inv m2" using StaticFree_region_inv [OF held_inv [OF assms(1)] s] .
  ultimately show ?thesis using assms(1) by (simp add: held_def ld_free_def s)
qed

lemma held_free_blocks:
  assumes "held m m1" "\<forall>b\<in>set bs. bi_vaddr b \<notin> virtualAddress ` set (blocks m)"
  shows "held m (fst (free_blocks env bs (m1, k)))"
  using assms unfolding free_blocks_def
proof (induction bs arbitrary: m1 k)
  case (Cons b bs)
  obtain m2 k2 where f: "ld_free env (bi_vaddr b) (m1, k) = (m2, k2)" by (cases "ld_free env (bi_vaddr b) (m1, k)")
  have "held m m2" using held_free [OF Cons.prems(1), of "bi_vaddr b" env k] Cons.prems(2) by (simp add: f)
  then show ?case using Cons.IH Cons.prems(2) by (simp add: f)
qed simp

section \<open>Sections\<close>

text \<open>The byte that offset \<open>j\<close> of a section must show: the file's, or zero behind its raw data.\<close>

definition section_byte :: "byte list \<Rightarrow> section_header \<Rightarrow> nat \<Rightarrow> byte" where
  "section_byte buf s j =
     (if j < unat (s_SizeOfRawData s) then buf ! (unat (s_PointerToRawData s) + j) else 0)"

definition placed :: "byte list \<Rightarrow> u32 \<Rightarrow> section_header \<Rightarrow> MemoryManager \<Rightarrow> bool" where
  "placed buf base s m \<longleftrightarrow> section_size s = 0
     \<or> (\<exists>b\<in>set (blocks m). virtualAddress b = base + s_VirtualAddress s \<and> unat (section_size s) \<le> unat (csize b)
          \<and> (\<forall>j<unat (section_size s). hmem m (realAddress b + of_nat j) = section_byte buf s j))"

lemma section_size_ge: "unat (s_SizeOfRawData s) \<le> unat (section_size s)"
  by (simp add: section_size_def max_def word_le_nat_alt)

lemma block_offset: "whole_block b \<Longrightarrow> j < unat (csize b) \<Longrightarrow> within b (realAddress b + of_nat j)"
  using unat64_lt [of "csize b"] by (simp add: within_def unat_of_nat)

lemma placed_held: "placed buf base s m \<Longrightarrow> held m m' \<Longrightarrow> region_inv m \<Longrightarrow> placed buf base s m'"
  unfolding placed_def
proof (elim disjE bexE conjE)
  fix b assume H: "held m m'" "region_inv m" and b: "b \<in> set (blocks m)"
    "virtualAddress b = base + s_VirtualAddress s" "unat (section_size s) \<le> unat (csize b)"
    "\<forall>j<unat (section_size s). hmem m (realAddress b + of_nat j) = section_byte buf s j"
  have w: "whole_block b" using H(2) b(1) by (simp add: region_inv_def)
  have "hmem m' (realAddress b + of_nat j) = section_byte buf s j" if "j < unat (section_size s)" for j
    using H(1) b that block_offset [OF w, of j] by (auto simp: held_def)
  moreover have "b \<in> set (blocks m')" using H(1) b(1) by (auto simp: held_def)
  ultimately show "section_size s = 0 \<or> (\<exists>b\<in>set (blocks m'). virtualAddress b = base + s_VirtualAddress s
      \<and> unat (section_size s) \<le> unat (csize b)
      \<and> (\<forall>j<unat (section_size s). hmem m' (realAddress b + of_nat j) = section_byte buf s j))"
    using b(2,3) by blast
qed simp

lemma fill_section_byte:
  assumes n: "n = section_size s"
    and inside: "s_SizeOfRawData s > 0 \<longrightarrow> unat (s_PointerToRawData s) + unat (s_SizeOfRawData s) \<le> length buf"
  shows "fill_section buf s p n h q
    = (if unat (q - p) < unat n then section_byte buf s (unat (q - p)) else h q)"
proof (cases "s_SizeOfRawData s > 0")
  case False
  then show ?thesis
    by (auto simp: fill_section_def mem_fill_def section_byte_def word_less_nat_alt)
next
  case True
  let ?raw = "s_SizeOfRawData s" and ?bs = "take (unat (s_SizeOfRawData s)) (drop (unat (s_PointerToRawData s)) buf)"
  have len: "length ?bs = unat ?raw" using inside True by simp
  have le: "unat ?raw \<le> unat n" unfolding n by (rule section_size_ge)
  have S: "store_bytes h p ?bs q = (if unat (q - p) < unat ?raw then ?bs ! unat (q - p) else h q)" for h q
    using store_bytes_apply [of ?bs h p q] unat32_lt [of ?raw] unfolding len by simp
  have nth: "?bs ! j = section_byte buf s j" if "j < unat ?raw" for j
    using that len by (simp add: section_byte_def)
  have d: "q - (p + sz ?raw) < sz (n - ?raw) \<longleftrightarrow> unat ?raw \<le> unat (q - p) \<and> unat (q - p) < unat n" (is "?l \<longleftrightarrow> ?r")
    if "n > ?raw"
  proof -
    have u: "unat (sz (n - ?raw)) = unat n - unat ?raw" using that by (simp add: unat_sub word_less_nat_alt word_le_nat_alt)
    have e: "q - (p + sz ?raw) = (q - p) - sz ?raw" by simp
    show ?thesis
    proof (cases "sz ?raw \<le> q - p")
      case True
      then have "unat (q - (p + sz ?raw)) = unat (q - p) - unat ?raw" unfolding e by (simp add: unat_sub)
      then show ?thesis using True u le by (auto simp: word_less_nat_alt word_le_nat_alt)
    next
      case False
      then have "unat (q - p) < unat ?raw" by (simp add: word_le_nat_alt)
      moreover have "unat (q - (p + sz ?raw)) = unat (q - p) + 2 ^ 64 - unat ?raw"
        unfolding e using False by (simp add: unat_sub_if' word_le_nat_alt)
      ultimately show ?thesis using u unat32_lt [of n] by (auto simp: word_less_nat_alt)
    qed
  qed
  show ?thesis
  proof (cases "n > ?raw")
    case True
    then show ?thesis using \<open>s_SizeOfRawData s > 0\<close> le nth
      by (auto simp: fill_section_def Let_def mem_fill_def d S section_byte_def)
  next
    case False
    then have "unat n = unat ?raw" using le by (simp add: word_less_nat_alt)
    then show ?thesis using \<open>s_SizeOfRawData s > 0\<close> False nth by (simp add: fill_section_def Let_def S)
  qed
qed

section \<open>The loop over the headers\<close>

text \<open>No section reaches beyond 2 GB from the base of the image.\<close>

definition sections_fit :: "byte list \<Rightarrow> int \<Rightarrow> nat list \<Rightarrow> bool" where
  "sections_fit buf nt is \<longleftrightarrow> (\<forall>i\<in>set is. \<forall>s. section_at buf nt i = Some s \<longrightarrow>
     unat (s_VirtualAddress s) + unat (section_size s) \<le> 2 ^ 31)"

lemma section_fits:
  assumes "unat base \<le> 2 ^ 31" "unat (s_VirtualAddress s) + unat (section_size s) \<le> 2 ^ 31" "section_size s \<noteq> 0"
  shows "unat (base + s_VirtualAddress s) + unat (section_size s) \<le> 2 ^ 32"
proof -
  have "0 < unat (section_size s)" using assms(3) by (simp add: unat_gt_0)
  then have "unat base + unat (s_VirtualAddress s) < 2 ^ 32" using assms(1,2) by simp
  then show ?thesis using assms(1,2) by (simp add: unat_add_small)
qed

text \<open>Blocks of the image are never at the address of a mapping that was there before.\<close>

definition fresh_blocks :: "MemoryManager \<Rightarrow> BlockInfo list \<Rightarrow> bool" where
  "fresh_blocks m bs \<longleftrightarrow> (\<forall>b\<in>set bs. bi_vaddr b \<notin> virtualAddress ` set (blocks m))"

lemma place_section_held:
  assumes held: "held m0 m" and fresh: "fresh_blocks m0 bs" and env: "hosts_ok env"
    and fit: "unat base \<le> 2 ^ 31" "unat (s_VirtualAddress s) + unat (section_size s) \<le> 2 ^ 31"
    and r: "place_section env buf base s (bs, m, k) = (r, bs', m', k')"
  shows "held m0 m'" "fresh_blocks m0 bs'" "r = Placed \<Longrightarrow> held m m' \<and> placed buf base s m'"
proof -
  let ?va = "base + s_VirtualAddress s" and ?n = "section_size s"
  note inv = held_inv [OF held]
  have "held m0 m' \<and> fresh_blocks m0 bs' \<and> (r = Placed \<longrightarrow> held m m' \<and> placed buf base s m')"
  proof (cases "?n = 0")
    case True
    then show ?thesis using r held fresh held_refl [OF inv] by (simp add: place_section_def placed_def)
  next
    case False
    obtain a m1 k1 where al: "ld_alloc env ?va ?n (m, k) = (a, m1, k1)" by (cases "ld_alloc env ?va ?n (m, k)")
    from inv env section_fits [OF fit False] False al show ?thesis
    proof (rule ld_alloc_cases)
      assume "a = None" "m1 = m"
      then show ?thesis using r held fresh False by (auto simp: place_section_def al)
    next
      fix b assume a: "a = Some b" and h1: "held m m1" and bl: "set (blocks m1) = insert b (set (blocks m))"
        and w: "whole_block b" "virtualAddress b = ?va" "unat ?n \<le> unat (csize b)"
        and new: "?va \<notin> virtualAddress ` set (blocks m)" and ap: "\<forall>d\<in>set (blocks m). apart_r b d"
      have new0: "?va \<notin> virtualAddress ` set (blocks m0)" using new held by (auto simp: held_def)
      show ?thesis
      proof (cases "s_SizeOfRawData s > 0 \<and> unat (s_PointerToRawData s) + unat (s_SizeOfRawData s) > length buf")
        case True
        then have "r = Truncated" "bs' = bs" "m' = fst (ld_free env ?va (m1, k1))"
          using r False by (auto simp: place_section_def al a)
        then show ?thesis using held_free [OF held_trans [OF held h1] new0, of env k1] fresh by simp
      next
        case False2: False
        let ?m2 = "m1\<lparr>hmem := fill_section buf s (realAddress b) ?n (hmem m1)\<rparr>"
        have R: "r = Placed" "bs' = bs @ [\<lparr>bi_vaddr = ?va, bi_size = ?n, bi_block = b\<rparr>]" "m' = ?m2"
          using r False False2 by (auto simp: place_section_def al a Let_def)
        have F: "hmem m' q = (if unat (q - realAddress b) < unat ?n then section_byte buf s (unat (q - realAddress b))
            else hmem m1 q)" for q
          using fill_section_byte [of ?n s buf "realAddress b" "hmem m1" q] False2 by (auto simp: R(3))
        have "hmem m' q = hmem m1 q" if "d \<in> set (blocks m)" "within d q" for d q
        proof -
          have "whole_block d" using inv that(1) by (simp add: region_inv_def)
          then have "\<not> within b q" using within_apart [OF w(1)] ap that by blast
          then show ?thesis using w(3) by (simp add: F within_def)
        qed
        moreover have "region_inv m'" using held_inv [OF h1] by (simp add: R(3) region_inv_def)
        ultimately have h2: "held m m'" using h1 bl by (auto simp: held_def R(3))
        have "hmem m' (realAddress b + of_nat j) = section_byte buf s j" if "j < unat ?n" for j
          using that unat32_lt [of ?n] by (simp add: F unat_of_nat)
        then have "placed buf base s m'"
          using w bl by (auto simp: placed_def R(3))
        moreover have "fresh_blocks m0 bs'" using fresh new0 by (auto simp: fresh_blocks_def R(2))
        ultimately show ?thesis using held_trans [OF held h2] h2 by simp
      qed
    qed
  qed
  then show "held m0 m'" "fresh_blocks m0 bs'" "r = Placed \<Longrightarrow> held m m' \<and> placed buf base s m'" by auto
qed

lemma place_sections_held:
  assumes "held m0 m" "fresh_blocks m0 bs" "hosts_ok env" "unat base \<le> 2 ^ 31" "sections_fit buf nt is"
    and "place_sections env buf nt base is (bs, m, k) = Some (r, bs', m', k')"
  shows "held m0 m' \<and> fresh_blocks m0 bs'
    \<and> (r = Placed \<longrightarrow> held m m' \<and> (\<forall>i\<in>set is. \<exists>s. section_at buf nt i = Some s \<and> placed buf base s m'))"
  using assms
proof (induction "is" arbitrary: bs m k)
  case Nil
  then show ?case using held_inv held_refl by auto
next
  case (Cons i "is")
  obtain s where s: "section_at buf nt i = Some s" using Cons.prems(6) by (auto split: Option.bind_splits)
  obtain r1 bs1 m1 k1 where p: "place_section env buf base s (bs, m, k) = (r1, bs1, m1, k1)"
    by (cases "place_section env buf base s (bs, m, k)") auto
  have f: "unat (s_VirtualAddress s) + unat (section_size s) \<le> 2 ^ 31" and fs: "sections_fit buf nt is"
    using Cons.prems(5) s by (auto simp: sections_fit_def)
  note P = place_section_held [OF Cons.prems(1-4) f p]
  show ?case
  proof (cases "r1 = Placed")
    case False
    then have "(r, bs', m', k') = (r1, bs1, m1, k1)" using Cons.prems(6) by (cases r1) (auto simp: s p)
    then show ?thesis using P False by simp
  next
    case True
    then have "place_sections env buf nt base is (bs1, m1, k1) = Some (r, bs', m', k')"
      using Cons.prems(6) by (simp add: s p)
    note IH = Cons.IH [OF P(1,2) Cons.prems(3,4) fs this]
    then show ?thesis using P(3) [OF True] s placed_held held_trans held_inv [OF P(1)] by fastforce
  qed
qed

section \<open>The choice of the base\<close>

lemma base_fits_held:
  assumes "held m0 m" "hosts_ok env" "unat base \<le> 2 ^ 31" "sections_fit buf nt is"
    and "base_fits env buf nt base is (m, k) = Some (ok, m', k')"
  shows "held m0 m'"
  using assms
proof (induction "is" arbitrary: m k)
  case (Cons i "is")
  obtain s where s: "section_at buf nt i = Some s" using Cons.prems(5) by (auto split: Option.bind_splits)
  have f: "unat (s_VirtualAddress s) + unat (section_size s) \<le> 2 ^ 31" and fs: "sections_fit buf nt is"
    using Cons.prems(4) s by (auto simp: sections_fit_def)
  let ?va = "base + s_VirtualAddress s"
  note rest = Cons.IH [OF _ Cons.prems(2,3) fs]
  show ?case
  proof (cases "section_size s = 0")
    case True
    then show ?thesis using rest [OF Cons.prems(1)] Cons.prems(5) by (simp add: s)
  next
    case False
    obtain a m1 k1 where al: "ld_alloc env ?va (section_size s) (m, k) = (a, m1, k1)"
      by (cases "ld_alloc env ?va (section_size s) (m, k)")
    from held_inv [OF Cons.prems(1)] Cons.prems(2) section_fits [OF Cons.prems(3) f False] False al show ?thesis
    proof (rule ld_alloc_cases)
      assume "a = None" "m1 = m"
      then show ?thesis using Cons.prems(1,5) False by (simp add: s al)
    next
      fix b assume a: "a = Some b" and h1: "held m m1" and new: "?va \<notin> virtualAddress ` set (blocks m)"
      have new0: "?va \<notin> virtualAddress ` set (blocks m0)" using new Cons.prems(1) by (auto simp: held_def)
      obtain m2 k2 where fr: "ld_free env ?va (m1, k1) = (m2, k2)" by (cases "ld_free env ?va (m1, k1)")
      have "held m0 m2" using held_free [OF held_trans [OF Cons.prems(1) h1] new0, of env k1] by (simp add: fr)
      then show ?thesis using rest Cons.prems(5) False by (simp add: s al a fr)
    qed
  qed
qed simp

lemma find_base_held:
  assumes "held m0 m" "hosts_ok env" "sections_fit buf nt is" "\<forall>c\<in>set cs. unat c \<le> 2 ^ 31"
    and "find_base env buf nt is cs (m, k) = Some (found, m', k')"
  shows "held m0 m' \<and> (\<forall>c. found = Some c \<longrightarrow> unat c \<le> 2 ^ 31)"
  using assms
proof (induction cs arbitrary: m k)
  case (Cons c cs)
  obtain ok m1 k1 where b: "base_fits env buf nt c is (m, k) = Some (ok, m1, k1)"
    using Cons.prems(5) by (auto split: Option.bind_splits)
  have "held m0 m1" using base_fits_held [OF Cons.prems(1,2) _ Cons.prems(3) b] Cons.prems(4) by simp
  then show ?case using Cons.IH [of m1 k1] Cons.prems by (cases ok) (auto simp: b)
qed simp

lemma base_candidates_low: "\<forall>c\<in>set base_candidates. unat c \<le> 2 ^ 31"
proof
  fix c assume "c \<in> set base_candidates"
  then obtain i :: nat where i: "i < 0x400" "c = 0x20000000 + of_nat i * 0x00100000" by (auto simp: base_candidates_def)
  have "c = of_nat (0x20000000 + i * 0x00100000)" by (simp add: i(2))
  then have "unat c \<le> 0x20000000 + i * 0x00100000" by (simp only: unat_of_nat mod_less_eq_dividend)
  moreover have "0x20000000 + i * 0x00100000 \<le> 2 ^ 31" using i(1) by simp
  ultimately show "unat c \<le> 2 ^ 31" by (rule order_trans)
qed

text \<open>From blocks to guest addresses.\<close>

lemma placed_guest:
  assumes inv: "region_inv m" and p: "placed buf base s m" and j: "j < unat (section_size s)"
  shows "hmem m (GetRealAddr m (base + s_VirtualAddress s + of_nat j)) = section_byte buf s j"
    "isVAddrAllocated m (base + s_VirtualAddress s + of_nat j)"
proof -
  let ?va = "base + s_VirtualAddress s"
  have "section_size s \<noteq> 0" using j by auto
  then obtain b where b: "b \<in> set (blocks m)" "virtualAddress b = ?va" "unat (section_size s) \<le> unat (csize b)"
    "hmem m (realAddress b + of_nat j) = section_byte buf s j" using p j by (auto simp: placed_def)
  have w: "whole_block b" using inv b(1) by (simp add: region_inv_def)
  then have "unat ?va + unat (csize b) \<le> 2 ^ 32" using b(2) by (simp add: whole_block_def fits_def)
  then have u: "unat (?va + of_nat j) = unat ?va + j"
    using j b(3) unat32_lt [of "section_size s"] by (subst unat_add_small) (simp_all add: unat_of_nat)
  have c: "MemoryBlock_ContainsVAddr b (?va + of_nat j)" using j b(2,3) by (simp add: whole_ContainsVAddr [OF w] u)
  show "hmem m (GetRealAddr m (?va + of_nat j)) = section_byte buf s j"
    unfolding GetRealAddr_within(1) [OF inv b(1) c] using b(2,4) by (simp only: u) simp
  show "isVAddrAllocated m (?va + of_nat j)" using b(1) c by (auto simp: isVAddrAllocated_def list_ex_iff)
qed

text \<open>The state in which the sections are in place: relocation then works on its memory \<open>h\<close>.\<close>

lemma place_image_held:
  assumes inv: "region_inv m" and env: "hosts_ok env" and pref: "unat preferred \<le> 2 ^ 31" and fit: "sections_fit buf nt is"
    and r: "place_image env buf nt preferred is ([], m, k) = Some (ERROR_OK, base, bs, m', k')"
  obtains h where "held m (m'\<lparr>hmem := h\<rparr>)"
    "\<forall>i\<in>set is. \<exists>s. section_at buf nt i = Some s \<and> placed buf base s (m'\<lparr>hmem := h\<rparr>)"
    "if base = preferred then hmem m' = h
     else \<exists>dir. data_directory 5 buf nt = Some dir
       \<and> ApplyRelocations bs base dir (base - preferred) h = Some (Some (hmem m'))"
proof -
  note h0 = held_refl [OF inv]
  have f0: "fresh_blocks m []" by (simp add: fresh_blocks_def)
  obtain p bs1 m1 k1 where p: "place_sections env buf nt preferred is ([], m, k) = Some (p, bs1, m1, k1)"
    using r by (auto simp: place_image_def split: Option.bind_splits)
  note P = place_sections_held [OF h0 f0 env pref fit p]
  show thesis
  proof (cases p)
    case Placed
    then show thesis using P r that [of "hmem m'"] by (auto simp: place_image_def p)
  next
    case Truncated
    then show thesis using r by (simp add: place_image_def p)
  next
    case NoSpace
    obtain m2 k2 where fr: "free_blocks env bs1 (m1, k1) = (m2, k2)" by (cases "free_blocks env bs1 (m1, k1)")
    have h2: "held m m2" using held_free_blocks [of m m1 bs1 env k1] P by (simp add: fr fresh_blocks_def)
    have e: "place_elsewhere env buf nt preferred is (m2, k2) = Some (ERROR_OK, base, bs, m', k')"
      using r NoSpace by (simp add: place_image_def p fr)
    obtain found m3 k3 where fb: "find_base env buf nt is base_candidates (m2, k2) = Some (found, m3, k3)"
      using e by (auto simp: place_elsewhere_def split: Option.bind_splits)
    note F = find_base_held [OF h2 env fit base_candidates_low fb]
    obtain b where b: "found = Some b" using e by (auto simp: place_elsewhere_def fb split: option.splits)
    obtain p' bs' m4 k4 where p': "place_sections env buf nt b is ([], m3, k3) = Some (p', bs', m4, k4)"
      using e by (auto simp: place_elsewhere_def fb b split: Option.bind_splits)
    note Q = place_sections_held [OF conjunct1 [OF F] f0 env _ fit p']
    have pl: "p' = Placed" using e by (cases p') (auto simp: place_elsewhere_def fb b p')
    obtain dir rel where d: "data_directory 5 buf nt = Some dir"
      "ApplyRelocations bs' b dir (b - preferred) (hmem m4) = Some rel"
      using e by (auto simp: place_elsewhere_def fb b p' pl split: Option.bind_splits)
    obtain h where h: "rel = Some h" using e by (auto simp: place_elsewhere_def fb b p' pl d split: option.splits)
    have E: "base = b" "bs = bs'" "m' = m4\<lparr>hmem := h\<rparr>" "k' = k4"
      using e by (auto simp: place_elsewhere_def fb b p' pl d h)
    show thesis
    proof (rule that [of "hmem m4"])
      show "if base = preferred then hmem m' = hmem m4
        else \<exists>dir. data_directory 5 buf nt = Some dir
          \<and> ApplyRelocations bs base dir (base - preferred) (hmem m4) = Some (Some (hmem m'))"
        using d(2) by (auto simp: E d(1) h ApplyRelocations_def)
    qed (use Q F b pl in \<open>auto simp: E\<close>)
  qed
qed

text \<open>
  C28. A placed image shows the file.  When \<open>place_image\<close> succeeds, at the preferred base or at another
  one, every section of the file is mapped at its address relative to the base the loader reports and each
  of its bytes is the file's, or zero behind the raw data; the final memory is that memory, or at another
  base the result of relocating it.  Everything mapped before keeps its host address and, but for the
  relocations, its contents.
\<close>

theorem sections_hold_file:
  assumes "region_inv m" "hosts_ok env" "unat preferred \<le> 2 ^ 31" "sections_fit buf nt is"
    and "place_image env buf nt preferred is ([], m, k) = Some (ERROR_OK, base, bs, m', k')"
  shows "region_inv m' \<and> (\<exists>h.
      (if base = preferred then hmem m' = h
       else \<exists>dir. data_directory 5 buf nt = Some dir
         \<and> ApplyRelocations bs base dir (base - preferred) h = Some (Some (hmem m')))
    \<and> (\<forall>v. isVAddrAllocated m v \<longrightarrow>
         GetRealAddr m' v = GetRealAddr m v \<and> h (GetRealAddr m' v) = hmem m (GetRealAddr m v))
    \<and> (\<forall>i\<in>set is. \<exists>s. section_at buf nt i = Some s \<and> (\<forall>j<unat (section_size s).
         isVAddrAllocated m' (base + s_VirtualAddress s + of_nat j)
         \<and> h (GetRealAddr m' (base + s_VirtualAddress s + of_nat j)) = section_byte buf s j)))"
proof -
  obtain h where h: "held m (m'\<lparr>hmem := h\<rparr>)"
    "\<forall>i\<in>set is. \<exists>s. section_at buf nt i = Some s \<and> placed buf base s (m'\<lparr>hmem := h\<rparr>)"
    "if base = preferred then hmem m' = h else \<exists>dir. data_directory 5 buf nt = Some dir
       \<and> ApplyRelocations bs base dir (base - preferred) h = Some (Some (hmem m'))"
    by (rule place_image_held [OF assms])
  let ?m = "m'\<lparr>hmem := h\<rparr>"
  have same: "GetRealAddr ?m v = GetRealAddr m' v" "isVAddrAllocated ?m v = isVAddrAllocated m' v" for v
    by (simp_all add: GetRealAddr_def isVAddrAllocated_def)
  note inv = held_inv [OF h(1)]
  have "region_inv m'" using inv by (simp add: region_inv_def)
  moreover have "GetRealAddr m' v = GetRealAddr m v \<and> h (GetRealAddr m' v) = hmem m (GetRealAddr m v)"
    if "isVAddrAllocated m v" for v
    using held_guest [OF assms(1) h(1) that] by (simp add: same)
  moreover have "isVAddrAllocated m' (base + s_VirtualAddress s + of_nat j)
      \<and> h (GetRealAddr m' (base + s_VirtualAddress s + of_nat j)) = section_byte buf s j"
    if "placed buf base s ?m" "j < unat (section_size s)" for s j
    using placed_guest [OF inv that] by (simp add: same)
  ultimately show ?thesis using h(2,3) by (intro conjI exI [of _ h]) blast+
qed

text \<open>A file with one section: three bytes at 0x1000, two of them in the file.\<close>

definition demo_sections_pe :: "byte list" where
  "demo_sections_pe = (replicate 354 0)[0 := 0x4D, 1 := 0x5A, 60 := 64, 64 := 0x50, 65 := 0x45, 70 := 1, 84 := 0xE0,
     88 := 0x0B, 89 := 1, 119 := 0x51, 145 := 0x20, 320 := 3, 325 := 0x10, 328 := 2, 332 := 0x60, 333 := 1,
     352 := 7, 353 := 8]"

definition demo_section :: section_header where
  "demo_section = \<lparr>s_VirtualSize = 3, s_VirtualAddress = 0x1000, s_SizeOfRawData = 2, s_PointerToRawData = 352\<rparr>"

definition demo_sections_env :: loader_env where
  "demo_sections_env = \<lparr>hosts = (\<lambda>k m. if blocks m = blocks demo_mm then demo_host2
       else demo_host2\<lparr>calloc_r := (\<lambda>n. 0), uc_map := (\<lambda>v s r. False)\<rparr>),
     host_file = (\<lambda>p. Some demo_sections_pe)\<rparr>"

lemma demo_section_headers:
  "check_headers demo_sections_pe = Some (Inr 64)" "image_base demo_sections_pe 64 = Some 0x51000000"
  "number_of_sections demo_sections_pe 64 = Some 1" "section_at demo_sections_pe 64 0 = Some demo_section"
  by code_simp+

lemma demo_section_size: "section_size demo_section = 3"
  by (simp add: section_size_def demo_section_def)

lemma demo_hosts_ok: "hosts_ok demo_sections_env"
  using demo_host2_ok by (auto simp: hosts_ok_def demo_sections_env_def host_ok_def)

lemma demo_placed:
  "\<exists>bs m' k'. place_image demo_sections_env demo_sections_pe 64 0x51000000 [0] ([], demo_mm, 0)
     = Some (ERROR_OK, 0x51000000, bs, m', k')"
proof -
  have p: "vp ((sz 3 + sz PAGE_SIZE - 1) div sz PAGE_SIZE) = 1" "PAGE_SIZE \<noteq> 0" "sz 3 \<noteq> 0"
    by (simp_all add: PAGE_SIZE_def sz_def vp_def)
  have "\<not> OverlapsAnyMappedBlock demo_mm 0x51001000 (sz 3)"
    by (simp add: OverlapsAnyMappedBlock_def demo_blocks RangeOverlaps_def heap_pages Let_def
        MEM_DYNAMIC_HEAP_BASE_def MEM_DYNAMIC_HEAP_SIZE_def sz_def PAGE_SIZE_def)
  then obtain b m' where a: "ld_alloc demo_sections_env 0x51001000 3 (demo_mm, 0) = (Some b, m', 1)"
    using p by (simp add: ld_alloc_def StaticAlloc_def Let_def demo_sections_env_def demo_host2_def)
  have "length demo_sections_pe = 354" by (simp add: demo_sections_pe_def)
  then show ?thesis
    using a by (simp add: place_image_def demo_section_headers place_section_def demo_section_size Let_def)
      (simp add: demo_section_def)
qed

theorem sections_hold_file_witness:
  "\<exists>bs m' k'. place_image demo_sections_env demo_sections_pe 64 0x51000000 [0] ([], demo_mm, 0)
       = Some (ERROR_OK, 0x51000000, bs, m', k')
     \<and> hmem m' (GetRealAddr m' 0x51001001) = 8 \<and> hmem m' (GetRealAddr m' 0x51001002) = 0"
proof -
  obtain bs m' k' where r: "place_image demo_sections_env demo_sections_pe 64 0x51000000 [0] ([], demo_mm, 0)
     = Some (ERROR_OK, 0x51000000, bs, m', k')" using demo_placed by blast
  have fit: "sections_fit demo_sections_pe 64 [0]"
    by (simp add: sections_fit_def demo_section_headers demo_section_size) (simp add: demo_section_def)
  have "unat (0x51000000 :: u32) \<le> 2 ^ 31" by simp
  from sections_hold_file [OF hinvD(1) [OF demo_hinv] demo_hosts_ok this fit r]
  have B: "\<forall>j<3. hmem m' (GetRealAddr m' (0x51001000 + of_nat j)) = section_byte demo_sections_pe demo_section j"
    by (simp add: demo_section_headers demo_section_size) (simp add: demo_section_def)
  have "section_byte demo_sections_pe demo_section 1 = 8" "section_byte demo_sections_pe demo_section 2 = 0"
    by (simp_all add: section_byte_def demo_section_def demo_sections_pe_def)
  then show ?thesis using r B [rule_format, of 1] B [rule_format, of 2] by auto
qed

end
