(* ===== verification/ExportProps.thy ===== *)
theory ExportProps
  imports LoaderProps
begin

text \<open>
  The export table of an image: after \<open>ParseAndFillExports\<close> both maps are exactly the tables of the
  directory, so an import by ordinal or by name finds the address the directory gives.
\<close>

section \<open>The tables of the directory\<close>

text \<open>
  The functions from \<open>f\<close> on under ordinals counted from \<open>Base\<close>; and for the names whose address is in
  the image, the function of the ordinal index beside the name.
\<close>

definition ordinal_table :: "u32 \<Rightarrow> RealPtr \<Rightarrow> RealPtr \<Rightarrow> hmemory \<Rightarrow> (u32 \<times> u32) list" where
  "ordinal_table base e f h =
     map (\<lambda>i. (load_u32 h (e + 16) + of_nat i, base + load_u32 h (f + 4 * of_nat i))) [0..<unat (load_u32 h (e + 20))]"

definition name_entry ::
  "BlockInfo list \<Rightarrow> u32 \<Rightarrow> RealPtr \<Rightarrow> RealPtr \<Rightarrow> RealPtr \<Rightarrow> hmemory \<Rightarrow> nat \<Rightarrow> (string \<times> u32) option" where
  "name_entry bs base f ns os h i =
     map_option (\<lambda>p. (read_cstr h p, base + load_u32 h (f + 4 * ucast (load_u16 h (os + 2 * of_nat i)))))
       (HostPtrForVA bs (base + load_u32 h (ns + 4 * of_nat i)))"

definition name_table ::
  "BlockInfo list \<Rightarrow> u32 \<Rightarrow> RealPtr \<Rightarrow> RealPtr \<Rightarrow> RealPtr \<Rightarrow> RealPtr \<Rightarrow> hmemory \<Rightarrow> (string \<times> u32) list" where
  "name_table bs base e f ns os h =
     List.map_filter (name_entry bs base f ns os h) [0..<unat (load_u32 h (e + 24))]"

section \<open>The two loops\<close>

lemma fill_ordinals_table:
  "map_of (exportsByOrdinal (fill_ordinals base ord f h is img))
     = map_of (exportsByOrdinal img) ++ map_of (rev (map (\<lambda>i. (ord + of_nat i, base + load_u32 h (f + 4 * of_nat i))) is))"
  "pe_blocks (fill_ordinals base ord f h is img) = pe_blocks img"
  "exportsByName (fill_ordinals base ord f h is img) = exportsByName img"
  "actualImageBase (fill_ordinals base ord f h is img) = actualImageBase img"
  by (induction base ord f h "is" img rule: fill_ordinals.induct) (simp_all add: map_of_um_set map_add_upd_left)

lemma fill_names_table:
  assumes "om_ok (exportsByName img)"
    and "fill_names base (Some f) ns os h is img = Some img'"
  shows "map_of (exportsByName img') = map_of (exportsByName img)
      ++ map_of (rev (List.map_filter (name_entry (pe_blocks img) base f ns os h) is))
    \<and> om_ok (exportsByName img') \<and> exportsByOrdinal img' = exportsByOrdinal img \<and> pe_blocks img' = pe_blocks img"
  using assms
proof (induction "is" arbitrary: img)
  case (Cons i "is")
  show ?case
  proof (cases "HostPtrForVA (pe_blocks img) (base + load_u32 h (ns + 4 * of_nat i))")
    case None
    then show ?thesis using Cons.IH [of img] Cons.prems by (simp add: name_entry_def map_filter_simps)
  next
    case (Some p)
    let ?v = "base + load_u32 h (f + 4 * ucast (load_u16 h (os + 2 * of_nat i)))"
    let ?img = "img\<lparr>exportsByName := om_set (read_cstr h p) ?v (exportsByName img)\<rparr>"
    have "fill_names base (Some f) ns os h is ?img = Some img'" using Cons.prems(2) Some by simp
    moreover have "om_ok (exportsByName ?img)" using Cons.prems(1) by (simp add: om_set_sorted)
    ultimately show ?thesis using Cons.IH [of ?img] Cons.prems(1) Some
      by (auto simp: name_entry_def map_filter_simps map_of_om_set map_add_def fun_eq_iff split: option.splits)
  qed
qed (simp add: map_filter_simps)

lemma fill_names_total: "\<exists>img'. fill_names base (Some f) ns os h is img = Some img'"
  by (induction "is" arbitrary: img) (auto split: option.splits)

text \<open>
  C29. The export maps are the export directory.  For an image without exports so far, whose directory
  and three tables lie in its blocks, \<open>ParseAndFillExports\<close> succeeds; looking up an ordinal in the result
  gives exactly what the table of functions has under it, and looking up a name what the last entry of
  that name in the table of names gives.  Hence a thunk by ordinal resolves to the function with that
  ordinal and a thunk by name to the function with that name.
\<close>

theorem exports_exact:
  assumes dir: "snd dir \<noteq> 0" and fresh: "exportsByName img = []" "exportsByOrdinal img = []"
    and tables: "HostPtrForVA (pe_blocks img) (actualImageBase img + fst dir) = Some e"
      "HostPtrForVA (pe_blocks img) (actualImageBase img + load_u32 h (e + 28)) = Some f"
      "HostPtrForVA (pe_blocks img) (actualImageBase img + load_u32 h (e + 32)) = Some ns"
      "HostPtrForVA (pe_blocks img) (actualImageBase img + load_u32 h (e + 36)) = Some os"
  shows "\<exists>img'. ParseAndFillExports dir h img = Some img' \<and> pe_blocks img' = pe_blocks img
    \<and> map_of (exportsByOrdinal img') = map_of (ordinal_table (actualImageBase img) e f h)
    \<and> map_of (exportsByName img') = map_of (rev (name_table (pe_blocks img) (actualImageBase img) e f ns os h))
    \<and> (t AND 0x80000000 \<noteq> 0 \<longrightarrow> resolve_thunk user (Some img') t h'
         = map_of (ordinal_table (actualImageBase img) e f h) (t AND 0xFFFF))
    \<and> (t AND 0x80000000 = 0 \<longrightarrow> resolve_thunk user (Some img') t h'
         = Option.bind (HostPtrForVA (pe_blocks user) (actualImageBase user + t))
             (\<lambda>p. map_of (rev (name_table (pe_blocks img) (actualImageBase img) e f ns os h)) (read_cstr h' (p + 2))))"
proof -
  let ?base = "actualImageBase img"
  let ?img1 = "fill_ordinals ?base (load_u32 h (e + 16)) f h [0..<unat (load_u32 h (e + 20))] img"
  obtain img' where F: "fill_names ?base (Some f) ns os h [0..<unat (load_u32 h (e + 24))] ?img1 = Some img'"
    using fill_names_total by blast
  have "om_ok (exportsByName ?img1)" by (simp add: fill_ordinals_table fresh om_ok_def)
  note N = fill_names_table [OF this F]
  have P: "ParseAndFillExports dir h img = Some img'"
    using dir F by (simp add: ParseAndFillExports_def tables)
  have "inj_on (\<lambda>i. load_u32 h (e + 16) + of_nat i) (set [0..<unat (load_u32 h (e + 20))])"
    using unat32_lt [of "load_u32 h (e + 20)"]
    by (intro inj_onI) (auto simp: word_of_nat_eq_iff take_bit_nat_eq_self)
  then have "distinct (map fst (ordinal_table ?base e f h))"
    by (simp add: ordinal_table_def distinct_map comp_def)
  then have rev: "map_of (rev (ordinal_table ?base e f h)) = map_of (ordinal_table ?base e f h)"
    by (intro map_of_inject_set [THEN iffD2]) (simp_all add: rev_map [symmetric])
  have O: "map_of (exportsByOrdinal img') = map_of (ordinal_table ?base e f h)"
    using N rev by (simp add: fill_ordinals_table fresh ordinal_table_def)
  have S: "map_of (exportsByName img') = map_of (rev (name_table (pe_blocks img) ?base e f ns os h))"
    using N by (simp add: fill_ordinals_table fresh name_table_def)
  show ?thesis using P N O S by (auto simp: resolve_thunk_def fill_ordinals_table)
qed

text \<open>A directory with one function, ordinal 7, under the name f; the image imports it from itself.\<close>

definition demo_exporter :: PEImage where
  "demo_exporter = PEImage_new\<lparr>actualImageBase := 0x400000, pe_blocks := demo_image\<rparr>"

definition demo_exports :: hmemory where
  "demo_exports = (\<lambda>_. 0)(0x11010 := 7, 0x11014 := 1, 0x11018 := 1, 0x1101C := 0x40, 0x1101D := 0x10,
     0x11020 := 0x50, 0x11021 := 0x10, 0x11024 := 0x60, 0x11025 := 0x10, 0x11040 := 0x10,
     0x11050 := 0x70, 0x11051 := 0x10, 0x11070 := 0x66)"

theorem exports_exact_witness:
  "\<exists>img'. ParseAndFillExports (0x1000, 40) demo_exports demo_exporter = Some img'
     \<and> resolve_thunk demo_exporter (Some img') 0x80000007 demo_exports = Some 0x400010
     \<and> resolve_thunk demo_exporter (Some img') 0x106E demo_exports = Some 0x400010"
proof -
  let ?img = demo_exporter and ?h = demo_exports
  note E = demo_exporter_def PEImage_new_def demo_image_def HostPtrForVA_def FindBlockForVA_def
    load_u32_def load_word_bytes sz_def demo_exports_def
  have d: "load_u32 ?h (0x11000 + 16) = 7" "load_u32 ?h (0x11000 + 20) = 1" "load_u32 ?h (0x11000 + 24) = 1"
    "load_u32 ?h (0x11000 + 28) = 0x1040" "load_u32 ?h (0x11000 + 32) = 0x1050" "load_u32 ?h (0x11000 + 36) = 0x1060"
    "load_u32 ?h 0x11040 = 0x10" "load_u32 ?h 0x11050 = 0x1070" "load_u16 ?h 0x11060 = 0"
    by (simp_all add: E load_u16_def)
  have p: "\<forall>x\<in>{0x1000, 0x1040, 0x1050, 0x1060, 0x106E, 0x1070}.
      HostPtrForVA (pe_blocks ?img) (actualImageBase ?img + x) = Some (0x10000 + sz x)" by (simp add: E)
  have "char_of (0x66 :: nat) = CHR ''f''" by code_simp
  then have n: "read_cstr ?h 0x11070 = ''f''" by (simp add: read_cstr.simps demo_exports_def)
  have O: "ordinal_table 0x400000 0x11000 0x11040 ?h = [(7, 0x400010)]"
    by (simp add: ordinal_table_def d [simplified])
  have N: "name_table (pe_blocks ?img) 0x400000 0x11000 0x11040 0x11050 0x11060 ?h = [(''f'', 0x400010)]"
    using p by (simp add: name_table_def name_entry_def d [simplified] map_filter_simps n
        sz_def demo_exporter_def)
  show ?thesis
    using exports_exact [of "(0x1000, 40)" ?img "0x11000" ?h "0x11040" "0x11050" "0x11060" "0x80000007" ?img ?h]
      exports_exact [of "(0x1000, 40)" ?img "0x11000" ?h "0x11040" "0x11050" "0x11060" "0x106E" ?img ?h]
      p d O N n
    by (auto simp: sz_def demo_exporter_def PEImage_new_def)
qed

end
