(* ===== verification/Profile.thy ===== *)
theory Profile
  imports VFiles
begin

text \<open>
  Profile files, the guest's settings (\<open>_GetPrivateProfileString\<close> and \<open>_SetPrivateProfileString\<close>,
  PrimU/system.cpp 567-832).  The reader opens the file in binary mode, drops everything behind a
  null byte and trims sections, keys and values; the writer goes through text streams and compares
  lines as they are.  Each has its own classification of a line, the loop bodies of the code.
\<close>

section \<open>Lines\<close>

datatype line_kind = Skip | Header string | Entry string string

text \<open>The part before and behind the first \<open>=\<close>, when there is one.\<close>

definition split_eq :: "string \<Rightarrow> (string \<times> string) option" where
  "split_eq l = (if CHR ''='' \<in> set l
     then Some (takeWhile (\<lambda>c. c \<noteq> CHR ''='') l, tl (dropWhile (\<lambda>c. c \<noteq> CHR ''='') l)) else None)"

abbreviation is_comment :: "string \<Rightarrow> bool" where
  "is_comment l \<equiv> hd l = CHR '';'' \<or> hd l = CHR ''#''"

abbreviation is_header :: "string \<Rightarrow> bool" where
  "is_header l \<equiv> hd l = CHR ''['' \<and> last l = CHR '']''"

definition get_kind :: "string \<Rightarrow> line_kind" where
  "get_kind line =
     (let l = trim line
      in if l = [] \<or> is_comment l then Skip
         else if is_header l then Header (trim (butlast (tl l)))
         else case split_eq l of None \<Rightarrow> Skip | Some (k, v) \<Rightarrow> Entry (trim k) (trim v))"

definition set_kind :: "string \<Rightarrow> line_kind" where
  "set_kind l =
     (if l = [] \<or> is_comment l then Skip
      else if is_header l then Header (butlast (tl l))
      else case split_eq l of None \<Rightarrow> Skip | Some (k, v) \<Rightarrow> Entry k v)"

section \<open>Reading a value\<close>

abbreviation is_eol :: "char \<Rightarrow> bool" where
  "is_eol c \<equiv> c = CHR 0x0D \<or> c = CHR 0x0A"

text \<open>The lines between runs of line ends (\<open>find_first_of\<close>, \<open>find_first_not_of\<close>).\<close>

function ini_lines :: "string \<Rightarrow> string list" where
  "ini_lines s =
     (if s = [] then []
      else takeWhile (\<lambda>c. \<not> is_eol c) s # ini_lines (dropWhile is_eol (dropWhile (\<lambda>c. \<not> is_eol c) s)))"
  by pat_completeness auto
termination
proof (relation "measure length")
  fix s :: string assume s: "s \<noteq> []"
  have "length (dropWhile is_eol (dropWhile (\<lambda>c. \<not> is_eol c) s)) < length s"
  proof (cases "is_eol (hd s)")
    case True
    with s have "dropWhile is_eol (dropWhile (\<lambda>c. \<not> is_eol c) s) = dropWhile is_eol (tl s)"
      by (cases s) auto
    then show ?thesis using s length_dropWhile_le [of is_eol "tl s"] by (cases s) auto
  next
    case False
    with s have "dropWhile (\<lambda>c. \<not> is_eol c) s = dropWhile (\<lambda>c. \<not> is_eol c) (tl s)"
      by (cases s) auto
    then show ?thesis
      using s length_dropWhile_le [of is_eol "dropWhile (\<lambda>c. \<not> is_eol c) (tl s)"]
        length_dropWhile_le [of "\<lambda>c. \<not> is_eol c" "tl s"] by (cases s) auto
  qed
  then show "(dropWhile is_eol (dropWhile (\<lambda>c. \<not> is_eol c) s), s) \<in> measure length" by simp
qed simp

declare ini_lines.simps [simp del]

fun profile_find :: "string \<Rightarrow> string \<Rightarrow> bool \<Rightarrow> string list \<Rightarrow> string" where
  "profile_find section key inSection [] = []"
| "profile_find section key inSection (l # ls) =
     (case get_kind l of
        Skip \<Rightarrow> profile_find section key inSection ls
      | Header n \<Rightarrow> profile_find section key (n = section) ls
      | Entry k v \<Rightarrow> if inSection \<and> k = key then v else profile_find section key inSection ls)"

text \<open>The value in a file with the given bytes; empty when there is none.\<close>

definition profile_get :: "string \<Rightarrow> string \<Rightarrow> string \<Rightarrow> string" where
  "profile_get content section key =
     profile_find section key (section = []) (ini_lines (takeWhile (\<lambda>c. c \<noteq> CHR 0x00) content))"

section \<open>Changing a file\<close>

text \<open>
  Text mode: a carriage return before a line feed disappears and the byte 0x1A ends the file.  Then
  \<open>std::getline\<close> and the removal of one carriage return.
\<close>

fun text_mode :: "string \<Rightarrow> string" where
  "text_mode [] = []"
| "text_mode [c] = (if c = CHR 0x1A then [] else [c])"
| "text_mode (c # d # s) =
     (if c = CHR 0x1A then []
      else if c = CHR 0x0D \<and> d = CHR 0x0A then d # text_mode s
      else c # text_mode (d # s))"

function getlines :: "string \<Rightarrow> string list" where
  "getlines s =
     (if s = [] then []
      else takeWhile (\<lambda>c. c \<noteq> CHR 0x0A) s # getlines (tl (dropWhile (\<lambda>c. c \<noteq> CHR 0x0A) s)))"
  by pat_completeness auto
termination
proof (relation "measure length")
  fix s :: string assume "s \<noteq> []"
  then show "(tl (dropWhile (\<lambda>c. c \<noteq> CHR 0x0A) s), s) \<in> measure length"
    using length_dropWhile_le [of "\<lambda>c. c \<noteq> CHR 0x0A" s] by (cases s) (auto simp: le_diff_conv)
qed simp

declare getlines.simps [simp del]

definition drop_cr :: "string \<Rightarrow> string" where
  "drop_cr l = (if l \<noteq> [] \<and> last l = CHR 0x0D then butlast l else l)"

definition file_lines :: "string \<Rightarrow> string list" where
  "file_lines content = map drop_cr (getlines (text_mode content))"

text \<open>The search for the section and the key; -1 is \<open>None\<close>.\<close>

record profile_scan =
  sectionStartLine :: "nat option"
  keyLine :: "nat option"
  sectionEndLine :: "nat option"
  inSection :: bool

definition scan_line :: "string \<Rightarrow> string option \<Rightarrow> nat \<Rightarrow> string \<Rightarrow> profile_scan \<Rightarrow> profile_scan" where
  "scan_line app key i l sc =
     (case set_kind l of
        Skip \<Rightarrow> sc
      | Header n \<Rightarrow>
          (let sc = (if inSection sc then sc\<lparr>sectionEndLine := Some i, inSection := False\<rparr> else sc)
           in if n = app then sc\<lparr>sectionStartLine := Some i, inSection := True\<rparr> else sc)
      | Entry k v \<Rightarrow> if inSection sc \<and> key = Some k then sc\<lparr>keyLine := Some i\<rparr> else sc)"

fun scan_lines :: "string \<Rightarrow> string option \<Rightarrow> nat \<Rightarrow> string list \<Rightarrow> profile_scan \<Rightarrow> profile_scan" where
  "scan_lines app key i [] sc = sc"
| "scan_lines app key i (l # ls) sc = scan_lines app key (Suc i) ls (scan_line app key i l sc)"

definition profile_scan :: "string \<Rightarrow> string option \<Rightarrow> string list \<Rightarrow> profile_scan" where
  "profile_scan app key ls =
     (let sc = scan_lines app key 0 ls
                 \<lparr>sectionStartLine = None, keyLine = None, sectionEndLine = None, inSection = False\<rparr>
      in if inSection sc then sc\<lparr>sectionEndLine := Some (length ls)\<rparr> else sc)"

definition erase_lines :: "nat \<Rightarrow> nat \<Rightarrow> string list \<Rightarrow> string list" where
  "erase_lines i j ls = take i ls @ drop j ls"

definition insert_line :: "nat \<Rightarrow> string \<Rightarrow> string list \<Rightarrow> string list" where
  "insert_line i l ls = take i ls @ l # drop i ls"

text \<open>The edit; \<open>None\<close> is the failing combination of a value without a key.\<close>

definition edit_lines ::
  "string \<Rightarrow> string option \<Rightarrow> string option \<Rightarrow> string list \<Rightarrow> string list option" where
  "edit_lines app key val ls =
     (let sc = profile_scan app key ls
      in case (key, val) of
           (None, None) \<Rightarrow>
             (case sectionStartLine sc of
                None \<Rightarrow> Some ls
              | Some i \<Rightarrow> Some (erase_lines i (the (sectionEndLine sc)) ls))
         | (Some k, None) \<Rightarrow>
             (case keyLine sc of None \<Rightarrow> Some ls | Some i \<Rightarrow> Some (erase_lines i (Suc i) ls))
         | (Some k, Some v) \<Rightarrow>
             let pair = k @ CHR ''='' # v
             in (case keyLine sc of
                   Some i \<Rightarrow> Some (ls[i := pair])
                 | None \<Rightarrow>
                     (case sectionStartLine sc of
                        Some _ \<Rightarrow> Some (insert_line (the (sectionEndLine sc)) pair ls)
                      | None \<Rightarrow> Some (ls @ (if ls \<noteq> [] \<and> last ls \<noteq> [] then [[]] else [])
                                       @ [CHR ''['' # app @ '']'', pair])))
         | (None, Some v) \<Rightarrow> None)"

definition render :: "string list \<Rightarrow> string" where
  "render ls = concat (map (\<lambda>l. l @ [CHR 0x0D, CHR 0x0A]) ls)"

definition profile_set ::
  "string \<Rightarrow> string option \<Rightarrow> string option \<Rightarrow> string \<Rightarrow> string option" where
  "profile_set app key val content = map_option render (edit_lines app key val (file_lines content))"

section \<open>The system calls\<close>

text \<open>A word at a guest address; reading through the null pointer is undefined.\<close>

definition guest_u32 :: "MemoryManager \<Rightarrow> VirtPtr \<Rightarrow> u32 option" where
  "guest_u32 m a =
     (let p = GetRealAddr m a in if p = 0 then None else Some (ucast (load_le 4 (hmem m) p)))"

definition chars_of :: "byte list \<Rightarrow> string" where
  "chars_of = map (\<lambda>b. char_of (unat b))"

definition bytes_of :: "string \<Rightarrow> byte list" where
  "bytes_of = map (\<lambda>c. of_nat (of_char c))"

text \<open>
  The whole file, or \<open>None\<close> when it cannot be opened.  For an empty file \<open>content\<close> is an empty
  vector and \<open>content.back()\<close> undefined: the outer \<open>None\<close>.
\<close>

definition slurp :: "'w stdio \<Rightarrow> string \<Rightarrow> 'w \<Rightarrow> (string option \<times> 'w) option" where
  "slurp io p w =
     (let (f, w) = c_fopen io p ''rb'' w
      in if f = 0 then Some (None, w)
         else let (_, w) = c_fseek io f 0 2 w; (flen, w) = c_ftell io f w; (_, w) = c_fseek io f 0 0 w
              in if flen \<le> 0 then None
                 else let (bs, w) = c_fread io f (nat flen) w
                      in Some (Some (chars_of (take (nat flen) bs)), c_fclose io f w))"

text \<open>The buffer receives at most \<open>size\<close> bytes, the null included.\<close>

definition put_value :: "string \<Rightarrow> int \<Rightarrow> RealPtr \<Rightarrow> hmemory \<Rightarrow> u32 \<times> hmemory" where
  "put_value s lim p h =
     (if lim > 0 then
        let n = (if int (length s) \<ge> lim then nat lim - 1 else length s)
        in (of_nat n, store_bytes h p (bytes_of (take n s) @ [0]))
      else (0, h))"

definition deliver ::
  "string \<Rightarrow> string option \<Rightarrow> int \<Rightarrow> VirtPtr \<Rightarrow> MemoryManager \<Rightarrow> u32 \<times> MemoryManager" where
  "deliver found def lim outp m =
     (let s = (if found = [] then case def of Some d \<Rightarrow> d | None \<Rightarrow> [] else found);
          p = (if outp = 0 then 0 else GetRealAddr m outp)
      in if p = 0 then (of_nat (length s), m)
         else let (r, h) = put_value s lim p (hmem m) in (r, m\<lparr>hmem := h\<rparr>))"

definition GetPrivateProfileString ::
  "'w stdio \<Rightarrow> SystemServiceArguments \<Rightarrow> 'w files_state \<Rightarrow> (u32 \<times> 'w files_state) option" where
  "GetPrivateProfileString io args s0 =
     (let (st, w) = call_once_init (fs_of io) (fs_paths s0, fs_world s0);
          s = s0\<lparr>fs_paths := st, fs_world := w\<rparr>; m = fs_mm s;
          cstr = (\<lambda>a. case guest_cstr m a of Some t \<Rightarrow> t | None \<Rightarrow> [])
      in case (guest_u32 m (sp args + 8), guest_u32 m (sp args + 0xC)) of
           (Some lim, Some fname) \<Rightarrow>
             (case (case guest_cstr m fname of None \<Rightarrow> Some ([], s) | Some t \<Rightarrow> map_vm io (Some t) s) of
                None \<Rightarrow> None
              | Some (p, s) \<Rightarrow>
                  if p = [] then Some (0, s)
                  else case slurp io p (fs_world s) of
                         None \<Rightarrow> None
                       | Some (None, w) \<Rightarrow> Some (0, s\<lparr>fs_world := w\<rparr>)
                       | Some (Some content, w) \<Rightarrow>
                           let v = profile_get content (cstr (r0 args)) (cstr (r1 args));
                               (r, m') = deliver v (guest_cstr m (r2 args)) (sint lim) (r3 args) m
                           in Some (r, s\<lparr>fs_world := w, fs_mm := m'\<rparr>))
         | _ \<Rightarrow> None)"

text \<open>
  The host's file streams: the bytes of a file that opens for reading, and a file opened for writing
  from the start, with its new bytes (\<open>None\<close> when it does not open).
\<close>

record 'w fstreams =
  ifs_bytes :: "string \<Rightarrow> 'w \<Rightarrow> byte list option"
  ofs_write :: "string \<Rightarrow> byte list \<Rightarrow> 'w \<Rightarrow> 'w option"

definition SetPrivateProfileString ::
  "'w stdio \<Rightarrow> 'w fstreams \<Rightarrow> SystemServiceArguments \<Rightarrow> 'w files_state \<Rightarrow> (u32 \<times> 'w files_state) option" where
  "SetPrivateProfileString io fst_io args s0 =
     (let (st, w) = call_once_init (fs_of io) (fs_paths s0, fs_world s0);
          s = s0\<lparr>fs_paths := st, fs_world := w\<rparr>; m = fs_mm s
      in case (case guest_cstr m (r3 args) of None \<Rightarrow> Some ([], s) | Some t \<Rightarrow> map_vm io (Some t) s) of
           None \<Rightarrow> None
         | Some (p, s) \<Rightarrow>
             (case guest_cstr m (r0 args) of
                None \<Rightarrow> Some (0, s)
              | Some app \<Rightarrow>
                  if p = [] then Some (0, s)
                  else let content = (case ifs_bytes fst_io p (fs_world s) of
                                        None \<Rightarrow> [] | Some bs \<Rightarrow> chars_of bs)
                       in case profile_set app (guest_cstr m (r1 args)) (guest_cstr m (r2 args)) content of
                            None \<Rightarrow> Some (0, s)
                          | Some new \<Rightarrow>
                              (case ofs_write fst_io p (bytes_of new) (fs_world s) of
                                 None \<Rightarrow> Some (0, s)
                               | Some w \<Rightarrow> Some (1, s\<lparr>fs_world := w\<rparr>))))"

end
