(* ===== verification/ProfileProps.thy ===== *)
theory ProfileProps
  imports Profile
begin

text \<open>
  What the profile calls promise: the writer's edits, read back by the reader, are updates of a map
  from sections and keys to values (the abstract store), and the reader never writes outside the
  caller's buffer.
\<close>

section \<open>The entries of a file\<close>

fun section_after :: "string option \<Rightarrow> string list \<Rightarrow> string option" where
  "section_after c [] = c"
| "section_after c (l # ls) =
     section_after (case get_kind l of Header n \<Rightarrow> Some n | _ \<Rightarrow> c) ls"

fun entries :: "string option \<Rightarrow> string list \<Rightarrow> ((string option \<times> string) \<times> string) list" where
  "entries c [] = []"
| "entries c (l # ls) =
     (case get_kind l of
        Skip \<Rightarrow> entries c ls
      | Header n \<Rightarrow> entries (Some n) ls
      | Entry k v \<Rightarrow> ((c, k), v) # entries c ls)"

fun headers :: "string list \<Rightarrow> string list" where
  "headers [] = []"
| "headers (l # ls) = (case get_kind l of Header n \<Rightarrow> n # headers ls | _ \<Rightarrow> headers ls)"

text \<open>The abstract store: the value of a key of a section, empty when there is none.\<close>

definition profile_map :: "string list \<Rightarrow> string \<Rightarrow> string \<Rightarrow> string" where
  "profile_map ls s k = (case map_of (entries None ls) (Some s, k) of Some v \<Rightarrow> v | None \<Rightarrow> [])"

lemma section_after_append [simp]: "section_after c (xs @ ys) = section_after (section_after c xs) ys"
  by (induction xs arbitrary: c) auto

lemma entries_append [simp]: "entries c (xs @ ys) = entries c xs @ entries (section_after c xs) ys"
  by (induction xs arbitrary: c) (auto split: line_kind.split)

lemma headers_append [simp]: "headers (xs @ ys) = headers xs @ headers ys"
  by (induction xs) (auto split: line_kind.split)

lemma profile_find_entries:
  "profile_find s k (c = Some s) ls = (case map_of (entries c ls) (Some s, k) of Some v \<Rightarrow> v | None \<Rightarrow> [])"
proof (induction ls arbitrary: c)
  case (Cons l ls)
  show ?case
  proof (cases "get_kind l")
    case (Header n)
    then show ?thesis using Cons.IH [of "Some n"] by simp
  qed (use Cons.IH [of c] in auto)
qed simp

lemma section_in_headers: "section_after c ls = Some s \<Longrightarrow> c = Some s \<or> s \<in> set (headers ls)"
  by (induction ls arbitrary: c) (auto split: line_kind.splits)

lemma entry_section: "((x, k), v) \<in> set (entries c ls) \<Longrightarrow> x = c \<or> (\<exists>s \<in> set (headers ls). x = Some s)"
  by (induction ls arbitrary: c) (auto split: line_kind.splits)

lemma no_headers: "headers ls = [] \<Longrightarrow> section_after c ls = c"
  by (induction ls arbitrary: c) (auto split: line_kind.splits)

section \<open>Canonical files\<close>

text \<open>
  A line both sides read alike, without bytes that end a line or a file; a file of such lines whose
  sections and whose keys within a section are distinct.
\<close>

definition reads_alike :: "string \<Rightarrow> bool" where
  "reads_alike l \<longleftrightarrow> get_kind l = (case set_kind l of Entry k v \<Rightarrow> Entry k (trim v) | x \<Rightarrow> x)"

definition clean :: "string \<Rightarrow> bool" where
  "clean l \<longleftrightarrow> set l \<inter> {CHR 0x00, CHR 0x0A, CHR 0x0D, CHR 0x1A} = {}"

definition profile_ok :: "string list \<Rightarrow> bool" where
  "profile_ok ls \<longleftrightarrow> (\<forall>l \<in> set ls. reads_alike l \<and> clean l) \<and> distinct (headers ls)
     \<and> distinct (map fst (entries None ls))"

section \<open>The scan\<close>

definition scan_start :: profile_scan where
  "scan_start = \<lparr>sectionStartLine = None, keyLine = None, sectionEndLine = None, inSection = False\<rparr>"

lemma scan_lines_append:
  "scan_lines app key i (xs @ ys) sc = scan_lines app key (i + length xs) ys (scan_lines app key i xs sc)"
  by (induction xs arbitrary: i sc) auto

text \<open>The section found: its header, its lines and where it ended.\<close>

definition section_found :: "string \<Rightarrow> string list \<Rightarrow> profile_scan \<Rightarrow> bool" where
  "section_found app ls sc \<longleftrightarrow>
     (case sectionStartLine sc of
        None \<Rightarrow> app \<notin> set (headers ls) \<and> \<not> inSection sc
      | Some i \<Rightarrow>
          (\<exists>a h b c. ls = a @ h # b @ c \<and> length a = i \<and> get_kind h = Header app \<and> headers b = []
             \<and> (if inSection sc then c = []
                else sectionEndLine sc = Some (i + 1 + length b)
                  \<and> (\<exists>l n c'. c = l # c' \<and> get_kind l = Header n))))"

definition key_found :: "string \<Rightarrow> string option \<Rightarrow> string list \<Rightarrow> profile_scan \<Rightarrow> bool" where
  "key_found app key ls sc \<longleftrightarrow>
     (case keyLine sc of
        None \<Rightarrow> (\<forall>k. key = Some k \<longrightarrow> (Some app, k) \<notin> fst ` set (entries None ls))
      | Some i \<Rightarrow>
          (\<exists>a l b k v. ls = a @ l # b \<and> length a = i \<and> key = Some k \<and> get_kind l = Entry k v
             \<and> section_after None a = Some app))"

lemma section_foundI:
  assumes "sectionStartLine sc = Some (length a)" "ls = a @ h # b @ c" "get_kind h = Header app"
    "headers b = []"
    "if inSection sc then c = [] else sectionEndLine sc = Some (length a + 1 + length b)
       \<and> (\<exists>l n c'. c = l # c' \<and> get_kind l = Header n)"
  shows "section_found app ls sc"
  unfolding section_found_def assms(1) option.case
  by (rule exI [of _ a], rule exI [of _ h], rule exI [of _ b], rule exI [of _ c]) (intro conjI refl assms)

lemma section_foundE:
  assumes "section_found app ls sc" "sectionStartLine sc = Some i"
  obtains a h b c where "length a = i" "ls = a @ h # b @ c" "get_kind h = Header app" "headers b = []"
    "if inSection sc then c = [] else sectionEndLine sc = Some (i + 1 + length b)
       \<and> (\<exists>l n c'. c = l # c' \<and> get_kind l = Header n)"
  using assms unfolding section_found_def by auto

lemma key_foundI:
  assumes "keyLine sc = Some (length a)" "ls = a @ l # b" "key = Some k" "get_kind l = Entry k v"
    "section_after None a = Some app"
  shows "key_found app key ls sc"
  unfolding key_found_def assms(1) option.case
  by (rule exI [of _ a], rule exI [of _ l], rule exI [of _ b], rule exI [of _ k], rule exI [of _ v])
     (intro conjI refl assms)

lemma key_foundE:
  assumes "key_found app key ls sc" "keyLine sc = Some i"
  obtains a l b k v where "length a = i" "ls = a @ l # b" "key = Some k" "get_kind l = Entry k v"
    "section_after None a = Some app"
  using assms unfolding key_found_def by auto

lemma key_found_more:
  assumes "key_found app key xs sc" "keyLine sc' = keyLine sc"
    and "\<forall>k v. get_kind l = Entry k v \<longrightarrow> \<not> (section_after None xs = Some app \<and> key = Some k)"
  shows "key_found app key (xs @ [l]) sc'"
proof (cases "keyLine sc")
  case None
  then show ?thesis using assms by (auto simp: key_found_def split: line_kind.split)
next
  case (Some i)
  from key_foundE [OF assms(1) this] obtain a m b k v where
    f: "length a = i" "xs = a @ m # b" "key = Some k" "get_kind m = Entry k v" "section_after None a = Some app" .
  then show ?thesis using Some assms(2) by (intro key_foundI [of _ a _ m "b @ [l]"]) simp_all
qed

lemma scan_spec:
  assumes "\<forall>l \<in> set ls. reads_alike l"
  shows "section_found app ls (scan_lines app key 0 ls scan_start)
    \<and> key_found app key ls (scan_lines app key 0 ls scan_start)
    \<and> (inSection (scan_lines app key 0 ls scan_start) \<longleftrightarrow> section_after None ls = Some app)"
  using assms
proof (induction ls rule: rev_induct)
  case Nil
  then show ?case by (simp add: scan_start_def section_found_def key_found_def)
next
  case (snoc l xs)
  define sc where "sc = scan_lines app key 0 xs scan_start"
  have IH: "section_found app xs sc" "key_found app key xs sc"
    "inSection sc \<longleftrightarrow> section_after None xs = Some app"
    using snoc by (simp_all add: sc_def)
  have step: "scan_lines app key 0 (xs @ [l]) scan_start = scan_line app key (length xs) l sc"
    by (simp add: scan_lines_append sc_def)
  have alike: "get_kind l = (case set_kind l of Entry k v \<Rightarrow> Entry k (trim v) | x \<Rightarrow> x)"
    using snoc.prems by (simp add: reads_alike_def)
  have keep: "section_found app (xs @ [l]) sc'"
    if "\<forall>n. get_kind l \<noteq> Header n" "sectionStartLine sc' = sectionStartLine sc"
      "sectionEndLine sc' = sectionEndLine sc" "inSection sc' = inSection sc" for sc'
  proof (cases "sectionStartLine sc")
    case None
    then show ?thesis using IH(1) that by (auto simp: section_found_def split: line_kind.split)
  next
    case (Some i)
    from section_foundE [OF IH(1) this] obtain a h b c where
      f: "length a = i" "xs = a @ h # b @ c" "get_kind h = Header app" "headers b = []"
      "if inSection sc then c = [] else sectionEndLine sc = Some (i + 1 + length b)
         \<and> (\<exists>l n c'. c = l # c' \<and> get_kind l = Header n)" .
    have nl: "headers [l] = []" using that(1) by (cases "get_kind l") auto
    show ?thesis
    proof (cases "inSection sc")
      case True
      then show ?thesis using f nl Some that by (intro section_foundI [of _ a _ h "b @ [l]" "[]"]) simp_all
    next
      case False
      then show ?thesis using f Some that by (intro section_foundI [of _ a _ h b "c @ [l]"]) auto
    qed
  qed
  show ?case
  proof (cases "set_kind l")
    case Skip
    then show ?thesis using alike IH keep [of sc] key_found_more [OF IH(2) refl, of l]
      by (simp add: step scan_line_def)
  next
    case (Entry k v)
    then have g: "get_kind l = Entry k (trim v)" using alike by simp
    show ?thesis
    proof (cases "inSection sc \<and> key = Some k")
      case True
      then have "key_found app key (xs @ [l]) (sc\<lparr>keyLine := Some (length xs)\<rparr>)"
        using IH(3) g by (intro key_foundI [of _ xs _ l "[]"]) simp_all
      moreover have "section_found app (xs @ [l]) (sc\<lparr>keyLine := Some (length xs)\<rparr>)"
        using g by (intro keep) simp_all
      ultimately show ?thesis unfolding step using True Entry g IH(3) by (simp add: scan_line_def)
    next
      case False
      then have "key_found app key (xs @ [l]) sc" using IH g by (intro key_found_more) auto
      then show ?thesis using False Entry g IH keep [of sc] by (auto simp: step scan_line_def)
    qed
  next
    case (Header n)
    then have g: "get_kind l = Header n" using alike by simp
    define sc1 where "sc1 = scan_line app key (length xs) l sc"
    have k: "key_found app key (xs @ [l]) sc1"
      using g Header by (intro key_found_more [OF IH(2)]) (simp_all add: sc1_def scan_line_def Let_def)
    have i: "inSection sc1 \<longleftrightarrow> n = app" using Header by (simp add: sc1_def scan_line_def Let_def)
    have "section_found app (xs @ [l]) sc1"
    proof (cases "n = app")
      case True
      then have "sectionStartLine sc1 = Some (length xs)" "inSection sc1"
        using Header by (simp_all add: sc1_def scan_line_def Let_def)
      then show ?thesis using g True by (intro section_foundI [of _ xs _ l "[]" "[]"]) simp_all
    next
      case False
      show ?thesis
      proof (cases "sectionStartLine sc")
        case None
        then show ?thesis using IH(1) g False Header
          by (auto simp: section_found_def sc1_def scan_line_def)
      next
        case (Some j)
        from section_foundE [OF IH(1) this] obtain a h b c where
          f: "length a = j" "xs = a @ h # b @ c" "get_kind h = Header app" "headers b = []"
          "if inSection sc then c = [] else sectionEndLine sc = Some (j + 1 + length b)
             \<and> (\<exists>l n c'. c = l # c' \<and> get_kind l = Header n)" .
        have "xs @ [l] = a @ h # b @ (c @ [l])" "sectionStartLine sc1 = Some j" "\<not> inSection sc1"
          "sectionEndLine sc1 = Some (j + 1 + length b)"
          "\<exists>m n c'. c @ [l] = m # c' \<and> get_kind m = Header n"
          using f g False Header Some by (auto simp: sc1_def scan_line_def Let_def split: if_splits)
        then show ?thesis using f(1,3,4) by (intro section_foundI [of _ a _ h b "c @ [l]"]) simp_all
      qed
    qed
    then show ?thesis using k i g by (simp add: step sc1_def [symmetric])
  qed
qed

text \<open>The same for the finished scan.\<close>

lemma profile_scan_start:
  "profile_scan app key ls = (let sc = scan_lines app key 0 ls scan_start
     in if inSection sc then sc\<lparr>sectionEndLine := Some (length ls)\<rparr> else sc)"
  by (simp add: profile_scan_def scan_start_def)

lemma no_section:
  assumes "profile_ok ls" "sectionStartLine (profile_scan app key ls) = None"
  shows "app \<notin> set (headers ls)"
  using assms scan_spec [of ls app key]
  by (auto simp: profile_ok_def profile_scan_start Let_def section_found_def split: if_splits)

lemma section_lines:
  assumes "profile_ok ls" "sectionStartLine (profile_scan app key ls) = Some i"
  obtains a h b c where "length a = i" "ls = a @ h # b @ c" "get_kind h = Header app" "headers b = []"
    "c = [] \<or> (\<exists>l n c'. c = l # c' \<and> get_kind l = Header n)"
    "sectionEndLine (profile_scan app key ls) = Some (i + 1 + length b)"
proof -
  let ?sc = "scan_lines app key 0 ls scan_start"
  have "section_found app ls ?sc" using assms(1) scan_spec [of ls app key] by (simp add: profile_ok_def)
  moreover have "sectionStartLine ?sc = Some i"
    using assms(2) by (auto simp: profile_scan_start Let_def split: if_splits)
  ultimately obtain a h b c where f: "length a = i" "ls = a @ h # b @ c" "get_kind h = Header app"
    "headers b = []" "if inSection ?sc then c = [] else sectionEndLine ?sc = Some (i + 1 + length b)
       \<and> (\<exists>l n c'. c = l # c' \<and> get_kind l = Header n)" by (rule section_foundE)
  then show thesis
    by (intro that [of a h b c]) (auto simp: profile_scan_start Let_def split: if_splits)
qed

lemma no_key:
  assumes "profile_ok ls" "keyLine (profile_scan app (Some k) ls) = None"
  shows "(Some app, k) \<notin> fst ` set (entries None ls)"
  using assms scan_spec [of ls app "Some k"]
  by (auto simp: profile_ok_def profile_scan_start Let_def key_found_def split: if_splits)

lemma key_line:
  assumes "profile_ok ls" "keyLine (profile_scan app (Some k) ls) = Some i"
  obtains a l b v where "length a = i" "ls = a @ l # b" "get_kind l = Entry k v" "section_after None a = Some app"
proof -
  let ?sc = "scan_lines app (Some k) 0 ls scan_start"
  have "key_found app (Some k) ls ?sc"
    using assms(1) scan_spec [of ls app "Some k"] by (simp add: profile_ok_def)
  moreover have "keyLine ?sc = Some i"
    using assms(2) by (auto simp: profile_scan_start Let_def split: if_splits)
  ultimately obtain a l b k' v where "length a = i" "ls = a @ l # b" "Some k = Some k'"
    "get_kind l = Entry k' v" "section_after None a = Some app" by (rule key_foundE)
  then show thesis by (intro that) simp_all
qed

section \<open>The lines the writer makes\<close>

lemma dropWhile_stop: "\<not> P x \<Longrightarrow> dropWhile P (xs @ x # ys) = dropWhile P xs @ x # ys"
  by (induction xs) auto

abbreviation rstrip :: "string \<Rightarrow> string" where
  "rstrip s \<equiv> rev (dropWhile isspace (rev s))"

lemma rstrip_stop: "\<not> isspace x \<Longrightarrow> rstrip (xs @ x # ys) = xs @ x # rstrip ys"
  by (simp add: dropWhile_stop)

lemma trim_rstrip: "trim (rstrip v) = trim v"
proof (cases "\<forall>c \<in> set v. isspace c")
  case True
  then have "dropWhile isspace (rev v) = []" "dropWhile isspace v = []" by simp_all
  note e = this
  have "trim v = []" "trim (rstrip v) = []" unfolding trim_def e by simp_all
  then show ?thesis by simp
next
  case False
  then obtain a x b where v: "v = a @ x # b" "\<not> isspace x" "\<forall>c \<in> set a. isspace c"
    using split_list_first_prop [of v "\<lambda>c. \<not> isspace c"] by auto
  then have "rstrip v = a @ x # rstrip b" by (simp add: dropWhile_stop)
  moreover have "dropWhile isspace (a @ x # ys) = x # ys" for ys using v(2,3) by (simp add: dropWhile_append2)
  ultimately show ?thesis using v(1,2)
    by (simp add: trim_def dropWhile_stop [where ys = "[]", simplified])
qed

lemma trim_hd: "trim s = s \<Longrightarrow> s \<noteq> [] \<Longrightarrow> \<not> isspace (hd s)"
proof
  assume t: "trim s = s" and "s \<noteq> []" "isspace (hd s)"
  then obtain c r where "s = c # r" "isspace c" by (cases s) auto
  then have "length (trim s) \<le> length r"
    using length_dropWhile_le [of isspace r] length_dropWhile_le [of isspace "rev (dropWhile isspace r)"]
    by (simp add: trim_def)
  then show False using t \<open>s = c # r\<close> by simp
qed

lemma isspace_plain [simp]: "\<not> isspace CHR ''=''" "\<not> isspace CHR ''[''" "\<not> isspace CHR '']''"
  by (simp_all add: isspace_def)

text \<open>What a section name and a key must be for the line to come back as it was written.\<close>

definition section_ok :: "string \<Rightarrow> bool" where
  "section_ok s \<longleftrightarrow> trim s = s \<and> clean s"

definition key_ok :: "string \<Rightarrow> bool" where
  "key_ok k \<longleftrightarrow> trim k = k \<and> clean k \<and> CHR ''='' \<notin> set k
     \<and> (k \<noteq> [] \<longrightarrow> hd k \<notin> {CHR '';'', CHR ''#'', CHR ''[''})"

lemma header_line:
  assumes "section_ok s"
  shows "get_kind (CHR ''['' # s @ '']'') = Header s" "reads_alike (CHR ''['' # s @ '']'')"
    "clean (CHR ''['' # s @ '']'')"
proof -
  have t: "trim (CHR ''['' # s @ '']'') = CHR ''['' # s @ '']''"
    using rstrip_stop [of "CHR '']''" "CHR ''['' # s" "[]"] by (simp add: trim_def)
  then show "get_kind (CHR ''['' # s @ '']'') = Header s" "reads_alike (CHR ''['' # s @ '']'')"
    using assms by (simp_all add: get_kind_def set_kind_def reads_alike_def section_ok_def butlast_append Let_def)
  show "clean (CHR ''['' # s @ '']'')" using assms by (auto simp: section_ok_def clean_def)
qed

lemma split_eq_pair: "CHR ''='' \<notin> set k \<Longrightarrow> split_eq (k @ CHR ''='' # v) = Some (k, v)"
  by (auto simp: split_eq_def takeWhile_append dropWhile_append)

lemma pair_line:
  assumes k: "key_ok k" and v: "clean v"
  shows "get_kind (k @ CHR ''='' # v) = Entry k (trim v)" "reads_alike (k @ CHR ''='' # v)"
    "clean (k @ CHR ''='' # v)"
proof -
  have "dropWhile isspace (k @ CHR ''='' # v) = k @ CHR ''='' # v"
    using k trim_hd [of k] by (cases k) (auto simp: key_ok_def)
  then have t: "trim (k @ CHR ''='' # v) = k @ CHR ''='' # rstrip v"
    using rstrip_stop [of "CHR ''=''" k v] by (simp add: trim_def)
  have h: "hd (k @ CHR ''='' # w) \<notin> {CHR '';'', CHR ''#'', CHR ''[''}" for w
    using k by (cases k) (auto simp: key_ok_def)
  show g: "get_kind (k @ CHR ''='' # v) = Entry k (trim v)"
    using k h [of "rstrip v"] split_eq_pair [of k "rstrip v"]
    by (simp add: get_kind_def t Let_def key_ok_def trim_rstrip)
  have "set_kind (k @ CHR ''='' # v) = Entry k v"
    using k h [of v] split_eq_pair [of k v] by (simp add: set_kind_def key_ok_def)
  then show "reads_alike (k @ CHR ''='' # v)" using g by (simp add: reads_alike_def)
  show "clean (k @ CHR ''='' # v)" using k v by (auto simp: clean_def key_ok_def)
qed

section \<open>The edits on the entries\<close>

lemma lookup_mid:
  "x \<notin> fst ` set xs \<Longrightarrow> map_of (xs @ (x, v) # ys) p = (if p = x then Some v else map_of (xs @ ys) p)"
  by (induction xs) auto

lemma lookup_none: "x \<notin> fst ` set xs \<Longrightarrow> map_of xs x = None"
  by (simp add: map_of_eq_None_iff)

lemma starts_section: "c = [] \<or> (\<exists>l n c'. c = l # c' \<and> get_kind l = Header n) \<Longrightarrow> entries x c = entries y c"
  by (cases c) (auto split: line_kind.splits)

text \<open>The entry of key \<open>k\<close> of section \<open>s\<close>, if any, between the others.\<close>

lemma profile_map_mid:
  assumes "entries None ls = e1 @ e @ e2" "e = [] \<or> (\<exists>v. e = [((Some s, k), v)])"
    and "(Some s, k) \<notin> fst ` set (e1 @ e2)"
  shows "profile_map ls s' k' = (if s' = s \<and> k' = k then (case e of [] \<Rightarrow> [] | p # _ \<Rightarrow> snd p)
     else (case map_of (e1 @ e2) (Some s', k') of None \<Rightarrow> [] | Some v \<Rightarrow> v))"
proof (cases "e = []")
  case True
  then show ?thesis using assms(1) lookup_none [OF assms(3)] by (simp add: profile_map_def del: map_of_append)
next
  case False
  then obtain v where e: "e = [((Some s, k), v)]" using assms(2) by blast
  have "(Some s, k) \<notin> fst ` set e1" using assms(3) by auto
  from lookup_mid [OF this, of v e2 "(Some s', k')"] show ?thesis
    using assms(1) by (simp add: profile_map_def e del: map_of_append)
qed

text \<open>What an edit does to the abstract store.\<close>

definition store_after ::
  "string \<Rightarrow> string option \<Rightarrow> string option \<Rightarrow> (string \<Rightarrow> string \<Rightarrow> string) \<Rightarrow> string \<Rightarrow> string \<Rightarrow> string" where
  "store_after s key val m s' k' =
     (case (key, val) of
        (None, _) \<Rightarrow> if s' = s then [] else m s' k'
      | (Some k, None) \<Rightarrow> if s' = s \<and> k' = k then [] else m s' k'
      | (Some k, Some v) \<Rightarrow> if s' = s \<and> k' = k then trim v else m s' k')"

lemma delete_section:
  assumes ok: "profile_ok ls" and e: "edit_lines s None None ls = Some ls'"
  shows "profile_ok ls' \<and> profile_map ls' s' k' = store_after s None None (profile_map ls) s' k'"
proof (cases "sectionStartLine (profile_scan s None ls)")
  case None
  then have "ls' = ls" "s \<notin> set (headers ls)"
    using e no_section [OF ok] by (simp_all add: edit_lines_def)
  then show ?thesis using ok
    by (auto simp: store_after_def profile_map_def dest!: map_of_SomeD entry_section split: option.split)
next
  case (Some i)
  from section_lines [OF ok this] obtain a h b c where
    f: "length a = i" "ls = a @ h # b @ c" "get_kind h = Header s" "headers b = []"
    "c = [] \<or> (\<exists>l n c'. c = l # c' \<and> get_kind l = Header n)"
    "sectionEndLine (profile_scan s None ls) = Some (i + 1 + length b)" .
  have ls': "ls' = a @ c" using e Some f(1,2,6) by (simp add: edit_lines_def erase_lines_def)
  note E = starts_section [OF f(5)]
  have H: "headers ls = headers a @ s # headers c" using f(2-4) by simp
  have old: "entries None ls = entries None a @ entries (Some s) b @ entries None c"
    using f(2-4) E [of "section_after (Some s) b" None] by simp
  have new: "entries None ls' = entries None a @ entries None c"
    using E [of "section_after None a" None] by (simp add: ls')
  have nots: "s \<notin> set (headers a)" "s \<notin> set (headers c)" using ok H by (auto simp: profile_ok_def)
  have out: "map_of (entries None a) (Some s, k) = None" "map_of (entries None c) (Some s, k) = None" for k
    using nots by (auto simp: map_of_eq_None_iff dest!: entry_section)
  have inb: "map_of (entries (Some s) b) (Some t, k) = None" if "t \<noteq> s" for t k
    using that f(4) by (auto simp: map_of_eq_None_iff dest!: entry_section)
  have "profile_ok ls'" using ok f(2) H new old by (auto simp: profile_ok_def ls')
  then show ?thesis using out inb
    by (auto simp: store_after_def profile_map_def new old map_add_def split: option.split)
qed

lemma delete_key:
  assumes ok: "profile_ok ls" and e: "edit_lines s (Some k) None ls = Some ls'"
  shows "profile_ok ls' \<and> profile_map ls' s' k' = store_after s (Some k) None (profile_map ls) s' k'"
proof (cases "keyLine (profile_scan s (Some k) ls)")
  case None
  then have "ls' = ls" "map_of (entries None ls) (Some s, k) = None"
    using e no_key [OF ok] by (simp_all add: edit_lines_def lookup_none)
  then show ?thesis using ok by (auto simp: store_after_def profile_map_def)
next
  case (Some i)
  from key_line [OF ok this] obtain a l b v where
    f: "length a = i" "ls = a @ l # b" "get_kind l = Entry k v" "section_after None a = Some s" .
  have ls': "ls' = a @ b" using e Some f(1,2) by (simp add: edit_lines_def erase_lines_def)
  have old: "entries None ls = entries None a @ [((Some s, k), v)] @ entries (Some s) b"
    and new: "entries None ls' = entries None a @ [] @ entries (Some s) b" using f(2-4) by (simp_all add: ls')
  have "profile_ok ls'" "(Some s, k) \<notin> fst ` set (entries None a @ entries (Some s) b)"
    using ok f(2,3) old new by (auto simp: profile_ok_def ls')
  moreover have "profile_map ls' s' k' = (if s' = s \<and> k' = k then [] else profile_map ls s' k')"
    using profile_map_mid [OF new _ calculation(2), of s' k'] profile_map_mid [OF old _ calculation(2), of s' k']
    by simp
  ultimately show ?thesis by (simp add: store_after_def)
qed

lemma set_value:
  assumes ok: "profile_ok ls" and s: "section_ok s" and k: "key_ok k" and v: "clean v"
    and e: "edit_lines s (Some k) (Some v) ls = Some ls'"
  shows "profile_ok ls' \<and> profile_map ls' s' k' = store_after s (Some k) (Some v) (profile_map ls) s' k'"
proof -
  define pair where "pair = k @ CHR ''='' # v"
  note P = pair_line [OF k v, folded pair_def] and L = header_line [OF s]
  let ?x = "((Some s, k), trim v)"
  have "\<exists>e1 e2 e0. entries None ls = e1 @ e0 @ e2 \<and> entries None ls' = e1 @ [?x] @ e2
    \<and> (e0 = [] \<or> (\<exists>v0. e0 = [((Some s, k), v0)])) \<and> (Some s, k) \<notin> fst ` set (e1 @ e2)
    \<and> distinct (headers ls') \<and> (\<forall>l \<in> set ls'. reads_alike l \<and> clean l)"
  proof (cases "keyLine (profile_scan s (Some k) ls)")
    case (Some i)
    from key_line [OF ok this] obtain a l b v0 where
      f: "length a = i" "ls = a @ l # b" "get_kind l = Entry k v0" "section_after None a = Some s" .
    have ls': "ls' = a @ pair # b" using e Some f(1,2) by (auto simp: edit_lines_def pair_def)
    show ?thesis
      by (rule exI [of _ "entries None a"], rule exI [of _ "entries (Some s) b"],
          rule exI [of _ "[((Some s, k), v0)]"])
        (use ok f P in \<open>auto simp: ls' profile_ok_def\<close>)
  next
    case None
    note nk = no_key [OF ok None]
    show ?thesis
    proof (cases "sectionStartLine (profile_scan s (Some k) ls)")
      case (Some i)
      from section_lines [OF ok this] obtain a h b c where
        f: "length a = i" "ls = a @ h # b @ c" "get_kind h = Header s" "headers b = []"
        "c = [] \<or> (\<exists>l n c'. c = l # c' \<and> get_kind l = Header n)"
        "sectionEndLine (profile_scan s (Some k) ls) = Some (i + 1 + length b)" .
      have ls': "ls' = a @ h # b @ pair # c"
        using e None Some f(1,2,6) by (simp add: edit_lines_def insert_line_def pair_def)
      show ?thesis
        by (rule exI [of _ "entries None a @ entries (Some s) b"], rule exI [of _ "entries (Some s) c"],
            rule exI [of _ "[]"])
          (use ok f(2-4) P nk in \<open>auto simp: ls' profile_ok_def no_headers\<close>)
    next
      case None
      define gap :: "string list" where "gap = (if ls \<noteq> [] \<and> last ls \<noteq> [] then [[]] else [])"
      have ls': "ls' = ls @ gap @ [CHR ''['' # s @ '']'', pair]"
        using e None \<open>keyLine (profile_scan s (Some k) ls) = None\<close>
        by (simp add: edit_lines_def pair_def gap_def)
      have "get_kind [] = Skip" "reads_alike []" "clean []"
        by (simp_all add: get_kind_def set_kind_def reads_alike_def clean_def trim_def)
      then have g: "entries c gap = []" "section_after c gap = c" "headers gap = []"
        "\<forall>l \<in> set gap. reads_alike l \<and> clean l" for c by (simp_all add: gap_def)
      have "entries None ls' = entries None ls @ [?x]" "headers ls' = headers ls @ [s]"
        using P(1) L(1) g by (simp_all add: ls')
      moreover have "\<forall>l \<in> set ls'. reads_alike l \<and> clean l"
        using ok P(2,3) L(2,3) g(4) unfolding ls' profile_ok_def set_append ball_Un by simp
      ultimately show ?thesis using ok nk no_section [OF ok None]
        by (intro exI [of _ "entries None ls"] exI [of _ "[]"]) (simp add: profile_ok_def)
    qed
  qed
  then obtain e1 e2 e0 where E: "entries None ls = e1 @ e0 @ e2" "entries None ls' = e1 @ [?x] @ e2"
    "e0 = [] \<or> (\<exists>v0. e0 = [((Some s, k), v0)])" "(Some s, k) \<notin> fst ` set (e1 @ e2)"
    "distinct (headers ls')" "\<forall>l \<in> set ls'. reads_alike l \<and> clean l" by blast
  then have "profile_ok ls'" using ok by (auto simp: profile_ok_def)
  moreover have "profile_map ls' s' k' = (if s' = s \<and> k' = k then trim v else profile_map ls s' k')"
    using profile_map_mid [OF E(2) _ E(4), of s' k'] profile_map_mid [OF E(1,3,4), of s' k'] by simp
  ultimately show ?thesis by (simp add: store_after_def)
qed

section \<open>The file and its lines\<close>

lemma get_kind_Nil [simp]: "get_kind [] = Skip"
  by (simp add: get_kind_def trim_def)

lemma render_simps [simp]: "render [] = []" "render (l # ls) = l @ CHR 0x0D # CHR 0x0A # render ls"
  by (simp_all add: render_def)

lemma find_skips_eol: "profile_find s k b (ini_lines (dropWhile is_eol c)) = profile_find s k b (ini_lines c)"
proof (cases "c \<noteq> [] \<and> is_eol (hd c)")
  case True
  then have "ini_lines c = [] # ini_lines (dropWhile is_eol c)"
    by (subst ini_lines.simps) (cases c; auto)
  then show ?thesis by simp
next
  case False
  then have "dropWhile is_eol c = c" by (cases c) auto
  then show ?thesis by simp
qed

lemma clean_line: "clean l \<Longrightarrow> \<forall>c \<in> set l. \<not> is_eol c \<and> c \<noteq> CHR 0x00 \<and> c \<noteq> CHR 0x1A"
  by (auto simp: clean_def)

lemma find_render:
  "\<forall>l \<in> set ls. clean l \<Longrightarrow> profile_find s k b (ini_lines (render ls)) = profile_find s k b ls"
proof (induction ls arbitrary: b)
  case Nil
  then show ?case by (simp add: ini_lines.simps)
next
  case (Cons l ls)
  note l = clean_line [of l]
  have "takeWhile (\<lambda>c. \<not> is_eol c) (render (l # ls)) = l"
    "dropWhile (\<lambda>c. \<not> is_eol c) (render (l # ls)) = CHR 0x0D # CHR 0x0A # render ls"
    using Cons.prems l by (simp_all add: takeWhile_append2 dropWhile_append2)
  then have "ini_lines (render (l # ls)) = l # ini_lines (dropWhile is_eol (render ls))"
    by (subst ini_lines.simps) simp
  moreover have "profile_find s k c (ini_lines (dropWhile is_eol (render ls))) = profile_find s k c ls" for c
    using Cons.IH [of c] Cons.prems by (simp add: find_skips_eol)
  ultimately show ?case by (simp split: line_kind.split)
qed

lemma render_no_null: "\<forall>l \<in> set ls. clean l \<Longrightarrow> takeWhile (\<lambda>c. c \<noteq> CHR 0x00) (render ls) = render ls"
proof (induction ls)
  case (Cons l ls)
  then have "takeWhile (\<lambda>c. c \<noteq> CHR 0x00) (l @ r) = l @ takeWhile (\<lambda>c. c \<noteq> CHR 0x00) r" for r
    using clean_line [of l] by (intro takeWhile_append2) simp
  then show ?case using Cons by simp
qed simp

lemma text_mode_line: "clean l \<Longrightarrow> text_mode (l @ CHR 0x0D # CHR 0x0A # r) = l @ CHR 0x0A # text_mode r"
proof (induction l)
  case (Cons c l)
  then have c: "c \<noteq> CHR 0x1A" "c \<noteq> CHR 0x0D" "clean l" by (auto simp: clean_def)
  obtain d m where "l @ CHR 0x0D # CHR 0x0A # r = d # m" by (cases l) auto
  then show ?case using Cons.IH [OF c(3)] c(1,2) by simp
qed simp

lemma file_lines_render: "\<forall>l \<in> set ls. clean l \<Longrightarrow> file_lines (render ls) = ls"
proof (induction ls)
  case Nil
  then show ?case by (simp add: file_lines_def getlines.simps)
next
  case (Cons l ls)
  note l = clean_line [of l]
  have "takeWhile (\<lambda>c. c \<noteq> CHR 0x0A) (l @ CHR 0x0A # text_mode (render ls)) = l"
    "dropWhile (\<lambda>c. c \<noteq> CHR 0x0A) (l @ CHR 0x0A # text_mode (render ls)) = CHR 0x0A # text_mode (render ls)"
    using Cons.prems l by (simp_all add: takeWhile_append2 dropWhile_append2)
  then have "getlines (text_mode (render (l # ls))) = l # getlines (text_mode (render ls))"
    using Cons.prems by (subst getlines.simps) (simp add: text_mode_line)
  moreover have "drop_cr l = l"
    using Cons.prems l by (cases l rule: rev_cases) (simp_all add: drop_cr_def)
  moreover have "map drop_cr (getlines (text_mode (render ls))) = ls"
    using Cons.IH Cons.prems unfolding file_lines_def by simp
  ultimately show ?case unfolding file_lines_def by (simp only: list.map)
qed

lemma profile_get_render:
  assumes "\<forall>l \<in> set ls. clean l" "s \<noteq> []"
  shows "profile_get (render ls) s k = profile_map ls s k"
  using profile_find_entries [of s k None ls] assms
  by (simp add: profile_get_def render_no_null find_render profile_map_def)

section \<open>Properties\<close>

text \<open>
  C33. The profile calls implement a store.  On a canonical file (lines both sides read alike,
  distinct sections and keys) a successful \<open>_SetPrivateProfileString\<close> leaves a canonical file, and
  what \<open>_GetPrivateProfileString\<close> then finds under any section and key is the old value, except for
  the key that was set (the new value, trimmed), the key that was deleted or the keys of the section
  that was deleted (nothing).
\<close>

theorem profile_store_refined:
  assumes "profile_ok ls" "section_ok s" "\<forall>k. key = Some k \<longrightarrow> key_ok k" "\<forall>v. val = Some v \<longrightarrow> clean v"
    and "profile_set s key val (render ls) = Some new" "s' \<noteq> []"
  shows "\<exists>ls'. new = render ls' \<and> profile_ok ls'
    \<and> profile_get new s' k' = store_after s key val (profile_get (render ls)) s' k'"
proof -
  have cl: "\<forall>l \<in> set ls. clean l" using assms(1) by (simp add: profile_ok_def)
  obtain ls' where e: "edit_lines s key val ls = Some ls'" "new = render ls'"
    using assms(5) by (auto simp: profile_set_def file_lines_render [OF cl])
  have "profile_ok ls' \<and> profile_map ls' s' k' = store_after s key val (profile_map ls) s' k'"
  proof (cases key)
    case None
    then have "val = None" using e(1) by (cases val) (simp_all add: edit_lines_def)
    then show ?thesis using delete_section [OF assms(1)] e(1) None by simp
  next
    case (Some k)
    then show ?thesis
      using delete_key [OF assms(1)] set_value [OF assms(1,2)] assms(3,4) e(1) by (cases val) auto
  qed
  moreover from this have "\<forall>l \<in> set ls'. clean l" by (simp add: profile_ok_def)
  ultimately show ?thesis
    using e(2) profile_get_render [OF cl assms(6)] profile_get_render [of ls' s'] assms(6)
    by (auto simp: store_after_def split: option.split)
qed

definition demo_profile :: "string list" where
  "demo_profile = [''[LCD]'', ''level=2'', [], ''[KBD]'', ''rate=9'']"

lemma demo_profile_ok: "profile_ok demo_profile"
  by code_simp

theorem profile_store_refined_witness:
  "\<exists>new. profile_set ''LCD'' (Some ''level'') (Some ''3'') (render demo_profile) = Some new
     \<and> profile_get new ''LCD'' ''level'' = ''3'' \<and> profile_get new ''KBD'' ''rate'' = ''9''"
proof -
  obtain new where n: "profile_set ''LCD'' (Some ''level'') (Some ''3'') (render demo_profile) = Some new"
    by (cases "profile_set ''LCD'' (Some ''level'') (Some ''3'') (render demo_profile)")
      (auto simp: profile_set_def edit_lines_def Let_def split: option.splits)
  have a: "section_ok ''LCD''" "key_ok ''level''" "clean ''3''" by code_simp+
  have o: "profile_get (render demo_profile) ''KBD'' ''rate'' = ''9''" "trim ''3'' = ''3''" by code_simp+
  from profile_store_refined [OF demo_profile_ok a(1) _ _ n, of "''LCD''" "''level''"]
    profile_store_refined [OF demo_profile_ok a(1) _ _ n, of "''KBD''" "''rate''"] a(2,3) o n
  show ?thesis by (auto simp: store_after_def)
qed

text \<open>The bytes a store reaches.\<close>

lemma store_bytes_reach: "store_bytes h p bs q \<noteq> h q \<Longrightarrow> \<exists>i < length bs. q = p + of_nat i"
proof (induction h p bs rule: store_bytes.induct)
  case (2 h p b bs)
  show ?case
  proof (cases "store_bytes (h(p := b)) (p + 1) bs q = (h(p := b)) q")
    case True
    then have "q = p + of_nat 0" using 2(2) by (auto split: if_splits)
    then show ?thesis by (intro exI [of _ 0]) simp
  next
    case False
    from 2(1) [OF this] obtain i where "i < length bs" "q = p + 1 + of_nat i" by blast
    then show ?thesis by (intro exI [of _ "Suc i"]) (simp add: ac_simps)
  qed
qed simp

lemma deliver_reach:
  assumes "deliver found def lim outp m = (r, m')"
  shows "m' = m\<lparr>hmem := hmem m'\<rparr>
    \<and> {q. hmem m' q \<noteq> hmem m q} \<subseteq> {GetRealAddr m outp + of_nat i |i. int i < lim}"
proof -
  define t where "t = (if found = [] then case def of Some d \<Rightarrow> d | None \<Rightarrow> [] else found)"
  define p where "p = (if outp = 0 then 0 else GetRealAddr m outp)"
  define n where "n = (if int (length t) \<ge> lim then nat lim - 1 else length t)"
  show ?thesis
  proof (cases "p = 0 \<or> lim \<le> 0")
    case True
    then have "m' = m" using assms unfolding deliver_def t_def [symmetric] p_def [symmetric]
      by (auto simp: put_value_def Let_def split: if_splits)
    then show ?thesis by simp
  next
    case False
    then have m': "m' = m\<lparr>hmem := store_bytes (hmem m) p (bytes_of (take n t) @ [0])\<rparr>" and p: "p = GetRealAddr m outp"
      using assms unfolding deliver_def t_def [symmetric] p_def [symmetric]
      by (auto simp: put_value_def Let_def n_def p_def split: if_splits)
    have "int (length (bytes_of (take n t) @ [0])) \<le> lim" using False by (auto simp: bytes_of_def n_def)
    then show ?thesis using store_bytes_reach [of "hmem m" p "bytes_of (take n t) @ [0]"]
      by (auto simp: m' p [symmetric]) force
  qed
qed

text \<open>
  C34. Reading a profile value never writes outside the caller's buffer.  Whatever the file holds,
  \<open>_GetPrivateProfileString\<close> changes nothing in the memory manager but bytes of host memory, and of
  those only the ones of the buffer in \<open>r3\<close>, within the size passed on the stack (none when the size
  is not positive).
\<close>

theorem profile_read_bounded:
  "case GetPrivateProfileString io args s of
     None \<Rightarrow> True
   | Some (r, s') \<Rightarrow>
       fs_mm s' = (fs_mm s)\<lparr>hmem := hmem (fs_mm s')\<rparr>
       \<and> {q. hmem (fs_mm s') q \<noteq> hmem (fs_mm s) q}
           \<subseteq> {GetRealAddr (fs_mm s) (r3 args) + of_nat i |i.
                int i < sint (the (guest_u32 (fs_mm s) (sp args + 8)))}"
proof (cases "GetPrivateProfileString io args s")
  case (Some rs)
  obtain r s' where rs: "rs = (r, s')" by fastforce
  have "fs_mm s' = fs_mm s
    \<or> (\<exists>found r. deliver found (guest_cstr (fs_mm s) (r2 args))
         (sint (the (guest_u32 (fs_mm s) (sp args + 8)))) (r3 args) (fs_mm s) = (r, fs_mm s'))"
    using Some unfolding GetPrivateProfileString_def rs
    by (auto simp: Let_def map_vm_def split: prod.splits option.splits if_splits)
  then show ?thesis using Some rs by (auto dest!: deliver_reach)
qed simp

end
