(* ===== verification/UiEvents.thy ===== *)
theory UiEvents
  imports Scheduler DbgMsg "HOL-Library.Sublist"
begin

text \<open>
  User-interface events (PrimU/ui.h, the window procedure of PrimU/LCD.cpp 261-538, \<open>EnqueueEvent\<close>
  and \<open>GetEvent\<close>, PrimU/system.cpp 1778-1831).  The window thread turns messages into events and
  queues them; the guest polls, and finds all queued events in a structure in its memory.  Both sides
  hold the mutex \<open>lock\<close>, so a run is an interleaving of whole operations.  The window itself (its
  creation, repainting and timer) is the host's.
\<close>

section \<open>Events\<close>

datatype ui_event_type_e =
    UI_EVENT_TYPE_INVALID | UI_EVENT_TYPE_TOUCH_BEGIN | UI_EVENT_TYPE_TOUCH_MOVE
  | UI_EVENT_TYPE_TOUCH_END | UI_EVENT_TYPE_TICK | UI_EVENT_TYPE_TICK_2 | UI_EVENT_TYPE_REDRAW
  | UI_EVENT_TYPE_KEY | UI_EVENT_TYPE_KEY_UP

fun type_value :: "ui_event_type_e \<Rightarrow> u32" where
  "type_value UI_EVENT_TYPE_INVALID = 0"
| "type_value UI_EVENT_TYPE_TOUCH_BEGIN = 1"
| "type_value UI_EVENT_TYPE_TOUCH_MOVE = 2"
| "type_value UI_EVENT_TYPE_TOUCH_END = 8"
| "type_value UI_EVENT_TYPE_TICK = 0xF"
| "type_value UI_EVENT_TYPE_TICK_2 = 0x100010"
| "type_value UI_EVENT_TYPE_REDRAW = 0x4000"
| "type_value UI_EVENT_TYPE_KEY = 16"
| "type_value UI_EVENT_TYPE_KEY_UP = 0x100000"

text \<open>
  The union of key codes and coordinates is the pair \<open>ev_code0\<close> (\<open>key_code0\<close>, \<open>touch_x\<close>) and
  \<open>ev_code1\<close> (\<open>key_code1\<close>, \<open>touch_y\<close>).
\<close>

record UIMultipressEvent =
  ev_type :: u32
  finger_id :: u16
  ev_code0 :: u16
  ev_code1 :: u16
  unk_0xb :: u16

definition UIMultipressEvent_zero :: UIMultipressEvent where
  "UIMultipressEvent_zero = \<lparr>ev_type = 0, finger_id = 0, ev_code0 = 0, ev_code1 = 0, unk_0xb = 0\<rparr>"

record ui =
  events :: "UIMultipressEvent list"
  ui_thread_id :: int
  is_lbtn_down :: bool

definition ui_init :: ui where
  "ui_init = \<lparr>events = [], ui_thread_id = 0, is_lbtn_down = False\<rparr>"

text \<open>\<open>WakeThread\<close>, which the code calls next, has an empty body.\<close>

definition EnqueueEvent :: "UIMultipressEvent \<Rightarrow> ui \<Rightarrow> ui" where
  "EnqueueEvent e ui = ui\<lparr>events := events ui @ [e]\<rparr>"

section \<open>The window procedure\<close>

text \<open>Virtual-key codes to device key codes.\<close>

definition vk_to_device_keymap :: "(int \<times> int) list" where
  "vk_to_device_keymap =
     [(0x1B, 0x01), (0x25, 0x02), (0x26, 0x03), (0x27, 0x04), (0x28, 0x05), (0x08, 0x0C),
      (0x0D, 0x0D), (0x20, 0x20), (0x10, 0x8B),
      (0x30, 0x30), (0x31, 0x59), (0x32, 0x5A), (0x33, 0x33), (0x34, 0x55), (0x35, 0x56),
      (0x36, 0x57), (0x37, 0x51), (0x38, 0x52), (0x39, 0x53), (0x58, 0x44), (0xBC, 0x4F),
      (0xBF, 0x54), (0x6A, 0x58), (0xBE, 0xB8), (0xBD, 0xB7), (0xBB, 0xB9),
      (0x51, 0x41), (0x57, 0x42), (0x45, 0x43), (0x52, 0x45), (0x54, 0x46), (0x59, 0x47),
      (0x55, 0x48), (0x49, 0x49), (0x4F, 0x4A), (0x50, 0x4B), (0x41, 0x4C), (0x53, 0x4D),
      (0x44, 0x4E), (0x46, 0x50), (0x47, 0x83), (0x48, 0x91), (0x4A, 0x93), (0x4B, 0xB2),
      (0x4C, 0xB3), (0x5A, 0xB4), (0x43, 0xB5), (0x56, 0xB6), (0x4E, 0x95), (0x4D, 0xB1),
      (0x42, 0xE047)]"

definition numpad_mapping :: "(int \<times> int) list" where
  "numpad_mapping =
     [(0x60, 0x30), (0x61, 0x31), (0x62, 0x32), (0x63, 0x33), (0x64, 0x34), (0x65, 0x35),
      (0x66, 0x36), (0x67, 0x37), (0x68, 0x38), (0x69, 0x39),
      (107, 0xBB), (109, 0xBD), (111, 0xBF), (110, 0xBE)]"

definition device_key :: "int \<Rightarrow> int option" where
  "device_key w =
     map_of vk_to_device_keymap (case map_of numpad_mapping w of Some v \<Rightarrow> v | None \<Rightarrow> w)"

datatype window_msg =
    WM_CREATE | WM_TIMER | WM_PAINT | WM_KEYDOWN int | WM_KEYUP int | WM_CLOSE
  | WM_LBUTTONDOWN "64 word" | WM_LBUTTONUP "64 word" | WM_MOUSEMOVE "64 word" | WM_DESTROY
  | WM_OTHER

definition key_event :: "ui_event_type_e \<Rightarrow> int \<Rightarrow> UIMultipressEvent" where
  "key_event t code = UIMultipressEvent_zero\<lparr>ev_code0 := of_int code, ev_type := type_value t\<rparr>"

definition touch_event :: "ui_event_type_e \<Rightarrow> 64 word \<Rightarrow> UIMultipressEvent" where
  "touch_event t lp = UIMultipressEvent_zero\<lparr>ev_code0 := ucast (lp AND 0xFFFF),
     ev_code1 := ucast (drop_bit 16 lp AND 0xFFFF), ev_type := type_value t\<rparr>"

text \<open>The first component tells whether the message is handled, so that the default procedure is not called.\<close>

definition key_message :: "ui_event_type_e \<Rightarrow> int \<Rightarrow> ui \<Rightarrow> bool \<times> ui" where
  "key_message t w ui =
     (case device_key w of
        Some code \<Rightarrow> (True, EnqueueEvent (key_event t code) ui)
      | None \<Rightarrow> (False, ui))"

fun WndProc :: "window_msg \<Rightarrow> ui \<Rightarrow> bool \<times> ui" where
  "WndProc (WM_KEYDOWN w) ui = key_message UI_EVENT_TYPE_KEY w ui"
| "WndProc (WM_KEYUP w) ui = key_message UI_EVENT_TYPE_KEY_UP w ui"
| "WndProc (WM_LBUTTONDOWN lp) ui =
     (False, (EnqueueEvent (touch_event UI_EVENT_TYPE_TOUCH_BEGIN lp) ui)\<lparr>is_lbtn_down := True\<rparr>)"
| "WndProc (WM_LBUTTONUP lp) ui =
     (False, (EnqueueEvent (touch_event UI_EVENT_TYPE_TOUCH_END lp) ui)\<lparr>is_lbtn_down := False\<rparr>)"
| "WndProc (WM_MOUSEMOVE lp) ui =
     (False, if is_lbtn_down ui then EnqueueEvent (touch_event UI_EVENT_TYPE_TOUCH_MOVE lp) ui else ui)"
| "WndProc WM_OTHER ui = (False, ui)"
| "WndProc _ ui = (True, ui)"

section \<open>Polling\<close>

text \<open>
  \<open>ui_event_prime_s\<close> in guest memory: \<open>event_type\<close> at 4, \<open>available_multipress_events\<close> at 24, eight
  events of 12 bytes from 28 on, 124 bytes in all.
\<close>

definition store_event :: "hmemory \<Rightarrow> RealPtr \<Rightarrow> UIMultipressEvent \<Rightarrow> hmemory" where
  "store_event h p e =
     (let h = store_le 4 h p (ucast (ev_type e));
          h = store_le 2 h (p + 4) (ucast (finger_id e));
          h = store_le 2 h (p + 6) (ucast (ev_code0 e));
          h = store_le 2 h (p + 8) (ucast (ev_code1 e))
      in store_le 2 h (p + 10) (ucast (unk_0xb e)))"

fun store_events :: "hmemory \<Rightarrow> RealPtr \<Rightarrow> UIMultipressEvent list \<Rightarrow> hmemory" where
  "store_events h p [] = h"
| "store_events h p (e # es) = store_events (store_event h p e) (p + 12) es"

definition is_key :: "UIMultipressEvent \<Rightarrow> bool" where
  "is_key e \<longleftrightarrow> ev_type e = type_value UI_EVENT_TYPE_KEY \<or> ev_type e = type_value UI_EVENT_TYPE_KEY_UP"

definition GetEvent ::
  "SystemServiceArguments \<Rightarrow> ui \<times> ('u, 'c) mach \<Rightarrow> (u32 \<times> ui \<times> ('u, 'c) mach) proc" where
  "GetEvent args = (\<lambda>(ui, ms).
     let p = GetRealAddr (mmem ms) (r0 args); put = (\<lambda>h. ms\<lparr>mmem := (mmem ms)\<lparr>hmem := h\<rparr>\<rparr>)
     in if p = 0 then Aborted
        else
          let h = mem_fill (hmem (mmem ms)) p 124 0;
              h = store_le 4 h (p + 4) (ucast (type_value UI_EVENT_TYPE_TICK));
              h = store_le 2 h (p + 24) 0
          in if events ui \<noteq> [] then
               let h = (if \<exists>e \<in> set (events ui). is_key e
                        then store_le 4 h (p + 4) (ucast (type_value UI_EVENT_TYPE_TICK_2)) else h)
               in if length (events ui) > 8 then Returned (0, ui\<lparr>events := []\<rparr>, put h)
                  else
                    let h = store_le 2 h (p + 24) (of_nat (length (events ui)));
                        h = store_events h (p + 28) (events ui)
                    in Returned (0, ui\<lparr>events := []\<rparr>, put h)
             else
               case currentThread (msm ms) of
                 None \<Rightarrow> Aborted
               | Some c \<Rightarrow> Returned (0, ui\<lparr>ui_thread_id := tid (thr (sy (msm ms)) c)\<rparr>,
                                     CurrentThreadYield (put h)))"

section \<open>Runs\<close>

text \<open>What the guest finds in its structure.\<close>

definition read_event :: "hmemory \<Rightarrow> RealPtr \<Rightarrow> UIMultipressEvent" where
  "read_event h p =
     \<lparr>ev_type = ucast (load_le 4 h p), finger_id = ucast (load_le 2 h (p + 4)),
      ev_code0 = ucast (load_le 2 h (p + 6)), ev_code1 = ucast (load_le 2 h (p + 8)),
      unk_0xb = ucast (load_le 2 h (p + 10))\<rparr>"

definition guest_events :: "hmemory \<Rightarrow> RealPtr \<Rightarrow> UIMultipressEvent list" where
  "guest_events h p =
     map (\<lambda>i. read_event h (p + 28 + 12 * of_nat i)) [0..<unat (load_le 2 h (p + 24))]"

text \<open>
  A run: window messages, polls, and guest code in between, which may change the machine at will.
  The result is what the polls delivered, read back from guest memory after each of them.
\<close>

datatype ('u, 'c) ui_op = Message window_msg | Poll SystemServiceArguments | Guest "('u, 'c) mach"

fun ui_run ::
  "('u, 'c) ui_op list \<Rightarrow> ui \<times> ('u, 'c) mach \<Rightarrow> (UIMultipressEvent list \<times> ui \<times> ('u, 'c) mach) proc" where
  "ui_run [] s = Returned ([], s)"
| "ui_run (Message m # ops) s = ui_run ops (snd (WndProc m (fst s)), snd s)"
| "ui_run (Guest ms # ops) s = ui_run ops (fst s, ms)"
| "ui_run (Poll args # ops) s =
     proc_bind (GetEvent args s) (\<lambda>(r, s').
       proc_bind (ui_run ops s') (\<lambda>(l, s'').
         Returned (guest_events (hmem (mmem (snd s'))) (GetRealAddr (mmem (snd s')) (r0 args)) @ l, s'')))"

end
