(* ===== verification/KeyCodes.thy ===== *)
theory KeyCodes
  imports Prelude
begin

text \<open>
  The key codes of PrimU/ui.h (\<open>enum keycode_e\<close>), entry by entry; \<open>None\<close> stands where the enumerator has
  no value of its own and takes the one after its predecessor.
\<close>

definition keycode_e :: "(string \<times> int option) list" where
  "keycode_e =
     [(''KEY_ESC'', Some 0x01), (''KEY_LEFT'', None), (''KEY_UP'', None), (''KEY_RIGHT'', None),
      (''KEY_DOWN'', None), (''KEY_PGUP'', None), (''KEY_PGDN'', None), (''KEY_CAPS'', Some 0x0A),
      (''KEY_DEL'', Some 0x0C), (''KEY_ENTER'', Some 0x0D), (''KEY_MENU'', Some 0x11),
      (''KEY_FUNC_MENU'', Some 0x11), (''KEY_FONT'', Some 0x12), (''KEY_SPACE'', Some 0x20),
      (''KEY_EXCL'', Some 0x21), (''KEY_TAB'', Some 0x22), (''KEY_HASH'', Some 0x23),
      (''KEY_DOLLAR'', Some 0x24), (''KEY_PERCENT'', Some 0x25), (''KEY_LPAREN'', Some 0x28),
      (''KEY_RPAREN'', Some 0x29), (''KEY_STAR'', Some 0x2A), (''KEY_COMMA'', Some 0x2C),
      (''KEY_DASH'', Some 0x2D), (''KEY_DOT'', Some 0x2E), (''KEY_0'', Some 0x30), (''KEY_1'', Some 0x31),
      (''KEY_2'', Some 0x32), (''KEY_3'', Some 0x33), (''KEY_4'', Some 0x34), (''KEY_5'', Some 0x35),
      (''KEY_6'', Some 0x36), (''KEY_7'', Some 0x37), (''KEY_8'', Some 0x38), (''KEY_9'', Some 0x39),
      (''KEY_QUESTION'', Some 0x3F), (''KEY_AT'', Some 0x40), (''KEY_A'', Some 0x41),
      (''KEY_B'', Some 0x42), (''KEY_C'', Some 0x43), (''KEY_D'', Some 0x44), (''KEY_E'', Some 0x45),
      (''KEY_F'', Some 0x46), (''KEY_G'', Some 0x47), (''KEY_H'', Some 0x48), (''KEY_I'', Some 0x49),
      (''KEY_J'', Some 0x4A), (''KEY_K'', Some 0x4B), (''KEY_L'', Some 0x4C), (''KEY_M'', Some 0x4D),
      (''KEY_N'', Some 0x4E), (''KEY_O'', Some 0x4F), (''KEY_P'', Some 0x50), (''KEY_Q'', Some 0x51),
      (''KEY_R'', Some 0x52), (''KEY_S'', Some 0x53), (''KEY_T'', Some 0x54), (''KEY_U'', Some 0x55),
      (''KEY_V'', Some 0x56), (''KEY_W'', Some 0x57), (''KEY_X'', Some 0x58), (''KEY_Y'', Some 0x59),
      (''KEY_Z'', Some 0x5A), (''KEY_LANG_CHN'', Some 0x80), (''KEY_LANG_YUE'', Some 0x81),
      (''KEY_LANG_ENG'', Some 0x82), (''KEY_POWER'', Some 0x83), (''KEY_F1'', Some 0x84),
      (''KEY_F2'', None), (''KEY_F3'', None), (''KEY_F4'', None), (''KEY_F5'', None),
      (''KEY_APP_REC'', Some 0x89), (''KEY_SHIFT'', Some 0x8B), (''KEY_IME'', Some 0x8E),
      (''KEY_LANG_JPN'', Some 0x8F), (''KEY_SYMBOL'', Some 0x91), (''KEY_HOME'', Some 0x93),
      (''KEY_HOME_MENU'', Some 0x93), (''KEY_PRIME_MENU'', Some 0x93), (''KEY_TOGGLE_SC_TC'', Some 0x94),
      (''KEY_HELP'', Some 0x95), (''KEY_SAVE'', Some 0x96), (''KEY_APP_MP3_PLAYER'', Some 0x98),
      (''KEY_VOL_BACKLIGHT'', Some 0x9C), (''KEY_SYLLABLE'', Some 0x9E),
      (''KEY_ORIGINAL_INPUT'', Some 0x9F), (''KEY_APP_MISC_3'', Some 0xA3),
      (''KEY_APP_FLASHCARD'', Some 0xA3), (''KEY_APP_MISC_5'', Some 0xA5),
      (''KEY_APP_DICT_JA_DAJIRIN'', Some 0xA5), (''KEY_APP_GAMES'', Some 0xA5),
      (''KEY_APP_MISC_6'', Some 0xA6), (''KEY_APP_DICT_JA_SHINMEIKAI'', Some 0xA6),
      (''KEY_APP_ALBUM'', Some 0xA6), (''KEY_APP_MISC_7'', Some 0xA7),
      (''KEY_APP_DICT_EN_LONGMAN'', Some 0xA7), (''KEY_APP_DICT_JA_EN_GENIUS'', Some 0xA7),
      (''KEY_APP_MISC_8'', Some 0xA8), (''KEY_APP_DICT_EN_JA_GENIUS'', Some 0xA8),
      (''KEY_PRIME_APPS'', Some 0xB1), (''KEY_PRIME_PLOT'', None), (''KEY_PRIME_NUM'', None),
      (''KEY_PRIME_VIEW'', None), (''KEY_PRIME_CAS'', None), (''KEY_PRIME_ALPHA'', None),
      (''KEY_PRIME_MINUS'', None), (''KEY_PRIME_DECIMAL_POINT'', None), (''KEY_PRIME_PLUS'', None),
      (''KEY_FAV'', Some 0xC0), (''KEY_APP_VIDEO_PLAYER'', Some 0xD0),
      (''KEY_APP_DICT_EN_PRO'', Some 0xD4), (''KEY_APP_DICT_ZH_EN_BESTA'', Some 0xE8),
      (''KEY_APP_DICT_JA_ZH_BESTA'', Some 0xE9), (''KEY_APP_DICT_ZH_JA_BESTA'', Some 0xEA),
      (''KEY_APP_DICT_EN_OXFORD'', Some 0xF2), (''KEY_APP_DICT_EN_ZH_BESTA'', Some 0xF3),
      (''KEY_EDIT'', Some 0xF5), (''KEY_SEARCH'', Some 0xF6), (''KEY_BACKLIGHT'', Some 0xF8),
      (''KEY_COMPARE'', Some 0xF9), (''KEY_VOL'', Some 0xFA), (''KEY_BATTERY'', Some 0xFB),
      (''KEY_USB_INSERTION'', Some 0xFE), (''KEY_REPEAT'', Some 0xFF), (''KEY_INS'', Some 0x101),
      (''KEY_SHIFT_PGUP'', Some 0xE047), (''KEY_PRIME_HOME'', Some 0xE047),
      (''KEY_SHIFT_PGDN'', Some 0xE04F)]"

text \<open>The values C gives the enumerators.\<close>

fun enum_values :: "int \<Rightarrow> (string \<times> int option) list \<Rightarrow> (string \<times> int) list" where
  "enum_values n [] = []"
| "enum_values n ((s, v) # es) = (let k = (case v of Some k \<Rightarrow> k | None \<Rightarrow> n) in (s, k) # enum_values (k + 1) es)"

definition keycodes :: "(string \<times> int) list" where
  "keycodes = enum_values 0 keycode_e"

lemma keycodes_bounds: "\<forall>k \<in> snd ` set keycodes. 0 < k \<and> k < 0x10000"
proof -
  have "list_all (\<lambda>k. 0 < k \<and> k < 0x10000) (map snd keycodes)" by code_simp
  then show ?thesis by (simp add: list_all_iff)
qed

end
