(* ===== verification/UiProps.thy ===== *)
theory UiProps
  imports UiEvents StructFields ThreadProps VFileProps KeyCodes
begin

text \<open>
  What the event queue promises: a poll hands the guest the queued events as they are, and no run
  duplicates, reorders or invents an event.
\<close>

section \<open>Events in memory\<close>

lemma read_event_cong:
  assumes "\<And>j. j < 12 \<Longrightarrow> h (p + of_nat j) = h' (p + of_nat j)"
  shows "read_event h p = read_event h' p"
proof -
  have "load_le n h (p + of_nat k) = load_le n h' (p + of_nat k)" if "k + n \<le> 12" for n k
    using assms [of "k + i" for i] that by (intro load_le_cong) (simp add: add.assoc)
  from this [of 0 4] this [of 4 2] this [of 6 2] this [of 8 2] this [of 10 2]
  show ?thesis by (simp add: read_event_def)
qed

lemma read_store_event: "read_event (store_event h p e) p = e"
  by (simp add: read_event_def store_event_def Let_def load_store_dist del: load_le.simps)

lemma store_event_outside: "12 \<le> unat (q - p) \<Longrightarrow> store_event h p e q = h q"
  using field_outside [of 0 4 q p] by (simp add: store_event_def Let_def field_outside)

lemma store_events_outside: "12 * length es \<le> unat (q - p) \<Longrightarrow> store_events h p es q = h q"
proof (induction es arbitrary: h p)
  case (Cons e es)
  have "unat (q - (p + 12)) = unat (q - p) - 12" using Cons.prems unat_behind [of 12 q p] by simp
  then show ?case using Cons.prems by (simp add: Cons.IH store_event_outside)
qed simp

lemma read_store_events:
  "i < length es \<Longrightarrow> length es \<le> 8 \<Longrightarrow> read_event (store_events h p es) (p + 12 * of_nat i) = es ! i"
proof (induction es arbitrary: h p i)
  case (Cons e es)
  show ?case
  proof (cases i)
    case 0
    have "store_events (store_event h p e) (p + 12) es (p + of_nat j) = store_event h p e (p + of_nat j)"
      if j: "j < 12" for j
    proof (rule store_events_outside)
      have u: "unat (of_nat (12 - j) :: 64 word) = 12 - j" using j by (subst unat_of_nat) simp
      have "p + of_nat j - (p + 12) = - of_nat (12 - j)" using j by (simp add: of_nat_diff)
      then have "unat (p + of_nat j - (p + 12)) = 18446744073709551616 - (12 - j)"
        using unat_negative [of "of_nat (12 - j)"] j u by simp
      then show "12 * length es \<le> unat (p + of_nat j - (p + 12))" using Cons.prems(2) by simp
    qed
    then show ?thesis using 0 read_event_cong [of _ p "store_event h p e"] read_store_event by simp
  next
    case (Suc k)
    then show ?thesis using Cons.IH [of k "store_event h p e" "p + 12"] Cons.prems
      by (simp add: distrib_left add.assoc)
  qed
qed simp

section \<open>One poll\<close>

lemma header_kept:
  assumes "length es \<le> 8" "unat k + n \<le> 28"
  shows "load_le n (store_events h (p + 28) es) (p + k) = load_le n h (p + k)"
proof (rule load_le_cong)
  fix i assume i: "i < n"
  have e: "p + k + of_nat i - (p + 28) = - (28 - k - of_nat i)" by simp
  have "unat (28 - k) = 28 - unat k" "unat (of_nat i :: 64 word) = i"
    using assms(2) i unat_less_by [of k 28] by (simp_all add: unat_of_nat)
  then have "unat (28 - k - of_nat i) = 28 - unat k - i"
    using assms(2) i unat_less_by [of "of_nat i" "28 - k"] by simp
  then have "unat (- (28 - k - of_nat i)) = 18446744073709551616 - (28 - unat k - i)"
    using assms(2) i unat_negative [of "28 - k - of_nat i"] by simp
  then show "store_events h (p + 28) es (p + k + of_nat i) = h (p + k + of_nat i)"
    using assms(1) by (intro store_events_outside) (simp add: e)
qed

text \<open>The memory a poll leaves, for the structure at \<open>p\<close> and the queue \<open>es\<close>.\<close>

definition poll_mem :: "hmemory \<Rightarrow> RealPtr \<Rightarrow> UIMultipressEvent list \<Rightarrow> hmemory" where
  "poll_mem h p es =
     (let t = (if \<exists>e \<in> set es. is_key e then UI_EVENT_TYPE_TICK_2 else UI_EVENT_TYPE_TICK);
          h1 = store_le 2 (store_le 4 (mem_fill h p 124 0) (p + 4) (ucast (type_value UI_EVENT_TYPE_TICK))) (p + 24) 0;
          h2 = (if \<exists>e \<in> set es. is_key e then store_le 4 h1 (p + 4) (ucast (type_value UI_EVENT_TYPE_TICK_2)) else h1)
      in if es = [] \<or> 8 < length es then h2
         else store_events (store_le 2 h2 (p + 24) (of_nat (length es))) (p + 28) es)"

lemma GetEvent_Returned:
  assumes "GetEvent args (ui, ms) = Returned (r, ui', ms')" "p = GetRealAddr (mmem ms) (r0 args)"
  shows "r = 0 \<and> events ui' = [] \<and> is_lbtn_down ui' = is_lbtn_down ui
    \<and> mmem ms' = (mmem ms)\<lparr>hmem := poll_mem (hmem (mmem ms)) p (events ui)\<rparr>
    \<and> msm ms' = (if events ui = [] then (msm ms)\<lparr>yielding := True\<rparr> else msm ms)"
proof (cases "events ui = []")
  case True
  then show ?thesis using assms
    by (auto simp: GetEvent_def Let_def CurrentThreadYield_def poll_mem_def split: if_splits option.splits)
next
  case False
  then show ?thesis using assms
    by (cases "8 < length (events ui)"; cases "\<exists>e \<in> set (events ui). is_key e")
       (auto simp: GetEvent_def Let_def poll_mem_def split: if_splits)
qed

lemma poll_mem_outside: "124 \<le> unat (q - p) \<Longrightarrow> poll_mem h p es q = h q"
proof -
  assume q: "124 \<le> unat (q - p)"
  have f: "mem_fill h p 124 0 q = h q" using q by (simp add: mem_fill_def word_lt_unat)
  have "unat (q - (p + 28)) = unat (q - p) - 28" using q unat_behind [of 28 q p] by simp
  then have e: "length es \<le> 8 \<Longrightarrow> store_events g (p + 28) es q = g q" for g
    using q by (intro store_events_outside) simp
  show ?thesis using q f e by (simp add: poll_mem_def Let_def field_outside)
qed

lemma poll_mem_type:
  "ucast (load_le 4 (poll_mem h p es) (p + 4))
    = type_value (if \<exists>e \<in> set es. is_key e then UI_EVENT_TYPE_TICK_2 else UI_EVENT_TYPE_TICK)"
proof -
  have "load_le 4 (store_events g (p + 28) es) (p + 4) = load_le 4 g (p + 4)" if "length es \<le> 8" for g
    using header_kept [OF that, of 4 4 g p] by simp
  then show ?thesis
    by (simp add: poll_mem_def Let_def load_store_dist not_less del: load_le.simps type_value.simps)
qed

lemma poll_mem_events: "guest_events (poll_mem h p es) p = (if length es \<le> 8 then es else [])"
proof (cases "es \<noteq> [] \<and> length es \<le> 8")
  case True
  then obtain g where g: "poll_mem h p es = store_events (store_le 2 g (p + 24) (of_nat (length es))) (p + 28) es"
    by (auto simp: poll_mem_def Let_def)
  have "load_le 2 (poll_mem h p es) (p + 24) = take_bit 16 (of_nat (length es))"
    using True header_kept [of es 24 2 _ p] by (simp add: g load_store_le del: load_le.simps)
  moreover have "unat (take_bit 16 (of_nat (length es) :: 64 word)) = length es"
    using True by (simp add: unsigned_take_bit_eq unat_of_nat take_bit_nat_eq_self)
  ultimately have n: "unat (load_le 2 (poll_mem h p es) (p + 24)) = length es" by simp
  have "map (\<lambda>i. read_event (poll_mem h p es) (p + 28 + 12 * of_nat i)) [0..<length es]
    = map (\<lambda>i. es ! i) [0..<length es]"
    using True by (intro map_cong refl) (simp add: g read_store_events)
  then show ?thesis using True n unfolding guest_events_def map_nth by simp
next
  case False
  then have "load_le 2 (poll_mem h p es) (p + 24) = 0"
    by (simp add: poll_mem_def Let_def load_store_dist load_store_le not_le del: load_le.simps)
  then show ?thesis using False by (auto simp: guest_events_def)
qed

text \<open>
  A poll delivers the queue.  When \<open>GetEvent\<close> returns, the queue is empty and the guest's
  structure holds exactly the queued events, in order and field by field, provided there were at
  most eight (more are dropped); its type is \<open>TICK_2\<close> exactly if a key event was queued and
  \<open>TICK\<close> otherwise; no byte outside the 124 of the structure has changed; and the thread yields
  exactly if there was nothing.
\<close>

theorem poll_delivers:
  assumes "GetEvent args (ui, ms) = Returned (r, ui', ms')"
  shows "r = 0 \<and> events ui' = []
    \<and> guest_events (hmem (mmem ms')) (GetRealAddr (mmem ms') (r0 args))
        = (if length (events ui) \<le> 8 then events ui else [])
    \<and> ucast (load_le 4 (hmem (mmem ms')) (GetRealAddr (mmem ms') (r0 args) + 4))
        = type_value (if \<exists>e \<in> set (events ui). is_key e then UI_EVENT_TYPE_TICK_2 else UI_EVENT_TYPE_TICK)
    \<and> (\<forall>q. 124 \<le> unat (q - GetRealAddr (mmem ms) (r0 args)) \<longrightarrow> hmem (mmem ms') q = hmem (mmem ms) q)
    \<and> msm ms' = (if events ui = [] then (msm ms)\<lparr>yielding := True\<rparr> else msm ms)"
  using GetEvent_Returned [OF assms refl] by (simp add: poll_mem_events poll_mem_type poll_mem_outside)

definition demo_poll :: SystemServiceArguments where
  "demo_poll = \<lparr>r0 = 0x20001000, r1 = 0, r2 = 0, r3 = 0, r4 = 0, sp = 0\<rparr>"

lemma demo_poll_returns:
  "events ui \<noteq> [] \<Longrightarrow> \<exists>ui' ms'. GetEvent demo_poll (ui, demo_mach) = Returned (0, ui', ms')"
  by (simp add: GetEvent_def demo_poll_def demo_mach_def demo_addr Let_def)

theorem poll_delivers_witness:
  "\<exists>ui' ms'. GetEvent demo_poll (snd (WndProc (WM_KEYDOWN 0x31) ui_init), demo_mach) = Returned (0, ui', ms')
     \<and> guest_events (hmem (mmem ms')) (GetRealAddr (mmem ms') (r0 demo_poll)) = [key_event UI_EVENT_TYPE_KEY 0x59]"
proof -
  have e: "events (snd (WndProc (WM_KEYDOWN 0x31) ui_init)) = [key_event UI_EVENT_TYPE_KEY 0x59]"
    by (simp add: key_message_def device_key_def numpad_mapping_def vk_to_device_keymap_def
        EnqueueEvent_def ui_init_def)
  then obtain ui' ms' where "GetEvent demo_poll (snd (WndProc (WM_KEYDOWN 0x31) ui_init), demo_mach)
    = Returned (0, ui', ms')" using demo_poll_returns by fastforce
  with poll_delivers [OF this] e show ?thesis by (auto simp del: WndProc.simps)
qed

section \<open>Runs\<close>

text \<open>The event a message makes, and the button state behind it.\<close>

fun event_of :: "bool \<Rightarrow> window_msg \<Rightarrow> UIMultipressEvent list" where
  "event_of d (WM_KEYDOWN w) = (case device_key w of Some c \<Rightarrow> [key_event UI_EVENT_TYPE_KEY c] | None \<Rightarrow> [])"
| "event_of d (WM_KEYUP w) = (case device_key w of Some c \<Rightarrow> [key_event UI_EVENT_TYPE_KEY_UP c] | None \<Rightarrow> [])"
| "event_of d (WM_LBUTTONDOWN lp) = [touch_event UI_EVENT_TYPE_TOUCH_BEGIN lp]"
| "event_of d (WM_LBUTTONUP lp) = [touch_event UI_EVENT_TYPE_TOUCH_END lp]"
| "event_of d (WM_MOUSEMOVE lp) = (if d then [touch_event UI_EVENT_TYPE_TOUCH_MOVE lp] else [])"
| "event_of d _ = []"

fun button_after :: "bool \<Rightarrow> window_msg \<Rightarrow> bool" where
  "button_after d (WM_LBUTTONDOWN lp) = True"
| "button_after d (WM_LBUTTONUP lp) = False"
| "button_after d _ = d"

fun sent :: "bool \<Rightarrow> ('u, 'c) ui_op list \<Rightarrow> UIMultipressEvent list" where
  "sent d [] = []"
| "sent d (Message m # ops) = event_of d m @ sent (button_after d m) ops"
| "sent d (_ # ops) = sent d ops"

text \<open>No poll finds more than eight events.\<close>

fun backlog_ok :: "ui \<Rightarrow> ('u, 'c) ui_op list \<Rightarrow> bool" where
  "backlog_ok ui [] \<longleftrightarrow> True"
| "backlog_ok ui (Message m # ops) \<longleftrightarrow> backlog_ok (snd (WndProc m ui)) ops"
| "backlog_ok ui (Guest ms # ops) \<longleftrightarrow> backlog_ok ui ops"
| "backlog_ok ui (Poll args # ops) \<longleftrightarrow> length (events ui) \<le> 8 \<and> backlog_ok (ui\<lparr>events := []\<rparr>) ops"

lemma WndProc_events:
  "events (snd (WndProc m ui)) = events ui @ event_of (is_lbtn_down ui) m"
  "is_lbtn_down (snd (WndProc m ui)) = button_after (is_lbtn_down ui) m"
  by (cases m; simp add: key_message_def EnqueueEvent_def split: option.split)+

lemma backlog_ok_cong:
  "events ui = events ui' \<Longrightarrow> is_lbtn_down ui = is_lbtn_down ui' \<Longrightarrow> backlog_ok ui ops = backlog_ok ui' ops"
proof (induction ui ops arbitrary: ui' rule: backlog_ok.induct)
  case (2 ui m ops)
  then show ?case by (simp add: WndProc_events)
next
  case (4 ui args ops)
  then show ?case using 4(1) [of "ui'\<lparr>events := []\<rparr>"] by simp
qed auto

lemma events_in_order_aux:
  assumes "ui_run ops (ui, ms) = Returned (log, ui', ms')"
  shows "subseq (log @ events ui') (events ui @ sent (is_lbtn_down ui) ops)
    \<and> (backlog_ok ui ops \<longrightarrow> log @ events ui' = events ui @ sent (is_lbtn_down ui) ops)"
  using assms
proof (induction ops arbitrary: ui ms log)
  case Nil
  then show ?case by simp
next
  case (Cons x ops)
  show ?case
  proof (cases x)
    case (Message m)
    then show ?thesis using Cons.IH [of "snd (WndProc m ui)" ms log] Cons.prems by (simp add: WndProc_events)
  next
    case (Guest ms1)
    then show ?thesis using Cons.IH [of ui ms1 log] Cons.prems by simp
  next
    case (Poll args)
    then obtain r ui1 ms1 l where g: "GetEvent args (ui, ms) = Returned (r, ui1, ms1)"
      and l: "ui_run ops (ui1, ms1) = Returned (l, ui', ms')"
      and log: "log = guest_events (hmem (mmem ms1)) (GetRealAddr (mmem ms1) (r0 args)) @ l"
      using Cons.prems by auto
    note G = GetEvent_Returned [OF g refl]
    have e: "events ui1 = []" "is_lbtn_down ui1 = is_lbtn_down ui" using G by simp_all
    have d: "guest_events (hmem (mmem ms1)) (GetRealAddr (mmem ms1) (r0 args))
      = (if length (events ui) \<le> 8 then events ui else [])"
      using G by (simp add: poll_mem_events)
    have b: "backlog_ok (ui\<lparr>events := []\<rparr>) ops = backlog_ok ui1 ops" using e by (intro backlog_ok_cong) simp_all
    show ?thesis using Cons.IH [OF l] e d b Poll
      by (auto simp: log intro: list_emb_append_mono list_emb_append2)
  qed
qed

text \<open>
  C35. No event is invented, duplicated or reordered.  In every interleaving of window messages,
  polls and guest code, what the polls delivered, followed by what is still queued, is a subsequence
  of what was queued before followed by the events of the messages; and it is all of it when no poll
  found more than eight events.
\<close>

theorem events_in_order:
  assumes "ui_run ops (ui, ms) = Returned (log, ui', ms')"
  shows "subseq (log @ events ui') (events ui @ sent (is_lbtn_down ui) ops)
    \<and> (backlog_ok ui ops \<longrightarrow> log @ events ui' = events ui @ sent (is_lbtn_down ui) ops)"
  by (rule events_in_order_aux [OF assms])

text \<open>A key pressed and released, then polled.\<close>

lemma demo_ui_run:
  obtains log ui' ms' where "ui_run [Message (WM_KEYDOWN 0x31), Message (WM_KEYUP 0x31), Poll demo_poll]
    (ui_init, demo_mach) = Returned (log, ui', ms')"
proof -
  define u where "u = snd (WndProc (WM_KEYUP 0x31) (snd (WndProc (WM_KEYDOWN 0x31) ui_init)))"
  have "events u \<noteq> []"
    by (simp add: u_def key_message_def device_key_def numpad_mapping_def vk_to_device_keymap_def
        EnqueueEvent_def)
  from demo_poll_returns [OF this] obtain ui' ms' where "GetEvent demo_poll (u, demo_mach) = Returned (0, ui', ms')"
    by blast
  then show thesis by (intro that) (simp add: u_def [symmetric] del: WndProc.simps)
qed

theorem events_in_order_witness:
  "\<exists>log ui' ms'. ui_run [Message (WM_KEYDOWN 0x31), Message (WM_KEYUP 0x31), Poll demo_poll]
      (ui_init, demo_mach) = Returned (log, ui', ms')
    \<and> log @ events ui' = [key_event UI_EVENT_TYPE_KEY 0x59, key_event UI_EVENT_TYPE_KEY_UP 0x59]"
proof -
  obtain log ui' ms' where r: "ui_run [Message (WM_KEYDOWN 0x31), Message (WM_KEYUP 0x31), Poll demo_poll]
    (ui_init, demo_mach) = Returned (log, ui', ms')" by (rule demo_ui_run)
  have "backlog_ok ui_init [Message (WM_KEYDOWN 0x31), Message (WM_KEYUP 0x31), Poll demo_poll]"
    "event_of False (WM_KEYDOWN 0x31) @ event_of False (WM_KEYUP 0x31)
      = [key_event UI_EVENT_TYPE_KEY 0x59, key_event UI_EVENT_TYPE_KEY_UP 0x59]"
    by (simp_all add: ui_init_def key_message_def device_key_def numpad_mapping_def vk_to_device_keymap_def
        EnqueueEvent_def)
  then show ?thesis using events_in_order [OF r] r by (auto simp: ui_init_def simp del: event_of.simps ui_run.simps)
qed

definition event_ok :: "UIMultipressEvent \<Rightarrow> bool" where
  "event_ok e \<longleftrightarrow> finger_id e = 0 \<and> unk_0xb e = 0
     \<and> (is_key e \<and> ev_code0 e \<in> (of_int \<circ> snd) ` set vk_to_device_keymap \<and> ev_code1 e = 0
       \<or> ev_type e \<in> type_value ` {UI_EVENT_TYPE_TOUCH_BEGIN, UI_EVENT_TYPE_TOUCH_MOVE, UI_EVENT_TYPE_TOUCH_END})"

lemma device_key_known:
  "device_key w = Some c \<Longrightarrow> (of_int c :: u16) \<in> (of_int \<circ> snd) ` set vk_to_device_keymap"
  unfolding device_key_def by (drule map_of_SomeD) force

lemma event_of_ok: "e \<in> set (event_of d m) \<Longrightarrow> event_ok e"
  using device_key_known [unfolded comp_def]
  by (cases m) (auto simp: event_ok_def key_event_def touch_event_def UIMultipressEvent_zero_def is_key_def
      comp_def split: option.split_asm if_split_asm)

lemma keymap_named: "snd ` set vk_to_device_keymap \<subseteq> snd ` set keycodes"
proof -
  have "list_all (\<lambda>k. k \<in> set (map snd keycodes)) (map snd vk_to_device_keymap)" by code_simp
  then show ?thesis by (auto simp: list_all_iff)
qed

lemma key_named: "event_ok e \<Longrightarrow> is_key e \<Longrightarrow> \<exists>k \<in> snd ` set keycodes. ev_code0 e = of_int k"
proof -
  assume "event_ok e" "is_key e"
  then have "ev_code0 e \<in> (of_int \<circ> snd) ` set vk_to_device_keymap" by (auto simp: event_ok_def is_key_def)
  then obtain p where "p \<in> set vk_to_device_keymap" "ev_code0 e = of_int (snd p)" by auto
  then show ?thesis using keymap_named by blast
qed

lemma subseq_set: "subseq xs ys \<Longrightarrow> set xs \<subseteq> set ys"
  by (auto simp: subseq_conv_nths set_nths)

lemma sent_ok: "e \<in> set (sent d ops) \<Longrightarrow> event_ok e"
  by (induction d ops rule: sent.induct) (auto dest: event_of_ok)

text \<open>
  C36. Every event the guest receives is well-typed: a key event with a code of the device key map, or
  one of the three touch events, with no finger and no padding set; and every key it is told about is
  one that \<open>keycode_e\<close> gives a name, by a value that fits the 16 bits of the event.
\<close>

theorem delivered_events_typed:
  assumes "ui_run ops (ui_init, ms) = Returned (log, ui', ms')"
  shows "\<forall>e \<in> set log \<union> set (events ui'). event_ok e
    \<and> (is_key e \<longrightarrow> (\<exists>name k. (name, k) \<in> set keycodes \<and> ev_code0 e = of_int k \<and> 0 < k \<and> k < 2 ^ 16))"
proof -
  have "subseq (log @ events ui') (sent False ops)"
    using events_in_order_aux [OF assms] by (simp add: ui_init_def)
  from subseq_set [OF this] have ok: "event_ok e" if "e \<in> set log \<union> set (events ui')" for e
    using sent_ok that by auto
  have "\<exists>name k. (name, k) \<in> set keycodes \<and> ev_code0 e = of_int k \<and> 0 < k \<and> k < 2 ^ 16"
    if "event_ok e" "is_key e" for e
    using key_named [OF that] keycodes_bounds by force
  with ok show ?thesis by blast
qed

theorem delivered_events_typed_witness:
  "\<exists>log ui' ms'. ui_run [Message (WM_KEYDOWN 0x31), Message (WM_KEYUP 0x31), Poll demo_poll]
      (ui_init, demo_mach) = Returned (log, ui', ms') \<and> (\<forall>e \<in> set log \<union> set (events ui'). event_ok e)"
proof -
  obtain log ui' ms' where r: "ui_run [Message (WM_KEYDOWN 0x31), Message (WM_KEYUP 0x31), Poll demo_poll]
    (ui_init, demo_mach) = Returned (log, ui', ms')" by (rule demo_ui_run)
  then show ?thesis using delivered_events_typed [OF r] by blast
qed

end
