(* ===== verification/MiscServices.thy ===== *)
theory MiscServices
  imports UiEvents Display Profile PELoader
begin

text \<open>
  The remaining system calls (PrimU/system.cpp 838-890, 947-974, 1048-1078, 1694-1776, 1832-1859):
  stub devices, the clock, identification, modules, interrupts and the calls that only return a
  constant.  \<open>None\<close> is undefined behaviour of the code: an access through a null host pointer, an
  overrun of a host buffer, or an exception nobody catches.
\<close>

section \<open>Devices\<close>

record devices =
  g_vdev_table :: "(u32 \<times> string) list"
  g_next_dev_handle :: u32

definition devices_init :: devices where
  "devices_init = \<lparr>g_vdev_table = [], g_next_dev_handle = 1\<rparr>"

definition CreateFile :: "SystemServiceArguments \<Rightarrow> MemoryManager \<Rightarrow> devices \<Rightarrow> (u32 \<times> devices) option" where
  "CreateFile args m dv =
     map_option (\<lambda>name.
       let h = g_next_dev_handle dv + 1
       in (h, \<lparr>g_vdev_table = um_set h name (g_vdev_table dv), g_next_dev_handle = h\<rparr>))
     (guest_cstr m (r0 args))"

text \<open>
  The four stack words are read before the handle is looked up.  A battery device gets four floats
  4.0; any other fills the output buffer with 0xFF (a negative length would be an enormous one).
\<close>

definition DeviceIoControl ::
  "SystemServiceArguments \<Rightarrow> MemoryManager \<Rightarrow> devices \<Rightarrow> (u32 \<times> MemoryManager) option" where
  "DeviceIoControl args m dv =
     (case (guest_u32 m (sp args + 8), guest_u32 m (sp args + 12),
            guest_u32 m (sp args + 16), guest_u32 m (sp args + 20)) of
        (Some outp, Some outlen, Some _, Some _) \<Rightarrow>
          (case map_of (g_vdev_table dv) (r0 args) of
             None \<Rightarrow> Some (0, m)
           | Some name \<Rightarrow>
               let p = GetRealAddr m outp
               in if suffix ''BAT'' name then
                    if p = 0 then None
                    else Some (1, m\<lparr>hmem := fold (\<lambda>k h. store_le 4 h (p + 4 * of_nat k) 0x40800000) [0..<4] (hmem m)\<rparr>)
                  else if sint outlen < 0 \<or> p = 0 \<and> outlen \<noteq> 0 then None
                  else Some (1, m\<lparr>hmem := mem_fill (hmem m) p (sz outlen) 0xFF\<rparr>))
      | _ \<Rightarrow> None)"

definition CloseHandle :: "SystemServiceArguments \<Rightarrow> devices \<Rightarrow> u32 \<times> devices" where
  "CloseHandle args dv =
     (if r0 args = 0 then (0, dv)
      else case map_of (g_vdev_table dv) (r0 args) of
             None \<Rightarrow> (0, dv)
           | Some _ \<Rightarrow> (1, dv\<lparr>g_vdev_table := al_erase (r0 args) (g_vdev_table dv)\<rparr>))"

section \<open>The clock\<close>

text \<open>\<open>struct tm\<close> as \<open>localtime\<close> fills it.\<close>

record tm =
  tm_year :: int
  tm_mon :: int
  tm_wday :: int
  tm_mday :: int
  tm_hour :: int
  tm_min :: int
  tm_sec :: int

text \<open>\<open>SystemTime\<close> is eight half-words in the order of the fields.\<close>

definition sys_time_fields :: "tm \<Rightarrow> int \<Rightarrow> int list" where
  "sys_time_fields t msec =
     [tm_year t + 1900, tm_mon t + 1, tm_wday t, tm_mday t, tm_hour t, tm_min t, tm_sec t, msec mod 1000]"

definition GetSysTime ::
  "tm \<Rightarrow> int \<Rightarrow> SystemServiceArguments \<Rightarrow> MemoryManager \<Rightarrow> (u32 \<times> MemoryManager) option" where
  "GetSysTime t msec args m =
     (let p = GetRealAddr m (r0 args)
      in if p = 0 then None
         else Some (r0 args,
           m\<lparr>hmem := fold (\<lambda>(k, v) h. store_le 2 h (p + 2 * of_nat k) (ucast (of_int v :: u16)))
              (enumerate 0 (sys_time_fields t msec)) (hmem m)\<rparr>))"

section \<open>Programs and modules\<close>

text \<open>\<open>struc\<close> is the static pointer, 0 until its first allocation succeeds.\<close>

definition prgrmIsRunning :: "VirtPtr \<Rightarrow> MemoryManager \<Rightarrow> u32 \<times> VirtPtr \<times> MemoryManager" where
  "prgrmIsRunning struc m =
     (if struc = 0 then let (e, v, m') = DyanmicAlloc m struc 0x250 in (v, v, m') else (struc, struc, m))"

text \<open>\<open>\\?\ROM\<close>, copied to a new block at each call; \<open>junk\<close> is the uninitialised pointer.\<close>

definition rom_path :: string where
  "rom_path = [bsl, bsl, CHR ''?'', bsl] @ ''ROM''"

definition GetCurrentExecutable :: "VirtPtr \<Rightarrow> MemoryManager \<Rightarrow> (u32 \<times> MemoryManager) option" where
  "GetCurrentExecutable junk m =
     (let (e, v, m') = DyanmicAlloc m junk (of_nat (length rom_path + 1)); p = GetRealAddr m' v
      in if p = 0 then None
         else Some (v, m'\<lparr>hmem := store_bytes (hmem m') p (bytes_of rom_path @ [0])\<rparr>))"

definition FindResourceW :: "SystemServiceArguments \<Rightarrow> 's \<Rightarrow> u32 \<times> 's" where
  "FindResourceW args s = (0, s)"

definition FreeLibrary :: "SystemServiceArguments \<Rightarrow> 's \<Rightarrow> u32 \<times> 's" where
  "FreeLibrary args s = (0, s)"

definition system_dir :: string where
  "system_dir = ''A:'' @ bsl # ''WINDOW'' @ bsl # ''SYSTEM''"

text \<open>
  \<open>strcat\<close> into 260 bytes that already hold the system directory and a separator.
\<close>

definition LoadLibraryA ::
  "nat \<Rightarrow> 'w host_fs \<Rightarrow> loader_env \<Rightarrow> SystemServiceArguments \<Rightarrow> (paths \<times> 'w) \<times> loader
     \<Rightarrow> (u32 \<times> (paths \<times> 'w) \<times> loader) option" where
  "LoadLibraryA fuel fs env args = (\<lambda>(s, ld).
     let libname = guest_cstr (ld_mm ld) (r0 args)
     in do { (p, st, w) \<leftarrow> MapVMPathToHost fs libname s;
             found \<leftarrow> fs_exists fs p w;
             (p, st, w) \<leftarrow>
               (if found then Some (p, st, w)
                else case libname of
                       None \<Rightarrow> None
                     | Some n \<Rightarrow>
                         let full = system_dir @ bsl # n
                         in if length full \<ge> 260 then None else MapVMPathToHost fs (Some full) (st, w));
             (dir, st, w) \<leftarrow> MapVMPathToHost fs (Some system_dir) (st, w);
             (e, img, ld) \<leftarrow> LoadPEImage fuel env p dir ld;
             Some (case img of Some i \<Rightarrow> actualImageBase i | None \<Rightarrow> 0, (st, w), ld) })"

definition GetModuleFileNameA ::
  "(string \<Rightarrow> string option) \<Rightarrow> 'w host_fs \<Rightarrow> SystemServiceArguments \<Rightarrow> (paths \<times> 'w) \<times> loader
     \<Rightarrow> (u32 \<times> (paths \<times> 'w) \<times> loader) option" where
  "GetModuleFileNameA canon fs args = (\<lambda>(s, ld).
     case GetPEImageByHandle (r0 args) ld of
       None \<Rightarrow> None
     | Some img \<Rightarrow>
         let (vm, st, w) = MapHostPathToVM canon fs (Some (pe_path img)) s;
             m = ld_mm ld; p = GetRealAddr m (r1 args)
         in if length vm \<ge> unat (r2 args) then Some (r2 args, (st, w), ld)
            else if p = 0 then None
            else Some (of_nat (length vm), (st, w),
                   ld\<lparr>ld_mm := m\<lparr>hmem := store_bytes (hmem m) p (bytes_of vm @ [0])\<rparr>\<rparr>))"

section \<open>Interrupts, power, identification\<close>

definition InterruptInitialize :: "SystemServiceArguments \<Rightarrow> ('u, 'c) mach \<Rightarrow> u32 \<times> ('u, 'c) mach" where
  "InterruptInitialize args ms = (r2 args, ms\<lparr>msm := (msm ms)\<lparr>interruptPC := r2 args\<rparr>\<rparr>)"

definition InterruptDone :: "('u, 'c) mach \<Rightarrow> u32 \<times> ('u, 'c) mach" where
  "InterruptDone ms =
     (0, if interrupting (msm ms) then ms\<lparr>msm := (msm ms)\<lparr>interruptPC := 0xAAAAAAAA\<rparr>\<rparr> else ms)"

definition BatteryLowCheck :: "('u, 'c) mach \<Rightarrow> u32 \<times> ('u, 'c) mach" where
  "BatteryLowCheck ms = (0, CurrentThreadYield ms)"

text \<open>\<open>ExitProcess\<close> ends the emulator.\<close>

definition SysPowerOff :: "SystemServiceArguments \<Rightarrow> 's \<Rightarrow> (u32 \<times> 's) proc" where
  "SysPowerOff args s = Aborted"

text \<open>\<open>MASTER_ID_INFO\<close>: 172 bytes, \<open>a2\<close> at 58 and \<open>a3\<close> at 94.\<close>

definition GetMasterIDInfo :: "SystemServiceArguments \<Rightarrow> MemoryManager \<Rightarrow> (u32 \<times> MemoryManager) option" where
  "GetMasterIDInfo args m =
     (let p = GetRealAddr m (r0 args)
      in if p = 0 then None
         else let h = mem_fill (hmem m) p 172 0;
                  h = store_bytes h (p + 58) (bytes_of ''HPPRIMEEMU'' @ [0]);
                  h = store_bytes h (p + 94) (bytes_of ''BESTARTOS114514'' @ [0])
              in Some (0, m\<lparr>hmem := h\<rparr>))"

section \<open>Lemmas\<close>

text \<open>A device handle works from its creation to its close and not after.\<close>

lemma device_opened:
  assumes "CreateFile args m dv = Some (h, dv')" "um_ok (g_vdev_table dv)"
  shows "map_of (g_vdev_table dv') h = guest_cstr m (r0 args)" "um_ok (g_vdev_table dv')"
  using assms by (auto simp: CreateFile_def Let_def map_of_um_set um_set_ok)

lemma device_closed:
  assumes "CloseHandle args dv = (r, dv')" "um_ok (g_vdev_table dv)"
  shows "r = 1 \<longleftrightarrow> r0 args \<noteq> 0 \<and> map_of (g_vdev_table dv) (r0 args) \<noteq> None"
    and "r0 args \<noteq> 0 \<Longrightarrow> map_of (g_vdev_table dv') (r0 args) = None"
  using assms umap.map_of_erase [OF assms(2) map_of_SomeD, of "r0 args"]
  by (auto simp: CloseHandle_def split: option.splits if_splits)

text \<open>The clock is written as it was read.\<close>

lemma GetSysTime_returns: "GetSysTime t msec args m = Some (r, m') \<Longrightarrow> r = r0 args \<and> m' = m\<lparr>hmem := hmem m'\<rparr>"
  by (auto simp: GetSysTime_def Let_def split: if_splits)

end
