(* ===== verification/Startup.thy ===== *)
theory Startup
  imports MiscServices
begin

text \<open>
  Starting the emulator: \<open>Executable::Load\<close> (PrimU/executable.cpp, executable.h) and
  \<open>Executor::Initialize\<close> and \<open>InitInterrupts\<close> (PrimU/executor.cpp).  The ELF reader is a
  library the repository does not hold: the argument \<open>elf\<close> gives what it reads from a file.
  \<open>memcpy_s\<close> with too small a destination clears it and reports an error.  \<open>None\<close> is undefined
  behaviour or a loader that does not end.
\<close>

section \<open>The executable\<close>

datatype exec_state = EXEC_LOADED | EXEC_EXECUTING | EXEC_NOT_INITIALIZED | EXEC_LOAD_FAILED

record Executable =
  ex_path :: string
  ex_address :: VirtPtr
  ex_entry :: u32
  ex_size :: size_t
  ex_state :: exec_state

text \<open>The constructor sets the path and the state only; the rest is left as \<open>junk\<close>.\<close>

definition Executable_new :: "Executable \<Rightarrow> string \<Rightarrow> Executable" where
  "Executable_new junk p = junk\<lparr>ex_path := p, ex_state := EXEC_NOT_INITIALIZED\<rparr>"

record elf_segment =
  seg_vaddr :: "64 word"
  seg_memsz :: "64 word"
  seg_data :: "byte list"

record elf_image =
  elf_class32 :: bool
  elf_arm :: bool
  elf_segments :: "elf_segment list"
  elf_entry :: "64 word"

text \<open>A block for given bytes, with the error of \<open>StaticAlloc\<close>; a null block is dereferenced.\<close>

definition exec_alloc ::
  "loader_env \<Rightarrow> VirtPtr \<Rightarrow> size_t \<Rightarrow> loader \<Rightarrow> (ErrorCode \<times> RealPtr \<times> loader) option" where
  "exec_alloc env addr n ld =
     (let (e, b, m) = StaticAlloc (hosts env (ld_calls ld) (ld_mm ld)) (ld_mm ld) addr n None;
          ld = ld\<lparr>ld_mm := m, ld_calls := Suc (ld_calls ld)\<rparr>
      in if e \<noteq> ERROR_OK then Some (e, 0, ld)
         else case b of None \<Rightarrow> None | Some b \<Rightarrow> Some (ERROR_OK, realAddress b, ld))"

abbreviation ld_write :: "RealPtr \<Rightarrow> byte list \<Rightarrow> loader \<Rightarrow> loader" where
  "ld_write p bs ld \<equiv> ld\<lparr>ld_mm := (ld_mm ld)\<lparr>hmem := store_bytes (hmem (ld_mm ld)) p bs\<rparr>\<rparr>"

text \<open>The ROM image at 0x30000000.\<close>

definition load_kernel :: "loader_env \<Rightarrow> loader \<Rightarrow> (ErrorCode \<times> loader) option" where
  "load_kernel env ld =
     (case ReadFileToVector env (CHR ''.'' # bsl # ''PRIME_OS.ROM'') of
        None \<Rightarrow> Some (ERROR_LOADER_READER_FAIL, ld)
      | Some rom \<Rightarrow>
          do { (e, p, ld) \<leftarrow> exec_alloc env 0x30000000 (of_nat (length rom)) ld;
               Some (e, if e = ERROR_OK then ld_write p rom ld else ld) })"

fun load_segments ::
  "loader_env \<Rightarrow> elf_segment list \<Rightarrow> Executable \<times> loader \<Rightarrow> (ErrorCode \<times> Executable \<times> loader) option" where
  "load_segments env [] (ex, ld) = Some (ERROR_OK, ex, ld)"
| "load_segments env (s # segs) (ex, ld) =
     (let ex = ex\<lparr>ex_address := ucast (seg_vaddr s), ex_size := seg_memsz s\<rparr>
      in do { (e, p, ld) \<leftarrow> exec_alloc env (ex_address ex) (ex_size ex) ld;
              if e \<noteq> ERROR_OK then Some (e, ex, ld)
              else if length (seg_data s) > unat (ex_size ex) then
                let m = (ld_mm ld)\<lparr>hmem := mem_fill (hmem (ld_mm ld)) p (ex_size ex) 0\<rparr>;
                    (m, k) = ld_free env (ex_address ex) (m, ld_calls ld)
                in Some (ERROR_GENERIC, ex, ld\<lparr>ld_mm := m, ld_calls := k\<rparr>)
              else load_segments env segs (ex, ld_write p (seg_data s) ld) })"

definition load_elf ::
  "loader_env \<Rightarrow> elf_image \<Rightarrow> Executable \<times> loader \<Rightarrow> (ErrorCode \<times> Executable \<times> loader) option" where
  "load_elf env f = (\<lambda>(ex, ld).
     if \<not> elf_class32 f \<or> \<not> elf_arm f then Some (ERROR_LOADER_INCORRECT_ATTRIBUTE, ex, ld)
     else do { (e, ex, ld) \<leftarrow> load_segments env (elf_segments f) (ex, ld);
               Some (e, if e = ERROR_OK
                        then ex\<lparr>ex_entry := ucast (elf_entry f), ex_state := EXEC_LOADED\<rparr> else ex, ld) })"

text \<open>
  A PE image; the file is read a second time for the entry point, at offset 16 of the optional header.
\<close>

definition load_pe ::
  "nat \<Rightarrow> loader_env \<Rightarrow> Executable \<times> loader \<Rightarrow> (ErrorCode \<times> Executable \<times> loader) option" where
  "load_pe fuel env = (\<lambda>(ex, ld).
     do { (e, img, ld) \<leftarrow> LoadPEImage fuel env (ex_path ex)
            (CHR ''.'' # bsl # ''prime_data'' @ bsl # CHR ''A'' # bsl # ''WINDOW'' @ bsl # ''SYSTEM'') ld;
          case img of
            None \<Rightarrow> Some (e, ex, ld)
          | Some i \<Rightarrow>
              let ex = ex\<lparr>ex_address := actualImageBase i, ex_size := sz (sizeOfImage i)\<rparr>
              in (case ReadFileToVector env (ex_path ex) of
                    None \<Rightarrow> Some (ERROR_LOADER_READER_FAIL, ex, ld)
                  | Some buf \<Rightarrow>
                      do { lfanew \<leftarrow> peek 4 buf 60;
                           entry \<leftarrow> peek 4 buf (sint lfanew + 24 + 16);
                           Some (ERROR_OK, ex\<lparr>ex_entry := actualImageBase i + entry,
                                              ex_state := EXEC_LOADED\<rparr>, ld) }) })"

definition Executable_Load ::
  "nat \<Rightarrow> loader_env \<Rightarrow> (string \<Rightarrow> elf_image option) \<Rightarrow> Executable \<times> loader
     \<Rightarrow> (ErrorCode \<times> Executable \<times> loader) option" where
  "Executable_Load fuel env elf = (\<lambda>(ex, ld).
     do { (e, ld) \<leftarrow> load_kernel env ld;
          if e \<noteq> ERROR_OK then Some (e, ex, ld)
          else case elf (ex_path ex) of
                 Some f \<Rightarrow> load_elf env f (ex, ld)
               | None \<Rightarrow> load_pe fuel env (ex, ld) })"

section \<open>The executor\<close>

definition LCD_REGISTER :: VirtPtr where "LCD_REGISTER = 0x4C800000"
definition LCD_REGISTER_SIZE :: size_t where "LCD_REGISTER_SIZE = 0x4E000000 - 0x4C800000"
definition RTC_REGISTER :: VirtPtr where "RTC_REGISTER = 0x57000000"

text \<open>A register window: the error of \<open>StaticAlloc\<close> without an out parameter.\<close>

definition map_window :: "loader_env \<Rightarrow> VirtPtr \<Rightarrow> size_t \<Rightarrow> loader \<Rightarrow> ErrorCode \<times> loader" where
  "map_window env addr n ld =
     (let (e, b, m) = StaticAlloc (hosts env (ld_calls ld) (ld_mm ld)) (ld_mm ld) addr n None
      in (e, ld\<lparr>ld_mm := m, ld_calls := Suc (ld_calls ld)\<rparr>))"

text \<open>
  The clock window, whose error is ignored, and the five hooks; \<open>hook_ok k\<close> tells whether Unicorn
  accepts the k-th.
\<close>

definition InitInterrupts :: "loader_env \<Rightarrow> (nat \<Rightarrow> bool) \<Rightarrow> loader \<Rightarrow> bool \<times> loader" where
  "InitInterrupts env hook_ok ld =
     (let (e, ld) = map_window env RTC_REGISTER 0x100 ld in (list_all hook_ok [0, 1, 2, 3, 4], ld))"

text \<open>\<open>opened\<close>: the engine exists or \<open>uc_open\<close> succeeds.\<close>

definition Executor_Initialize ::
  "nat \<Rightarrow> loader_env \<Rightarrow> (string \<Rightarrow> elf_image option) \<Rightarrow> bool \<Rightarrow> (nat \<Rightarrow> bool) \<Rightarrow> Executable option \<Rightarrow> loader
     \<Rightarrow> (bool \<times> Executable option \<times> loader) option" where
  "Executor_Initialize fuel env elf opened hook_ok exec ld =
     (case exec of
        None \<Rightarrow> Some (False, None, ld)
      | Some ex \<Rightarrow>
          if \<not> opened then Some (False, Some ex, ld)
          else do { (e, ex, ld) \<leftarrow> Executable_Load fuel env elf (ex, ld);
                    if e \<noteq> ERROR_OK then Some (False, Some ex, ld)
                    else
                      let (e1, ld) = map_window env LCD_REGISTER LCD_REGISTER_SIZE ld
                      in if e1 \<noteq> ERROR_OK then Some (False, Some ex, ld)
                         else
                           let (e2, ld) = map_window env 0x51000000 0x44 ld
                           in if e2 \<noteq> ERROR_OK then Some (False, Some ex, ld)
                              else let (ok, ld) = InitInterrupts env hook_ok ld in Some (ok, Some ex, ld) })"

section \<open>Lemmas\<close>

lemma map_window_mapped:
  assumes "map_window env addr n ld = (ERROR_OK, ld')" "n \<noteq> 0"
  shows "\<exists>b \<in> set (blocks (ld_mm ld')). virtualAddress b = addr"
proof -
  obtain b m where ret: "StaticAlloc (hosts env (ld_calls ld) (ld_mm ld)) (ld_mm ld) addr n None
      = (ERROR_OK, b, m)" and ld': "ld_mm ld' = m"
    using assms(1) by (auto simp: map_window_def split: prod.splits)
  from ret assms(2) obtain d where "b = Some d"
    by (auto simp: StaticAlloc_def Let_def split: if_splits)
  with ret have "StaticAlloc (hosts env (ld_calls ld) (ld_mm ld)) (ld_mm ld) addr n None
      = (ERROR_OK, Some d, m)" by simp
  then show ?thesis by (rule StaticAlloc_OK) (auto simp: ld')
qed

lemma map_window_keeps:
  assumes "map_window env addr n ld = (e, ld')"
  shows "set (blocks (ld_mm ld)) \<subseteq> set (blocks (ld_mm ld'))"
  using assms by (auto simp: map_window_def StaticAlloc_def Let_def split: prod.splits if_splits)

text \<open>After a successful start both register windows are mapped.\<close>

lemma Initialize_windows:
  assumes "Executor_Initialize fuel env elf opened hook_ok exec ld = Some (True, ex, ld')"
  shows "\<exists>b \<in> set (blocks (ld_mm ld')). virtualAddress b = LCD_REGISTER"
    "\<exists>b \<in> set (blocks (ld_mm ld')). virtualAddress b = 0x51000000"
proof -
  from assms obtain l l1 l2 l3 e
    where 1: "map_window env LCD_REGISTER LCD_REGISTER_SIZE l = (ERROR_OK, l1)"
      and 2: "map_window env 0x51000000 0x44 l1 = (ERROR_OK, l2)"
      and 3: "map_window env RTC_REGISTER 0x100 l2 = (e, l3)" and l: "ld' = l3"
    by (auto simp: Executor_Initialize_def InitInterrupts_def
        split: option.splits if_splits prod.splits bind_splits)
  have "LCD_REGISTER_SIZE \<noteq> 0" by (simp add: LCD_REGISTER_SIZE_def)
  with 1 have "\<exists>b \<in> set (blocks (ld_mm l1)). virtualAddress b = LCD_REGISTER"
    by (rule map_window_mapped)
  then show "\<exists>b \<in> set (blocks (ld_mm ld')). virtualAddress b = LCD_REGISTER"
    using map_window_keeps [OF 2] map_window_keeps [OF 3] by (auto simp: l)
  have "\<exists>b \<in> set (blocks (ld_mm l2)). virtualAddress b = 0x51000000"
    using 2 by (rule map_window_mapped) simp
  then show "\<exists>b \<in> set (blocks (ld_mm ld')). virtualAddress b = 0x51000000"
    using map_window_keeps [OF 3] by (auto simp: l)
qed

end
