(* ===== verification/Shutdown.thy ===== *)
theory Shutdown
  imports DisplayProps Startup
begin

text \<open>
  Taking the emulator down: the destructors of the memory manager (PrimU/MemoryManager.cpp), the display handler
  (PrimU/LCD.cpp), threads (PrimU/Thread.h), the executor and the service table (PrimU/executor.h,
  PrimU/SystemAPI.h), and \<open>Executor::Cleanup\<close>.  \<open>None\<close> is undefined behaviour or a call that never
  returns.
\<close>

section \<open>The memory manager\<close>

text \<open>The ranges that are unmapped and the host blocks that are freed, whose results nobody looks at.\<close>

definition MemoryManager_dtor ::
  "MemoryManager \<Rightarrow> (VirtPtr \<times> size_t) list \<times> RealPtr list \<times> MemoryManager" where
  "MemoryManager_dtor m =
     (map (\<lambda>b. (virtualAddress b, csize b)) (blocks m), map realAddress (blocks m),
      m\<lparr>blocks := [], dynamicHeapBlock := None\<rparr>)"

section \<open>The display\<close>

definition DeleteActiveLCD :: "lcd_handler \<times> MemoryManager \<Rightarrow> (lcd_handler \<times> MemoryManager) proc" where
  "DeleteActiveLCD = (\<lambda>(lh, m).
     proc_bind
       (if activeLCD lh \<noteq> 0
        then proc_bind (DynamicFree m (GetVirtualAddr m (activeLCD lh)))
               (\<lambda>(e, m'). Returned (lh\<lparr>activeLCD := 0\<rparr>, m'))
        else Returned (lh, m))
       (\<lambda>(lh, m).
          if activeLCDPtr lh \<noteq> 0
          then proc_bind (DynamicFree m (activeLCDPtr lh)) (\<lambda>(e, m'). Returned (lh\<lparr>activeLCDPtr := 0\<rparr>, m'))
          else Returned (lh, m)))"

text \<open>
  \<open>inst\<close>: whether \<open>_instance\<close> is not null.  The destructor deletes \<open>_instance\<close>, which is the object
  itself, before it resets the pointer; the closing of the window is in theory \<open>Window\<close>.
\<close>

partial_function (option) LCDHandler_dtor ::
  "bool \<times> lcd_handler \<times> MemoryManager \<Rightarrow> (bool \<times> lcd_handler \<times> MemoryManager) proc option" where
  "LCDHandler_dtor s =
     (case DeleteActiveLCD (snd s) of
        Aborted \<Rightarrow> Some Aborted
      | Returned t \<Rightarrow>
          if fst s
          then Option.bind (LCDHandler_dtor (True, t)) (\<lambda>r.
                 Some (proc_bind r (\<lambda>(i, u). Returned (False, u))))
          else Some (Returned (False, t)))"

text \<open>\<open>~Executor\<close> and \<open>~SystemAPI\<close>, which do not even reset the pointer.\<close>

partial_function (option) Executor_dtor :: "bool \<Rightarrow> bool option" where
  "Executor_dtor inst = (if inst then Option.bind (Executor_dtor inst) Some else Some inst)"

partial_function (option) SystemAPI_dtor :: "bool \<Rightarrow> bool option" where
  "SystemAPI_dtor inst = (if inst then Option.bind (SystemAPI_dtor inst) Some else Some inst)"

section \<open>Threads and the engine\<close>

text \<open>
  \<open>~ThreadState\<close> passes the address of its member, not the context, to \<open>uc_free\<close>, so what follows the release of
  the stack is undefined.
\<close>

definition Thread_dtor :: "Thread \<Rightarrow> MemoryManager \<Rightarrow> MemoryManager proc option" where
  "Thread_dtor t m = (case DynamicFree m (stackAddr t) of Aborted \<Rightarrow> Some Aborted | Returned (e, m') \<Rightarrow> None)"

text \<open>
  \<open>del_ok k\<close>: whether Unicorn removes the k-th hook, in the order interrupts, blocks, unmapped reads, writes and
  fetches; \<open>close_ok\<close>: whether \<open>uc_close\<close> succeeds.  Behind it there is no \<open>return\<close>.
\<close>

definition Executor_Cleanup :: "loader_env \<Rightarrow> (nat \<Rightarrow> bool) \<Rightarrow> bool \<Rightarrow> loader \<Rightarrow> (bool \<times> loader) option" where
  "Executor_Cleanup env del_ok close_ok ld =
     (if \<not> list_all del_ok [0, 1, 2, 3, 4] then Some (False, ld)
      else
        let (e, m) = StaticFree (hosts env (ld_calls ld) (ld_mm ld)) (ld_mm ld) LCD_REGISTER;
            ld = ld\<lparr>ld_mm := m, ld_calls := Suc (ld_calls ld)\<rparr>
        in if e \<noteq> ERROR_OK then Some (False, ld)
           else if \<not> close_ok then Some (False, ld)
           else None)"

section \<open>What is released\<close>

text \<open>
  Everything that is mapped is unmapped once and every host block freed once; afterwards no address of
  either side translates.
\<close>

lemma sorted_wrt_distinct_map:
  "sorted_wrt P xs \<Longrightarrow> (\<And>x y. x \<in> set xs \<Longrightarrow> y \<in> set xs \<Longrightarrow> P x y \<Longrightarrow> f x \<noteq> f y) \<Longrightarrow> distinct (map f xs)"
  by (induction xs) auto

lemma memory_released:
  assumes inv: "region_inv m" and d: "MemoryManager_dtor m = (unmapped, freed, m')"
  shows "distinct (map fst unmapped)" "distinct freed" "GetRealAddr m' v = 0" "GetVirtualAddr m' r = 0"
    "isVAddrAllocated m v \<longleftrightarrow> (\<exists>(a, n) \<in> set unmapped. unat a \<le> unat v \<and> unat v < unat a + unat n)"
proof -
  have R: "unmapped = map (\<lambda>b. (virtualAddress b, csize b)) (blocks m)" "freed = map realAddress (blocks m)"
    "m' = m\<lparr>blocks := [], dynamicHeapBlock := None\<rparr>"
    using d by (simp_all add: MemoryManager_dtor_def)
  have W: "whole_block b" if "b \<in> set (blocks m)" for b using inv that by (simp add: region_inv_def)
  have "distinct (map virtualAddress (blocks m))"
    using inv W by (intro sorted_wrt_distinct_map [of apart]) (auto simp: region_inv_def apart_def whole_block_def)
  then show "distinct (map fst unmapped)" by (simp add: R comp_def)
  show "distinct freed" unfolding R
    using inv W by (intro sorted_wrt_distinct_map [of apart_r]) (auto simp: region_inv_def apart_r_def whole_block_def)
  show "GetRealAddr m' v = 0" "GetVirtualAddr m' r = 0"
    by (simp_all add: R GetRealAddr_def GetVirtualAddr_def)
  have "MemoryBlock_ContainsVAddr b v \<longleftrightarrow> unat (virtualAddress b) \<le> unat v
      \<and> unat v < unat (virtualAddress b) + unat (csize b)" if "b \<in> set (blocks m)" for b
    using W [OF that] ContainsVAddr_iff [of b v]
    by (auto simp: whole_block_def MemoryBlock_ContainsVAddr_def MemoryChunk_ContainsVAddr_def)
  then show "isVAddrAllocated m v \<longleftrightarrow> (\<exists>(a, n) \<in> set unmapped. unat a \<le> unat v \<and> unat v < unat a + unat n)"
    by (auto simp: isVAddrAllocated_def list_ex_iff R)
qed

text \<open>The destructors of the singletons never return.\<close>

lemma dtors_diverge: "Executor_dtor True = None" "SystemAPI_dtor True = None"
proof -
  have "\<not> inst" if "Executor_dtor inst = Some r" for inst r
    by (rule Executor_dtor.raw_induct [where P = "\<lambda>i r. \<not> i", OF _ that]) (auto split: if_splits bind_splits)
  then show "Executor_dtor True = None" by (cases "Executor_dtor True") auto
  have "\<not> inst" if "SystemAPI_dtor inst = Some r" for inst r
    by (rule SystemAPI_dtor.raw_induct [where P = "\<lambda>i r. \<not> i", OF _ that]) (auto split: if_splits bind_splits)
  then show "SystemAPI_dtor True = None" by (cases "SystemAPI_dtor True") auto
qed

lemma LCDHandler_dtor_diverges:
  assumes "LCDHandler_dtor (True, t) = Some r"
  shows "r = Aborted"
proof -
  have "fst s \<longrightarrow> r = Aborted" if "LCDHandler_dtor s = Some r" for s r
    by (rule LCDHandler_dtor.raw_induct [where P = "\<lambda>s r. fst s \<longrightarrow> r = Aborted", OF _ that])
       (fastforce split: proc.splits if_splits bind_splits)
  from this [OF assms] show ?thesis by simp
qed

text \<open>
  C37. The display gives back what it took.  \<open>DeleteActiveLCD\<close> right after the first \<open>GetActiveLCD\<close> does not
  abort, releases both blocks and clears both pointers; the tables of the heap are exactly what they were.
\<close>

theorem display_released:
  assumes "hinv m" "GetActiveLCD junk (None, m) = Some (a, Some lh, m')" "breaks m' = breaks m"
  shows "\<exists>lh2 m2. DeleteActiveLCD (lh, m') = Returned (lh2, m2) \<and> activeLCD lh2 = 0 \<and> activeLCDPtr lh2 = 0
    \<and> hinv m2 \<and> heapFree m2 = heapFree m \<and> mset (heapAlloc m2) = mset (heapAlloc m)"
proof -
  obtain m1 u k j where H: "hinv m1" "(u, k) \<in> set (heapAlloc m1)" "461432 \<le> unat k"
      "hinv m'" "a \<in> fst ` set (heapAlloc m')" "(u, k) \<in> set (heapAlloc m')"
      "lh = \<lparr>activeLCD = GetRealAddr m1 u, activeLCDPtr = a, brightness_level = 2\<rparr>"
    and R: "\<And>w. GetRealAddr m' w = GetRealAddr m1 w"
    and A: "set (heapAlloc m') = insert (a, j) (insert (u, k) (set (heapAlloc m)))"
      "u \<notin> fst ` set (heapAlloc m)" "a \<notin> insert u (fst ` set (heapAlloc m))"
    by (rule first_use [OF assms]) (rule that)
  have u: "in_heap (unat u)" using alloc_in_heap [OF hinvD(2) [OF H(4)] H(6)] by (auto simp: in_heap_def)
  have a: "a \<noteq> 0" using alloc_in_heap [OF hinvD(2) [OF H(4)], of a j] A(1) by auto
  have p: "GetRealAddr m1 u \<noteq> 0" using heap_translate_nz [OF hinvD(1) [OF H(4)] u] by (simp add: R)
  have guest: "GetVirtualAddr m' (GetRealAddr m1 u) = u"
    using translate_roundtrip [OF hinvD(1) [OF H(4)] in_heap_allocated [OF hinvD(1) [OF H(4)] u]] by (simp add: R)
  have n: "(u, k) \<notin> set (heapAlloc m)" "(a, j) \<notin> set (heapAlloc m)" using A(2,3) by force+
  obtain m2 where f2: "DynamicFree m' u = Returned (ERROR_OK, m2)" "hinv m2"
    "set (heapAlloc m2) = insert (a, j) (set (heapAlloc m))"
    using free_live [OF H(4,6)] A n by (auto simp: insert_Diff_if)
  obtain m3 where f3: "DynamicFree m2 a = Returned (ERROR_OK, m3)" "hinv m3"
    "set (heapAlloc m3) = set (heapAlloc m)"
    using free_live [OF f2(2), of a j] f2(3) n by (auto simp: insert_Diff_if)
  note T = same_tables [OF f3(2) assms(1) f3(3)]
  show ?thesis using T f3(2)
    by (intro exI [of _ "lh\<lparr>activeLCD := 0, activeLCDPtr := 0\<rparr>"] exI [of _ m3])
       (simp add: DeleteActiveLCD_def H(7) p a guest f2(1) f3(1))
qed

theorem display_released_witness:
  "\<exists>a lh m' lh2 m2. GetActiveLCD 0 (None, demo_mm) = Some (a, Some lh, m')
     \<and> DeleteActiveLCD (lh, m') = Returned (lh2, m2) \<and> heapFree m2 = [(0x20000000, 0x10000000)]"
proof -
  obtain a lh m' where d: "GetActiveLCD 0 (None, demo_mm) = Some (a, Some lh, m')" "breaks m' = breaks demo_mm"
    by (rule demo_display)
  from display_released [OF demo_hinv d] d(1) show ?thesis by (auto simp: demo_tables)
qed

end
