(* ===== verification/Window.thy ===== *)
theory Window
  imports Main
begin

text \<open>
  The window of the display (PrimU/LCD.cpp: \<open>g_LcdWindowMap\<close>, the launch and the wait in the constructor
  \<open>LCD::LCD\<close>, the destructor, \<open>WindowThreadProc\<close>; PrimU/LCD.h: \<open>GetInstance\<close>) as a state machine of the
  emulation thread and one window thread per LCD object.  Objects are numbered in the order of their creation.
  Every access to the map is under the mutex, so each is one step; creating a window, painting and closing are
  the host's, in any order the code allows.
\<close>

section \<open>State\<close>

text \<open>An entry of the map: whether the thread is there to be joined, whether the handle is set.\<close>

record WindowInfo =
  windowThread :: bool
  windowHandle :: bool
  isExiting :: bool

definition WindowInfo_new :: WindowInfo where
  "WindowInfo_new = \<lparr>windowThread = False, windowHandle = False, isExiting = False\<rparr>"

text \<open>
  Where a window thread is: before \<open>RegisterClassEx\<close>, before \<open>CreateWindowEx\<close>, before it enters the handle
  in the map, showing the window and handling messages, in \<open>WM_PAINT\<close> inside the constructor of the given
  object, at its end.
\<close>

datatype win_pc = NotStarted | Starting | Registered | HasWindow | Running | Painting nat | Finished

text \<open>The emulation thread: outside the handler, in the constructor of an object, in the destructor, behind it.\<close>

datatype emu_pc = EmuFree | EmuConstructing nat | EmuJoining nat | EmuDestroyed

text \<open>\<open>winst\<close>: \<open>LCDHandler::_instance\<close>, by the object its handler owns; \<open>wclass\<close>: the window class exists.\<close>

record windows =
  g_LcdWindowMap :: "nat \<Rightarrow> WindowInfo option"
  wthread :: "nat \<Rightarrow> win_pc"
  wclass :: bool
  winst :: "nat option"
  wnext :: nat
  wemu :: emu_pc

definition windows_init :: windows where
  "windows_init = \<lparr>g_LcdWindowMap = (\<lambda>k. None), wthread = (\<lambda>k. NotStarted), wclass = False, winst = None,
     wnext = 0, wemu = EmuFree\<rparr>"

section \<open>Operations on the map\<close>

text \<open>\<open>operator[]\<close> makes an entry when there is none.\<close>

definition map_entry :: "nat \<Rightarrow> windows \<Rightarrow> WindowInfo" where
  "map_entry k s = (case g_LcdWindowMap s k of Some i \<Rightarrow> i | None \<Rightarrow> WindowInfo_new)"

definition put_entry :: "nat \<Rightarrow> WindowInfo \<Rightarrow> windows \<Rightarrow> windows" where
  "put_entry k i s = s\<lparr>g_LcdWindowMap := (g_LcdWindowMap s)(k := Some i)\<rparr>"

text \<open>The constructor enters the object and launches its thread.\<close>

definition LCD_launch :: "windows \<Rightarrow> windows" where
  "LCD_launch s =
     (let n = wnext s; s = put_entry n ((map_entry n s)\<lparr>isExiting := False\<rparr>) s;
          s = put_entry n ((map_entry n s)\<lparr>windowThread := True\<rparr>) s
      in s\<lparr>wthread := (wthread s)(n := Starting), wnext := Suc n\<rparr>)"

text \<open>What the constructor waits for.\<close>

definition has_handle :: "windows \<Rightarrow> nat \<Rightarrow> bool" where
  "has_handle s k = (case g_LcdWindowMap s k of None \<Rightarrow> False | Some i \<Rightarrow> windowHandle i)"

definition store_handle :: "nat \<Rightarrow> windows \<Rightarrow> windows" where
  "store_handle k s = put_entry k ((map_entry k s)\<lparr>windowHandle := True\<rparr>) s"

text \<open>The locked part of the destructor; the result tells whether there is a thread to join.\<close>

definition LCD_erase :: "nat \<Rightarrow> windows \<Rightarrow> bool \<times> windows" where
  "LCD_erase k s =
     (case g_LcdWindowMap s k of
        None \<Rightarrow> (False, s)
      | Some i \<Rightarrow> (windowThread i, s\<lparr>g_LcdWindowMap := (g_LcdWindowMap s)(k := None)\<rparr>))"

abbreviation goto :: "nat \<Rightarrow> win_pc \<Rightarrow> windows \<Rightarrow> windows" where
  "goto k pc s \<equiv> s\<lparr>wthread := (wthread s)(k := pc)\<rparr>"

section \<open>Steps\<close>

text \<open>
  \<open>emu_use\<close> and \<open>paint\<close> are the two uses of \<open>sLCDHandler\<close>: while \<open>_instance\<close> is null each makes a new
  handler and with it a new LCD, and only the end of its constructor sets \<open>_instance\<close>.  The class is
  registered at most once: \<open>RegisterClassEx\<close> fails for a name that exists, and may fail for other reasons.
\<close>

inductive win_step :: "windows \<Rightarrow> windows \<Rightarrow> bool" where
  emu_use: "wemu s = EmuFree \<Longrightarrow> winst s = None \<Longrightarrow> win_step s (LCD_launch (s\<lparr>wemu := EmuConstructing (wnext s)\<rparr>))"
| emu_ready: "wemu s = EmuConstructing n \<Longrightarrow> has_handle s n \<Longrightarrow> win_step s (s\<lparr>wemu := EmuFree, winst := Some n\<rparr>)"
| register: "wthread s k = Starting \<Longrightarrow> \<not> wclass s \<Longrightarrow> win_step s (goto k Registered (s\<lparr>wclass := True\<rparr>))"
| no_class: "wthread s k = Starting \<Longrightarrow> win_step s (goto k Finished s)"
| create: "wthread s k = Registered \<Longrightarrow> win_step s (goto k HasWindow s)"
| no_window: "wthread s k = Registered \<Longrightarrow> win_step s (goto k Finished s)"
| store: "wthread s k = HasWindow \<Longrightarrow> win_step s (goto k Running (store_handle k s))"
| paint: "wthread s k = Running \<Longrightarrow> winst s = None \<Longrightarrow> win_step s (goto k (Painting (wnext s)) (LCD_launch s))"
| paint_ready: "wthread s k = Painting j \<Longrightarrow> has_handle s j \<Longrightarrow> win_step s (goto k Running (s\<lparr>winst := Some j\<rparr>))"
| closed: "wthread s k = Running \<Longrightarrow> win_step s (goto k Finished s)"
| destroy: "wemu s = EmuFree \<Longrightarrow> winst s = Some k \<Longrightarrow> LCD_erase k s = (thr, s') \<Longrightarrow>
    win_step s (s'\<lparr>wemu := if thr then EmuJoining k else EmuDestroyed\<rparr>)"
| joined: "wemu s = EmuJoining k \<Longrightarrow> wthread s k = Finished \<Longrightarrow> win_step s (s\<lparr>wemu := EmuDestroyed\<rparr>)"

abbreviation win_steps :: "windows \<Rightarrow> windows \<Rightarrow> bool" where
  "win_steps \<equiv> win_step\<^sup>*\<^sup>*"

section \<open>Invariant\<close>

text \<open>
  Past registration there is at most one thread; a thread that has not stored its handle has an entry
  without one; an object that \<open>WM_PAINT\<close> constructs belongs to a thread that finds the class registered.
\<close>

definition has_class :: "win_pc \<Rightarrow> bool" where
  "has_class pc \<longleftrightarrow> pc \<noteq> NotStarted \<and> pc \<noteq> Starting \<and> pc \<noteq> Finished"

definition win_inv :: "windows \<Rightarrow> bool" where
  "win_inv s \<longleftrightarrow>
     (\<forall>k\<ge>wnext s. wthread s k = NotStarted \<and> \<not> has_handle s k)
     \<and> (\<forall>k. has_class (wthread s k) \<longrightarrow> wclass s)
     \<and> (\<forall>k k'. has_class (wthread s k) \<longrightarrow> has_class (wthread s k') \<longrightarrow> k = k')
     \<and> (\<forall>k. wthread s k = Starting \<or> wthread s k = Registered \<or> wthread s k = HasWindow \<longrightarrow> \<not> has_handle s k)
     \<and> (\<forall>k j. wthread s k = Painting j \<longrightarrow> j < wnext s \<and> (wthread s j = Starting \<or> wthread s j = Finished)
          \<and> \<not> has_handle s j)"

lemma win_invD:
  assumes "win_inv s"
  shows "wnext s \<le> k \<Longrightarrow> wthread s k = NotStarted" "wnext s \<le> k \<Longrightarrow> \<not> has_handle s k"
    "has_class (wthread s k) \<Longrightarrow> wclass s"
    "has_class (wthread s k) \<Longrightarrow> has_class (wthread s k') \<Longrightarrow> k = k'"
    "wthread s k = Starting \<or> wthread s k = Registered \<or> wthread s k = HasWindow \<Longrightarrow> \<not> has_handle s k"
    "wthread s k = Painting j \<Longrightarrow> j < wnext s" "wthread s k = Painting j \<Longrightarrow> wthread s j = Starting \<or> wthread s j = Finished"
    "wthread s k = Painting j \<Longrightarrow> \<not> has_handle s j"
  using assms unfolding win_inv_def by blast+

lemma has_class_simps [simp]:
  "\<not> has_class NotStarted" "\<not> has_class Starting" "\<not> has_class Finished"
  "has_class Registered" "has_class HasWindow" "has_class Running" "has_class (Painting j)"
  by (simp_all add: has_class_def)

lemma has_handle_upd [simp]:
  "has_handle (s\<lparr>wemu := e\<rparr>) k = has_handle s k" "has_handle (s\<lparr>winst := i\<rparr>) k = has_handle s k"
  "has_handle (s\<lparr>wthread := t\<rparr>) k = has_handle s k" "has_handle (s\<lparr>wclass := c\<rparr>) k = has_handle s k"
  by (simp_all add: has_handle_def)

lemma store_handle_simps [simp]:
  "has_handle (store_handle k s) j \<longleftrightarrow> j = k \<or> has_handle s j"
  "wthread (store_handle k s) = wthread s" "wclass (store_handle k s) = wclass s"
  "winst (store_handle k s) = winst s" "wnext (store_handle k s) = wnext s" "wemu (store_handle k s) = wemu s"
  by (simp_all add: store_handle_def put_entry_def has_handle_def)

lemma LCD_launch_simps [simp]:
  "wthread (LCD_launch s) = (wthread s)(wnext s := Starting)" "wnext (LCD_launch s) = Suc (wnext s)"
  "wclass (LCD_launch s) = wclass s" "winst (LCD_launch s) = winst s" "wemu (LCD_launch s) = wemu s"
  "has_handle (LCD_launch s) j \<longleftrightarrow> has_handle s j"
  by (simp_all add: LCD_launch_def Let_def put_entry_def map_entry_def has_handle_def WindowInfo_new_def
      split: option.split)

lemma LCD_erase_frame:
  assumes "LCD_erase k s = (thr, s')"
  shows "wthread s' = wthread s" "wnext s' = wnext s" "wclass s' = wclass s" "winst s' = winst s"
    "has_handle s' j \<Longrightarrow> has_handle s j"
  using assms by (auto simp: LCD_erase_def has_handle_def split: option.splits if_splits)

lemma win_inv_init: "win_inv windows_init"
  by (simp add: win_inv_def windows_init_def has_handle_def)

inductive_cases win_stepE: "win_step s s'"

lemma win_step_inv:
  assumes "win_step s s'" "win_inv s"
  shows "win_inv s'"
  using assms(1)
proof cases
  case (register k)
  then have no: "\<not> has_class (wthread s j)" for j using win_invD(3) [OF assms(2)] by blast
  then have "wthread s j \<noteq> Painting i" for i j by (metis has_class_simps(7))
  then show ?thesis using assms(2) no register by (auto simp: win_inv_def)
next
  case (paint k)
  have "k < wnext s" using win_invD(1) [OF assms(2), of k] paint(2) by (metis linorder_not_le win_pc.distinct(7))
  moreover have "j = k" if "has_class (wthread s j)" for j
    using win_invD(4) [OF assms(2) that, of k] paint(2) by simp
  moreover have "wclass s" using win_invD(3) [OF assms(2), of k] paint(2) by simp
  ultimately show ?thesis using assms(2) paint by (auto simp: win_inv_def less_Suc_eq)
next
  case emu_use
  then show ?thesis using assms(2) by (auto simp: win_inv_def less_Suc_eq)
next
  case (create k)
  then have "wclass s" using win_invD(3) [OF assms(2), of k] by simp
  then show ?thesis using assms(2) create by (auto simp: win_inv_def)
next
  case (store k)
  then have "wclass s" using win_invD(3) [OF assms(2), of k] by simp
  then show ?thesis using assms(2) store by (auto simp: win_inv_def)
next
  case (destroy k thr t)
  note F = LCD_erase_frame [OF destroy(4)]
  show ?thesis using assms(2) F(5) unfolding win_inv_def by (simp add: destroy(1) F(1-4)) blast
qed (use assms(2) in \<open>auto simp: win_inv_def\<close>)


lemma win_steps_inv: "win_steps s s' \<Longrightarrow> win_inv s \<Longrightarrow> win_inv s'"
  by (induction rule: rtranclp_induct) (auto intro: win_step_inv)

text \<open>A property that every step keeps holds in every later state.\<close>

lemma win_steps_keep:
  assumes "win_steps s s'" "win_inv s" "P s" and "\<And>t t'. win_inv t \<Longrightarrow> P t \<Longrightarrow> win_step t t' \<Longrightarrow> P t'"
  shows "P s'"
proof -
  have "win_inv s' \<and> P s'"
    using assms(1) by (induction rule: rtranclp_induct) (use assms(2-4) in \<open>auto intro: win_step_inv\<close>)
  then show ?thesis by simp
qed

section \<open>Waiting for a window\<close>

text \<open>A thread that has ended stays ended, and nobody else stores its handle.\<close>

lemma ended_step:
  assumes "win_step s s'" "win_inv s" "wthread s n = Finished" "\<not> has_handle s n"
  shows "wthread s' n = Finished \<and> \<not> has_handle s' n"
  using assms(1)
proof cases
  case emu_use
  then show ?thesis using assms(2-4) win_invD(1) [OF assms(2), of n] by (auto simp: fun_upd_def)
next
  case (paint k)
  then show ?thesis using assms(2-4) win_invD(1) [OF assms(2), of n] by (auto simp: fun_upd_def)
next
  case (destroy k thr t)
  note F = LCD_erase_frame [OF destroy(4)]
  show ?thesis using assms(3,4) F(5) [of n] by (auto simp: destroy(1) F(1))
qed (use assms(3,4) in auto)

lemma constructor_waits:
  assumes "win_inv s" "wthread s n = Finished" "\<not> has_handle s n" "wemu s = EmuConstructing n" "win_steps s s'"
  shows "wemu s' = EmuConstructing n"
proof -
  have "wemu s' = EmuConstructing n \<and> wthread s' n = Finished \<and> \<not> has_handle s' n"
  proof (rule win_steps_keep [OF assms(5,1)])
    fix t t' assume t: "win_inv t" "wemu t = EmuConstructing n \<and> wthread t n = Finished \<and> \<not> has_handle t n"
      and st: "win_step t t'"
    from st t(2) have "wemu t' = EmuConstructing n" by (cases rule: win_step.cases) auto
    then show "wemu t' = EmuConstructing n \<and> wthread t' n = Finished \<and> \<not> has_handle t' n"
      using ended_step [OF st t(1)] t(2) by blast
  qed (use assms in simp)
  then show ?thesis by simp
qed

section \<open>The first frame\<close>

lemma painting_step:
  assumes "win_step s s'" "win_inv s" "wthread s k = Painting j"
  shows "wthread s' k = Painting j"
  using assms(1)
proof cases
  case emu_use
  then show ?thesis using assms(3) win_invD(1) [OF assms(2), of k] by (auto simp: fun_upd_def)
next
  case (paint i)
  then show ?thesis using assms(3) win_invD(1) [OF assms(2), of k] by (auto simp: fun_upd_def)
next
  case (paint_ready i l)
  then show ?thesis using assms(3) win_invD(8) [OF assms(2)] by (auto simp: fun_upd_def)
next
  case (destroy i thr t)
  then show ?thesis using assms(3) LCD_erase_frame(1) [OF destroy(4)] by simp
qed (use assms(3) in auto)

lemma instance_step:
  assumes "win_step s s'" "winst s \<noteq> None" "\<forall>j. wthread s k \<noteq> Painting j"
  shows "winst s' \<noteq> None \<and> (\<forall>j. wthread s' k \<noteq> Painting j) \<and> wnext s' = wnext s"
  using assms(1)
proof cases
  case (destroy i thr t)
  then show ?thesis using assms(2,3) LCD_erase_frame [OF destroy(4)] by simp
qed (use assms(2,3) in auto)

text \<open>
  C38. The first frame decides.  A window whose first \<open>WM_PAINT\<close> comes while \<open>_instance\<close> is still null
  (the emulation thread has not yet seen the handle) constructs a second display inside \<open>WM_PAINT\<close>,
  whose thread cannot register the window class again, and hangs there in every later state; the
  destructor would then never end either.  Once \<open>_instance\<close> is set, no window that has not hung before ever hangs and no
  second display is made.
\<close>

theorem first_paint_decides:
  assumes "win_steps windows_init s" and "win_steps s s'"
  shows "(wthread s k = Painting j \<longrightarrow> wthread s' k = Painting j \<and> (wemu s = EmuJoining k \<longrightarrow> wemu s' = EmuJoining k))
    \<and> (winst s \<noteq> None \<and> (\<forall>j. wthread s k \<noteq> Painting j) \<longrightarrow>
         (\<forall>j. wthread s' k \<noteq> Painting j) \<and> wnext s' = wnext s)"
proof (intro conjI impI)
  have inv: "win_inv s" using win_steps_inv [OF assms(1) win_inv_init] .
  assume p: "wthread s k = Painting j"
  show "wthread s' k = Painting j"
    by (rule win_steps_keep [OF assms(2) inv]) (use p painting_step in auto)
  assume e: "wemu s = EmuJoining k"
  have "wemu s' = EmuJoining k \<and> wthread s' k = Painting j"
  proof (rule win_steps_keep [OF assms(2) inv])
    fix t t' assume t: "win_inv t" "wemu t = EmuJoining k \<and> wthread t k = Painting j" and st: "win_step t t'"
    from st t(2) have "wemu t' = EmuJoining k" by (cases rule: win_step.cases) auto
    then show "wemu t' = EmuJoining k \<and> wthread t' k = Painting j" using painting_step [OF st t(1)] t(2) by blast
  qed (use p e in simp)
  then show "wemu s' = EmuJoining k" by simp
next
  have inv: "win_inv s" using win_steps_inv [OF assms(1) win_inv_init] .
  assume a: "winst s \<noteq> None \<and> (\<forall>j. wthread s k \<noteq> Painting j)"
  have "winst s' \<noteq> None \<and> (\<forall>j. wthread s' k \<noteq> Painting j) \<and> wnext s' = wnext s"
  proof (rule win_steps_keep [OF assms(2) inv])
    fix t t' assume "winst t \<noteq> None \<and> (\<forall>j. wthread t k \<noteq> Painting j) \<and> wnext t = wnext s" "win_step t t'"
    then show "winst t' \<noteq> None \<and> (\<forall>j. wthread t' k \<noteq> Painting j) \<and> wnext t' = wnext s"
      using instance_step [of t t' k] by auto
  qed (use a in simp)
  then show "\<forall>j. wthread s' k \<noteq> Painting j" "wnext s' = wnext s" by simp_all
qed

text \<open>The race: the window paints before the emulation thread wakes up.\<close>

definition demo_race :: windows where
  "demo_race =
     goto 0 (Painting 1) (LCD_launch (goto 0 Running (store_handle 0 (goto 0 HasWindow (goto 0 Registered
       (LCD_launch (windows_init\<lparr>wemu := EmuConstructing 0\<rparr>)\<lparr>wclass := True\<rparr>))))))"

lemma demo_race_reached: "win_steps windows_init demo_race"
proof -
  let ?a = "LCD_launch (windows_init\<lparr>wemu := EmuConstructing 0\<rparr>)"
  let ?b = "goto 0 Registered (?a\<lparr>wclass := True\<rparr>)"
  let ?c = "goto 0 HasWindow ?b"
  let ?d = "goto 0 Running (store_handle 0 ?c)"
  have "win_step windows_init ?a" using emu_use [of windows_init] by (simp add: windows_init_def)
  moreover have "win_step ?a ?b" by (rule register) (simp_all add: windows_init_def)
  moreover have "win_step ?b ?c" by (rule create) simp
  moreover have "win_step ?c ?d" by (rule store) simp
  moreover have "win_step ?d demo_race" using paint [of ?d 0] by (simp add: demo_race_def windows_init_def)
  ultimately show ?thesis by (meson rtranclp.rtrancl_into_rtrancl rtranclp.rtrancl_refl)
qed

theorem first_paint_decides_witness:
  "\<exists>s. win_steps windows_init s \<and> wthread s 0 = Painting 1 \<and> (\<forall>s'. win_steps s s' \<longrightarrow> wthread s' 0 = Painting 1)"
proof -
  have "wthread demo_race 0 = Painting 1" by (simp add: demo_race_def)
  then show ?thesis using demo_race_reached first_paint_decides [OF demo_race_reached, of _ 0 1] by blast
qed

end
