(* ===== verification/Diagnostics.thy ===== *)
theory Diagnostics
  imports Prelude
begin

text \<open>
  What the emulator prints when the engine stops on an error (PrimU/executor.cpp: \<open>TryRead32\<close>,
  \<open>PrintOneFrame\<close>, \<open>PrintStackTrace\<close>, the hook \<open>pf\<close> for accesses to unmapped memory, the report at the
  end of \<open>Execute\<close>) and the hex dump of PrimU/system.cpp.  The functions only read the engine, so each
  is a function from what it reads to the text it prints.  Unicorn's reads and the Capstone disassembler
  are not in the repository: the record \<open>engine_view\<close> holds their answers.
\<close>

section \<open>Numbers in output\<close>

text \<open>The conversions of the host's \<open>printf\<close> and streams that the reports use.\<close>

definition nl :: string where "nl = [CHR 0x0A]"
definition tab :: string where "tab = [CHR 0x09]"

function nat_digits :: "string \<Rightarrow> nat \<Rightarrow> nat \<Rightarrow> string" where
  "nat_digits dig b n =
     (if b < 2 \<or> n < b then [dig ! n] else nat_digits dig b (n div b) @ [dig ! (n mod b)])"
  by pat_completeness auto
termination by (relation "measure (\<lambda>(dig, b, n). n)") auto

declare nat_digits.simps [simp del]

definition pad0 :: "nat \<Rightarrow> string \<Rightarrow> string" where
  "pad0 w s = replicate (w - length s) (CHR ''0'') @ s"

definition hex_X8 :: "u32 \<Rightarrow> string" where
  "hex_X8 x = pad0 8 (nat_digits ''0123456789ABCDEF'' 16 (unat x))"

definition hex_x :: "nat \<Rightarrow> nat \<Rightarrow> string" where
  "hex_x w n = pad0 w (nat_digits ''0123456789abcdef'' 16 n)"

definition dec_02d :: "nat \<Rightarrow> string" where
  "dec_02d n = pad0 2 (nat_digits ''0123456789'' 10 n)"

definition dec_i :: "u32 \<Rightarrow> string" where
  "dec_i x = (if sint x < 0 then CHR ''-'' # nat_digits ''0123456789'' 10 (nat (- sint x))
              else nat_digits ''0123456789'' 10 (nat (sint x)))"

section \<open>The engine\<close>

datatype cs_mode = CS_MODE_ARM | CS_MODE_THUMB

record cs_insn =
  insn_address :: size_t
  insn_bytes :: "byte list"
  mnemonic :: string
  op_str :: string

text \<open>
  The sixteen registers in the order R0 to R12, SP, LR, PC; CPSR when it can be read; \<open>uc_mem_read\<close> with
  the bytes it delivers on success; \<open>cs_open\<close>, \<open>cs_disasm\<close> (bytes, address, limit on the number of
  instructions, 0 for none), whether \<open>malloc\<close> succeeds, the number of the current thread.
\<close>

record engine_view =
  ev_regs :: "u32 list"
  ev_cpsr :: "u32 option"
  ev_mem_read :: "size_t \<Rightarrow> nat \<Rightarrow> byte list option"
  ev_cs_open :: "cs_mode \<Rightarrow> bool"
  ev_cs_disasm :: "cs_mode \<Rightarrow> byte list \<Rightarrow> size_t \<Rightarrow> nat \<Rightarrow> cs_insn list"
  ev_malloc :: bool
  ev_thread :: u32

text \<open>An element of a \<open>uint32_t\<close> buffer that \<open>uc_mem_read\<close> filled.\<close>

definition buf_u32 :: "byte list \<Rightarrow> nat \<Rightarrow> u32" where
  "buf_u32 bs i = ucast (load_le 4 (\<lambda>p. bs ! unat p) (of_nat (4 * i)))"

definition TryRead32 :: "engine_view \<Rightarrow> u32 \<Rightarrow> u32 option" where
  "TryRead32 d addr = map_option (\<lambda>bs. buf_u32 bs 0) (ev_mem_read d (sz addr) 4)"

text \<open>Thumb code: an odd \<open>pc\<close>, or the T bit of CPSR, which counts as clear when it cannot be read.\<close>

definition ev_is_thumb :: "engine_view \<Rightarrow> bool" where
  "ev_is_thumb d \<longleftrightarrow> ev_regs d ! 15 AND 1 \<noteq> 0
     \<or> (case ev_cpsr d of None \<Rightarrow> 0 | Some w \<Rightarrow> w) AND push_bit 5 1 \<noteq> 0"

definition ev_mode :: "engine_view \<Rightarrow> cs_mode" where
  "ev_mode d = (if ev_is_thumb d then CS_MODE_THUMB else CS_MODE_ARM)"

section \<open>The stack trace\<close>

definition sanitize_addr :: "u32 \<Rightarrow> u32" where
  "sanitize_addr addr = addr AND NOT 1"

definition call_site :: "u32 \<Rightarrow> u32" where
  "call_site ret = sanitize_addr ret - (if ret AND 1 \<noteq> 0 then 2 else 4)"

definition frame_line :: "nat \<Rightarrow> u32 \<Rightarrow> string \<Rightarrow> string" where
  "frame_line idx addr note = CHR ''#'' # dec_02d idx @ '' 0x'' @ hex_X8 addr @ note @ nl"

definition PrintOneFrame :: "engine_view \<Rightarrow> cs_mode \<Rightarrow> u32 \<Rightarrow> nat \<Rightarrow> string" where
  "PrintOneFrame d cs addr idx =
     (if addr = 0 then frame_line idx addr []
      else case ev_mem_read d (sz addr) 8 of
             None \<Rightarrow> frame_line idx addr []
           | Some bytes \<Rightarrow>
               (case ev_cs_disasm d cs bytes (sz addr) 1 of
                  [] \<Rightarrow> frame_line idx addr []
                | insn # _ \<Rightarrow> frame_line idx addr (''  '' @ mnemonic insn @ '' '' @ op_str insn)))"

text \<open>
  The loop along the frame pointers, at most \<open>n\<close> more times; \<open>frame\<close> prints one line.  The function
  has it twice, with and without the disassembler.
\<close>

fun unwind :: "engine_view \<Rightarrow> (u32 \<Rightarrow> nat \<Rightarrow> string) \<Rightarrow> nat \<Rightarrow> u32 \<Rightarrow> u32 \<Rightarrow> nat \<Rightarrow> string" where
  "unwind d frame 0 cur_fp last_fp depth = []"
| "unwind d frame (Suc n) cur_fp last_fp depth =
     (if cur_fp = 0 \<or> cur_fp = last_fp then []
      else case TryRead32 d (cur_fp - 4) of
             None \<Rightarrow> []
           | Some prev_fp \<Rightarrow>
               (case TryRead32 d cur_fp of
                  None \<Rightarrow> []
                | Some saved_lr \<Rightarrow>
                    if saved_lr \<noteq> 0
                    then frame (call_site saved_lr) depth @ unwind d frame n prev_fp cur_fp (Suc depth)
                    else unwind d frame n prev_fp cur_fp depth))"

definition MAX_FRAMES :: nat where "MAX_FRAMES = 64"

definition print_frames :: "engine_view \<Rightarrow> (u32 \<Rightarrow> nat \<Rightarrow> string) \<Rightarrow> string" where
  "print_frames d frame =
     (let lr = ev_regs d ! 14; fp = ev_regs d ! 11
      in frame (sanitize_addr (ev_regs d ! 15)) 0
         @ (if lr \<noteq> 0 then frame (call_site lr) 1 @ unwind d frame MAX_FRAMES fp 0 2
            else unwind d frame MAX_FRAMES fp 0 1))"

definition print_dump :: "engine_view \<Rightarrow> string" where
  "print_dump d =
     (let sp = ev_regs d ! 13
      in nl @ ''--- Stack dump (SP=0x'' @ hex_X8 sp @ '') ---'' @ nl
         @ (case ev_mem_read d (sz sp) 128 of
              None \<Rightarrow> ''  Failed to read stack memory.'' @ nl
            | Some buf \<Rightarrow>
                concat (map (\<lambda>i. ''  0x'' @ hex_X8 (sp + of_nat i * 4) @ '': '' @ hex_X8 (buf_u32 buf i) @ '' ''
                    @ hex_X8 (buf_u32 buf (i + 1)) @ '' '' @ hex_X8 (buf_u32 buf (i + 2)) @ '' ''
                    @ hex_X8 (buf_u32 buf (i + 3)) @ nl)
                  [0, 4, 8, 12, 16, 20, 24, 28])))"

definition PrintStackTrace :: "engine_view \<Rightarrow> string" where
  "PrintStackTrace d =
     nl @ ''--- Stack trace ---'' @ nl
     @ (if ev_cs_open d (ev_mode d) then print_frames d (PrintOneFrame d (ev_mode d))
        else print_frames d (\<lambda>addr idx. frame_line idx addr []))
     @ print_dump d"

section \<open>Registers and disassembly\<close>

definition print_registers :: "engine_view \<Rightarrow> string" where
  "print_registers d =
     (let r = (\<lambda>k. ev_regs d ! k);
          line = (\<lambda>name k. name @ '': '' @ hex_X8 (r k) @ CHR ''|'' # dec_i (r k) @ nl)
      in concat (map (\<lambda>k. line (''    r'' @ nat_digits ''0123456789'' 10 k) k) [0..<10])
         @ concat (map (\<lambda>k. line (''   r'' @ nat_digits ''0123456789'' 10 k) k) [10..<13])
         @ ''    sp: '' @ hex_X8 (r 13) @ nl @ ''    pc: '' @ hex_X8 (r 15) @ nl @ ''    lr: '' @ hex_X8 (r 14) @ nl)"

definition insn_line :: "size_t \<Rightarrow> cs_insn \<Rightarrow> string" where
  "insn_line pc_addr i =
     (if insn_address i = pc_addr then '' -> '' else ''    '') @ ''0x'' @ hex_x 8 (unat (insn_address i)) @ '':'' @ tab
     @ concat (map (\<lambda>b. hex_x 2 (unat b) @ '' '') (insn_bytes i)) @ tab @ mnemonic i @ tab @ op_str i @ nl"

definition disasm_start :: "size_t \<Rightarrow> size_t" where
  "disasm_start pc_addr = (if 32 < pc_addr then pc_addr - 32 else 0)"

text \<open>\<open>after\<close> is \<open>CONTEXT_BYTES_AFTER\<close>: 32 in \<open>pf\<close>, 64 in \<open>Execute\<close>.\<close>

definition print_disassembly :: "nat \<Rightarrow> engine_view \<Rightarrow> string" where
  "print_disassembly after d =
     (let pc = ev_regs d ! 15; pc_addr = sz (pc AND NOT 1); start = disasm_start pc_addr; n = 32 + after
      in nl @ ''--- Disassembly around PC (0x'' @ hex_X8 pc @ '') ---'' @ nl
         @ (if \<not> ev_cs_open d (ev_mode d) then ''    Failed to initialize Capstone disassembler.'' @ nl
            else if \<not> ev_malloc d then ''    Failed to allocate code buffer for disassembly.'' @ nl
            else case ev_mem_read d start n of
                   None \<Rightarrow> ''    Failed to read memory at 0x'' @ hex_x 8 (unat start)
                           @ '' for disassembly (maybe unmapped).'' @ nl
                 | Some code \<Rightarrow>
                     (case ev_cs_disasm d (ev_mode d) code start 0 of
                        [] \<Rightarrow> ''    Failed to disassemble code at 0x'' @ hex_x 8 (unat start) @ '' (count==0)'' @ nl
                      | insns \<Rightarrow> concat (map (insn_line pc_addr) insns))))"

definition pf :: "engine_view \<Rightarrow> string" where
  "pf d = ''Page fault triggered! '' @ nl @ ''Thread: '' @ dec_i (ev_thread d) @ nl @ ''Registers: '' @ nl
     @ print_registers d @ print_disassembly 32 d @ PrintStackTrace d"

text \<open>
  The end of \<open>Execute\<close>, behind a loop without an exit: what it would print for the error text \<open>err\<close>.
\<close>

definition print_abort :: "string \<Rightarrow> engine_view \<Rightarrow> string" where
  "print_abort err d = ''Execution aborted on error: '' @ err @ CHR ''!'' # nl @ ''Thread: '' @ dec_i (ev_thread d) @ nl
     @ ''Registers: '' @ nl @ print_registers d @ print_disassembly 64 d"

section \<open>Hex dump\<close>

definition HexDump_line :: "nat \<Rightarrow> byte list \<Rightarrow> string" where
  "HexDump_line i bs =
     hex_x 4 i @ ''  '' @ concat (map (\<lambda>b. hex_x 2 (unat b) @ '' '') bs) @ '' ''
     @ map (\<lambda>b. if 0x20 \<le> b \<and> b < 0x7F then char_of (unat b) else CHR ''.'') bs @ nl"

fun HexDump_from :: "nat \<Rightarrow> byte list \<Rightarrow> string" where
  "HexDump_from i [] = []"
| "HexDump_from i (b # bs) = HexDump_line i (take 16 (b # bs)) @ HexDump_from (i + 16) (drop 15 bs)"

definition HexDump :: "byte list \<Rightarrow> string" where
  "HexDump bs = HexDump_from 0 bs"


section \<open>What the reports show\<close>

text \<open>
  The reference: the return addresses a walk along the frame pointers meets, without any output.
\<close>

fun saved_returns :: "engine_view \<Rightarrow> nat \<Rightarrow> u32 \<Rightarrow> u32 \<Rightarrow> u32 list" where
  "saved_returns d 0 cur_fp last_fp = []"
| "saved_returns d (Suc n) cur_fp last_fp =
     (if cur_fp = 0 \<or> cur_fp = last_fp then []
      else case (TryRead32 d (cur_fp - 4), TryRead32 d cur_fp) of
             (Some prev_fp, Some saved_lr) \<Rightarrow> saved_lr # saved_returns d n prev_fp cur_fp
           | _ \<Rightarrow> [])"

definition trace_sites :: "engine_view \<Rightarrow> u32 list \<Rightarrow> u32 list" where
  "trace_sites d rets =
     sanitize_addr (ev_regs d ! 15) # map call_site (filter (\<lambda>a. a \<noteq> 0) (ev_regs d ! 14 # rets))"

text \<open>What the disassembler adds to a line.\<close>

definition frame_note :: "engine_view \<Rightarrow> u32 \<Rightarrow> string" where
  "frame_note d addr =
     (if addr = 0 \<or> \<not> ev_cs_open d (ev_mode d) then []
      else case ev_mem_read d (sz addr) 8 of
             None \<Rightarrow> []
           | Some bytes \<Rightarrow> (case ev_cs_disasm d (ev_mode d) bytes (sz addr) 1 of
                              [] \<Rightarrow> []
                            | insn # _ \<Rightarrow> ''  '' @ mnemonic insn @ '' '' @ op_str insn))"

definition frame_lines :: "engine_view \<Rightarrow> nat \<Rightarrow> u32 list \<Rightarrow> string" where
  "frame_lines d k as = concat (map (\<lambda>(i, a). frame_line i a (frame_note d a)) (List.enumerate k as))"

lemma frame_lines_simps [simp]:
  "frame_lines d k [] = []"
  "frame_lines d k (a # as) = frame_line k a (frame_note d a) @ frame_lines d (Suc k) as"
  by (simp_all add: frame_lines_def)

lemma unwind_lines:
  assumes "\<And>a i. frame a i = frame_line i a (frame_note d a)"
  shows "unwind d frame n fp l k = frame_lines d k (map call_site (filter (\<lambda>a. a \<noteq> 0) (saved_returns d n fp l)))"
  by (induction n arbitrary: fp l k) (auto simp: assms split: option.split)

lemma print_frames_lines:
  assumes "\<And>a i. frame a i = frame_line i a (frame_note d a)"
  shows "print_frames d frame
    = frame_lines d 0 (trace_sites d (saved_returns d MAX_FRAMES (ev_regs d ! 11) 0))"
  by (simp add: print_frames_def trace_sites_def Let_def assms unwind_lines [OF assms] numeral_2_eq_2 del: unwind.simps)

lemma stack_trace_lines:
  "PrintStackTrace d = nl @ ''--- Stack trace ---'' @ nl
     @ frame_lines d 0 (trace_sites d (saved_returns d MAX_FRAMES (ev_regs d ! 11) 0)) @ print_dump d"
proof -
  have "PrintOneFrame d (ev_mode d) a i = frame_line i a (frame_note d a)" if "ev_cs_open d (ev_mode d)" for a i
    using that by (simp add: PrintOneFrame_def frame_note_def split: option.split list.split)
  moreover have "frame_line i a [] = frame_line i a (frame_note d a)" if "\<not> ev_cs_open d (ev_mode d)" for a i
    using that by (simp add: frame_note_def)
  ultimately show ?thesis by (simp add: PrintStackTrace_def print_frames_lines)
qed

lemma saved_returns_length: "length (saved_returns d n fp l) \<le> n"
  by (induction d n fp l rule: saved_returns.induct) (auto split: option.split)

lemma trace_sites_bound: "length (trace_sites d (saved_returns d MAX_FRAMES fp l)) \<le> 66"
proof -
  have "length (filter P (saved_returns d MAX_FRAMES fp l)) \<le> 64" for P
    using order.trans [OF length_filter_le saved_returns_length [of d MAX_FRAMES fp l]]
    by (simp add: MAX_FRAMES_def)
  from this [of "\<lambda>a. a \<noteq> 0"] show ?thesis by (simp add: trace_sites_def)
qed

text \<open>
  A well-formed chain of frames from \<open>fp\<close>: each word at the frame pointer is a return address, the word
  below it the caller's frame pointer, and the last of these is null.
\<close>

fun frame_chain :: "engine_view \<Rightarrow> u32 \<Rightarrow> (u32 \<times> u32) list \<Rightarrow> bool" where
  "frame_chain d fp [] = (fp = 0)"
| "frame_chain d fp ((ret, prev) # fs) =
     (fp \<noteq> 0 \<and> TryRead32 d fp = Some ret \<and> TryRead32 d (fp - 4) = Some prev \<and> prev \<noteq> fp \<and> frame_chain d prev fs)"

lemma saved_returns_chain:
  "frame_chain d fp fs \<Longrightarrow> length fs \<le> n \<Longrightarrow> fp \<noteq> l \<or> fp = 0 \<Longrightarrow> saved_returns d n fp l = map fst fs"
proof (induction d fp fs arbitrary: n l rule: frame_chain.induct)
  case (1 d fp)
  then show ?case by (cases n) auto
next
  case (2 d fp ret prev fs)
  then obtain m where n: "n = Suc m" by (cases n) auto
  have "saved_returns d m prev fp = map fst fs"
    using 2 by (intro "2.IH") (auto simp: n)
  with 2 show ?case by (auto simp: n)
qed

text \<open>
  The reference for a line: the calls of the ARM instruction sets at the address \<open>c\<close> of the instruction, the return
  address each leaves in LR (the next instruction, with bit 0 set in Thumb state), and the address
  the trace shows for it.  \<open>Thumb_BL\<close> is a BL or BLX with an immediate and has four bytes, \<open>Thumb_BLX\<close>, with a
  register, two.
\<close>

datatype guest_call = Arm_BL u32 | Thumb_BLX u32 | Thumb_BL u32

fun call_aligned :: "guest_call \<Rightarrow> bool" where
  "call_aligned (Arm_BL c) = even c"
| "call_aligned (Thumb_BLX c) = even c"
| "call_aligned (Thumb_BL c) = even c"

fun return_address :: "guest_call \<Rightarrow> u32" where
  "return_address (Arm_BL c) = c + 4"
| "return_address (Thumb_BLX c) = (c + 2) + 1"
| "return_address (Thumb_BL c) = (c + 4) + 1"

fun shown_at :: "guest_call \<Rightarrow> u32" where
  "shown_at (Arm_BL c) = c"
| "shown_at (Thumb_BLX c) = c"
| "shown_at (Thumb_BL c) = c + 2"

lemma clear_bit0: "even (a :: u32) \<Longrightarrow> a AND NOT 1 = a" "even a \<Longrightarrow> (a + 1) AND NOT 1 = a" "even a \<Longrightarrow> (a + 1) AND 1 = 1"
  "even a \<Longrightarrow> a AND 1 = 0"
proof -
  show z: "even a \<Longrightarrow> a AND 1 = 0" and o: "even a \<Longrightarrow> (a + 1) AND 1 = 1" by (simp_all add: and_one_eq mod2_eq_if)
  have split: "(x AND NOT 1) + (x AND 1) = x" for x :: u32
  proof -
    have "(x AND NOT 1) + (x AND 1) = (x AND NOT 1) OR (x AND 1)" by (rule disjunctive_add) (auto simp: bit_simps)
    also have "\<dots> = x" by (rule bit_word_eqI) (auto simp: bit_simps)
    finally show ?thesis .
  qed
  show "even a \<Longrightarrow> a AND NOT 1 = a" using split [of a] z by simp
  show "even a \<Longrightarrow> (a + 1) AND NOT 1 = a" using split [of "a + 1"] o by simp
qed

lemma call_site_return: "call_aligned k \<Longrightarrow> call_site (return_address k) = shown_at k"
  by (cases k) (simp_all only: call_site_def sanitize_addr_def return_address.simps call_aligned.simps shown_at.simps
      clear_bit0 even_add even_numeral, simp_all)

text \<open>
  C39. What the stack trace shows.  When the frame pointers lead through a well-formed chain of at most 64
  frames, and the return addresses in LR and in the chain, null ones left out, were left by the calls \<open>ks\<close>,
  the trace has one line for \<open>pc\<close> and one for each of these calls, innermost first, numbered from 0, then
  the dump.  The line of an ARM call and of a two-byte Thumb call shows the address of the call; that of a
  four-byte Thumb BL shows its second half, two bytes behind the instruction, although the comment in the code
  says that it points to the BL.  Whatever the stack holds, the trace has at most 66 lines.
\<close>

theorem stack_trace_lists_calls:
  assumes "frame_chain d (ev_regs d ! 11) fs" and "length fs \<le> 64"
    and "filter (\<lambda>a. a \<noteq> 0) (ev_regs d ! 14 # map fst fs) = map return_address ks" "\<forall>k\<in>set ks. call_aligned k"
  shows "PrintStackTrace d = nl @ ''--- Stack trace ---'' @ nl
      @ frame_lines d 0 (sanitize_addr (ev_regs d ! 15) # map shown_at ks) @ print_dump d
    \<and> (\<forall>d. \<exists>lines. PrintStackTrace d = nl @ ''--- Stack trace ---'' @ nl @ frame_lines d 0 lines @ print_dump d
         \<and> length lines \<le> 66)"
proof
  have "saved_returns d MAX_FRAMES (ev_regs d ! 11) 0 = map fst fs"
    using assms(1,2) by (intro saved_returns_chain) (auto simp: MAX_FRAMES_def)
  moreover have "map call_site (map return_address ks) = map shown_at ks"
    using assms(4) by (simp add: call_site_return)
  ultimately show "PrintStackTrace d = nl @ ''--- Stack trace ---'' @ nl
      @ frame_lines d 0 (sanitize_addr (ev_regs d ! 15) # map shown_at ks) @ print_dump d"
    by (simp only: stack_trace_lines trace_sites_def assms(3))
  show "\<forall>d. \<exists>lines. PrintStackTrace d = nl @ ''--- Stack trace ---'' @ nl @ frame_lines d 0 lines @ print_dump d
      \<and> length lines \<le> 66"
    using stack_trace_lines trace_sites_bound by blast
qed

text \<open>
  A stack of two frames; Capstone cannot be opened.  Words of the stack are given by \<open>demo_word\<close>.
\<close>

definition demo_word :: "size_t \<Rightarrow> byte list option" where
  "demo_word a = map_of [(0x1FC, [0, 3, 0, 0]), (0x200, [0x11, 0x80, 0, 0]), (0x2FC, [0, 0, 0, 0]), (0x300, [0x40, 0x90, 0, 0])] a"

definition demo_view :: engine_view where
  "demo_view = \<lparr>ev_regs = [0, 0, 0, 0, 0, 0, 0, 0, 0, 0, 0, 0x200, 0, 0x1F0, 0x7001, 0x6000], ev_cpsr = Some 0x20,
     ev_mem_read = (\<lambda>a n. if n = 4 then demo_word a else None), ev_cs_open = (\<lambda>_. False), ev_cs_disasm = (\<lambda>_ _ _ _. []),
     ev_malloc = True, ev_thread = 1\<rparr>"

lemma demo_words:
  "buf_u32 [0, 3, 0, 0] 0 = 0x300" "buf_u32 [0x11, 0x80, 0, 0] 0 = 0x8011"
  "buf_u32 [0, 0, 0, 0] 0 = 0" "buf_u32 [0x40, 0x90, 0, 0] 0 = 0x9040"
  by (simp_all add: buf_u32_def load_word_bytes)

lemma demo_notes: "frame_note demo_view a = []"
  by (simp add: frame_note_def demo_view_def)

lemma demo_zeros: "replicate 4 (CHR ''0'') = ''0000''"
  by code_simp

lemma demo_lines:
  "frame_line 0 0x6000 [] = ''#00 0x00006000'' @ nl" "frame_line (Suc 0) 0x6FFE [] = ''#01 0x00006FFE'' @ nl"
  "frame_line (Suc (Suc 0)) 0x800E [] = ''#02 0x0000800E'' @ nl"
  "frame_line (Suc (Suc (Suc 0))) 0x903C [] = ''#03 0x0000903C'' @ nl"
  by (simp_all add: frame_line_def dec_02d_def hex_X8_def pad0_def nat_digits.simps demo_zeros)

theorem stack_trace_lists_calls_witness:
  "PrintStackTrace demo_view =
     nl @ ''--- Stack trace ---'' @ nl @ ''#00 0x00006000'' @ nl @ ''#01 0x00006FFE'' @ nl
     @ ''#02 0x0000800E'' @ nl @ ''#03 0x0000903C'' @ nl @ print_dump demo_view"
proof -
  have c: "frame_chain demo_view (ev_regs demo_view ! 11) [(0x8011, 0x300), (0x9040, 0)]"
    by (simp add: demo_view_def TryRead32_def demo_word_def demo_words sz_def)
  let ?ks = "[Thumb_BL 0x6FFC, Thumb_BLX 0x800E, Arm_BL 0x903C]"
  have k: "filter (\<lambda>a. a \<noteq> 0) (ev_regs demo_view ! 14 # map fst [(0x8011, 0x300), (0x9040, 0)]) = map return_address ?ks"
    by (simp add: demo_view_def)
  have "sanitize_addr (ev_regs demo_view ! 15) = 0x6000" by (simp add: sanitize_addr_def demo_view_def)
  then have "frame_lines demo_view 0 (sanitize_addr (ev_regs demo_view ! 15) # map shown_at ?ks)
    = ''#00 0x00006000'' @ nl @ ''#01 0x00006FFE'' @ nl @ ''#02 0x0000800E'' @ nl @ ''#03 0x0000903C'' @ nl"
    by (simp add: demo_notes demo_lines)
  then show ?thesis using stack_trace_lists_calls [OF c _ k] by simp
qed

text \<open>The window of the disassembly holds \<open>pc\<close> and the instruction at it, without wrapping around.\<close>

lemma disassembly_window:
  fixes pc :: u32
  defines "p \<equiv> sz (pc AND NOT 1)"
  shows "disasm_start p \<le> p" "unat p + 4 \<le> unat (disasm_start p) + 64" "unat (disasm_start p) + 96 < 2 ^ 64"
  using unat32_lt [of "pc AND NOT 1"]
  by (auto simp: p_def disasm_start_def word_le_unat word_lt_unat unat_sub_le)

text \<open>A dump has a line of 16 bytes for every 16 bytes and one for the rest.\<close>

lemma HexDump_append:
  "length xs = 16 \<Longrightarrow> HexDump_from i (xs @ ys) = HexDump_line i xs @ HexDump_from (i + 16) ys"
  by (cases xs) auto

end
