(* ===== verification/Emulator.thy ===== *)
theory Emulator
  imports HeapTables Startup SysCalls VFileProps ThreadProps UiProps
begin

text \<open>
  The whole emulator: one state that holds the state of every component, the callbacks the dispatcher
  runs on it, the interrupt hook (PrimU/executor.cpp 479-503), the start in \<open>main\<close> (PrimU/PrimU.cpp)
  and the step relation of the running program.  Each callback acts on a view of the state, a pair of
  functions that read and replace the part its component owns (locale \<open>view\<close>).  \<open>None\<close> is undefined
  behaviour or a call that does not return, \<open>Aborted\<close> the end of the process.
\<close>

section \<open>State and surroundings\<close>

record ('u, 'c, 'w) emulator =
  em_mach :: "('u, 'c) mach"
  em_paths :: paths
  em_files :: vfiles
  em_world :: 'w
  em_contexts :: "(64 word \<times> InternalFindContext) list"
  em_next_find :: "64 word"
  em_calls :: nat
  em_images :: "PEImage list"
  em_loaded :: "(string \<times> PEImage) list"
  em_ui :: ui
  em_lcd :: "lcd_handler option"
  em_devices :: devices
  em_struc :: VirtPtr
  em_api :: bool
  em_console :: string

text \<open>
  What lies outside the repository: the engine, the C library and file system of the host, and what the
  loader reads from it.  \<open>e_reg_write k v\<close> writes register k in the order of \<open>unicorn\<close>; \<open>e_mem_read\<close>
  is \<open>uc_mem_read\<close> of four bytes.
\<close>

record ('u, 'c, 'w) emu_env =
  e_uc :: "('u, 'c) unicorn"
  e_reg_write :: "nat \<Rightarrow> u32 \<Rightarrow> 'u \<Rightarrow> 'u"
  e_mem_read :: "MemoryManager \<Rightarrow> VirtPtr \<Rightarrow> u32 option"
  e_io :: "'w stdio"
  e_streams :: "'w fstreams"
  e_is_directory :: "string \<Rightarrow> 'w \<Rightarrow> bool"
  e_directory_iterator :: "string \<Rightarrow> 'w \<Rightarrow> dir_entry list option"
  e_canon :: "'w \<Rightarrow> string \<Rightarrow> string option"
  e_loader :: "'w \<Rightarrow> loader_env"
  e_fuel :: nat

definition dirs_of :: "('u, 'c, 'w) emu_env \<Rightarrow> 'w dirs" where
  "dirs_of env = \<lparr>fs_exists = fs_exists (e_io env), create_directories = create_directories (e_io env),
     is_directory = e_is_directory env, directory_iterator = e_directory_iterator env\<rparr>"

text \<open>
  What one system call reads from the clock and finds in variables the code does not initialise:
  \<open>SVC\<close> and \<open>lr\<close> when \<open>uc_mem_read\<close> fails, a new context, and the out parameter of an allocation;
  and the address \<open>new\<close> returns for a section or an event.
\<close>

record 'c call_env =
  ce_now :: int
  ce_tm :: tm
  ce_msec :: int
  ce_ctx :: 'c
  ce_junk :: VirtPtr
  ce_svc :: u32
  ce_lr :: u32
  ce_new :: nat

section \<open>Views\<close>

definition zoom ::
  "('e \<Rightarrow> 's) \<Rightarrow> ('s \<Rightarrow> 'e \<Rightarrow> 'e) \<Rightarrow> ('s \<Rightarrow> (u32 \<times> 's) proc option) \<Rightarrow> 'e \<Rightarrow> (u32 \<times> 'e) proc option" where
  "zoom get put f e = map_option (map_proc (\<lambda>(r, s). (r, put s e))) (f (get e))"

abbreviation total :: "('s \<Rightarrow> u32 \<times> 's) \<Rightarrow> 's \<Rightarrow> (u32 \<times> 's) proc option" where
  "total f s \<equiv> Some (Returned (f s))"

abbreviation partial :: "('s \<Rightarrow> (u32 \<times> 's) option) \<Rightarrow> 's \<Rightarrow> (u32 \<times> 's) proc option" where
  "partial f s \<equiv> map_option Returned (f s)"

abbreviation aborting :: "('s \<Rightarrow> (u32 \<times> 's) proc) \<Rightarrow> 's \<Rightarrow> (u32 \<times> 's) proc option" where
  "aborting f s \<equiv> Some (f s)"

lemma map_proc_Returned [simp]: "map_proc g x = Returned y \<longleftrightarrow> (\<exists>z. x = Returned z \<and> y = g z)"
  by (cases x) auto

locale view =
  fixes get :: "'e \<Rightarrow> 's" and put :: "'s \<Rightarrow> 'e \<Rightarrow> 'e"
  assumes put_get: "get (put s e) = s"
    and get_put: "put (get e) e = e"
    and put_put: "put s (put t e) = put s e"
begin

lemma zoom_returned:
  "zoom get put f e = Some (Returned (r, e')) \<longleftrightarrow>
    f (get e) = Some (Returned (r, get e')) \<and> e' = put (get e') e"
proof
  assume "zoom get put f e = Some (Returned (r, e'))"
  then obtain s where "f (get e) = Some (Returned (r, s))" "e' = put s e"
    by (auto simp: zoom_def)
  then show "f (get e) = Some (Returned (r, get e')) \<and> e' = put (get e') e" by (simp add: put_get)
next
  assume "f (get e) = Some (Returned (r, get e')) \<and> e' = put (get e') e"
  then show "zoom get put f e = Some (Returned (r, e'))" by (simp add: zoom_def)
qed

lemma zoom_step: "zoom get put f e = Some (Returned (r, e')) \<Longrightarrow> f (get e) = Some (Returned (r, get e'))"
  by (simp add: zoom_returned)

end

text \<open>The parts of the emulator the components act on.\<close>

definition mm_of :: "('u, 'c, 'w) emulator \<Rightarrow> MemoryManager" where
  "mm_of e = mmem (em_mach e)"

definition put_mm :: "MemoryManager \<Rightarrow> ('u, 'c, 'w) emulator \<Rightarrow> ('u, 'c, 'w) emulator" where
  "put_mm m e = e\<lparr>em_mach := (em_mach e)\<lparr>mmem := m\<rparr>\<rparr>"

definition put_mach :: "('u, 'c) mach \<Rightarrow> ('u, 'c, 'w) emulator \<Rightarrow> ('u, 'c, 'w) emulator" where
  "put_mach ms e = e\<lparr>em_mach := ms\<rparr>"

definition paths_of :: "('u, 'c, 'w) emulator \<Rightarrow> paths \<times> 'w" where
  "paths_of e = (em_paths e, em_world e)"

definition put_paths :: "paths \<times> 'w \<Rightarrow> ('u, 'c, 'w) emulator \<Rightarrow> ('u, 'c, 'w) emulator" where
  "put_paths s e = e\<lparr>em_paths := fst s, em_world := snd s\<rparr>"

definition files_of :: "('u, 'c, 'w) emulator \<Rightarrow> 'w files_state" where
  "files_of e = \<lparr>fs_paths = em_paths e, fs_files = em_files e, fs_mm = mm_of e, fs_world = em_world e\<rparr>"

definition put_files :: "'w files_state \<Rightarrow> ('u, 'c, 'w) emulator \<Rightarrow> ('u, 'c, 'w) emulator" where
  "put_files s e = (put_mm (fs_mm s) e)\<lparr>em_paths := fs_paths s, em_files := fs_files s, em_world := fs_world s\<rparr>"

definition search_of :: "('u, 'c, 'w) emulator \<Rightarrow> 'w search" where
  "search_of e = \<lparr>se_paths = em_paths e, se_mm = mm_of e, se_world = em_world e,
     g_find_contexts = em_contexts e, g_next_find_handle = em_next_find e\<rparr>"

definition put_search :: "'w search \<Rightarrow> ('u, 'c, 'w) emulator \<Rightarrow> ('u, 'c, 'w) emulator" where
  "put_search s e = (put_mm (se_mm s) e)\<lparr>em_paths := se_paths s, em_world := se_world s,
     em_contexts := g_find_contexts s, em_next_find := g_next_find_handle s\<rparr>"

definition loader_of :: "('u, 'c, 'w) emulator \<Rightarrow> loader" where
  "loader_of e = \<lparr>ld_mm = mm_of e, ld_calls = em_calls e, ld_images = em_images e, g_loadedPEImages = em_loaded e\<rparr>"

definition put_loader :: "loader \<Rightarrow> ('u, 'c, 'w) emulator \<Rightarrow> ('u, 'c, 'w) emulator" where
  "put_loader s e = (put_mm (ld_mm s) e)\<lparr>em_calls := ld_calls s, em_images := ld_images s,
     em_loaded := g_loadedPEImages s\<rparr>"

definition modules_of :: "('u, 'c, 'w) emulator \<Rightarrow> (paths \<times> 'w) \<times> loader" where
  "modules_of e = (paths_of e, loader_of e)"

definition put_modules :: "(paths \<times> 'w) \<times> loader \<Rightarrow> ('u, 'c, 'w) emulator \<Rightarrow> ('u, 'c, 'w) emulator" where
  "put_modules s e = put_loader (snd s) (put_paths (fst s) e)"

definition polls_of :: "('u, 'c, 'w) emulator \<Rightarrow> ui \<times> ('u, 'c) mach" where
  "polls_of e = (em_ui e, em_mach e)"

definition put_polls :: "ui \<times> ('u, 'c) mach \<Rightarrow> ('u, 'c, 'w) emulator \<Rightarrow> ('u, 'c, 'w) emulator" where
  "put_polls s e = e\<lparr>em_ui := fst s, em_mach := snd s\<rparr>"

definition lcd_of :: "('u, 'c, 'w) emulator \<Rightarrow> lcd_handler option \<times> MemoryManager" where
  "lcd_of e = (em_lcd e, mm_of e)"

definition put_lcd :: "lcd_handler option \<times> MemoryManager \<Rightarrow> ('u, 'c, 'w) emulator \<Rightarrow> ('u, 'c, 'w) emulator" where
  "put_lcd s e = (put_mm (snd s) e)\<lparr>em_lcd := fst s\<rparr>"

definition devices_of :: "('u, 'c, 'w) emulator \<Rightarrow> MemoryManager \<times> devices" where
  "devices_of e = (mm_of e, em_devices e)"

definition put_devices :: "MemoryManager \<times> devices \<Rightarrow> ('u, 'c, 'w) emulator \<Rightarrow> ('u, 'c, 'w) emulator" where
  "put_devices s e = (put_mm (fst s) e)\<lparr>em_devices := snd s\<rparr>"

definition struc_of :: "('u, 'c, 'w) emulator \<Rightarrow> VirtPtr \<times> MemoryManager" where
  "struc_of e = (em_struc e, mm_of e)"

definition put_struc :: "VirtPtr \<times> MemoryManager \<Rightarrow> ('u, 'c, 'w) emulator \<Rightarrow> ('u, 'c, 'w) emulator" where
  "put_struc s e = (put_mm (snd s) e)\<lparr>em_struc := fst s\<rparr>"

definition console_of :: "('u, 'c, 'w) emulator \<Rightarrow> string \<times> MemoryManager" where
  "console_of e = (em_console e, mm_of e)"

definition put_console :: "string \<times> MemoryManager \<Rightarrow> ('u, 'c, 'w) emulator \<Rightarrow> ('u, 'c, 'w) emulator" where
  "put_console s e = (put_mm (snd s) e)\<lparr>em_console := fst s\<rparr>"

lemmas view_defs = mm_of_def put_mm_def put_mach_def paths_of_def put_paths_def files_of_def put_files_def
  search_of_def put_search_def loader_of_def put_loader_def modules_of_def put_modules_def polls_of_def
  put_polls_def lcd_of_def put_lcd_def devices_of_def put_devices_def struc_of_def put_struc_def
  console_of_def put_console_def

interpretation mm_view: view mm_of put_mm
  by unfold_locales (simp_all add: view_defs)

interpretation mach_view: view em_mach put_mach
  by unfold_locales (simp_all add: view_defs)

interpretation paths_view: view paths_of put_paths
  by unfold_locales (simp_all add: view_defs)

interpretation files_view: view files_of put_files
  by unfold_locales (simp_all add: view_defs)

interpretation search_view: view search_of put_search
  by unfold_locales (simp_all add: view_defs)

interpretation loader_view: view loader_of put_loader
  by unfold_locales (simp_all add: view_defs)

interpretation modules_view: view modules_of put_modules
  by unfold_locales (simp_all add: view_defs prod_eq_iff)

interpretation polls_view: view polls_of put_polls
  by unfold_locales (simp_all add: view_defs)

interpretation lcd_view: view lcd_of put_lcd
  by unfold_locales (simp_all add: view_defs)

interpretation devices_view: view devices_of put_devices
  by unfold_locales (simp_all add: view_defs)

interpretation struc_view: view struc_of put_struc
  by unfold_locales (simp_all add: view_defs)

interpretation console_view: view console_of put_console
  by unfold_locales (simp_all add: view_defs)

section \<open>Callbacks\<close>

text \<open>The names the directory calls get as arguments.\<close>

definition dir_call ::
  "(string option \<Rightarrow> paths \<times> 'w \<Rightarrow> (u32 \<times> paths \<times> 'w) option) \<Rightarrow> SystemServiceArguments
     \<Rightarrow> ('u, 'c, 'w) emulator \<Rightarrow> (u32 \<times> ('u, 'c, 'w) emulator) proc option" where
  "dir_call f args e = zoom paths_of put_paths (partial (f (guest_cstr (mm_of e) (r0 args)))) e"

definition wdir_call ::
  "(u16 list option \<Rightarrow> paths \<times> 'w \<Rightarrow> (u32 \<times> paths \<times> 'w) option) \<Rightarrow> SystemServiceArguments
     \<Rightarrow> ('u, 'c, 'w) emulator \<Rightarrow> (u32 \<times> ('u, 'c, 'w) emulator) proc option" where
  "wdir_call f args e = zoom paths_of put_paths (partial (f (guest_wstr (mm_of e) (r0 args)))) e"

primrec run_callback ::
  "callback \<Rightarrow> ('u, 'c, 'w) emu_env \<Rightarrow> 'c call_env \<Rightarrow> SystemServiceArguments \<Rightarrow> ('u, 'c, 'w) emulator
     \<Rightarrow> (u32 \<times> ('u, 'c, 'w) emulator) proc option" where
  "run_callback Cb_OSCreateThread env ce args =
     zoom em_mach put_mach (total (OSCreateThread (ce_ctx ce) (ce_junk ce) args))"
| "run_callback Cb_OSSetThreadPriority env ce args = zoom em_mach put_mach (partial (OSSetThreadPriority args))"
| "run_callback Cb_OSSuspendThread env ce args = zoom em_mach put_mach (total (OSSuspendThread args))"
| "run_callback Cb_OSResumeThread env ce args = zoom em_mach put_mach (total (OSResumeThread args))"
| "run_callback Cb_OSSleep env ce args = zoom em_mach put_mach (aborting (OSSleep (ce_now ce) args))"
| "run_callback Cb_OSCreateEvent env ce args = zoom em_mach put_mach (total (OSCreateEvent (ce_new ce) args))"
| "run_callback Cb_OSWaitForEvent env ce args = zoom em_mach put_mach (aborting (OSWaitForEvent (ce_now ce) args))"
| "run_callback Cb_OSSetEvent env ce args = zoom em_mach put_mach (aborting (OSSetEvent args))"
| "run_callback Cb_OSInitCriticalSection env ce args = zoom em_mach put_mach (total (OSInitCriticalSection (ce_new ce) args))"
| "run_callback Cb_OSEnterCriticalSection env ce args = zoom em_mach put_mach (aborting (OSEnterCriticalSection args))"
| "run_callback Cb_OSLeaveCriticalSection env ce args = zoom em_mach put_mach (aborting (OSLeaveCriticalSection args))"
| "run_callback Cb_InterruptInitialize env ce args = zoom em_mach put_mach (total (InterruptInitialize args))"
| "run_callback Cb_InterruptDone env ce args = zoom em_mach put_mach (total InterruptDone)"
| "run_callback Cb_LCDOn env ce args = zoom mm_of put_mm (total (LCDOn args))"
| "run_callback Cb_SysPowerOff env ce args = zoom mm_of put_mm (aborting (SysPowerOff args))"
| "run_callback Cb_BatteryLowCheck env ce args = zoom em_mach put_mach (total BatteryLowCheck)"
| "run_callback Cb_lmalloc env ce args = zoom mm_of put_mm (total (lmalloc args))"
| "run_callback Cb_lcalloc env ce args = zoom mm_of put_mm (total (lcalloc args))"
| "run_callback Cb_lrealloc env ce args = zoom mm_of put_mm (aborting (lrealloc args))"
| "run_callback Cb_lfree env ce args = zoom mm_of put_mm (aborting (lfree args))"
| "run_callback Cb_GetEvent env ce args = zoom polls_of put_polls (aborting (GetEvent args))"
| "run_callback Cb_SetSystemVariable env ce args =
     zoom lcd_of put_lcd (partial (SetSystemVariable (ce_junk ce) args))"
| "run_callback Cb_GetActiveLCD env ce args = zoom lcd_of put_lcd (partial (GetActiveLCD (ce_junk ce)))"
| "run_callback Cb_GetSysTime env ce args = zoom mm_of put_mm (partial (GetSysTime (ce_tm ce) (ce_msec ce) args))"
| "run_callback Cb_GetMasterIDInfo env ce args = zoom mm_of put_mm (partial (GetMasterIDInfo args))"
| "run_callback Cb_fclose env ce args = zoom files_of put_files (total (fclose (e_io env) args))"
| "run_callback Cb_filesize env ce args = zoom files_of put_files (total (filesize (e_io env) args))"
| "run_callback Cb_fread env ce args = zoom files_of put_files (total (fread (e_io env) args))"
| "run_callback Cb_fwrite env ce args = zoom files_of put_files (total (fwrite (e_io env) args))"
| "run_callback Cb_afindfirst env ce args = zoom search_of put_search (afindfirst (dirs_of env) args)"
| "run_callback Cb_afindnext env ce args = zoom search_of put_search (aborting (findnext args))"
| "run_callback Cb_findclose env ce args = zoom search_of put_search (aborting (findclose args))"
| "run_callback Cb_aremove env ce args = zoom files_of put_files (partial (aremove (e_io env) args))"
| "run_callback Cb_amkdir env ce args = dir_call (amkdir (fs_of (e_io env))) args"
| "run_callback Cb_achdir env ce args = dir_call (achdir (fs_of (e_io env))) args"
| "run_callback Cb_OpenFile env ce args = zoom files_of put_files (partial (OpenFile (e_io env) args))"
| "run_callback Cb_GetPrivateProfileString env ce args =
     zoom files_of put_files (partial (GetPrivateProfileString (e_io env) args))"
| "run_callback Cb_SetPrivateProfileString env ce args =
     zoom files_of put_files (partial (SetPrivateProfileString (e_io env) (e_streams env) args))"
| "run_callback Cb_GetCurrentExecutable env ce args = zoom mm_of put_mm (partial (GetCurrentExecutable (ce_junk ce)))"
| "run_callback Cb_prgrmIsRunning env ce args = zoom struc_of put_struc (total (\<lambda>(v, m). prgrmIsRunning v m))"
| "run_callback Cb_wfopen env ce args = zoom files_of put_files (partial (wfopen (e_io env) args))"
| "run_callback Cb_wfindfirst env ce args = zoom search_of put_search (wfindfirst (dirs_of env) args)"
| "run_callback Cb_wfindnext env ce args = zoom search_of put_search (aborting (findnext args))"
| "run_callback Cb_wremove env ce args = zoom files_of put_files (partial (wremove (e_io env) args))"
| "run_callback Cb_wmkdir env ce args = wdir_call (wmkdir (fs_of (e_io env))) args"
| "run_callback Cb_wchdir env ce args = wdir_call (wchdir (fs_of (e_io env))) args"
| "run_callback Cb_LoadLibraryA env ce args =
     (\<lambda>e. zoom modules_of put_modules
        (partial (LoadLibraryA (e_fuel env) (fs_of (e_io env)) (e_loader env (em_world e)) args)) e)"
| "run_callback Cb_GetModuleFileNameA env ce args =
     (\<lambda>e. zoom modules_of put_modules
        (partial (GetModuleFileNameA (e_canon env (em_world e)) (fs_of (e_io env)) args)) e)"
| "run_callback Cb_FindResourceW env ce args = zoom mm_of put_mm (total (FindResourceW args))"
| "run_callback Cb_FreeLibrary env ce args = zoom mm_of put_mm (total (FreeLibrary args))"
| "run_callback Cb_dbgMsg env ce args =
     zoom console_of put_console (total (\<lambda>(out, m). let (r, t, m') = dbgMsg args m in (r, out @ t, m')))"
| "run_callback Cb_CreateFile env ce args =
     zoom devices_of put_devices (partial (\<lambda>(m, dv). map_option (\<lambda>(r, dv'). (r, m, dv')) (CreateFile args m dv)))"
| "run_callback Cb_DeviceIoControl env ce args =
     zoom devices_of put_devices (partial (\<lambda>(m, dv). map_option (\<lambda>(r, m'). (r, m', dv)) (DeviceIoControl args m dv)))"
| "run_callback Cb_CloseHandle env ce args =
     zoom devices_of put_devices (total (\<lambda>(m, dv). let (r, dv') = CloseHandle args dv in (r, m, dv')))"

section \<open>The interrupt hook\<close>

text \<open>\<open>SystemAPI::GetInstance\<close>: the first call makes the table and runs \<open>sys_init\<close>.\<close>

definition SystemAPI_GetInstance :: "('u, 'c, 'w) emulator \<Rightarrow> ('u, 'c, 'w) emulator" where
  "SystemAPI_GetInstance e = (if em_api e then e else e\<lparr>em_api := True, em_paths := sys_init (em_paths e)\<rparr>)"

definition put_cpu :: "'u \<Rightarrow> ('u, 'c, 'w) emulator \<Rightarrow> ('u, 'c, 'w) emulator" where
  "put_cpu u e = e\<lparr>em_mach := (em_mach e)\<lparr>mcpu := u\<rparr>\<rparr>"

definition SystemServiceArguments_read :: "u32 list \<Rightarrow> SystemServiceArguments" where
  "SystemServiceArguments_read regs =
     \<lparr>r0 = regs ! 0, r1 = regs ! 1, r2 = regs ! 2, r3 = regs ! 3, r4 = regs ! 4, sp = regs ! 13\<rparr>"

text \<open>The number of the call is in the low 20 bits of the instruction before \<open>pc\<close>.\<close>

definition interrupt_hook ::
  "('u, 'c, 'w) emu_env \<Rightarrow> 'c call_env \<Rightarrow> ('u, 'c, 'w) emulator \<Rightarrow> ('u, 'c, 'w) emulator proc option" where
  "interrupt_hook env ce e =
     (let regs = uc_reg_read_batch (e_uc env) (mcpu (em_mach e));
          svc = (case e_mem_read env (mm_of e) (regs ! 15 - 4) of Some w \<Rightarrow> w | None \<Rightarrow> ce_svc ce);
          lr = (case e_mem_read env (mm_of e) (regs ! 13) of Some w \<Rightarrow> w | None \<Rightarrow> ce_lr ce)
      in map_option (map_proc (\<lambda>(r, e').
             put_cpu (e_reg_write env 15 lr (e_reg_write env 13 (regs ! 13 + 8)
               (e_reg_write env 0 r (mcpu (em_mach e'))))) e'))
           (Call (\<lambda>cb. run_callback cb env ce) (\<lambda>v e. Some (Returned (v, e))) SystemAPI_new
              (svc AND 0xFFFFF) (SystemServiceArguments_read regs) (SystemAPI_GetInstance e)))"

section \<open>Start\<close>

text \<open>\<open>sMemoryManager\<close> is made at its first use, everything else is static; \<open>ts\<close> is what unused thread slots hold.\<close>

definition emulator_new ::
  "MemoryManager \<Rightarrow> 'w \<Rightarrow> (nat \<Rightarrow> 'c ThreadState) \<Rightarrow> 'u \<Rightarrow> int \<Rightarrow> ('u, 'c, 'w) emulator" where
  "emulator_new m w ts u now =
     \<lparr>em_mach = \<lparr>msm = StateManager_init ts, mos = os_tables_init, mmem = m, mcpu = u, mlast = now, mphase = Stopped\<rparr>,
      em_paths = paths_init, em_files = vfiles_init, em_world = w, em_contexts = [], em_next_find = 1,
      em_calls = 0, em_images = [], em_loaded = [], em_ui = ui_init, em_lcd = None,
      em_devices = devices_init, em_struc = 0, em_api = False, em_console = []\<rparr>"

text \<open>
  \<open>main\<close> up to the first \<open>uc_emu_start\<close>: \<open>Initialize\<close>, then the start of \<open>Execute\<close>; \<open>None\<close> when
  \<open>main\<close> returns 1 or does not get there.
\<close>

definition main_start ::
  "('u, 'c, 'w) emu_env \<Rightarrow> (string \<Rightarrow> elf_image option) \<Rightarrow> bool \<Rightarrow> (nat \<Rightarrow> bool) \<Rightarrow> Executable \<Rightarrow> 'c \<Rightarrow> VirtPtr
     \<Rightarrow> ('u, 'c, 'w) emulator \<Rightarrow> ('u, 'c, 'w) emulator option" where
  "main_start env elf opened hook_ok ex ctx junk e =
     (case Executor_Initialize (e_fuel env) (e_loader env (em_world e)) elf opened hook_ok (Some ex) (loader_of e) of
        Some (True, Some ex', ld) \<Rightarrow>
          let e' = put_loader ld e
          in Some (put_mach (Execute_start (e_uc env) ctx junk (ex_entry ex') (em_mach e')) e')
      | _ \<Rightarrow> None)"

section \<open>Execution\<close>

abbreviation phased :: "phase \<Rightarrow> ('u, 'c, 'w) emulator \<Rightarrow> ('u, 'c, 'w) emulator" where
  "phased ph e \<equiv> e\<lparr>em_mach := (em_mach e)\<lparr>mphase := ph\<rparr>\<rparr>"

text \<open>Guest code can write every mapped byte and no other byte of the host.\<close>

definition guest_writes :: "MemoryManager \<Rightarrow> hmemory \<Rightarrow> bool" where
  "guest_writes m h \<longleftrightarrow> (\<forall>p. h p \<noteq> hmem m p \<longrightarrow> (\<exists>v. isVAddrAllocated m v \<and> GetRealAddr m v = p))"

text \<open>
  What \<open>Execute\<close> does when the engine stops with an error in state \<open>u\<close>: it moves \<open>pc\<close> past the
  instruction, which has two bytes when \<open>pc\<close> is odd or the Thumb bit of CPSR is set and four otherwise.
\<close>

definition skip_instruction :: "('u, 'c, 'w) emu_env \<Rightarrow> 'u \<Rightarrow> 'u" where
  "skip_instruction env u =
     (let pc = uc_reg_read_batch (e_uc env) u ! 15;
          is_thumb = (pc AND 1 \<noteq> 0 \<or> uc_query_thumb (e_uc env) u)
      in e_reg_write env 15 ((pc AND NOT 1) + (if is_thumb then 2 else 4)) u)"

text \<open>
  One step: the block hook, a block of guest code, a block that ends in a system call, a message to
  the window, an error of the engine, its return at address 0 (the \<open>until\<close> argument of
  \<open>uc_emu_start\<close>), the switch to the next thread.  A section or event that a call creates gets an
  address at which none is alive.
\<close>

inductive emu_step :: "('u, 'c, 'w) emu_env \<Rightarrow> ('u, 'c, 'w) emulator \<Rightarrow> ('u, 'c, 'w) emulator \<Rightarrow> bool"
  for env :: "('u, 'c, 'w) emu_env" where
  hook: "mphase (em_mach e) = AtBlock \<Longrightarrow>
    code_hook (e_uc env) n1 n2 n3 n4 (mlast (em_mach e)) (mcpu (em_mach e)) (msm (em_mach e)) = Returned (stop, sm, l) \<Longrightarrow>
    emu_step env e (put_mach ((em_mach e)\<lparr>msm := sm, mlast := l, mphase := if stop then Stopped else InBlock\<rparr>) e)"
| code: "mphase (em_mach e) = InBlock \<Longrightarrow> guest_writes (mm_of e) h \<Longrightarrow>
    emu_step env e (put_mach ((em_mach e)\<lparr>mcpu := u, mmem := (mm_of e)\<lparr>hmem := h\<rparr>, mphase := AtBlock\<rparr>) e)"
| call: "mphase (em_mach e) = InBlock \<Longrightarrow> guest_writes (mm_of e) h \<Longrightarrow>
    unused_cs (ce_new ce) (mos (em_mach e)) \<Longrightarrow> unused_ev (ce_new ce) (mos (em_mach e)) \<Longrightarrow>
    interrupt_hook env ce (put_mach ((em_mach e)\<lparr>mcpu := u, mmem := (mm_of e)\<lparr>hmem := h\<rparr>\<rparr>) e) = Some (Returned e') \<Longrightarrow>
    emu_step env e (phased AtBlock e')"
| message: "emu_step env e (e\<lparr>em_ui := snd (WndProc msg (em_ui e))\<rparr>)"
| failure: "mphase (em_mach e) \<noteq> Stopped \<Longrightarrow>
    emu_step env e (put_mach ((em_mach e)\<lparr>mcpu := skip_instruction env u,
      msm := SaveCurrentThreadState (e_uc env) (skip_instruction env u) (msm (em_mach e)), mphase := Stopped\<rparr>) e)"
| finished: "mphase (em_mach e) = AtBlock \<Longrightarrow> uc_reg_read_batch (e_uc env) (mcpu (em_mach e)) ! 15 = 0 \<Longrightarrow>
    emu_step env e (phased Stopped e)"
| switch_thread: "mphase (em_mach e) = Stopped \<Longrightarrow>
    SwitchThread (e_uc env) (msm (em_mach e)) (mcpu (em_mach e)) = Returned (sm, u) \<Longrightarrow>
    emu_step env e (put_mach ((em_mach e)\<lparr>msm := sm, mcpu := u, mphase := AtBlock\<rparr>) e)"

inductive emu_reachable :: "('u, 'c, 'w) emu_env \<Rightarrow> ('u, 'c, 'w) emulator \<Rightarrow> ('u, 'c, 'w) emulator \<Rightarrow> bool"
  for env :: "('u, 'c, 'w) emu_env" and e0 :: "('u, 'c, 'w) emulator" where
  booted: "emu_reachable env e0 e0"
| stepped: "emu_reachable env e0 e \<Longrightarrow> emu_step env e e' \<Longrightarrow> emu_reachable env e0 e'"

inductive_cases emu_stepE: "emu_step env e e'"

end
