(* ===== verification/EmulatorInv.thy ===== *)
theory EmulatorInv
  imports Emulator
begin

text \<open>
  The invariant of the whole emulator: what each callback can touch, that every step of the running
  program keeps the invariant of the composed state, and that the start in \<open>main\<close> establishes it.
\<close>

section \<open>Files and memory\<close>

text \<open>The calls on files write guest memory only.\<close>

lemma map_vm_mm: "map_vm io name s = Some (p, s') \<Longrightarrow> fs_mm s' = fs_mm s"
  by (auto simp: map_vm_def)

lemma open_mapped_mm: "open_mapped io p mode s = (r, s') \<Longrightarrow> fs_mm s' = fs_mm s"
  by (auto simp: open_mapped_def Let_def split: prod.splits if_splits)

lemma OpenFile_keeps: "OpenFile io args s = Some (r, s') \<Longrightarrow> keeps (fs_mm s) (fs_mm s')"
  by (auto simp: OpenFile_def Let_def split: prod.splits option.splits if_splits
      dest!: map_vm_mm open_mapped_mm)

lemma wfopen_keeps: "wfopen io args s = Some (r, s') \<Longrightarrow> keeps (fs_mm s) (fs_mm s')"
  by (auto simp: wfopen_def Let_def split: prod.splits option.splits if_splits
      dest!: map_vm_mm open_mapped_mm)

lemma fclose_keeps: "fclose io args s = (r, s') \<Longrightarrow> keeps (fs_mm s) (fs_mm s')"
  by (auto simp: fclose_def Let_def split: prod.splits option.splits if_splits)

lemma filesize_keeps: "filesize io args s = (r, s') \<Longrightarrow> keeps (fs_mm s) (fs_mm s')"
  by (auto simp: filesize_def Let_def split: prod.splits option.splits if_splits)

lemma fread_keeps: "fread io args s = (r, s') \<Longrightarrow> keeps (fs_mm s) (fs_mm s')"
  by (auto simp: fread_def read_into_def Let_def split: prod.splits option.splits if_splits)

lemma fwrite_keeps: "fwrite io args s = (r, s') \<Longrightarrow> keeps (fs_mm s) (fs_mm s')"
  by (auto simp: fwrite_def write_from_def Let_def split: prod.splits option.splits if_splits)

lemma aremove_keeps: "aremove io args s = Some (r, s') \<Longrightarrow> keeps (fs_mm s) (fs_mm s')"
  by (auto simp: aremove_def Let_def split: prod.splits option.splits if_splits dest!: map_vm_mm)

lemma wremove_keeps: "wremove io args s = Some (r, s') \<Longrightarrow> keeps (fs_mm s) (fs_mm s')"
  by (auto simp: wremove_def Let_def split: prod.splits option.splits if_splits dest!: map_vm_mm)

lemma GetPrivateProfileString_keeps:
  "GetPrivateProfileString io args s = Some (r, s') \<Longrightarrow> keeps (fs_mm s) (fs_mm s')"
  by (auto simp: GetPrivateProfileString_def deliver_def Let_def split: prod.splits option.splits if_splits
      dest!: map_vm_mm)

lemma SetPrivateProfileString_keeps:
  "SetPrivateProfileString io fst_io args s = Some (r, s') \<Longrightarrow> keeps (fs_mm s) (fs_mm s')"
  by (auto simp: SetPrivateProfileString_def Let_def split: prod.splits option.splits if_splits
      dest!: map_vm_mm)

section \<open>The scheduler's part\<close>

text \<open>
  What a call or a step does to the scheduler: a step of \<open>sched_step\<close>, or nothing its invariants can tell.
\<close>

definition same_sched :: "('u, 'c) mach \<Rightarrow> ('u, 'c) mach \<Rightarrow> bool" where
  "same_sched ms ms' \<longleftrightarrow> sy (msm ms') = sy (msm ms) \<and> nthreads (msm ms') = nthreads (msm ms)
     \<and> currentThread (msm ms') = currentThread (msm ms) \<and> mos ms' = mos ms
     \<and> (mphase ms' = mphase ms \<or> mphase ms' \<noteq> InBlock)"

definition mach_next :: "('u, 'c) unicorn \<Rightarrow> ('u, 'c) mach \<Rightarrow> ('u, 'c) mach \<Rightarrow> bool" where
  "mach_next uc ms ms' \<longleftrightarrow> sched_step uc ms ms' \<or> same_sched ms ms'"

lemma thread_call_next:
  assumes ph: "mphase ms = InBlock"
  shows "OSCreateThread ctx junk args ms = (r, ms') \<Longrightarrow> mach_next uc ms (ms'\<lparr>mphase := AtBlock\<rparr>)"
    and "OSSetThreadPriority args ms = Some (r, ms') \<Longrightarrow> mach_next uc ms (ms'\<lparr>mphase := AtBlock\<rparr>)"
    and "OSSleep now args ms = Returned (r, ms') \<Longrightarrow> mach_next uc ms (ms'\<lparr>mphase := AtBlock\<rparr>)"
    and "unused_ev obj (mos ms) \<Longrightarrow> OSCreateEvent obj args ms = (r, ms') \<Longrightarrow> mach_next uc ms (ms'\<lparr>mphase := AtBlock\<rparr>)"
    and "OSWaitForEvent now args ms = Returned (r, ms') \<Longrightarrow> mach_next uc ms (ms'\<lparr>mphase := AtBlock\<rparr>)"
    and "OSSetEvent args ms = Returned (r, ms') \<Longrightarrow> mach_next uc ms (ms'\<lparr>mphase := AtBlock\<rparr>)"
    and "unused_cs obj (mos ms) \<Longrightarrow> OSInitCriticalSection obj args ms = (r, ms') \<Longrightarrow> mach_next uc ms (ms'\<lparr>mphase := AtBlock\<rparr>)"
    and "OSEnterCriticalSection args ms = Returned (r, ms') \<Longrightarrow> mach_next uc ms (ms'\<lparr>mphase := AtBlock\<rparr>)"
    and "OSLeaveCriticalSection args ms = Returned (r, ms') \<Longrightarrow> mach_next uc ms (ms'\<lparr>mphase := AtBlock\<rparr>)"
  unfolding mach_next_def
  by (rule disjI1, erule sched_step.create_thread [OF ph] sched_step.set_priority [OF ph] sched_step.sleep [OF ph]
      sched_step.create_event [OF ph] sched_step.wait_event [OF ph] sched_step.set_event [OF ph]
      sched_step.init_cs [OF ph] sched_step.enter_cs [OF ph] sched_step.leave_cs [OF ph], assumption?)+

lemma quiet_call_next:
  "OSSuspendThread args ms = (r, ms') \<Longrightarrow> mach_next uc ms (ms'\<lparr>mphase := AtBlock\<rparr>)"
  "OSResumeThread args ms = (r, ms') \<Longrightarrow> mach_next uc ms (ms'\<lparr>mphase := AtBlock\<rparr>)"
  "InterruptInitialize args ms = (r, ms') \<Longrightarrow> mach_next uc ms (ms'\<lparr>mphase := AtBlock\<rparr>)"
  "InterruptDone ms = (r, ms') \<Longrightarrow> mach_next uc ms (ms'\<lparr>mphase := AtBlock\<rparr>)"
  "BatteryLowCheck ms = (r, ms') \<Longrightarrow> mach_next uc ms (ms'\<lparr>mphase := AtBlock\<rparr>)"
  "GetEvent args (ui, ms) = Returned (r, ui', ms') \<Longrightarrow> mach_next uc ms (ms'\<lparr>mphase := AtBlock\<rparr>)"
  by (auto simp: mach_next_def same_sched_def OSSuspendThread_def OSResumeThread_def InterruptInitialize_def
        InterruptDone_def BatteryLowCheck_def CurrentThreadYield_def GetEvent_def Let_def split: if_splits option.splits)

lemmas view_returned = mm_view.zoom_returned mach_view.zoom_returned paths_view.zoom_returned
  files_view.zoom_returned search_view.zoom_returned loader_view.zoom_returned modules_view.zoom_returned
  polls_view.zoom_returned lcd_view.zoom_returned devices_view.zoom_returned struc_view.zoom_returned
  console_view.zoom_returned

text \<open>Every callback but these leaves the scheduler and the registers alone.\<close>

definition thread_calls :: "callback list" where
  "thread_calls = [Cb_OSCreateThread, Cb_OSSetThreadPriority, Cb_OSSuspendThread, Cb_OSResumeThread, Cb_OSSleep,
     Cb_OSCreateEvent, Cb_OSWaitForEvent, Cb_OSSetEvent, Cb_OSInitCriticalSection, Cb_OSEnterCriticalSection,
     Cb_OSLeaveCriticalSection, Cb_InterruptInitialize, Cb_InterruptDone, Cb_BatteryLowCheck, Cb_GetEvent]"

definition same_mach :: "('u, 'c, 'w) emulator \<Rightarrow> ('u, 'c, 'w) emulator \<Rightarrow> bool" where
  "same_mach e e' \<longleftrightarrow> em_mach e' = (em_mach e)\<lparr>mmem := mm_of e'\<rparr>"

lemma same_mach_msm:
  assumes "same_mach e e'"
  shows "msm (em_mach e') = msm (em_mach e)" "mos (em_mach e') = mos (em_mach e)"
proof -
  have "em_mach e' = (em_mach e)\<lparr>mmem := mm_of e'\<rparr>" using assms by (simp add: same_mach_def)
  then show "msm (em_mach e') = msm (em_mach e)" "mos (em_mach e') = mos (em_mach e)"
    by (simp_all add: mach.equality)
qed

lemma zoom_same_mach:
  "zoom mm_of put_mm f1 e = Some (Returned (r, e')) \<Longrightarrow> same_mach e e'"
  "zoom paths_of put_paths f2 e = Some (Returned (r, e')) \<Longrightarrow> same_mach e e'"
  "zoom files_of put_files f3 e = Some (Returned (r, e')) \<Longrightarrow> same_mach e e'"
  "zoom search_of put_search f4 e = Some (Returned (r, e')) \<Longrightarrow> same_mach e e'"
  "zoom modules_of put_modules f5 e = Some (Returned (r, e')) \<Longrightarrow> same_mach e e'"
  "zoom lcd_of put_lcd f6 e = Some (Returned (r, e')) \<Longrightarrow> same_mach e e'"
  "zoom devices_of put_devices f7 e = Some (Returned (r, e')) \<Longrightarrow> same_mach e e'"
  "zoom struc_of put_struc f8 e = Some (Returned (r, e')) \<Longrightarrow> same_mach e e'"
  "zoom console_of put_console f9 e = Some (Returned (r, e')) \<Longrightarrow> same_mach e e'"
  by (auto simp: zoom_def same_mach_def view_defs)

lemma run_callback_same_mach:
  assumes "run_callback cb env ce args e = Some (Returned (r, e'))" "cb \<notin> set thread_calls"
  shows "same_mach e e'"
  by (insert assms, cases cb; hypsubst; simp only: run_callback.simps dir_call_def wdir_call_def;
      (erule zoom_same_mach | simp add: thread_calls_def))

lemma run_callback_next:
  assumes ret: "run_callback cb env ce args e = Some (Returned (r, e'))" and ph: "mphase (em_mach e) = InBlock"
    and new: "unused_cs (ce_new ce) (mos (em_mach e))" "unused_ev (ce_new ce) (mos (em_mach e))"
  shows "mach_next uc (em_mach e) ((em_mach e')\<lparr>mphase := AtBlock\<rparr>)"
proof (cases "cb \<in> set thread_calls")
  case False
  from run_callback_same_mach [OF ret this]
  have "msm (em_mach e') = msm (em_mach e)" "mos (em_mach e') = mos (em_mach e)"
    by (simp_all add: same_mach_msm)
  then show ?thesis by (simp add: mach_next_def same_sched_def)
next
  case True
  then show ?thesis
    using ret
    by (auto simp: thread_calls_def mach_view.zoom_returned polls_view.zoom_returned polls_of_def
        intro: thread_call_next [OF ph] thread_call_next(4) [OF ph new(2)] thread_call_next(7) [OF ph new(1)]
          quiet_call_next)
qed

section \<open>The heap's part\<close>

lemma GetSysTime_keeps: "GetSysTime t msec args m = Some (r, m') \<Longrightarrow> keeps m m'"
  by (auto simp: GetSysTime_def Let_def split: if_splits)

lemma GetMasterIDInfo_keeps: "GetMasterIDInfo args m = Some (r, m') \<Longrightarrow> keeps m m'"
  by (auto simp: GetMasterIDInfo_def Let_def split: if_splits)

lemma GetCurrentExecutable_keeps: "GetCurrentExecutable junk m = Some (r, m') \<Longrightarrow> keeps m m'"
  by (auto simp: GetCurrentExecutable_def rom_path_def Let_def split: prod.splits if_splits
      dest: DyanmicAlloc_keeps)

lemma prgrmIsRunning_keeps: "prgrmIsRunning v m = (r, v', m') \<Longrightarrow> keeps m m'"
  by (auto simp: prgrmIsRunning_def Let_def split: prod.splits if_splits dest: DyanmicAlloc_keeps)

lemma dbgMsg_keeps: "dbgMsg args m = (r, t, m') \<Longrightarrow> keeps m m'"
  by (auto simp: dbgMsg_def Let_def split: if_splits option.splits)

lemma DeviceIoControl_keeps: "DeviceIoControl args m dv = Some (r, m') \<Longrightarrow> keeps m m'"
  by (auto simp: DeviceIoControl_def Let_def split: if_splits option.splits)

lemma LCDHandler_GetInstance_keeps: "LCDHandler_GetInstance junk (lh, m) = Some (l, m') \<Longrightarrow> keeps m m'"
  by (auto simp: LCDHandler_GetInstance_def InitActiveLCD_keeps split: option.splits)

lemma GetActiveLCD_keeps: "GetActiveLCD junk (lh, m) = Some (r, lh', m') \<Longrightarrow> keeps m m'"
  by (auto simp: GetActiveLCD_def LCDHandler_GetInstance_keeps)

lemma SetSystemVariable_keeps: "SetSystemVariable junk args (lh, m) = Some (r, lh', m') \<Longrightarrow> keeps m m'"
  by (auto simp: SetSystemVariable_def LCDHandler_GetInstance_keeps split: if_splits)

lemma GetModuleFileNameA_keeps:
  "GetModuleFileNameA canon fs args (s, ld) = Some (r, s', ld') \<Longrightarrow> keeps (ld_mm ld) (ld_mm ld')"
  by (auto simp: GetModuleFileNameA_def Let_def split: prod.splits if_splits option.splits)

lemma OSCreateThread_keeps: "OSCreateThread ctx junk args ms = (r, ms') \<Longrightarrow> keeps (mmem ms) (mmem ms')"
  by (auto simp: OSCreateThread_def NewThread_def Let_def split: prod.splits dest!: DyanmicAlloc_keeps)

lemma on_current_mem: "on_current f ms = Returned ms' \<Longrightarrow> mmem ms' = mmem ms"
  by (auto simp: on_current_def split: option.splits)

lemma thread_call_mem:
  "OSSetThreadPriority args ms = Some (r, ms') \<Longrightarrow> mmem ms' = mmem ms"
  "OSSleep now args ms = Returned (r, ms') \<Longrightarrow> mmem ms' = mmem ms"
  "OSCreateEvent obj args ms = (r, ms') \<Longrightarrow> mmem ms' = mmem ms"
  "OSWaitForEvent now args ms = Returned (r, ms') \<Longrightarrow> mmem ms' = mmem ms"
  "OSSetEvent args ms = Returned (r, ms') \<Longrightarrow> mmem ms' = mmem ms"
  "OSInitCriticalSection obj args ms = (r, ms') \<Longrightarrow> mmem ms' = mmem ms"
  "OSEnterCriticalSection args ms = Returned (r, ms') \<Longrightarrow> mmem ms' = mmem ms"
  "OSLeaveCriticalSection args ms = Returned (r, ms') \<Longrightarrow> mmem ms' = mmem ms"
  "OSSuspendThread args ms = (r, ms') \<Longrightarrow> mmem ms' = mmem ms"
  "OSResumeThread args ms = (r, ms') \<Longrightarrow> mmem ms' = mmem ms"
  "InterruptInitialize args ms = (r, ms') \<Longrightarrow> mmem ms' = mmem ms"
  "InterruptDone ms = (r, ms') \<Longrightarrow> mmem ms' = mmem ms"
  "BatteryLowCheck ms = (r, ms') \<Longrightarrow> mmem ms' = mmem ms"
  by (auto simp: OSSetThreadPriority_def OSSleep_def OSCreateEvent_def OSWaitForEvent_def OSSetEvent_def
      OSInitCriticalSection_def OSEnterCriticalSection_def OSLeaveCriticalSection_def OSSuspendThread_def
      OSResumeThread_def InterruptInitialize_def InterruptDone_def BatteryLowCheck_def CurrentThreadYield_def Let_def
      split: option.splits prod.splits if_splits dest: on_current_mem)

lemma GetEvent_keeps: "GetEvent args (ui, ms) = Returned (r, ui', ms') \<Longrightarrow> keeps (mmem ms) (mmem ms')"
  by (auto simp: GetEvent_def CurrentThreadYield_def Let_def split: if_splits option.splits)

text \<open>The memory manager in each view.\<close>

lemma view_mm [simp]:
  "fs_mm (files_of e) = mm_of e" "se_mm (search_of e) = mm_of e" "ld_mm (loader_of e) = mm_of e"
  by (simp_all add: files_of_def search_of_def loader_of_def)

lemmas view_pairs = polls_of_def lcd_of_def devices_of_def struc_of_def console_of_def modules_of_def

lemmas zoom_steps = mm_view.zoom_step mach_view.zoom_step paths_view.zoom_step files_view.zoom_step
  search_view.zoom_step modules_view.zoom_step polls_view.zoom_step lcd_view.zoom_step devices_view.zoom_step
  struc_view.zoom_step console_view.zoom_step

lemma paths_mm: "zoom paths_of put_paths f e = Some (Returned (r, e')) \<Longrightarrow> mm_of e' = mm_of e"
  by (auto simp: zoom_def view_defs)

lemma mach_keeps:
  "OSCreateThread ctx junk args (em_mach e) = (r, em_mach e') \<Longrightarrow> keeps (mm_of e) (mm_of e')"
  "GetEvent args (ui, em_mach e) = Returned (r, ui', em_mach e') \<Longrightarrow> keeps (mm_of e) (mm_of e')"
  "mmem (em_mach e') = mmem (em_mach e) \<Longrightarrow> keeps (mm_of e) (mm_of e')"
  by (simp_all add: mm_of_def OSCreateThread_keeps GetEvent_keeps)

lemmas call_keeps = thread_call_mem lmalloc_keeps lcalloc_keeps lrealloc_keeps lfree_keeps OpenFile_keeps
  wfopen_keeps fclose_keeps filesize_keeps fread_keeps fwrite_keeps aremove_keeps wremove_keeps
  GetPrivateProfileString_keeps SetPrivateProfileString_keeps GetSysTime_keeps GetMasterIDInfo_keeps
  GetCurrentExecutable_keeps prgrmIsRunning_keeps dbgMsg_keeps DeviceIoControl_keeps GetActiveLCD_keeps
  SetSystemVariable_keeps GetModuleFileNameA_keeps

lemmas stub_defs = LCDOn_def SysPowerOff_def FindResourceW_def FreeLibrary_def

lemma run_callback_keeps:
  assumes "run_callback cb env ce args e = Some (Returned (r, e'))" "cb \<noteq> Cb_LoadLibraryA"
    and "search_ok (search_of e)" "dirs_ok (dirs_of env)"
  shows "keeps (mm_of e) (mm_of e')"
proof -
  note search = findnext_keeps [where s = "search_of e"] findclose_keeps [where s = "search_of e"]
    findfirst_keeps [where s = "search_of e"]
  show ?thesis
    by (insert assms, cases cb; hypsubst; simp only: run_callback.simps dir_call_def wdir_call_def;
        (simp; fail | drule paths_mm, simp; fail
         | drule zoom_steps, (simp add: view_pairs stub_defs; fail |
             auto intro: mach_keeps dest: call_keeps search simp: stub_defs Let_def view_pairs split: prod.splits)))
qed

lemma LoadLibraryA_tables:
  "LoadLibraryA fuel fs env args (s, ld) = Some (r, s', ld') \<Longrightarrow> tables (ld_mm ld') = tables (ld_mm ld)"
  by (auto simp: LoadLibraryA_def Let_def split: bind_splits if_splits option.splits dest!: LoadPEImage_tables)

lemma modules_tables:
  "LoadLibraryA fuel fs env args ms = Some (r, ms') \<Longrightarrow> tables (ld_mm (snd ms')) = tables (ld_mm (snd ms))"
  by (cases ms; cases ms'; simp only: snd_conv) (rule LoadLibraryA_tables)

lemma modules_mm [simp]: "ld_mm (snd (modules_of e)) = mm_of e"
  by (simp add: modules_of_def)

lemma run_callback_tables:
  assumes "run_callback cb env ce args e = Some (Returned (r, e'))" "heap_tables (mm_of e)"
    and "search_ok (search_of e)" "dirs_ok (dirs_of env)"
  shows "heap_tables (mm_of e')"
proof (cases "cb = Cb_LoadLibraryA")
  case True
  have "zoom modules_of put_modules
      (partial (LoadLibraryA (e_fuel env) (fs_of (e_io env)) (e_loader env (em_world e)) args)) e = Some (Returned (r, e'))"
    using assms(1) unfolding True run_callback.simps .
  from modules_view.zoom_step [OF this]
  have "LoadLibraryA (e_fuel env) (fs_of (e_io env)) (e_loader env (em_world e)) args (modules_of e)
      = Some (r, modules_of e')" by (simp only: map_option_eq_Some) blast
  from modules_tables [OF this] have "tables (mm_of e') = tables (mm_of e)" by (simp only: modules_mm)
  from heap_tables_eq [OF this] assms(2) show ?thesis by (rule iffD2)
next
  case False
  from run_callback_keeps [OF assms(1) this assms(3,4)] assms(2) show ?thesis by (rule keepsD)
qed

section \<open>Searches and events\<close>

lemma search_ok_eq: "em_contexts e' = em_contexts e \<Longrightarrow> search_ok (search_of e') = search_ok (search_of e)"
  by (simp add: search_ok_def search_of_def)

definition search_calls :: "callback list" where
  "search_calls = [Cb_afindfirst, Cb_wfindfirst, Cb_afindnext, Cb_wfindnext, Cb_findclose]"

lemma zoom_contexts:
  "zoom mm_of put_mm f1 e = Some (Returned (r, e')) \<Longrightarrow> em_contexts e' = em_contexts e"
  "zoom paths_of put_paths f2 e = Some (Returned (r, e')) \<Longrightarrow> em_contexts e' = em_contexts e"
  "zoom files_of put_files f3 e = Some (Returned (r, e')) \<Longrightarrow> em_contexts e' = em_contexts e"
  "zoom modules_of put_modules f5 e = Some (Returned (r, e')) \<Longrightarrow> em_contexts e' = em_contexts e"
  "zoom lcd_of put_lcd f6 e = Some (Returned (r, e')) \<Longrightarrow> em_contexts e' = em_contexts e"
  "zoom devices_of put_devices f7 e = Some (Returned (r, e')) \<Longrightarrow> em_contexts e' = em_contexts e"
  "zoom struc_of put_struc f8 e = Some (Returned (r, e')) \<Longrightarrow> em_contexts e' = em_contexts e"
  "zoom console_of put_console f9 e = Some (Returned (r, e')) \<Longrightarrow> em_contexts e' = em_contexts e"
  "zoom em_mach put_mach f10 e = Some (Returned (r, e')) \<Longrightarrow> em_contexts e' = em_contexts e"
  "zoom polls_of put_polls f11 e = Some (Returned (r, e')) \<Longrightarrow> em_contexts e' = em_contexts e"
  by (auto simp: zoom_def view_defs)

lemma run_callback_contexts:
  assumes "run_callback cb env ce args e = Some (Returned (r, e'))" "cb \<notin> set search_calls"
  shows "em_contexts e' = em_contexts e"
  by (insert assms, cases cb; hypsubst; simp only: run_callback.simps dir_call_def wdir_call_def;
      (erule zoom_contexts | simp add: search_calls_def))

lemma run_find:
  assumes ok: "search_ok (search_of e)" "dirs_ok (dirs_of env)"
  shows "run_callback Cb_afindfirst env ce args e = Some (Returned (r, e')) \<Longrightarrow> search_ok (search_of e')"
    and "run_callback Cb_wfindfirst env ce args e = Some (Returned (r, e')) \<Longrightarrow> search_ok (search_of e')"
    and "run_callback Cb_afindnext env ce args e = Some (Returned (r, e')) \<Longrightarrow> search_ok (search_of e')"
    and "run_callback Cb_wfindnext env ce args e = Some (Returned (r, e')) \<Longrightarrow> search_ok (search_of e')"
    and "run_callback Cb_findclose env ce args e = Some (Returned (r, e')) \<Longrightarrow> search_ok (search_of e')"
  by (simp only: run_callback.simps, drule search_view.zoom_step, (simp only: option.inject)?,
      (drule findfirst_keeps [OF ok] | drule findnext_keeps [OF _ ok(1)] | drule findclose_keeps [OF _ ok(1)]),
      elim conjE, assumption)+

lemma run_callback_search:
  assumes ret: "run_callback cb env ce args e = Some (Returned (r, e'))"
    and ok: "search_ok (search_of e)" "dirs_ok (dirs_of env)"
  shows "search_ok (search_of e')"
proof (cases "cb \<in> set search_calls")
  case True
  then have "cb = Cb_afindfirst \<or> cb = Cb_wfindfirst \<or> cb = Cb_afindnext \<or> cb = Cb_wfindnext \<or> cb = Cb_findclose"
    by (simp add: search_calls_def)
  then show ?thesis
  proof (elim disjE)
  qed (use ret run_find [OF ok] in blast)+
next
  case False
  then show ?thesis using search_ok_eq [OF run_callback_contexts [OF ret]] ok(1) by blast
qed

lemma zoom_ui:
  "zoom mm_of put_mm f1 e = Some (Returned (r, e')) \<Longrightarrow> em_ui e' = em_ui e"
  "zoom paths_of put_paths f2 e = Some (Returned (r, e')) \<Longrightarrow> em_ui e' = em_ui e"
  "zoom files_of put_files f3 e = Some (Returned (r, e')) \<Longrightarrow> em_ui e' = em_ui e"
  "zoom search_of put_search f4 e = Some (Returned (r, e')) \<Longrightarrow> em_ui e' = em_ui e"
  "zoom modules_of put_modules f5 e = Some (Returned (r, e')) \<Longrightarrow> em_ui e' = em_ui e"
  "zoom lcd_of put_lcd f6 e = Some (Returned (r, e')) \<Longrightarrow> em_ui e' = em_ui e"
  "zoom devices_of put_devices f7 e = Some (Returned (r, e')) \<Longrightarrow> em_ui e' = em_ui e"
  "zoom struc_of put_struc f8 e = Some (Returned (r, e')) \<Longrightarrow> em_ui e' = em_ui e"
  "zoom console_of put_console f9 e = Some (Returned (r, e')) \<Longrightarrow> em_ui e' = em_ui e"
  "zoom em_mach put_mach f10 e = Some (Returned (r, e')) \<Longrightarrow> em_ui e' = em_ui e"
  by (auto simp: zoom_def view_defs)

lemma GetEvent_events: "GetEvent args (ui, ms) = Returned (r, ui', ms') \<Longrightarrow> events ui' = []"
  by (auto simp: GetEvent_def Let_def split: if_splits option.splits)

lemma run_callback_ui_same:
  assumes "run_callback cb env ce args e = Some (Returned (r, e'))" "cb \<noteq> Cb_GetEvent"
  shows "em_ui e' = em_ui e"
  by (insert assms, cases cb; hypsubst; simp only: run_callback.simps dir_call_def wdir_call_def;
      (erule zoom_ui | simp))

lemma run_callback_ui:
  assumes "run_callback cb env ce args e = Some (Returned (r, e'))"
  shows "set (events (em_ui e')) \<subseteq> set (events (em_ui e))"
proof (cases "cb = Cb_GetEvent")
  case True
  with assms have "events (em_ui e') = []" by (auto simp: polls_of_def dest!: polls_view.zoom_step GetEvent_events)
  then show ?thesis by simp
next
  case False
  have "em_ui e' = em_ui e" by (rule run_callback_ui_same [OF assms False])
  then show ?thesis by simp
qed

section \<open>The invariant\<close>

text \<open>
  What holds of the emulator's memory, searches and events at every moment of a run: live and free heap
  blocks that tile the heap, directory listings whose names fit, and well-typed queued events.
\<close>

definition emu_inv :: "('u, 'c, 'w) emulator \<Rightarrow> bool" where
  "emu_inv e \<longleftrightarrow> heap_tables (mm_of e) \<and> search_ok (search_of e)
     \<and> (\<forall>ev \<in> set (events (em_ui e)). event_ok ev)"

lemma emu_inv_put_mach:
  assumes "emu_inv e" "heap_tables (mmem ms)"
  shows "emu_inv (put_mach ms e)"
  using assms by (simp add: emu_inv_def put_mach_def mm_of_def search_of_def search_ok_def)

lemma Call_returned:
  assumes "Call run (\<lambda>v e. Some (Returned (v, e))) t i args s = Some (Returned (r, s'))"
  shows "(\<exists>cb. run cb args s = Some (Returned (r, s'))) \<or> s' = s"
proof (cases "map_of t i")
  case (Some h)
  then show ?thesis using assms by (cases "Callback h") (auto simp: Call_def)
qed (use assms in \<open>simp add: Call_def\<close>)

lemma run_callback_inv:
  assumes ret: "run_callback cb env ce args e = Some (Returned (r, e'))"
    and inv: "emu_inv e" and dirs: "dirs_ok (dirs_of env)"
  shows "emu_inv e'"
proof -
  from inv have I: "heap_tables (mm_of e)" "search_ok (search_of e)"
    "\<forall>ev \<in> set (events (em_ui e)). event_ok ev" by (simp_all add: emu_inv_def)
  have "heap_tables (mm_of e')" by (rule run_callback_tables [OF ret I(1,2) dirs])
  moreover have "search_ok (search_of e')" by (rule run_callback_search [OF ret I(2) dirs])
  moreover have "\<forall>ev \<in> set (events (em_ui e')). event_ok ev" using run_callback_ui [OF ret] I(3) by blast
  ultimately show ?thesis by (simp add: emu_inv_def)
qed

lemma emu_inv_quiet:
  assumes "emu_inv e" "mmem (em_mach e') = mmem (em_mach e)" "em_contexts e' = em_contexts e" "em_ui e' = em_ui e"
  shows "emu_inv e'"
  using assms(1) unfolding emu_inv_def mm_of_def assms(2,4) search_ok_eq [OF assms(3)] by blast

text \<open>The interrupt hook runs at most one callback, on the emulator with its table of calls, then writes registers.\<close>

lemma interrupt_hook_cases:
  assumes "interrupt_hook env ce e = Some (Returned e')"
  obtains e1 u where "e' = put_cpu u e1" "e1 = SystemAPI_GetInstance e"
  | cb args r e1 u where "e' = put_cpu u e1"
      "run_callback cb env ce args (SystemAPI_GetInstance e) = Some (Returned (r, e1))"
proof -
  obtain svc args r e1 u where
    call: "Call (\<lambda>cb. run_callback cb env ce) (\<lambda>v e. Some (Returned (v, e))) SystemAPI_new svc args
        (SystemAPI_GetInstance e) = Some (Returned (r, e1))" and e': "e' = put_cpu u e1"
    using assms unfolding interrupt_hook_def Let_def by auto
  from Call_returned [OF call] show thesis using that e' by blast
qed

lemma GetInstance_keeps [simp]:
  "em_mach (SystemAPI_GetInstance e) = em_mach e" "em_contexts (SystemAPI_GetInstance e) = em_contexts e"
  "em_ui (SystemAPI_GetInstance e) = em_ui e"
  by (simp_all add: SystemAPI_GetInstance_def)

lemma interrupt_hook_inv:
  assumes ret: "interrupt_hook env ce e = Some (Returned e')"
    and inv: "emu_inv e" and dirs: "dirs_ok (dirs_of env)"
  shows "emu_inv e'"
proof -
  have inv0: "emu_inv (SystemAPI_GetInstance e)" using inv by (rule emu_inv_quiet) simp_all
  from ret show ?thesis
  proof (cases rule: interrupt_hook_cases)
    case (1 e1 u)
    then show ?thesis using inv0 by (auto simp: put_cpu_def elim: emu_inv_quiet)
  next
    case (2 cb args r e1 u)
    have "emu_inv e1" by (rule run_callback_inv [OF 2(2) inv0 dirs])
    then show ?thesis unfolding 2(1) by (rule emu_inv_quiet) (simp_all add: put_cpu_def)
  qed
qed

lemma heap_tables_hmem [simp]: "heap_tables (m\<lparr>hmem := h\<rparr>) = heap_tables m"
  by (simp add: heap_tables_def)

lemma emu_step_inv:
  assumes step: "emu_step env e e'" and inv: "emu_inv e" and dirs: "dirs_ok (dirs_of env)"
  shows "emu_inv e'"
proof -
  have H: "heap_tables (mmem (em_mach e))" using inv by (simp add: emu_inv_def mm_of_def)
  show ?thesis
    using step
  proof cases
    case (call h ce u e1)
    have "emu_inv (put_mach ((em_mach e)\<lparr>mcpu := u, mmem := (mm_of e)\<lparr>hmem := h\<rparr>\<rparr>) e)"
      by (rule emu_inv_put_mach [OF inv]) (simp add: H mm_of_def)
    from interrupt_hook_inv [OF call(6) this dirs] show ?thesis
      unfolding call(1) by (rule emu_inv_quiet) simp_all
  next
    case (message msg)
    have "\<forall>ev \<in> set (events (snd (WndProc msg (em_ui e)))). event_ok ev"
      using inv event_of_ok by (auto simp: emu_inv_def WndProc_events)
    with inv show ?thesis unfolding message(1)
      by (simp add: emu_inv_def mm_of_def search_of_def search_ok_def)
  next
    case finished
    show ?thesis unfolding finished(1) using inv by (rule emu_inv_quiet) simp_all
  qed (simp_all add: emu_inv_put_mach [OF inv] H mm_of_def)
qed

section \<open>The scheduler in a running emulator\<close>

text \<open>
  An invariant \<open>J\<close> of the scheduler that its steps keep from states in which \<open>ok\<close> holds, and that does not
  depend on registers, memory and the rest of the emulator: it holds along the runs of the whole
  emulator.
\<close>

locale mach_invariant =
  fixes ok J :: "('u, 'c) mach \<Rightarrow> bool"
  assumes step: "sched_step uc ms ms' \<Longrightarrow> ok ms \<Longrightarrow> J ms \<Longrightarrow> J ms'"
    and same: "same_sched ms ms' \<Longrightarrow> J ms \<Longrightarrow> J ms'"
    and ok_same: "same_sched ms ms' \<Longrightarrow> ok ms \<Longrightarrow> ok ms'"
begin

lemma next_keeps: "mach_next uc ms ms' \<Longrightarrow> ok ms \<Longrightarrow> J ms \<Longrightarrow> J ms'"
  using step same by (auto simp: mach_next_def)

lemma hook_keeps:
  assumes ret: "interrupt_hook env ce e = Some (Returned e')" and ph: "mphase (em_mach e) = InBlock"
    and new: "unused_cs (ce_new ce) (mos (em_mach e))" "unused_ev (ce_new ce) (mos (em_mach e))"
    and inv: "ok (em_mach e)" "J (em_mach e)"
  shows "J ((em_mach e')\<lparr>mphase := AtBlock\<rparr>)"
proof -
  have put: "same_sched (ms\<lparr>mphase := AtBlock\<rparr>) (ms\<lparr>mcpu := u, mphase := AtBlock\<rparr>)" for ms :: "('u, 'c) mach" and u
    by (simp add: same_sched_def)
  from ret show ?thesis
  proof (cases rule: interrupt_hook_cases)
    case (1 e1 u)
    have "same_sched (em_mach e) ((em_mach e)\<lparr>mcpu := u, mphase := AtBlock\<rparr>)" by (simp add: same_sched_def)
    from same [OF this inv(2)] show ?thesis by (simp add: 1 put_cpu_def)
  next
    case (2 cb args r e1 u)
    have "mach_next uc (em_mach e) ((em_mach e1)\<lparr>mphase := AtBlock\<rparr>)" for uc
      using run_callback_next [OF 2(2)] ph new by simp
    from same [OF put next_keeps [OF this inv], of u] show ?thesis by (simp add: 2(1) put_cpu_def)
  qed
qed

lemma emu_step_keeps:
  assumes step': "emu_step env e e'" and inv: "ok (em_mach e)" "J (em_mach e)"
  shows "J (em_mach e')"
  using step'
proof cases
  case (hook n1 n2 n3 n4 stop sm l)
  then have "sched_step (e_uc env) (em_mach e) (em_mach e')"
    by (cases stop) (auto simp: put_mach_def intro: sched_step.hook_run sched_step.hook_stop)
  then show ?thesis using step inv by blast
next
  case (code h u)
  then have "sched_step (e_uc env) (em_mach e) (em_mach e')" by (auto simp: put_mach_def intro: sched_step.block)
  then show ?thesis using step inv by blast
next
  case (call h ce u e1)
  let ?e = "put_mach ((em_mach e)\<lparr>mcpu := u, mmem := (mm_of e)\<lparr>hmem := h\<rparr>\<rparr>) e"
  have "same_sched (em_mach e) (em_mach ?e)" by (simp add: same_sched_def put_mach_def)
  note I = ok_same [OF this inv(1)] same [OF this inv(2)]
  show ?thesis unfolding call(1) using hook_keeps [OF call(6) _ _ _ I] call(2,4,5) by (simp add: put_mach_def)
next
  case (failure u)
  then have "sched_step (e_uc env) (em_mach e) (em_mach e')" by (auto simp: put_mach_def intro: sched_step.engine_error)
  then show ?thesis using step inv by blast
next
  case (switch_thread sm u)
  then have "sched_step (e_uc env) (em_mach e) (em_mach e')" by (auto simp: put_mach_def intro: sched_step.switch)
  then show ?thesis using step inv by blast
next
  case finished
  then have "sched_step (e_uc env) (em_mach e) (em_mach e')" by (auto intro: sched_step.finished)
  then show ?thesis using step inv by blast
qed (use inv in simp_all)

end

lemma same_sched_turn: "same_sched ms ms' \<Longrightarrow> turn_inv ms \<Longrightarrow> turn_inv ms'"
  by (auto simp: same_sched_def turn_inv_def turn_at_def)

lemma same_sched_inv: "same_sched ms ms' \<Longrightarrow> sched_inv ms \<Longrightarrow> sched_inv ms'"
  by (auto simp: same_sched_def sched_inv_def intro: sched_inv_same)

lemma same_sched_alive: "same_sched ms ms' \<Longrightarrow> objects_alive ms \<Longrightarrow> objects_alive ms'"
  by (simp add: same_sched_def objects_alive_def)

interpretation turns: mach_invariant "\<lambda>_. True" turn_inv
  by unfold_locales (auto intro: sched_step_turn same_sched_turn)

interpretation exclusive: mach_invariant objects_alive sched_inv
  by unfold_locales (auto intro: sched_step_inv same_sched_inv same_sched_alive)

lemma emu_reachable_turn:
  assumes "emu_reachable env e0 e" "turn_inv (em_mach e0)"
  shows "turn_inv (em_mach e)"
  using assms by (induction) (auto intro: turns.emu_step_keeps)

lemma emu_runs_sched:
  assumes "runs (emu_step env) (\<lambda>e. objects_alive (em_mach e)) e0 e" "sched_inv (em_mach e0)"
  shows "sched_inv (em_mach e)"
  using assms by (rule runs_inv [where J = "\<lambda>e. sched_inv (em_mach e)"]) (rule exclusive.emu_step_keeps)

section \<open>The start\<close>

text \<open>The loader leaves the tables of the heap alone, the first thread takes its stack from it.\<close>

lemma map_window_tables: "map_window env addr n ld = (e, ld') \<Longrightarrow> tables (ld_mm ld') = tables (ld_mm ld)"
  by (auto simp: map_window_def dest: StaticAlloc_tables split: prod.splits)

lemma exec_alloc_tables: "exec_alloc env a n ld = Some (e, p, ld') \<Longrightarrow> tables (ld_mm ld') = tables (ld_mm ld)"
  by (auto simp: exec_alloc_def Let_def dest: StaticAlloc_tables split: prod.splits option.splits if_splits)

lemma load_kernel_tables: "load_kernel env ld = Some (e, ld') \<Longrightarrow> tables (ld_mm ld') = tables (ld_mm ld)"
  by (auto simp: load_kernel_def dest: exec_alloc_tables split: option.splits bind_splits)

lemma load_segments_tables:
  "load_segments env segs (ex, ld) = Some (e, ex', ld') \<Longrightarrow> tables (ld_mm ld') = tables (ld_mm ld)"
  by (induction segs arbitrary: ex ld)
     (auto simp: Let_def split: bind_splits if_splits prod.splits dest!: exec_alloc_tables ld_free_tables)

lemma Executable_Load_tables:
  "Executable_Load fuel env elf (ex, ld) = Some (e, ex', ld') \<Longrightarrow> tables (ld_mm ld') = tables (ld_mm ld)"
  by (auto simp: Executable_Load_def load_elf_def load_pe_def Let_def split: bind_splits option.splits if_splits
      dest!: load_kernel_tables load_segments_tables LoadPEImage_tables)

lemma Executor_Initialize_tables:
  "Executor_Initialize fuel env elf opened hook_ok exec ld = Some (r, ex', ld')
    \<Longrightarrow> tables (ld_mm ld') = tables (ld_mm ld)"
  by (auto simp: Executor_Initialize_def InitInterrupts_def Let_def
      split: option.splits bind_splits if_splits prod.splits dest!: Executable_Load_tables map_window_tables)

lemma MemoryManager_new_tables:
  assumes "MemoryManager_new h mem = Returned m"
  shows "heap_tables m"
proof -
  have "layout [(MEM_DYNAMIC_HEAP_BASE, MEM_DYNAMIC_HEAP_SIZE)] []"
    by (auto simp: layout_def free_ok_def range_ok_def alloc_ok_def um_ok_def cover_def occ_def in_heap_def)
  then show ?thesis by (simp add: heap_tables_def MemoryManager_new_eq(3) [OF assms])
qed

lemma main_start_inv:
  assumes ret: "main_start env elf opened hook_ok ex ctx junk (emulator_new m w ts u now) = Some e"
    and new: "heap_tables m"
  shows "emu_inv e" "sched_inv (em_mach e)" "objects_alive (em_mach e)"
proof -
  let ?e0 = "emulator_new m w ts u now"
  obtain ex' ld where
    init: "Executor_Initialize (e_fuel env) (e_loader env (em_world ?e0)) elf opened hook_ok (Some ex) (loader_of ?e0)
      = Some (True, Some ex', ld)" and
    e: "e = put_mach (Execute_start (e_uc env) ctx junk (ex_entry ex') (em_mach (put_loader ld ?e0))) (put_loader ld ?e0)"
    using ret by (auto simp: main_start_def Let_def split: option.splits prod.splits bool.splits)
  define ms where "ms = em_mach (put_loader ld ?e0)"
  have ms: "msm ms = StateManager_init ts" "mos ms = os_tables_init" "mmem ms = ld_mm ld"
    by (simp_all add: ms_def put_loader_def put_mm_def emulator_new_def)
  have "tables (ld_mm ld) = tables m"
    using Executor_Initialize_tables [OF init] by (simp add: mm_of_def emulator_new_def)
  from iffD2 [OF heap_tables_eq [OF this] new] have t: "heap_tables (mmem ms)" unfolding ms(3) .
  have k: "keeps (mmem ms) (mmem (Execute_start (e_uc env) ctx junk (ex_entry ex') ms))"
    by (auto simp: Execute_start_def NewThread_def MEM_STACK_SIZE_def Let_def split: prod.splits dest!: DyanmicAlloc_keeps)
  have "sched_inv (Execute_start (e_uc env) ctx junk (ex_entry ex') ms)"
    unfolding sched_inv_def using Execute_start_inv [OF ms(1)] by blast
  then show "sched_inv (em_mach e)" by (simp add: e ms_def put_mach_def)
  show "objects_alive (em_mach e)" using Execute_start_alive [OF ms(1)] by (simp add: e ms_def put_mach_def)
  have "heap_tables (mmem (Execute_start (e_uc env) ctx junk (ex_entry ex') ms))"
    using k t by (rule keepsD)
  moreover have "em_contexts (put_loader ld ?e0) = []" "em_ui (put_loader ld ?e0) = ui_init"
    by (simp_all add: put_loader_def put_mm_def emulator_new_def)
  ultimately show "emu_inv e" unfolding e ms_def [symmetric]
    by (simp add: emu_inv_def put_mach_def mm_of_def search_of_def search_ok_def ui_init_def)
qed

lemma emu_reachable_inv:
  assumes "emu_reachable env e0 e" "emu_inv e0" "dirs_ok (dirs_of env)"
  shows "emu_inv e"
  using assms by (induction) (auto intro: emu_step_inv)

end
