(* ===== verification/EmulatorProps.thy ===== *)
theory EmulatorProps
  imports EmulatorInv LoaderProps PathProps PrintfProps DbgMsg ProfileProps
begin

text \<open>
  Properties of the whole emulator: safety of every run and what a system call does to the registers of
  the guest; with a concrete emulator on which they are applied.
\<close>

section \<open>A concrete emulator\<close>

text \<open>
  The engine of ThreadProps, a host with one file for every name, an ELF executable without segments
  and a guest whose next instruction is the system call \<open>lmalloc\<close>.
\<close>

definition demo_elf :: elf_image where
  "demo_elf = \<lparr>elf_class32 = True, elf_arm = True, elf_segments = [], elf_entry = 0x10000\<rparr>"

definition demo_env :: "(u32 list \<times> bool, u32 list \<times> bool, byte list) emu_env" where
  "demo_env = \<lparr>e_uc = demo_uc, e_reg_write = (\<lambda>k v (rs, t). if k = 15 then (rs[15 := v AND NOT 1], v AND 1 = 1) else (rs[k := v], t)),
     e_mem_read = (\<lambda>m a. Some (if a = 0xFFC then 0xEF010037 else 0x8001)),
     e_io = demo_io, e_streams = \<lparr>ifs_bytes = (\<lambda>p w. None), ofs_write = (\<lambda>p bs w. Some w)\<rparr>,
     e_is_directory = (\<lambda>p w. True), e_directory_iterator = (\<lambda>p w. Some []), e_canon = (\<lambda>w p. None),
     e_loader = (\<lambda>w. \<lparr>hosts = (\<lambda>k m. demo_host), host_file = (\<lambda>p. Some [0])\<rparr>), e_fuel = 100\<rparr>"

definition demo_call :: "(u32 list \<times> bool) call_env" where
  "demo_call = \<lparr>ce_now = 0, ce_tm = undefined, ce_msec = 0, ce_ctx = ([], False), ce_junk = 0, ce_svc = 0, ce_lr = 0, ce_new = 0\<rparr>"

definition demo_regs :: "u32 list" where
  "demo_regs = [24, 0, 0, 0, 0, 0, 0, 0, 0, 0, 0, 0, 0, 0x5000, 0, 0x1000]"

definition demo_emulator :: "(u32 list \<times> bool, u32 list \<times> bool, byte list) emulator" where
  "demo_emulator = emulator_new demo_mm [] (\<lambda>_. ThreadState_new ([], False) 0 0 0) (demo_regs, False) 0"

definition demo_exec :: Executable where
  "demo_exec = \<lparr>ex_path = ''a.elf'', ex_address = 0, ex_entry = 0, ex_size = 0, ex_state = EXEC_NOT_INITIALIZED\<rparr>"

lemma demo_alloc:
  assumes "\<not> OverlapsAnyMappedBlock m a n" "n \<noteq> 0" "unat a mod 4096 = 0"
    and "sz (vp ((n + sz PAGE_SIZE - 1) div sz PAGE_SIZE) * PAGE_SIZE) \<noteq> 0"
  shows "StaticAlloc demo_host m a n None
    = (let b = mapped_block a 0x100000000 (vp ((n + sz PAGE_SIZE - 1) div sz PAGE_SIZE))
       in (ERROR_OK, Some b, m\<lparr>blocks := b # blocks m,
             hmem := mem_fill (hmem m) 0x100000000 (sz (vp ((n + sz PAGE_SIZE - 1) div sz PAGE_SIZE) * PAGE_SIZE)) 0\<rparr>))"
  using assms by (simp add: StaticAlloc_def Let_def mapped_block_eq demo_host_def)

lemma demo_mapped: "blocks demo_mm = [mapped_block MEM_DYNAMIC_HEAP_BASE 0x100000000 0x10000]"
  by (simp add: MemoryManager_new_eq(3) [OF demo_mm_new] demo_host_def)

lemmas demo_range = OverlapsAnyMappedBlock_def RangeOverlaps_def PAGE_SIZE_def sz_def vp_def
  MEM_DYNAMIC_HEAP_BASE_def LCD_REGISTER_def LCD_REGISTER_SIZE_def RTC_REGISTER_def

lemma demo_boots: "\<exists>e. main_start demo_env (\<lambda>p. Some demo_elf) True (\<lambda>k. True) demo_exec ([], False) 0 demo_emulator = Some e"
  unfolding main_start_def Executor_Initialize_def Executable_Load_def load_kernel_def exec_alloc_def
  by (simp add: demo_env_def demo_exec_def demo_elf_def ReadFileToVector_def load_elf_def loader_of_def
      demo_emulator_def emulator_new_def mm_of_def map_window_def InitInterrupts_def demo_alloc demo_mapped
      demo_range Let_def)

lemma demo_dirs_ok: "dirs_ok (dirs_of demo_env)"
  by (simp add: dirs_ok_def dirs_of_def demo_env_def)

section \<open>Safety\<close>

text \<open>
  C1. Safety of the whole emulator.  In every state that a run reaches from a start that succeeds, with
  every system call, message and block of guest code in any order and whatever the guest writes
  into its memory (the guard words of the heap included): there is a current thread; every live heap
  block lies inside the heap with its two guard words and shares no byte with another block or a free
  range; and every queued event is well-typed.  As long as, on the way, no critical section or event has
  been destroyed that a thread holds or waits for (\<open>OSInitCriticalSection\<close> on a key in use does that, and
  the code does not prevent it): a thread that executes waits for nothing, no two threads hold
  the same critical section, and a thread is queued at exactly the section it asked for.  The
  hypothesis on the host is that names in directory listings are shorter than 256 characters.
\<close>

theorem emulator_safe:
  assumes "MemoryManager_new h mem = Returned m"
    and "main_start env elf opened hook_ok ex ctx junk (emulator_new m w ts u now) = Some e0"
    and "emu_reachable env e0 e" "dirs_ok (dirs_of env)"
  defines "sm \<equiv> msm (em_mach e)" and "s \<equiv> sy (msm (em_mach e))"
  shows "(\<exists>c<nthreads sm. currentThread sm = Some c)
    \<and> (\<forall>(a, n) \<in> set (heapAlloc (mm_of e)).
         0x20000008 \<le> unat a \<and> unat a + unat n + 8 \<le> 0x30000000
         \<and> (\<forall>(b, k) \<in> set (heapAlloc (mm_of e)). (b, k) \<noteq> (a, n) \<longrightarrow>
              unat a + unat n + 16 \<le> unat b \<or> unat b + unat k + 16 \<le> unat a)
         \<and> (\<forall>(f, k) \<in> set (heapFree (mm_of e)).
              unat f + unat k + 8 \<le> unat a \<or> unat a + unat n + 8 \<le> unat f))
    \<and> (\<forall>ev \<in> set (events (em_ui e)). event_ok ev)
    \<and> (runs (emu_step env) (\<lambda>e. objects_alive (em_mach e)) e0 e \<longrightarrow>
         (\<forall>c. currentThread sm = Some c \<and> mphase (em_mach e) = InBlock \<longrightarrow> requested (thr s c) = None
            \<and> waitingEvent (thr s c) = None \<and> \<not> isSuspended (thr s c) \<and> \<not> isSleeping (thr s c))
         \<and> (\<forall>d t u. ownedCriticalSections (thr s t) d \<noteq> None \<and> ownedCriticalSections (thr s u) d \<noteq> None
              \<longrightarrow> t = u)
         \<and> (\<forall>d t. requested (thr s t) = Some d \<longleftrightarrow> t \<in> set (cwaiters (css s d))))"
proof -
  note start = main_start_inv [OF assms(2) MemoryManager_new_tables [OF assms(1)]]
  from emu_reachable_inv [OF assms(3) start(1) assms(4)]
  have I: "layout (heapFree (mm_of e)) (heapAlloc (mm_of e))" "\<forall>ev \<in> set (events (em_ui e)). event_ok ev"
    by (simp_all add: emu_inv_def heap_tables_def)
  have T: "\<exists>c<nthreads sm. currentThread sm = Some c"
    unfolding sm_def by (rule turn_inv_current [OF emu_reachable_turn [OF assms(3) sched_inv_turn [OF start(2)]]])
  note S = sched_inv_safe [OF emu_runs_sched [OF _ start(2)], of env e, folded sm_def s_def]
  have H: "0x20000008 \<le> unat a \<and> unat a + unat n + 8 \<le> 0x30000000
         \<and> (\<forall>(b, k) \<in> set (heapAlloc (mm_of e)). (b, k) \<noteq> (a, n) \<longrightarrow>
              unat a + unat n + 16 \<le> unat b \<or> unat b + unat k + 16 \<le> unat a)
         \<and> (\<forall>(f, k) \<in> set (heapFree (mm_of e)).
              unat f + unat k + 8 \<le> unat a \<or> unat a + unat n + 8 \<le> unat f)"
    if "(a, n) \<in> set (heapAlloc (mm_of e))" for a n
    using alloc_in_heap [OF I(1) that] alloc_disjoint [OF I(1) that] free_alloc_disjoint [OF I(1) _ that] by blast
  show ?thesis
  proof (intro conjI impI)
    assume r: "runs (emu_step env) (\<lambda>e. objects_alive (em_mach e)) e0 e"
    show "\<forall>c. currentThread sm = Some c \<and> mphase (em_mach e) = InBlock \<longrightarrow> requested (thr s c) = None
        \<and> waitingEvent (thr s c) = None \<and> \<not> isSuspended (thr s c) \<and> \<not> isSleeping (thr s c)"
      using S [OF r] by (rule conjunct1)
    show "\<forall>d t u. ownedCriticalSections (thr s t) d \<noteq> None \<and> ownedCriticalSections (thr s u) d \<noteq> None
        \<longrightarrow> t = u" "\<forall>d t. requested (thr s t) = Some d \<longleftrightarrow> t \<in> set (cwaiters (css s d))"
      using S [OF r] by blast+
  qed (use T H I(2) in blast)+
qed

text \<open>A started emulator that has just been sent the key 1.\<close>

theorem emulator_safe_witness:
  "\<exists>e0 e. main_start demo_env (\<lambda>p. Some demo_elf) True (\<lambda>k. True) demo_exec ([], False) 0 demo_emulator = Some e0
     \<and> emu_reachable demo_env e0 e \<and> events (em_ui e) \<noteq> []
     \<and> runs (emu_step demo_env) (\<lambda>e. objects_alive (em_mach e)) e0 e
     \<and> currentThread (msm (em_mach e)) \<noteq> None \<and> (\<forall>ev \<in> set (events (em_ui e)). event_ok ev)
     \<and> (\<forall>d t. requested (thr (sy (msm (em_mach e))) t) = Some d \<longleftrightarrow> t \<in> set (cwaiters (css (sy (msm (em_mach e))) d)))"
proof -
  obtain e0 where b: "main_start demo_env (\<lambda>p. Some demo_elf) True (\<lambda>k. True) demo_exec ([], False) 0
      demo_emulator = Some e0" using demo_boots by blast
  define e where "e = e0\<lparr>em_ui := snd (WndProc (WM_KEYDOWN 0x31) (em_ui e0))\<rparr>"
  have st: "emu_step demo_env e0 e" unfolding e_def by (rule emu_step.message)
  have r: "emu_reachable demo_env e0 e" by (rule emu_reachable.stepped [OF emu_reachable.booted st])
  have a: "objects_alive (em_mach e0)"
    by (rule main_start_inv(3) [OF b [unfolded demo_emulator_def] MemoryManager_new_tables [OF demo_mm_new]])
  then have "objects_alive (em_mach e)" by (simp add: e_def)
  have "runs (emu_step demo_env) (\<lambda>e. objects_alive (em_mach e)) e0 e0" by (rule runs.start) (rule a)
  then have k: "runs (emu_step demo_env) (\<lambda>e. objects_alive (em_mach e)) e0 e"
    by (rule runs.more) (rule st \<open>objects_alive (em_mach e)\<close>)+
  have "events (em_ui e) = events (em_ui e0) @ event_of (is_lbtn_down (em_ui e0)) (WM_KEYDOWN 0x31)"
    unfolding e_def WndProc_events(1) [symmetric] by simp
  then have "events (em_ui e) \<noteq> []" by (simp add: device_key_def numpad_mapping_def vk_to_device_keymap_def)
  with b r k emulator_safe [OF demo_mm_new b [unfolded demo_emulator_def] r demo_dirs_ok]
  show ?thesis by blast
qed

section \<open>System calls\<close>

lemma thread_call_cpu:
  "OSCreateThread ctx junk args ms = (r, ms') \<Longrightarrow> mcpu ms' = mcpu ms"
  "OSSetThreadPriority args ms = Some (r, ms') \<Longrightarrow> mcpu ms' = mcpu ms"
  "OSSleep now args ms = Returned (r, ms') \<Longrightarrow> mcpu ms' = mcpu ms"
  "OSCreateEvent obj args ms = (r, ms') \<Longrightarrow> mcpu ms' = mcpu ms"
  "OSWaitForEvent now args ms = Returned (r, ms') \<Longrightarrow> mcpu ms' = mcpu ms"
  "OSSetEvent args ms = Returned (r, ms') \<Longrightarrow> mcpu ms' = mcpu ms"
  "OSInitCriticalSection obj args ms = (r, ms') \<Longrightarrow> mcpu ms' = mcpu ms"
  "OSEnterCriticalSection args ms = Returned (r, ms') \<Longrightarrow> mcpu ms' = mcpu ms"
  "OSLeaveCriticalSection args ms = Returned (r, ms') \<Longrightarrow> mcpu ms' = mcpu ms"
  "OSSuspendThread args ms = (r, ms') \<Longrightarrow> mcpu ms' = mcpu ms"
  "OSResumeThread args ms = (r, ms') \<Longrightarrow> mcpu ms' = mcpu ms"
  "InterruptInitialize args ms = (r, ms') \<Longrightarrow> mcpu ms' = mcpu ms"
  "InterruptDone ms = (r, ms') \<Longrightarrow> mcpu ms' = mcpu ms"
  "BatteryLowCheck ms = (r, ms') \<Longrightarrow> mcpu ms' = mcpu ms"
  "GetEvent args (ui, ms) = Returned (r, ui', ms') \<Longrightarrow> mcpu ms' = mcpu ms"
  by (auto simp: OSCreateThread_def OSSetThreadPriority_def OSSleep_def OSCreateEvent_def OSWaitForEvent_def
      OSSetEvent_def OSInitCriticalSection_def OSEnterCriticalSection_def OSLeaveCriticalSection_def
      OSSuspendThread_def OSResumeThread_def InterruptInitialize_def InterruptDone_def BatteryLowCheck_def
      CurrentThreadYield_def GetEvent_def on_current_def Let_def split: option.splits prod.splits if_splits)

lemma mm_put_cpu: "mm_of (put_cpu u e) = mm_of e"
  by (simp add: mm_of_def put_cpu_def)

lemma same_mach_cpu: "same_mach e e' \<Longrightarrow> mcpu (em_mach e') = mcpu (em_mach e)"
  by (metis same_mach_def mach.select_convs mach.update_convs mach.surjective)

lemma run_callback_cpu:
  assumes ret: "run_callback cb env ce args e = Some (Returned (r, e'))"
  shows "mcpu (em_mach e') = mcpu (em_mach e)"
proof (cases "cb \<in> set thread_calls")
  case False
  from run_callback_same_mach [OF ret this] show ?thesis by (rule same_mach_cpu)
next
  case True
  then show ?thesis
    using ret by (auto simp: thread_calls_def mach_view.zoom_returned polls_view.zoom_returned polls_of_def
        dest: thread_call_cpu)
qed

text \<open>
  C3. What a system call does to the guest.  The number is the low 20 bits of the instruction before
  \<open>pc\<close>; when the table has a callback for it, the callback runs on the registers of the guest and its
  result goes to R0, and for every other number R0 becomes 0 and no component changes; SP moves past
  the two words the stub pushed and execution goes on at the first of them, as it was in memory before
  the call, in Thumb state exactly when that word is odd; every other register keeps its value.  The
  hypotheses on the engine are Unicorn's: a register written is the one read back, except that bit 0 of a
  value written to the program counter becomes the Thumb state; and the two words are readable.
\<close>

theorem system_call_returns:
  assumes "\<forall>k<15. \<forall>v u. uc_reg_read_batch (e_uc env) (e_reg_write env k v u)
      = (uc_reg_read_batch (e_uc env) u)[k := v]"
    and "\<forall>v u. uc_reg_read_batch (e_uc env) (e_reg_write env 15 v u) = (uc_reg_read_batch (e_uc env) u)[15 := v AND NOT 1]
      \<and> uc_query_thumb (e_uc env) (e_reg_write env 15 v u) = (v AND 1 = 1)"
    and "regs = uc_reg_read_batch (e_uc env) (mcpu (em_mach e))"
    and "e_mem_read env (mm_of e) (regs ! 15 - 4) = Some w" "e_mem_read env (mm_of e) (regs ! 13) = Some lr"
    and "interrupt_hook env ce e = Some (Returned e')"
  defines "i \<equiv> w AND 0xFFFFF"
  shows "\<exists>r e1. uc_reg_read_batch (e_uc env) (mcpu (em_mach e')) = regs[0 := r, 13 := regs ! 13 + 8, 15 := lr AND NOT 1]
     \<and> uc_query_thumb (e_uc env) (mcpu (em_mach e')) = (lr AND 1 = 1)
     \<and> e' = put_cpu (mcpu (em_mach e')) e1
     \<and> (case if 0x10000 \<le> i \<and> i \<le> 0x102E5 then Callback (registrations ! (unat i - 0x10000)) else None of
          Some cb \<Rightarrow> run_callback cb env ce (SystemServiceArguments_read regs) (SystemAPI_GetInstance e)
                       = Some (Returned (r, e1))
        | None \<Rightarrow> r = 0 \<and> e1 = SystemAPI_GetInstance e)"
proof -
  define e0 where "e0 = SystemAPI_GetInstance e"
  have e0: "mcpu (em_mach e0) = mcpu (em_mach e)" by (simp add: e0_def SystemAPI_GetInstance_def)
  obtain r e1 where
    call: "Call (\<lambda>cb. run_callback cb env ce) (\<lambda>v e. Some (Returned (v, e))) SystemAPI_new i
      (SystemServiceArguments_read regs) e0 = Some (Returned (r, e1))"
    and e': "e' = put_cpu (e_reg_write env 15 lr (e_reg_write env 13 (regs ! 13 + 8)
      (e_reg_write env 0 r (mcpu (em_mach e1))))) e1"
    using assms(6) unfolding interrupt_hook_def e0_def i_def assms(3) [symmetric] Let_def assms(4,5) by auto
  have c: "case if 0x10000 \<le> i \<and> i \<le> 0x102E5 then Callback (registrations ! (unat i - 0x10000)) else None of
          Some cb \<Rightarrow> run_callback cb env ce (SystemServiceArguments_read regs) e0 = Some (Returned (r, e1))
        | None \<Rightarrow> r = 0 \<and> e1 = e0"
    using call by (auto simp: Call_def handlers_lookup split: option.splits if_splits)
  have "mcpu (em_mach e1) = mcpu (em_mach e)"
    using Call_returned [OF call] run_callback_cpu e0 by metis
  then have "uc_reg_read_batch (e_uc env) (mcpu (em_mach e')) = regs[0 := r, 13 := regs ! 13 + 8, 15 := lr AND NOT 1]
    \<and> uc_query_thumb (e_uc env) (mcpu (em_mach e')) = (lr AND 1 = 1)"
    using assms(1,2) by (simp add: e' put_cpu_def assms(3))
  moreover have "e' = put_cpu (mcpu (em_mach e')) e1" by (simp add: e' put_cpu_def)
  ultimately show ?thesis using c unfolding e0_def by blast
qed

text \<open>The system call \<open>lmalloc(24)\<close> of the concrete emulator.\<close>

theorem system_call_returns_witness:
  "\<exists>e'. interrupt_hook demo_env demo_call demo_emulator = Some (Returned e')
     \<and> uc_reg_read_batch demo_uc (mcpu (em_mach e'))
         = [0x20000008, 0, 0, 0, 0, 0, 0, 0, 0, 0, 0, 0, 0, 0x5008, 0, 0x8000]
     \<and> uc_query_thumb demo_uc (mcpu (em_mach e'))
     \<and> mm_of e' = demo_mm1"
proof -
  have uc: "e_uc demo_env = demo_uc" by (simp add: demo_env_def)
  have laws: "\<forall>k<15. \<forall>v u. uc_reg_read_batch (e_uc demo_env) (e_reg_write demo_env k v u)
      = (uc_reg_read_batch (e_uc demo_env) u)[k := v]"
    "\<forall>v u. uc_reg_read_batch (e_uc demo_env) (e_reg_write demo_env 15 v u)
        = (uc_reg_read_batch (e_uc demo_env) u)[15 := v AND NOT 1]
      \<and> uc_query_thumb (e_uc demo_env) (e_reg_write demo_env 15 v u) = (v AND 1 = 1)"
    by (auto simp: demo_env_def demo_uc_def)
  have regs: "demo_regs = uc_reg_read_batch (e_uc demo_env) (mcpu (em_mach demo_emulator))"
    by (simp add: demo_env_def demo_uc_def demo_emulator_def emulator_new_def)
  have svc: "e_mem_read demo_env (mm_of demo_emulator) (demo_regs ! 15 - 4) = Some 0xEF010037"
    "e_mem_read demo_env (mm_of demo_emulator) (demo_regs ! 13) = Some 0x8001"
    by (simp_all add: demo_env_def demo_regs_def)
  have i: "(0xEF010037 :: u32) AND 0xFFFFF = 0x10037" by simp
  have cb: "Callback (registrations ! 0x37) = Some Cb_lmalloc" by code_simp
  have run: "run_callback Cb_lmalloc demo_env demo_call (SystemServiceArguments_read demo_regs)
      (SystemAPI_GetInstance demo_emulator)
      = Some (Returned (0x20000008, put_mm demo_mm1 (SystemAPI_GetInstance demo_emulator)))"
    using demo_malloc(1)
    by (simp add: zoom_def lmalloc_def SystemServiceArguments_read_def demo_regs_def mm_of_def
        SystemAPI_GetInstance_def demo_emulator_def emulator_new_def)
  obtain e' where e': "interrupt_hook demo_env demo_call demo_emulator = Some (Returned e')"
    using run
    by (simp add: interrupt_hook_def Let_def regs [symmetric] svc i Call_def handlers_lookup cb)
  from system_call_returns [OF laws regs svc this, unfolded i] cb run
  have "uc_reg_read_batch (e_uc demo_env) (mcpu (em_mach e'))
      = demo_regs[0 := 0x20000008, 13 := demo_regs ! 13 + 8, 15 := 0x8000]
    \<and> uc_query_thumb (e_uc demo_env) (mcpu (em_mach e'))
    \<and> e' = put_cpu (mcpu (em_mach e')) (put_mm demo_mm1 (SystemAPI_GetInstance demo_emulator))"
    by (auto simp del: run_callback.simps)
  then have "mm_of e' = demo_mm1 \<and> uc_query_thumb (e_uc demo_env) (mcpu (em_mach e')) \<and> uc_reg_read_batch (e_uc demo_env) (mcpu (em_mach e'))
      = demo_regs[0 := 0x20000008, 13 := demo_regs ! 13 + 8, 15 := 0x8000]"
    by (metis mm_put_cpu mm_view.put_get)
  with e' show ?thesis by (auto simp: uc demo_regs_def)
qed

text \<open>
  After an error of the engine a thread resumes behind the instruction at an even address: a thread
  that ran Thumb code goes on in ARM state, because the address is written without its Thumb bit.
\<close>

lemma skip_instruction_even: "even (((pc :: u32) AND NOT 1) + (if b then 2 else 4))"
  by (auto simp: even_and_iff even_not_iff)

lemma fault_loses_thumb:
  assumes "\<And>v u. uc_reg_read_batch (e_uc env) (e_reg_write env 15 v u) = (uc_reg_read_batch (e_uc env) u)[15 := v AND NOT 1]"
    and "\<And>v u. even v \<Longrightarrow> \<not> uc_query_thumb (e_uc env) (e_reg_write env 15 v u)"
    and "length (uc_reg_read_batch (e_uc env) u) = 16" "currentThread sm = Some c"
  shows "even (sregs (tstate (SaveCurrentThreadState (e_uc env) (skip_instruction env u) sm) c) ! 15)"
  using assms skip_instruction_even
  by (simp add: SaveCurrentThreadState_def ThreadState_SaveState_def skip_instruction_def Let_def even_and_iff)

end
