(* ===== verification/LoaderInv.thy ===== *)
theory LoaderInv
  imports SectionProps LoadKeeps
begin

text \<open>
  The loader and the mappings: whatever a load does, the mappings of guest memory stay disjoint, provided
  the files describe images that fit below 4 GB; and a module that is loaded again is not mapped again.
\<close>

section \<open>Files that fit\<close>

text \<open>The image lies below 4 GB: its preferred base and its sections reach at most 2 GB each.\<close>

definition image_fits :: "byte list \<Rightarrow> bool" where
  "image_fits buf \<longleftrightarrow>
     (case check_headers buf of
        Some (Inr nt) \<Rightarrow>
          (case (image_base buf nt, number_of_sections buf nt) of
             (Some base, Some n) \<Rightarrow> unat base \<le> 2 ^ 31 \<and> sections_fit buf nt [0..<unat n]
           | _ \<Rightarrow> True)
      | _ \<Rightarrow> True)"

definition images_fit :: "loader_env \<Rightarrow> bool" where
  "images_fit env \<longleftrightarrow> (\<forall>p buf. host_file env p = Some buf \<longrightarrow> image_fits buf)"

lemma image_fitsD:
  assumes "image_fits buf" "check_headers buf = Some (Inr nt)" "image_base buf nt = Some base"
    "number_of_sections buf nt = Some n"
  shows "unat base \<le> 2 ^ 31" "sections_fit buf nt [0..<unat n]"
  using assms by (simp_all add: image_fits_def)

lemma images_fitD: "images_fit env \<Longrightarrow> ReadFileToVector env p = Some buf \<Longrightarrow> image_fits buf"
  by (auto simp: images_fit_def ReadFileToVector_def split: option.splits if_splits)

section \<open>Mappings\<close>

text \<open>The manager without its mappings is held by every manager with disjoint ones.\<close>

abbreviation unmapped :: "MemoryManager \<Rightarrow> MemoryManager" where
  "unmapped m \<equiv> m\<lparr>blocks := []\<rparr>"

lemma held_unmapped [simp]: "held (unmapped m) m' \<longleftrightarrow> region_inv m'"
  by (simp add: held_def)

lemma fresh_unmapped [simp]: "fresh_blocks (unmapped m) bs"
  by (simp add: fresh_blocks_def)

lemma ld_alloc_region:
  assumes "ld_alloc env va n (m, k) = (r, m', k')" "region_inv m" "hosts_ok env" "unat va + unat n \<le> 2 ^ 32"
  shows "region_inv m'"
proof (cases "n = 0")
  case True
  then show ?thesis using assms(1,2) by (simp add: ld_alloc_def StaticAlloc_def)
next
  case False
  show ?thesis
    by (rule ld_alloc_cases [OF assms(2-4) False assms(1)]) (use assms(2) in \<open>auto dest: held_inv\<close>)
qed

lemma ld_free_region: "region_inv m \<Longrightarrow> region_inv (fst (ld_free env va (m, k)))"
  using held_free [of "unmapped m" m va env k] by simp

lemma stub_address:
  assumes "i < 0x600" "n \<le> (8 :: u32)"
  shows "unat (0x10000000 + of_nat i * 0x00100000 :: u32) + unat n \<le> 2 ^ 32"
proof -
  have "(0x10000000 + of_nat i * 0x00100000 :: u32) = of_nat (0x10000000 + i * 0x00100000)" by simp
  then have "unat (0x10000000 + of_nat i * 0x00100000 :: u32) \<le> 0x10000000 + i * 0x00100000"
    by (simp only: unat_of_nat mod_less_eq_dividend)
  moreover have "0x10000000 + i * 0x00100000 \<le> 2 ^ 31" using assms(1) by simp
  moreover have "unat n \<le> 8" using assms(2) by (simp add: word_le_nat_alt)
  ultimately show ?thesis by simp
qed

text \<open>Disjoint mappings stay disjoint, given hosts that behave and files that fit.\<close>

interpretation regions_kept: load_keeps env
    "\<lambda>m m'. hosts_ok env \<longrightarrow> images_fit env \<longrightarrow> region_inv m \<longrightarrow> region_inv m'"
    "\<lambda>va n. images_fit env \<longrightarrow> unat va + unat n \<le> 2 ^ 32" "\<lambda>buf. images_fit env \<longrightarrow> image_fits buf"
  for env :: loader_env
proof unfold_locales
  fix va n m k r m' k' assume "ld_alloc env va n (m, k) = (r, m', k')" "images_fit env \<longrightarrow> unat va + unat n \<le> 2 ^ 32"
  then show "hosts_ok env \<longrightarrow> images_fit env \<longrightarrow> region_inv m \<longrightarrow> region_inv m'" using ld_alloc_region by blast
next
  fix va m k m' k' assume "ld_free env va (m, k) = (m', k')"
  then show "hosts_ok env \<longrightarrow> images_fit env \<longrightarrow> region_inv m \<longrightarrow> region_inv m'" using ld_free_region [of m env va k] by simp
next
  fix buf nt preferred nsec i s base
  assume H: "images_fit env \<longrightarrow> image_fits buf" "check_headers buf = Some (Inr nt)" "image_base buf nt = Some preferred"
    "number_of_sections buf nt = Some nsec" "i < unat nsec" "section_at buf nt i = Some s" "section_size s \<noteq> 0"
    "base = preferred \<or> base \<in> set base_candidates"
  show "images_fit env \<longrightarrow> unat (base + s_VirtualAddress s) + unat (section_size s) \<le> 2 ^ 32"
  proof
    assume "images_fit env"
    then have F: "image_fits buf" using H(1) by blast
    have "unat (s_VirtualAddress s) + unat (section_size s) \<le> 2 ^ 31"
      using image_fitsD(2) [OF F H(2-4)] H(5,6) by (auto simp: sections_fit_def)
    moreover have "unat base \<le> 2 ^ 31" using image_fitsD(1) [OF F H(2-4)] base_candidates_low H(8) by blast
    ultimately show "unat (base + s_VirtualAddress s) + unat (section_size s) \<le> 2 ^ 32" using section_fits H(7) by blast
  qed
next
  fix i :: nat and n :: u32 assume "i < 0x600" "n \<le> 8"
  then show "images_fit env \<longrightarrow> unat (0x10000000 + of_nat i * 0x00100000 :: u32) + unat n \<le> 2 ^ 32"
    by (intro impI stub_address)
qed (auto simp: images_fitD)

lemma LoadPEImage_region:
  "LoadPEImage fuel env path sysdir st = Some (e, img, st') \<Longrightarrow> hosts_ok env \<Longrightarrow> images_fit env \<Longrightarrow>
    region_inv (ld_mm st) \<Longrightarrow> region_inv (ld_mm st')"
  using regions_kept.LoadPEImage_keeps by blast

section \<open>Modules are loaded once\<close>

lemma om_set_lookup: "map_of (om_set k v m) k = Some v"
  by (induction k v m rule: om_set.induct) auto

lemma LoadPEImage_cached:
  assumes "LoadPEImage fuel env path sysdir st = Some (ERROR_OK, img, st')"
  shows "\<exists>i. img = Some i \<and> map_of (g_loadedPEImages st') (ToLower (path_filename path)) = Some i"
proof -
  let ?r = "length (ld_images st)" and ?st = "st\<lparr>ld_images := ld_images st @ [PEImage_new]\<rparr>"
  let ?name = "ToLower (path_filename path)"
  obtain buf where buf: "ReadFileToVector env path = Some buf"
    using assms by (auto simp: LoadPEImage_def split: option.splits)
  then obtain ld where M: "MapPEIntoMemory fuel env sysdir buf path ?r ([], ?st) = Some (ERROR_OK, ld, st')"
    and img: "img = Some (ld_images st' ! ?r)"
    using assms by (auto simp: LoadPEImage_def Let_def split: Option.bind_splits)
  have len: "?r < length (ld_images st')" using MapPEIntoMemory_length [OF M] by simp
  obtain f where f: "fuel = Suc f" using M by (cases fuel) auto
  from M [unfolded f] show ?thesis
  proof (cases rule: MapPEIntoMemory_cases)
    case (known j)
    then show ?thesis using len by (simp add: img upd_image_def)
  next
    case (placed nt preferred nsec st1 base bs m k dir img' st2 e3 ld3 st3)
    then have "st' = st3\<lparr>g_loadedPEImages := om_set ?name (ld_images st3 ! ?r) (g_loadedPEImages st3)\<rparr>" by auto
    then show ?thesis by (simp add: img om_set_lookup)
  qed simp_all
qed

text \<open>
  C30. Modules are loaded once.  After a successful load the image is known under the lower-case name of
  its file; loading a file of that name again, from any directory, with any contents and any fuel but
  zero, succeeds with the same image and leaves the memory, the mappings and the table of modules as
  they are.
\<close>

theorem load_once:
  assumes "LoadPEImage fuel env path sysdir st = Some (ERROR_OK, img, st')"
    and "ToLower (path_filename path') = ToLower (path_filename path)" "ReadFileToVector env path' = Some buf"
  shows "\<exists>st''. LoadPEImage (Suc fuel') env path' sysdir' st' = Some (ERROR_OK, img, st'')
    \<and> ld_mm st'' = ld_mm st' \<and> g_loadedPEImages st'' = g_loadedPEImages st' \<and> ld_calls st'' = ld_calls st'"
proof -
  obtain i where i: "img = Some i" "map_of (g_loadedPEImages st') (ToLower (path_filename path)) = Some i"
    using LoadPEImage_cached [OF assms(1)] by blast
  then show ?thesis
    by (simp add: LoadPEImage_def assms(2,3) Let_def upd_image_def)
qed

text \<open>
  A host that always behaves: fresh memory begins where the last mapping ends, and every free aligned
  range can be mapped.
\<close>

definition memory_top :: "MemoryManager \<Rightarrow> nat" where
  "memory_top m = foldr (\<lambda>b t. max t (unat (realAddress b) + unat (csize b))) (blocks m) 0x100000000"

definition fresh_host :: "MemoryManager \<Rightarrow> host" where
  "fresh_host m = \<lparr>calloc_r = (\<lambda>n. if memory_top m + unat (n * PAGE_SIZE) < 2 ^ 64 then of_nat (memory_top m) else 0),
     uc_map = (\<lambda>v s r. s \<noteq> 0 \<and> unat v mod 4096 = 0 \<and> list_all (\<lambda>b. unat v + unat s \<le> unat (virtualAddress b)
       \<or> unat (virtualAddress b) + unat (csize b) \<le> unat v) (blocks m)),
     uc_unmap = (\<lambda>v s. True)\<rparr>"

lemma memory_top_ge: "b \<in> set (blocks m) \<Longrightarrow> unat (realAddress b) + unat (csize b) \<le> memory_top m"
proof -
  have "b \<in> set bs \<Longrightarrow>
    unat (realAddress b) + unat (csize b) \<le> foldr (\<lambda>b t. max t (unat (realAddress b) + unat (csize b))) bs t" for bs t
    by (induction bs) auto
  then show "b \<in> set (blocks m) \<Longrightarrow> unat (realAddress b) + unat (csize b) \<le> memory_top m"
    by (simp add: memory_top_def)
qed

lemma fresh_host_ok: "host_ok (fresh_host m) m"
proof -
  have "unat (of_nat (memory_top m) :: 64 word) = memory_top m" if "memory_top m + k < 2 ^ 64" for k
    using that by (simp add: unat_of_nat)
  then show ?thesis
    using memory_top_ge [of _ m]
    by (auto simp: host_ok_def fresh_host_def unat_gt_0 mod_eq_0_iff_dvd list_all_iff split: if_splits)
qed

definition demo_modules :: loader_env where
  "demo_modules = \<lparr>hosts = (\<lambda>k m. fresh_host m), host_file = (\<lambda>p. Some demo_pe)\<rparr>"

theorem load_once_witness:
  "\<exists>img st st'. LoadPEImage 1 demo_modules ''A.DLL'' [] demo_empty = Some (ERROR_OK, Some img, st)
     \<and> LoadPEImage 5 demo_modules (CHR ''x'' # bsl # ''a.dll'') ''y'' st = Some (ERROR_OK, Some img, st')
     \<and> ld_mm st' = ld_mm st"
proof -
  have n: "ToLower (path_filename ''A.DLL'') = ''a.dll''" "ToLower (path_filename (CHR ''x'' # bsl # ''a.dll'')) = ''a.dll''"
    by code_simp+
  have f: "ReadFileToVector demo_modules p = Some demo_pe" for p
    by (simp add: ReadFileToVector_def demo_modules_def demo_headers)
  have "\<exists>img st. LoadPEImage 1 demo_modules ''A.DLL'' [] demo_empty = Some (ERROR_OK, Some img, st)"
    using n(1) by (simp add: LoadPEImage_def f demo_headers demo_headers(6) [unfolded One_nat_def] demo_empty_def
        upd_image_def place_image_def ParseAndFillExports_def ResolveImports_def Let_def PEImage_new_def)
  then obtain img st where l: "LoadPEImage 1 demo_modules ''A.DLL'' [] demo_empty = Some (ERROR_OK, Some img, st)" by blast
  from load_once [OF l, of "CHR ''x'' # bsl # ''a.dll''" demo_pe 4 "''y''"] n f
  show ?thesis using l by auto
qed

end
