(* ===== verification/EmulatorMap.thy ===== *)
theory EmulatorMap
  imports EmulatorProps LoaderInv
begin

text \<open>
  The mappings of guest memory over a whole run: from the start through every step they stay disjoint, so
  the translation between guest and host addresses that every component relies on stays a bijection,
  and the heap stays mapped.
\<close>

section \<open>What is assumed of the files and the host\<close>

text \<open>
  \<open>calloc\<close> and the engine behave as documented, and the files are ones whose images fit below 4 GB:
  the modules, the ROM and the segments of an ELF executable.
\<close>

definition files_fit :: "('u, 'c, 'w) emu_env \<Rightarrow> (string \<Rightarrow> elf_image option) \<Rightarrow> bool" where
  "files_fit env elf \<longleftrightarrow> (\<forall>w. hosts_ok (e_loader env w) \<and> images_fit (e_loader env w)
       \<and> (\<forall>p rom. host_file (e_loader env w) p = Some rom \<longrightarrow> length rom \<le> 2 ^ 30))
     \<and> (\<forall>p f. elf p = Some f \<longrightarrow>
          (\<forall>s\<in>set (elf_segments f). unat (ucast (seg_vaddr s) :: VirtPtr) + unat (seg_memsz s) \<le> 2 ^ 32))"

section \<open>The start\<close>

lemma StaticAlloc_region:
  assumes "StaticAlloc h m a n None = (e, b, m')" "region_inv m" "host_ok h m" "unat a + unat n \<le> 2 ^ 32"
  shows "region_inv m'"
proof (cases "e = ERROR_OK \<and> b \<noteq> None")
  case True
  then obtain d where "StaticAlloc h m a n None = (ERROR_OK, Some d, m')" using assms(1) by auto
  then show ?thesis using StaticAlloc_region_inv(1) [OF assms(2-4)] by blast
next
  case False
  then show ?thesis using StaticAlloc_fail [OF assms(1)] assms(2) by auto
qed

lemma map_window_region:
  assumes "map_window env addr n ld = (e, ld')" "region_inv (ld_mm ld)" "hosts_ok env" "unat addr + unat n \<le> 2 ^ 32"
  shows "region_inv (ld_mm ld')"
  using assms by (auto simp: map_window_def hosts_ok_def split: prod.splits dest!: StaticAlloc_region)

lemma exec_alloc_region:
  assumes "exec_alloc env a n ld = Some (e, p, ld')" "region_inv (ld_mm ld)" "hosts_ok env" "unat a + unat n \<le> 2 ^ 32"
  shows "region_inv (ld_mm ld')"
  using assms
  by (auto simp: exec_alloc_def hosts_ok_def Let_def split: prod.splits option.splits if_splits dest!: StaticAlloc_region)

lemma load_kernel_region:
  assumes "load_kernel env ld = Some (e, ld')" "region_inv (ld_mm ld)" "hosts_ok env"
    and fit: "\<forall>p rom. host_file env p = Some rom \<longrightarrow> length rom \<le> 2 ^ 30"
  shows "region_inv (ld_mm ld')"
proof (cases "ReadFileToVector env (CHR ''.'' # bsl # ''PRIME_OS.ROM'')")
  case None
  then show ?thesis using assms(1,2) by (simp add: load_kernel_def)
next
  case (Some rom)
  obtain p ld1 where 1: "exec_alloc env 0x30000000 (of_nat (length rom)) ld = Some (e, p, ld1)"
    and ld': "ld' = ld1 \<or> ld' = ld_write p rom ld1"
    using assms(1) by (auto simp: load_kernel_def Some split: bind_splits if_splits)
  have "length rom \<le> 2 ^ 30" using Some fit by (auto simp: ReadFileToVector_def split: option.splits if_splits)
  then have "unat (0x30000000 :: VirtPtr) + unat (of_nat (length rom) :: size_t) \<le> 2 ^ 32" by (simp add: unat_of_nat)
  from exec_alloc_region [OF 1 assms(2,3) this] ld' show ?thesis by auto
qed

lemma load_segments_region:
  assumes "load_segments env segs (ex, ld) = Some (e, ex', ld')" "region_inv (ld_mm ld)" "hosts_ok env"
    and "\<forall>s\<in>set segs. unat (ucast (seg_vaddr s) :: VirtPtr) + unat (seg_memsz s) \<le> 2 ^ 32"
  shows "region_inv (ld_mm ld')"
  using assms
proof (induction segs arbitrary: ex ld)
  case (Cons s segs)
  let ?a = "ucast (seg_vaddr s) :: VirtPtr"
  obtain e1 p ld1 where 1: "exec_alloc env ?a (seg_memsz s) ld = Some (e1, p, ld1)"
    using Cons.prems(1) by (auto simp: Let_def split: bind_splits)
  have i: "region_inv (ld_mm ld1)" using exec_alloc_region [OF 1 Cons.prems(2,3)] Cons.prems(4) by simp
  show ?case
  proof (cases "e1 = ERROR_OK")
    case False
    then show ?thesis using Cons.prems(1) 1 i by (simp add: Let_def)
  next
    case True
    show ?thesis
    proof (cases "length (seg_data s) > unat (seg_memsz s)")
      case long: True
      obtain m k where f: "ld_free env ?a ((ld_mm ld1)\<lparr>hmem := mem_fill (hmem (ld_mm ld1)) p (seg_memsz s) 0\<rparr>, ld_calls ld1)
          = (m, k)" by fastforce
      have "region_inv m" using ld_free_region [of "(ld_mm ld1)\<lparr>hmem := mem_fill (hmem (ld_mm ld1)) p (seg_memsz s) 0\<rparr>" env ?a "ld_calls ld1"] i
        by (simp add: f)
      then show ?thesis using Cons.prems(1) 1 True long f by (auto simp: Let_def)
    next
      case False
      let ?ex = "ex\<lparr>ex_address := ?a, ex_size := seg_memsz s\<rparr>"
      have "load_segments env segs (?ex, ld_write p (seg_data s) ld1) = Some (e, ex', ld')"
        using Cons.prems(1) 1 True False by (simp add: Let_def)
      then show ?thesis using Cons.IH i Cons.prems(3,4) by simp
    qed
  qed
qed simp

lemma Executable_Load_region:
  assumes ret: "Executable_Load fuel env elf (ex, ld) = Some (e, ex', ld')" and inv: "region_inv (ld_mm ld)"
    and env: "hosts_ok env" "images_fit env" "\<forall>p rom. host_file env p = Some rom \<longrightarrow> length rom \<le> 2 ^ 30"
    and elf: "\<forall>p f. elf p = Some f \<longrightarrow>
      (\<forall>s\<in>set (elf_segments f). unat (ucast (seg_vaddr s) :: VirtPtr) + unat (seg_memsz s) \<le> 2 ^ 32)"
  shows "region_inv (ld_mm ld')"
proof -
  obtain e1 ld1 where 1: "load_kernel env ld = Some (e1, ld1)"
    using ret by (auto simp: Executable_Load_def split: bind_splits)
  note i = load_kernel_region [OF 1 inv env(1,3)]
  show ?thesis
  proof (cases "e1 = ERROR_OK")
    case False
    then show ?thesis using ret 1 i by (simp add: Executable_Load_def)
  next
    case True
    show ?thesis
    proof (cases "elf (ex_path ex)")
      case (Some f)
      then have "load_elf env f (ex, ld1) = Some (e, ex', ld')" using ret 1 True by (simp add: Executable_Load_def)
      then show ?thesis using i load_segments_region [OF _ i env(1)] elf Some
        by (auto simp: load_elf_def split: if_splits bind_splits)
    next
      case None
      then have "load_pe fuel env (ex, ld1) = Some (e, ex', ld')" using ret 1 True by (simp add: Executable_Load_def)
      then show ?thesis using i
        by (auto simp: load_pe_def Let_def split: option.splits bind_splits dest!: LoadPEImage_region [OF _ env(1,2)])
    qed
  qed
qed

lemma Executor_Initialize_region:
  assumes ret: "Executor_Initialize fuel env elf opened hook_ok (Some ex) ld = Some (True, ex', ld')"
    and inv: "region_inv (ld_mm ld)"
    and env: "hosts_ok env" "images_fit env" "\<forall>p rom. host_file env p = Some rom \<longrightarrow> length rom \<le> 2 ^ 30"
    and elf: "\<forall>p f. elf p = Some f \<longrightarrow>
      (\<forall>s\<in>set (elf_segments f). unat (ucast (seg_vaddr s) :: VirtPtr) + unat (seg_memsz s) \<le> 2 ^ 32)"
  shows "region_inv (ld_mm ld')"
proof -
  from ret obtain ex1 l l1 l2 e3
    where 0: "Executable_Load fuel env elf (ex, ld) = Some (ERROR_OK, ex1, l)"
      and 1: "map_window env LCD_REGISTER LCD_REGISTER_SIZE l = (ERROR_OK, l1)"
      and 2: "map_window env 0x51000000 0x44 l1 = (ERROR_OK, l2)"
      and 3: "map_window env RTC_REGISTER 0x100 l2 = (e3, ld')"
    by (auto simp: Executor_Initialize_def InitInterrupts_def split: option.splits if_splits prod.splits bind_splits)
  have "region_inv (ld_mm l)" by (rule Executable_Load_region [OF 0 inv env elf])
  then have "region_inv (ld_mm l1)"
    by (rule map_window_region [OF 1 _ env(1)]) (simp add: LCD_REGISTER_def LCD_REGISTER_SIZE_def)
  then have "region_inv (ld_mm l2)" by (rule map_window_region [OF 2 _ env(1)]) simp
  then show ?thesis by (rule map_window_region [OF 3 _ env(1)]) (simp add: RTC_REGISTER_def)
qed

lemma main_start_region:
  assumes ret: "main_start env elf opened hook_ok ex ctx junk (emulator_new m w ts u now) = Some e"
    and inv: "region_inv m" and fit: "files_fit env elf"
  shows "region_inv (mm_of e)"
proof -
  let ?e0 = "emulator_new m w ts u now"
  obtain ex' ld where
    init: "Executor_Initialize (e_fuel env) (e_loader env (em_world ?e0)) elf opened hook_ok (Some ex) (loader_of ?e0)
      = Some (True, Some ex', ld)" and
    e: "e = put_mach (Execute_start (e_uc env) ctx junk (ex_entry ex') (em_mach (put_loader ld ?e0))) (put_loader ld ?e0)"
    using ret by (auto simp: main_start_def Let_def split: option.splits prod.splits bool.splits)
  have "region_inv (ld_mm ld)"
    using Executor_Initialize_region [OF init] inv fit by (auto simp: files_fit_def emulator_new_def mm_of_def)
  moreover define ms where "ms = em_mach (put_loader ld ?e0)"
  moreover have "mmem ms = ld_mm ld" by (simp add: ms_def put_loader_def put_mm_def)
  moreover have "keeps (mmem ms) (mmem (Execute_start (e_uc env) ctx junk (ex_entry ex') ms))"
    by (auto simp: Execute_start_def NewThread_def MEM_STACK_SIZE_def Let_def split: prod.splits dest!: DyanmicAlloc_keeps)
  ultimately show ?thesis by (simp add: e put_mach_def mm_of_def keepsD(3))
qed

section \<open>Every step\<close>

lemma LoadLibraryA_region:
  assumes "LoadLibraryA fuel fs env args ms = Some (r, ms')" "hosts_ok env" "images_fit env" "region_inv (ld_mm (snd ms))"
  shows "region_inv (ld_mm (snd ms'))"
  using assms
  by (cases ms; cases ms')
     (auto simp: LoadLibraryA_def Let_def split: bind_splits if_splits option.splits
       dest!: LoadPEImage_region [OF _ assms(2,3)])

lemma run_callback_region:
  assumes ret: "run_callback cb env ce args e = Some (Returned (r, e'))" and inv: "region_inv (mm_of e)"
    and ok: "search_ok (search_of e)" "dirs_ok (dirs_of env)" "files_fit env elf"
  shows "region_inv (mm_of e')"
proof (cases "cb = Cb_LoadLibraryA")
  case True
  have "zoom modules_of put_modules
      (partial (LoadLibraryA (e_fuel env) (fs_of (e_io env)) (e_loader env (em_world e)) args)) e = Some (Returned (r, e'))"
    using ret unfolding True run_callback.simps .
  from modules_view.zoom_step [OF this]
  have L: "LoadLibraryA (e_fuel env) (fs_of (e_io env)) (e_loader env (em_world e)) args (modules_of e)
      = Some (r, modules_of e')" by (simp only: map_option_eq_Some) blast
  show ?thesis
    using LoadLibraryA_region [OF L] ok(3) inv by (auto simp only: modules_mm files_fit_def)
next
  case False
  from keepsD(3) [OF run_callback_keeps [OF ret this ok(1,2)]] inv show ?thesis by simp
qed

lemma region_put_mach [simp]: "mm_of (put_mach ms e) = mmem ms"
  by (simp add: mm_of_def put_mach_def)

lemma interrupt_hook_region:
  assumes ret: "interrupt_hook env ce e = Some (Returned e')" and inv: "region_inv (mm_of e)"
    and ok: "search_ok (search_of e)" "dirs_ok (dirs_of env)" "files_fit env elf"
  shows "region_inv (mm_of e')"
proof -
  have E: "mm_of (SystemAPI_GetInstance e) = mm_of e" "search_ok (search_of (SystemAPI_GetInstance e))"
    using ok(1) by (simp_all add: mm_of_def search_ok_def search_of_def)
  from ret show ?thesis
  proof (cases rule: interrupt_hook_cases)
    case (1 e1 u)
    then show ?thesis using inv E(1) by (simp add: mm_put_cpu)
  next
    case (2 cb args r e1 u)
    have "region_inv (mm_of e1)" by (rule run_callback_region [OF 2(2) _ E(2) ok(2,3)]) (simp add: inv E(1))
    then show ?thesis by (simp add: 2(1) mm_put_cpu)
  qed
qed

lemma emu_step_region:
  assumes step: "emu_step env e e'" and inv: "region_inv (mm_of e)" "emu_inv e"
    and ok: "dirs_ok (dirs_of env)" "files_fit env elf"
  shows "region_inv (mm_of e')"
proof -
  have s: "search_ok (search_of e)" using inv(2) by (simp add: emu_inv_def)
  show ?thesis
    using step
  proof cases
    case (call h ce u e1)
    let ?e = "put_mach ((em_mach e)\<lparr>mcpu := u, mmem := (mm_of e)\<lparr>hmem := h\<rparr>\<rparr>) e"
    have "search_ok (search_of ?e)" using s by (simp add: search_ok_def search_of_def put_mach_def)
    moreover have "region_inv (mm_of ?e)" using inv(1) by simp
    ultimately have "region_inv (mm_of e1)" using interrupt_hook_region [OF call(6) _ _ ok] by blast
    then show ?thesis unfolding call(1) by (simp add: mm_of_def)
  qed (use inv(1) in \<open>simp_all add: mm_of_def put_mach_def\<close>)
qed

lemma emu_reachable_region:
  assumes "emu_reachable env e0 e" "emu_inv e0" "region_inv (mm_of e0)" "dirs_ok (dirs_of env)" "files_fit env elf"
  shows "region_inv (mm_of e)"
  using assms
proof induction
  case (stepped e e')
  then show ?case using emu_step_region [OF stepped.hyps(2)] emu_reachable_inv [OF stepped.hyps(1)] by blast
qed simp

section \<open>The mappings of a running emulator\<close>

lemma heap_allocated: "region_inv m \<Longrightarrow> in_heap (unat v) \<Longrightarrow> isVAddrAllocated m v"
  using heap_translate_nz GetRealAddr_null_iff by blast

text \<open>
  C2. Memory safety of the mappings, over every run.  In every state a run reaches from a start that
  succeeds, with libraries loaded and failing to load on the way: two mappings never share a guest address
  nor a host byte; a guest address translates to a host address exactly when it is mapped, and the host
  address translates back to it; and every byte of every live heap block is mapped.  The hypotheses are that
  \<open>calloc\<close> and the engine behave as documented, that the images fit below 4 GB, and that file names in
  listings are shorter than 256 characters.
\<close>

theorem mappings_always_disjoint:
  assumes "MemoryManager_new h mem = Returned m" "host_ok h (m\<lparr>blocks := []\<rparr>)"
    and "main_start env elf opened hook_ok ex ctx junk (emulator_new m w ts u now) = Some e0"
    and "emu_reachable env e0 e" "dirs_ok (dirs_of env)" "files_fit env elf"
  shows "(\<forall>b\<in>set (blocks (mm_of e)). \<forall>d\<in>set (blocks (mm_of e)). b \<noteq> d \<longrightarrow>
      (unat (virtualAddress b) + unat (csize b) \<le> unat (virtualAddress d)
        \<or> unat (virtualAddress d) + unat (csize d) \<le> unat (virtualAddress b))
      \<and> (unat (realAddress b) + unat (csize b) \<le> unat (realAddress d)
        \<or> unat (realAddress d) + unat (csize d) \<le> unat (realAddress b)))
    \<and> (\<forall>v. GetRealAddr (mm_of e) v \<noteq> 0 \<longleftrightarrow> isVAddrAllocated (mm_of e) v)
    \<and> (\<forall>v. isVAddrAllocated (mm_of e) v \<longrightarrow> GetVirtualAddr (mm_of e) (GetRealAddr (mm_of e) v) = v)
    \<and> (\<forall>(a, n)\<in>set (heapAlloc (mm_of e)). \<forall>i<unat n. isVAddrAllocated (mm_of e) (a + of_nat i))"
proof -
  have inv0: "emu_inv e0" by (rule main_start_inv(1) [OF assms(3) MemoryManager_new_tables [OF assms(1)]])
  have "region_inv (mm_of e0)"
    by (rule main_start_region [OF assms(3) hinvD(1) [OF MemoryManager_new_hinv [OF assms(1,2)]] assms(6)])
  then have R: "region_inv (mm_of e)" by (rule emu_reachable_region [OF assms(4) inv0 _ assms(5,6)])
  have L: "layout (heapFree (mm_of e)) (heapAlloc (mm_of e))"
    using emu_reachable_inv [OF assms(4) inv0 assms(5)] by (simp add: emu_inv_def heap_tables_def)
  have "sorted_wrt apart (blocks (mm_of e))" "sorted_wrt apart_r (blocks (mm_of e))" using R by (auto simp: region_inv_def)
  then have "apart b d \<or> apart d b" "apart_r b d \<or> apart_r d b"
    if "b \<in> set (blocks (mm_of e))" "d \<in> set (blocks (mm_of e))" "b \<noteq> d" for b d
    by (auto dest: sorted_wrt_pair [OF _ that])
  moreover have "isVAddrAllocated (mm_of e) (a + of_nat i)" if "(a, n) \<in> set (heapAlloc (mm_of e))" "i < unat n" for a n i
  proof -
    note H = alloc_in_heap [OF L that(1)]
    have "unat (a + of_nat i) = unat a + i"
      using H that(2) by (subst unat_add_small) (simp_all add: unat_of_nat)
    then show ?thesis using H that(2) by (intro heap_allocated [OF R]) (simp add: in_heap_def)
  qed
  ultimately show ?thesis
    using GetRealAddr_null_iff [OF R] translate_roundtrip [OF R] by (auto simp: apart_def apart_r_def)
qed

section \<open>A start with a host that behaves\<close>

definition demo_sane :: "(u32 list \<times> bool, u32 list \<times> bool, byte list) emu_env" where
  "demo_sane = demo_env\<lparr>e_loader := (\<lambda>w. \<lparr>hosts = (\<lambda>k m. fresh_host m), host_file = (\<lambda>p. Some [0])\<rparr>)\<rparr>"

lemma demo_sane_ok: "files_fit demo_sane (\<lambda>p. Some demo_elf)" "dirs_ok (dirs_of demo_sane)"
proof -
  have "check_headers [0] = Some (Inl ERROR_LOADER_READER_FAIL)" by (simp add: check_headers_def)
  then show "files_fit demo_sane (\<lambda>p. Some demo_elf)"
    by (auto simp: files_fit_def demo_sane_def demo_elf_def hosts_ok_def images_fit_def image_fits_def fresh_host_ok)
  show "dirs_ok (dirs_of demo_sane)" using demo_dirs_ok by (simp add: demo_sane_def dirs_of_def dirs_ok_def)
qed

text \<open>The fresh host maps whatever lies above all mappings.\<close>

definition mapped_below :: "MemoryManager \<Rightarrow> nat \<Rightarrow> nat \<Rightarrow> bool" where
  "mapped_below m t r \<longleftrightarrow> memory_top m \<le> r \<and> (\<forall>d\<in>set (blocks m). unat (virtualAddress d) + unat (csize d) \<le> t)"

lemma fresh_alloc:
  assumes below: "mapped_below m (unat a) r" and n: "n \<noteq> 0" and al: "unat a mod 4096 = 0"
    and z: "z = sz (vp ((n + sz PAGE_SIZE - 1) div sz PAGE_SIZE) * PAGE_SIZE)" "z \<noteq> 0" "r + unat z < 2 ^ 64"
  obtains b m' where "StaticAlloc (fresh_host m) m a n None = (ERROR_OK, Some b, m')"
    "mapped_below m' (unat a + unat z) (r + unat z)"
proof -
  let ?k = "vp ((n + sz PAGE_SIZE - 1) div sz PAGE_SIZE)" and ?t = "of_nat (memory_top m) :: 64 word"
  have z': "unat (?k * PAGE_SIZE) = unat z" using z(1) by simp
  have B: "unat (virtualAddress d) + unat (csize d) \<le> unat a" if "d \<in> set (blocks m)" for d
    using below that by (simp add: mapped_below_def)
  have "\<not> RangeOverlaps a n (virtualAddress d) (csize d)" if "d \<in> set (blocks m)" for d
  proof -
    have "unat (sz (virtualAddress d) + csize d) = unat (virtualAddress d) + unat (csize d)"
      using B [OF that] unat32_lt [of a] by (subst unat_add64) simp_all
    then have "sz (virtualAddress d) + csize d \<le> sz a" using B [OF that] by (simp add: word_le_nat_alt)
    then show ?thesis by (simp add: RangeOverlaps_def Let_def)
  qed
  then have no: "\<not> OverlapsAnyMappedBlock m a n" by (auto simp: OverlapsAnyMappedBlock_def list_ex_iff)
  have ge: "0x100000000 \<le> memory_top m"
  proof -
    have "t \<le> foldr (\<lambda>b t. max t (unat (realAddress b) + unat (csize b))) bs t" for bs and t :: nat
      by (induction bs) (auto intro: max.coboundedI1)
    then show ?thesis by (simp add: memory_top_def)
  qed
  have top: "unat ?t = memory_top m" using below z(3) by (simp add: mapped_below_def unat_of_nat)
  then have nz: "?t \<noteq> 0" using ge by auto
  have c: "calloc_r (fresh_host m) ?k = ?t" using below z(3) z' by (simp add: fresh_host_def mapped_below_def)
  have u: "uc_map (fresh_host m) a z ?t" using z(2) al B by (auto simp: fresh_host_def list_all_iff)
  let ?b = "mapped_block a ?t ?k"
  let ?m = "m\<lparr>blocks := ?b # blocks m, hmem := mem_fill (hmem m) ?t z 0\<rparr>"
  have "StaticAlloc (fresh_host m) m a n None = (ERROR_OK, Some ?b, ?m)"
    using n no nz u by (simp add: StaticAlloc_def Let_def mapped_block_eq c z(1))
  moreover have "mapped_below ?m (unat a + unat z) (r + unat z)"
    using below B z' top by (auto simp: mapped_below_def memory_top_def z(1) intro: trans_le_add1)
  ultimately show thesis by (rule that)
qed

lemma mapped_below_upd [simp]: "mapped_below (m\<lparr>hmem := h\<rparr>) t r = mapped_below m t r"
  by (simp add: mapped_below_def memory_top_def)

lemma mapped_below_mono: "mapped_below m t r \<Longrightarrow> t \<le> t' \<Longrightarrow> mapped_below m t' r"
  by (auto simp: mapped_below_def)

lemma fresh_window:
  assumes "mapped_below (ld_mm ld) t r" "t \<le> unat a" "n \<noteq> 0" "unat a mod 4096 = 0"
    and "z = sz (vp ((n + sz PAGE_SIZE - 1) div sz PAGE_SIZE) * PAGE_SIZE)" "z \<noteq> 0" "r + unat z < 2 ^ 64"
    and "hosts env = (\<lambda>k m. fresh_host m)"
  obtains b ld' where "exec_alloc env a n ld = Some (ERROR_OK, b, ld')" "map_window env a n ld = (ERROR_OK, ld')"
    "mapped_below (ld_mm ld') (unat a + unat z) (r + unat z)"
proof -
  obtain b m' where "StaticAlloc (fresh_host (ld_mm ld)) (ld_mm ld) a n None = (ERROR_OK, Some b, m')"
    "mapped_below m' (unat a + unat z) (r + unat z)"
    by (rule fresh_alloc [OF mapped_below_mono [OF assms(1,2)] assms(3-7)])
  then show thesis
    using that [of "realAddress b" "ld\<lparr>ld_mm := m', ld_calls := Suc (ld_calls ld)\<rparr>"]
    by (simp add: exec_alloc_def map_window_def assms(8))
qed

lemma demo_sane_boots:
  "\<exists>e. main_start demo_sane (\<lambda>p. Some demo_elf) True (\<lambda>k. True) demo_exec ([], False) 0 demo_emulator = Some e"
proof -
  define env where "env = e_loader demo_sane (em_world demo_emulator)"
  have env: "hosts env = (\<lambda>k m. fresh_host m)" "ReadFileToVector env p = Some [0]" for p
    by (simp_all add: env_def demo_sane_def ReadFileToVector_def)
  note V = PAGE_SIZE_def sz_def vp_def
  let ?ld = "loader_of demo_emulator"
  have 0: "mapped_below (ld_mm ?ld) 0x30000000 0x110000000"
    by (simp add: demo_emulator_def emulator_new_def mm_of_def mapped_below_def memory_top_def demo_mapped
        MEM_DYNAMIC_HEAP_BASE_def V)
  obtain b1 l1 where 1: "exec_alloc env 0x30000000 1 ?ld = Some (ERROR_OK, b1, l1)"
    "mapped_below (ld_mm l1) (0x30000000 + 0x1000) (0x110000000 + 0x1000)"
    by (rule fresh_window [OF 0 _ _ _ refl _ _ env(1), of "0x30000000" 1]) (simp_all add: V)
  define lw where "lw = ld_write b1 [0] l1"
  have "mapped_below (ld_mm lw) (0x30000000 + 0x1000) (0x110000000 + 0x1000)" using 1(2) by (simp add: lw_def)
  then obtain l2 where 2: "map_window env LCD_REGISTER LCD_REGISTER_SIZE lw = (ERROR_OK, l2)"
    "mapped_below (ld_mm l2) (0x4C800000 + 0x1800000) (0x110000000 + 0x1000 + 0x1800000)"
    by (rule fresh_window [OF _ _ _ _ refl _ _ env(1), of _ _ _ LCD_REGISTER LCD_REGISTER_SIZE])
      (simp_all add: V LCD_REGISTER_def LCD_REGISTER_SIZE_def)
  obtain l3 where 3: "map_window env 0x51000000 0x44 l2 = (ERROR_OK, l3)"
    by (rule fresh_window [OF 2(2) _ _ _ refl _ _ env(1), of "0x51000000" "0x44"]) (simp_all add: V)
  obtain e4 l4 where 4: "map_window env RTC_REGISTER 0x100 l3 = (e4, l4)" by (cases "map_window env RTC_REGISTER 0x100 l3")
  have k: "load_kernel env ?ld = Some (ERROR_OK, lw)" using 1(1) by (simp add: load_kernel_def env(2) lw_def)
  let ?ex = "demo_exec\<lparr>ex_entry := ucast (elf_entry demo_elf), ex_state := EXEC_LOADED\<rparr>"
  have "Executable_Load f env (\<lambda>p. Some demo_elf) (demo_exec, ?ld) = Some (ERROR_OK, ?ex, lw)" for f
    by (simp add: Executable_Load_def k load_elf_def demo_elf_def)
  then have "Executor_Initialize f env (\<lambda>p. Some demo_elf) True (\<lambda>k. True) (Some demo_exec) ?ld = Some (True, Some ?ex, l4)" for f
    using 2(1) 3 4 by (simp add: Executor_Initialize_def InitInterrupts_def Let_def)
  then show ?thesis by (simp add: main_start_def env_def Let_def)
qed

text \<open>The started emulator with one message delivered.\<close>

theorem mappings_always_disjoint_witness:
  "\<exists>e0 e. main_start demo_sane (\<lambda>p. Some demo_elf) True (\<lambda>k. True) demo_exec ([], False) 0 demo_emulator = Some e0
     \<and> emu_reachable demo_sane e0 e
     \<and> (\<forall>v. isVAddrAllocated (mm_of e) v \<longrightarrow> GetVirtualAddr (mm_of e) (GetRealAddr (mm_of e) v) = v)"
proof -
  obtain e0 where b: "main_start demo_sane (\<lambda>p. Some demo_elf) True (\<lambda>k. True) demo_exec ([], False) 0
      demo_emulator = Some e0" using demo_sane_boots by blast
  have r: "emu_reachable demo_sane e0 (e0\<lparr>em_ui := snd (WndProc (WM_KEYDOWN 0x31) (em_ui e0))\<rparr>)"
    by (rule emu_reachable.stepped [OF emu_reachable.booted emu_step.message])
  from mappings_always_disjoint [OF demo_mm_new demo_host_ok b [unfolded demo_emulator_def] r demo_sane_ok(2,1)] b r
  show ?thesis by blast
qed

end
