(* ===== verification/Spec2Isabelle.thy ===== *)
theory Spec2Isabelle
  imports ThreadProps DbgMsg VFileProps SearchProps SysCalls SectionProps ExportProps ProfileProps UiProps Shutdown Window Diagnostics
    DisplayProps EmulatorMap
begin

text \<open>
  PrimU2 runs the firmware of a calculator on a PC.  The guest's ARM code is executed by the Unicorn
  engine; everything the firmware asks of its operating system (memory, threads, files, events, the
  display) is a system call that the emulator implements on the host.  This development models the
  emulator, all of PrimU/*.cpp and PrimU/*.h that changes state, and proves what makes its parts and
  their composition correct.

  How the parts work together.  \<open>main\<close> (PrimU.cpp) initialises the executor: the memory manager maps
  the heap, the loader maps the ROM and the executable, three register windows are mapped and the
  hooks installed.  \<open>Execute\<close> (executor.cpp) creates the first thread and runs the engine for ever: before
  every block \<open>code_hook\<close> decides whether the current thread may go on, \<open>interrupt_hook\<close> takes a system
  call, the dispatcher (SystemAPI.cpp) finds its handler by number, the handler (system.cpp, dbgout.cpp,
  LCD.cpp) reads its arguments from registers and the guest stack and works on the component it
  belongs to, and when the engine stops \<open>SwitchThread\<close> (ThreadHandler.cpp) moves to the next thread.
  The window procedure (LCD.cpp) queues keys and touches, which the guest polls with \<open>GetEvent\<close>.

  Conventions.  The build is x64 Windows: \<open>size_t\<close> and host pointers are 64-bit words, guest addresses
  (\<open>VirtPtr\<close>) 32-bit words; all arithmetic is the wrapping arithmetic of words.  Host memory is a function
  from addresses to bytes; guest addresses are translated to it by the mapped blocks, as in the code.
  Error codes are values; \<open>Aborted\<close> (type \<open>proc\<close>) is the end of the process, by \<open>abort()\<close> or an access
  through null; \<open>None\<close> of an \<open>option\<close> is undefined behaviour, an exception nobody catches or a loop
  that does not end, as each theory says; \<open>__debugbreak()\<close> is counted in \<open>breaks\<close>.  Readings of the clock
  and values the code leaves uninitialised (\<open>junk\<close>) are arguments.

  Theories, the code they model and what their lemmas show.

  Prelude, AssocMap, StructFields: machine types, bytes and words, alignment, the type \<open>proc\<close>;
  \<open>std::map\<close> and \<open>std::unordered_map\<close> as association lists with one contract (locale
  \<open>assoc_container\<close>, interpreted for both); fields of structures in memory.

  MemBlocks, MemMgr (MemoryChunk, MemoryBlock, MemoryManager): blocks with chunks, the mapped blocks,
  \<open>StaticAlloc\<close>, \<open>StaticFree\<close>, the translations in both directions.  Mappings never overlap; translation
  is a bijection on mapped memory.

  VirtualHeap, HeapLayout, HeapOps, HeapInv, HeapSafety, HeapRealloc, HeapServices, HeapProps
  (MemoryManager.cpp 262 to the end, the allocation calls of system.cpp): the first-fit heap with
  guard words and coalescing.  \<open>HeapLayout\<close> is the abstract view, every address of the region covered
  exactly once; \<open>hinv\<close> is the invariant; each operation is specified on every branch, any run of
  the calls is safe, releasing restores the tables exactly.  Locale \<open>block_provider\<close> is what the threads
  and the display need of the heap, interpreted by it.

  HeapTables: what survives when the guest writes anything anywhere: the tables of the heap stay a
  partition of the region (relation \<open>keeps\<close>, shown for every service that allocates).

  Threads, ThreadInv (Thread.cpp, ThreadHandler.h): critical sections with FIFO hand-over, events with
  manual and automatic reset, sleeping, suspension, time quanta; the invariant of the waiting lists.
  Scheduler, SchedInv, ThreadProps (ThreadHandler.cpp, \<open>code_hook\<close> and \<open>Execute\<close> of executor.cpp, the
  thread calls of system.cpp): the ring of threads, register save and restore, the step relation
  \<open>sched_step\<close>; the ring in every reachable state (\<open>turn_inv\<close>), fairness of the ring, stacks that do not
  overlap.  Sections and events live in tables of unique pointers: initialising a key again destroys the
  section it had, and a new object may get the address of a destroyed one.  The invariant of
  sections and events (\<open>sched_inv\<close>) is therefore proved for the runs along which no thread is left with a pointer to
  a destroyed object (\<open>objects_alive\<close>, relation \<open>runs\<close> of the prelude); \<open>reinit_breaks_exclusion\<close> shows that
  without this condition two threads can own one section.

  Printf, PrintfProps, DbgMsg (vprintf.cpp, dbgout.cpp): the format interpreter and the debug message
  call; digits denote the number, widths are exact, arguments are read from the right places.  Widths in the
  format are read in 32 bits and wrap around as in the code.

  Paths, PathProps (system.cpp): drives, working directories, normalisation as in
  \<open>std::filesystem\<close>; names without \<open>..\<close> never leave \<open>prime_data\<close>.  VFiles, VFileProps: the handle
  table and the calls on files.  FindFiles: wildcard matching (equal to its textbook
  definition), short names, search contexts.  LiveBlocks, SearchProps: the contents of live heap blocks under
  allocation, release and stores; a search reports exactly the matching entries in order, and closing
  it restores the heap.  Profile, ProfileProps: the settings files; the editor
  refines a map from section and key to value.

  PELoader, LoaderProps, SectionProps, ExportProps (PELoader.cpp): headers, section placement,
  relocation, exports, imports with recursive loading and stubs.  The sections of a placed image read byte
  for byte as the file, its export maps are the tables of its directory, import slots hold the addresses
  found there, and relocation adds one difference to the words its table names and changes nothing else.
  LoadKeeps: locale \<open>load_keeps\<close> carries a relation that \<open>StaticAlloc\<close>, \<open>StaticFree\<close> and stores keep through
  every branch of a load, however modules import each other; it is interpreted for the tables of the heap
  (HeapTables), for disjoint mappings (LoaderInv) and for the store of images.  A module is mapped once.  Startup (executable.cpp, \<open>Initialize\<close> of executor.cpp): ROM, ELF and PE
  executables, register windows, hooks.

  UiEvents, UiProps (ui.h, the window procedure of LCD.cpp, \<open>GetEvent\<close>): messages to events, the queue,
  polls; nothing is lost, invented or reordered between polls, and every key event has a code that the
  enumeration of ui.h names (KeyCodes).  Display, DisplayProps (LCD.h, LCD.cpp):
  the display object in guest memory and the conversion of a frame.  Window (LCD.cpp): the window
  threads, the map they share with the constructor and destructor of the display, and \<open>GetInstance\<close> as a
  step relation; which thread uses the display first decides whether its window ever works.  MiscServices: devices, clock,
  identification, modules, interrupts and the calls that return a constant.

  SysTable, SysCalls (interrupts.h, SystemAPI.cpp): the 742 numbers and registrations entry by entry and
  the dispatcher, which refines the header's numbering.

  Diagnostics (executor.cpp, system.cpp): the text printed on a page fault, with the stack trace, the
  registers, the disassembly and the hex dump, as functions of what is read of the engine; the trace has one
  line for each call of a well-formed chain of frames, two bytes off for a four-byte Thumb call.  Shutdown: the destructors and \<open>Cleanup\<close>; the display gives
  back exactly the heap it took, the memory manager unmaps and frees every block once, and the
  destructors of the singletons, which delete themselves, are shown not to return.

  Emulator, EmulatorInv, EmulatorProps, EmulatorMap: the composition.  The record \<open>emulator\<close> holds the state of all
  components; locale \<open>view\<close> (get and put laws) says how a component's part is read and replaced, with
  an interpretation for each of the twelve parts; \<open>run_callback\<close> has one clause for every handler the
  table registers; \<open>interrupt_hook\<close>, \<open>main_start\<close> and the step relation \<open>emu_step\<close> follow executor.cpp and
  PrimU.cpp.  The invariant \<open>emu_inv\<close> of memory, searches and events holds from a successful start through every
  interleaving of hooks, guest code, system calls, window messages and engine errors; locale
  \<open>mach_invariant\<close> carries an invariant of the scheduler through the same steps, and is interpreted for
  \<open>turn_inv\<close> (all runs) and \<open>sched_inv\<close> (runs with \<open>objects_alive\<close>).  EmulatorMap adds the mappings: with
  files that fit below 4 GB the translation between guest and host addresses is a bijection on
  mapped memory in every reachable state.

  Bounds and fuel.  \<open>MapPEIntoMemory\<close> calls the loader for the imports of an image and walks lists that
  end with a zero word, so the loading functions take fuel, which bounds the nesting of images and the
  length of the descriptor and thunk lists of each; \<open>None\<close> means that the fuel ran out and that no
  result is claimed.  \<open>load_fuel_irrelevant\<close> shows that more fuel never changes a result, so every
  amount that suffices gives the same one, and \<open>imports_bound\<close> that one unit more than the length of a
  thunk list is enough for it.  The walks along pointers
  that may not end (\<open>ring_find\<close>, \<open>reloc_blocks\<close>) are \<open>partial_function\<close>s; that \<open>ring_find\<close> ends in every
  reachable state and \<open>reloc_blocks\<close> on every well-formed table is proved.  All other recursion is
  structural or has a measure.

  Parameters.  What is not in the repository is an argument: the engine (\<open>unicorn\<close> and the first
  fields of \<open>emu_env\<close>), \<open>calloc\<close> and \<open>uc_mem_map_ptr\<close> (\<open>host\<close>), the host's file system, streams and directory
  listings (\<open>host_fs\<close>, \<open>stdio\<close>, \<open>fstreams\<close>, \<open>dirs\<close>), the file contents the loader reads
  (\<open>loader_env\<close>) and the ELF reader.  Guest code between two hooks is an arbitrary change of the
  registers and of the bytes that are mapped.

  Not modelled: progress messages, which change no state; the Windows calls that create and show the window
  (theory Window says in which order the code makes them); the floating-point part of vprintf.cpp, which is
  not compiled; the headers and libraries of Unicorn, Capstone and ELFIO under include.  In the
  composition a first use of the display is one step, as it is when the window is created and nothing is
  painted before the constructor returns; what happens otherwise is shown in Window.  Data races between
  the window thread and the emulation thread on the display buffer and the heap are not modelled: the
  event queue is locked by a mutex in the code and each of its operations is one step here.  The emulator's
  own objects are not bytes of the modelled host memory: a handler that writes through an unchecked host
  pointer past the end of a mapped block (\<open>fread\<close> and \<open>ReadFile\<close> with too large a count, \<open>dbgMsg\<close> with a stack
  pointer at the start of its block) changes other bytes of \<open>hmem\<close> here, and may corrupt the emulator in
  reality.  Nor is what a dangling pointer reads: the stores keep the last content of a destroyed section or
  event, and no claim on sections or events covers such a state.
\<close>

end
